(* ===== verification/Py_Prelude.thy ===== *)
theory Py_Prelude
  imports Main "HOL-Library.Char_ord" "HOL-Library.List_Lexorder" "HOL-Library.Product_Lexorder"
    "HOL-Library.Multiset"
begin

text \<open>
  Values, errors and control flow shared by all components.

  The program is Python: its data are JSON documents (dicts, lists, strings, integers,
  booleans, null), its failures are exceptions, and its conditions evaluate left to right and
  may raise half way. This theory gives those four things once:
  \<^item> \<open>exn\<close>, the exceptions the modelled code raises or lets through, and \<open>'a res\<close>, a computation
    that returns or raises;
  \<^item> sequencing (\<open>bindR\<close>), short-circuit conditions (\<open>andR\<close>, \<open>orR\<close>, \<open>anyR\<close>, \<open>allR\<close>) and
    loops (\<open>mapR\<close>, \<open>foldR\<close>);
  \<^item> \<open>json\<close> with Python's \<open>==\<close> (\<open>py_eq\<close>: booleans are integers, dicts ignore order),
    \<open>dict.get\<close>, subscription, membership and \<open>str\<close>;
  \<^item> \<open>int\<close>/\<open>str\<close> of decimal numbers, and the character classes the regular expressions use.

  Strings are sequences of code points below 256. Floating-point numbers are outside the value
  domain: no modelled component computes with them.
\<close>

section \<open>Collections of facts\<close>

named_theorems res_simps \<open>evaluation of the exception monad\<close>
named_theorems res_elims \<open>inversion of successful computations\<close>

section \<open>Exceptions and computations that may raise\<close>

datatype exn =
    ValueError string
  | CanonicalError string
  | ContractNotImplementedError string
  | AssertionError
  | KeyError string
  | TypeError
  | AttributeError
  | IndexError
  | OverflowError
  | SchemaViolation
  | IntegrityError string
  | DatabaseError string
  | OSError
  | InvalidSignature

type_synonym 'a res = "exn + 'a"

text \<open>\<open>CanonicalError\<close> is declared as a subclass of \<open>ValueError\<close>, so both are caught by
  \<open>except ValueError\<close>.\<close>

fun value_error_text :: "exn \<Rightarrow> string option" where
  "value_error_text (ValueError s) = Some s"
| "value_error_text (CanonicalError s) = Some s"
| "value_error_text _ = None"

definition bindR :: "'a res \<Rightarrow> ('a \<Rightarrow> 'b res) \<Rightarrow> 'b res" where
  "bindR m f = (case m of Inl e \<Rightarrow> Inl e | Inr x \<Rightarrow> f x)"

definition raise_if :: "bool \<Rightarrow> exn \<Rightarrow> unit res" where
  "raise_if b e = (if b then Inl e else Inr ())"

definition assertR :: "bool \<Rightarrow> unit res" where
  "assertR b = (if b then Inr () else Inl AssertionError)"

definition andR :: "bool res \<Rightarrow> bool res \<Rightarrow> bool res" where
  "andR a b = bindR a (\<lambda>x. if x then b else Inr False)"

definition orR :: "bool res \<Rightarrow> bool res \<Rightarrow> bool res" where
  "orR a b = bindR a (\<lambda>x. if x then Inr True else b)"

definition notR :: "bool res \<Rightarrow> bool res" where
  "notR a = bindR a (\<lambda>x. Inr (\<not> x))"

definition ifR :: "bool res \<Rightarrow> 'a res \<Rightarrow> 'a res \<Rightarrow> 'a res" where
  "ifR c a b = bindR c (\<lambda>x. if x then a else b)"

fun anyR :: "('a \<Rightarrow> bool res) \<Rightarrow> 'a list \<Rightarrow> bool res" where
  "anyR p [] = Inr False"
| "anyR p (x # xs) = orR (p x) (anyR p xs)"

fun allR :: "('a \<Rightarrow> bool res) \<Rightarrow> 'a list \<Rightarrow> bool res" where
  "allR p [] = Inr True"
| "allR p (x # xs) = andR (p x) (allR p xs)"

fun mapR :: "('a \<Rightarrow> 'b res) \<Rightarrow> 'a list \<Rightarrow> 'b list res" where
  "mapR f [] = Inr []"
| "mapR f (x # xs) = bindR (f x) (\<lambda>y. bindR (mapR f xs) (\<lambda>ys. Inr (y # ys)))"

fun foldR :: "('s \<Rightarrow> 'a \<Rightarrow> 's res) \<Rightarrow> 's \<Rightarrow> 'a list \<Rightarrow> 's res" where
  "foldR f s [] = Inr s"
| "foldR f s (x # xs) = bindR (f s x) (\<lambda>s'. foldR f s' xs)"

lemma bindR_simps [simp, res_simps]:
  "bindR (Inl e) f = Inl e"
  "bindR (Inr x) f = f x"
  by (simp_all add: bindR_def)

lemma bindR_eq_Inr [simp, res_elims]:
  "bindR m f = Inr y \<longleftrightarrow> (\<exists>x. m = Inr x \<and> f x = Inr y)"
  by (cases m) auto

lemma bindR_eq_Inl [res_elims]:
  "bindR m f = Inl e \<longleftrightarrow> m = Inl e \<or> (\<exists>x. m = Inr x \<and> f x = Inl e)"
  by (cases m) auto

lemma bindR_assoc: "bindR (bindR m f) g = bindR m (\<lambda>x. bindR (f x) g)"
  by (cases m) auto

lemma bindR_cong [fundef_cong]:
  "m = m' \<Longrightarrow> (\<And>x. m' = Inr x \<Longrightarrow> f x = f' x) \<Longrightarrow> bindR m f = bindR m' f'"
  by (cases m') auto

lemma raise_if_simps [simp, res_simps]:
  "raise_if True e = Inl e" "raise_if False e = Inr ()"
  by (simp_all add: raise_if_def)

lemma raise_if_Inr [simp, res_elims]: "raise_if b e = Inr u \<longleftrightarrow> \<not> b"
  by (simp add: raise_if_def)

lemma raise_if_Inl [simp, res_elims]: "raise_if b e = Inl e' \<longleftrightarrow> b \<and> e' = e"
  by (auto simp: raise_if_def)

lemma assertR_simps [simp, res_simps]:
  "assertR True = Inr ()" "assertR False = Inl AssertionError"
  by (simp_all add: assertR_def)

lemma assertR_Inr [simp, res_elims]: "assertR b = Inr u \<longleftrightarrow> b"
  by (simp add: assertR_def)

lemma cond_simps [simp, res_simps]:
  "andR (Inr True) b = b" "andR (Inr False) b = Inr False" "andR (Inl e) b = Inl e"
  "orR (Inr True) b = Inr True" "orR (Inr False) b = b" "orR (Inl e) b = Inl e"
  "notR (Inr x) = Inr (\<not> x)" "notR (Inl e) = Inl e"
  "ifR (Inr True) s t = s" "ifR (Inr False) s t = t" "ifR (Inl e) s t = Inl e"
  by (simp_all add: andR_def orR_def notR_def ifR_def)

lemma ifR_eq_Inr [res_elims]:
  "ifR c a b = Inr y \<longleftrightarrow> (c = Inr True \<and> a = Inr y) \<or> (c = Inr False \<and> b = Inr y)"
proof (cases c)
  case (Inr x)
  then show ?thesis by (cases x) (auto simp: ifR_def)
qed (auto simp: ifR_def)

lemma orR_eq_False [simp, res_elims]: "orR a b = Inr False \<longleftrightarrow> a = Inr False \<and> b = Inr False"
  by (cases a) (auto simp: orR_def)

lemma andR_eq_True [simp, res_elims]: "andR a b = Inr True \<longleftrightarrow> a = Inr True \<and> b = Inr True"
  by (cases a) (auto simp: andR_def)

lemma notR_eq [simp, res_elims]: "notR a = Inr x \<longleftrightarrow> a = Inr (\<not> x)"
  by (cases a) (auto simp: notR_def)

lemma anyR_pure [simp]: "anyR (\<lambda>x. Inr (p x)) xs = Inr (\<exists>x \<in> set xs. p x)"
  by (induction xs) (auto simp: orR_def)

lemma allR_pure [simp]: "allR (\<lambda>x. Inr (p x)) xs = Inr (\<forall>x \<in> set xs. p x)"
  by (induction xs) (auto simp: andR_def)

lemma anyR_eq_False: "anyR p xs = Inr False \<longleftrightarrow> (\<forall>x \<in> set xs. p x = Inr False)"
  by (induction xs) auto

lemma allR_eq_True: "allR p xs = Inr True \<longleftrightarrow> (\<forall>x \<in> set xs. p x = Inr True)"
  by (induction xs) auto

lemma mapR_pure [simp]: "mapR (\<lambda>x. Inr (f x)) xs = Inr (map f xs)"
  by (induction xs) auto

lemma mapR_length: "mapR f xs = Inr ys \<Longrightarrow> length ys = length xs"
  by (induction xs arbitrary: ys) auto

lemma foldR_append:
  "foldR f s (xs @ ys) = bindR (foldR f s xs) (\<lambda>t. foldR f t ys)"
  by (induction xs arbitrary: s) (auto simp: bindR_assoc)

text \<open>An invariant of every step is an invariant of the loop.\<close>

lemma foldR_invariant:
  assumes "foldR f s xs = Inr t" and "I s"
    and "\<And>u x v. x \<in> set xs \<Longrightarrow> I u \<Longrightarrow> f u x = Inr v \<Longrightarrow> I v"
  shows "I t"
  using assms
proof (induction xs arbitrary: s)
  case (Cons x xs)
  then obtain u where "f s x = Inr u" and "foldR f u xs = Inr t" by auto
  with Cons show ?case by (metis list.set_intros)
qed simp


section \<open>JSON values\<close>

text \<open>A dict is its list of entries in insertion order; keys are distinct (\<open>dict_ok\<close>).\<close>

datatype json =
    JNull
  | JBool bool
  | JInt int
  | JStr string
  | JArr "json list"
  | JObj "(string \<times> json) list"

type_synonym obj = "(string \<times> json) list"

fun is_dict :: "json \<Rightarrow> bool" where
  "is_dict (JObj _) = True" | "is_dict _ = False"

fun is_list :: "json \<Rightarrow> bool" where
  "is_list (JArr _) = True" | "is_list _ = False"

fun is_str :: "json \<Rightarrow> bool" where
  "is_str (JStr _) = True" | "is_str _ = False"

text \<open>\<open>type(x) is int\<close> excludes booleans; \<open>isinstance(x, int)\<close> admits them.\<close>

fun is_int :: "json \<Rightarrow> bool" where
  "is_int (JInt _) = True" | "is_int _ = False"

fun py_num :: "json \<Rightarrow> int option" where
  "py_num (JInt i) = Some i"
| "py_num (JBool b) = Some (if b then 1 else 0)"
| "py_num _ = None"

fun is_bool :: "json \<Rightarrow> bool" where
  "is_bool (JBool _) = True" | "is_bool _ = False"

fun truthy :: "json \<Rightarrow> bool" where
  "truthy JNull = False"
| "truthy (JBool b) = b"
| "truthy (JInt i) = (i \<noteq> 0)"
| "truthy (JStr s) = (s \<noteq> [])"
| "truthy (JArr xs) = (xs \<noteq> [])"
| "truthy (JObj kvs) = (kvs \<noteq> [])"

fun the_list :: "json \<Rightarrow> json list" where
  "the_list (JArr xs) = xs" | "the_list _ = []"

fun the_dict :: "json \<Rightarrow> obj" where
  "the_dict (JObj kvs) = kvs" | "the_dict _ = []"

fun the_str :: "json \<Rightarrow> string" where
  "the_str (JStr s) = s" | "the_str _ = []"

fun the_int :: "json \<Rightarrow> int" where
  "the_int (JInt i) = i" | "the_int _ = 0"

text \<open>Python's \<open>==\<close> on JSON values: booleans compare as 0 and 1, dicts as maps.\<close>

function (sequential) py_eq :: "json \<Rightarrow> json \<Rightarrow> bool" where
  "py_eq JNull JNull = True"
| "py_eq (JStr s) (JStr t) = (s = t)"
| "py_eq (JArr xs) (JArr ys) =
     (length xs = length ys \<and> list_all (\<lambda>(x, y). py_eq x y) (zip xs ys))"
| "py_eq (JObj xs) (JObj ys) =
     (length xs = length ys \<and>
      list_all (\<lambda>(k, x). case map_of ys k of None \<Rightarrow> False | Some y \<Rightarrow> py_eq x y) xs)"
| "py_eq a b = (case (py_num a, py_num b) of (Some i, Some j) \<Rightarrow> i = j | _ \<Rightarrow> False)"
  by pat_completeness auto
termination
proof (relation "measure (size \<circ> fst)")
  fix xs ys :: "json list" and z x y
  assume "z \<in> set (zip xs ys)" and "(x, y) = z"
  then have "x \<in> set xs" by (auto dest: set_zip_leftD)
  then show "((x, y), JArr xs, JArr ys) \<in> measure (size \<circ> fst)"
    by (simp add: less_Suc_eq_le size_list_estimation')
next
  fix xs ys :: obj and z k x y
  assume "z \<in> set xs" and "(k, x) = z"
  then have "size x \<le> size_list (size_prod (\<lambda>_. 0) size) xs"
    by (intro size_list_estimation' [of z]) auto
  then show "((x, y), JObj xs, JObj ys) \<in> measure (size \<circ> fst)" by simp
qed simp

text \<open>Dict access: \<open>d.get(k)\<close>, \<open>k in d\<close>, \<open>d[k]\<close>, \<open>d[k] = v\<close>, and a copy of \<open>d\<close> without \<open>k\<close>.\<close>

definition dget :: "obj \<Rightarrow> string \<Rightarrow> json" where
  "dget d k = (case map_of d k of None \<Rightarrow> JNull | Some v \<Rightarrow> v)"

definition dget_or :: "obj \<Rightarrow> string \<Rightarrow> json \<Rightarrow> json" where
  "dget_or d k w = (case map_of d k of None \<Rightarrow> w | Some v \<Rightarrow> v)"

definition dhas :: "obj \<Rightarrow> string \<Rightarrow> bool" where
  "dhas d k = (map_of d k \<noteq> None)"

definition ditem :: "obj \<Rightarrow> string \<Rightarrow> json res" where
  "ditem d k = (case map_of d k of None \<Rightarrow> Inl (KeyError k) | Some v \<Rightarrow> Inr v)"

fun dput :: "string \<Rightarrow> json \<Rightarrow> obj \<Rightarrow> obj" where
  "dput k v [] = [(k, v)]"
| "dput k v ((k', v') # d) = (if k' = k then (k, v) # d else (k', v') # dput k v d)"

definition ddel :: "string \<Rightarrow> obj \<Rightarrow> obj" where
  "ddel k d = filter (\<lambda>(k', _). k' \<noteq> k) d"

definition dkeys :: "obj \<Rightarrow> string list" where
  "dkeys d = map fst d"

definition dict_ok :: "obj \<Rightarrow> bool" where
  "dict_ok d = distinct (dkeys d)"

text \<open>\<open>set(d) == {\<dots>}\<close>, \<open>{\<dots>} <= set(d)\<close> for a literal set of keys.\<close>

definition keys_eq :: "obj \<Rightarrow> string list \<Rightarrow> bool" where
  "keys_eq d ks = (list_all (\<lambda>k. List.member ks k) (dkeys d) \<and> list_all (\<lambda>k. dhas d k) ks)"

definition keys_subset :: "obj \<Rightarrow> string list \<Rightarrow> bool" where
  "keys_subset d ks = list_all (\<lambda>k. List.member ks k) (dkeys d)"

text \<open>The same accesses on a value that need not be a dict.\<close>

fun jget :: "json \<Rightarrow> string \<Rightarrow> json res" where
  "jget (JObj d) k = Inr (dget d k)"
| "jget _ k = Inl AttributeError"

fun jitem :: "json \<Rightarrow> string \<Rightarrow> json res" where
  "jitem (JObj d) k = ditem d k"
| "jitem _ k = Inl TypeError"

definition as_object :: "json \<Rightarrow> obj res" where
  "as_object v = (case v of JObj d \<Rightarrow> Inr d | _ \<Rightarrow> Inl AssertionError)"

definition as_list :: "json \<Rightarrow> json list res" where
  "as_list v = (case v of JArr xs \<Rightarrow> Inr xs | _ \<Rightarrow> Inl AssertionError)"

definition as_string :: "json \<Rightarrow> string res" where
  "as_string v = (case v of JStr s \<Rightarrow> Inr s | _ \<Rightarrow> Inl AssertionError)"

text \<open>\<open>v in {\<dots>}\<close> for a set of strings: lists and dicts are unhashable.\<close>

definition in_strs :: "json \<Rightarrow> string list \<Rightarrow> bool res" where
  "in_strs v ss = (case v of
      JArr _ \<Rightarrow> Inl TypeError | JObj _ \<Rightarrow> Inl TypeError
    | JStr s \<Rightarrow> Inr (List.member ss s) | _ \<Rightarrow> Inr False)"

abbreviation is_true :: "json \<Rightarrow> bool" where "is_true v \<equiv> v = JBool True"
abbreviation is_false :: "json \<Rightarrow> bool" where "is_false v \<equiv> v = JBool False"
abbreviation str_is :: "json \<Rightarrow> string \<Rightarrow> bool" where "str_is v s \<equiv> v = JStr s"


section \<open>Lemmas on dicts\<close>

lemma dget_simps [simp]:
  "dget [] k = JNull"
  "dget ((k', v) # d) k = (if k = k' then v else dget d k)"
  by (auto simp: dget_def)

lemma dhas_simps [simp]:
  "dhas [] k \<longleftrightarrow> False"
  "dhas ((k', v) # d) k \<longleftrightarrow> k = k' \<or> dhas d k"
  by (auto simp: dhas_def)

lemma ditem_simps [simp]:
  "ditem [] k = Inl (KeyError k)"
  "ditem ((k', v) # d) k = (if k = k' then Inr v else ditem d k)"
  by (auto simp: ditem_def)

lemma dget_or_simps [simp]:
  "dget_or [] k w = w"
  "dget_or ((k', v) # d) k w = (if k = k' then v else dget_or d k w)"
  by (auto simp: dget_or_def)

lemma ddel_simps [simp]:
  "ddel k [] = []"
  "ddel k ((k', v) # d) = (if k' = k then ddel k d else (k', v) # ddel k d)"
  by (auto simp: ddel_def)

lemma dkeys_simps [simp]: "dkeys [] = []" "dkeys ((k, v) # d) = k # dkeys d"
  by (simp_all add: dkeys_def)

lemma dhas_iff_dkeys: "dhas d k \<longleftrightarrow> k \<in> set (dkeys d)"
  by (induction d) (auto simp: dkeys_def)

lemma ditem_eq_Inr: "ditem d k = Inr v \<longleftrightarrow> map_of d k = Some v"
  by (auto simp: ditem_def split: option.splits)

lemma map_of_dput: "map_of (dput k v d) = (map_of d)(k \<mapsto> v)"
  by (induction k v d rule: dput.induct) auto

lemma dget_dput: "dget (dput k v d) k' = (if k' = k then v else dget d k')"
  by (simp add: dget_def map_of_dput)

lemma map_of_ddel: "map_of (ddel k d) = (map_of d)(k := None)"
  by (induction d) (auto simp: fun_upd_def)

lemma dget_ddel: "dget (ddel k d) k' = (if k' = k then JNull else dget d k')"
  by (simp add: dget_def map_of_ddel)

lemma dput_new: "\<not> dhas d k \<Longrightarrow> dput k v d = d @ [(k, v)]"
  by (induction k v d rule: dput.induct) auto

lemma ddel_not_has: "\<not> dhas d k \<Longrightarrow> ddel k d = d"
  by (induction d) auto

lemma dict_ok_dput: "dict_ok d \<Longrightarrow> dict_ok (dput k v d)"
proof (induction k v d rule: dput.induct)
  case (2 k v k' v' d)
  have "set (dkeys (dput k v d)) = insert k (set (dkeys d))"
    by (induction k v d rule: dput.induct) auto
  with 2 show ?case by (auto simp: dict_ok_def)
qed (simp add: dict_ok_def)

lemma as_simps [simp]:
  "as_object (JObj d) = Inr d"
  "as_list (JArr xs) = Inr xs"
  "as_string (JStr s) = Inr s"
  by (simp_all add: as_object_def as_list_def as_string_def)

lemma as_Inr [simp, res_elims]:
  "as_object v = Inr d \<longleftrightarrow> v = JObj d"
  "as_list v = Inr xs \<longleftrightarrow> v = JArr xs"
  "as_string v = Inr t \<longleftrightarrow> v = JStr t"
  by (auto simp: as_object_def as_list_def as_string_def split: json.splits)

lemma in_strs_simps [simp]:
  "in_strs (JStr s) ss = Inr (s \<in> set ss)"
  "in_strs JNull ss = Inr False"
  "in_strs (JBool b) ss = Inr False"
  "in_strs (JInt i) ss = Inr False"
  by (simp_all add: in_strs_def)

lemma in_strs_True: "in_strs v ss = Inr True \<longleftrightarrow> (\<exists>s \<in> set ss. v = JStr s)"
  by (auto simp: in_strs_def split: json.splits)

lemma py_eq_refl_scalar [simp]:
  "py_eq (JStr s) (JStr t) \<longleftrightarrow> s = t"
  "py_eq (JInt i) (JInt j) \<longleftrightarrow> i = j"
  "py_eq (JBool b) (JBool c) \<longleftrightarrow> b = c"
  "py_eq JNull JNull"
  by auto

lemma py_eq_str: "py_eq v (JStr s) \<longleftrightarrow> v = JStr s"
  by (cases v) auto

lemma py_eq_str_left: "py_eq (JStr s) v \<longleftrightarrow> v = JStr s"
  by (cases v) auto

lemma py_eq_null: "py_eq v JNull \<longleftrightarrow> v = JNull"
  by (cases v) auto

text \<open>\<open>a != b\<close> for two accesses that may raise.\<close>

definition differs :: "json res \<Rightarrow> json res \<Rightarrow> bool res" where
  "differs a b = bindR a (\<lambda>x. bindR b (\<lambda>y. Inr (\<not> py_eq x y)))"

lemma differs_False: "differs a b = Inr False \<longleftrightarrow> (\<exists>x y. a = Inr x \<and> b = Inr y \<and> py_eq x y)"
  by (auto simp: differs_def)

section \<open>Integers and their decimal text\<close>

definition is_digit :: "char \<Rightarrow> bool" where
  "is_digit c = (48 \<le> (of_char c :: nat) \<and> (of_char c :: nat) \<le> 57)"

definition digit_val :: "char \<Rightarrow> int" where
  "digit_val c = int (of_char c :: nat) - 48"

definition digit_char :: "nat \<Rightarrow> char" where
  "digit_char d = char_of (48 + d)"

text \<open>\<open>str(n)\<close>.\<close>

fun str_nat :: "nat \<Rightarrow> string" where
  "str_nat n = (if n < 10 then [digit_char n] else str_nat (n div 10) @ [digit_char (n mod 10)])"

declare str_nat.simps [simp del]

definition str_int :: "int \<Rightarrow> string" where
  "str_int i = (if i < 0 then CHR ''-'' # str_nat (nat (- i)) else str_nat (nat i))"

text \<open>\<open>int(s)\<close>: surrounding blanks, a sign, digits with single underscores between them.\<close>

fun digits_val :: "int \<Rightarrow> string \<Rightarrow> int option" where
  "digits_val acc [] = Some acc"
| "digits_val acc (c # cs) =
     (if is_digit c then digits_val (10 * acc + digit_val c) cs
      else if c = CHR ''_'' \<and> cs \<noteq> [] \<and> is_digit (hd cs) then digits_val acc cs
      else None)"

definition unsigned_val :: "string \<Rightarrow> int option" where
  "unsigned_val s = (if s \<noteq> [] \<and> is_digit (hd s) then digits_val 0 s else None)"

definition is_blank :: "char \<Rightarrow> bool" where
  "is_blank c = (let n = (of_char c :: nat) in (9 \<le> n \<and> n \<le> 13) \<or> (28 \<le> n \<and> n \<le> 32) \<or> n = 133 \<or> n = 160)"

definition strip :: "string \<Rightarrow> string" where
  "strip s = rev (dropWhile is_blank (rev (dropWhile is_blank s)))"

definition py_int :: "string \<Rightarrow> int option" where
  "py_int s = (case strip s of
      [] \<Rightarrow> None
    | c # cs \<Rightarrow> (if c = CHR ''-'' then map_option uminus (unsigned_val cs)
                else if c = CHR ''+'' then unsigned_val cs
                else unsigned_val (c # cs)))"

text \<open>\<open>int(s)\<close> on a string raises \<open>ValueError\<close> otherwise; the code never inspects its text.\<close>

definition parse_int :: "string \<Rightarrow> int res" where
  "parse_int s = (case py_int s of None \<Rightarrow> Inl (ValueError ''invalid literal for int()'') | Some i \<Rightarrow> Inr i)"

lemma digit_char_digit: "d < 10 \<Longrightarrow> is_digit (digit_char d)"
  by (simp add: is_digit_def digit_char_def take_bit_nat_def)

lemma digit_val_char: "d < 10 \<Longrightarrow> digit_val (digit_char d) = int d"
  by (simp add: digit_val_def digit_char_def take_bit_nat_def)

lemma digits_val_append:
  "digits_val a xs = Some b \<Longrightarrow> is_digit c \<Longrightarrow> digits_val a (xs @ [c]) = Some (10 * b + digit_val c)"
  by (induction a xs rule: digits_val.induct) (auto split: if_splits)

lemma str_nat_digits: "c \<in> set (str_nat n) \<Longrightarrow> is_digit c"
proof (induction n rule: str_nat.induct)
  case (1 n)
  then show ?case
    by (cases "n < 10") (auto simp: str_nat.simps [of n] digit_char_digit)
qed

lemma str_nat_nonempty: "str_nat n \<noteq> []"
  by (subst str_nat.simps) simp

lemma digits_val_str_nat: "digits_val 0 (str_nat n) = Some (int n)"
proof (induction n rule: str_nat.induct)
  case (1 n)
  show ?case
  proof (cases "n < 10")
    case True
    then show ?thesis by (simp add: str_nat.simps [of n] digit_char_digit digit_val_char)
  next
    case False
    with 1 have "digits_val 0 (str_nat (n div 10)) = Some (int (n div 10))" by simp
    from digits_val_append [OF this digit_char_digit [of "n mod 10"]] False
    show ?thesis by (simp add: str_nat.simps [of n] digit_val_char zdiv_int zmod_int)
  qed
qed

lemma digit_not_blank: "is_digit c \<Longrightarrow> \<not> is_blank c"
  by (auto simp: is_digit_def is_blank_def Let_def)

lemma strip_id: "s \<noteq> [] \<Longrightarrow> \<not> is_blank (hd s) \<Longrightarrow> \<not> is_blank (last s) \<Longrightarrow> strip s = s"
proof -
  assume s: "s \<noteq> []" and h: "\<not> is_blank (hd s)" and l: "\<not> is_blank (last s)"
  have "dropWhile is_blank s = s" using s h by (cases s) auto
  moreover have "dropWhile is_blank (rev s) = rev s"
    using s l by (cases "rev s") (auto simp: hd_rev [symmetric])
  ultimately show ?thesis by (simp add: strip_def)
qed

lemma str_nat_hd: "is_digit (hd (str_nat n))"
  by (rule str_nat_digits [of _ n]) (simp add: str_nat_nonempty)

lemma str_nat_last: "is_digit (last (str_nat n))"
  by (rule str_nat_digits [of _ n]) (simp add: str_nat_nonempty)

lemmas str_nat_ends = str_nat_hd str_nat_last

lemma unsigned_str_nat: "unsigned_val (str_nat n) = Some (int n)"
  by (simp add: unsigned_val_def digits_val_str_nat str_nat_nonempty str_nat_ends)

lemma strip_str_nat: "strip (str_nat n) = str_nat n"
  by (intro strip_id digit_not_blank) (simp_all add: str_nat_nonempty str_nat_ends)

lemma minus_not_digit: "\<not> is_digit CHR ''-''" "\<not> is_digit CHR ''+''"
  by (simp_all add: is_digit_def)

theorem py_int_str_int [simp]: "py_int (str_int i) = Some i"
proof (cases "i < 0")
  case True
  have "strip (CHR ''-'' # str_nat (nat (- i))) = CHR ''-'' # str_nat (nat (- i))"
    by (intro strip_id) (simp_all add: is_blank_def [of "CHR ''-''"] str_nat_nonempty str_nat_ends digit_not_blank)
  with True show ?thesis by (simp add: py_int_def str_int_def unsigned_str_nat)
next
  case False
  obtain c cs where c: "str_nat (nat i) = c # cs" using str_nat_nonempty by (cases "str_nat (nat i)") auto
  then have "is_digit c" using str_nat_digits [of c "nat i"] by simp
  then have "c \<noteq> CHR ''-''" "c \<noteq> CHR ''+''" using minus_not_digit by auto
  with False c show ?thesis
    using strip_str_nat [of "nat i"] unsigned_str_nat [of "nat i"]
    by (simp add: py_int_def str_int_def)
qed

lemma parse_int_str_int [simp]: "parse_int (str_int i) = Inr i"
  by (simp add: parse_int_def)

lemma str_int_inject [simp]: "str_int i = str_int j \<longleftrightarrow> i = j"
  by (metis option.inject py_int_str_int)


section \<open>Text: character classes and \<open>str(value)\<close>\<close>

definition is_lower_hex :: "char \<Rightarrow> bool" where
  "is_lower_hex c = (let n = (of_char c :: nat) in (48 \<le> n \<and> n \<le> 57) \<or> (97 \<le> n \<and> n \<le> 102))"

definition is_upper :: "char \<Rightarrow> bool" where
  "is_upper c = (let n = (of_char c :: nat) in 65 \<le> n \<and> n \<le> 90)"

definition is_name_char :: "char \<Rightarrow> bool" where
  "is_name_char c = (is_upper c \<or> is_digit c \<or> c = CHR ''_'')"

text \<open>\<open>[0-9a-f]{64}\<close>, matched in full.\<close>

definition hex64 :: "string \<Rightarrow> bool" where
  "hex64 s = (length s = 64 \<and> list_all is_lower_hex s)"

text \<open>\<open>[0-9a-f]{8}-[0-9a-f]{4}-4[0-9a-f]{3}-[89ab][0-9a-f]{3}-[0-9a-f]{12}\<close>.\<close>

definition uuid4_at :: "nat \<Rightarrow> char \<Rightarrow> bool" where
  "uuid4_at i c = (if i \<in> {8, 13, 18, 23} then c = CHR ''-''
     else if i = 14 then c = CHR ''4''
     else if i = 19 then c \<in> set ''89ab'' else is_lower_hex c)"

definition uuid4 :: "string \<Rightarrow> bool" where
  "uuid4 s = (length s = 36 \<and> list_all (\<lambda>(i, c). uuid4_at i c) (zip [0..<36] s))"

definition starts_with :: "string \<Rightarrow> string \<Rightarrow> bool" where
  "starts_with s p = (take (length p) s = p)"

definition ends_with :: "string \<Rightarrow> string \<Rightarrow> bool" where
  "ends_with s p = (length p \<le> length s \<and> drop (length s - length p) s = p)"

fun is_substring :: "string \<Rightarrow> string \<Rightarrow> bool" where
  "is_substring p [] = (p = [])"
| "is_substring p (c # s) = (starts_with (c # s) p \<or> is_substring p s)"

text \<open>\<open>s.split("/")\<close> for a one-character separator.\<close>

fun split_on :: "char \<Rightarrow> string \<Rightarrow> string list" where
  "split_on d [] = [[]]"
| "split_on d (c # s) =
     (if c = d then [] # split_on d s
      else (case split_on d s of [] \<Rightarrow> [[c]] | w # ws \<Rightarrow> (c # w) # ws))"

text \<open>\<open>s.replace(a, b)\<close> for a non-empty pattern, left to right without overlap.\<close>

fun replace_fuel :: "nat \<Rightarrow> string \<Rightarrow> string \<Rightarrow> string \<Rightarrow> string" where
  "replace_fuel 0 a b s = s"
| "replace_fuel (Suc n) a b s = (case s of [] \<Rightarrow> []
     | c # cs \<Rightarrow> (if starts_with s a then b @ replace_fuel n a b (drop (length a) s)
                 else c # replace_fuel n a b cs))"

definition replace :: "string \<Rightarrow> string \<Rightarrow> string \<Rightarrow> string" where
  "replace a b s = replace_fuel (length s) a b s"

text \<open>A JSON-pointer component: \<open>~1\<close> is a slash, \<open>~0\<close> a tilde, in this order.\<close>

definition pointer_unescape :: "string \<Rightarrow> string" where
  "pointer_unescape s = replace ''~0'' ''~'' (replace ''~1'' ''/'' s)"

text \<open>\<open>repr\<close> of a string: single quotes unless only they occur, and escapes.\<close>

definition hex_digit :: "nat \<Rightarrow> char" where
  "hex_digit d = char_of (if d < 10 then 48 + d else 87 + d)"

definition repr_char :: "char \<Rightarrow> char \<Rightarrow> string" where
  "repr_char q c = (let n = (of_char c :: nat) in
     if c = q \<or> n = 92 then [CHR 0x5C, c]
     else if n = 10 then [CHR 0x5C, CHR ''n'']
     else if n = 13 then [CHR 0x5C, CHR ''r'']
     else if n = 9 then [CHR 0x5C, CHR ''t'']
     else if n < 32 \<or> (127 \<le> n \<and> n < 161) \<or> n = 173
       then [CHR 0x5C, CHR ''x'', hex_digit (n div 16), hex_digit (n mod 16)]
     else [c])"

definition repr_str :: "string \<Rightarrow> string" where
  "repr_str s = (let q = (if CHR 0x27 \<in> set s \<and> CHR 0x22 \<notin> set s then CHR 0x22 else CHR 0x27)
                 in q # concat (map (repr_char q) s) @ [q])"

fun join :: "string \<Rightarrow> string list \<Rightarrow> string" where
  "join sep [] = []"
| "join sep [w] = w"
| "join sep (w # ws) = w @ sep @ join sep ws"

fun py_repr :: "json \<Rightarrow> string" where
  "py_repr JNull = ''None''"
| "py_repr (JBool b) = (if b then ''True'' else ''False'')"
| "py_repr (JInt i) = str_int i"
| "py_repr (JStr s) = repr_str s"
| "py_repr (JArr xs) = ''['' @ join '', '' (map py_repr xs) @ '']''"
| "py_repr (JObj d) = ''{'' @ join '', '' (map (\<lambda>(k, v). repr_str k @ '': '' @ py_repr v) d) @ ''}''"

definition py_str :: "json \<Rightarrow> string" where
  "py_str v = (case v of JStr s \<Rightarrow> s | _ \<Rightarrow> py_repr v)"

lemma py_str_JStr [simp]: "py_str (JStr s) = s"
  by (simp add: py_str_def)

lemma starts_with_append [simp]: "starts_with (p @ s) p"
  by (simp add: starts_with_def)

lemma starts_with_iff: "starts_with s p \<longleftrightarrow> (\<exists>t. s = p @ t)"
  by (metis append_take_drop_id append_eq_conv_conj starts_with_def)

lemma hex64_length: "hex64 s \<Longrightarrow> length s = 64"
  by (simp add: hex64_def)

section \<open>Sets of values\<close>

definition hashable :: "json \<Rightarrow> bool" where
  "hashable v = (\<not> is_list v \<and> \<not> is_dict v)"

fun distinct_by :: "('a \<Rightarrow> 'a \<Rightarrow> bool) \<Rightarrow> 'a list \<Rightarrow> bool" where
  "distinct_by eq [] = True"
| "distinct_by eq (x # xs) = (list_all (\<lambda>y. \<not> eq x y) xs \<and> distinct_by eq xs)"

text \<open>\<open>len(xs) == len(set(xs))\<close>; building the set raises on an unhashable element.\<close>

definition set_distinct :: "json list \<Rightarrow> bool res" where
  "set_distinct xs = (if list_all hashable xs then Inr (distinct_by py_eq xs) else Inl TypeError)"

lemma distinct_by_eq: "distinct_by (=) xs = distinct xs"
  by (induction xs) (auto simp: list_all_iff)

lemma set_distinct_strs: "set_distinct (map JStr ss) = Inr (distinct ss)"
proof -
  have "distinct_by py_eq (map JStr ss) = distinct ss"
    by (induction ss) (auto simp: list_all_iff)
  then show ?thesis by (simp add: set_distinct_def hashable_def list_all_iff)
qed

section \<open>Machine bounds used by the store\<close>

definition int64 :: "int \<Rightarrow> bool" where
  "int64 i = (- 9223372036854775808 \<le> i \<and> i \<le> 9223372036854775807)"

text \<open>Binding a Python integer to SQLite raises \<open>OverflowError\<close> outside 64 bits.\<close>

definition sql_int :: "int \<Rightarrow> unit res" where
  "sql_int i = raise_if (\<not> int64 i) OverflowError"


section \<open>Iteration\<close>

text \<open>\<open>for x in v\<close> on a JSON value: a list gives its elements, a dict its keys, a string its
  characters; numbers, booleans and null are not iterable.\<close>

fun iter_values :: "json \<Rightarrow> json list res" where
  "iter_values (JArr xs) = Inr xs"
| "iter_values (JObj d) = Inr (map JStr (dkeys d))"
| "iter_values (JStr s) = Inr (map (\<lambda>c. JStr [c]) s)"
| "iter_values _ = Inl TypeError"

text \<open>\<open>[x for x in xs if p(x)]\<close>.\<close>

fun filterR :: "('a \<Rightarrow> bool res) \<Rightarrow> 'a list \<Rightarrow> 'a list res" where
  "filterR p [] = Inr []"
| "filterR p (x # xs) = bindR (p x) (\<lambda>b. bindR (filterR p xs) (\<lambda>ys. Inr (if b then x # ys else ys)))"

lemma filterR_pure [simp]: "filterR (\<lambda>x. Inr (p x)) xs = Inr (filter p xs)"
  by (induction xs) auto

lemma filterR_Inr: "filterR p xs = Inr ys \<Longrightarrow> ys = filter (\<lambda>x. p x = Inr True) xs"
  by (induction xs arbitrary: ys) auto


section \<open>Loops that keep one state per key\<close>

text \<open>
  \<^verbatim>\<open>for row in rows: s = states.get(key(row)); \<dots>; states[key(row)] = s'\<close>. The loop
  succeeds exactly when, for every key, the same steps succeed over the rows of that key alone.
\<close>

definition keyed_loop :: "('r \<Rightarrow> 'k) \<Rightarrow> ('s option \<Rightarrow> 'r \<Rightarrow> 's res) \<Rightarrow> ('k \<rightharpoonup> 's) \<Rightarrow> 'r list \<Rightarrow> ('k \<rightharpoonup> 's) res" where
  "keyed_loop key step st rows =
     foldR (\<lambda>st r. bindR (step (st (key r)) r) (\<lambda>s. Inr (st(key r \<mapsto> s)))) st rows"

definition chain_run :: "('s option \<Rightarrow> 'r \<Rightarrow> 's res) \<Rightarrow> 's option \<Rightarrow> 'r list \<Rightarrow> 's option res" where
  "chain_run step s rows = foldR (\<lambda>s r. bindR (step s r) (\<lambda>t. Inr (Some t))) s rows"

lemma chain_run_simps [simp]:
  "chain_run step s [] = Inr s"
  "chain_run step s (r # rs) = bindR (step s r) (\<lambda>t. chain_run step (Some t) rs)"
  by (simp_all add: chain_run_def bindR_assoc)

lemma chain_run_append:
  "chain_run step s (xs @ ys) = bindR (chain_run step s xs) (\<lambda>t. chain_run step t ys)"
  by (simp add: chain_run_def foldR_append)

lemma chain_run_cong:
  "(\<And>s r. r \<in> set rs \<Longrightarrow> step s r = step' s r) \<Longrightarrow> chain_run step s rs = chain_run step' s rs"
proof (induction rs arbitrary: s)
  case (Cons r rs)
  have "step s r = step' s r" by (rule Cons.prems) simp
  moreover have "chain_run step (Some t) rs = chain_run step' (Some t) rs" for t
    by (rule Cons.IH) (simp add: Cons.prems)
  ultimately show ?case by simp
qed simp

lemma keyed_loop_iff:
  "keyed_loop key step st rows = Inr st' \<longleftrightarrow>
     (\<forall>k. chain_run step (st k) (filter (\<lambda>r. key r = k) rows) = Inr (st' k))"
proof (induction rows arbitrary: st)
  case Nil
  then show ?case by (auto simp: keyed_loop_def)
next
  case (Cons r rows)
  show ?case
  proof (cases "step (st (key r)) r")
    case (Inl e)
    then have "chain_run step (st (key r)) (filter (\<lambda>x. key x = key r) (r # rows)) = Inl e" by simp
    moreover have "keyed_loop key step st (r # rows) = Inl e" using Inl by (simp add: keyed_loop_def)
    ultimately show ?thesis by (metis Inl_Inr_False)
  next
    case (Inr s)
    have "keyed_loop key step st (r # rows) = keyed_loop key step (st(key r \<mapsto> s)) rows"
      using Inr by (simp add: keyed_loop_def)
    moreover have "chain_run step (st k) (filter (\<lambda>x. key x = k) (r # rows)) =
        chain_run step ((st(key r \<mapsto> s)) k) (filter (\<lambda>x. key x = k) rows)" for k
      using Inr by auto
    ultimately show ?thesis by (simp only: Cons.IH)
  qed
qed

lemma keyed_loop_succeeds:
  "(\<exists>st'. keyed_loop key step st rows = Inr st') \<longleftrightarrow>
     (\<forall>k. \<exists>s. chain_run step (st k) (filter (\<lambda>r. key r = k) rows) = Inr s)"
  unfolding keyed_loop_iff by metis

section \<open>Sorting and positions\<close>

lemma filter_sort_key:
  "filter P (sort_key f xs) = sort_key f (filter P xs)"
  by (rule filter_sort)

lemma sort_key_append_last:
  assumes "\<And>x. x \<in> set xs \<Longrightarrow> f x < f y"
  shows "sort_key f (xs @ [y]) = sort_key f xs @ [y]"
proof -
  have "sorted (map f (sort_key f xs @ [y]))" using assms by (auto simp: sorted_append less_imp_le)
  moreover have "mset (sort_key f xs @ [y]) = mset (xs @ [y])" by simp
  moreover have "filter (\<lambda>x. f k = f x) (sort_key f xs @ [y]) = filter (\<lambda>x. f k = f x) (xs @ [y])" for k
    using sort_key_stable [of f "f k" xs] by (simp add: eq_commute [of "f k"])
  ultimately show ?thesis
    by (intro properties_for_sort_key) auto
qed

end
