(* ===== verification/Generation.thy ===== *)
theory Generation
  imports Py_Prelude
begin

text \<open>
  \<^verbatim>\<open>src/moj_discovery/generation.py\<close>: replacing the active generation of a stream after a gap, and
  the decision whether a bounded spool takes another item. A generation table maps the decimal
  text of a generation number to its state.
\<close>

type_synonym generations = "string \<rightharpoonup> string"

definition replace_after_gap :: "generations \<Rightarrow> int \<Rightarrow> generations res" where
  "replace_after_gap generations current =
     (let key = str_int current; successor = str_int (current + 1) in
      if generations key \<noteq> Some ''ACTIVE'' \<or> generations successor \<noteq> None
      then Inl (ValueError ''E_GENERATION_SUCCESSOR_BINDING'')
      else Inr (generations(key \<mapsto> ''CLOSED'', successor \<mapsto> ''ACTIVE'')))"

record capacity_result =
  accepted :: bool
  status :: string
  evicted :: int

definition capacity_decision :: "int \<Rightarrow> int \<Rightarrow> int \<Rightarrow> int \<Rightarrow> capacity_result res" where
  "capacity_decision used incoming normal_limit terminal_reserve =
     (if min (min used incoming) (min normal_limit terminal_reserve) < 0
      then Inl (ValueError ''E_CAPACITY_INTEGER'')
      else if used + incoming > normal_limit
      then Inr \<lparr>accepted = False, status = ''SAFETY_STOP'', evicted = 0\<rparr>
      else Inr \<lparr>accepted = True, status = ''NORMAL'', evicted = 0\<rparr>)"

section \<open>One active generation\<close>

definition sole_active :: "generations \<Rightarrow> int \<Rightarrow> bool" where
  "sole_active g n \<longleftrightarrow> (\<forall>k. g k = Some ''ACTIVE'' \<longleftrightarrow> k = str_int n)"

text \<open>Repeated replacement, starting at generation \<open>n\<close>.\<close>

fun replace_many :: "nat \<Rightarrow> generations \<Rightarrow> int \<Rightarrow> generations res" where
  "replace_many 0 g n = Inr g"
| "replace_many (Suc m) g n = bindR (replace_after_gap g n) (\<lambda>g'. replace_many m g' (n + 1))"

lemma replace_after_gap_Inr:
  "replace_after_gap g n = Inr g' \<longleftrightarrow>
     g (str_int n) = Some ''ACTIVE'' \<and> g (str_int (n + 1)) = None \<and>
     g' = g(str_int n \<mapsto> ''CLOSED'', str_int (n + 1) \<mapsto> ''ACTIVE'')"
  by (auto simp: replace_after_gap_def Let_def)

lemma sole_active_step:
  "sole_active g n \<Longrightarrow> replace_after_gap g n = Inr g' \<Longrightarrow> sole_active g' (n + 1)"
  by (auto simp: sole_active_def replace_after_gap_Inr)

lemma replace_keeps_closed:
  "replace_after_gap g n = Inr g' \<Longrightarrow> g k \<noteq> None \<Longrightarrow> g k \<noteq> Some ''ACTIVE'' \<Longrightarrow> g' k = g k"
  by (auto simp: replace_after_gap_Inr)

lemma replace_many_spec:
  assumes "sole_active g n" and "\<And>j. n < j \<Longrightarrow> g (str_int j) = None"
  shows "\<exists>g'. replace_many m g n = Inr g' \<and> sole_active g' (n + int m) \<and>
    (\<forall>j. n + int m < j \<longrightarrow> g' (str_int j) = None) \<and>
    (\<forall>j. n \<le> j \<and> j < n + int m \<longrightarrow> g' (str_int j) = Some ''CLOSED'') \<and>
    (\<forall>k. g k \<noteq> None \<and> g k \<noteq> Some ''ACTIVE'' \<longrightarrow> g' k = g k)"
  using assms
proof (induction m arbitrary: g n)
  case 0
  then show ?case by simp
next
  case (Suc m)
  let ?h = "g(str_int n \<mapsto> ''CLOSED'', str_int (n + 1) \<mapsto> ''ACTIVE'')"
  have step: "replace_after_gap g n = Inr ?h"
    using Suc.prems by (simp add: replace_after_gap_Inr sole_active_def)
  have act: "sole_active ?h (n + 1)" by (rule sole_active_step [OF Suc.prems(1) step])
  have free: "\<And>j. n + 1 < j \<Longrightarrow> ?h (str_int j) = None" using Suc.prems(2) by simp
  obtain g' where g': "replace_many m ?h (n + 1) = Inr g'" "sole_active g' (n + 1 + int m)"
      "\<forall>j. n + 1 + int m < j \<longrightarrow> g' (str_int j) = None"
      "\<forall>j. n + 1 \<le> j \<and> j < n + 1 + int m \<longrightarrow> g' (str_int j) = Some ''CLOSED''"
      "\<forall>k. ?h k \<noteq> None \<and> ?h k \<noteq> Some ''ACTIVE'' \<longrightarrow> g' k = ?h k"
    using Suc.IH [OF act free] by blast
  have closed: "g' (str_int n) = Some ''CLOSED''" using g'(5) by simp
  have hist: "g' k = g k" if "g k \<noteq> None" "g k \<noteq> Some ''ACTIVE''" for k
  proof -
    have "k \<noteq> str_int n" "k \<noteq> str_int (n + 1)" using that Suc.prems by (auto simp: sole_active_def)
    then show ?thesis using g'(5) that by simp
  qed
  have "g' (str_int j) = Some ''CLOSED''" if "n \<le> j" "j < n + 1 + int m" for j
    using that closed g'(4) by (cases "j = n") auto
  with step g' hist show ?case by (auto simp: algebra_simps)
qed

text \<open>Starting from a stream whose only active generation is n and which has no later
  generation, any number m of gap replacements succeeds; afterwards generation n + m is the only
  active one, every generation from n up to it is CLOSED, and generations closed before are
  untouched.\<close>

theorem replacements_leave_one_active:
  assumes "sole_active g n" and "\<And>j. n < j \<Longrightarrow> g (str_int j) = None"
  shows "\<exists>g'. replace_many m g n = Inr g' \<and> sole_active g' (n + int m) \<and>
    (\<forall>j. n \<le> j \<and> j < n + int m \<longrightarrow> g' (str_int j) = Some ''CLOSED'') \<and>
    (\<forall>k. g k \<noteq> None \<and> g k \<noteq> Some ''ACTIVE'' \<longrightarrow> g' k = g k)"
  using replace_many_spec [OF assms] by blast

theorem replacements_leave_one_active_witness:
  "\<exists>g'. replace_many 2 [str_int 5 \<mapsto> ''ACTIVE''] 5 = Inr g' \<and> sole_active g' 7 \<and>
    g' (str_int 6) = Some ''CLOSED''"
  using replacements_leave_one_active [of "[str_int 5 \<mapsto> ''ACTIVE'']" 5 2]
  by (fastforce simp: sole_active_def)

section \<open>Spool capacity\<close>

lemma capacity_decision_Inr:
  "capacity_decision u i l r = Inr d \<Longrightarrow>
     0 \<le> u \<and> 0 \<le> i \<and> 0 \<le> l \<and> 0 \<le> r \<and> (accepted d \<longleftrightarrow> u + i \<le> l) \<and> evicted d = 0"
  by (auto simp: capacity_decision_def split: if_splits)

text \<open>A spool that admits the items the decision accepts and skips the others.\<close>

fun admit_all :: "int \<Rightarrow> int \<Rightarrow> int \<Rightarrow> int list \<Rightarrow> int res" where
  "admit_all l r used [] = Inr used"
| "admit_all l r used (i # is) =
     bindR (capacity_decision used i l r)
       (\<lambda>d. admit_all l r (if accepted d then used + i else used) is)"

lemma admit_all_within_limit: "admit_all l r used is = Inr u \<Longrightarrow> used \<le> l \<Longrightarrow> used \<le> u \<and> u \<le> l"
proof (induction "is" arbitrary: used)
  case (Cons i "is")
  then obtain d where d: "capacity_decision used i l r = Inr d"
    and rest: "admit_all l r (if accepted d then used + i else used) is = Inr u" by auto
  have "used \<le> (if accepted d then used + i else used) \<and> (if accepted d then used + i else used) \<le> l"
    using capacity_decision_Inr [OF d] Cons.prems(2) by auto
  with Cons.IH [OF rest] show ?case by linarith
qed simp

end
