(* ===== verification/Clock_Mapper.thy ===== *)
theory Clock_Mapper
  imports Py_Prelude "HOL-Library.Multiset"
begin

text \<open>
  \<^verbatim>\<open>src/moj_discovery/clock.py\<close>: choosing the clock mapping to use among candidate documents, and
  the append-only history of mapping closures. A candidate is the dict the caller passes; a
  closure is the frozen dataclass of the source.
\<close>

definition CLOSURE_REASONS :: "string list" where
  "CLOSURE_REASONS =
     [''DOMAIN_BOOT_CHANGED'', ''MONOTONIC_REGRESSION'', ''WALL_CLOCK_STEP'', ''SLEEP_RESUME'',
      ''MAX_DURATION'', ''RTT_EXCEEDED'', ''UNCERTAINTY_EXCEEDED'', ''INCONSISTENT_MAPPING'',
      ''LIFECYCLE_INVALIDATED'', ''RUN_CLOSED'']"

record MappingClosure =
  mapping_id :: string
  reason :: string
  permanent :: bool
  reopen_permitted :: bool

definition mk_closure :: "string \<Rightarrow> string \<Rightarrow> MappingClosure" where
  "mk_closure m r = \<lparr>mapping_id = m, reason = r, permanent = True, reopen_permitted = False\<rparr>"

text \<open>The list comprehension of \<open>select\<close>: membership in the set of closed ids hashes the value.\<close>

definition eligible :: "obj list \<Rightarrow> MappingClosure list \<Rightarrow> obj list res" where
  "eligible candidates history =
     (let closed = map mapping_id history in
      foldR (\<lambda>acc c. bindR (in_strs (dget c ''mapping_id'') closed)
               (\<lambda>hit. Inr (if hit then acc else acc @ [c]))) [] candidates)"

definition candidate_invalid :: "obj \<Rightarrow> bool" where
  "candidate_invalid c =
     (let m = dget c ''mapping_id''; width = dget c ''width_us''; valid_from = dget c ''valid_from_us'' in
      \<not> is_str m \<or> \<not> truthy m \<or> \<not> is_int width \<or> the_int width < 0 \<or>
      \<not> is_int valid_from \<or> the_int valid_from < 0)"

text \<open>The key tuple; subscription cannot fail once the fields have been checked.\<close>

definition mapping_key :: "obj \<Rightarrow> int \<times> int \<times> string" where
  "mapping_key c = (the_int (dget c ''width_us''), - the_int (dget c ''valid_from_us''),
                    the_str (dget c ''mapping_id''))"

text \<open>\<open>min(xs, key=f)\<close> on a non-empty list: the first element with the least key.\<close>

definition select :: "obj list \<Rightarrow> MappingClosure list \<Rightarrow> obj res" where
  "select candidates history =
     bindR (eligible candidates history) (\<lambda>es.
       if list_ex candidate_invalid es then Inl (ValueError ''E_INVALID_MAPPING_CANDIDATE'')
       else if es = [] then Inl (ValueError ''E_NO_VALID_MAPPING'')
       else Inr (arg_min_list mapping_key es))"

definition close :: "string \<Rightarrow> string \<Rightarrow> MappingClosure list \<Rightarrow> MappingClosure list res" where
  "close m r history =
     (if m = [] \<or> r \<notin> set CLOSURE_REASONS then Inl (ValueError ''E_INVALID_MAPPING_CLOSURE'')
      else if list_ex (\<lambda>c. mapping_id c = m) history
      then Inl (ValueError ''E_MAPPING_PERMANENTLY_CLOSED'')
      else Inr (history @ [mk_closure m r]))"

definition reopen :: "string \<Rightarrow> MappingClosure list \<Rightarrow> unit res" where
  "reopen m history =
     (if list_ex (\<lambda>c. mapping_id c = m) history
      then Inl (ValueError ''E_MAPPING_PERMANENTLY_CLOSED'')
      else Inl (ValueError ''E_NO_VALID_MAPPING''))"

section \<open>Selection\<close>

definition closed_in :: "MappingClosure list \<Rightarrow> obj \<Rightarrow> bool" where
  "closed_in history c \<longleftrightarrow> (\<exists>h \<in> set history. dget c ''mapping_id'' = JStr (mapping_id h))"

lemma in_strs_closed:
  "hashable (dget c ''mapping_id'') \<Longrightarrow>
     in_strs (dget c ''mapping_id'') (map mapping_id history) = Inr (closed_in history c)"
  by (cases "dget c ''mapping_id''") (auto simp: closed_in_def hashable_def)

lemma in_strs_unhashable: "\<not> hashable v \<Longrightarrow> in_strs v ss = Inl TypeError"
  by (cases v) (auto simp: in_strs_def hashable_def)

lemma eligible_fold:
  "foldR (\<lambda>acc c. bindR (in_strs (dget c ''mapping_id'') (map mapping_id h))
             (\<lambda>hit. Inr (if hit then acc else acc @ [c]))) acc cs = Inr es \<longleftrightarrow>
     (\<forall>c \<in> set cs. hashable (dget c ''mapping_id'')) \<and> es = acc @ filter (\<lambda>c. \<not> closed_in h c) cs"
proof (induction cs arbitrary: acc)
  case (Cons c cs)
  show ?case
  proof (cases "hashable (dget c ''mapping_id'')")
    case True
    then show ?thesis by (cases "closed_in h c") (simp_all add: in_strs_closed Cons)
  next
    case False
    then show ?thesis by (simp add: in_strs_unhashable)
  qed
qed auto

lemma eligible_Inr:
  "eligible cs h = Inr es \<longleftrightarrow>
     (\<forall>c \<in> set cs. hashable (dget c ''mapping_id'')) \<and> es = filter (\<lambda>c. \<not> closed_in h c) cs"
  by (simp add: eligible_def Let_def eligible_fold)

lemma arg_min_list_in: "xs \<noteq> [] \<Longrightarrow> arg_min_list f xs \<in> set xs"
  by (induction f xs rule: arg_min_list.induct) (auto simp: Let_def)

lemma arg_min_list_least: "x \<in> set xs \<Longrightarrow> f (arg_min_list f xs) \<le> f x"
  for f :: "'a \<Rightarrow> 'b :: linorder"
  by (induction f xs rule: arg_min_list.induct) (auto simp: Let_def)

lemma candidate_valid_id:
  "\<not> candidate_invalid c \<Longrightarrow> dget c ''mapping_id'' = JStr (the_str (dget c ''mapping_id''))"
  by (cases "dget c ''mapping_id''") (auto simp: candidate_invalid_def Let_def)

lemma select_Inr:
  assumes "select cs h = Inr c"
  shows "c \<in> set cs" "\<not> closed_in h c" "\<not> candidate_invalid c"
    "\<And>d. d \<in> set cs \<Longrightarrow> \<not> closed_in h d \<Longrightarrow> mapping_key c \<le> mapping_key d"
proof -
  obtain es where es: "eligible cs h = Inr es" "\<not> list_ex candidate_invalid es" "es \<noteq> []"
      "c = arg_min_list mapping_key es"
    using assms by (auto simp: select_def split: if_splits)
  from es(1) have f: "es = filter (\<lambda>c. \<not> closed_in h c) cs" by (simp add: eligible_Inr)
  have "c \<in> set es" using es by (simp add: arg_min_list_in)
  with es(2) f show "c \<in> set cs" "\<not> closed_in h c" "\<not> candidate_invalid c"
    by (auto simp: list_ex_iff)
  fix d assume "d \<in> set cs" "\<not> closed_in h d"
  with f es(4) show "mapping_key c \<le> mapping_key d" by (auto intro: arg_min_list_least)
qed

text \<open>When candidates carry distinct ids, the order in which they are offered is irrelevant.\<close>

lemma select_order:
  assumes "select cs h = Inr c" and "set cs' = set cs"
    and "\<And>x y. x \<in> set cs \<Longrightarrow> y \<in> set cs \<Longrightarrow> dget x ''mapping_id'' = dget y ''mapping_id'' \<Longrightarrow> x = y"
  shows "select cs' h = Inr c"
proof -
  obtain es where es: "eligible cs h = Inr es" "\<not> list_ex candidate_invalid es" "es \<noteq> []"
    using assms(1) by (auto simp: select_def split: if_splits)
  let ?es = "filter (\<lambda>c. \<not> closed_in h c) cs'"
  have el: "eligible cs' h = Inr ?es" using es(1) assms(2) by (simp add: eligible_Inr)
  have same: "set ?es = set es" using es(1) assms(2) by (auto simp: eligible_Inr)
  then have ne: "?es \<noteq> []" using es(3) by (metis set_empty)
  have val: "\<not> list_ex candidate_invalid ?es" using es(2) same by (simp add: list_ex_iff)
  obtain c' where c': "select cs' h = Inr c'" using el ne val by (simp add: select_def)
  note A = select_Inr [OF assms(1)] and B = select_Inr [OF c']
  have "mapping_key c = mapping_key c'"
    using A B assms(2) by (intro order.antisym) auto
  then have "dget c ''mapping_id'' = dget c' ''mapping_id''"
    using candidate_valid_id [OF A(3)] candidate_valid_id [OF B(3)] by (simp add: mapping_key_def)
  then have "c = c'" using A(1) B(1) assms(2,3) by auto
  with c' show ?thesis by simp
qed

section \<open>Closures\<close>

lemma close_Inr:
  "close m r h = Inr h' \<longleftrightarrow> m \<noteq> [] \<and> r \<in> set CLOSURE_REASONS \<and> m \<notin> mapping_id ` set h \<and>
     h' = h @ [mk_closure m r]"
  by (auto simp: close_def list_ex_iff)

fun close_all :: "(string \<times> string) list \<Rightarrow> MappingClosure list \<Rightarrow> MappingClosure list res" where
  "close_all [] h = Inr h"
| "close_all ((m, r) # rest) h = bindR (close m r h) (close_all rest)"

lemma close_all_extends: "close_all ops h = Inr h' \<Longrightarrow> \<exists>new. h' = h @ new \<and> map mapping_id new = map fst ops"
proof (induction ops arbitrary: h)
  case (Cons op ops)
  obtain m r where op: "op = (m, r)" by force
  from Cons.prems obtain h1 where h1: "close m r h = Inr h1" "close_all ops h1 = Inr h'"
    unfolding op by auto
  then obtain new where "h' = h1 @ new" "map mapping_id new = map fst ops" using Cons.IH by blast
  with h1 show ?case by (auto simp: close_Inr op mk_closure_def)
qed simp

lemma close_all_distinct:
  "close_all ops h = Inr h' \<Longrightarrow> distinct (map mapping_id h) \<Longrightarrow> distinct (map mapping_id h')"
proof (induction ops arbitrary: h)
  case (Cons op ops)
  obtain m r where op: "op = (m, r)" by force
  from Cons.prems obtain h1 where h1: "close m r h = Inr h1" "close_all ops h1 = Inr h'"
    unfolding op by auto
  then have "distinct (map mapping_id h1)" using Cons.prems by (auto simp: close_Inr mk_closure_def)
  with h1 Cons.IH show ?case by blast
qed simp

section \<open>Properties\<close>

text \<open>A selected mapping is one of the offered candidates, well formed, not closed, and least in
  (width, latest start, id) among the candidates that are not closed; and offering the same
  candidates in any other order selects the same one.\<close>

theorem select_least_in_any_order:
  assumes "select cs h = Inr c" and "mset cs' = mset cs"
    and "distinct (map (\<lambda>c. dget c ''mapping_id'') cs)"
  shows "c \<in> set cs \<and> \<not> closed_in h c \<and> \<not> candidate_invalid c \<and>
    (\<forall>d \<in> set cs. \<not> closed_in h d \<longrightarrow> mapping_key c \<le> mapping_key d) \<and> select cs' h = Inr c"
proof -
  have "set cs' = set cs" using assms(2) by (metis set_mset_mset)
  then have "select cs' h = Inr c"
    using select_order [OF assms(1)] assms(3) by (auto simp: distinct_map inj_on_def)
  with select_Inr [OF assms(1)] show ?thesis by blast
qed

theorem select_least_in_any_order_witness:
  "let a = [(''mapping_id'', JStr ''m1''), (''width_us'', JInt 5), (''valid_from_us'', JInt 1)];
       b = [(''mapping_id'', JStr ''m2''), (''width_us'', JInt 5), (''valid_from_us'', JInt 9)];
       z = [(''mapping_id'', JStr ''m0''), (''width_us'', JInt 1), (''valid_from_us'', JInt 0)];
       h = [mk_closure ''m0'' ''RTT_EXCEEDED'']
   in select [z, a, b] h = Inr b \<and> select [b, z, a] h = Inr b"
proof -
  define a :: obj where "a = [(''mapping_id'', JStr ''m1''), (''width_us'', JInt 5), (''valid_from_us'', JInt 1)]"
  define b :: obj where "b = [(''mapping_id'', JStr ''m2''), (''width_us'', JInt 5), (''valid_from_us'', JInt 9)]"
  define z :: obj where "z = [(''mapping_id'', JStr ''m0''), (''width_us'', JInt 1), (''valid_from_us'', JInt 0)]"
  define h where "h = [mk_closure ''m0'' ''RTT_EXCEEDED'']"
  have s: "select [z, a, b] h = Inr b"
    by (simp add: select_def eligible_def Let_def a_def b_def z_def h_def mk_closure_def
        candidate_invalid_def mapping_key_def)
  have "select [b, z, a] h = Inr b"
    using select_least_in_any_order [OF s, of "[b, z, a]"] by (simp add: a_def b_def z_def)
  with s show ?thesis by (simp add: Let_def a_def b_def z_def h_def)
qed

text \<open>Closing a mapping is permanent: whatever closures follow, the mapping is never selected
  again, closing it a second time and reopening it both fail, and it stays in the history.\<close>

theorem closed_mapping_is_permanent:
  assumes "close m r h = Inr h1" and "close_all ops h1 = Inr h2"
  shows "(\<forall>cs c. select cs h2 = Inr c \<longrightarrow> dget c ''mapping_id'' \<noteq> JStr m) \<and>
    mk_closure m r \<in> set h2 \<and>
    reopen m h2 = Inl (ValueError ''E_MAPPING_PERMANENTLY_CLOSED'') \<and>
    (\<forall>r'. \<exists>e. close m r' h2 = Inl (ValueError e))"
proof -
  obtain new where new: "h2 = h1 @ new" using close_all_extends [OF assms(2)] by blast
  then have mem: "mk_closure m r \<in> set h2" using assms(1) by (auto simp: close_Inr)
  then have hit: "list_ex (\<lambda>c. mapping_id c = m) h2"
    by (auto simp: list_ex_iff mk_closure_def intro!: bexI [of _ "mk_closure m r"])
  have "dget c ''mapping_id'' \<noteq> JStr m" if "select cs h2 = Inr c" for cs c
    using select_Inr(2) [OF that] hit by (auto simp: closed_in_def list_ex_iff)
  with mem hit show ?thesis by (auto simp: reopen_def close_def)
qed

theorem closed_mapping_is_permanent_witness:
  "reopen ''a'' [mk_closure ''a'' ''RUN_CLOSED'', mk_closure ''b'' ''MAX_DURATION'']
     = Inl (ValueError ''E_MAPPING_PERMANENTLY_CLOSED'')"
proof -
  have 1: "close ''a'' ''RUN_CLOSED'' [] = Inr [mk_closure ''a'' ''RUN_CLOSED'']"
    by (simp add: close_def CLOSURE_REASONS_def)
  have 2: "close_all [(''b'', ''MAX_DURATION'')] [mk_closure ''a'' ''RUN_CLOSED'']
      = Inr [mk_closure ''a'' ''RUN_CLOSED'', mk_closure ''b'' ''MAX_DURATION'']"
    by (simp add: close_def CLOSURE_REASONS_def mk_closure_def)
  show ?thesis using closed_mapping_is_permanent [OF 1 2] by simp
qed

end
