(* ===== verification/Coherence.thy ===== *)
theory Coherence
  imports Py_Prelude
begin

text \<open>
  \<^verbatim>\<open>src/moj_discovery/coherence.py\<close>: the state machine of a coherence controller and the two
  predicates that let it leave the closed states. Requests are the dicts the callers pass; an
  answer is the dict the source returns.
\<close>

definition TRANSITIONS :: "((string \<times> string) \<times> string) list" where
  "TRANSITIONS =
     [((''OPEN'', ''SHOCK_ATOMIC_CLOSE''), ''SHOCKED_CLOSED''),
      ((''NEW_EPOCH_OPEN'', ''SHOCK_ATOMIC_CLOSE''), ''SHOCKED_CLOSED''),
      ((''SHOCKED_CLOSED'', ''CLOSE_RECORDED''), ''WAITING_FOR_RESNAPSHOT''),
      ((''WAITING_FOR_RESNAPSHOT'', ''RESNAPSHOT_CANDIDATE_ACCEPTED''), ''NEW_EPOCH_PENDING''),
      ((''NEW_EPOCH_PENDING'', ''RELEASE_PREDICATE_SATISFIED''), ''NEW_EPOCH_OPEN''),
      ((''NEW_EPOCH_PENDING'', ''NEW_SHOCK_CLOSED_CANDIDATE''), ''WAITING_FOR_RESNAPSHOT'')]"

definition rejected :: "string \<Rightarrow> string \<Rightarrow> obj" where
  "rejected error state =
     [(''accepted'', JBool False), (''error'', JStr error), (''state'', JStr state)]"

text \<open>\<open>[A-Z][A-Z0-9_]*:[0-9a-f]{64}\<close>, matched in full: the colon separates the two parts because
  it belongs to neither class.\<close>

definition artifact_id_text :: "string \<Rightarrow> bool" where
  "artifact_id_text s =
     (let name = takeWhile (\<lambda>c. c \<noteq> CHR '':'') s; rest = dropWhile (\<lambda>c. c \<noteq> CHR '':'') s in
      name \<noteq> [] \<and> is_upper (hd name) \<and> list_all is_name_char name \<and>
      rest \<noteq> [] \<and> hex64 (tl rest))"

definition valid_artifact_id :: "json \<Rightarrow> bool" where
  "valid_artifact_id v = (case v of JStr s \<Rightarrow> artifact_id_text s | _ \<Rightarrow> False)"

definition transition :: "string \<Rightarrow> string \<Rightarrow> string res" where
  "transition state reason = (case map_of TRANSITIONS (state, reason) of
      None \<Rightarrow> Inl (ValueError ''E_INVALID_COHERENCE_TRANSITION'')
    | Some s \<Rightarrow> Inr s)"

definition accept_candidate :: "obj \<Rightarrow> obj" where
  "accept_candidate v =
     (if \<not> (str_is (dget v ''controller_state'') ''WAITING_FOR_RESNAPSHOT'' \<and>
            str_is (dget v ''proof_status'') ''OBSERVED'' \<and>
            is_true (dget v ''proof_verified'') \<and>
            str_is (dget v ''release_predicate'') ''SATISFIED'' \<and>
            is_true (dget v ''predecessor_permanently_closed'') \<and>
            is_true (dget v ''candidate_distinct_from_predecessor'') \<and>
            is_true (dget v ''freshness_binding_verified'') \<and>
            is_true (dget v ''shock_binding_verified'') \<and>
            is_true (dget v ''mapping_bindings_verified'') \<and>
            is_true (dget v ''continuity_bindings_verified''))
      then rejected ''E_RESNAPSHOT_CANDIDATE_BINDING'' ''WAITING_FOR_RESNAPSHOT''
      else [(''accepted'', JBool True), (''error'', JStr ''ACCEPT''), (''state'', JStr ''NEW_EPOCH_PENDING'')])"

text \<open>The ordered tuple \<open>checks\<close> and the loop over it: the first failing check decides.\<close>

definition release_checks :: "obj \<Rightarrow> (bool \<times> string) list" where
  "release_checks v =
     [(str_is (dget v ''football_state'') ''FRESH'', ''E_FOOTBALL_STATE_NOT_FRESH''),
      (str_is (dget v ''operator_state'') ''FRESH'', ''E_OPERATOR_STATE_NOT_FRESH''),
      (str_is (dget v ''market_book'') ''FRESH_COMPLETE_OPEN'', ''E_MARKET_BOOK_NOT_COMPLETE_OPEN''),
      (is_true (dget v ''conservative_lower_bounds_strictly_after_shock_upper''),
       ''E_NOT_STRICTLY_POST_SHOCK''),
      (is_true (dget v ''proof_bound_mappings_open_unclosed_valid_at_release''), ''E_MAPPING_CLOSED''),
      (is_true (dget v ''mappings_valid''), ''E_MAPPING_CLOSED''),
      (is_true (dget v ''identities_orientation_generations_agree''), ''E_IDENTITY_OR_GENERATION_MISMATCH''),
      (is_true (dget v ''cursor_ranges_contiguous''), ''E_CURSOR_NOT_CONTIGUOUS'')]"

fun first_failed :: "(bool \<times> string) list \<Rightarrow> string option" where
  "first_failed [] = None"
| "first_failed ((passed, error) # checks) = (if passed then first_failed checks else Some error)"

definition evaluate_release :: "obj \<Rightarrow> obj" where
  "evaluate_release v =
    (if is_true (dget v ''predecessor_reopen_requested'')
     then rejected ''E_PREDECESSOR_EPOCH_IMMUTABLE'' ''CLOSED_FOREVER''
     else if \<not> str_is (dget v ''controller_state'') ''NEW_EPOCH_PENDING''
     then rejected ''E_INVALID_COHERENCE_TRANSITION'' ''NEW_EPOCH_PENDING''
     else let predecessor_id = dget v ''predecessor_epoch_id''; candidate_id = dget v ''candidate_epoch_id'' in
     if \<not> is_true (dget v ''candidate_created'') \<or> \<not> valid_artifact_id predecessor_id \<or>
        \<not> valid_artifact_id candidate_id
     then rejected ''E_RELEASE_BINDING'' ''NEW_EPOCH_PENDING''
     else if py_eq candidate_id predecessor_id
     then rejected ''E_INVALID_COHERENCE_TRANSITION'' ''NEW_EPOCH_PENDING''
     else if \<not> is_true (dget v ''predecessor_permanently_closed'')
     then rejected ''E_NON_GENESIS_PREDECESSOR_NOT_CLOSED'' ''WAITING_FOR_RESNAPSHOT''
     else if \<not> is_true (dget v ''predecessor_closed'')
     then rejected ''E_PREDECESSOR_NOT_CLOSED'' ''WAITING_FOR_RESNAPSHOT''
     else if \<not> is_true (dget v ''signed_accepted_capability_evidence'')
     then rejected ''E_CAPABILITY_EVIDENCE_NOT_ACCEPTED'' ''WAITING_FOR_RESNAPSHOT''
     else if str_is (dget v ''proof_status'') ''NOT_OBSERVED''
     then rejected ''E_RESNAPSHOT_NOT_OBSERVED'' ''WAITING_FOR_RESNAPSHOT''
     else if \<not> str_is (dget v ''proof_status'') ''OBSERVED'' \<or> \<not> is_true (dget v ''proof_verified'')
     then rejected ''E_RESNAPSHOT_UNKNOWN'' ''WAITING_FOR_RESNAPSHOT''
     else if \<not> str_is (dget v ''snapshot_semantics'') ''FULL_AUTHORITATIVE_SNAPSHOT''
     then rejected ''E_RESNAPSHOT_NOT_OBSERVED'' ''WAITING_FOR_RESNAPSHOT''
     else case first_failed (release_checks v) of
       Some error \<Rightarrow> rejected error ''NEW_EPOCH_PENDING''
     | None \<Rightarrow>
       (if \<not> is_true (dget v ''gap_conflict_schema_lifecycle_mapping_or_later_shock_absent'')
        then (if str_is (dget v ''blocker'') ''LATER_OR_INTERSECTING_SHOCK''
              then rejected ''E_CANDIDATE_CLOSED_BY_NEW_SHOCK'' ''WAITING_FOR_RESNAPSHOT''
              else rejected ''E_RELEASE_BLOCKED'' ''NEW_EPOCH_PENDING'')
        else if \<not> is_true (dget v ''score_period_suspension_and_shock_fields_agree'')
        then rejected ''E_STATE_FIELDS_DISAGREE'' ''NEW_EPOCH_PENDING''
        else if \<not> is_true (dget v ''freshness_bindings_valid_at_release'') \<or>
                \<not> is_true (dget v ''continuity_bindings_valid_at_release'') \<or>
                \<not> is_true (dget v ''proof_bindings_valid'')
        then rejected ''E_RELEASE_BINDING'' ''NEW_EPOCH_PENDING''
        else [(''accepted'', JBool True), (''error'', JStr ''ACCEPT''), (''state'', JStr ''NEW_EPOCH_OPEN''),
              (''predecessor_state'', JStr ''CLOSED_FOREVER''), (''successor_distinct'', JBool True)]))"

section \<open>The state machine\<close>

inductive step :: "string \<Rightarrow> string \<Rightarrow> string \<Rightarrow> bool" where
  taken: "transition s r = Inr t \<Longrightarrow> step s r t"

fun run :: "string \<Rightarrow> string list \<Rightarrow> string res" where
  "run s [] = Inr s"
| "run s (r # rs) = bindR (transition s r) (\<lambda>t. run t rs)"

lemmas transition_defs = transition_def TRANSITIONS_def

inductive_simps step_iff: "step s r t"

lemma transition_mem: "transition s r = Inr t \<Longrightarrow> ((s, r), t) \<in> set TRANSITIONS"
  by (auto simp: transition_def dest: map_of_SomeD split: option.splits)

text \<open>A property of every entry of the table is a property of every step.\<close>

lemma transition_all:
  assumes "list_all (\<lambda>((s, r), t). P s r t) TRANSITIONS" and "transition s r = Inr t"
  shows "P s r t"
  using assms(1) transition_mem [OF assms(2)] by (auto simp: list_all_iff)

text \<open>How often a run shocks an open epoch and how often it opens a new one.\<close>

definition shock_count :: "string list \<Rightarrow> nat" where
  "shock_count rs = length (filter (\<lambda>r. r = ''SHOCK_ATOMIC_CLOSE'') rs)"

definition release_count :: "string list \<Rightarrow> nat" where
  "release_count rs = length (filter (\<lambda>r. r = ''RELEASE_PREDICATE_SATISFIED'') rs)"

definition is_open :: "string \<Rightarrow> bool" where
  "is_open s \<longleftrightarrow> s = ''OPEN'' \<or> s = ''NEW_EPOCH_OPEN''"

lemma step_counts:
  "transition s r = Inr t \<Longrightarrow>
     shock_count [r] + (if is_open t then 1 else 0) = release_count [r] + (if is_open s then 1 else (0::nat))"
  by (rule transition_all, code_simp)

lemma count_Cons:
  "shock_count (r # rs) = shock_count [r] + shock_count rs" "release_count (r # rs) = release_count [r] + release_count rs"
  by (simp_all add: shock_count_def release_count_def)

lemma run_counts:
  "run s rs = Inr t \<Longrightarrow>
     shock_count rs + (if is_open t then 1 else 0) = release_count rs + (if is_open s then 1 else (0::nat))"
proof (induction rs arbitrary: s)
  case Nil
  then show ?case by (simp add: shock_count_def release_count_def)
next
  case (Cons r rs)
  then obtain u where u: "transition s r = Inr u" and rest: "run u rs = Inr t" by auto
  from Cons.IH [OF rest] step_counts [OF u] show ?case by (simp add: count_Cons [of r rs])
qed

text \<open>Each release consumes an earlier acceptance of a resnapshot candidate.\<close>

definition acceptance_count :: "string list \<Rightarrow> nat" where
  "acceptance_count rs = length (filter (\<lambda>r. r = ''RESNAPSHOT_CANDIDATE_ACCEPTED'') rs)"

definition pending :: "string \<Rightarrow> nat" where
  "pending s = (if s = ''NEW_EPOCH_PENDING'' then 1 else 0)"

lemma step_acceptances:
  "transition s r = Inr t \<Longrightarrow> release_count [r] + pending t \<le> acceptance_count [r] + pending s"
  by (rule transition_all, code_simp)

lemma run_acceptances:
  "run s rs = Inr t \<Longrightarrow> release_count rs + pending t \<le> acceptance_count rs + pending s"
proof (induction rs arbitrary: s)
  case Nil
  then show ?case by (simp add: acceptance_count_def release_count_def)
next
  case (Cons r rs)
  then obtain u where u: "transition s r = Inr u" and rest: "run u rs = Inr t" by auto
  have "acceptance_count (r # rs) = acceptance_count [r] + acceptance_count rs" by (simp add: acceptance_count_def)
  with Cons.IH [OF rest] step_acceptances [OF u] show ?case by (simp add: count_Cons [of r rs])
qed

lemma step_not_open: "transition s r = Inr t \<Longrightarrow> t \<noteq> ''OPEN''"
  by (rule transition_all, code_simp)

lemma never_back_to_open: "run s rs = Inr t \<Longrightarrow> rs \<noteq> [] \<Longrightarrow> t \<noteq> ''OPEN''"
proof (induction rs arbitrary: s)
  case (Cons r rs)
  then obtain u where u: "transition s r = Inr u" and rest: "run u rs = Inr t" by auto
  show ?case
  proof (cases "rs = []")
    case True
    with rest step_not_open [OF u] show ?thesis by simp
  next
    case False
    with rest Cons.IH show ?thesis by blast
  qed
qed simp

text \<open>C4: In every run of the controller the original epoch is never reopened, every epoch opened
  after the first was preceded by its own shock, and every release by its own accepted resnapshot
  candidate.\<close>

theorem controller_reopens_only_new_epochs:
  assumes "run ''OPEN'' rs = Inr t" and "rs \<noteq> []"
  shows "t \<noteq> ''OPEN'' \<and> release_count rs \<le> shock_count rs \<and> shock_count rs \<le> release_count rs + 1 \<and>
    (is_open t \<longleftrightarrow> shock_count rs = release_count rs) \<and> release_count rs \<le> acceptance_count rs"
proof -
  have "is_open ''OPEN''" and "pending ''OPEN'' = 0" by (simp_all add: is_open_def pending_def)
  with never_back_to_open [OF assms] run_counts [OF assms(1)] run_acceptances [OF assms(1)]
  show ?thesis by (cases "is_open t") simp_all
qed

theorem controller_reopens_only_new_epochs_witness:
  "let rs = [''SHOCK_ATOMIC_CLOSE'', ''CLOSE_RECORDED'', ''RESNAPSHOT_CANDIDATE_ACCEPTED'',
             ''NEW_SHOCK_CLOSED_CANDIDATE'', ''RESNAPSHOT_CANDIDATE_ACCEPTED'', ''RELEASE_PREDICATE_SATISFIED'']
   in run ''OPEN'' rs = Inr ''NEW_EPOCH_OPEN'' \<and> shock_count rs = release_count rs \<and> release_count rs < acceptance_count rs"
proof -
  have r: "run ''OPEN'' [''SHOCK_ATOMIC_CLOSE'', ''CLOSE_RECORDED'', ''RESNAPSHOT_CANDIDATE_ACCEPTED'',
             ''NEW_SHOCK_CLOSED_CANDIDATE'', ''RESNAPSHOT_CANDIDATE_ACCEPTED'', ''RELEASE_PREDICATE_SATISFIED'']
      = Inr ''NEW_EPOCH_OPEN''"
    by (simp add: transition_defs)
  show ?thesis
    using controller_reopens_only_new_epochs [OF r] r
    by (simp add: is_open_def acceptance_count_def release_count_def)
qed

section \<open>The release predicate\<close>

definition release_flags :: "string list" where
  "release_flags =
     [''candidate_created'', ''predecessor_permanently_closed'', ''predecessor_closed'',
      ''signed_accepted_capability_evidence'', ''proof_verified'',
      ''conservative_lower_bounds_strictly_after_shock_upper'',
      ''proof_bound_mappings_open_unclosed_valid_at_release'', ''mappings_valid'',
      ''identities_orientation_generations_agree'', ''cursor_ranges_contiguous'',
      ''gap_conflict_schema_lifecycle_mapping_or_later_shock_absent'',
      ''score_period_suspension_and_shock_fields_agree'', ''freshness_bindings_valid_at_release'',
      ''continuity_bindings_valid_at_release'', ''proof_bindings_valid'']"

definition release_ready :: "obj \<Rightarrow> bool" where
  "release_ready v \<longleftrightarrow>
     \<not> is_true (dget v ''predecessor_reopen_requested'') \<and>
     str_is (dget v ''controller_state'') ''NEW_EPOCH_PENDING'' \<and>
     valid_artifact_id (dget v ''predecessor_epoch_id'') \<and>
     valid_artifact_id (dget v ''candidate_epoch_id'') \<and>
     \<not> py_eq (dget v ''candidate_epoch_id'') (dget v ''predecessor_epoch_id'') \<and>
     str_is (dget v ''proof_status'') ''OBSERVED'' \<and>
     str_is (dget v ''snapshot_semantics'') ''FULL_AUTHORITATIVE_SNAPSHOT'' \<and>
     str_is (dget v ''football_state'') ''FRESH'' \<and> str_is (dget v ''operator_state'') ''FRESH'' \<and>
     str_is (dget v ''market_book'') ''FRESH_COMPLETE_OPEN'' \<and>
     list_all (\<lambda>k. is_true (dget v k)) release_flags"

lemma rejected_fields [simp]:
  "dget (rejected e s) ''accepted'' = JBool False" "dget (rejected e s) ''error'' = JStr e"
  "dget (rejected e s) ''state'' = JStr s"
  by (simp_all add: rejected_def)

lemma first_failed_None: "first_failed cs = None \<longleftrightarrow> list_all fst cs"
  by (induction cs rule: first_failed.induct) auto

text \<open>The chain of early returns, collapsed from the inside out.\<close>

lemma accepted_if:
  "dget (if c then rejected e s else d) ''accepted'' = (if c then JBool False else dget d ''accepted'')"
  by simp

lemma accepted_checks:
  "dget (case first_failed cs of None \<Rightarrow> d | Some e \<Rightarrow> rejected e s) ''accepted''
     = (if \<not> list_all fst cs then JBool False else dget d ''accepted'')"
  by (auto simp flip: first_failed_None split: option.splits)

lemma accepted_if_rejected:
  "dget (if c then (if b then rejected e s else rejected e' s') else d) ''accepted''
     = (if c then JBool False else dget d ''accepted'')"
  by simp

lemma collapse_if: "(if c then JBool False else JBool b) = JBool (\<not> c \<and> b)"
  by simp

lemmas accepted_collapse = accepted_if accepted_if_rejected accepted_checks collapse_if

lemma release_decision: "dget (evaluate_release v) ''accepted'' = JBool (release_ready v)"
proof -
  have acc: "dget [(''accepted'', JBool True), (''error'', JStr ''ACCEPT''), (''state'', JStr ''NEW_EPOCH_OPEN''),
      (''predecessor_state'', JStr ''CLOSED_FOREVER''), (''successor_distinct'', JBool True)] ''accepted'' = JBool True"
    by simp
  show ?thesis
    unfolding evaluate_release_def Let_def release_ready_def release_flags_def release_checks_def
      accepted_collapse acc list.pred_inject fst_conv json.inject
    by (rule iffI; elim conjE; simp)
qed

lemma release_state_open:
  "release_ready v \<Longrightarrow> dget (evaluate_release v) ''state'' = JStr ''NEW_EPOCH_OPEN''"
  by (simp add: evaluate_release_def Let_def release_checks_def release_ready_def release_flags_def)

text \<open>The release predicate answers with accepted = True exactly when every listed condition on
  the request holds (the reference predicate), whatever the order in which the source tests them;
  the state it then answers is the one the transition table gives for a satisfied release.\<close>

theorem release_iff_ready:
  "dget (evaluate_release v) ''accepted'' = JBool (release_ready v) \<and>
   (release_ready v \<longleftrightarrow>
     transition ''NEW_EPOCH_PENDING'' ''RELEASE_PREDICATE_SATISFIED'' =
       Inr (the_str (dget (evaluate_release v) ''state'')) \<and>
     dget (evaluate_release v) ''accepted'' = JBool True)"
proof -
  have t: "transition ''NEW_EPOCH_PENDING'' ''RELEASE_PREDICATE_SATISFIED'' = Inr ''NEW_EPOCH_OPEN''"
    by (simp add: transition_defs)
  show ?thesis
    using release_decision [of v] release_state_open [of v] unfolding t by auto
qed

end
