(* ===== verification/Canonical.thy ===== *)
theory Canonical
  imports Py_Prelude
begin

text \<open>
  \<^verbatim>\<open>src/moj_discovery/canonical.py\<close>: strict JSON reading, and the canonical content hash of an
  artifact under the domain and the exclusions that the registry declares for its type.

  What the source imports is a parameter, collected in \<open>ext\<close>: \<open>json_loads\<close> is the value
  \<open>json.loads\<close> builds from bytes that decode as UTF-8 (repeated names still present),
  \<open>nfc\<close> is \<open>unicodedata.normalize\<close>, \<open>sha256\<close> the hexadecimal digest of \<open>hashlib\<close>, and \<open>jcs\<close>
  the third-party \<open>rfc8785.dumps\<close>, which raises on values outside its number domain.
\<close>

record ext =
  json_loads :: "string \<Rightarrow> json option"
  nfc :: "string \<Rightarrow> string"
  sha256 :: "string \<Rightarrow> string"
  jcs :: "json \<Rightarrow> string res"

definition UTF8_BOM :: string where
  "UTF8_BOM = [CHR 0xEF, CHR 0xBB, CHR 0xBF]"

text \<open>\<open>_unique_object\<close>, called by the parser for every object, innermost first.\<close>

fun unique_names :: "json \<Rightarrow> bool" where
  "unique_names (JArr xs) = list_all unique_names xs"
| "unique_names (JObj d) = (list_all (\<lambda>(k, v). unique_names v) d \<and> distinct (dkeys d))"
| "unique_names _ = True"

text \<open>\<open>_validate_unicode\<close>: code points below 256 are never surrogates, so only the
  normalisation test remains.\<close>

fun unicode_ok :: "ext \<Rightarrow> json \<Rightarrow> bool" where
  "unicode_ok X (JStr s) = (nfc X s = s)"
| "unicode_ok X (JArr xs) = list_all (unicode_ok X) xs"
| "unicode_ok X (JObj d) = list_all (\<lambda>(k, v). nfc X k = k \<and> unicode_ok X v) d"
| "unicode_ok X _ = True"

definition validate_unicode :: "ext \<Rightarrow> json \<Rightarrow> unit res" where
  "validate_unicode X v = raise_if (\<not> unicode_ok X v) (CanonicalError ''NON_NFC_OR_INVALID_UNICODE'')"

definition parse_strict_json :: "ext \<Rightarrow> string \<Rightarrow> json res" where
  "parse_strict_json X raw =
     (if starts_with raw UTF8_BOM then Inl (CanonicalError ''MALFORMED_UTF8_OR_JSON'')
      else case json_loads X raw of
        None \<Rightarrow> Inl (CanonicalError ''MALFORMED_UTF8_OR_JSON'')
      | Some v \<Rightarrow>
          if \<not> unique_names v then Inl (CanonicalError ''DUPLICATE_JSON_KEY'')
          else bindR (validate_unicode X v) (\<lambda>_. Inr v))"

text \<open>\<open>isinstance(item, dict) and isinstance(item.get("artifact_types"), list) and t in \<dots>\<close>.\<close>

definition lists_type :: "string \<Rightarrow> json \<Rightarrow> bool" where
  "lists_type t item = (case item of
      JObj d \<Rightarrow> (case dget d ''artifact_types'' of JArr ts \<Rightarrow> list_ex (\<lambda>v. py_eq v (JStr t)) ts | _ \<Rightarrow> False)
    | _ \<Rightarrow> False)"

abbreviation UNREGISTERED :: exn where
  "UNREGISTERED \<equiv> CanonicalError ''UNREGISTERED_HASH_EXCLUSION''"

definition validate_registered_exclusions :: "string \<Rightarrow> json \<Rightarrow> obj \<Rightarrow> unit res" where
  "validate_registered_exclusions artifact_type exclusions registry =
     (case (dget registry ''domain_validation_classes'', dget registry ''schema_binding_groups'') of
        (JArr classes, JArr groups) \<Rightarrow>
          (case filter (lists_type artifact_type) classes of
             [JObj class_match] \<Rightarrow>
               (let class_id = dget class_match ''class_id'' in
                if str_is class_id ''GOVERNED_NO_EXCLUSION''
                then raise_if (truthy exclusions) UNREGISTERED
                else if \<not> str_is class_id ''SCHEMA_GATED_SELF_HASH'' then Inl UNREGISTERED
                else case filter (lists_type artifact_type) groups of
                  [JObj group_match] \<Rightarrow>
                    (let registered = dget group_match ''required_excluded_json_pointers'' in
                     raise_if (\<not> is_list registered \<or> \<not> py_eq exclusions registered) UNREGISTERED)
                | _ \<Rightarrow> Inl UNREGISTERED)
           | _ \<Rightarrow> Inl UNREGISTERED)
      | _ \<Rightarrow> Inl UNREGISTERED)"

text \<open>\<open>_domain\<close>; the cache keyed by the complete source bytes does not change its result.\<close>

definition domain :: "ext \<Rightarrow> string \<Rightarrow> string \<Rightarrow> (string \<times> json list) res" where
  "domain X registry_bytes artifact_type =
     bindR (parse_strict_json X registry_bytes) (\<lambda>v.
     bindR (as_object v) (\<lambda>registry.
     bindR (ditem registry ''domains'') (\<lambda>ds.
     bindR (iter_values ds) (\<lambda>entries.
     bindR (filterR (\<lambda>entry. bindR (jitem entry ''artifact_type'') (\<lambda>t. Inr (py_eq t (JStr artifact_type)))) entries)
       (\<lambda>matches. case matches of
          [entry] \<Rightarrow>
            bindR (jitem entry ''excluded_json_pointers'') (\<lambda>exclusions.
            bindR (validate_registered_exclusions artifact_type exclusions registry) (\<lambda>_.
            bindR (jitem entry ''domain'') (\<lambda>dom. case dom of
                JStr d \<Rightarrow> bindR (iter_values exclusions) (\<lambda>ps. Inr (d, ps))
              | _ \<Rightarrow> Inl (CanonicalError ''SCHEMA_INVALID''))))
        | _ \<Rightarrow> Inl (CanonicalError ''UNSUPPORTED_VERSION_OR_ALGORITHM''))))))"

text \<open>One step of the projection loop: \<open>pointer.count("/")\<close> exists for strings and lists only.\<close>

definition exclude :: "obj \<Rightarrow> json \<Rightarrow> obj res" where
  "exclude projected pointer = (case pointer of
      JStr p \<Rightarrow>
        if count_list p CHR ''/'' \<noteq> 1 then Inl UNREGISTERED
        else let key = pointer_unescape (drop 1 p) in
             if \<not> dhas projected key then Inl (CanonicalError ''SCHEMA_INVALID_BEFORE_CANONICAL_HASH'')
             else Inr (ddel key projected)
    | JArr xs \<Rightarrow> if length (filter (\<lambda>v. py_eq v (JStr ''/'')) xs) \<noteq> 1 then Inl UNREGISTERED else Inl AttributeError
    | _ \<Rightarrow> Inl AttributeError)"

definition canonical_preimage :: "ext \<Rightarrow> string \<Rightarrow> string \<Rightarrow> json \<Rightarrow> string res" where
  "canonical_preimage X registry_bytes artifact_type value =
     bindR (domain X registry_bytes artifact_type) (\<lambda>(prefix, exclusions). case value of
        JObj d \<Rightarrow>
          bindR (foldR exclude d exclusions) (\<lambda>projected.
          bindR (validate_unicode X (JObj projected)) (\<lambda>_.
          bindR (jcs X (JObj projected)) (\<lambda>canonical. Inr (prefix @ canonical))))
      | _ \<Rightarrow> Inl (CanonicalError ''SCHEMA_INVALID''))"

definition canonical_content_hash :: "ext \<Rightarrow> string \<Rightarrow> string \<Rightarrow> json \<Rightarrow> string res" where
  "canonical_content_hash X registry_bytes artifact_type value =
     bindR (canonical_preimage X registry_bytes artifact_type value) (\<lambda>p. Inr (sha256 X p))"

definition verify_canonical_content_hash :: "ext \<Rightarrow> string \<Rightarrow> string \<Rightarrow> json \<Rightarrow> string \<Rightarrow> unit res" where
  "verify_canonical_content_hash X registry_bytes artifact_type value expected_hash =
     bindR (canonical_content_hash X registry_bytes artifact_type value) (\<lambda>computed.
       raise_if (computed \<noteq> expected_hash) (CanonicalError ''CONTENT_HASH_MISMATCH''))"

section \<open>What the hash depends on\<close>

definition pointer_key :: "json \<Rightarrow> string" where
  "pointer_key p = pointer_unescape (drop 1 (the_str p))"

lemma exclude_Inr: "exclude d p = Inr d' \<Longrightarrow> d' = ddel (pointer_key p) d \<and> dhas d (pointer_key p)"
  by (auto simp: exclude_def pointer_key_def Let_def split: json.splits if_splits)

lemma exclude_cong:
  "exclude d p = Inr d' \<Longrightarrow> dhas e (pointer_key p) \<Longrightarrow> exclude e p = Inr (ddel (pointer_key p) e)"
  by (auto simp: exclude_def pointer_key_def Let_def split: json.splits if_splits)

lemma ddel_dput_same: "ddel k (dput k v d) = ddel k d"
  by (induction k v d rule: dput.induct) auto

lemma ddel_dput_other: "k \<noteq> k' \<Longrightarrow> ddel k (dput k' v d) = dput k' v (ddel k d)"
  by (induction k' v d rule: dput.induct) auto

lemma dhas_dput: "dhas (dput k v d) k' \<longleftrightarrow> k' = k \<or> dhas d k'"
  by (auto simp: dhas_def map_of_dput)

lemma dhas_ddel: "dhas (ddel k d) k' \<longleftrightarrow> k' \<noteq> k \<and> dhas d k'"
  by (auto simp: dhas_def map_of_ddel)

lemma foldR_exclude_dput:
  assumes "foldR exclude d ps = Inr r" and "k \<in> pointer_key ` set ps"
  shows "foldR exclude (dput k v d) ps = Inr r"
  using assms
proof (induction ps arbitrary: d)
  case (Cons p ps)
  then obtain d1 where d1: "exclude d p = Inr d1" "foldR exclude d1 ps = Inr r" by auto
  note E = exclude_Inr [OF d1(1)]
  have has: "dhas (dput k v d) (pointer_key p)" using E by (simp add: dhas_dput)
  have step: "exclude (dput k v d) p = Inr (ddel (pointer_key p) (dput k v d))"
    by (rule exclude_cong [OF d1(1) has])
  show ?case
  proof (cases "k = pointer_key p")
    case True
    then show ?thesis using step d1 E by (simp add: ddel_dput_same)
  next
    case False
    then have "foldR exclude (dput k v d1) ps = Inr r" using Cons d1(2) by auto
    then show ?thesis using step E False by (simp add: ddel_dput_other)
  qed
qed simp

text \<open>A field that the registry excludes from the preimage of an artifact type (its own
  content_hash, its signature) can be rewritten to any value without changing the canonical
  content hash, so the hash of a record can be stored in the record itself.\<close>

theorem hash_ignores_excluded_field:
  assumes "canonical_content_hash X R t (JObj d) = Inr h"
    and "domain X R t = Inr (dm, ps)" and "k \<in> pointer_key ` set ps"
  shows "canonical_content_hash X R t (JObj (dput k v d)) = Inr h"
proof -
  obtain r where r: "foldR exclude d ps = Inr r"
    using assms(1,2) by (auto simp: canonical_content_hash_def canonical_preimage_def)
  have "foldR exclude (dput k v d) ps = Inr r" by (rule foldR_exclude_dput [OF r assms(3)])
  with r assms(1,2) show ?thesis
    by (simp add: canonical_content_hash_def canonical_preimage_def)
qed

text \<open>A record whose hash field is filled with its own hash passes verification.\<close>

lemma seal_then_verify:
  assumes "canonical_content_hash X R t (JObj d) = Inr h" and "domain X R t = Inr (dm, ps)"
    and "k \<in> pointer_key ` set ps"
  shows "verify_canonical_content_hash X R t (JObj (dput k (JStr h) d)) h = Inr ()"
  using hash_ignores_excluded_field [OF assms, of "JStr h"]
  by (simp add: verify_canonical_content_hash_def)

text \<open>A registry with one self-hashed type, and readable stand-ins for the imported functions.\<close>

definition demo_registry :: json where
  "demo_registry = JObj
     [(''domains'', JArr [JObj [(''artifact_type'', JStr ''T''), (''domain'', JStr ''D''),
         (''excluded_json_pointers'', JArr [JStr ''/content_hash''])]]),
      (''domain_validation_classes'', JArr [JObj [(''class_id'', JStr ''SCHEMA_GATED_SELF_HASH''),
         (''artifact_types'', JArr [JStr ''T''])]]),
      (''schema_binding_groups'', JArr [JObj [(''artifact_types'', JArr [JStr ''T'']),
         (''required_excluded_json_pointers'', JArr [JStr ''/content_hash''])]])]"

definition demo_ext :: ext where
  "demo_ext = \<lparr>json_loads = (\<lambda>_. Some demo_registry), nfc = (\<lambda>s. s), sha256 = (\<lambda>s. s),
               jcs = (\<lambda>v. Inr (py_repr v))\<rparr>"

theorem hash_ignores_excluded_field_witness:
  "canonical_content_hash demo_ext [] ''T'' (JObj [(''a'', JInt 1), (''content_hash'', JStr ''h'')])
     = canonical_content_hash demo_ext [] ''T'' (JObj [(''a'', JInt 1), (''content_hash'', JNull)])"
proof -
  let ?h = "''D'' @ py_repr (JObj [(''a'', JInt 1)])"
  have p: "pointer_unescape ''content_hash'' = ''content_hash''" by code_simp
  have d: "domain demo_ext [] ''T'' = Inr (''D'', [JStr ''/content_hash''])" by code_simp
  have h: "canonical_content_hash demo_ext [] ''T'' (JObj [(''a'', JInt 1), (''content_hash'', JStr ''h'')]) = Inr ?h"
    by code_simp
  show ?thesis
    using hash_ignores_excluded_field [OF h d, of "''content_hash''" JNull] h
    by (simp add: pointer_key_def p)
qed

end
