(* ===== verification/Store.thy ===== *)
theory Store
  imports Canonical
begin

text \<open>
  \<^verbatim>\<open>src/moj_discovery/store.py\<close> and the tables of
  \<^verbatim>\<open>vendor/hybrid-discovery-v6.3.6/sql/discovery-store-v1.sql\<close> that it governs: one record per
  table, the database as the record of its tables, and \<open>validate_journal\<close>, the check of the
  durable chain that opens every transaction.

  \<open>stream\<close> is the column group (run_id, browser_run_id, producer_id, stream_id) and \<open>position\<close>
  the group \<open>KEY\<close> of the source, which adds the generation. Columns that a CHECK constraint fixes
  to one value (\<open>cursor_hash_verified\<close>, \<open>chain_verified\<close>, \<open>bindings_verified\<close>,
  \<open>application_status\<close>) are left out of the records.
\<close>

type_synonym stream = "string \<times> string \<times> string \<times> string"
type_synonym position = "stream \<times> int"

section \<open>Tables\<close>

record run_meta =
  m_run :: string
  m_status :: string
  m_authorization :: string
  m_pack_hash :: string
  m_build_hash :: string
  m_created_at :: int
  m_closed_at :: "int option"

record raw_commit =
  r_id :: string
  r_key :: position
  r_seq :: int
  r_observation :: string
  r_hash :: string
  r_prev :: string
  r_cursor :: string
  r_disposition :: string
  r_at :: int

record raw_conflict =
  x_id :: string
  x_existing :: string
  x_key :: position
  x_seq :: int
  x_observation :: string
  x_hash :: string
  x_at :: int

record application =
  a_id :: string
  a_raw :: string
  a_key :: position
  a_seq :: int
  a_hash :: string
  a_input :: string
  a_at :: int

record revision =
  v_id :: string
  v_application :: string
  v_raw :: string
  v_key :: position
  v_seq :: int
  v_revision :: int
  v_prev :: "string option"
  v_hash :: string
  v_at :: int

record reducer_cursor =
  c_id :: string
  c_revision :: string
  c_key :: position
  c_seq :: int
  c_prev :: string
  c_cursor :: string
  c_hash :: string
  c_at :: int

record ack =
  o_id :: string
  o_raw :: string
  o_application :: string
  o_revision :: string
  o_reducer :: string
  o_key :: position
  o_seq :: int
  o_cursor :: string
  o_at :: int

record ack_cursor =
  k_id :: string
  k_key :: position
  k_owner :: string
  k_seq :: int
  k_cursor :: string
  k_against :: string
  k_prev :: "string option"
  k_at :: int

record stream_generation =
  g_id :: string
  g_stream :: stream
  g_generation :: int
  g_predecessor :: "int option"
  g_state :: string
  g_opened_at :: int
  g_closed_at :: "int option"
  g_reason :: "string option"

record gap_record =
  p_id :: string
  p_stream :: stream
  p_predecessor :: int
  p_successor :: int
  p_from :: int
  p_to :: int
  p_detected :: int
  p_reason :: string
  p_repair :: string
  p_blocked_after :: int
  p_at :: int

record gap_binding =
  b_id :: string
  b_gap :: string
  b_epoch :: string
  b_controller :: string
  b_shock :: string
  b_transition :: string
  b_role :: string
  b_at :: int

record generation_transition =
  n_id :: string
  n_gap :: string
  n_stream :: stream
  n_predecessor :: int
  n_successor :: int
  n_reason :: string
  n_at :: int

record shock =
  s_id :: string
  s_run :: string
  s_fixture :: string
  s_type :: string
  s_lower :: int
  s_upper :: int
  s_evidence :: string
  s_at :: int

record controller =
  l_id :: string
  l_run :: string
  l_fixture :: string
  l_state :: string
  l_epoch :: string
  l_candidate :: "string option"
  l_predecessor :: "string option"
  l_shock :: "string option"
  l_revision :: int
  l_at :: int

record epoch =
  e_id :: string
  e_run :: string
  e_fixture :: string
  e_generation :: int
  e_predecessor :: "string option"
  e_status :: string
  e_freshness :: "string option"
  e_proof :: "string option"
  e_at :: int
  e_predecessor_closed :: int

record coherence_transition =
  t_id :: string
  t_controller :: string
  t_fixture :: string
  t_from :: string
  t_to :: string
  t_epoch :: string
  t_candidate :: "string option"
  t_shock :: "string option"
  t_freshness :: "string option"
  t_proof :: "string option"
  t_reason :: string
  t_at :: int

record db =
  run_metas :: "run_meta list"
  raws :: "raw_commit list"
  conflicts :: "raw_conflict list"
  apps :: "application list"
  revs :: "revision list"
  cursors :: "reducer_cursor list"
  acks :: "ack list"
  ack_cursors :: "ack_cursor list"
  generations :: "stream_generation list"
  gaps :: "gap_record list"
  bindings :: "gap_binding list"
  gen_transitions :: "generation_transition list"
  epochs :: "epoch list"
  controllers :: "controller list"
  transitions :: "coherence_transition list"
  shocks :: "shock list"

definition empty_db :: db where
  "empty_db = \<lparr>run_metas = [], raws = [], conflicts = [], apps = [], revs = [], cursors = [], acks = [],
     ack_cursors = [], generations = [], gaps = [], bindings = [], gen_transitions = [], epochs = [],
     controllers = [], transitions = [], shocks = []\<rparr>"

text \<open>\<open>fetchone\<close>: the first row that satisfies the condition.\<close>

abbreviation fetchone :: "('a \<Rightarrow> bool) \<Rightarrow> 'a list \<Rightarrow> 'a option" where
  "fetchone \<equiv> List.find"

text \<open>\<open>ORDER BY n DESC LIMIT 1\<close>.\<close>

definition fetch_highest :: "('a \<Rightarrow> int) \<Rightarrow> ('a \<Rightarrow> bool) \<Rightarrow> 'a list \<Rightarrow> 'a option" where
  "fetch_highest n p rows = (case filter p rows of [] \<Rightarrow> None | r # rs \<Rightarrow> Some (arg_min_list (\<lambda>x. - n x) (r # rs)))"

section \<open>The cursor digest\<close>

text \<open>The inherited contract fixes one universal seed.\<close>

definition H0 :: string where
  "H0 = ''149300a0e3954885a1d6c0f13a9d1101227cc21cce37bd6b7c72eab641741c0c''"

definition cursor_step :: "position \<Rightarrow> int \<Rightarrow> string \<Rightarrow> string \<Rightarrow> json" where
  "cursor_step key sequence raw_hash previous = (case key of ((run, browser, producer, stream), generation) \<Rightarrow>
     JObj [(''schema_version'', JStr ''cursor-step/v1''),
           (''discovery_run_id'', JStr run),
           (''browser_run_id'', JStr browser),
           (''producer_id'', JStr producer),
           (''stream_id'', JStr stream),
           (''generation'', JStr (str_int generation)),
           (''sequence'', JStr (str_int sequence)),
           (''raw_observation_hash'', JStr raw_hash),
           (''previous_cursor_hash'', JStr previous)])"

definition cursor_digest :: "ext \<Rightarrow> string \<Rightarrow> position \<Rightarrow> int \<Rightarrow> string \<Rightarrow> string \<Rightarrow> string res" where
  "cursor_digest X R key sequence raw_hash previous =
     canonical_content_hash X R ''CursorStep'' (cursor_step key sequence raw_hash previous)"

section \<open>The durable chain\<close>

definition applied :: "db \<Rightarrow> raw_commit list" where
  "applied d = filter (\<lambda>r. r_disposition r = ''APPLIED'') (raws d)"

text \<open>The row of a linked table at a position.\<close>

definition app_at :: "db \<Rightarrow> position \<Rightarrow> int \<Rightarrow> application option" where
  "app_at d k n = List.find (\<lambda>r. (a_key r, a_seq r) = (k, n)) (apps d)"

definition rev_at :: "db \<Rightarrow> position \<Rightarrow> int \<Rightarrow> revision option" where
  "rev_at d k n = List.find (\<lambda>r. (v_key r, v_seq r) = (k, n)) (revs d)"

definition cursor_at :: "db \<Rightarrow> position \<Rightarrow> int \<Rightarrow> reducer_cursor option" where
  "cursor_at d k n = List.find (\<lambda>r. (c_key r, c_seq r) = (k, n)) (cursors d)"

definition ack_at :: "db \<Rightarrow> position \<Rightarrow> int \<Rightarrow> ack option" where
  "ack_at d k n = List.find (\<lambda>r. (o_key r, o_seq r) = (k, n)) (acks d)"

abbreviation E_DURABLE_CHAIN :: exn where
  "E_DURABLE_CHAIN \<equiv> ValueError ''E_STORE_DURABLE_CHAIN''"

abbreviation E_ACK_CHAIN :: exn where
  "E_ACK_CHAIN \<equiv> ValueError ''E_STORE_ACK_CHAIN''"

text \<open>The long conjunction over the four rows that belong to one applied observation.\<close>

definition linked :: "raw_commit \<Rightarrow> application \<Rightarrow> revision \<Rightarrow> reducer_cursor \<Rightarrow> ack \<Rightarrow> int \<Rightarrow> string \<Rightarrow> string \<Rightarrow> bool" where
  "linked raw app revision cursor a sequence prior digest \<longleftrightarrow>
     a_raw app = v_raw revision \<and> v_raw revision = o_raw a \<and> o_raw a = r_id raw \<and>
     v_application revision = o_application a \<and> o_application a = a_id app \<and>
     c_revision cursor = o_revision a \<and> o_revision a = v_id revision \<and>
     o_reducer a = c_id cursor \<and>
     a_input app = c_prev cursor \<and> c_prev cursor = prior \<and>
     a_hash app = c_hash cursor \<and> c_hash cursor = r_hash raw \<and>
     c_cursor cursor = o_cursor a \<and> o_cursor a = v_hash revision \<and> v_hash revision = digest \<and>
     v_revision revision = sequence + 1 \<and>
     v_prev revision = (if sequence = 0 then None else Some prior)"

definition chain_step :: "ext \<Rightarrow> string \<Rightarrow> db \<Rightarrow> (int \<times> string) option \<Rightarrow> raw_commit \<Rightarrow> (int \<times> string) res" where
  "chain_step X R d s raw =
     (let (sequence, prior) = (case s of None \<Rightarrow> (0, H0) | Some p \<Rightarrow> p); key = r_key raw in
      bindR (cursor_digest X R key (r_seq raw) (r_hash raw) prior) (\<lambda>digest.
        if (r_seq raw, r_prev raw, r_cursor raw) \<noteq> (sequence + 1, prior, digest) then Inl E_DURABLE_CHAIN
        else case (app_at d key (sequence + 1), rev_at d key (sequence + 1),
                   cursor_at d key (sequence + 1), ack_at d key (sequence + 1)) of
          (Some app, Some revision, Some cursor, Some a) \<Rightarrow>
            if linked raw app revision cursor a sequence prior digest then Inr (sequence + 1, digest)
            else Inl E_DURABLE_CHAIN
        | _ \<Rightarrow> Inl E_DURABLE_CHAIN))"

definition required_binding :: "string \<Rightarrow> string option" where
  "required_binding owner = (if owner = ''BACKEND'' then Some ''BACKEND_DURABLE_CHAIN''
     else if owner = ''EXTENSION'' then Some ''LOCAL_SPOOL_CHAIN'' else None)"

definition ack_valid :: "db \<Rightarrow> ack_cursor option \<Rightarrow> ack_cursor \<Rightarrow> bool" where
  "ack_valid d previous a \<longleftrightarrow>
     (if k_seq a = 0 then previous = None \<and> k_prev a = None \<and> k_cursor a = H0
      else k_prev a = map_option k_id previous \<and>
           (case previous of None \<Rightarrow> True | Some p \<Rightarrow> k_seq p < k_seq a) \<and>
           map_option o_cursor (ack_at d (k_key a) (k_seq a)) = Some (k_cursor a))"

definition ack_step :: "db \<Rightarrow> ack_cursor option \<Rightarrow> ack_cursor \<Rightarrow> ack_cursor res" where
  "ack_step d previous a =
     (if Some (k_against a) \<noteq> required_binding (k_owner a) then Inl E_ACK_CHAIN
      else if \<not> ack_valid d previous a then Inl E_ACK_CHAIN else Inr a)"

definition positions_ok :: "db \<Rightarrow> bool" where
  "positions_ok d \<longleftrightarrow> distinct (map (\<lambda>r. (a_key r, a_seq r)) (apps d)) \<and>
     distinct (map (\<lambda>r. (v_key r, v_seq r)) (revs d)) \<and>
     distinct (map (\<lambda>r. (c_key r, c_seq r)) (cursors d)) \<and>
     distinct (map (\<lambda>r. (o_key r, o_seq r)) (acks d))"

definition lengths_ok :: "db \<Rightarrow> bool" where
  "lengths_ok d \<longleftrightarrow> (let n = length (applied d) in
     length (apps d) = n \<and> length (revs d) = n \<and> length (cursors d) = n \<and> length (acks d) = n)"

definition raw_order :: "raw_commit \<Rightarrow> position \<times> int" where
  "raw_order r = (r_key r, r_seq r)"

definition ack_order :: "ack_cursor \<Rightarrow> position \<times> string \<times> int" where
  "ack_order a = (k_key a, k_owner a, k_seq a)"

definition owner_key :: "ack_cursor \<Rightarrow> position \<times> string" where
  "owner_key a = (k_key a, k_owner a)"

definition validate_journal :: "ext \<Rightarrow> string \<Rightarrow> db \<Rightarrow> unit res" where
  "validate_journal X R d =
     bindR (raise_if (\<not> lengths_ok d) E_DURABLE_CHAIN) (\<lambda>_.
     bindR (raise_if (\<not> positions_ok d) E_DURABLE_CHAIN) (\<lambda>_.
     bindR (keyed_loop r_key (chain_step X R d) Map.empty (sort_key raw_order (applied d))) (\<lambda>_.
     bindR (keyed_loop owner_key (ack_step d) Map.empty (sort_key ack_order (ack_cursors d))) (\<lambda>_.
       Inr ()))))"

end
