(* ===== verification/Store_Chain.thy ===== *)
theory Store_Chain
  imports Store
begin

text \<open>
  What \<open>validate_journal\<close> establishes, per stream position. The loop over all rows with one state
  per key is the same as one run per key (\<open>keyed_loop_succeeds\<close>), so a valid journal is: for every
  position a gapless chain 1..n of applied observations, each linked to exactly one application,
  revision, reducer cursor and acknowledgement, whose last digest is the cursor with the highest
  sequence; and for every owner a strictly increasing history of confirmations.
\<close>

section \<open>Rows by position\<close>

definition position_of :: "(int \<times> string) option \<Rightarrow> int \<times> string" where
  "position_of s = (case s of None \<Rightarrow> (0, H0) | Some p \<Rightarrow> p)"

lemma position_of_simps [simp]: "position_of None = (0, H0)" "position_of (Some p) = p"
  by (simp_all add: position_of_def)

definition applied_at :: "db \<Rightarrow> position \<Rightarrow> raw_commit list" where
  "applied_at d k = sort_key raw_order (filter (\<lambda>r. r_key r = k) (applied d))"

definition acks_of :: "db \<Rightarrow> position \<times> string \<Rightarrow> ack_cursor list" where
  "acks_of d k = sort_key ack_order (filter (\<lambda>a. owner_key a = k) (ack_cursors d))"

text \<open>The end of the chain at a position, read off the reducer cursors as the ingest code does.\<close>

definition top_cursor :: "db \<Rightarrow> position \<Rightarrow> reducer_cursor option" where
  "top_cursor d k = fetch_highest c_seq (\<lambda>c. c_key c = k) (cursors d)"

definition stream_head :: "db \<Rightarrow> position \<Rightarrow> int \<times> string" where
  "stream_head d k = (case top_cursor d k of None \<Rightarrow> (0, H0) | Some c \<Rightarrow> (c_seq c, c_cursor c))"

lemma applied_at_keys: "r \<in> set (applied_at d k) \<Longrightarrow> r_key r = k"
  by (simp add: applied_at_def)

lemma validate_journal_iff:
  "validate_journal X R d = Inr () \<longleftrightarrow> lengths_ok d \<and> positions_ok d \<and>
     (\<forall>k. \<exists>s. chain_run (chain_step X R d) None (applied_at d k) = Inr s) \<and>
     (\<forall>k. \<exists>s. chain_run (ack_step d) None (acks_of d k) = Inr s)"
proof -
  have "(\<exists>st. keyed_loop r_key (chain_step X R d) Map.empty (sort_key raw_order (applied d)) = Inr st) \<longleftrightarrow>
      (\<forall>k. \<exists>s. chain_run (chain_step X R d) None (applied_at d k) = Inr s)"
    by (simp add: keyed_loop_succeeds filter_sort_key applied_at_def)
  moreover have "(\<exists>st. keyed_loop owner_key (ack_step d) Map.empty (sort_key ack_order (ack_cursors d)) = Inr st) \<longleftrightarrow>
      (\<forall>k. \<exists>s. chain_run (ack_step d) None (acks_of d k) = Inr s)"
    by (simp add: keyed_loop_succeeds filter_sort_key acks_of_def)
  ultimately show ?thesis unfolding validate_journal_def by auto
qed

section \<open>One step\<close>

lemma chain_step_Inr:
  "chain_step X R d s raw = Inr t \<longleftrightarrow>
     fst t = fst (position_of s) + 1 \<and> r_seq raw = fst t \<and> r_prev raw = snd (position_of s) \<and> r_cursor raw = snd t \<and>
     cursor_digest X R (r_key raw) (fst t) (r_hash raw) (snd (position_of s)) = Inr (snd t) \<and>
     (\<exists>app v c a. app_at d (r_key raw) (fst t) = Some app \<and> rev_at d (r_key raw) (fst t) = Some v \<and>
        cursor_at d (r_key raw) (fst t) = Some c \<and> ack_at d (r_key raw) (fst t) = Some a \<and>
        linked raw app v c a (fst (position_of s)) (snd (position_of s)) (snd t))"
proof (cases "position_of s")
  case (Pair n h)
  then have s: "(case s of None \<Rightarrow> (0, H0) | Some p \<Rightarrow> p) = (n, h)" by (simp add: position_of_def)
  show ?thesis
    unfolding chain_step_def s Pair
    by (cases t) (auto simp: Let_def split: option.splits if_splits)
qed

text \<open>Looking a row up among rows with distinct positions.\<close>

lemma find_append: "List.find P (xs @ ys) = (case List.find P xs of None \<Rightarrow> List.find P ys | Some x \<Rightarrow> Some x)"
  by (induction xs) auto

lemma find_Some_set: "List.find P xs = Some x \<Longrightarrow> x \<in> set xs \<and> P x"
  by (auto simp: find_Some_iff)

lemma find_unique:
  assumes "distinct (map f xs)" and "x \<in> set xs"
  shows "List.find (\<lambda>y. f y = f x) xs = Some x"
  using assms by (induction xs) (auto simp: image_iff)

lemma chain_seqs:
  assumes "chain_run (chain_step X R d) s rs = Inr t"
  shows "map r_seq rs = map (\<lambda>i. fst (position_of s) + 1 + int i) [0..<length rs] \<and>
         fst (position_of t) = fst (position_of s) + int (length rs)"
  using assms
proof (induction rs arbitrary: s)
  case (Cons r rs)
  then obtain u where u: "chain_step X R d s r = Inr u" "chain_run (chain_step X R d) (Some u) rs = Inr t" by auto
  from u(1) have f: "fst u = fst (position_of s) + 1" "r_seq r = fst u" by (auto simp: chain_step_Inr)
  have "map (\<lambda>i. fst u + 1 + int i) [0..<length rs] =
      map (\<lambda>i. fst (position_of s) + 1 + int i) (map Suc [0..<length rs])"
    using f by simp
  then have "map (\<lambda>i. fst u + 1 + int i) [0..<length rs] =
      map (\<lambda>i. fst (position_of s) + 1 + int i) [Suc 0..<Suc (length rs)]"
    by (simp only: map_Suc_upt)
  moreover have "[0..<length (r # rs)] = 0 # [Suc 0..<Suc (length rs)]"
    by (simp add: upt_conv_Cons del: upt_Suc)
  ultimately show ?case using Cons.IH [OF u(2)] f by simp
qed simp

lemma chain_run_last:
  assumes "chain_run step s (rs @ [r]) = Inr t"
  obtains u w where "chain_run step s rs = Inr u" and "step u r = Inr w" and "t = Some w"
  using assms by (auto simp: chain_run_append)

lemma chain_member:
  assumes "chain_run (chain_step X R d) s rs = Inr t" and "r \<in> set rs"
  shows "\<exists>app v c a h. app_at d (r_key r) (r_seq r) = Some app \<and> rev_at d (r_key r) (r_seq r) = Some v \<and>
     cursor_at d (r_key r) (r_seq r) = Some c \<and> ack_at d (r_key r) (r_seq r) = Some a \<and>
     cursor_digest X R (r_key r) (r_seq r) (r_hash r) (r_prev r) = Inr (r_cursor r) \<and>
     linked r app v c a (r_seq r - 1) (r_prev r) (r_cursor r)"
  using assms
proof (induction rs arbitrary: s)
  case (Cons x rs)
  then obtain u where u: "chain_step X R d s x = Inr u" "chain_run (chain_step X R d) (Some u) rs = Inr t" by auto
  show ?case
  proof (cases "r = x")
    case True
    with u(1) show ?thesis by (auto simp: chain_step_Inr)
  next
    case False
    with Cons.IH [OF u(2)] Cons.prems show ?thesis by simp
  qed
qed simp

section \<open>The highest row\<close>

lemma fetch_highest_None: "fetch_highest n p rows = None \<longleftrightarrow> (\<forall>x \<in> set rows. \<not> p x)"
proof -
  have "fetch_highest n p rows = None \<longleftrightarrow> filter p rows = []"
    by (simp add: fetch_highest_def split: list.split)
  then show ?thesis by (simp add: filter_empty_conv)
qed

lemma fetch_highest_Some:
  assumes "fetch_highest n p rows = Some r"
  shows "r \<in> set rows \<and> p r \<and> (\<forall>x \<in> set rows. p x \<longrightarrow> n x \<le> n r)"
proof -
  let ?f = "filter p rows"
  have ne: "?f \<noteq> []" and r: "r = arg_min_list (\<lambda>x. - n x) ?f"
    using assms by (auto simp: fetch_highest_def split: list.splits)
  have "r \<in> set ?f" using arg_min_list_in [OF ne] r by simp
  moreover have "- n r = Min ((\<lambda>x. - n x) ` set ?f)" using f_arg_min_list_f [OF ne] r by simp
  then have "- n r \<le> - n x" if "x \<in> set ?f" for x using that by simp
  ultimately show ?thesis by auto
qed

lemma fetch_highest_eqI:
  assumes "r \<in> set rows" and "p r" and "\<And>x. x \<in> set rows \<Longrightarrow> p x \<Longrightarrow> x = r \<or> n x < n r"
  shows "fetch_highest n p rows = Some r"
proof (cases "fetch_highest n p rows")
  case None
  with assms(1,2) show ?thesis by (auto simp: fetch_highest_None)
next
  case (Some q)
  from fetch_highest_Some [OF this] assms have "q = r" by (metis not_less)
  with Some show ?thesis by simp
qed

section \<open>The five tables hold the same positions\<close>

lemma distinct_pairs:
  "(\<And>k. distinct (map g (filter (\<lambda>x. f x = k) xs))) \<Longrightarrow> distinct (map (\<lambda>x. (f x, g x)) xs)"
proof (induction xs)
  case (Cons x xs)
  have "distinct (map g (filter (\<lambda>x. f x = k) xs))" for k
    using Cons.prems [of k] by (auto split: if_splits)
  moreover have "g x \<notin> g ` {y \<in> set xs. f y = f x}" using Cons.prems [of "f x"] by auto
  ultimately show ?case using Cons.IH by auto
qed simp

lemma distinct_map_sort: "distinct (map g (sort_key f xs)) = distinct (map g xs)"
proof -
  have "mset (map g (sort_key f xs)) = mset (map g xs)" by simp
  then show ?thesis by (rule mset_eq_imp_distinct_iff)
qed

lemma same_positions:
  assumes "distinct (map f xs)" and "distinct (map g ys)" and "length xs = length ys"
    and "set (map f xs) \<subseteq> set (map g ys)"
  shows "set (map f xs) = set (map g ys)"
  using assms by (intro card_subset_eq) (simp_all only: distinct_card length_map List.finite_set)

lemma journal_lengths: "validate_journal X R d = Inr () \<Longrightarrow> lengths_ok d"
  and journal_positions: "validate_journal X R d = Inr () \<Longrightarrow> positions_ok d"
  by (simp_all add: validate_journal_iff)

lemma journal_chain:
  assumes V: "validate_journal X R d = Inr ()"
  obtains s where "chain_run (chain_step X R d) None (applied_at d k) = Inr s"
proof -
  have "\<forall>k. \<exists>s. chain_run (chain_step X R d) None (applied_at d k) = Inr s"
    using V unfolding validate_journal_iff by (elim conjE)
  then show ?thesis using that by (elim allE [of _ k] exE)
qed

lemma journal_seqs:
  assumes V: "validate_journal X R d = Inr ()"
  shows "map r_seq (applied_at d k) = map (\<lambda>i. 1 + int i) [0..<length (applied_at d k)]"
proof -
  obtain s where "chain_run (chain_step X R d) None (applied_at d k) = Inr s" by (rule journal_chain [OF V])
  from chain_seqs [OF this] show ?thesis by simp
qed

lemma journal_seq_range:
  assumes V: "validate_journal X R d = Inr ()"
  shows "r_seq ` set (applied_at d k) = {1..int (length (applied_at d k))}"
proof -
  have "set (map r_seq (applied_at d k)) = set (map (\<lambda>i. 1 + int i) [0..<length (applied_at d k)])"
    by (simp only: journal_seqs [OF V])
  also have "\<dots> = {1..int (length (applied_at d k))}"
  proof -
    have "x \<in> (\<lambda>i. 1 + int i) ` {0..<n}" if "1 \<le> x" "x \<le> int n" for x n
      using that by (intro image_eqI [of _ _ "nat (x - 1)"]) auto
    then show ?thesis by auto
  qed
  finally show ?thesis by simp
qed

lemma journal_applied_distinct:
  assumes V: "validate_journal X R d = Inr ()"
  shows "distinct (map (\<lambda>r. (r_key r, r_seq r)) (applied d))"
proof (rule distinct_pairs)
  fix k
  have "distinct (map r_seq (applied_at d k))" by (simp add: journal_seqs [OF V] distinct_map inj_on_def)
  then show "distinct (map r_seq (filter (\<lambda>x. r_key x = k) (applied d)))"
    by (simp add: applied_at_def distinct_map_sort)
qed

lemma journal_member:
  assumes V: "validate_journal X R d = Inr ()" and "r \<in> set (applied d)"
  obtains app v c a where "app_at d (r_key r) (r_seq r) = Some app" "rev_at d (r_key r) (r_seq r) = Some v"
    "cursor_at d (r_key r) (r_seq r) = Some c" "ack_at d (r_key r) (r_seq r) = Some a"
    "linked r app v c a (r_seq r - 1) (r_prev r) (r_cursor r)"
    "cursor_digest X R (r_key r) (r_seq r) (r_hash r) (r_prev r) = Inr (r_cursor r)"
proof -
  obtain s where "chain_run (chain_step X R d) None (applied_at d (r_key r)) = Inr s" by (rule journal_chain [OF V])
  from chain_member [OF this, of r] assms that show ?thesis by (auto simp: applied_at_def)
qed

lemma table_positions:
  assumes V: "validate_journal X R d = Inr ()" and "distinct (map f rows)" and "length rows = length (applied d)"
    and "\<And>r. r \<in> set (applied d) \<Longrightarrow> \<exists>y. List.find (\<lambda>y. f y = (r_key r, r_seq r)) rows = Some y"
  shows "f ` set rows = (\<lambda>r. (r_key r, r_seq r)) ` set (applied d)"
proof -
  have "set (map (\<lambda>r. (r_key r, r_seq r)) (applied d)) = set (map f rows)"
  proof (rule same_positions [OF journal_applied_distinct [OF V] assms(2)])
    show "length (applied d) = length rows" using assms(3) by simp
    have "(r_key r, r_seq r) \<in> f ` set rows" if r: "r \<in> set (applied d)" for r
    proof -
      obtain y where "List.find (\<lambda>y. f y = (r_key r, r_seq r)) rows = Some y" using assms(4) [OF r] by blast
      from find_Some_set [OF this] show ?thesis by force
    qed
    then show "set (map (\<lambda>r. (r_key r, r_seq r)) (applied d)) \<subseteq> set (map f rows)" by auto
  qed
  then show ?thesis by simp
qed

lemma cursor_positions:
  assumes V: "validate_journal X R d = Inr ()"
  shows "(\<lambda>r. (c_key r, c_seq r)) ` set (cursors d) = (\<lambda>r. (r_key r, r_seq r)) ` set (applied d)"
  using journal_lengths [OF V] journal_positions [OF V]
  by (intro table_positions [OF V]) (auto simp: lengths_ok_def positions_ok_def Let_def cursor_at_def intro: journal_member [OF V])

lemma ack_positions:
  assumes V: "validate_journal X R d = Inr ()"
  shows "(\<lambda>r. (o_key r, o_seq r)) ` set (acks d) = (\<lambda>r. (r_key r, r_seq r)) ` set (applied d)"
  using journal_lengths [OF V] journal_positions [OF V]
  by (intro table_positions [OF V]) (auto simp: lengths_ok_def positions_ok_def Let_def ack_at_def intro: journal_member [OF V])

lemma app_positions:
  assumes V: "validate_journal X R d = Inr ()"
  shows "(\<lambda>r. (a_key r, a_seq r)) ` set (apps d) = (\<lambda>r. (r_key r, r_seq r)) ` set (applied d)"
  using journal_lengths [OF V] journal_positions [OF V]
  by (intro table_positions [OF V]) (auto simp: lengths_ok_def positions_ok_def Let_def app_at_def intro: journal_member [OF V])

lemma rev_positions:
  assumes V: "validate_journal X R d = Inr ()"
  shows "(\<lambda>r. (v_key r, v_seq r)) ` set (revs d) = (\<lambda>r. (r_key r, r_seq r)) ` set (applied d)"
  using journal_lengths [OF V] journal_positions [OF V]
  by (intro table_positions [OF V]) (auto simp: lengths_ok_def positions_ok_def Let_def rev_at_def intro: journal_member [OF V])

lemma cursor_applied:
  assumes V: "validate_journal X R d = Inr ()" and c: "c \<in> set (cursors d)"
  obtains r where "r \<in> set (applied d)" "r_key r = c_key c" "r_seq r = c_seq c" "c_cursor c = r_cursor r"
    "c_hash c = r_hash r" "c_prev c = r_prev r"
proof -
  have "(c_key c, c_seq c) \<in> (\<lambda>r. (r_key r, r_seq r)) ` set (applied d)"
    unfolding cursor_positions [OF V, symmetric] using c by auto
  then obtain r where r: "r \<in> set (applied d)" "r_key r = c_key c" "r_seq r = c_seq c" by auto
  have "distinct (map (\<lambda>r. (c_key r, c_seq r)) (cursors d))" using journal_positions [OF V] by (simp add: positions_ok_def)
  from find_unique [OF this c] have "cursor_at d (r_key r) (r_seq r) = Some c"
    by (simp add: cursor_at_def r)
  with journal_member [OF V r(1)] have "c_cursor c = r_cursor r \<and> c_hash c = r_hash r \<and> c_prev c = r_prev r"
    unfolding linked_def by (metis option.inject)
  with r that show ?thesis by blast
qed

lemma cursor_seq_pos:
  assumes V: "validate_journal X R d = Inr ()" and c: "c \<in> set (cursors d)"
  shows "1 \<le> c_seq c \<and> c_seq c \<le> int (length (applied_at d (c_key c)))"
proof -
  from V c obtain r where r: "r \<in> set (applied d)" "r_key r = c_key c" "r_seq r = c_seq c" by (rule cursor_applied)
  then have "r \<in> set (applied_at d (c_key c))" by (simp add: applied_at_def)
  then have "r_seq r \<in> {1..int (length (applied_at d (c_key c)))}" using journal_seq_range [OF V] by blast
  with r show ?thesis by simp
qed

lemma head_of_chain:
  assumes V: "validate_journal X R d = Inr ()"
    and s: "chain_run (chain_step X R d) None (applied_at d k) = Inr s"
  shows "position_of s = stream_head d k" and "s = None \<longleftrightarrow> top_cursor d k = None"
proof -
  have "position_of s = stream_head d k \<and> (s = None \<longleftrightarrow> top_cursor d k = None)"
  proof (cases "applied_at d k" rule: rev_cases)
    case Nil
    then have "\<forall>c \<in> set (cursors d). c_key c \<noteq> k" using cursor_seq_pos [OF V] by fastforce
    then have "top_cursor d k = None" by (simp add: top_cursor_def fetch_highest_None)
    with s Nil show ?thesis by (simp add: stream_head_def)
  next
    case (snoc rs r)
    with s obtain u w where w: "chain_step X R d u r = Inr w" "s = Some w" by (metis chain_run_last)
    have len: "fst w = int (length (applied_at d k))" using chain_seqs [OF s] w by simp
    have rk: "r_key r = k" using snoc applied_at_keys [of r d k] by simp
    obtain c where c: "cursor_at d k (fst w) = Some c" "c_cursor c = snd w"
      using w rk by (auto simp: chain_step_Inr linked_def)
    then have cs: "c \<in> set (cursors d)" "c_key c = k" "c_seq c = fst w"
      by (auto simp: cursor_at_def dest!: find_Some_set)
    have "top_cursor d k = Some c" unfolding top_cursor_def
    proof (rule fetch_highest_eqI)
      show "c \<in> set (cursors d)" and "c_key c = k" by (fact cs)+
      fix x assume x: "x \<in> set (cursors d)" "c_key x = k"
      have "c_seq x \<le> c_seq c" using cursor_seq_pos [OF V x(1)] x cs len by simp
      moreover have "x = c" if "c_seq x = c_seq c"
      proof -
        have "distinct (map (\<lambda>r. (c_key r, c_seq r)) (cursors d))" using journal_positions [OF V] by (simp add: positions_ok_def)
        then show ?thesis using x cs that by (auto simp: distinct_map inj_on_def)
      qed
      ultimately show "x = c \<or> c_seq x < c_seq c" by linarith
    qed
    then show ?thesis using w c cs by (cases w) (simp add: stream_head_def)
  qed
  then show "position_of s = stream_head d k" and "s = None \<longleftrightarrow> top_cursor d k = None" by simp_all
qed

lemma head_length:
  assumes V: "validate_journal X R d = Inr ()"
  shows "fst (stream_head d k) = int (length (applied_at d k))"
proof -
  obtain s where s: "chain_run (chain_step X R d) None (applied_at d k) = Inr s" by (rule journal_chain [OF V])
  show ?thesis using chain_seqs [OF s] head_of_chain(1) [OF V s] by simp
qed

lemma head_free:
  assumes V: "validate_journal X R d = Inr ()"
  shows "(k, fst (stream_head d k) + 1) \<notin> (\<lambda>r. (r_key r, r_seq r)) ` set (applied d)"
proof
  assume "(k, fst (stream_head d k) + 1) \<in> (\<lambda>r. (r_key r, r_seq r)) ` set (applied d)"
  then obtain r where "r \<in> set (applied_at d k)" "r_seq r = fst (stream_head d k) + 1"
    by (auto simp: applied_at_def)
  moreover from this(1) have "r_seq r \<in> {1..int (length (applied_at d k))}" using journal_seq_range [OF V] by blast
  ultimately show False by (simp add: head_length [OF V])
qed

lemma chain_run_mono:
  assumes "\<And>s r t. step s r = Inr t \<Longrightarrow> step' s r = Inr t" and "chain_run step s rs = Inr t"
  shows "chain_run step' s rs = Inr t"
  using assms(2) by (induction rs arbitrary: s) (auto simp: assms(1))

text \<open>Appending rows to the linked tables keeps every earlier step valid.\<close>

lemma chain_step_mono:
  assumes "apps e = apps d @ as" "revs e = revs d @ vs" "cursors e = cursors d @ cs" "acks e = acks d @ os"
    and "chain_step X R d s r = Inr t"
  shows "chain_step X R e s r = Inr t"
proof -
  have "app_at d k n = Some x \<Longrightarrow> app_at e k n = Some x" "rev_at d k n = Some y \<Longrightarrow> rev_at e k n = Some y"
    "cursor_at d k n = Some z \<Longrightarrow> cursor_at e k n = Some z" "ack_at d k n = Some w \<Longrightarrow> ack_at e k n = Some w"
    for k n x y z w
    using assms(1-4) by (simp_all add: app_at_def rev_at_def cursor_at_def ack_at_def find_append)
  with assms(5) show ?thesis unfolding chain_step_Inr by blast
qed

lemma ack_step_mono:
  assumes "acks e = acks d @ os" and "ack_step d s a = Inr t"
  shows "ack_step e s a = Inr t"
proof -
  have "map_option o_cursor (ack_at d k n) = Some c \<Longrightarrow> map_option o_cursor (ack_at e k n) = Some c" for k n c
    using assms(1) by (auto simp: ack_at_def find_append)
  with assms(2) show ?thesis by (auto simp: ack_step_def ack_valid_def split: if_splits)
qed

lemma find_new:
  assumes "f y \<notin> f ` set xs" shows "List.find (\<lambda>x. f x = f y) (xs @ [y]) = Some y"
proof -
  have "List.find (\<lambda>x. f x = f y) xs = None" using assms by (fastforce simp: find_None_iff image_iff)
  then show ?thesis by (simp add: find_append)
qed

lemma applied_at_append:
  assumes "applied e = applied d @ [raw]" and "\<And>r. r \<in> set (applied_at d (r_key raw)) \<Longrightarrow> r_seq r < r_seq raw"
  shows "applied_at e k = applied_at d k @ (if k = r_key raw then [raw] else [])"
proof (cases "k = r_key raw")
  case True
  have "sort_key raw_order (filter (\<lambda>r. r_key r = k) (applied d) @ [raw]) = applied_at d k @ [raw]"
    unfolding applied_at_def
  proof (rule sort_key_append_last)
    fix x assume x: "x \<in> set (filter (\<lambda>r. r_key r = k) (applied d))"
    then have "r_seq x < r_seq raw" using assms(2) True by (simp add: applied_at_def)
    with x True show "raw_order x < raw_order raw" by (simp add: raw_order_def)
  qed
  then show ?thesis using assms(1) True by (simp add: applied_at_def)
next
  case False
  then show ?thesis using assms(1) by (simp add: applied_at_def)
qed

lemma journal_extends:
  assumes V: "validate_journal X R d = Inr ()"
    and tables: "applied e = applied d @ [raw]" "apps e = apps d @ [app]" "revs e = revs d @ [v]"
      "cursors e = cursors d @ [c]" "acks e = acks d @ [a]" "ack_cursors e = ack_cursors d"
    and keys: "r_key raw = k" "a_key app = k" "v_key v = k" "c_key c = k" "o_key a = k"
    and seqs: "r_seq raw = n + 1" "a_seq app = n + 1" "v_seq v = n + 1" "c_seq c = n + 1" "o_seq a = n + 1"
    and head: "stream_head d k = (n, h)" "r_prev raw = h" "r_cursor raw = g"
    and digest: "cursor_digest X R k (n + 1) (r_hash raw) h = Inr g"
    and linked: "linked raw app v c a n h g"
  shows "validate_journal X R e = Inr ()"
proof -
  let ?p = "(k, n + 1)"
  note T = app_positions [OF V] rev_positions [OF V] cursor_positions [OF V] ack_positions [OF V]
  have free: "?p \<notin> (\<lambda>r. (r_key r, r_seq r)) ` set (applied d)" using head_free [OF V, of k] head by simp
  have here: "app_at e k (n + 1) = Some app" "rev_at e k (n + 1) = Some v"
    "cursor_at e k (n + 1) = Some c" "ack_at e k (n + 1) = Some a"
    using find_new [of "\<lambda>r. (a_key r, a_seq r)" app "apps d"] find_new [of "\<lambda>r. (v_key r, v_seq r)" v "revs d"]
      find_new [of "\<lambda>r. (c_key r, c_seq r)" c "cursors d"] find_new [of "\<lambda>r. (o_key r, o_seq r)" a "acks d"]
      free keys seqs tables
    by (simp_all add: app_at_def rev_at_def cursor_at_def ack_at_def T)
  show ?thesis
  proof (unfold validate_journal_iff, intro conjI allI)
    show "lengths_ok e" using journal_lengths [OF V] tables by (simp add: lengths_ok_def Let_def)
    have "?p \<notin> (\<lambda>r. (a_key r, a_seq r)) ` set (apps d)" "?p \<notin> (\<lambda>r. (v_key r, v_seq r)) ` set (revs d)"
      "?p \<notin> (\<lambda>r. (c_key r, c_seq r)) ` set (cursors d)" "?p \<notin> (\<lambda>r. (o_key r, o_seq r)) ` set (acks d)"
      unfolding T by (fact free)+
    then show "positions_ok e" using journal_positions [OF V] tables keys seqs by (simp add: positions_ok_def)
  next
    fix j
    obtain s where s: "chain_run (chain_step X R d) None (applied_at d j) = Inr s" by (rule journal_chain [OF V])
    have old: "chain_run (chain_step X R e) None (applied_at d j) = Inr s"
      by (rule chain_run_mono [OF chain_step_mono s]) (use tables in simp_all)
    have bound: "r_seq r < r_seq raw" if "r \<in> set (applied_at d (r_key raw))" for r
    proof -
      have "r_seq r \<in> {1..int (length (applied_at d k))}" using that journal_seq_range [OF V, of k] keys by auto
      then show ?thesis using head_length [OF V, of k] head seqs by simp
    qed
    show "\<exists>s. chain_run (chain_step X R e) None (applied_at e j) = Inr s"
    proof (cases "j = k")
      case True
      have "position_of s = (n, h)" using head_of_chain(1) [OF V s] True head by simp
      then have "chain_step X R e s raw = Inr (n + 1, g)"
        using here keys seqs head digest linked by (auto simp: chain_step_Inr)
      then show ?thesis
        using old True keys applied_at_append [OF tables(1) bound] by (simp add: chain_run_append)
    next
      case False
      then show ?thesis using old keys applied_at_append [OF tables(1) bound] by simp
    qed
  next
    fix j
    have eq: "acks_of e j = acks_of d j" using tables by (simp add: acks_of_def)
    have "\<forall>k. \<exists>s. chain_run (ack_step d) None (acks_of d k) = Inr s"
      using V unfolding validate_journal_iff by (elim conjE)
    then obtain s where s: "chain_run (ack_step d) None (acks_of d j) = Inr s" by (elim allE [of _ j] exE)
    have "chain_run (ack_step e) None (acks_of d j) = Inr s"
      by (rule chain_run_mono [OF _ s]) (rule ack_step_mono [OF tables(5)])
    then show "\<exists>s. chain_run (ack_step e) None (acks_of e j) = Inr s" unfolding eq by (rule exI)
  qed
qed

text \<open>Only the six tables of the chain matter.\<close>

lemma validate_journal_cong:
  assumes "applied e = applied d" "apps e = apps d" "revs e = revs d" "cursors e = cursors d"
    "acks e = acks d" "ack_cursors e = ack_cursors d"
  shows "validate_journal X R e = validate_journal X R d"
proof -
  have L: "app_at e = app_at d" "rev_at e = rev_at d" "cursor_at e = cursor_at d" "ack_at e = ack_at d"
    using assms by (simp_all add: fun_eq_iff app_at_def rev_at_def cursor_at_def ack_at_def)
  have "chain_step X R e = chain_step X R d" unfolding fun_eq_iff chain_step_def L by (intro allI refl)
  moreover have "ack_step e = ack_step d" unfolding fun_eq_iff ack_step_def ack_valid_def L by (intro allI refl)
  ultimately show ?thesis using assms
    by (simp add: validate_journal_def lengths_ok_def positions_ok_def)
qed

section \<open>Confirmations\<close>

definition top_ack :: "db \<Rightarrow> position \<times> string \<Rightarrow> ack_cursor option" where
  "top_ack d k = fetch_highest k_seq (\<lambda>a. owner_key a = k) (ack_cursors d)"

lemma ack_step_Inr:
  "ack_step d s a = Inr t \<longleftrightarrow> t = a \<and> Some (k_against a) = required_binding (k_owner a) \<and> ack_valid d s a"
  by (auto simp: ack_step_def)

lemma ack_history:
  assumes "chain_run (ack_step d) s rs = Inr t"
  shows "t = (if rs = [] then s else Some (last rs)) \<and> sorted_wrt (\<lambda>a b. k_seq a < k_seq b) rs \<and>
         (\<forall>p. s = Some p \<longrightarrow> (\<forall>a \<in> set rs. k_seq p < k_seq a))"
  using assms
proof (induction rs arbitrary: s)
  case (Cons a rs)
  then have v: "ack_valid d s a" and run: "chain_run (ack_step d) (Some a) rs = Inr t"
    by (auto simp: ack_step_Inr)
  note IH = Cons.IH [OF run]
  have "k_seq p < k_seq a" if "s = Some p" for p
    using v that by (auto simp: ack_valid_def split: if_splits)
  with IH show ?case by (auto intro: less_trans)
qed simp

lemma acks_of_head:
  assumes "chain_run (ack_step d) None (acks_of d k) = Inr s"
  shows "s = top_ack d k"
proof (cases "acks_of d k" rule: rev_cases)
  case Nil
  then have "set (acks_of d k) = {}" by simp
  then have "\<forall>a \<in> set (ack_cursors d). owner_key a \<noteq> k" by (auto simp: acks_of_def)
  then have "top_ack d k = None" by (simp add: top_ack_def fetch_highest_None)
  with assms Nil show ?thesis by simp
next
  case (snoc rs a)
  note H = ack_history [OF assms]
  have mem: "x \<in> set (acks_of d k) \<longleftrightarrow> x \<in> set (ack_cursors d) \<and> owner_key x = k" for x
    by (auto simp: acks_of_def)
  have a: "a \<in> set (ack_cursors d)" "owner_key a = k" using snoc mem [of a] by auto
  have "top_ack d k = Some a" unfolding top_ack_def
  proof (rule fetch_highest_eqI)
    show "a \<in> set (ack_cursors d)" and "owner_key a = k" by (fact a)+
    fix x assume "x \<in> set (ack_cursors d)" "owner_key x = k"
    with mem [of x] snoc H show "x = a \<or> k_seq x < k_seq a" by (auto simp: sorted_wrt_append)
  qed
  with H snoc show ?thesis by simp
qed

lemma acks_of_append:
  assumes "ack_cursors e = ack_cursors d @ [a]"
    and "\<And>x. x \<in> set (acks_of d (owner_key a)) \<Longrightarrow> k_seq x < k_seq a"
  shows "acks_of e k = acks_of d k @ (if k = owner_key a then [a] else [])"
proof (cases "k = owner_key a")
  case True
  have "sort_key ack_order (filter (\<lambda>x. owner_key x = k) (ack_cursors d) @ [a]) = acks_of d k @ [a]"
    unfolding acks_of_def
  proof (rule sort_key_append_last)
    fix x assume x: "x \<in> set (filter (\<lambda>x. owner_key x = k) (ack_cursors d))"
    then have "k_seq x < k_seq a" using assms(2) True by (simp add: acks_of_def)
    with x True show "ack_order x < ack_order a" by (simp add: ack_order_def owner_key_def)
  qed
  then show ?thesis using assms(1) True by (simp add: acks_of_def)
next
  case False
  then show ?thesis using assms(1) by (simp add: acks_of_def)
qed

lemma confirmation_extends:
  assumes V: "validate_journal X R d = Inr ()"
    and tables: "applied e = applied d" "apps e = apps d" "revs e = revs d" "cursors e = cursors d"
      "acks e = acks d" "ack_cursors e = ack_cursors d @ [a]"
    and owner: "Some (k_against a) = required_binding (k_owner a)"
    and prev: "k_prev a = map_option k_id (top_ack d (owner_key a))"
    and higher: "\<And>p. top_ack d (owner_key a) = Some p \<Longrightarrow> k_seq p < k_seq a"
    and cursor: "0 < k_seq a" "map_option o_cursor (ack_at d (k_key a) (k_seq a)) = Some (k_cursor a)"
  shows "validate_journal X R e = Inr ()"
proof -
  have L: "app_at e = app_at d" "rev_at e = rev_at d" "cursor_at e = cursor_at d" "ack_at e = ack_at d"
    using tables by (simp_all add: fun_eq_iff app_at_def rev_at_def cursor_at_def ack_at_def)
  have C: "chain_step X R e = chain_step X R d" unfolding fun_eq_iff chain_step_def L by (intro allI refl)
  have A: "ack_step e = ack_step d" unfolding fun_eq_iff ack_step_def ack_valid_def L by (intro allI refl)
  have runs: "\<forall>k. \<exists>s. chain_run (ack_step d) None (acks_of d k) = Inr s"
    using V unfolding validate_journal_iff by (elim conjE)
  have bound: "k_seq x < k_seq a" if x: "x \<in> set (acks_of d (owner_key a))" for x
  proof -
    have "x \<in> set (ack_cursors d) \<and> owner_key x = owner_key a" using x by (simp add: acks_of_def)
    then have "top_ack d (owner_key a) \<noteq> None"
      unfolding top_ack_def fetch_highest_None by blast
    then obtain p where p: "top_ack d (owner_key a) = Some p" by (elim not_None_eq [THEN iffD1, THEN exE])
    have "k_seq x \<le> k_seq p"
      using fetch_highest_Some [OF p [unfolded top_ack_def]] x by (auto simp: acks_of_def)
    with higher [OF p] show ?thesis by simp
  qed
  have AP: "acks_of e k = acks_of d k @ (if k = owner_key a then [a] else [])" for k
    by (rule acks_of_append [OF tables(6)]) (rule bound)
  show ?thesis
  proof (unfold validate_journal_iff, intro conjI)
    show "lengths_ok e" using journal_lengths [OF V] tables by (simp add: lengths_ok_def Let_def)
    show "positions_ok e" using journal_positions [OF V] tables by (simp add: positions_ok_def)
    have "applied_at e = applied_at d" using tables by (simp add: fun_eq_iff applied_at_def)
    then show "\<forall>k. \<exists>s. chain_run (chain_step X R e) None (applied_at e k) = Inr s"
      using V unfolding validate_journal_iff C by (elim conjE) (simp only: simp_thms)
  next
    show "\<forall>k. \<exists>s. chain_run (ack_step e) None (acks_of e k) = Inr s"
    proof
      fix k
      obtain s where s: "chain_run (ack_step d) None (acks_of d k) = Inr s" using runs by (elim allE [of _ k] exE)
      show "\<exists>s. chain_run (ack_step e) None (acks_of e k) = Inr s"
      proof (cases "k = owner_key a")
        case True
        have "s = top_ack d (owner_key a)" using acks_of_head [OF s] True by simp
        then have "ack_valid d s a" using prev higher cursor
          by (simp add: ack_valid_def split: option.split)
        with owner have "ack_step d s a = Inr a" by (simp only: ack_step_Inr simp_thms)
        with s True show ?thesis unfolding A AP by (simp add: chain_run_append)
      next
        case False
        with s show ?thesis unfolding A AP by simp
      qed
    qed
  qed
qed

end
