(* ===== verification/Store_DDL.thy ===== *)
theory Store_DDL
  imports Store
begin

text \<open>
  The statements the program runs against \<^verbatim>\<open>discovery-store-v1.sql\<close>: one operation per
  INSERT or UPDATE, with the triggers, CHECK, UNIQUE and FOREIGN KEY clauses that govern it.

  A statement that the authorizer refuses raises \<open>DatabaseError\<close>, a bound integer outside 64
  bits \<open>OverflowError\<close>, and a violated constraint \<open>IntegrityError\<close> with the trigger's text, or
  the kind of the constraint where SQLite words the message itself. Triggers run before the
  constraints; a deferred foreign key is checked when the transaction commits
  (\<open>foreign_keys_ok\<close>).

  The tables \<open>input_freshness_vectors\<close> and \<open>authoritative_resnapshot_proofs\<close> are written by no
  code of the repository and are empty here, so the triggers that look rows up in them refuse.
\<close>

section \<open>The authorizer\<close>

datatype action =
    SQLITE_SELECT | SQLITE_READ | SQLITE_INSERT | SQLITE_TRANSACTION | SQLITE_SAVEPOINT
  | SQLITE_RECURSIVE | SQLITE_UPDATE | SQLITE_FUNCTION | SQLITE_DELETE | SQLITE_OTHER nat

type_synonym authorizer = "action \<Rightarrow> string option \<Rightarrow> string option \<Rightarrow> bool"

definition runtime_authorizer :: authorizer where
  "runtime_authorizer act first second =
     (if act \<in> {SQLITE_SELECT, SQLITE_READ, SQLITE_INSERT, SQLITE_TRANSACTION, SQLITE_SAVEPOINT, SQLITE_RECURSIVE}
      then True
      else if act = SQLITE_UPDATE \<and>
        first \<in> Some ` {''run_meta'', ''stream_generations'', ''coherence_controllers''} then True
      else if act = SQLITE_FUNCTION \<and>
        second \<in> Some ` {''max'', ''coalesce'', ''length'', ''glob'', ''raise''} then True
      else False)"

text \<open>\<^verbatim>\<open>offline_faults.WriteDeniedStore.connect\<close>: once two observations are committed, no
  further one may be inserted.\<close>

definition write_denied_authorizer :: "db \<Rightarrow> authorizer" where
  "write_denied_authorizer d =
     (if length (raws d) = 2
      then (\<lambda>act table column.
        if act = SQLITE_INSERT \<and> table = Some ''raw_commits'' then False
        else runtime_authorizer act table column)
      else runtime_authorizer)"

definition authorized :: "authorizer \<Rightarrow> action \<Rightarrow> string \<Rightarrow> 'a res \<Rightarrow> 'a res" where
  "authorized au act table m =
     (if au act (Some table) None then m else Inl (DatabaseError ''not authorized''))"

definition bind_ints :: "int list \<Rightarrow> unit res" where
  "bind_ints is = raise_if (\<not> list_all int64 is) OverflowError"

definition trigger :: "bool \<Rightarrow> string \<Rightarrow> unit res" where
  "trigger violated text = raise_if violated (IntegrityError text)"

definition check :: "bool \<Rightarrow> unit res" where
  "check ok = raise_if (\<not> ok) (IntegrityError ''CHECK'')"

definition unique :: "bool \<Rightarrow> unit res" where
  "unique clash = raise_if clash (IntegrityError ''UNIQUE'')"

definition references :: "bool \<Rightarrow> unit res" where
  "references ok = raise_if (\<not> ok) (IntegrityError ''FOREIGN KEY'')"

text \<open>\<open>COALESCE((SELECT MAX(\<dots>) \<dots>), 0)\<close>.\<close>

definition coalesce_max :: "int list \<Rightarrow> int" where
  "coalesce_max xs = (if xs = [] then 0 else Max (set xs))"

section \<open>Which row refers to which\<close>

definition has_generation :: "db \<Rightarrow> position \<Rightarrow> bool" where
  "has_generation d k = list_ex (\<lambda>g. (g_stream g, g_generation g) = k) (generations d)"

definition has_run :: "db \<Rightarrow> string \<Rightarrow> bool" where
  "has_run d run = list_ex (\<lambda>m. m_run m = run) (run_metas d)"

definition nullable :: "('a \<Rightarrow> bool) \<Rightarrow> 'a option \<Rightarrow> bool" where
  "nullable p v = (case v of None \<Rightarrow> True | Some x \<Rightarrow> p x)"

definition has_epoch :: "db \<Rightarrow> string \<Rightarrow> bool" where
  "has_epoch d i = list_ex (\<lambda>e. e_id e = i) (epochs d)"

definition has_shock :: "db \<Rightarrow> string \<Rightarrow> bool" where
  "has_shock d i = list_ex (\<lambda>s. s_id s = i) (shocks d)"

definition has_controller :: "db \<Rightarrow> string \<Rightarrow> bool" where
  "has_controller d i = list_ex (\<lambda>c. l_id c = i) (controllers d)"

definition has_gap :: "db \<Rightarrow> string \<Rightarrow> bool" where
  "has_gap d i = list_ex (\<lambda>p. p_id p = i) (gaps d)"

definition has_transition :: "db \<Rightarrow> string \<Rightarrow> bool" where
  "has_transition d i = list_ex (\<lambda>t. t_id t = i) (transitions d)"

definition has_raw :: "db \<Rightarrow> string \<Rightarrow> position \<Rightarrow> int \<Rightarrow> bool" where
  "has_raw d i k n = list_ex (\<lambda>r. r_id r = i \<and> r_key r = k \<and> r_seq r = n) (raws d)"

definition has_app :: "db \<Rightarrow> string \<Rightarrow> position \<Rightarrow> int \<Rightarrow> bool" where
  "has_app d i k n = list_ex (\<lambda>r. a_id r = i \<and> a_key r = k \<and> a_seq r = n) (apps d)"

definition has_rev :: "db \<Rightarrow> string \<Rightarrow> position \<Rightarrow> int \<Rightarrow> bool" where
  "has_rev d i k n = list_ex (\<lambda>r. v_id r = i \<and> v_key r = k \<and> v_seq r = n) (revs d)"

definition has_cursor :: "db \<Rightarrow> string \<Rightarrow> position \<Rightarrow> int \<Rightarrow> bool" where
  "has_cursor d i k n = list_ex (\<lambda>r. c_id r = i \<and> c_key r = k \<and> c_seq r = n) (cursors d)"

text \<open>The references of one row; \<open>now_\<close> are the immediate ones, \<open>late_\<close> the deferred ones.\<close>

definition now_generation :: "db \<Rightarrow> stream_generation \<Rightarrow> bool" where
  "now_generation d g = has_run d (fst (g_stream g))"

definition late_generation :: "db \<Rightarrow> stream_generation \<Rightarrow> bool" where
  "late_generation d g = nullable (\<lambda>n. has_generation d (g_stream g, n)) (g_predecessor g)"

definition now_raw :: "db \<Rightarrow> raw_commit \<Rightarrow> bool" where
  "now_raw d r = has_generation d (r_key r)"

definition now_conflict :: "db \<Rightarrow> raw_conflict \<Rightarrow> bool" where
  "now_conflict d x = has_raw d (x_existing x) (x_key x) (x_seq x)"

definition now_app :: "db \<Rightarrow> application \<Rightarrow> bool" where
  "now_app d a = has_raw d (a_raw a) (a_key a) (a_seq a)"

definition now_rev :: "db \<Rightarrow> revision \<Rightarrow> bool" where
  "now_rev d v = (has_app d (v_application v) (v_key v) (v_seq v) \<and>
     list_ex (\<lambda>r. r_id r = v_raw v) (raws d))"

definition now_cursor :: "db \<Rightarrow> reducer_cursor \<Rightarrow> bool" where
  "now_cursor d c = has_rev d (c_revision c) (c_key c) (c_seq c)"

definition now_ack :: "db \<Rightarrow> ack \<Rightarrow> bool" where
  "now_ack d a = (has_cursor d (o_reducer a) (o_key a) (o_seq a) \<and>
     list_ex (\<lambda>r. r_id r = o_raw a) (raws d) \<and>
     list_ex (\<lambda>r. a_id r = o_application a) (apps d) \<and>
     list_ex (\<lambda>r. v_id r = o_revision a) (revs d))"

definition now_ack_cursor :: "db \<Rightarrow> ack_cursor \<Rightarrow> bool" where
  "now_ack_cursor d k = (has_generation d (k_key k) \<and>
     nullable (\<lambda>i. list_ex (\<lambda>p. k_id p = i) (ack_cursors d)) (k_prev k))"

definition late_gap :: "db \<Rightarrow> gap_record \<Rightarrow> bool" where
  "late_gap d p = (has_generation d (p_stream p, p_predecessor p) \<and>
     has_generation d (p_stream p, p_successor p))"

definition late_binding :: "db \<Rightarrow> gap_binding \<Rightarrow> bool" where
  "late_binding d b = (has_epoch d (b_epoch b) \<and> has_controller d (b_controller b) \<and>
     has_shock d (b_shock b) \<and> has_transition d (b_transition b))"

definition late_gen_transition :: "db \<Rightarrow> generation_transition \<Rightarrow> bool" where
  "late_gen_transition d n = (has_generation d (n_stream n, n_predecessor n) \<and>
     has_generation d (n_stream n, n_successor n))"

definition late_controller :: "db \<Rightarrow> controller \<Rightarrow> bool" where
  "late_controller d c = (has_epoch d (l_epoch c) \<and> nullable (has_epoch d) (l_candidate c) \<and>
     nullable (has_epoch d) (l_predecessor c))"

definition now_transition :: "db \<Rightarrow> coherence_transition \<Rightarrow> bool" where
  "now_transition d t = (has_controller d (t_controller t) \<and> has_epoch d (t_epoch t) \<and>
     nullable (has_epoch d) (t_candidate t) \<and> nullable (has_shock d) (t_shock t))"

definition late_transition :: "db \<Rightarrow> coherence_transition \<Rightarrow> bool" where
  "late_transition d t = (t_freshness t = None \<and> t_proof t = None)"

text \<open>Every reference of every row: what \<open>PRAGMA foreign_key_check\<close> reports as an empty list, and
  what a commit requires.\<close>

definition foreign_keys_ok :: "db \<Rightarrow> bool" where
  "foreign_keys_ok d \<longleftrightarrow>
     list_all (\<lambda>g. now_generation d g \<and> late_generation d g) (generations d) \<and>
     list_all (now_raw d) (raws d) \<and> list_all (now_conflict d) (conflicts d) \<and>
     list_all (now_app d) (apps d) \<and> list_all (now_rev d) (revs d) \<and>
     list_all (now_cursor d) (cursors d) \<and> list_all (now_ack d) (acks d) \<and>
     list_all (now_ack_cursor d) (ack_cursors d) \<and> list_all (late_gap d) (gaps d) \<and>
     list_all (\<lambda>b. has_gap d (b_gap b) \<and> late_binding d b) (bindings d) \<and>
     list_all (\<lambda>n. has_gap d (n_gap n) \<and> late_gen_transition d n) (gen_transitions d) \<and>
     list_all (\<lambda>s. has_run d (s_run s)) (shocks d) \<and>
     list_all (\<lambda>c. has_run d (l_run c) \<and> nullable (has_shock d) (l_shock c) \<and> late_controller d c) (controllers d) \<and>
     list_all (\<lambda>e. has_run d (e_run e) \<and> nullable (has_epoch d) (e_predecessor e)) (epochs d) \<and>
     list_all (\<lambda>t. now_transition d t \<and> late_transition d t) (transitions d)"

section \<open>Insertions of the durable chain\<close>

definition raw_guard :: "raw_commit \<Rightarrow> db \<Rightarrow> unit res" where
  "raw_guard n d =
     (let active = list_ex (\<lambda>g. (g_stream g, g_generation g) = r_key n \<and> g_state g = ''ACTIVE'') (generations d);
          closed = list_ex (\<lambda>g. (g_stream g, g_generation g) = r_key n \<and> g_state g \<noteq> ''ACTIVE'') (generations d);
          top = coalesce_max (map r_seq (filter (\<lambda>r. r_key r = r_key n) (applied d)))
      in if r_disposition n = ''APPLIED'' \<and> \<not> active then Inl (IntegrityError ''E_RAW_GENERATION_NOT_ACTIVE'')
      else if r_disposition n = ''APPLIED'' \<and> r_seq n \<noteq> top + 1 then Inl (IntegrityError ''E_RAW_NONCONTIGUOUS'')
      else if r_disposition n = ''APPLIED'' \<and> r_seq n = 1 \<and> r_prev n \<noteq> H0
        then Inl (IntegrityError ''E_CURSOR_FIRST_STEP_NOT_H0'')
      else if r_disposition n = ''APPLIED'' \<and> r_seq n > 1 \<and>
          \<not> list_ex (\<lambda>c. c_key c = r_key n \<and> c_seq c = r_seq n - 1 \<and> c_cursor c = r_prev n) (cursors d)
        then Inl (IntegrityError ''E_CURSOR_PREDECESSOR_LINK'')
      else if r_disposition n = ''LATE_REPAIR_ONLY'' \<and> \<not> closed
        then Inl (IntegrityError ''E_LATE_REPAIR_REQUIRES_CLOSED_GENERATION'')
      else Inr ())"

definition insert_raw :: "raw_commit \<Rightarrow> db \<Rightarrow> db res" where
  "insert_raw n d =
     bindR (bind_ints [snd (r_key n), r_seq n, r_at n]) (\<lambda>_.
     bindR (raw_guard n d) (\<lambda>_.
     bindR (check (0 \<le> snd (r_key n) \<and> 1 \<le> r_seq n \<and> hex64 (r_hash n) \<and> hex64 (r_prev n) \<and>
       hex64 (r_cursor n) \<and> r_disposition n \<in> {''APPLIED'', ''LATE_REPAIR_ONLY'', ''QUARANTINED_SCHEMA''} \<and>
       0 \<le> r_at n)) (\<lambda>_.
     bindR (unique (list_ex (\<lambda>r. r_id r = r_id n \<or> r_observation r = r_observation n \<or>
       (r_key r = r_key n \<and> r_seq r = r_seq n)) (raws d))) (\<lambda>_.
     bindR (references (now_raw d n)) (\<lambda>_.
       Inr (d\<lparr>raws := raws d @ [n]\<rparr>))))))"

definition insert_conflict :: "raw_conflict \<Rightarrow> db \<Rightarrow> db res" where
  "insert_conflict n d =
     bindR (bind_ints [snd (x_key n), x_seq n, x_at n]) (\<lambda>_.
     bindR (check (0 \<le> snd (x_key n) \<and> 1 \<le> x_seq n \<and> hex64 (x_hash n) \<and> 0 \<le> x_at n)) (\<lambda>_.
     bindR (unique (list_ex (\<lambda>x. x_id x = x_id n \<or> x_observation x = x_observation n \<or>
       (x_key x = x_key n \<and> x_seq x = x_seq n \<and> x_hash x = x_hash n)) (conflicts d))) (\<lambda>_.
     bindR (references (now_conflict d n)) (\<lambda>_.
       Inr (d\<lparr>conflicts := conflicts d @ [n]\<rparr>)))))"

definition insert_app :: "application \<Rightarrow> db \<Rightarrow> db res" where
  "insert_app n d =
     bindR (bind_ints [snd (a_key n), a_seq n, a_at n]) (\<lambda>_.
     bindR (trigger (\<not> list_ex (\<lambda>r. r_id r = a_raw n \<and> r_key r = a_key n \<and> r_seq r = a_seq n \<and>
       r_disposition r = ''APPLIED'' \<and> r_hash r = a_hash n \<and> r_prev r = a_input n) (raws d))
       ''E_APPLICATION_WITHOUT_MATCHING_APPLIED_RAW'') (\<lambda>_.
     bindR (check (0 \<le> snd (a_key n) \<and> 1 \<le> a_seq n \<and> hex64 (a_hash n) \<and> hex64 (a_input n) \<and> 0 \<le> a_at n)) (\<lambda>_.
     bindR (unique (list_ex (\<lambda>r. a_id r = a_id n \<or> a_raw r = a_raw n \<or>
       (a_key r = a_key n \<and> a_seq r = a_seq n)) (apps d))) (\<lambda>_.
     bindR (references (now_app d n)) (\<lambda>_.
       Inr (d\<lparr>apps := apps d @ [n]\<rparr>))))))"

definition insert_rev :: "revision \<Rightarrow> db \<Rightarrow> db res" where
  "insert_rev n d =
     bindR (bind_ints [snd (v_key n), v_seq n, v_revision n, v_at n]) (\<lambda>_.
     bindR (trigger (\<not> list_ex (\<lambda>r. a_id r = v_application n \<and> a_raw r = v_raw n \<and> a_key r = v_key n \<and>
       a_seq r = v_seq n) (apps d)) ''E_REVISION_WITHOUT_MATCHING_APPLICATION'') (\<lambda>_.
     bindR (check (0 \<le> snd (v_key n) \<and> 1 \<le> v_seq n \<and> 1 \<le> v_revision n \<and> hex64 (v_hash n) \<and>
       nullable hex64 (v_prev n) \<and> 0 \<le> v_at n)) (\<lambda>_.
     bindR (unique (list_ex (\<lambda>r. v_id r = v_id n \<or> v_application r = v_application n \<or> v_raw r = v_raw n \<or>
       (v_key r = v_key n \<and> (v_seq r = v_seq n \<or> v_revision r = v_revision n))) (revs d))) (\<lambda>_.
     bindR (references (now_rev d n)) (\<lambda>_.
       Inr (d\<lparr>revs := revs d @ [n]\<rparr>))))))"

definition insert_cursor :: "reducer_cursor \<Rightarrow> db \<Rightarrow> db res" where
  "insert_cursor n d =
     bindR (bind_ints [snd (c_key n), c_seq n, c_at n]) (\<lambda>_.
     bindR (trigger (\<not> list_ex (\<lambda>v. v_id v = c_revision n \<and> v_key v = c_key n \<and> v_seq v = c_seq n \<and>
       list_ex (\<lambda>r. r_id r = v_raw v \<and> r_hash r = c_hash n \<and> r_prev r = c_prev n \<and> r_cursor r = c_cursor n)
         (raws d)) (revs d)) ''E_CURSOR_WITHOUT_MATCHING_REVISION_CHAIN'') (\<lambda>_.
     bindR (check (0 \<le> snd (c_key n) \<and> 1 \<le> c_seq n \<and> hex64 (c_prev n) \<and> hex64 (c_cursor n) \<and>
       hex64 (c_hash n) \<and> 0 \<le> c_at n)) (\<lambda>_.
     bindR (unique (list_ex (\<lambda>r. c_id r = c_id n \<or> c_revision r = c_revision n \<or>
       (c_key r = c_key n \<and> c_seq r = c_seq n)) (cursors d))) (\<lambda>_.
     bindR (references (now_cursor d n)) (\<lambda>_.
       Inr (d\<lparr>cursors := cursors d @ [n]\<rparr>))))))"

definition complete_position :: "ack \<Rightarrow> db \<Rightarrow> bool" where
  "complete_position n d = list_ex (\<lambda>r. r_id r = o_raw n \<and> r_key r = o_key n \<and> r_seq r = o_seq n \<and>
     r_disposition r = ''APPLIED'' \<and>
     list_ex (\<lambda>a. a_raw a = r_id r \<and> a_id a = o_application n \<and>
       list_ex (\<lambda>v. v_application v = a_id a \<and> v_raw v = r_id r \<and> v_id v = o_revision n \<and>
         list_ex (\<lambda>c. c_revision c = v_id v \<and> c_id c = o_reducer n \<and> c_cursor c = o_cursor n \<and>
           c_seq c = o_seq n) (cursors d)) (revs d)) (apps d)) (raws d)"

definition insert_ack :: "ack \<Rightarrow> db \<Rightarrow> db res" where
  "insert_ack n d =
     bindR (bind_ints [snd (o_key n), o_seq n, o_at n]) (\<lambda>_.
     bindR (trigger (\<not> complete_position n d) ''E_ACK_WITHOUT_COMPLETE_POSITION'') (\<lambda>_.
     bindR (check (0 \<le> snd (o_key n) \<and> 1 \<le> o_seq n \<and> hex64 (o_cursor n) \<and> 0 \<le> o_at n)) (\<lambda>_.
     bindR (unique (list_ex (\<lambda>r. o_id r = o_id n \<or> o_raw r = o_raw n \<or> o_application r = o_application n \<or>
       o_revision r = o_revision n \<or> o_reducer r = o_reducer n \<or>
       (o_key r = o_key n \<and> o_seq r = o_seq n)) (acks d))) (\<lambda>_.
     bindR (references (now_ack d n)) (\<lambda>_.
       Inr (d\<lparr>acks := acks d @ [n]\<rparr>))))))"

definition ack_cursor_guard :: "ack_cursor \<Rightarrow> db \<Rightarrow> unit res" where
  "ack_cursor_guard n d =
     (let mine = filter (\<lambda>p. k_key p = k_key n \<and> k_owner p = k_owner n) (ack_cursors d) in
      if (k_owner n = ''BACKEND'' \<and> k_against n \<noteq> ''BACKEND_DURABLE_CHAIN'') \<or>
         (k_owner n = ''EXTENSION'' \<and> k_against n \<noteq> ''LOCAL_SPOOL_CHAIN'')
        then Inl (IntegrityError ''E_ACK_VERIFICATION_OWNER'')
      else if k_seq n = 0 \<and> (k_cursor n \<noteq> H0 \<or> k_prev n \<noteq> None)
        then Inl (IntegrityError ''E_ACK_ZERO_NOT_H0'')
      else if k_seq n > 0 \<and> \<not> list_ex (\<lambda>a. o_key a = k_key n \<and> o_seq a = k_seq n \<and> o_cursor a = k_cursor n \<and>
          list_ex (\<lambda>c. c_id c = o_reducer a \<and> c_cursor c = k_cursor n) (cursors d) \<and>
          list_ex (\<lambda>r. r_id r = o_raw a \<and> r_seq r = k_seq n \<and> r_cursor r = k_cursor n \<and>
            r_disposition r = ''APPLIED'') (raws d)) (acks d)
        then Inl (IntegrityError ''E_ACK_WITHOUT_DURABLE_CHAIN'')
      else if list_ex (\<lambda>p. k_seq p \<ge> k_seq n) mine then Inl (IntegrityError ''E_ACK_REGRESSION'')
      else if k_prev n \<noteq> None \<and> k_prev n \<noteq> map_option k_id (fetch_highest k_seq (\<lambda>p. True) mine)
        then Inl (IntegrityError ''E_ACK_PREDECESSOR'')
      else Inr ())"

definition insert_ack_cursor :: "ack_cursor \<Rightarrow> db \<Rightarrow> db res" where
  "insert_ack_cursor n d =
     bindR (bind_ints [snd (k_key n), k_seq n, k_at n]) (\<lambda>_.
     bindR (ack_cursor_guard n d) (\<lambda>_.
     bindR (check (0 \<le> snd (k_key n) \<and> k_owner n \<in> {''EXTENSION'', ''BACKEND''} \<and> 0 \<le> k_seq n \<and>
       hex64 (k_cursor n) \<and> k_against n \<in> {''LOCAL_SPOOL_CHAIN'', ''BACKEND_DURABLE_CHAIN''} \<and> 0 \<le> k_at n)) (\<lambda>_.
     bindR (unique (list_ex (\<lambda>p. k_id p = k_id n \<or> (k_key p = k_key n \<and> k_owner p = k_owner n \<and>
       k_seq p = k_seq n)) (ack_cursors d))) (\<lambda>_.
     bindR (references (now_ack_cursor d n)) (\<lambda>_.
       Inr (d\<lparr>ack_cursors := ack_cursors d @ [n]\<rparr>))))))"

end
