(* ===== verification/Store_Gap_DDL.thy ===== *)
theory Store_Gap_DDL
  imports Store_DDL
begin

text \<open>
  The statements of the gap transaction and of the creation of a run: gap records, shocks,
  coherence transitions, the controller, bindings, generations, and the seeds of a fresh store,
  with the triggers and constraints of \<^verbatim>\<open>discovery-store-v1.sql\<close>.
\<close>

section \<open>Gaps and shocks\<close>

definition gap_reasons :: "string list" where
  "gap_reasons = [''MISSING_SEQUENCE'', ''CONFLICTING_DUPLICATE'', ''SCHEMA_REJECTION'',
     ''LIFECYCLE_DISCONTINUITY'', ''STORAGE_SAFETY_STOP'', ''UNKNOWN_CONTINUITY'']"

definition insert_gap :: "gap_record \<Rightarrow> db \<Rightarrow> db res" where
  "insert_gap n d =
     bindR (bind_ints [p_predecessor n, p_successor n, p_from n, p_to n, p_detected n, p_blocked_after n, p_at n]) (\<lambda>_.
     bindR (check (0 \<le> p_predecessor n \<and> p_successor n = p_predecessor n + 1 \<and> 1 \<le> p_from n \<and>
       p_from n \<le> p_to n \<and>
       (if p_reason n = ''CONFLICTING_DUPLICATE'' then p_from n = p_to n \<and> p_to n = p_detected n
        else p_detected n > p_to n) \<and>
       List.member gap_reasons (p_reason n) \<and>
       p_repair n \<in> {''OPEN'', ''HISTORY_REPAIRED_EPOCH_REMAINS_CLOSED'', ''RESNAPSHOT_NEW_GENERATION'', ''TERMINAL''} \<and>
       0 \<le> p_blocked_after n \<and> p_blocked_after n < p_from n \<and> 0 \<le> p_at n)) (\<lambda>_.
     bindR (unique (list_ex (\<lambda>p. p_id p = p_id n \<or> (p_stream p = p_stream n \<and>
       p_predecessor p = p_predecessor n \<and> p_from p = p_from n \<and> p_to p = p_to n)) (gaps d))) (\<lambda>_.
       Inr (d\<lparr>gaps := gaps d @ [n]\<rparr>))))"

definition shock_types :: "string list" where
  "shock_types = [''GOAL'', ''RED_CARD'', ''PERIOD_TRANSITION'', ''SUSPENSION_MISMATCH'', ''SEQUENCE_GAP'',
     ''SCHEMA_CONFLICT'', ''LIFECYCLE_INVALIDATION'', ''MAPPING_CLOSURE'', ''EQUIVALENT_UNKNOWN_SHOCK'']"

definition insert_shock :: "shock \<Rightarrow> db \<Rightarrow> db res" where
  "insert_shock n d =
     bindR (bind_ints [s_lower n, s_upper n, s_at n]) (\<lambda>_.
     bindR (check (List.member shock_types (s_type n) \<and> s_lower n \<le> s_upper n \<and> hex64 (s_evidence n) \<and> 0 \<le> s_at n)) (\<lambda>_.
     bindR (unique (list_ex (\<lambda>s. s_id s = s_id n) (shocks d))) (\<lambda>_.
     bindR (references (has_run d (s_run n))) (\<lambda>_.
       Inr (d\<lparr>shocks := shocks d @ [n]\<rparr>)))))"

section \<open>Coherence\<close>

text \<open>\<open>coherence_transition_binding_guard\<close>. Its two branches on resnapshot proofs join the empty
  proof table, so no row satisfies them.\<close>

definition transition_guard :: "coherence_transition \<Rightarrow> db \<Rightarrow> unit res" where
  "transition_guard n d =
     (if t_reason n = ''SHOCK_ATOMIC_CLOSE'' \<and> \<not> list_ex (\<lambda>c. l_id c = t_controller n \<and>
          l_fixture c = t_fixture n \<and> l_epoch c = t_epoch n \<and> l_state c = t_from n \<and>
          t_to n = ''SHOCKED_CLOSED'' \<and>
          list_ex (\<lambda>s. Some (s_id s) = t_shock n \<and> s_run s = l_run c \<and> s_fixture s = l_fixture c) (shocks d) \<and>
          t_candidate n = None \<and> t_freshness n = None \<and> t_proof n = None) (controllers d)
        then Inl (IntegrityError ''E_SHOCK_TRANSITION_BINDING'')
      else if t_reason n = ''RESNAPSHOT_CANDIDATE_ACCEPTED'' then Inl (IntegrityError ''E_RESNAPSHOT_CANDIDATE_BINDING'')
      else if t_reason n = ''RELEASE_PREDICATE_SATISFIED'' then Inl (IntegrityError ''E_RELEASE_BINDING'')
      else Inr ())"

definition transition_shape :: "coherence_transition \<Rightarrow> bool" where
  "transition_shape n = List.member
     [(''OPEN'', ''SHOCKED_CLOSED'', ''SHOCK_ATOMIC_CLOSE''),
      (''NEW_EPOCH_OPEN'', ''SHOCKED_CLOSED'', ''SHOCK_ATOMIC_CLOSE''),
      (''SHOCKED_CLOSED'', ''WAITING_FOR_RESNAPSHOT'', ''CLOSE_RECORDED''),
      (''WAITING_FOR_RESNAPSHOT'', ''NEW_EPOCH_PENDING'', ''RESNAPSHOT_CANDIDATE_ACCEPTED''),
      (''NEW_EPOCH_PENDING'', ''NEW_EPOCH_OPEN'', ''RELEASE_PREDICATE_SATISFIED''),
      (''NEW_EPOCH_PENDING'', ''WAITING_FOR_RESNAPSHOT'', ''NEW_SHOCK_CLOSED_CANDIDATE'')]
     (t_from n, t_to n, t_reason n)"

definition insert_transition :: "coherence_transition \<Rightarrow> db \<Rightarrow> db res" where
  "insert_transition n d =
     bindR (bind_ints [t_at n]) (\<lambda>_.
     bindR (transition_guard n d) (\<lambda>_.
     bindR (check (transition_shape n \<and> 0 \<le> t_at n)) (\<lambda>_.
     bindR (unique (list_ex (\<lambda>t. t_id t = t_id n) (transitions d))) (\<lambda>_.
     bindR (references (now_transition d n)) (\<lambda>_.
       Inr (d\<lparr>transitions := transitions d @ [n]\<rparr>))))))"

text \<open>\<open>coherence_controller_update_guard\<close>. Opening a candidate joins the empty proof table and is
  refused; accepting one needs a transition with a freshness vector and a proof. A comparison
  with NULL is unknown, and the guard raises only on a condition known to be violated.\<close>

definition controller_move_ok :: "db \<Rightarrow> controller \<Rightarrow> controller \<Rightarrow> bool" where
  "controller_move_ok d old new \<longleftrightarrow>
     (l_state old \<in> {''OPEN'', ''NEW_EPOCH_OPEN''} \<and> l_state new = ''SHOCKED_CLOSED'' \<and>
      l_epoch new = l_epoch old \<and> l_candidate new = None \<and> l_predecessor new = l_predecessor old \<and>
      l_shock new \<noteq> None \<and>
      list_ex (\<lambda>t. t_controller t = l_id old \<and> t_from t = l_state old \<and> t_to t = ''SHOCKED_CLOSED'' \<and>
        t_epoch t = l_epoch old \<and> t_shock t = l_shock new \<and> t_reason t = ''SHOCK_ATOMIC_CLOSE'') (transitions d)) \<or>
     (l_state old = ''SHOCKED_CLOSED'' \<and> l_state new = ''WAITING_FOR_RESNAPSHOT'' \<and>
      l_epoch new = l_epoch old \<and> l_candidate new = None \<and> l_predecessor new = l_predecessor old \<and>
      (l_shock old = None \<or> l_shock new = None \<or> l_shock new = l_shock old)) \<or>
     (l_state old = ''WAITING_FOR_RESNAPSHOT'' \<and> l_state new = ''NEW_EPOCH_PENDING'' \<and>
      l_epoch new = l_epoch old \<and> l_candidate new \<noteq> None \<and> l_candidate new \<noteq> Some (l_epoch old) \<and>
      l_shock old \<noteq> None \<and> l_shock new = l_shock old \<and>
      list_ex (\<lambda>t. t_controller t = l_id old \<and> t_from t = ''WAITING_FOR_RESNAPSHOT'' \<and> t_to t = ''NEW_EPOCH_PENDING'' \<and>
        t_epoch t = l_epoch old \<and> t_candidate t = l_candidate new \<and> t_shock t = l_shock old \<and>
        t_freshness t \<noteq> None \<and> t_proof t \<noteq> None \<and> t_reason t = ''RESNAPSHOT_CANDIDATE_ACCEPTED'') (transitions d)) \<or>
     (l_state old = ''NEW_EPOCH_PENDING'' \<and> l_state new = ''WAITING_FOR_RESNAPSHOT'' \<and>
      l_epoch new = l_epoch old \<and> l_candidate new = None \<and>
      l_shock new \<noteq> None \<and> l_shock new \<noteq> l_shock old)"

definition controller_shape :: "controller \<Rightarrow> bool" where
  "controller_shape c \<longleftrightarrow>
     l_state c \<in> {''OPEN'', ''SHOCKED_CLOSED'', ''WAITING_FOR_RESNAPSHOT'', ''NEW_EPOCH_PENDING'', ''NEW_EPOCH_OPEN''} \<and>
     0 \<le> l_revision c \<and> 0 \<le> l_at c \<and>
     (if l_state c = ''NEW_EPOCH_PENDING'' then l_candidate c \<noteq> None \<and> l_candidate c \<noteq> Some (l_epoch c)
      else l_candidate c = None)"

definition update_controller :: "string \<Rightarrow> (controller \<Rightarrow> controller) \<Rightarrow> int list \<Rightarrow> db \<Rightarrow> db res" where
  "update_controller i f bound d =
     bindR (bind_ints bound) (\<lambda>_.
     bindR (mapR (\<lambda>old. if l_id old \<noteq> i then Inr old else (let new = f old in
         bindR (trigger (l_id new \<noteq> l_id old \<or> l_run new \<noteq> l_run old \<or> l_fixture new \<noteq> l_fixture old \<or>
           l_revision new \<noteq> l_revision old + 1 \<or> \<not> controller_move_ok d old new) ''E_INVALID_COHERENCE_TRANSITION'') (\<lambda>_.
         bindR (check (controller_shape new)) (\<lambda>_.
         bindR (references (nullable (has_shock d) (l_shock new))) (\<lambda>_.
           Inr new))))) (controllers d)) (\<lambda>rows.
       Inr (d\<lparr>controllers := rows\<rparr>)))"

definition gap_binding_guard :: "gap_binding \<Rightarrow> db \<Rightarrow> bool" where
  "gap_binding_guard n d = list_ex (\<lambda>g. p_id g = b_gap n \<and>
     b_role n = ''AFFECTED_EPOCH_PERMANENTLY_CLOSED'' \<and>
     list_ex (\<lambda>t. t_id t = b_transition n \<and> t_controller t = b_controller n \<and> t_epoch t = b_epoch n \<and>
       t_shock t = Some (b_shock n) \<and> t_from t \<in> {''OPEN'', ''NEW_EPOCH_OPEN''} \<and> t_to t = ''SHOCKED_CLOSED'' \<and>
       t_reason t = ''SHOCK_ATOMIC_CLOSE'') (transitions d) \<and>
     list_ex (\<lambda>s. s_id s = b_shock n \<and> s_run s = fst (p_stream g) \<and>
       s_type s \<in> {''SEQUENCE_GAP'', ''SCHEMA_CONFLICT'', ''LIFECYCLE_INVALIDATION'', ''EQUIVALENT_UNKNOWN_SHOCK''} \<and>
       list_ex (\<lambda>c. l_id c = b_controller n \<and> l_run c = fst (p_stream g) \<and> l_fixture c = s_fixture s \<and>
         l_epoch c = b_epoch n \<and> l_state c = ''SHOCKED_CLOSED'' \<and> l_shock c = Some (b_shock n)) (controllers d))
       (shocks d)) (gaps d)"

definition insert_binding :: "gap_binding \<Rightarrow> db \<Rightarrow> db res" where
  "insert_binding n d =
     bindR (bind_ints [b_at n]) (\<lambda>_.
     bindR (trigger (\<not> gap_binding_guard n d) ''E_GAP_WITHOUT_ATOMIC_COHERENCE_CLOSE'') (\<lambda>_.
     bindR (check (b_role n \<in> {''AFFECTED_EPOCH_PERMANENTLY_CLOSED'', ''SUCCESSOR_CANDIDATE''} \<and> 0 \<le> b_at n)) (\<lambda>_.
     bindR (unique (list_ex (\<lambda>b. b_id b = b_id n \<or> (b_gap b = b_gap n \<and>
       ((b_epoch b = b_epoch n \<and> b_role b = b_role n) \<or> b_transition b = b_transition n))) (bindings d))) (\<lambda>_.
     bindR (references (has_gap d (b_gap n))) (\<lambda>_.
       Inr (d\<lparr>bindings := bindings d @ [n]\<rparr>))))))"

section \<open>Generations\<close>

definition coherence_closed :: "stream_generation \<Rightarrow> db \<Rightarrow> bool" where
  "coherence_closed new d = list_ex (\<lambda>g. p_stream g = g_stream new \<and> p_predecessor g = g_generation new \<and>
     Some (p_reason g) = g_reason new \<and>
     list_ex (\<lambda>b. b_gap b = p_id g \<and> b_role b = ''AFFECTED_EPOCH_PERMANENTLY_CLOSED'' \<and>
       list_ex (\<lambda>t. t_id t = b_transition b \<and> t_controller t = b_controller b \<and> t_epoch t = b_epoch b \<and>
         t_shock t = Some (b_shock b) \<and> t_from t \<in> {''OPEN'', ''NEW_EPOCH_OPEN''} \<and>
         t_to t = ''SHOCKED_CLOSED'' \<and> t_reason t = ''SHOCK_ATOMIC_CLOSE'') (transitions d) \<and>
       list_ex (\<lambda>c. l_id c = b_controller b \<and> l_epoch c = b_epoch b \<and> l_state c = ''SHOCKED_CLOSED'' \<and>
         l_shock c = Some (b_shock b)) (controllers d)) (bindings d)) (gaps d)"

definition generation_shape :: "stream_generation \<Rightarrow> bool" where
  "generation_shape g \<longleftrightarrow> 0 \<le> g_generation g \<and>
     g_state g \<in> {''ACTIVE'', ''QUARANTINED_GAP'', ''CLOSED''} \<and> 0 \<le> g_opened_at g \<and>
     nullable (\<lambda>t. g_opened_at g \<le> t) (g_closed_at g) \<and>
     nullable (\<lambda>r. List.member (''RUN_CLOSED'' # gap_reasons) r) (g_reason g) \<and>
     (if g_generation g = 0 then g_predecessor g = None
      else nullable (\<lambda>p. p = g_generation g - 1) (g_predecessor g)) \<and>
     (if g_state g = ''ACTIVE'' then g_closed_at g = None \<and> g_reason g = None
      else g_closed_at g \<noteq> None \<and> g_reason g \<noteq> None)"

definition generation_move_ok :: "stream_generation \<Rightarrow> stream_generation \<Rightarrow> bool" where
  "generation_move_ok old new \<longleftrightarrow> g_id new = g_id old \<and> g_stream new = g_stream old \<and>
     g_generation new = g_generation old \<and> g_predecessor new = g_predecessor old \<and>
     g_opened_at new = g_opened_at old \<and>
     ((g_state old = ''ACTIVE'' \<and> g_state new \<in> {''QUARANTINED_GAP'', ''CLOSED''}) \<or>
      (g_state old = ''QUARANTINED_GAP'' \<and> g_state new = ''CLOSED''))"

definition update_generation :: "string \<Rightarrow> (stream_generation \<Rightarrow> stream_generation) \<Rightarrow> int list \<Rightarrow> db \<Rightarrow> db res" where
  "update_generation i f bound d =
     bindR (bind_ints bound) (\<lambda>_.
     bindR (mapR (\<lambda>old. if g_id old \<noteq> i then Inr old else (let new = f old in
         bindR (trigger (\<not> generation_move_ok old new) ''E_INVALID_GENERATION_MUTATION'') (\<lambda>_.
         bindR (trigger (g_state old = ''ACTIVE'' \<and> g_state new \<noteq> ''ACTIVE'' \<and>
             nullable (\<lambda>r. r \<noteq> ''RUN_CLOSED'') (g_reason new) \<and> g_reason new \<noteq> None \<and> \<not> coherence_closed new d)
           ''E_GENERATION_CLOSE_WITHOUT_COHERENCE_CLOSURE'') (\<lambda>_.
         bindR (check (generation_shape new)) (\<lambda>_.
           Inr new))))) (generations d)) (\<lambda>rows.
       Inr (d\<lparr>generations := rows\<rparr>)))"

definition insert_gen_transition :: "generation_transition \<Rightarrow> db \<Rightarrow> db res" where
  "insert_gen_transition n d =
     bindR (bind_ints [n_predecessor n, n_successor n, n_at n]) (\<lambda>_.
     bindR (check (0 \<le> n_predecessor n \<and> n_successor n = n_predecessor n + 1 \<and>
       n_reason n \<in> {''GAP'', ''CONFLICT'', ''LIFECYCLE_DISCONTINUITY'', ''STORAGE_SAFETY_STOP''} \<and> 0 \<le> n_at n)) (\<lambda>_.
     bindR (unique (list_ex (\<lambda>t. n_id t = n_id n \<or> n_gap t = n_gap n \<or> (n_stream t = n_stream n \<and>
       n_predecessor t = n_predecessor n \<and> n_successor t = n_successor n)) (gen_transitions d))) (\<lambda>_.
     bindR (references (has_gap d (n_gap n))) (\<lambda>_.
       Inr (d\<lparr>gen_transitions := gen_transitions d @ [n]\<rparr>)))))"

definition successor_allowed :: "stream_generation \<Rightarrow> db \<Rightarrow> bool" where
  "successor_allowed n d = list_ex (\<lambda>gt. n_stream gt = g_stream n \<and>
     Some (n_predecessor gt) = g_predecessor n \<and> n_successor gt = g_generation n \<and>
     list_ex (\<lambda>p. g_stream p = g_stream n \<and> Some (g_generation p) = g_predecessor n \<and> g_state p \<noteq> ''ACTIVE'') (generations d) \<and>
     list_ex (\<lambda>g. p_id g = n_gap gt \<and>
       list_ex (\<lambda>b. b_gap b = p_id g \<and> b_role b = ''AFFECTED_EPOCH_PERMANENTLY_CLOSED'' \<and>
         list_ex (\<lambda>t. t_id t = b_transition b \<and> t_epoch t = b_epoch b \<and> t_shock t = Some (b_shock b) \<and>
           t_to t = ''SHOCKED_CLOSED'') (transitions d) \<and>
         list_ex (\<lambda>c. l_id c = b_controller b \<and> l_state c = ''SHOCKED_CLOSED'' \<and> l_epoch c = b_epoch b)
           (controllers d)) (bindings d)) (gaps d)) (gen_transitions d)"

definition insert_generation :: "stream_generation \<Rightarrow> db \<Rightarrow> db res" where
  "insert_generation n d =
     bindR (bind_ints ([g_generation n, g_opened_at n] @ (case g_predecessor n of None \<Rightarrow> [] | Some p \<Rightarrow> [p]))) (\<lambda>_.
     bindR (trigger (0 < g_generation n \<and> \<not> successor_allowed n d) ''E_GENERATION_OPEN_WITHOUT_COHERENCE_CLOSURE'') (\<lambda>_.
     bindR (check (generation_shape n)) (\<lambda>_.
     bindR (unique (list_ex (\<lambda>g. g_id g = g_id n \<or> (g_stream g = g_stream n \<and> g_generation g = g_generation n) \<or>
       (g_stream g = g_stream n \<and> g_state g = ''ACTIVE'' \<and> g_state n = ''ACTIVE'')) (generations d))) (\<lambda>_.
     bindR (references (now_generation d n)) (\<lambda>_.
       Inr (d\<lparr>generations := generations d @ [n]\<rparr>))))))"

section \<open>Seeds of a fresh run\<close>

definition insert_run_meta :: "run_meta \<Rightarrow> db \<Rightarrow> db res" where
  "insert_run_meta n d =
     bindR (bind_ints [m_created_at n]) (\<lambda>_.
     bindR (check (m_status n \<in> {''OPEN'', ''CLOSED'', ''DESTRUCTION_PENDING''} \<and> hex64 (m_pack_hash n) \<and>
       hex64 (m_build_hash n) \<and> 0 \<le> m_created_at n \<and> nullable (\<lambda>t. m_created_at n \<le> t) (m_closed_at n) \<and>
       (m_status n = ''OPEN'' \<longleftrightarrow> m_closed_at n = None))) (\<lambda>_.
     bindR (unique (list_ex (\<lambda>m. m_run m = m_run n) (run_metas d))) (\<lambda>_.
       Inr (d\<lparr>run_metas := run_metas d @ [n]\<rparr>))))"

definition insert_epoch :: "epoch \<Rightarrow> db \<Rightarrow> db res" where
  "insert_epoch n d =
     bindR (bind_ints [e_generation n, e_at n]) (\<lambda>_.
     bindR (check (0 \<le> e_generation n \<and> e_status n \<in> {''OPEN'', ''CLOSED''} \<and> 0 \<le> e_at n \<and>
       e_predecessor n \<noteq> Some (e_id n) \<and>
       (if e_generation n = 0 then e_predecessor n = None \<and> e_freshness n = None \<and> e_proof n = None \<and>
          e_predecessor_closed n = 0
        else e_predecessor n \<noteq> None \<and> e_freshness n \<noteq> None \<and> e_proof n \<noteq> None \<and> e_predecessor_closed n = 1))) (\<lambda>_.
     bindR (unique (list_ex (\<lambda>e. e_id e = e_id n \<or> (e_run e = e_run n \<and> e_fixture e = e_fixture n \<and>
       e_generation e = e_generation n)) (epochs d))) (\<lambda>_.
     bindR (references (has_run d (e_run n) \<and> nullable (has_epoch d) (e_predecessor n))) (\<lambda>_.
       Inr (d\<lparr>epochs := epochs d @ [n]\<rparr>)))))"

definition insert_controller :: "controller \<Rightarrow> db \<Rightarrow> db res" where
  "insert_controller n d =
     bindR (bind_ints [l_revision n, l_at n]) (\<lambda>_.
     bindR (check (controller_shape n)) (\<lambda>_.
     bindR (unique (list_ex (\<lambda>c. l_id c = l_id n \<or> (l_run c = l_run n \<and> l_fixture c = l_fixture n)) (controllers d))) (\<lambda>_.
     bindR (references (has_run d (l_run n) \<and> nullable (has_shock d) (l_shock n))) (\<lambda>_.
       Inr (d\<lparr>controllers := controllers d @ [n]\<rparr>)))))"

end
