(* ===== verification/Ingest.thy ===== *)
theory Ingest
  imports Store_Chain Store_Gap_DDL
begin

text \<open>
  \<^verbatim>\<open>src/moj_discovery/ingest.py\<close> on the governed store: \<open>apply\<close>, \<open>gap_tx\<close>, \<open>confirm_ack\<close> and
  \<open>store_late_repair\<close>, with the connection of \<^verbatim>\<open>store.py\<close> and of \<^verbatim>\<open>offline_faults.py\<close> they run in.

  A call opens a connection (\<open>connect\<close>), runs one transaction on the database and commits it, or
  raises and leaves the database as it was. A gap or a conflict is not a failed transaction: its
  rows are committed, and the rejection is raised after the commit.

  \<open>store_env\<close> collects what the code reads from outside the store: the hash primitives, the bytes
  of the registry, of the DDL and of the schema lock, the schema objects SQLite derives from a DDL,
  and \<open>raw_schema\<close>, the verdict of the \<^verbatim>\<open>jsonschema\<close> package on \<open>raw-observation.schema.json\<close>.
  \<open>now\<close> is the reading of the microsecond clock.
\<close>

section \<open>Opening the store\<close>

type_synonym schema_object = "string \<times> string \<times> string \<times> string"

record store_env =
  base :: ext
  registry :: string
  schema_lock :: json
  ddl_file :: string
  schema_objects :: "string \<Rightarrow> schema_object list"
  raw_schema :: "json \<Rightarrow> bool"

record run_store =
  is_file :: bool
  is_symlink :: bool
  page_limit :: int
  user_version :: int
  integrity_check :: "string list"
  file_schema :: "schema_object list"
  contents :: db
  write_denied :: bool
  fault_events :: "string list list"

definition verified_ddl :: "store_env \<Rightarrow> string res" where
  "verified_ddl E =
     bindR (jitem (schema_lock E) ''files'') (\<lambda>files.
     bindR (iter_values files) (\<lambda>items.
     bindR (filterR (\<lambda>item. bindR (jitem item ''path'') (\<lambda>p.
       Inr (py_eq p (JStr ''sql/discovery-store-v1.sql'')))) items) (\<lambda>matches. case matches of
         [m] \<Rightarrow> bindR (jitem m ''sha256'') (\<lambda>h.
           if py_eq (JStr (sha256 (base E) (ddl_file E))) h then Inr (ddl_file E)
           else Inl (ValueError ''E_STORE_DDL_HASH''))
       | _ \<Rightarrow> Inl (ValueError ''E_STORE_DDL_HASH''))))"

definition verify_database :: "store_env \<Rightarrow> run_store \<Rightarrow> unit res" where
  "verify_database E s =
     bindR (raise_if (user_version s \<noteq> 1) (ValueError ''E_STORE_USER_VERSION'')) (\<lambda>_.
     bindR (raise_if (integrity_check s \<noteq> [''ok'']) (ValueError ''E_STORE_INTEGRITY'')) (\<lambda>_.
     bindR (raise_if (\<not> foreign_keys_ok (contents s)) (ValueError ''E_STORE_FOREIGN_KEY'')) (\<lambda>_.
     bindR (verified_ddl E) (\<lambda>ddl.
       raise_if (file_schema s \<noteq> schema_objects E ddl) (ValueError ''E_STORE_SCHEMA'')))))"

definition connect :: "store_env \<Rightarrow> run_store \<Rightarrow> db res" where
  "connect E s =
     bindR (raise_if (\<not> is_file s \<or> is_symlink s) (ValueError ''E_STORE_MISSING_DATABASE'')) (\<lambda>_.
     bindR (raise_if (page_limit s \<noteq> 32768) (ValueError ''E_STORE_CAPACITY'')) (\<lambda>_.
     bindR (verify_database E s) (\<lambda>_. Inr (contents s))))"

definition authorizer_of :: "run_store \<Rightarrow> db \<Rightarrow> authorizer" where
  "authorizer_of s d = (if write_denied s then write_denied_authorizer d else runtime_authorizer)"

text \<open>The denied insertion is recorded with the hashes committed when the connection was opened.\<close>

definition log_denial :: "exn \<Rightarrow> db \<Rightarrow> run_store \<Rightarrow> run_store" where
  "log_denial e d s = (case e of
      DatabaseError _ \<Rightarrow> s\<lparr>fault_events := fault_events s @ [map r_hash (sort_key r_seq (raws d))]\<rparr>
    | _ \<Rightarrow> s)"

definition transaction :: "store_env \<Rightarrow> run_store \<Rightarrow> (authorizer \<Rightarrow> db \<Rightarrow> ('a \<times> db) res) \<Rightarrow> 'a res \<times> run_store" where
  "transaction E s body = (case connect E s of
      Inl e \<Rightarrow> (Inl e, s)
    | Inr d \<Rightarrow> (case body (authorizer_of s d) d of
        Inl e \<Rightarrow> (Inl e, log_denial e d s)
      | Inr (a, d') \<Rightarrow>
          if foreign_keys_ok d' then (Inr a, s\<lparr>contents := d'\<rparr>)
          else (Inl (IntegrityError ''FOREIGN KEY''), s)))"

section \<open>Reading an observation\<close>

text \<open>The fields below are strings in every observation the schema accepts; in any other value the
  access raises.\<close>

definition str_item :: "json \<Rightarrow> string \<Rightarrow> string res" where
  "str_item v k = bindR (jitem v k) (\<lambda>x. case x of JStr s \<Rightarrow> Inr s | _ \<Rightarrow> Inl TypeError)"

definition integer :: "string \<Rightarrow> int res" where
  "integer value = bindR (parse_int value) (\<lambda>parsed.
     if 0 \<le> parsed \<and> parsed \<le> 9223372036854775807 then Inr parsed
     else Inl (ValueError ''E_INGEST_INTEGER_RANGE''))"

definition validate_raw :: "store_env \<Rightarrow> json \<Rightarrow> unit res" where
  "validate_raw E ob = bindR (raise_if (\<not> raw_schema E ob) SchemaViolation) (\<lambda>_.
     bindR (str_item ob ''content_hash'') (\<lambda>h.
       verify_canonical_content_hash (base E) (registry E) ''RawObservation'' ob h))"

text \<open>The observation's run, pack and build must be those of the single open run.\<close>

definition check_run :: "json \<Rightarrow> string \<Rightarrow> db \<Rightarrow> unit res" where
  "check_run ob run d = (case run_metas d of
      [m] \<Rightarrow>
        if m_run m \<noteq> run \<or> m_status m \<noteq> ''OPEN'' then Inl (ValueError ''E_INGEST_RUN_BINDING'')
        else bindR (jitem ob ''pack_hash'') (\<lambda>p.
          if \<not> py_eq (JStr (m_pack_hash m)) p then Inl (ValueError ''E_INGEST_RUN_BINDING'')
          else bindR (jitem ob ''build_hash'') (\<lambda>b.
            raise_if (\<not> py_eq (JStr (m_build_hash m)) b) (ValueError ''E_INGEST_RUN_BINDING'')))
    | _ \<Rightarrow> Inl (ValueError ''E_INGEST_RUN_BINDING''))"

section \<open>The gap transaction\<close>

definition gap_of :: "stream_generation \<Rightarrow> int \<Rightarrow> int \<Rightarrow> string \<Rightarrow> int \<Rightarrow> string \<Rightarrow> gap_record" where
  "gap_of current highest sequence digest now reason =
     (let conflict = (reason = ''CONFLICTING_DUPLICATE'') in
      \<lparr>p_id = ''gap:'' @ digest, p_stream = g_stream current, p_predecessor = g_generation current,
       p_successor = g_generation current + 1,
       p_from = (if conflict then sequence else highest + 1),
       p_to = (if conflict then sequence else sequence - 1),
       p_detected = sequence, p_reason = reason, p_repair = ''OPEN'',
       p_blocked_after = (if conflict then sequence - 1 else highest), p_at = now\<rparr>)"

definition shock_of :: "stream_generation \<Rightarrow> controller \<Rightarrow> string \<Rightarrow> int \<Rightarrow> string \<Rightarrow> shock" where
  "shock_of current c digest now reason =
     \<lparr>s_id = ''shock:'' @ digest, s_run = fst (g_stream current), s_fixture = l_fixture c,
      s_type = (if reason = ''CONFLICTING_DUPLICATE'' then ''SCHEMA_CONFLICT'' else ''SEQUENCE_GAP''),
      s_lower = now, s_upper = now, s_evidence = digest, s_at = now\<rparr>"

definition closing_transition :: "controller \<Rightarrow> string \<Rightarrow> int \<Rightarrow> coherence_transition" where
  "closing_transition c digest now =
     \<lparr>t_id = ''transition:'' @ digest, t_controller = l_id c, t_fixture = l_fixture c, t_from = l_state c,
      t_to = ''SHOCKED_CLOSED'', t_epoch = l_epoch c, t_candidate = None, t_shock = Some (''shock:'' @ digest),
      t_freshness = None, t_proof = None, t_reason = ''SHOCK_ATOMIC_CLOSE'', t_at = now\<rparr>"

definition shocked :: "string \<Rightarrow> int \<Rightarrow> controller \<Rightarrow> controller" where
  "shocked digest now c = c\<lparr>l_state := ''SHOCKED_CLOSED'', l_shock := Some (''shock:'' @ digest),
     l_revision := l_revision c + 1, l_at := now\<rparr>"

definition binding_of :: "controller \<Rightarrow> string \<Rightarrow> int \<Rightarrow> gap_binding" where
  "binding_of c digest now =
     \<lparr>b_id = ''binding:'' @ digest, b_gap = ''gap:'' @ digest, b_epoch = l_epoch c, b_controller = l_id c,
      b_shock = ''shock:'' @ digest, b_transition = ''transition:'' @ digest,
      b_role = ''AFFECTED_EPOCH_PERMANENTLY_CLOSED'', b_at = now\<rparr>"

definition closed_generation :: "int \<Rightarrow> string \<Rightarrow> stream_generation \<Rightarrow> stream_generation" where
  "closed_generation now reason g = g\<lparr>
     g_state := (if reason = ''CONFLICTING_DUPLICATE'' then ''CLOSED'' else ''QUARANTINED_GAP''),
     g_closed_at := Some now, g_reason := Some reason\<rparr>"

definition generation_step :: "stream_generation \<Rightarrow> string \<Rightarrow> int \<Rightarrow> string \<Rightarrow> generation_transition" where
  "generation_step current digest now reason =
     \<lparr>n_id = ''generation-transition:'' @ digest, n_gap = ''gap:'' @ digest, n_stream = g_stream current,
      n_predecessor = g_generation current, n_successor = g_generation current + 1,
      n_reason = (if reason = ''CONFLICTING_DUPLICATE'' then ''CONFLICT'' else ''GAP''), n_at = now\<rparr>"

definition successor_of :: "stream_generation \<Rightarrow> string \<Rightarrow> int \<Rightarrow> stream_generation" where
  "successor_of current digest now =
     \<lparr>g_id = ''generation:'' @ digest, g_stream = g_stream current, g_generation = g_generation current + 1,
      g_predecessor = Some (g_generation current), g_state = ''ACTIVE'', g_opened_at = now,
      g_closed_at = None, g_reason = None\<rparr>"

text \<open>\<open>_gap\<close>: eight statements in one transaction.\<close>

definition gap_tx :: "authorizer \<Rightarrow> stream_generation \<Rightarrow> int \<Rightarrow> int \<Rightarrow> string \<Rightarrow> int \<Rightarrow> string \<Rightarrow> db \<Rightarrow> db res" where
  "gap_tx au current highest sequence digest now reason d =
     (case filter (\<lambda>c. l_run c = fst (g_stream current)) (controllers d) of
        [c] \<Rightarrow>
          if l_state c \<notin> {''OPEN'', ''NEW_EPOCH_OPEN''} then Inl (ValueError ''E_INGEST_GAP_COHERENCE_BINDING'')
          else
            bindR (authorized au SQLITE_INSERT ''gap_records''
              (insert_gap (gap_of current highest sequence digest now reason) d)) (\<lambda>d.
            bindR (authorized au SQLITE_INSERT ''shock_observations''
              (insert_shock (shock_of current c digest now reason) d)) (\<lambda>d.
            bindR (authorized au SQLITE_INSERT ''coherence_transitions''
              (insert_transition (closing_transition c digest now) d)) (\<lambda>d.
            bindR (authorized au SQLITE_UPDATE ''coherence_controllers''
              (update_controller (l_id c) (shocked digest now) [now] d)) (\<lambda>d.
            bindR (authorized au SQLITE_INSERT ''gap_epoch_bindings''
              (insert_binding (binding_of c digest now) d)) (\<lambda>d.
            bindR (authorized au SQLITE_UPDATE ''stream_generations''
              (update_generation (g_id current) (closed_generation now reason) [now] d)) (\<lambda>d.
            bindR (authorized au SQLITE_INSERT ''generation_transitions''
              (insert_gen_transition (generation_step current digest now reason) d)) (\<lambda>d.
            authorized au SQLITE_INSERT ''stream_generations''
              (insert_generation (successor_of current digest now) d))))))))
      | _ \<Rightarrow> Inl (ValueError ''E_INGEST_GAP_COHERENCE_BINDING''))"

section \<open>Applying an observation\<close>

text \<open>The five rows of an applied observation, in the order of insertion.\<close>

definition applied_raw :: "position \<Rightarrow> int \<Rightarrow> string \<Rightarrow> string \<Rightarrow> string \<Rightarrow> string \<Rightarrow> int \<Rightarrow> raw_commit" where
  "applied_raw key sequence observation_id content_hash prior cursor now =
     \<lparr>r_id = ''raw:'' @ cursor, r_key = key, r_seq = sequence, r_observation = observation_id,
      r_hash = content_hash, r_prev = prior, r_cursor = cursor, r_disposition = ''APPLIED'', r_at = now\<rparr>"

definition applied_application :: "position \<Rightarrow> int \<Rightarrow> string \<Rightarrow> string \<Rightarrow> string \<Rightarrow> int \<Rightarrow> application" where
  "applied_application key sequence content_hash prior cursor now =
     \<lparr>a_id = ''application:'' @ cursor, a_raw = ''raw:'' @ cursor, a_key = key, a_seq = sequence,
      a_hash = content_hash, a_input = prior, a_at = now\<rparr>"

definition applied_revision :: "position \<Rightarrow> int \<Rightarrow> string option \<Rightarrow> string \<Rightarrow> int \<Rightarrow> revision" where
  "applied_revision key sequence previous cursor now =
     \<lparr>v_id = ''revision:'' @ cursor, v_application = ''application:'' @ cursor, v_raw = ''raw:'' @ cursor,
      v_key = key, v_seq = sequence, v_revision = sequence, v_prev = previous, v_hash = cursor, v_at = now\<rparr>"

definition applied_cursor :: "position \<Rightarrow> int \<Rightarrow> string \<Rightarrow> string \<Rightarrow> string \<Rightarrow> int \<Rightarrow> reducer_cursor" where
  "applied_cursor key sequence content_hash prior cursor now =
     \<lparr>c_id = ''cursor:'' @ cursor, c_revision = ''revision:'' @ cursor, c_key = key, c_seq = sequence,
      c_prev = prior, c_cursor = cursor, c_hash = content_hash, c_at = now\<rparr>"

definition applied_ack :: "position \<Rightarrow> int \<Rightarrow> string \<Rightarrow> int \<Rightarrow> ack" where
  "applied_ack key sequence cursor now =
     \<lparr>o_id = ''ack:'' @ cursor, o_raw = ''raw:'' @ cursor, o_application = ''application:'' @ cursor,
      o_revision = ''revision:'' @ cursor, o_reducer = ''cursor:'' @ cursor, o_key = key, o_seq = sequence,
      o_cursor = cursor, o_at = now\<rparr>"

definition append_chain :: "authorizer \<Rightarrow> position \<Rightarrow> int \<Rightarrow> string \<Rightarrow> string \<Rightarrow> reducer_cursor option \<Rightarrow> string \<Rightarrow> string \<Rightarrow> int \<Rightarrow> db \<Rightarrow> db res" where
  "append_chain au key sequence observation_id content_hash previous prior cursor now d =
     bindR (authorized au SQLITE_INSERT ''raw_commits''
       (insert_raw (applied_raw key sequence observation_id content_hash prior cursor now) d)) (\<lambda>d.
     bindR (authorized au SQLITE_INSERT ''application_records''
       (insert_app (applied_application key sequence content_hash prior cursor now) d)) (\<lambda>d.
     bindR (authorized au SQLITE_INSERT ''derived_revisions''
       (insert_rev (applied_revision key sequence (case previous of None \<Rightarrow> None | Some _ \<Rightarrow> Some prior) cursor now) d)) (\<lambda>d.
     bindR (authorized au SQLITE_INSERT ''reducer_cursors''
       (insert_cursor (applied_cursor key sequence content_hash prior cursor now) d)) (\<lambda>d.
     authorized au SQLITE_INSERT ''ack_outbox''
       (insert_ack (applied_ack key sequence cursor now) d)))))"

text \<open>What an observation carries to its transaction. The producer is read for a late repair only.\<close>

record delivery =
  dl_observation :: json
  dl_run :: string
  dl_browser :: string
  dl_producer :: string
  dl_stream :: string
  dl_generation :: int
  dl_sequence :: int
  dl_content :: string

definition read_delivery :: "(json \<Rightarrow> string res) \<Rightarrow> json \<Rightarrow> delivery res" where
  "read_delivery read_producer ob =
     bindR (str_item ob ''discovery_run_id'') (\<lambda>run.
     bindR (jitem ob ''context'') (\<lambda>context.
     bindR (str_item context ''browser_run_id'') (\<lambda>browser.
     bindR (read_producer ob) (\<lambda>producer.
     bindR (str_item ob ''stream_id'') (\<lambda>stream.
     bindR (bindR (str_item ob ''generation'') integer) (\<lambda>generation.
     bindR (bindR (str_item ob ''sequence'') integer) (\<lambda>sequence.
     bindR (str_item ob ''content_hash'') (\<lambda>content_hash.
       Inr \<lparr>dl_observation = ob, dl_run = run, dl_browser = browser, dl_producer = producer, dl_stream = stream,
            dl_generation = generation, dl_sequence = sequence, dl_content = content_hash\<rparr>))))))))"

text \<open>The generation a delivery is for; at most one may match without the producer.\<close>

definition current_generation :: "delivery \<Rightarrow> db \<Rightarrow> stream_generation res" where
  "current_generation v d =
     (case filter (\<lambda>g. (case g_stream g of (run, browser, _, stream) \<Rightarrow>
         run = dl_run v \<and> browser = dl_browser v \<and> stream = dl_stream v) \<and> g_generation g = dl_generation v)
         (generations d) of
        [g] \<Rightarrow> if g_state g \<noteq> ''ACTIVE'' then Inl (ValueError ''E_INGEST_GENERATION_CLOSED'') else Inr g
      | _ \<Rightarrow> Inl (ValueError ''E_INGEST_GENERATION_BINDING''))"

definition position_key :: "stream_generation \<Rightarrow> position" where
  "position_key g = (g_stream g, g_generation g)"

text \<open>The branches on what is already stored at the position: a redelivery, a conflict, a gap, or
  the next observation. The result is a rejection code or the acknowledgement.\<close>

definition place :: "store_env \<Rightarrow> int \<Rightarrow> delivery \<Rightarrow> stream_generation \<Rightarrow> authorizer \<Rightarrow> db \<Rightarrow> ((string + ack) \<times> db) res" where
  "place E now v current au d =
     (let key = position_key current; sequence = dl_sequence v; content_hash = dl_content v;
          raw = fetchone (\<lambda>r. r_key r = key \<and> r_seq r = sequence) (raws d);
          previous = top_cursor d key;
          highest = (case previous of None \<Rightarrow> 0 | Some c \<Rightarrow> c_seq c)
      in case raw of
        Some r \<Rightarrow>
          if r_hash r = content_hash then
            (case fetchone (\<lambda>a. o_key a = key \<and> o_seq a = sequence) (acks d) of
               None \<Rightarrow> Inl (ValueError ''E_INGEST_INCOMPLETE_DURABLE_CHAIN'')
             | Some a \<Rightarrow> Inr (Inr a, d))
          else
            bindR (str_item (dl_observation v) ''raw_observation_id'') (\<lambda>oid.
            bindR (authorized au SQLITE_INSERT ''raw_conflicts''
              (insert_conflict \<lparr>x_id = ''conflict:'' @ content_hash, x_existing = r_id r, x_key = key, x_seq = sequence,
                 x_observation = oid, x_hash = content_hash, x_at = now\<rparr> d)) (\<lambda>d.
            bindR (gap_tx au current highest sequence content_hash now ''CONFLICTING_DUPLICATE'' d) (\<lambda>d.
              Inr (Inl ''E_INGEST_CONFLICT'', d))))
      | None \<Rightarrow>
          if sequence \<noteq> highest + 1 then
            (if sequence \<le> highest then Inl (ValueError ''E_INGEST_INCOMPLETE_DURABLE_CHAIN'')
             else bindR (gap_tx au current highest sequence content_hash now ''MISSING_SEQUENCE'' d) (\<lambda>d.
               Inr (Inl ''E_INGEST_GAP'', d)))
          else
            (let prior = (case previous of None \<Rightarrow> H0 | Some c \<Rightarrow> c_cursor c) in
             bindR (cursor_digest (base E) (registry E) key sequence content_hash prior) (\<lambda>cursor.
             bindR (str_item (dl_observation v) ''raw_observation_id'') (\<lambda>oid.
             bindR (append_chain au key sequence oid content_hash previous prior cursor now d) (\<lambda>d.
             case fetchone (\<lambda>a. o_id a = ''ack:'' @ cursor) (acks d) of
               None \<Rightarrow> Inl TypeError
             | Some a \<Rightarrow> Inr (Inr a, d))))))"

definition apply_tx :: "store_env \<Rightarrow> int \<Rightarrow> delivery \<Rightarrow> authorizer \<Rightarrow> db \<Rightarrow> ((string + ack) \<times> db) res" where
  "apply_tx E now v au d =
     bindR (validate_journal (base E) (registry E) d) (\<lambda>_.
     bindR (check_run (dl_observation v) (dl_run v) d) (\<lambda>_.
     bindR (current_generation v d) (\<lambda>current.
     if list_ex (\<lambda>x. x_key x = position_key current) (conflicts d) then Inl (ValueError ''E_INGEST_CONFLICT'')
     else place E now v current au d)))"

definition admit :: "store_env \<Rightarrow> json \<Rightarrow> delivery res" where
  "admit E ob =
     bindR (validate_raw E ob) (\<lambda>_.
     bindR (bindR (jitem ob ''observation_kind'') (\<lambda>k. in_strs k [''LIFECYCLE'', ''GAP''])) (\<lambda>special.
     if special then Inl (ContractNotImplementedError ''F0A-T04:OBSERVATION_SEMANTICS'')
     else read_delivery (\<lambda>_. Inr []) ob))"

definition ingest_apply :: "store_env \<Rightarrow> int \<Rightarrow> json \<Rightarrow> run_store \<Rightarrow> ack res \<times> run_store" where
  "ingest_apply E now ob s = (case admit E ob of
      Inl e \<Rightarrow> (Inl e, s)
    | Inr v \<Rightarrow> (case transaction E s (apply_tx E now v) of
        (Inl e, s') \<Rightarrow> (Inl e, s')
      | (Inr (Inl rejected), s') \<Rightarrow> (Inl (ValueError rejected), s')
      | (Inr (Inr a), s') \<Rightarrow> (Inr a, s')))"

section \<open>Confirming an acknowledgement\<close>

definition confirmation :: "ack \<Rightarrow> ack_cursor option \<Rightarrow> int \<Rightarrow> ack_cursor" where
  "confirmation a previous now =
     \<lparr>k_id = ''confirmation:'' @ o_cursor a, k_key = o_key a, k_owner = ''BACKEND'', k_seq = o_seq a,
      k_cursor = o_cursor a, k_against = ''BACKEND_DURABLE_CHAIN'', k_prev = map_option k_id previous, k_at = now\<rparr>"

definition confirm_tx :: "store_env \<Rightarrow> int \<Rightarrow> ack \<Rightarrow> authorizer \<Rightarrow> db \<Rightarrow> (ack_cursor \<times> db) res" where
  "confirm_tx E now a au d =
     bindR (validate_journal (base E) (registry E) d) (\<lambda>_.
     if fetchone (\<lambda>r. o_id r = o_id a) (acks d) \<noteq> Some a then Inl (ValueError ''E_ACK_CONFIRMATION_BINDING'')
     else (let previous = top_ack d (o_key a, ''BACKEND'') in
       bindR (case previous of None \<Rightarrow> Inr None
         | Some p \<Rightarrow>
             if k_seq p > o_seq a then Inl (ValueError ''E_ACK_CONFIRMATION_REGRESSION'')
             else if k_seq p = o_seq a then
               (if k_cursor p \<noteq> o_cursor a then Inl (ValueError ''E_ACK_CONFIRMATION_BINDING'') else Inr (Some p))
             else Inr None) (\<lambda>existing. case existing of
           Some p \<Rightarrow> Inr (p, d)
         | None \<Rightarrow>
             bindR (authorized au SQLITE_INSERT ''ack_cursors'' (insert_ack_cursor (confirmation a previous now) d)) (\<lambda>d.
             case fetchone (\<lambda>k. k_id k = ''confirmation:'' @ o_cursor a) (ack_cursors d) of
               None \<Rightarrow> Inl TypeError
             | Some k \<Rightarrow> Inr (k, d)))))"

definition confirm_ack :: "store_env \<Rightarrow> int \<Rightarrow> ack \<Rightarrow> run_store \<Rightarrow> ack_cursor res \<times> run_store" where
  "confirm_ack E now a s = transaction E s (confirm_tx E now a)"

section \<open>Storing a late repair\<close>

text \<open>Here the producer is the observation's clock domain and the generation is closed.\<close>

definition clock_domain :: "json \<Rightarrow> string res" where
  "clock_domain ob = bindR (jitem ob ''clock_context'') (\<lambda>clock. str_item clock ''clock_domain_id'')"

definition late_tx :: "store_env \<Rightarrow> int \<Rightarrow> delivery \<Rightarrow> authorizer \<Rightarrow> db \<Rightarrow> (raw_commit \<times> db) res" where
  "late_tx E now v au d =
     bindR (validate_journal (base E) (registry E) d) (\<lambda>_.
     bindR (check_run (dl_observation v) (dl_run v) d) (\<lambda>_.
     (let key = ((dl_run v, dl_browser v, dl_producer v, dl_stream v), dl_generation v); sequence = dl_sequence v in
      case fetchone (\<lambda>g. (g_stream g, g_generation g) = key) (generations d) of
        None \<Rightarrow> Inl (ValueError ''E_INGEST_LATE_REPAIR_BINDING'')
      | Some current \<Rightarrow>
          if g_state current \<notin> {''CLOSED'', ''QUARANTINED_GAP''} then Inl (ValueError ''E_INGEST_LATE_REPAIR_BINDING'')
          else if \<not> list_ex (\<lambda>p. (p_stream p, p_predecessor p) = key \<and> p_from p \<le> sequence \<and> sequence \<le> p_to p \<and>
              p_repair p = ''OPEN'') (gaps d)
            \<or> list_ex (\<lambda>r. r_key r = key \<and> r_seq r = sequence) (raws d)
            then Inl (ValueError ''E_INGEST_LATE_REPAIR_BINDING'')
          else (let previous = fetch_highest c_seq (\<lambda>c. c_key c = key \<and> c_seq c < sequence) (cursors d);
                    prior = (case previous of None \<Rightarrow> H0 | Some c \<Rightarrow> c_cursor c) in
            bindR (cursor_digest (base E) (registry E) key sequence (dl_content v) prior) (\<lambda>cursor.
            bindR (str_item (dl_observation v) ''raw_observation_id'') (\<lambda>oid.
            bindR (authorized au SQLITE_INSERT ''raw_commits'' (insert_raw
              \<lparr>r_id = ''late-repair:'' @ cursor, r_key = key, r_seq = sequence, r_observation = oid, r_hash = dl_content v,
               r_prev = prior, r_cursor = cursor, r_disposition = ''LATE_REPAIR_ONLY'', r_at = now\<rparr> d)) (\<lambda>d.
            case fetchone (\<lambda>r. r_id r = ''late-repair:'' @ cursor) (raws d) of
              None \<Rightarrow> Inl TypeError
            | Some r \<Rightarrow> Inr (r, d))))))))"

definition store_late_repair :: "store_env \<Rightarrow> int \<Rightarrow> json \<Rightarrow> run_store \<Rightarrow> raw_commit res \<times> run_store" where
  "store_late_repair E now ob s =
     (case bindR (validate_raw E ob) (\<lambda>_. read_delivery clock_domain ob) of
        Inl e \<Rightarrow> (Inl e, s)
      | Inr v \<Rightarrow> transaction E s (late_tx E now v))"

end
