(* ===== verification/Ingest_Journal.thy ===== *)
theory Ingest_Journal
  imports Ingest
begin

text \<open>
  What the calls of the ingest journal do to the tables: every statement appends its row or rewrites
  one controller or generation, so each branch of a call has a closed description; and no call
  makes a valid journal invalid.
\<close>

section \<open>Statements\<close>

named_theorems stmt \<open>a statement that succeeds and what it leaves\<close>

lemma authorized_Inr [stmt]: "authorized au a t m = Inr x \<longleftrightarrow> au a (Some t) None \<and> m = Inr x"
  by (simp add: authorized_def)

lemma guards_Inr [stmt]:
  "bind_ints is = Inr u \<longleftrightarrow> list_all int64 is" "trigger b t = Inr u \<longleftrightarrow> \<not> b"
  "check b = Inr u \<longleftrightarrow> b" "unique b = Inr u \<longleftrightarrow> \<not> b" "references b = Inr u \<longleftrightarrow> b"
  by (simp_all add: bind_ints_def trigger_def check_def unique_def references_def)

lemma insert_raw_Inr: "insert_raw n d = Inr e \<Longrightarrow> e = d\<lparr>raws := raws d @ [n]\<rparr>"
  and insert_conflict_Inr: "insert_conflict m d = Inr e \<Longrightarrow> e = d\<lparr>conflicts := conflicts d @ [m]\<rparr>"
  and insert_app_Inr: "insert_app a d = Inr e \<Longrightarrow> e = d\<lparr>apps := apps d @ [a]\<rparr>"
  and insert_rev_Inr: "insert_rev v d = Inr e \<Longrightarrow> e = d\<lparr>revs := revs d @ [v]\<rparr>"
  and insert_cursor_Inr: "insert_cursor c d = Inr e \<Longrightarrow> e = d\<lparr>cursors := cursors d @ [c]\<rparr>"
  and insert_ack_Inr: "insert_ack k d = Inr e \<Longrightarrow> e = d\<lparr>acks := acks d @ [k]\<rparr>"
  and insert_ack_cursor_Inr: "insert_ack_cursor q d = Inr e \<Longrightarrow> e = d\<lparr>ack_cursors := ack_cursors d @ [q]\<rparr>"
  by (simp_all add: insert_raw_def insert_conflict_def insert_app_def insert_rev_def insert_cursor_def
      insert_ack_def insert_ack_cursor_def)

lemma insert_gap_Inr: "insert_gap p d = Inr e \<Longrightarrow> e = d\<lparr>gaps := gaps d @ [p]\<rparr>"
  and insert_shock_Inr: "insert_shock s d = Inr e \<Longrightarrow> e = d\<lparr>shocks := shocks d @ [s]\<rparr>"
  and insert_transition_Inr: "insert_transition t d = Inr e \<Longrightarrow> e = d\<lparr>transitions := transitions d @ [t]\<rparr>"
  and insert_binding_Inr: "insert_binding b d = Inr e \<Longrightarrow> e = d\<lparr>bindings := bindings d @ [b]\<rparr>"
  and insert_gen_transition_Inr: "insert_gen_transition n d = Inr e \<Longrightarrow> e = d\<lparr>gen_transitions := gen_transitions d @ [n]\<rparr>"
  and insert_generation_Inr: "insert_generation g d = Inr e \<Longrightarrow> e = d\<lparr>generations := generations d @ [g]\<rparr>"
  by (simp_all add: insert_gap_def insert_shock_def insert_transition_def insert_binding_def
      insert_gen_transition_def insert_generation_def)

lemma mapR_eq_map:
  assumes "mapR f xs = Inr ys" and "\<And>x y. x \<in> set xs \<Longrightarrow> f x = Inr y \<Longrightarrow> y = g x"
  shows "ys = map g xs"
  using assms by (induction xs arbitrary: ys) auto

lemma update_controller_Inr:
  assumes "update_controller i f is d = Inr e"
  shows "e = d\<lparr>controllers := map (\<lambda>c. if l_id c = i then f c else c) (controllers d)\<rparr>"
proof -
  from assms obtain rows where e: "e = d\<lparr>controllers := rows\<rparr>"
    and m: "mapR (\<lambda>old. if l_id old \<noteq> i then Inr old else (let new = f old in
         bindR (trigger (l_id new \<noteq> l_id old \<or> l_run new \<noteq> l_run old \<or> l_fixture new \<noteq> l_fixture old \<or>
           l_revision new \<noteq> l_revision old + 1 \<or> \<not> controller_move_ok d old new) ''E_INVALID_COHERENCE_TRANSITION'') (\<lambda>_.
         bindR (check (controller_shape new)) (\<lambda>_.
         bindR (references (nullable (has_shock d) (l_shock new))) (\<lambda>_. Inr new))))) (controllers d) = Inr rows"
    unfolding update_controller_def by auto
  have "rows = map (\<lambda>c. if l_id c = i then f c else c) (controllers d)"
    by (rule mapR_eq_map [OF m]) (auto simp: Let_def split: if_splits)
  with e show ?thesis by simp
qed

lemma update_generation_Inr:
  assumes "update_generation i f is d = Inr e"
  shows "e = d\<lparr>generations := map (\<lambda>g. if g_id g = i then f g else g) (generations d)\<rparr>"
proof -
  from assms obtain rows where e: "e = d\<lparr>generations := rows\<rparr>"
    and m: "mapR (\<lambda>old. if g_id old \<noteq> i then Inr old else (let new = f old in
         bindR (trigger (\<not> generation_move_ok old new) ''E_INVALID_GENERATION_MUTATION'') (\<lambda>_.
         bindR (trigger (g_state old = ''ACTIVE'' \<and> g_state new \<noteq> ''ACTIVE'' \<and>
             nullable (\<lambda>r. r \<noteq> ''RUN_CLOSED'') (g_reason new) \<and> g_reason new \<noteq> None \<and> \<not> coherence_closed new d)
           ''E_GENERATION_CLOSE_WITHOUT_COHERENCE_CLOSURE'') (\<lambda>_.
         bindR (check (generation_shape new)) (\<lambda>_. Inr new))))) (generations d) = Inr rows"
    unfolding update_generation_def by auto
  have "rows = map (\<lambda>g. if g_id g = i then f g else g) (generations d)"
    by (rule mapR_eq_map [OF m]) (auto simp: Let_def split: if_splits)
  with e show ?thesis by simp
qed

lemmas statement_results = insert_raw_Inr insert_conflict_Inr insert_app_Inr insert_rev_Inr insert_cursor_Inr
  insert_ack_Inr insert_ack_cursor_Inr insert_gap_Inr insert_shock_Inr insert_transition_Inr insert_binding_Inr
  insert_gen_transition_Inr insert_generation_Inr update_controller_Inr update_generation_Inr

section \<open>The branches of a delivery\<close>

definition chain_rows :: "position \<Rightarrow> int \<Rightarrow> string \<Rightarrow> string \<Rightarrow> reducer_cursor option \<Rightarrow> string \<Rightarrow> string \<Rightarrow> int \<Rightarrow> db \<Rightarrow> db" where
  "chain_rows key sequence oid content_hash previous prior cursor now d = d\<lparr>
     raws := raws d @ [applied_raw key sequence oid content_hash prior cursor now],
     apps := apps d @ [applied_application key sequence content_hash prior cursor now],
     revs := revs d @ [applied_revision key sequence (case previous of None \<Rightarrow> None | Some _ \<Rightarrow> Some prior) cursor now],
     cursors := cursors d @ [applied_cursor key sequence content_hash prior cursor now],
     acks := acks d @ [applied_ack key sequence cursor now]\<rparr>"

lemma append_chain_Inr:
  "append_chain au key sequence oid content_hash previous prior cursor now d = Inr e \<Longrightarrow>
     e = chain_rows key sequence oid content_hash previous prior cursor now d"
  by (auto simp: append_chain_def chain_rows_def stmt dest!: statement_results)

definition gap_rows :: "stream_generation \<Rightarrow> controller \<Rightarrow> int \<Rightarrow> int \<Rightarrow> string \<Rightarrow> int \<Rightarrow> string \<Rightarrow> db \<Rightarrow> db" where
  "gap_rows current c highest sequence digest now reason d = d\<lparr>
     gaps := gaps d @ [gap_of current highest sequence digest now reason],
     shocks := shocks d @ [shock_of current c digest now reason],
     transitions := transitions d @ [closing_transition c digest now],
     controllers := map (\<lambda>x. if l_id x = l_id c then shocked digest now x else x) (controllers d),
     bindings := bindings d @ [binding_of c digest now],
     generations := map (\<lambda>g. if g_id g = g_id current then closed_generation now reason g else g) (generations d)
       @ [successor_of current digest now],
     gen_transitions := gen_transitions d @ [generation_step current digest now reason]\<rparr>"

lemma gap_tx_Inr:
  assumes "gap_tx au current highest sequence digest now reason d = Inr e"
  obtains c where "filter (\<lambda>c. l_run c = fst (g_stream current)) (controllers d) = [c]"
    and "l_state c \<in> {''OPEN'', ''NEW_EPOCH_OPEN''}"
    and "e = gap_rows current c highest sequence digest now reason d"
proof -
  from assms obtain c where c: "filter (\<lambda>c. l_run c = fst (g_stream current)) (controllers d) = [c]"
      "l_state c \<in> {''OPEN'', ''NEW_EPOCH_OPEN''}"
    by (auto simp: gap_tx_def split: list.splits if_splits)
  with assms have "e = gap_rows current c highest sequence digest now reason d"
    by (auto simp: gap_tx_def gap_rows_def stmt split: if_splits dest!: statement_results)
  with c that show thesis by blast
qed

lemma gap_tx_frame:
  assumes "gap_tx au current highest sequence digest now reason d = Inr e"
  shows "run_metas e = run_metas d \<and> raws e = raws d \<and> conflicts e = conflicts d \<and> apps e = apps d \<and>
         revs e = revs d \<and> cursors e = cursors d \<and> acks e = acks d \<and> ack_cursors e = ack_cursors d \<and> epochs e = epochs d"
  by (rule gap_tx_Inr [OF assms]) (simp add: gap_rows_def)

definition conflict_row :: "delivery \<Rightarrow> raw_commit \<Rightarrow> position \<Rightarrow> string \<Rightarrow> int \<Rightarrow> raw_conflict" where
  "conflict_row v r key oid now =
     \<lparr>x_id = ''conflict:'' @ dl_content v, x_existing = r_id r, x_key = key, x_seq = dl_sequence v,
      x_observation = oid, x_hash = dl_content v, x_at = now\<rparr>"

lemma place_cases:
  assumes "place E now v current au d = Inr (r, e)"
  obtains
    (redelivery) raw a where "List.find (\<lambda>r. r_key r = position_key current \<and> r_seq r = dl_sequence v) (raws d) = Some raw"
      "raw \<in> set (raws d)" "r_key raw = position_key current" "r_seq raw = dl_sequence v"
      "r_hash raw = dl_content v" "ack_at d (position_key current) (dl_sequence v) = Some a" "r = Inr a" "e = d"
  | (conflict) raw oid d1 where "raw \<in> set (raws d)" "r_key raw = position_key current" "r_seq raw = dl_sequence v"
      "r_hash raw \<noteq> dl_content v" "d1 = d\<lparr>conflicts := conflicts d @ [conflict_row v raw (position_key current) oid now]\<rparr>"
      "gap_tx au current (fst (stream_head d (position_key current))) (dl_sequence v) (dl_content v) now ''CONFLICTING_DUPLICATE'' d1 = Inr e"
      "r = Inl ''E_INGEST_CONFLICT''"
  | (gap) "\<And>raw. raw \<in> set (raws d) \<Longrightarrow> r_key raw = position_key current \<Longrightarrow> r_seq raw \<noteq> dl_sequence v"
      "fst (stream_head d (position_key current)) + 1 < dl_sequence v"
      "gap_tx au current (fst (stream_head d (position_key current))) (dl_sequence v) (dl_content v) now ''MISSING_SEQUENCE'' d = Inr e"
      "r = Inl ''E_INGEST_GAP''"
  | (following) cursor oid where "\<And>raw. raw \<in> set (raws d) \<Longrightarrow> r_key raw = position_key current \<Longrightarrow> r_seq raw \<noteq> dl_sequence v"
      "dl_sequence v = fst (stream_head d (position_key current)) + 1"
      "cursor_digest (base E) (registry E) (position_key current) (dl_sequence v) (dl_content v)
         (snd (stream_head d (position_key current))) = Inr cursor"
      "e = chain_rows (position_key current) (dl_sequence v) oid (dl_content v) (top_cursor d (position_key current))
         (snd (stream_head d (position_key current))) cursor now d"
      "append_chain au (position_key current) (dl_sequence v) oid (dl_content v) (top_cursor d (position_key current))
         (snd (stream_head d (position_key current))) cursor now d = Inr e"
      "\<exists>a. List.find (\<lambda>a. o_id a = ''ack:'' @ cursor) (acks e) = Some a \<and> r = Inr a"
proof -
  let ?k = "position_key current"
  have h: "(case top_cursor d ?k of None \<Rightarrow> 0 | Some c \<Rightarrow> c_seq c) = fst (stream_head d ?k)"
    "(case top_cursor d ?k of None \<Rightarrow> H0 | Some c \<Rightarrow> c_cursor c) = snd (stream_head d ?k)"
    by (simp_all add: stream_head_def split: option.split)
  show thesis
  proof (cases "fetchone (\<lambda>r. r_key r = ?k \<and> r_seq r = dl_sequence v) (raws d)")
    case (Some raw)
    then have raw: "raw \<in> set (raws d)" "r_key raw = ?k" "r_seq raw = dl_sequence v" by (auto dest!: find_Some_set)
    show thesis
    proof (cases "r_hash raw = dl_content v")
      case True
      with assms Some obtain a where
        "fetchone (\<lambda>a. o_key a = ?k \<and> o_seq a = dl_sequence v) (acks d) = Some a" "r = Inr a" "e = d"
        by (auto simp: place_def Let_def split: option.splits)
      with Some raw True show thesis by (intro redelivery [of raw a]) (simp_all add: ack_at_def)
    next
      case False
      with assms Some raw conflict show thesis
        by (auto simp: place_def Let_def h stmt conflict_row_def dest!: insert_conflict_Inr)
    qed
  next
    case None
    then have none: "\<And>raw. raw \<in> set (raws d) \<Longrightarrow> r_key raw = ?k \<Longrightarrow> r_seq raw \<noteq> dl_sequence v"
      by (auto simp: find_None_iff)
    show thesis
    proof (cases "dl_sequence v = fst (stream_head d ?k) + 1")
      case True
      with assms None obtain cursor oid a where
        c: "cursor_digest (base E) (registry E) ?k (dl_sequence v) (dl_content v) (snd (stream_head d ?k)) = Inr cursor"
        and e: "append_chain au ?k (dl_sequence v) oid (dl_content v) (top_cursor d ?k) (snd (stream_head d ?k)) cursor now d = Inr e"
        and a: "List.find (\<lambda>a. o_id a = ''ack:'' @ cursor) (acks e) = Some a" "r = Inr a"
        by (auto simp: place_def Let_def h split: option.splits)
      show thesis
      proof (rule following [OF _ True c _ e])
        show "r_seq raw \<noteq> dl_sequence v" if "raw \<in> set (raws d)" "r_key raw = ?k" for raw using none that .
        show "e = chain_rows ?k (dl_sequence v) oid (dl_content v) (top_cursor d ?k) (snd (stream_head d ?k)) cursor now d"
          by (rule append_chain_Inr [OF e])
        show "\<exists>a. List.find (\<lambda>a. o_id a = ''ack:'' @ cursor) (acks e) = Some a \<and> r = Inr a" using a by blast
      qed
    next
      case False
      with assms None none gap show thesis
        by (auto simp: place_def Let_def h split: if_splits)
    qed
  qed
qed

end
