(* ===== verification/Ingest_Valid.thy ===== *)
theory Ingest_Valid
  imports Ingest_Journal
begin

text \<open>
  Every call of the ingest journal leaves a valid journal valid, and only ever adds rows to the
  tables of the durable chain.
\<close>

section \<open>The next observation\<close>

lemma top_cursor_none_iff:
  assumes V: "validate_journal X R d = Inr ()"
  shows "top_cursor d k = None \<longleftrightarrow> fst (stream_head d k) = 0"
proof (cases "top_cursor d k")
  case (Some c)
  then have "c \<in> set (cursors d)" using fetch_highest_Some by (fastforce simp: top_cursor_def)
  from cursor_seq_pos [OF V this] Some show ?thesis by (simp add: stream_head_def)
qed (simp add: stream_head_def)

lemma chain_rows_valid:
  assumes V: "validate_journal X R d = Inr ()" and n: "n = fst (stream_head d k) + 1"
    and c: "cursor_digest X R k n ch (snd (stream_head d k)) = Inr cursor"
  shows "validate_journal X R (chain_rows k n oid ch (top_cursor d k) (snd (stream_head d k)) cursor now d) = Inr ()"
proof -
  let ?h = "snd (stream_head d k)" and ?m = "fst (stream_head d k)"
  let ?e = "chain_rows k n oid ch (top_cursor d k) ?h cursor now d"
  have prev: "(case top_cursor d k of None \<Rightarrow> None | Some _ \<Rightarrow> Some ?h) = (if ?m = 0 then None else Some ?h)"
    using top_cursor_none_iff [OF V, of k] by (auto split: option.split)
  show ?thesis
  proof (rule journal_extends [OF V, where k = k and n = ?m and h = ?h and g = cursor])
    show "applied ?e = applied d @ [applied_raw k n oid ch ?h cursor now]"
      by (simp add: applied_def chain_rows_def applied_raw_def)
    show "linked (applied_raw k n oid ch ?h cursor now) (applied_application k n ch ?h cursor now)
      (applied_revision k n (case top_cursor d k of None \<Rightarrow> None | Some _ \<Rightarrow> Some ?h) cursor now)
      (applied_cursor k n ch ?h cursor now) (applied_ack k n cursor now) ?m ?h cursor"
      unfolding prev by (simp add: linked_def n applied_raw_def applied_application_def applied_revision_def
          applied_cursor_def applied_ack_def)
    show "cursor_digest X R k (?m + 1) (r_hash (applied_raw k n oid ch ?h cursor now)) ?h = Inr cursor"
      using c n by (simp add: applied_raw_def)
  qed (simp_all add: chain_rows_def n applied_raw_def applied_application_def applied_revision_def
      applied_cursor_def applied_ack_def)
qed

text \<open>A gap touches no table of the chain.\<close>

lemma gap_tx_valid:
  assumes "gap_tx au current highest sequence digest now reason d = Inr e"
  shows "validate_journal X R e = validate_journal X R d"
  using gap_tx_frame [OF assms] by (intro validate_journal_cong) (simp_all add: applied_def)

lemma place_valid:
  assumes V: "validate_journal (base E) (registry E) d = Inr ()"
    and p: "place E now v current au d = Inr (r, e)"
  shows "validate_journal (base E) (registry E) e = Inr ()"
  using p
proof (cases rule: place_cases)
  case (conflict raw oid d1)
  have "validate_journal (base E) (registry E) d1 = validate_journal (base E) (registry E) d"
    by (rule validate_journal_cong) (simp_all add: conflict(5) applied_def)
  with V gap_tx_valid [OF conflict(6)] show ?thesis by simp
next
  case gap
  with V gap_tx_valid [OF gap(3)] show ?thesis by simp
next
  case (following cursor oid)
  then show ?thesis using chain_rows_valid [OF V following(2,3)] by simp
qed (use V in simp)

lemma apply_tx_valid:
  "apply_tx E now v au d = Inr (r, e) \<Longrightarrow> validate_journal (base E) (registry E) e = Inr ()"
  by (auto simp: apply_tx_def split: if_splits intro: place_valid)

section \<open>Confirmations and late repairs\<close>

lemma confirm_tx_cases:
  assumes "confirm_tx E now a au d = Inr (k, e)"
  obtains
    (known) "validate_journal (base E) (registry E) d = Inr ()" "List.find (\<lambda>r. o_id r = o_id a) (acks d) = Some a"
      "top_ack d (o_key a, ''BACKEND'') = Some k" "k_seq k = o_seq a" "k_cursor k = o_cursor a" "e = d"
  | (recorded) "validate_journal (base E) (registry E) d = Inr ()" "List.find (\<lambda>r. o_id r = o_id a) (acks d) = Some a"
      "\<And>p. top_ack d (o_key a, ''BACKEND'') = Some p \<Longrightarrow> k_seq p < o_seq a"
      "insert_ack_cursor (confirmation a (top_ack d (o_key a, ''BACKEND'')) now) d = Inr e"
      "List.find (\<lambda>k. k_id k = ''confirmation:'' @ o_cursor a) (ack_cursors e) = Some k"
proof (cases "top_ack d (o_key a, ''BACKEND'')")
  case None
  with assms recorded show thesis by (auto simp: confirm_tx_def Let_def stmt split: if_splits option.splits)
next
  case (Some p)
  then show thesis
  proof (cases "k_seq p = o_seq a")
    case True
    with assms Some known show thesis by (auto simp: confirm_tx_def Let_def stmt split: if_splits)
  next
    case False
    with assms Some recorded show thesis
      by (auto simp: confirm_tx_def Let_def stmt split: if_splits option.splits)
  qed
qed

lemma ack_at_member:
  assumes V: "validate_journal X R d = Inr ()" and a: "a \<in> set (acks d)"
  shows "ack_at d (o_key a) (o_seq a) = Some a"
proof -
  have "distinct (map (\<lambda>r. (o_key r, o_seq r)) (acks d))" using journal_positions [OF V] by (simp add: positions_ok_def)
  from find_unique [OF this a] show ?thesis by (simp add: ack_at_def)
qed

lemma ack_seq_pos:
  assumes V: "validate_journal X R d = Inr ()" and a: "a \<in> set (acks d)"
  shows "1 \<le> o_seq a"
proof -
  have "(o_key a, o_seq a) \<in> (\<lambda>r. (r_key r, r_seq r)) ` set (applied d)"
    unfolding ack_positions [OF V, symmetric] using a by simp
  then obtain r where r: "r \<in> set (applied_at d (o_key a))" "r_seq r = o_seq a" by (auto simp: applied_at_def)
  then have "r_seq r \<in> {1..int (length (applied_at d (o_key a)))}" using journal_seq_range [OF V] by blast
  with r show ?thesis by simp
qed

lemma confirm_tx_valid:
  assumes "confirm_tx E now a au d = Inr (k, e)"
  shows "validate_journal (base E) (registry E) e = Inr ()"
  using assms
proof (cases rule: confirm_tx_cases)
  case recorded
  let ?c = "confirmation a (top_ack d (o_key a, ''BACKEND'')) now"
  have e: "e = d\<lparr>ack_cursors := ack_cursors d @ [?c]\<rparr>" by (rule insert_ack_cursor_Inr [OF recorded(4)])
  have a: "a \<in> set (acks d)" using find_Some_set [OF recorded(2)] by simp
  have ok: "owner_key ?c = (o_key a, ''BACKEND'')" by (simp add: owner_key_def confirmation_def)
  show ?thesis
  proof (rule confirmation_extends [OF recorded(1), where a = ?c])
    show "k_seq p < k_seq ?c" if "top_ack d (owner_key ?c) = Some p" for p
      using recorded(3) [of p] that unfolding ok by (simp add: confirmation_def)
    show "k_prev ?c = map_option k_id (top_ack d (owner_key ?c))" unfolding ok by (simp add: confirmation_def)
    show "0 < k_seq ?c" using ack_seq_pos [OF recorded(1) a] by (simp add: confirmation_def)
    show "map_option o_cursor (ack_at d (k_key ?c) (k_seq ?c)) = Some (k_cursor ?c)"
      using ack_at_member [OF recorded(1) a] by (simp add: confirmation_def)
  qed (simp_all add: e applied_def confirmation_def required_binding_def)
qed simp

lemma late_tx_effect:
  assumes "late_tx E now v au d = Inr (r, e)"
  shows "validate_journal (base E) (registry E) d = Inr () \<and>
    (\<exists>n. e = d\<lparr>raws := raws d @ [n]\<rparr> \<and> r_disposition n = ''LATE_REPAIR_ONLY'' \<and>
       r_key n = ((dl_run v, dl_browser v, dl_producer v, dl_stream v), dl_generation v) \<and> r_seq n = dl_sequence v)"
  using assms
  by (auto simp: late_tx_def Let_def stmt split: option.splits if_splits dest!: insert_raw_Inr)

lemma late_tx_valid:
  assumes "late_tx E now v au d = Inr (r, e)"
  shows "validate_journal (base E) (registry E) e = Inr ()"
proof -
  from late_tx_effect [OF assms] obtain n where V: "validate_journal (base E) (registry E) d = Inr ()"
    and e: "e = d\<lparr>raws := raws d @ [n]\<rparr>" "r_disposition n = ''LATE_REPAIR_ONLY''" by blast
  have "validate_journal (base E) (registry E) e = validate_journal (base E) (registry E) d"
    by (rule validate_journal_cong) (simp_all add: e applied_def)
  with V show ?thesis by simp
qed

end
