(* ===== verification/Ingest_Runs.thy ===== *)
theory Ingest_Runs
  imports Ingest_Valid "HOL-Library.Sublist"
begin

text \<open>
  Sequences of calls on one store. Clients of the journal (the input journal, the receiver, the
  replay) rely on three laws of a single call, stated as the locale \<open>durable_log\<close>: a good state stays
  good, the log only grows, and what a call acknowledged is in the log. The interpretation at the
  end proves them for the calls of \<^verbatim>\<open>ingest.py\<close>.
\<close>

section \<open>The interface\<close>

locale durable_log =
  fixes serve :: "'q \<Rightarrow> 's \<Rightarrow> 's"
    and good :: "'s \<Rightarrow> bool"
    and grows :: "'s \<Rightarrow> 's \<Rightarrow> bool"
  assumes good_serve: "good s \<Longrightarrow> good (serve q s)"
    and grows_serve: "grows s (serve q s)"
    and grows_refl: "grows s s"
    and grows_trans: "grows s t \<Longrightarrow> grows t u \<Longrightarrow> grows s u"
begin

definition serve_all :: "'q list \<Rightarrow> 's \<Rightarrow> 's" where
  "serve_all qs s = fold serve qs s"

lemma good_serve_all: "good s \<Longrightarrow> good (serve_all qs s)"
  unfolding serve_all_def by (induction qs arbitrary: s) (auto intro: good_serve)

lemma grows_serve_all: "grows s (serve_all qs s)"
  unfolding serve_all_def
proof (induction qs arbitrary: s)
  case Nil
  then show ?case by (simp add: grows_refl)
next
  case (Cons q qs)
  from grows_trans [OF grows_serve Cons.IH] show ?case by simp
qed

lemma kept:
  assumes "\<And>s t. grows s t \<Longrightarrow> P s \<Longrightarrow> P t" and "P s"
  shows "P (serve_all qs s)"
  using assms grows_serve_all by blast

end

section \<open>Tables only grow\<close>

text \<open>Rows are appended; a generation keeps its identity, and once closed it is never active again.\<close>

definition generation_position :: "stream_generation \<Rightarrow> position" where
  "generation_position g = (g_stream g, g_generation g)"

definition extends :: "db \<Rightarrow> db \<Rightarrow> bool" where
  "extends d e \<longleftrightarrow> run_metas e = run_metas d \<and> epochs e = epochs d \<and>
     prefix (raws d) (raws e) \<and> prefix (conflicts d) (conflicts e) \<and> prefix (apps d) (apps e) \<and>
     prefix (revs d) (revs e) \<and> prefix (cursors d) (cursors e) \<and> prefix (acks d) (acks e) \<and>
     prefix (ack_cursors d) (ack_cursors e) \<and> prefix (gaps d) (gaps e) \<and> prefix (bindings d) (bindings e) \<and>
     prefix (gen_transitions d) (gen_transitions e) \<and> prefix (transitions d) (transitions e) \<and>
     prefix (shocks d) (shocks e) \<and>
     prefix (map generation_position (generations d)) (map generation_position (generations e)) \<and>
     length (controllers e) = length (controllers d) \<and>
     (\<forall>i < length (generations d). g_state (generations d ! i) \<noteq> ''ACTIVE'' \<longrightarrow> g_state (generations e ! i) \<noteq> ''ACTIVE'')"

lemma extends_refl: "extends d d"
  by (simp add: extends_def)

lemma extends_trans:
  assumes "extends d e" and "extends e f" shows "extends d f"
proof -
  have "length (generations d) \<le> length (generations e)"
    using assms(1) by (auto simp: extends_def dest!: prefix_length_le)
  with assms show ?thesis unfolding extends_def by (intro conjI) (auto intro: prefix_order.trans)
qed

lemma extends_append:
  "extends d (d\<lparr>conflicts := conflicts d @ xs\<rparr>)" "extends d (d\<lparr>raws := raws d @ rs\<rparr>)"
  "extends d (d\<lparr>ack_cursors := ack_cursors d @ ks\<rparr>)"
  by (simp_all add: extends_def)

lemma chain_rows_extends: "extends d (chain_rows key n oid ch previous prior cursor now d)"
  by (simp add: extends_def chain_rows_def)

lemma gap_rows_extends: "extends d (gap_rows current c highest sequence digest now reason d)"
proof -
  have "generation_position \<circ> (\<lambda>g. if g_id g = i then closed_generation now reason g else g) =
      generation_position" for i
    by (simp add: fun_eq_iff generation_position_def closed_generation_def)
  then show ?thesis
    by (simp add: extends_def gap_rows_def nth_append closed_generation_def)
qed

lemma gap_tx_extends:
  "gap_tx au current highest sequence digest now reason d = Inr e \<Longrightarrow> extends d e"
  by (metis gap_tx_Inr gap_rows_extends)

lemma place_extends:
  assumes "place E now v current au d = Inr (r, e)"
  shows "extends d e"
  using assms
proof (cases rule: place_cases)
  case (conflict raw oid d1)
  have "extends d d1" unfolding conflict(5) by (rule extends_append)
  then show ?thesis using gap_tx_extends [OF conflict(6)] by (rule extends_trans)
next
  case gap
  then show ?thesis by (simp add: gap_tx_extends)
next
  case (following cursor oid)
  then show ?thesis by (simp add: chain_rows_extends)
qed (simp add: extends_refl)

lemma apply_tx_extends: "apply_tx E now v au d = Inr (r, e) \<Longrightarrow> extends d e"
  by (auto simp: apply_tx_def split: if_splits intro: place_extends)

lemma confirm_tx_extends:
  assumes "confirm_tx E now a au d = Inr (k, e)"
  shows "extends d e"
  using assms by (cases rule: confirm_tx_cases) (auto simp: extends_refl extends_append dest: insert_ack_cursor_Inr)

lemma late_tx_extends: "late_tx E now v au d = Inr (r, e) \<Longrightarrow> extends d e"
  by (auto simp: extends_append dest!: late_tx_effect)

section \<open>Calls\<close>

datatype request = Apply int json | Confirm int ack | Repair int json

definition serve :: "store_env \<Rightarrow> request \<Rightarrow> run_store \<Rightarrow> run_store" where
  "serve E q s = (case q of
      Apply now ob \<Rightarrow> snd (ingest_apply E now ob s)
    | Confirm now a \<Rightarrow> snd (confirm_ack E now a s)
    | Repair now ob \<Rightarrow> snd (store_late_repair E now ob s))"

definition journal_ok :: "store_env \<Rightarrow> run_store \<Rightarrow> bool" where
  "journal_ok E s \<longleftrightarrow> validate_journal (base E) (registry E) (contents s) = Inr ()"

definition store_extends :: "run_store \<Rightarrow> run_store \<Rightarrow> bool" where
  "store_extends s t \<longleftrightarrow> extends (contents s) (contents t)"

text \<open>A transaction leaves the contents alone or commits what its body returned.\<close>

lemma transaction_cases:
  assumes "transaction E s body = (x, s')"
  obtains (rolled_back) e where "x = Inl e" and "contents s' = contents s"
  | (committed) a d' where "x = Inr a" and "connect E s = Inr (contents s)"
      and "body (authorizer_of s (contents s)) (contents s) = Inr (a, d')" and "foreign_keys_ok d'"
      and "s' = s\<lparr>contents := d'\<rparr>"
proof (cases "connect E s")
  case (Inl e)
  with assms rolled_back show thesis by (auto simp: transaction_def)
next
  case (Inr d)
  then have d: "d = contents s" by (auto simp: connect_def)
  show thesis
  proof (cases "body (authorizer_of s d) d")
    case (Inl e)
    with assms Inr rolled_back show thesis
      by (auto simp: transaction_def log_denial_def split: exn.splits)
  next
    case (Inr p)
    obtain a d' where p: "p = (a, d')" by (cases p)
    show thesis
    proof (cases "foreign_keys_ok d'")
      case True
      with assms Inr \<open>connect E s = Inr d\<close> p d have "x = Inr a" "s' = s\<lparr>contents := d'\<rparr>"
        by (auto simp: transaction_def)
      with Inr \<open>connect E s = Inr d\<close> p d True show thesis by (intro committed) simp_all
    next
      case False
      with assms Inr \<open>connect E s = Inr d\<close> p rolled_back show thesis by (auto simp: transaction_def)
    qed
  qed
qed

lemma transaction_preserves:
  assumes "transaction E s body = (x, s')" and "P (contents s)"
    and "\<And>a d'. body (authorizer_of s (contents s)) (contents s) = Inr (a, d') \<Longrightarrow> P d'"
  shows "P (contents s')"
  using assms(1) by (cases rule: transaction_cases) (use assms(2,3) in auto)

lemma ingest_apply_state:
  "snd (ingest_apply E now ob s) =
     (case admit E ob of Inl e \<Rightarrow> s | Inr v \<Rightarrow> snd (transaction E s (apply_tx E now v)))"
  by (auto simp: ingest_apply_def split: sum.splits prod.splits)

lemma store_late_repair_state:
  "snd (store_late_repair E now ob s) =
     (case bindR (validate_raw E ob) (\<lambda>_. read_delivery clock_domain ob) of
        Inl e \<Rightarrow> s | Inr v \<Rightarrow> snd (transaction E s (late_tx E now v)))"
  by (auto simp: store_late_repair_def split: sum.splits)

lemma serve_preserves:
  assumes "P (contents s)"
    and "\<And>now v au r d'. apply_tx E now v au (contents s) = Inr (r, d') \<Longrightarrow> P d'"
    and "\<And>now a au k d'. confirm_tx E now a au (contents s) = Inr (k, d') \<Longrightarrow> P d'"
    and "\<And>now v au r d'. late_tx E now v au (contents s) = Inr (r, d') \<Longrightarrow> P d'"
  shows "P (contents (serve E q s))"
proof -
  have T: "P (contents (snd (transaction E s body)))"
    if "\<And>a d'. body (authorizer_of s (contents s)) (contents s) = Inr (a, d') \<Longrightarrow> P d'"
    for body :: "authorizer \<Rightarrow> db \<Rightarrow> ('b \<times> db) res"
    using transaction_preserves [of E s body "fst (transaction E s body)" "snd (transaction E s body)" P]
      assms(1) that by simp
  show ?thesis
  proof (cases q)
    case (Apply now ob)
    then show ?thesis using assms(1) T [of "apply_tx E now _"] assms(2)
      by (auto simp: serve_def ingest_apply_state split: sum.split)
  next
    case (Confirm now a)
    then show ?thesis using T [of "confirm_tx E now a"] assms(3) by (auto simp: serve_def confirm_ack_def)
  next
    case (Repair now ob)
    then show ?thesis using assms(1) T [of "late_tx E now _"] assms(4)
      by (auto simp: serve_def store_late_repair_state split: sum.split)
  qed
qed

interpretation ingest: durable_log "serve E" "journal_ok E" store_extends
proof
  show "journal_ok E (serve E q s)" if "journal_ok E s" for q s
    unfolding journal_ok_def
    by (rule serve_preserves)
      (use that in \<open>auto simp: journal_ok_def intro: apply_tx_valid confirm_tx_valid late_tx_valid\<close>)
  show "store_extends s (serve E q s)" for q s
    unfolding store_extends_def
    by (rule serve_preserves) (auto intro: extends_refl apply_tx_extends confirm_tx_extends late_tx_extends)
  show "store_extends s s" for s by (simp add: store_extends_def extends_refl)
  show "store_extends s u" if "store_extends s t" "store_extends t u" for s t u
    using that unfolding store_extends_def by (rule extends_trans)
qed

end
