(* ===== verification/Offline_Run.thy ===== *)
theory Offline_Run
  imports Ingest_Runs
begin

text \<open>
  \<^verbatim>\<open>src/moj_discovery/offline_run.py\<close> and \<^verbatim>\<open>RunStore.bootstrap_v1\<close> of \<^verbatim>\<open>store.py\<close>: a fresh store and
  the four seed rows of a synthetic run, and the run context checked by \<open>validate_context\<close> of
  \<^verbatim>\<open>offline_protocol.py\<close>.

  \<open>context_schema\<close> is the verdict of the \<^verbatim>\<open>jsonschema\<close> package on \<open>context.schema.json\<close>. Running the
  governed DDL on an empty file gives the version, page limit and schema objects that DDL declares
  and empty tables (\<open>fresh_store\<close>).
\<close>

record offline_env =
  store_side :: store_env
  context_schema :: "json \<Rightarrow> bool"

section \<open>The run context\<close>

text \<open>Every exception inside \<open>validate_context\<close> becomes the one binding error.\<close>

definition recast :: "string \<Rightarrow> 'a res \<Rightarrow> 'a res" where
  "recast code m = (case m of Inl _ \<Rightarrow> Inl (ValueError code) | Inr x \<Rightarrow> Inr x)"

definition context_checks :: "offline_env \<Rightarrow> json \<Rightarrow> unit res" where
  "context_checks E value =
     bindR (raise_if (\<not> context_schema E value) SchemaViolation) (\<lambda>_.
     bindR (bindR (str_item value ''normal_spool_limit_bytes'') parse_int) (\<lambda>limit.
     bindR (raise_if (\<not> (1024 \<le> limit \<and> limit \<le> 133169152)) (ValueError [])) (\<lambda>_.
     bindR (bindR (str_item value ''generation'') parse_int) (\<lambda>generation.
       raise_if (generation > 9223372036854775807) (ValueError [])))))"

definition validate_context :: "offline_env \<Rightarrow> json \<Rightarrow> unit res" where
  "validate_context E value = recast ''E_OFFLINE_SOURCE_BINDING'' (context_checks E value)"

section \<open>A fresh store\<close>

definition fresh_store :: "store_env \<Rightarrow> string \<Rightarrow> run_store" where
  "fresh_store E ddl = \<lparr>is_file = True, is_symlink = False, page_limit = 32768, user_version = 1,
     integrity_check = [''ok''], file_schema = schema_objects E ddl, contents = empty_db,
     write_denied = False, fault_events = []\<rparr>"

text \<open>\<open>bootstrap_v1\<close>: an existing store is opened and left alone.\<close>

definition bootstrap_v1 :: "store_env \<Rightarrow> run_store option \<Rightarrow> run_store res" where
  "bootstrap_v1 E existing =
     bindR (verified_ddl E) (\<lambda>ddl. case existing of
        Some s \<Rightarrow> bindR (connect E s) (\<lambda>_. Inr s)
      | None \<Rightarrow> (let s = fresh_store E ddl in bindR (verify_database E s) (\<lambda>_. Inr s)))"

section \<open>The seeds\<close>

definition seed_tx :: "store_env \<Rightarrow> int \<Rightarrow> string \<Rightarrow> json \<Rightarrow> authorizer \<Rightarrow> db \<Rightarrow> (unit \<times> db) res" where
  "seed_tx E now identity context au d =
     bindR (str_item context ''run_id'') (\<lambda>run.
     bindR (str_item context ''vendor_sha256'') (\<lambda>pack.
     bindR (str_item context ''code_sha256'') (\<lambda>build.
     bindR (authorized au SQLITE_INSERT ''run_meta'' (insert_run_meta
       \<lparr>m_run = run, m_status = ''OPEN'', m_authorization = ''offline-only:synthetic-not-authorization'',
        m_pack_hash = pack, m_build_hash = build, m_created_at = now, m_closed_at = None\<rparr> d)) (\<lambda>d.
     bindR (str_item context ''browser_run_id'') (\<lambda>browser.
     bindR (str_item context ''producer_id'') (\<lambda>producer.
     bindR (str_item context ''stream_id'') (\<lambda>stream.
     bindR (bindR (str_item context ''generation'') parse_int) (\<lambda>generation.
     bindR (authorized au SQLITE_INSERT ''stream_generations'' (insert_generation
       \<lparr>g_id = ''generation:'' @ identity, g_stream = (run, browser, producer, stream), g_generation = generation,
        g_predecessor = None, g_state = ''ACTIVE'', g_opened_at = now, g_closed_at = None, g_reason = None\<rparr> d)) (\<lambda>d.
     bindR (authorized au SQLITE_INSERT ''coherence_epochs'' (insert_epoch
       \<lparr>e_id = ''epoch:'' @ identity, e_run = run, e_fixture = ''fixture:offline-accounting'', e_generation = 0,
        e_predecessor = None, e_status = ''OPEN'', e_freshness = None, e_proof = None, e_at = now,
        e_predecessor_closed = 0\<rparr> d)) (\<lambda>d.
     bindR (authorized au SQLITE_INSERT ''coherence_controllers'' (insert_controller
       \<lparr>l_id = ''controller:'' @ identity, l_run = run, l_fixture = ''fixture:offline-accounting'', l_state = ''OPEN'',
        l_epoch = ''epoch:'' @ identity, l_candidate = None, l_predecessor = None, l_shock = None,
        l_revision = 0, l_at = now\<rparr> d)) (\<lambda>d. Inr ((), d))))))))))))"

text \<open>\<open>create_offline_run\<close>, given whether a component of the path is a symbolic link and whether the
  directory exists.\<close>

definition create_offline_run :: "offline_env \<Rightarrow> int \<Rightarrow> bool \<Rightarrow> bool \<Rightarrow> json \<Rightarrow> run_store res" where
  "create_offline_run E now symlinked existing context =
     bindR (validate_context E context) (\<lambda>_.
     bindR (raise_if symlinked (ValueError ''E_OFFLINE_RUN_PATH'')) (\<lambda>_.
     bindR (raise_if existing OSError) (\<lambda>_.
     bindR (jcs (base (store_side E)) context) (\<lambda>_.
     bindR (bootstrap_v1 (store_side E) None) (\<lambda>s.
     bindR (jitem context ''run_id'') (\<lambda>run.
     bindR (jitem context ''stream_id'') (\<lambda>stream.
     bindR (jitem context ''generation'') (\<lambda>generation.
     bindR (jcs (base (store_side E)) (JArr [run, stream, generation])) (\<lambda>bytes.
       (case transaction (store_side E) s (seed_tx (store_side E) now (sha256 (base (store_side E)) bytes) context) of
          (Inl e, _) \<Rightarrow> Inl e
        | (Inr _, t) \<Rightarrow> Inr t))))))))))"

end
