(* ===== verification/Ingest_Accept.thy ===== *)
theory Ingest_Accept
  imports Ingest_Runs
begin

text \<open>
  The store accepts what it should: on a valid journal the next observation of an active generation
  passes every trigger, constraint and reference of its five insertions and of the commit, so the
  call returns its acknowledgement.
\<close>

section \<open>The head of a stream as the triggers see it\<close>

lemma coalesce_max_head:
  assumes V: "validate_journal X R d = Inr ()"
  shows "coalesce_max (map r_seq (filter (\<lambda>r. r_key r = k) (applied d))) = fst (stream_head d k)"
proof -
  let ?xs = "map r_seq (filter (\<lambda>r. r_key r = k) (applied d))" and ?n = "length (applied_at d k)"
  have s: "set ?xs = {1..int ?n}"
    using journal_seq_range [OF V, of k] by (simp add: applied_at_def)
  have l: "length ?xs = ?n" by (simp add: applied_at_def)
  have "coalesce_max ?xs = int ?n"
  proof (cases "?n = 0")
    case True
    with l show ?thesis by (simp add: coalesce_max_def)
  next
    case False
    then have "Max {1..int ?n} = int ?n" by (intro Max_eqI) (auto simp: Suc_le_eq)
    moreover have "?xs \<noteq> []" using False l by auto
    ultimately show ?thesis using s by (simp add: coalesce_max_def del: set_map)
  qed
  then show ?thesis by (simp add: head_length [OF V])
qed

lemma head_cursor:
  assumes V: "validate_journal X R d = Inr ()" and n: "0 < fst (stream_head d k)"
  shows "\<exists>c \<in> set (cursors d). c_key c = k \<and> c_seq c = fst (stream_head d k) \<and> c_cursor c = snd (stream_head d k)"
proof (cases "top_cursor d k")
  case None
  with n show ?thesis by (simp add: stream_head_def)
next
  case (Some c)
  then have "c \<in> set (cursors d) \<and> c_key c = k" using fetch_highest_Some by (fastforce simp: top_cursor_def)
  with Some show ?thesis by (auto simp: stream_head_def)
qed

lemma head_seed: "fst (stream_head d k) = 0 \<Longrightarrow> validate_journal X R d = Inr () \<Longrightarrow> snd (stream_head d k) = H0"
  using top_cursor_none_iff [of X R d k] by (auto simp: stream_head_def split: option.splits)

lemma revision_numbers:
  assumes V: "validate_journal X R d = Inr ()" and v: "v \<in> set (revs d)"
  shows "v_revision v = v_seq v"
proof -
  have "(v_key v, v_seq v) \<in> (\<lambda>r. (r_key r, r_seq r)) ` set (applied d)"
    unfolding rev_positions [OF V, symmetric] using v by auto
  then obtain r where r: "r \<in> set (applied d)" "r_key r = v_key v" "r_seq r = v_seq v" by auto
  have "distinct (map (\<lambda>r. (v_key r, v_seq r)) (revs d))" using journal_positions [OF V] by (simp add: positions_ok_def)
  from find_unique [OF this v] have "rev_at d (r_key r) (r_seq r) = Some v" by (simp add: rev_at_def r)
  with journal_member [OF V r(1)] r show ?thesis unfolding linked_def by (metis diff_add_cancel option.inject)
qed

section \<open>References survive growth\<close>

definition covers :: "db \<Rightarrow> db \<Rightarrow> bool" where
  "covers d e \<longleftrightarrow> (\<forall>i. has_run d i \<longrightarrow> has_run e i) \<and> (\<forall>k. has_generation d k \<longrightarrow> has_generation e k) \<and>
     (\<forall>i. has_epoch d i \<longrightarrow> has_epoch e i) \<and> (\<forall>i. has_shock d i \<longrightarrow> has_shock e i) \<and>
     (\<forall>i. has_controller d i \<longrightarrow> has_controller e i) \<and> (\<forall>i. has_gap d i \<longrightarrow> has_gap e i) \<and>
     (\<forall>i. has_transition d i \<longrightarrow> has_transition e i) \<and> (\<forall>i k n. has_raw d i k n \<longrightarrow> has_raw e i k n) \<and>
     (\<forall>i k n. has_app d i k n \<longrightarrow> has_app e i k n) \<and> (\<forall>i k n. has_rev d i k n \<longrightarrow> has_rev e i k n) \<and>
     (\<forall>i k n. has_cursor d i k n \<longrightarrow> has_cursor e i k n) \<and> set (raws d) \<subseteq> set (raws e) \<and>
     set (apps d) \<subseteq> set (apps e) \<and> set (revs d) \<subseteq> set (revs e) \<and> set (ack_cursors d) \<subseteq> set (ack_cursors e)"

lemma nullable_mono: "(\<And>x. p x \<Longrightarrow> q x) \<Longrightarrow> nullable p v \<Longrightarrow> nullable q v"
  by (auto simp: nullable_def split: option.splits)

lemma row_mono:
  assumes "covers d e"
  shows "now_generation d g \<Longrightarrow> now_generation e g" "late_generation d g \<Longrightarrow> late_generation e g"
    "now_raw d r \<Longrightarrow> now_raw e r" "now_conflict d x \<Longrightarrow> now_conflict e x" "now_app d a \<Longrightarrow> now_app e a"
    "now_rev d v \<Longrightarrow> now_rev e v" "now_cursor d c \<Longrightarrow> now_cursor e c" "now_ack d w \<Longrightarrow> now_ack e w"
    "now_ack_cursor d k \<Longrightarrow> now_ack_cursor e k" "late_gap d p \<Longrightarrow> late_gap e p" "late_binding d b \<Longrightarrow> late_binding e b"
    "late_gen_transition d n \<Longrightarrow> late_gen_transition e n" "late_controller d l \<Longrightarrow> late_controller e l"
    "now_transition d t \<Longrightarrow> now_transition e t" "late_transition d t \<Longrightarrow> late_transition e t"
    "has_gap d i \<Longrightarrow> has_gap e i" "has_run d i \<Longrightarrow> has_run e i" "nullable (has_shock d) s \<Longrightarrow> nullable (has_shock e) s"
    "nullable (has_epoch d) s \<Longrightarrow> nullable (has_epoch e) s" "has_shock d i \<Longrightarrow> has_shock e i"
proof -
  have L: "\<And>i. has_run d i \<Longrightarrow> has_run e i" "\<And>k. has_generation d k \<Longrightarrow> has_generation e k"
    "\<And>i. has_epoch d i \<Longrightarrow> has_epoch e i" "\<And>i. has_shock d i \<Longrightarrow> has_shock e i"
    "\<And>i. has_controller d i \<Longrightarrow> has_controller e i" "\<And>i. has_gap d i \<Longrightarrow> has_gap e i"
    "\<And>i. has_transition d i \<Longrightarrow> has_transition e i" "\<And>i k n. has_raw d i k n \<Longrightarrow> has_raw e i k n"
    "\<And>i k n. has_app d i k n \<Longrightarrow> has_app e i k n" "\<And>i k n. has_rev d i k n \<Longrightarrow> has_rev e i k n"
    "\<And>i k n. has_cursor d i k n \<Longrightarrow> has_cursor e i k n" "\<And>r. r \<in> set (raws d) \<Longrightarrow> r \<in> set (raws e)"
    "\<And>r. r \<in> set (apps d) \<Longrightarrow> r \<in> set (apps e)" "\<And>r. r \<in> set (revs d) \<Longrightarrow> r \<in> set (revs e)"
    "\<And>r. r \<in> set (ack_cursors d) \<Longrightarrow> r \<in> set (ack_cursors e)"
    using assms by (simp_all only: covers_def subset_eq simp_thms)
  note N = nullable_mono [of "has_shock d" "has_shock e", OF L(4)] nullable_mono [of "has_epoch d" "has_epoch e", OF L(3)]
  show "now_generation d g \<Longrightarrow> now_generation e g" by (simp add: now_generation_def L)
  show "late_generation d g \<Longrightarrow> late_generation e g"
    unfolding late_generation_def by (erule nullable_mono [rotated]) (rule L(2))
  show "now_raw d r \<Longrightarrow> now_raw e r" by (simp add: now_raw_def L)
  show "now_conflict d x \<Longrightarrow> now_conflict e x" by (simp add: now_conflict_def L)
  show "now_app d a \<Longrightarrow> now_app e a" by (simp add: now_app_def L)
  show "now_rev d v \<Longrightarrow> now_rev e v" unfolding now_rev_def list_ex_iff by (metis L(9,12))
  show "now_cursor d c \<Longrightarrow> now_cursor e c" by (simp add: now_cursor_def L)
  show "now_ack d w \<Longrightarrow> now_ack e w" unfolding now_ack_def list_ex_iff by (metis L(11,12,13,14))
  show "now_ack_cursor d k \<Longrightarrow> now_ack_cursor e k"
    unfolding now_ack_cursor_def list_ex_iff
    by (elim conjE, intro conjI, erule L(2), erule nullable_mono [rotated]) (metis L(15))
  show "late_gap d p \<Longrightarrow> late_gap e p" by (simp add: late_gap_def L)
  show "late_binding d b \<Longrightarrow> late_binding e b" by (simp add: late_binding_def L)
  show "late_gen_transition d n \<Longrightarrow> late_gen_transition e n" by (simp add: late_gen_transition_def L)
  show "late_controller d l \<Longrightarrow> late_controller e l" by (simp add: late_controller_def L N)
  show "now_transition d t \<Longrightarrow> now_transition e t" by (simp add: now_transition_def L N)
  show "late_transition d t \<Longrightarrow> late_transition e t" by (simp add: late_transition_def)
  show "has_gap d i \<Longrightarrow> has_gap e i" by (rule L(6))
  show "has_run d i \<Longrightarrow> has_run e i" by (rule L(1))
  show "has_shock d i \<Longrightarrow> has_shock e i" by (rule L(4))
  show "nullable (has_shock d) s \<Longrightarrow> nullable (has_shock e) s" by (rule N(1))
  show "nullable (has_epoch d) s \<Longrightarrow> nullable (has_epoch e) s" by (rule N(2))
qed

text \<open>A database that covers another is consistent if its new or changed rows are.\<close>

lemma foreign_keys_grow:
  assumes F: "foreign_keys_ok d" and C: "covers d e"
    and "\<And>g. g \<in> set (generations e) \<Longrightarrow> (\<exists>g' \<in> set (generations d). g_stream g = g_stream g' \<and>
           g_predecessor g = g_predecessor g') \<or> now_generation e g \<and> late_generation e g"
    and "\<And>r. r \<in> set (raws e) \<Longrightarrow> r \<in> set (raws d) \<or> now_raw e r"
    and "\<And>x. x \<in> set (conflicts e) \<Longrightarrow> x \<in> set (conflicts d) \<or> now_conflict e x"
    and "\<And>a. a \<in> set (apps e) \<Longrightarrow> a \<in> set (apps d) \<or> now_app e a"
    and "\<And>v. v \<in> set (revs e) \<Longrightarrow> v \<in> set (revs d) \<or> now_rev e v"
    and "\<And>c. c \<in> set (cursors e) \<Longrightarrow> c \<in> set (cursors d) \<or> now_cursor e c"
    and "\<And>w. w \<in> set (acks e) \<Longrightarrow> w \<in> set (acks d) \<or> now_ack e w"
    and "\<And>k. k \<in> set (ack_cursors e) \<Longrightarrow> k \<in> set (ack_cursors d) \<or> now_ack_cursor e k"
    and "\<And>p. p \<in> set (gaps e) \<Longrightarrow> p \<in> set (gaps d) \<or> late_gap e p"
    and "\<And>b. b \<in> set (bindings e) \<Longrightarrow> b \<in> set (bindings d) \<or> has_gap e (b_gap b) \<and> late_binding e b"
    and "\<And>n. n \<in> set (gen_transitions e) \<Longrightarrow> n \<in> set (gen_transitions d) \<or> has_gap e (n_gap n) \<and> late_gen_transition e n"
    and "\<And>s. s \<in> set (shocks e) \<Longrightarrow> s \<in> set (shocks d) \<or> has_run e (s_run s)"
    and "\<And>c. c \<in> set (controllers e) \<Longrightarrow> c \<in> set (controllers d) \<or>
           has_run e (l_run c) \<and> nullable (has_shock e) (l_shock c) \<and> late_controller e c"
    and "epochs e = epochs d"
    and "\<And>t. t \<in> set (transitions e) \<Longrightarrow> t \<in> set (transitions d) \<or> now_transition e t \<and> late_transition e t"
  shows "foreign_keys_ok e"
proof -
  note M = row_mono [OF C]
  have G: "now_generation d g' \<and> late_generation d g' \<Longrightarrow> g_stream g = g_stream g' \<Longrightarrow> g_predecessor g = g_predecessor g' \<Longrightarrow>
      now_generation e g \<and> late_generation e g" for g g'
    using M(1,2) [of g'] by (auto simp: now_generation_def late_generation_def)
  have rows:
    "\<forall>x \<in> set (generations d). now_generation d x \<and> late_generation d x"
    "\<forall>x \<in> set (raws d). now_raw d x"
    "\<forall>x \<in> set (conflicts d). now_conflict d x"
    "\<forall>x \<in> set (apps d). now_app d x"
    "\<forall>x \<in> set (revs d). now_rev d x"
    "\<forall>x \<in> set (cursors d). now_cursor d x"
    "\<forall>x \<in> set (acks d). now_ack d x"
    "\<forall>x \<in> set (ack_cursors d). now_ack_cursor d x"
    "\<forall>x \<in> set (gaps d). late_gap d x"
    "\<forall>x \<in> set (bindings d). has_gap d (b_gap x) \<and> late_binding d x"
    "\<forall>x \<in> set (gen_transitions d). has_gap d (n_gap x) \<and> late_gen_transition d x"
    "\<forall>x \<in> set (shocks d). has_run d (s_run x)"
    "\<forall>x \<in> set (controllers d). has_run d (l_run x) \<and> nullable (has_shock d) (l_shock x) \<and> late_controller d x"
    "\<forall>x \<in> set (epochs d). has_run d (e_run x) \<and> nullable (has_epoch d) (e_predecessor x)"
    "\<forall>x \<in> set (transitions d). now_transition d x \<and> late_transition d x"
    using F by (simp_all add: foreign_keys_ok_def list_all_iff)
  have e1: "list_all (\<lambda>x. now_generation e x \<and> late_generation e x) (generations e)"
    unfolding list_all_iff using rows(1) assms(3) G by meson
  have e2: "list_all (\<lambda>x. now_raw e x) (raws e)"
    unfolding list_all_iff using rows(2) assms(4) M(3) by blast
  have e3: "list_all (\<lambda>x. now_conflict e x) (conflicts e)"
    unfolding list_all_iff using rows(3) assms(5) M(4) by blast
  have e4: "list_all (\<lambda>x. now_app e x) (apps e)"
    unfolding list_all_iff using rows(4) assms(6) M(5) by blast
  have e5: "list_all (\<lambda>x. now_rev e x) (revs e)"
    unfolding list_all_iff using rows(5) assms(7) M(6) by blast
  have e6: "list_all (\<lambda>x. now_cursor e x) (cursors e)"
    unfolding list_all_iff using rows(6) assms(8) M(7) by blast
  have e7: "list_all (\<lambda>x. now_ack e x) (acks e)"
    unfolding list_all_iff using rows(7) assms(9) M(8) by blast
  have e8: "list_all (\<lambda>x. now_ack_cursor e x) (ack_cursors e)"
    unfolding list_all_iff using rows(8) assms(10) M(9) by blast
  have e9: "list_all (\<lambda>x. late_gap e x) (gaps e)"
    unfolding list_all_iff using rows(9) assms(11) M(10) by blast
  have e10: "list_all (\<lambda>x. has_gap e (b_gap x) \<and> late_binding e x) (bindings e)"
    unfolding list_all_iff using rows(10) assms(12) M(11) M(16) by blast
  have e11: "list_all (\<lambda>x. has_gap e (n_gap x) \<and> late_gen_transition e x) (gen_transitions e)"
    unfolding list_all_iff using rows(11) assms(13) M(12) M(16) by blast
  have e12: "list_all (\<lambda>x. has_run e (s_run x)) (shocks e)"
    unfolding list_all_iff using rows(12) assms(14) M(17) by blast
  have e13: "list_all (\<lambda>x. has_run e (l_run x) \<and> nullable (has_shock e) (l_shock x) \<and> late_controller e x) (controllers e)"
    unfolding list_all_iff using rows(13) assms(15) M(13) M(17) M(18) by blast
  have e14: "list_all (\<lambda>x. has_run e (e_run x) \<and> nullable (has_epoch e) (e_predecessor x)) (epochs e)"
    unfolding list_all_iff assms(16) using rows(14) M(17) M(19) by blast
  have e15: "list_all (\<lambda>x. now_transition e x \<and> late_transition e x) (transitions e)"
    unfolding list_all_iff using rows(15) assms(17) M(14) M(15) by blast
  show ?thesis unfolding foreign_keys_ok_def using e1 e2 e3 e4 e5 e6 e7 e8 e9 e10 e11 e12 e13 e14 e15 by (intro conjI)
qed

section \<open>The five insertions succeed\<close>

text \<open>No row carries an identifier built from this digest yet.\<close>

definition fresh_ids :: "db \<Rightarrow> string \<Rightarrow> string \<Rightarrow> bool" where
  "fresh_ids d cursor oid \<longleftrightarrow>
     list_all (\<lambda>r. r_id r \<noteq> ''raw:'' @ cursor \<and> r_observation r \<noteq> oid) (raws d) \<and>
     list_all (\<lambda>r. a_id r \<noteq> ''application:'' @ cursor) (apps d) \<and>
     list_all (\<lambda>r. v_id r \<noteq> ''revision:'' @ cursor) (revs d) \<and>
     list_all (\<lambda>r. c_id r \<noteq> ''cursor:'' @ cursor) (cursors d) \<and>
     list_all (\<lambda>r. o_id r \<noteq> ''ack:'' @ cursor) (acks d)"

lemma raw_accepted:
  assumes V: "validate_journal X R d = Inr ()"
    and n: "n = fst (stream_head d k) + 1" "int64 n" "int64 (snd k)" "0 \<le> snd k" "0 \<le> now" "int64 now"
    and h: "hex64 ch" "hex64 (snd (stream_head d k))" "hex64 cursor"
    and g: "g \<in> set (generations d)" "(g_stream g, g_generation g) = k" "g_state g = ''ACTIVE''"
    and fresh: "fresh_ids d cursor oid" "\<And>r. r \<in> set (raws d) \<Longrightarrow> r_key r = k \<Longrightarrow> r_seq r \<noteq> n"
  shows "insert_raw (applied_raw k n oid ch (snd (stream_head d k)) cursor now) d =
     Inr (d\<lparr>raws := raws d @ [applied_raw k n oid ch (snd (stream_head d k)) cursor now]\<rparr>)"
proof -
  let ?r = "applied_raw k n oid ch (snd (stream_head d k)) cursor now"
  have pos: "0 \<le> fst (stream_head d k)" by (simp add: head_length [OF V])
  have active: "list_ex (\<lambda>g. (g_stream g, g_generation g) = k \<and> g_state g = ''ACTIVE'') (generations d)"
    using g unfolding list_ex_iff by blast
  have top: "coalesce_max (map r_seq (filter (\<lambda>r. r_key r = k) (applied d))) = fst (stream_head d k)"
    by (rule coalesce_max_head [OF V])
  have cur: "list_ex (\<lambda>c. c_key c = k \<and> c_seq c = n - 1 \<and> c_cursor c = snd (stream_head d k)) (cursors d)" if "1 < n"
    using head_cursor [OF V, of k] that n(1) by (auto simp: list_ex_iff)
  have seed: "n = 1 \<Longrightarrow> snd (stream_head d k) = H0" using head_seed [OF _ V] n(1) by simp
  have guard: "raw_guard ?r d = Inr ()"
    using active top cur seed n(1) by (simp add: raw_guard_def applied_raw_def Let_def)
  have no: "\<not> list_ex (\<lambda>r. r_id r = r_id ?r \<or> r_observation r = r_observation ?r \<or>
       (r_key r = r_key ?r \<and> r_seq r = r_seq ?r)) (raws d)"
    using fresh by (auto simp: list_ex_iff fresh_ids_def list_all_iff applied_raw_def)
  have ref: "now_raw d ?r" using g by (auto simp: now_raw_def has_generation_def list_ex_iff applied_raw_def)
  show ?thesis
    unfolding insert_raw_def guard
    using no ref n h pos by (simp add: bind_ints_def check_def unique_def references_def applied_raw_def)
qed

lemma parent_ids:
  assumes F: "foreign_keys_ok d" and fresh: "fresh_ids d cursor oid"
  shows "a \<in> set (apps d) \<Longrightarrow> a_raw a \<noteq> ''raw:'' @ cursor"
    and "v \<in> set (revs d) \<Longrightarrow> v_application v \<noteq> ''application:'' @ cursor \<and> v_raw v \<noteq> ''raw:'' @ cursor"
    and "c \<in> set (cursors d) \<Longrightarrow> c_revision c \<noteq> ''revision:'' @ cursor"
    and "o' \<in> set (acks d) \<Longrightarrow> o_raw o' \<noteq> ''raw:'' @ cursor \<and> o_application o' \<noteq> ''application:'' @ cursor \<and>
      o_revision o' \<noteq> ''revision:'' @ cursor \<and> o_reducer o' \<noteq> ''cursor:'' @ cursor"
  using F fresh
  by (fastforce simp: foreign_keys_ok_def fresh_ids_def list_all_iff now_app_def now_rev_def now_cursor_def now_ack_def
      has_raw_def has_app_def has_rev_def has_cursor_def list_ex_iff)+

lemma positions_free:
  assumes V: "validate_journal X R d = Inr ()" and n: "n = fst (stream_head d k) + 1"
  shows "a \<in> set (apps d) \<Longrightarrow> a_key a = k \<Longrightarrow> a_seq a \<noteq> n"
    and "v \<in> set (revs d) \<Longrightarrow> v_key v = k \<Longrightarrow> v_seq v \<noteq> n"
    and "c \<in> set (cursors d) \<Longrightarrow> c_key c = k \<Longrightarrow> c_seq c \<noteq> n"
    and "o' \<in> set (acks d) \<Longrightarrow> o_key o' = k \<Longrightarrow> o_seq o' \<noteq> n"
proof -
  have free: "(k, n) \<notin> (\<lambda>r. (r_key r, r_seq r)) ` set (applied d)" using head_free [OF V, of k] n by simp
  show "a \<in> set (apps d) \<Longrightarrow> a_key a = k \<Longrightarrow> a_seq a \<noteq> n"
    using free unfolding app_positions [OF V, symmetric] by force
  show "v \<in> set (revs d) \<Longrightarrow> v_key v = k \<Longrightarrow> v_seq v \<noteq> n"
    using free unfolding rev_positions [OF V, symmetric] by force
  show "c \<in> set (cursors d) \<Longrightarrow> c_key c = k \<Longrightarrow> c_seq c \<noteq> n"
    using free unfolding cursor_positions [OF V, symmetric] by force
  show "o' \<in> set (acks d) \<Longrightarrow> o_key o' = k \<Longrightarrow> o_seq o' \<noteq> n"
    using free unfolding ack_positions [OF V, symmetric] by force
qed

lemma append_chain_accepted:
  assumes V: "validate_journal X R d = Inr ()" and F: "foreign_keys_ok d"
    and n: "n = fst (stream_head d k) + 1" "int64 n" "int64 (snd k)" "0 \<le> snd k" "0 \<le> now" "int64 now"
    and h: "hex64 ch" "hex64 (snd (stream_head d k))" "hex64 cursor"
    and g: "g \<in> set (generations d)" "(g_stream g, g_generation g) = k" "g_state g = ''ACTIVE''"
    and fresh: "fresh_ids d cursor oid" "\<And>r. r \<in> set (raws d) \<Longrightarrow> r_key r = k \<Longrightarrow> r_seq r \<noteq> n"
  shows "append_chain runtime_authorizer k n oid ch (top_cursor d k) (snd (stream_head d k)) cursor now d =
     Inr (chain_rows k n oid ch (top_cursor d k) (snd (stream_head d k)) cursor now d)"
proof -
  let ?p = "snd (stream_head d k)"
  let ?prev = "case top_cursor d k of None \<Rightarrow> None | Some _ \<Rightarrow> Some ?p"
  let ?r = "applied_raw k n oid ch ?p cursor now" and ?a = "applied_application k n ch ?p cursor now"
    and ?v = "applied_revision k n ?prev cursor now" and ?c = "applied_cursor k n ch ?p cursor now"
    and ?o = "applied_ack k n cursor now"
  define d1 where "d1 = d\<lparr>raws := raws d @ [?r]\<rparr>"
  define d2 where "d2 = d1\<lparr>apps := apps d @ [?a]\<rparr>"
  define d3 where "d3 = d2\<lparr>revs := revs d @ [?v]\<rparr>"
  define d4 where "d4 = d3\<lparr>cursors := cursors d @ [?c]\<rparr>"
  note rows = applied_raw_def applied_application_def applied_revision_def applied_cursor_def applied_ack_def
  note ds = d1_def d2_def d3_def d4_def
  note sql = bind_ints_def check_def unique_def references_def trigger_def
  have pos: "1 \<le> n" using head_length [OF V, of k] n(1) by simp
  have nprev: "nullable hex64 ?prev" using h(2) by (auto simp: nullable_def split: option.split)
  note P = parent_ids [OF F fresh(1)] and Q = positions_free [OF V n(1)]
  have ids: "\<forall>a \<in> set (apps d). a_id a \<noteq> ''application:'' @ cursor" "\<forall>v \<in> set (revs d). v_id v \<noteq> ''revision:'' @ cursor"
    "\<forall>c \<in> set (cursors d). c_id c \<noteq> ''cursor:'' @ cursor" "\<forall>o' \<in> set (acks d). o_id o' \<noteq> ''ack:'' @ cursor"
    using fresh(1) by (simp_all add: fresh_ids_def list_all_iff)
  have s1: "insert_raw ?r d = Inr d1" unfolding d1_def by (rule raw_accepted [OF V n h g fresh])
  have ua: "\<not> list_ex (\<lambda>r. a_id r = a_id ?a \<or> a_raw r = a_raw ?a \<or> (a_key r = a_key ?a \<and> a_seq r = a_seq ?a)) (apps d1)"
    using ids(1) P(1) Q(1) by (auto simp: list_ex_iff ds rows)
  have s2: "insert_app ?a d1 = Inr d2"
    unfolding insert_app_def using ua n h pos
    by (simp add: sql ds rows now_app_def has_raw_def)
  have uv: "\<not> list_ex (\<lambda>r. v_id r = v_id ?v \<or> v_application r = v_application ?v \<or> v_raw r = v_raw ?v \<or>
       (v_key r = v_key ?v \<and> (v_seq r = v_seq ?v \<or> v_revision r = v_revision ?v))) (revs d2)"
    using ids(2) P(2) Q(2) revision_numbers [OF V] by (auto simp: list_ex_iff ds rows)
  have s3: "insert_rev ?v d2 = Inr d3"
    unfolding insert_rev_def using uv n h pos nprev
    by (simp add: sql ds rows now_rev_def has_app_def)
  have uc: "\<not> list_ex (\<lambda>r. c_id r = c_id ?c \<or> c_revision r = c_revision ?c \<or> (c_key r = c_key ?c \<and> c_seq r = c_seq ?c)) (cursors d3)"
    using ids(3) P(3) Q(3) by (auto simp: list_ex_iff ds rows)
  have s4: "insert_cursor ?c d3 = Inr d4"
    unfolding insert_cursor_def using uc n h pos
    by (simp add: sql ds rows now_cursor_def has_rev_def)
  have uo: "\<not> list_ex (\<lambda>r. o_id r = o_id ?o \<or> o_raw r = o_raw ?o \<or> o_application r = o_application ?o \<or>
       o_revision r = o_revision ?o \<or> o_reducer r = o_reducer ?o \<or> (o_key r = o_key ?o \<and> o_seq r = o_seq ?o)) (acks d4)"
    using ids(4) P(4) Q(4) by (auto simp: list_ex_iff ds rows)
  have s5: "insert_ack ?o d4 = Inr (d4\<lparr>acks := acks d @ [?o]\<rparr>)"
    unfolding insert_ack_def using uo n h pos
    by (simp add: sql ds rows now_ack_def has_cursor_def complete_position_def)
  have au: "authorized runtime_authorizer SQLITE_INSERT t m = m" for t and m :: "db res"
    by (simp add: authorized_def runtime_authorizer_def)
  show ?thesis
    unfolding append_chain_def au s1 bindR_simps s2 s3 s4 s5
    by (simp add: ds chain_rows_def)
qed

text \<open>The committed rows refer to rows that exist.\<close>

lemma chain_rows_foreign_keys:
  assumes F: "foreign_keys_ok d" and g: "has_generation d k"
  shows "foreign_keys_ok (chain_rows k n oid ch previous p cursor now d)" (is "foreign_keys_ok ?e")
proof (rule foreign_keys_grow [OF F])
  note has = has_run_def has_generation_def has_epoch_def has_shock_def has_controller_def has_gap_def has_transition_def
    has_raw_def has_app_def has_rev_def has_cursor_def
  show "covers d ?e" unfolding covers_def has chain_rows_def by auto
  show "r \<in> set (raws ?e) \<Longrightarrow> r \<in> set (raws d) \<or> now_raw ?e r" for r
    using g by (auto simp: chain_rows_def now_raw_def applied_raw_def has_generation_def)
  show "a \<in> set (apps ?e) \<Longrightarrow> a \<in> set (apps d) \<or> now_app ?e a" for a
    by (auto simp: chain_rows_def now_app_def applied_application_def applied_raw_def has_raw_def)
  show "v \<in> set (revs ?e) \<Longrightarrow> v \<in> set (revs d) \<or> now_rev ?e v" for v
    by (auto simp: chain_rows_def now_rev_def applied_application_def applied_raw_def applied_revision_def has_app_def)
  show "c \<in> set (cursors ?e) \<Longrightarrow> c \<in> set (cursors d) \<or> now_cursor ?e c" for c
    by (auto simp: chain_rows_def now_cursor_def applied_revision_def applied_cursor_def has_rev_def)
  show "w \<in> set (acks ?e) \<Longrightarrow> w \<in> set (acks d) \<or> now_ack ?e w" for w
    by (auto simp: chain_rows_def now_ack_def applied_raw_def applied_application_def applied_revision_def
        applied_cursor_def applied_ack_def has_cursor_def)
qed (auto simp: chain_rows_def)

end
