(* ===== verification/Ingest_Laws.thy ===== *)
theory Ingest_Laws
  imports Ingest_Accept
begin

text \<open>
  The helper facts behind the properties of the ingest journal: what a returned acknowledgement
  tells about the tables, what stays true of them later, and when the next observation is accepted.
\<close>

section \<open>Acknowledged positions\<close>

definition acknowledged :: "db \<Rightarrow> position \<Rightarrow> int \<Rightarrow> string \<Rightarrow> ack \<Rightarrow> bool" where
  "acknowledged d k n h a \<longleftrightarrow>
     (\<exists>r. List.find (\<lambda>r. r_key r = k \<and> r_seq r = n) (raws d) = Some r \<and> r_hash r = h) \<and>
     List.find (\<lambda>a. o_key a = k \<and> o_seq a = n) (acks d) = Some a"

lemma find_prefix: "prefix xs ys \<Longrightarrow> List.find P xs = Some x \<Longrightarrow> List.find P ys = Some x"
  by (auto simp: prefix_def find_append)

lemma acknowledged_extends: "extends d e \<Longrightarrow> acknowledged d k n h a \<Longrightarrow> acknowledged e k n h a"
  unfolding extends_def acknowledged_def by (blast intro: find_prefix)

lemma append_chain_new_ack:
  assumes "append_chain au k n oid ch previous p cursor now d = Inr e" and "x \<in> set (acks d)"
  shows "o_id x \<noteq> ''ack:'' @ cursor"
proof -
  from assms(1) obtain d4 where i: "insert_ack (applied_ack k n cursor now) d4 = Inr e" and d4: "acks d4 = acks d"
    by (auto simp: append_chain_def stmt dest!: insert_raw_Inr insert_app_Inr insert_rev_Inr insert_cursor_Inr)
  from i have "\<not> list_ex (\<lambda>r. o_id r = ''ack:'' @ cursor) (acks d4)"
    by (auto simp: insert_ack_def stmt applied_ack_def list_ex_iff)
  with assms(2) d4 show ?thesis by (auto simp: list_ex_iff)
qed

lemma place_acknowledged:
  assumes V: "validate_journal (base E) (registry E) d = Inr ()"
    and p: "place E now v current au d = Inr (Inr a, e)"
  shows "acknowledged e (position_key current) (dl_sequence v) (dl_content v) a \<and>
    run_metas e = run_metas d \<and> generations e = generations d \<and> conflicts e = conflicts d"
  using p
proof (cases rule: place_cases)
  case (redelivery raw a')
  then show ?thesis by (simp add: acknowledged_def ack_at_def)
next
  case (following cursor oid)
  let ?k = "position_key current" and ?n = "dl_sequence v"
  let ?raw = "applied_raw ?k ?n oid (dl_content v) (snd (stream_head d ?k)) cursor now"
  let ?ack = "applied_ack ?k ?n cursor now"
  have none: "List.find (\<lambda>r. r_key r = ?k \<and> r_seq r = ?n) (raws d) = None"
    using following(1) by (auto simp: find_None_iff)
  have noack: "List.find (\<lambda>a. o_key a = ?k \<and> o_seq a = ?n) (acks d) = None"
    using positions_free(4) [OF V following(2)] by (auto simp: find_None_iff)
  have "List.find (\<lambda>a. o_id a = ''ack:'' @ cursor) (acks d) = None"
    using append_chain_new_ack [OF following(5)] by (auto simp: find_None_iff)
  moreover have acks: "acks e = acks d @ [?ack]" "raws e = raws d @ [?raw]"
    using following(4) by (simp_all add: chain_rows_def)
  ultimately have "a = ?ack" using following(6) by (auto simp: find_append applied_ack_def)
  with none noack acks following(4) show ?thesis
    by (auto simp: acknowledged_def find_append applied_ack_def applied_raw_def chain_rows_def)
qed simp_all

lemma place_redelivery:
  "acknowledged d (position_key current) (dl_sequence v) (dl_content v) a \<Longrightarrow> place E now v current au d = Inr (Inr a, d)"
  by (auto simp: place_def acknowledged_def Let_def)

section \<open>Which generation a delivery addresses\<close>

definition addressed :: "delivery \<Rightarrow> position \<Rightarrow> bool" where
  "addressed v k = (case k of ((run, browser, producer, stream), n) \<Rightarrow>
     run = dl_run v \<and> browser = dl_browser v \<and> stream = dl_stream v \<and> n = dl_generation v)"

lemma current_generation_Inr:
  "current_generation v d = Inr g \<longleftrightarrow>
     filter (\<lambda>g. addressed v (generation_position g)) (generations d) = [g] \<and> g_state g = ''ACTIVE''"
proof -
  have "(\<lambda>g. (case g_stream g of (run, browser, _, stream) \<Rightarrow>
         run = dl_run v \<and> browser = dl_browser v \<and> stream = dl_stream v) \<and> g_generation g = dl_generation v) =
      (\<lambda>g. addressed v (generation_position g))"
    by (auto simp: fun_eq_iff addressed_def generation_position_def split: prod.splits)
  then show ?thesis
    unfolding current_generation_def by (auto split: list.splits if_splits)
qed

lemma position_key_generation_position: "position_key g = generation_position g"
  by (simp add: position_key_def generation_position_def)

lemma filter_single:
  assumes "filter P xs = [x]" and "y \<in> set xs" and "P y" shows "y = x"
proof -
  have "y \<in> set (filter P xs)" using assms(2,3) by simp
  with assms(1) show ?thesis by simp
qed

lemma current_generation_later:
  assumes "current_generation v d = Inr g" and "extends d e" and "current_generation v e = Inr g'"
  shows "position_key g' = position_key g"
proof -
  have g: "g \<in> set (generations d)" "addressed v (generation_position g)"
    using assms(1) by (auto simp: current_generation_Inr filter_eq_Cons_iff)
  have "set (map generation_position (generations d)) \<subseteq> set (map generation_position (generations e))"
    using assms(2) unfolding extends_def by (blast dest: set_mono_prefix)
  with g(1) have "generation_position g \<in> set (map generation_position (generations e))" by auto
  then obtain h where h: "h \<in> set (generations e)" "generation_position h = generation_position g" by auto
  have "h = g'" using assms(3) h g(2) by (auto simp: current_generation_Inr intro: filter_single)
  with h show ?thesis by (simp add: position_key_generation_position)
qed

lemma apply_tx_Inr:
  assumes "apply_tx E now v au d = Inr (r, e)"
  obtains g where "validate_journal (base E) (registry E) d = Inr ()" "check_run (dl_observation v) (dl_run v) d = Inr ()"
    "current_generation v d = Inr g" "\<not> list_ex (\<lambda>x. x_key x = position_key g) (conflicts d)"
    "place E now v g au d = Inr (r, e)"
  using assms by (auto simp: apply_tx_def split: if_splits)

lemma apply_tx_again:
  assumes "apply_tx E now v au d = Inr (Inr a, e)"
  shows "apply_tx E later v au' e = Inr (Inr a, e)"
proof -
  from assms obtain g where g: "validate_journal (base E) (registry E) d = Inr ()"
      "check_run (dl_observation v) (dl_run v) d = Inr ()"
    "current_generation v d = Inr g" "\<not> list_ex (\<lambda>x. x_key x = position_key g) (conflicts d)"
    and p: "place E now v g au d = Inr (Inr a, e)" by (rule apply_tx_Inr)
  note P = place_acknowledged [OF g(1) p]
  have "check_run (dl_observation v) (dl_run v) e = Inr ()" "current_generation v e = Inr g"
    using P g(2,3) by (simp_all add: check_run_def current_generation_def)
  with P g place_valid [OF g(1) p] show ?thesis by (simp add: apply_tx_def place_redelivery)
qed

lemma apply_tx_same_ack:
  assumes "apply_tx E now v au d = Inr (Inr a, e)" and "extends e d'"
    and "apply_tx E later v au' d' = Inr (Inr b, e')"
  shows "b = a \<and> e' = d'"
proof -
  from assms(1) obtain g where g: "validate_journal (base E) (registry E) d = Inr ()" "current_generation v d = Inr g"
    and p: "place E now v g au d = Inr (Inr a, e)" by (rule apply_tx_Inr)
  from assms(3) obtain g' where g': "current_generation v d' = Inr g'"
    and p': "place E later v g' au' d' = Inr (Inr b, e')" by (rule apply_tx_Inr)
  have "extends d d'" by (rule extends_trans [OF apply_tx_extends [OF assms(1)] assms(2)])
  then have "position_key g' = position_key g" by (rule current_generation_later [OF g(2) _ g'])
  then have "acknowledged d' (position_key g') (dl_sequence v) (dl_content v) a"
    using place_acknowledged [OF g(1) p] acknowledged_extends [OF assms(2)] by simp
  with p' show ?thesis by (simp add: place_redelivery)
qed

section \<open>Calls\<close>

lemma ingest_apply_ack:
  "ingest_apply E now ob s = (Inr a, s') \<longleftrightarrow>
     (\<exists>v. admit E ob = Inr v \<and> transaction E s (apply_tx E now v) = (Inr (Inr a), s'))"
  by (auto simp: ingest_apply_def split: sum.splits prod.splits)

lemma transaction_Inr:
  "transaction E s body = (Inr x, s') \<longleftrightarrow>
     connect E s = Inr (contents s) \<and>
     (\<exists>d'. body (authorizer_of s (contents s)) (contents s) = Inr (x, d') \<and> foreign_keys_ok d' \<and> s' = s\<lparr>contents := d'\<rparr>)"
proof
  assume "transaction E s body = (Inr x, s')"
  then show "connect E s = Inr (contents s) \<and>
     (\<exists>d'. body (authorizer_of s (contents s)) (contents s) = Inr (x, d') \<and> foreign_keys_ok d' \<and> s' = s\<lparr>contents := d'\<rparr>)"
    by (cases rule: transaction_cases) auto
qed (auto simp: transaction_def)

lemma connect_contents: "connect E s = Inr d \<Longrightarrow> foreign_keys_ok d' \<Longrightarrow> connect E (s\<lparr>contents := d'\<rparr>) = Inr d'"
  by (simp add: connect_def verify_database_def)

lemma serve_all_extends: "extends (contents s) (contents (fold (serve E) qs s))"
  using ingest.grows_serve_all [of s E qs] unfolding ingest.serve_all_def store_extends_def .

lemma following_accepted:
  assumes V: "validate_journal (base E) (registry E) d = Inr ()" and F: "foreign_keys_ok d"
    and run: "check_run (dl_observation v) (dl_run v) d = Inr ()" and g: "current_generation v d = Inr g"
    and c: "\<not> list_ex (\<lambda>x. x_key x = position_key g) (conflicts d)"
    and n: "dl_sequence v = fst (stream_head d (position_key g)) + 1" "int64 (dl_sequence v)"
      "0 \<le> dl_generation v" "int64 (dl_generation v)" "0 \<le> now" "int64 now"
    and hash: "cursor_digest (base E) (registry E) (position_key g) (dl_sequence v) (dl_content v)
      (snd (stream_head d (position_key g))) = Inr cursor" "hex64 cursor" "hex64 (dl_content v)"
      "hex64 (snd (stream_head d (position_key g)))"
    and oid: "str_item (dl_observation v) ''raw_observation_id'' = Inr oid"
    and fresh: "fresh_ids d cursor oid" "\<not> list_ex (\<lambda>r. r_key r = position_key g \<and> r_seq r = dl_sequence v) (raws d)"
  shows "apply_tx E now v runtime_authorizer d =
      Inr (Inr (applied_ack (position_key g) (dl_sequence v) cursor now),
           chain_rows (position_key g) (dl_sequence v) oid (dl_content v) (top_cursor d (position_key g))
             (snd (stream_head d (position_key g))) cursor now d) \<and>
    foreign_keys_ok (chain_rows (position_key g) (dl_sequence v) oid (dl_content v) (top_cursor d (position_key g))
             (snd (stream_head d (position_key g))) cursor now d)"
proof -
  let ?k = "position_key g" and ?n = "dl_sequence v" and ?p = "snd (stream_head d (position_key g))"
  let ?e = "chain_rows ?k ?n oid (dl_content v) (top_cursor d ?k) ?p cursor now d"
  have gen: "g \<in> set (generations d)" "g_state g = ''ACTIVE''" "addressed v (generation_position g)"
    using g by (auto simp: current_generation_Inr filter_eq_Cons_iff)
  have k: "(g_stream g, g_generation g) = ?k" "snd ?k = dl_generation v"
    using gen(3) by (auto simp: position_key_def addressed_def generation_position_def split: prod.splits)
  have none: "List.find (\<lambda>r. r_key r = ?k \<and> r_seq r = ?n) (raws d) = None"
    using fresh(2) by (auto simp: find_None_iff list_ex_iff)
  have chain: "append_chain runtime_authorizer ?k ?n oid (dl_content v) (top_cursor d ?k) ?p cursor now d = Inr ?e"
    by (rule append_chain_accepted [OF V F n(1) n(2) _ _ n(5) n(6) hash(3) hash(4) hash(2) gen(1) k(1) gen(2) fresh(1)])
      (use n k fresh(2) in \<open>auto simp: list_ex_iff\<close>)
  have "\<forall>x \<in> set (acks d). o_id x \<noteq> ''ack:'' @ cursor" using fresh(1) by (simp add: fresh_ids_def list_all_iff)
  then have "List.find (\<lambda>a. o_id a = ''ack:'' @ cursor) (acks ?e) = Some (applied_ack ?k ?n cursor now)"
    by (subst chain_rows_def) (auto simp: find_append applied_ack_def find_None_iff split: option.split dest!: find_Some_set)
  moreover have "(case top_cursor d ?k of None \<Rightarrow> 0 | Some c \<Rightarrow> c_seq c) = fst (stream_head d ?k)"
    "(case top_cursor d ?k of None \<Rightarrow> H0 | Some c \<Rightarrow> c_cursor c) = ?p"
    by (simp_all add: stream_head_def split: option.split)
  ultimately have "place E now v g runtime_authorizer d = Inr (Inr (applied_ack ?k ?n cursor now), ?e)"
    using none n(1) hash(1) oid chain by (simp add: place_def Let_def)
  then have "apply_tx E now v runtime_authorizer d = Inr (Inr (applied_ack ?k ?n cursor now), ?e)"
    using V run g c by (simp add: apply_tx_def)
  moreover have "has_generation d ?k" using gen(1) k(1) by (auto simp: has_generation_def list_ex_iff)
  ultimately show ?thesis using chain_rows_foreign_keys [OF F] by blast
qed

end
