(* ===== verification/Demo_Run.thy ===== *)
theory Demo_Run
  imports Offline_Run Ingest_Laws
begin

text \<open>
  A small run of the store, evaluated in the logic: stand-ins for the imported primitives, a seeded
  store, and the results of the first calls on it. The theorems of the development are instantiated
  at these values.
\<close>

section \<open>Stand-ins\<close>

text \<open>Readable stand-ins for the imported functions, used to evaluate the model: the canonical form
  of an object is its sequence and observation id, and the digest of a short text is its
  hexadecimal code padded to 64 digits.\<close>

definition demo_form :: "json \<Rightarrow> string" where
  "demo_form v = (case v of
      JObj d \<Rightarrow> the_str (dget d ''sequence'') @ ''.'' @ the_str (dget d ''raw_observation_id'')
    | _ \<Rightarrow> [])"

definition demo_hash :: "string \<Rightarrow> string" where
  "demo_hash s = take 64 (concat (map (\<lambda>c. let n = (of_char c :: nat) in [hex_digit (n div 16), hex_digit (n mod 16)]) s)
     @ replicate 64 CHR ''0'')"

definition demo_domains :: json where
  "demo_domains = JObj
     [(''domains'', JArr
        [JObj [(''artifact_type'', JStr ''RawObservation''), (''domain'', JStr ''R:''),
           (''excluded_json_pointers'', JArr [JStr ''/content_hash''])],
         JObj [(''artifact_type'', JStr ''CursorStep''), (''domain'', JStr ''C:''),
           (''excluded_json_pointers'', JArr [])]]),
      (''domain_validation_classes'', JArr
        [JObj [(''class_id'', JStr ''SCHEMA_GATED_SELF_HASH''), (''artifact_types'', JArr [JStr ''RawObservation''])],
         JObj [(''class_id'', JStr ''GOVERNED_NO_EXCLUSION''), (''artifact_types'', JArr [JStr ''CursorStep''])]]),
      (''schema_binding_groups'', JArr
        [JObj [(''artifact_types'', JArr [JStr ''RawObservation'']),
           (''required_excluded_json_pointers'', JArr [JStr ''/content_hash''])]])]"

definition demo_primitives :: ext where
  "demo_primitives = \<lparr>json_loads = (\<lambda>_. Some demo_domains), nfc = (\<lambda>s. s), sha256 = demo_hash,
     jcs = (\<lambda>v. Inr (demo_form v))\<rparr>"

definition demo_env :: store_env where
  "demo_env = \<lparr>base = demo_primitives, registry = ''registry'',
     schema_lock = JObj [(''files'', JArr [JObj [(''path'', JStr ''sql/discovery-store-v1.sql''),
       (''sha256'', JStr (demo_hash ''ddl''))]])],
     ddl_file = ''ddl'', schema_objects = (\<lambda>ddl. [(''table'', ''run_meta'', ''run_meta'', ddl)]),
     raw_schema = is_dict\<rparr>"

definition demo_offline :: offline_env where
  "demo_offline = \<lparr>store_side = demo_env, context_schema = is_dict\<rparr>"

definition zeros :: string where
  "zeros = replicate 64 CHR ''0''"

definition demo_context :: json where
  "demo_context = JObj [(''run_id'', JStr ''run''), (''browser_run_id'', JStr ''browser''),
     (''producer_id'', JStr ''producer''), (''stream_id'', JStr ''stream''), (''generation'', JStr ''0''),
     (''vendor_sha256'', JStr zeros), (''code_sha256'', JStr zeros),
     (''normal_spool_limit_bytes'', JStr ''4096'')]"

definition demo_observation :: "string \<Rightarrow> string \<Rightarrow> json" where
  "demo_observation number oid = (let d =
     [(''raw_observation_id'', JStr oid), (''observation_kind'', JStr ''TERMINAL''),
      (''pack_hash'', JStr zeros), (''build_hash'', JStr zeros), (''discovery_run_id'', JStr ''run''),
      (''stream_id'', JStr ''stream''), (''generation'', JStr ''0''), (''sequence'', JStr number),
      (''context'', JObj [(''context_kind'', JStr ''RUN_BOUND_NOT_DOCUMENT''), (''browser_run_id'', JStr ''browser'')]),
      (''clock_context'', JObj [(''clock_domain_id'', JStr ''producer'')]),
      (''content_hash'', JStr zeros)]
     in case canonical_content_hash demo_primitives ''registry'' ''RawObservation'' (JObj d) of
          Inl _ \<Rightarrow> JNull | Inr h \<Rightarrow> JObj (dput ''content_hash'' (JStr h) d))"

definition demo_generation :: stream_generation where
  "demo_generation = \<lparr>g_id = ''generation:'' @ demo_hash [], g_stream = (''run'', ''browser'', ''producer'', ''stream''),
     g_generation = 0, g_predecessor = None, g_state = ''ACTIVE'', g_opened_at = 1, g_closed_at = None, g_reason = None\<rparr>"

definition demo_controller :: controller where
  "demo_controller = \<lparr>l_id = ''controller:'' @ demo_hash [], l_run = ''run'', l_fixture = ''fixture:offline-accounting'',
     l_state = ''OPEN'', l_epoch = ''epoch:'' @ demo_hash [], l_candidate = None, l_predecessor = None, l_shock = None,
     l_revision = 0, l_at = 1\<rparr>"

definition demo_epoch :: epoch where
  "demo_epoch = \<lparr>e_id = ''epoch:'' @ demo_hash [], e_run = ''run'', e_fixture = ''fixture:offline-accounting'',
     e_generation = 0, e_predecessor = None, e_status = ''OPEN'', e_freshness = None, e_proof = None, e_at = 1,
     e_predecessor_closed = 0\<rparr>"

definition demo_meta :: run_meta where
  "demo_meta = \<lparr>m_run = ''run'', m_status = ''OPEN'', m_authorization = ''offline-only:synthetic-not-authorization'',
     m_pack_hash = zeros, m_build_hash = zeros, m_created_at = 1, m_closed_at = None\<rparr>"

definition demo_db :: db where
  "demo_db = empty_db\<lparr>run_metas := [demo_meta], generations := [demo_generation], epochs := [demo_epoch],
     controllers := [demo_controller]\<rparr>"

definition demo_store :: run_store where
  "demo_store = (fresh_store demo_env ''ddl'')\<lparr>contents := demo_db\<rparr>"

section \<open>Evaluation\<close>

text \<open>Arguments are evaluated, branches and continuations only once they are reached.\<close>

lemma bindR_weak: "m = m' \<Longrightarrow> bindR m f = bindR m' f"
  by simp

lemmas eval_congs = bindR_weak if_weak_cong let_weak_cong option.case_cong_weak sum.case_cong_weak
  list.case_cong_weak json.case_cong_weak prod.case_cong_weak

lemmas statement_defs = authorized_def runtime_authorizer_def bind_ints_def int64_def check_def unique_def
  trigger_def references_def nullable_def

lemmas seed_defs = insert_run_meta_def insert_generation_def insert_epoch_def insert_controller_def
  now_generation_def has_run_def has_epoch_def has_shock_def generation_shape_def controller_shape_def

lemma zeros_hex64: "hex64 zeros"
  by code_simp

lemma demo_ints: "parse_int ''0'' = Inr 0" "parse_int ''1'' = Inr 1" "parse_int ''2'' = Inr 2" "parse_int ''3'' = Inr 3"
    "parse_int ''4096'' = Inr 4096" "str_int 1 = ''1''" "str_int 2 = ''2''" "str_int 3 = ''3''" "str_int 0 = ''0''"
  by code_simp+

lemma demo_ddl: "verified_ddl demo_env = Inr ''ddl''"
  by (simp add: verified_ddl_def demo_env_def demo_primitives_def ditem_def cong: eval_congs)

lemma demo_seed:
  "seed_tx demo_env 1 (demo_hash []) demo_context runtime_authorizer empty_db = Inr ((), demo_db)"
  by (simp add: seed_tx_def demo_context_def str_item_def ditem_def zeros_hex64 statement_defs seed_defs empty_db_def
      demo_db_def demo_meta_def demo_generation_def demo_epoch_def demo_controller_def demo_ints cong: eval_congs)

text \<open>The seeded store is what \<open>create_offline_run\<close> returns.\<close>

lemma demo_foreign_keys: "foreign_keys_ok demo_db"
  by (simp add: foreign_keys_ok_def demo_db_def empty_db_def now_generation_def late_generation_def has_run_def
      has_epoch_def late_controller_def nullable_def demo_meta_def demo_generation_def demo_epoch_def demo_controller_def)

lemma fresh_verified:
  assumes "foreign_keys_ok d"
  shows "verify_database demo_env ((fresh_store demo_env ''ddl'')\<lparr>contents := d\<rparr>) = Inr ()"
    and "connect demo_env ((fresh_store demo_env ''ddl'')\<lparr>contents := d\<rparr>) = Inr d"
    and "authorizer_of ((fresh_store demo_env ''ddl'')\<lparr>contents := d\<rparr>) d' = runtime_authorizer"
  using assms by (simp_all add: connect_def verify_database_def demo_ddl fresh_store_def authorizer_of_def)

lemma demo_created: "create_offline_run demo_offline 1 False False demo_context = Inr demo_store"
proof -
  have e: "foreign_keys_ok empty_db" by (simp add: foreign_keys_ok_def empty_db_def)
  have f: "fresh_store demo_env ''ddl'' = (fresh_store demo_env ''ddl'')\<lparr>contents := empty_db\<rparr>"
    by (simp add: fresh_store_def)
  have v: "verify_database demo_env (fresh_store demo_env ''ddl'') = Inr ()"
    by (subst f) (rule fresh_verified(1) [OF e])
  have t: "transaction demo_env (fresh_store demo_env ''ddl'') (seed_tx demo_env 1 (demo_hash []) demo_context) =
      (Inr (), demo_store)"
    using fresh_verified(2,3) [OF e, folded f] demo_seed demo_foreign_keys
    by (simp add: transaction_def demo_store_def)
  have "validate_context demo_offline demo_context = Inr ()"
    by (simp add: validate_context_def recast_def context_checks_def demo_offline_def demo_context_def str_item_def
        ditem_def demo_ints cong: eval_congs)
  moreover have "jcs (base demo_env) = (\<lambda>v. Inr (demo_form v))" "sha256 (base demo_env) = demo_hash"
    by (simp_all add: demo_env_def demo_primitives_def)
  ultimately show ?thesis
    by (simp add: create_offline_run_def bootstrap_v1_def demo_ddl v demo_offline_def Let_def)
      (simp add: demo_context_def ditem_def demo_form_def t [unfolded demo_context_def] cong: eval_congs)
qed

section \<open>Calls on the concrete run\<close>

text \<open>
  The first calls on the seeded store of the concrete run, evaluated with the stand-in primitives.
\<close>

definition demo_key :: position where
  "demo_key = ((''run'', ''browser'', ''producer'', ''stream''), 0)"

definition demo_content :: "string \<Rightarrow> string \<Rightarrow> string" where
  "demo_content number oid = demo_hash (''R:'' @ number @ ''.'' @ oid)"

definition demo_delivery :: "string \<Rightarrow> int \<Rightarrow> string \<Rightarrow> delivery" where
  "demo_delivery number n oid = \<lparr>dl_observation = demo_observation number oid, dl_run = ''run'', dl_browser = ''browser'',
     dl_producer = [], dl_stream = ''stream'', dl_generation = 0, dl_sequence = n, dl_content = demo_content number oid\<rparr>"

lemma demo_domain:
  "domain demo_primitives ''registry'' ''RawObservation'' = Inr (''R:'', [JStr ''/content_hash''])"
  "domain demo_primitives ''registry'' ''CursorStep'' = Inr (''C:'', [])"
  by code_simp+

lemma demo_unicode: "unicode_ok demo_primitives v"
  by (induction v) (auto simp: demo_primitives_def list_all_iff)

lemma demo_cursor:
  "cursor_digest demo_primitives ''registry'' k n h p = Inr (demo_hash (''C:'' @ str_int n @ ''.''))"
proof -
  obtain a b c e g where k: "k = ((a, b, c, e), g)" by (metis surj_pair)
  show ?thesis
    by (simp add: cursor_digest_def canonical_content_hash_def canonical_preimage_def demo_domain cursor_step_def k
        validate_unicode_def demo_unicode)
      (simp add: demo_primitives_def demo_form_def)
qed

lemma demo_pointer: "pointer_unescape ''content_hash'' = ''content_hash''"
  by code_simp

lemma demo_raw_hash:
  assumes "dhas d ''content_hash''"
  shows "canonical_content_hash demo_primitives ''registry'' ''RawObservation'' (JObj d) =
    Inr (demo_hash (''R:'' @ demo_form (JObj (ddel ''content_hash'' d))))"
  using assms
  by (simp add: canonical_content_hash_def canonical_preimage_def demo_domain exclude_def demo_pointer
      validate_unicode_def demo_unicode Let_def del: unicode_ok.simps)
    (simp add: demo_primitives_def)

lemma demo_observation_dict:
  "demo_observation number oid = JObj
     [(''raw_observation_id'', JStr oid), (''observation_kind'', JStr ''TERMINAL''),
      (''pack_hash'', JStr zeros), (''build_hash'', JStr zeros), (''discovery_run_id'', JStr ''run''),
      (''stream_id'', JStr ''stream''), (''generation'', JStr ''0''), (''sequence'', JStr number),
      (''context'', JObj [(''context_kind'', JStr ''RUN_BOUND_NOT_DOCUMENT''), (''browser_run_id'', JStr ''browser'')]),
      (''clock_context'', JObj [(''clock_domain_id'', JStr ''producer'')]),
      (''content_hash'', JStr (demo_content number oid))]"
  by (simp add: demo_observation_def Let_def demo_raw_hash demo_form_def demo_content_def)

lemma demo_env_fields: "base demo_env = demo_primitives" "registry demo_env = ''registry''" "raw_schema demo_env = is_dict"
  by (simp_all add: demo_env_def)

lemma demo_admit:
  assumes "parse_int number = Inr n" and "0 \<le> n" "n \<le> 9223372036854775807"
  shows "admit demo_env (demo_observation number oid) = Inr (demo_delivery number n oid)"
proof -
  have v: "verify_canonical_content_hash demo_primitives ''registry'' ''RawObservation'' (demo_observation number oid) (demo_content number oid) = Inr ()"
    by (simp add: verify_canonical_content_hash_def demo_observation_dict demo_raw_hash demo_form_def demo_content_def)
  have s: "str_item (demo_observation number oid) ''content_hash'' = Inr (demo_content number oid)"
    "raw_schema demo_env (demo_observation number oid)"
    by (simp_all add: demo_observation_dict str_item_def demo_env_fields)
  show ?thesis
    unfolding admit_def validate_raw_def s demo_env_fields
    using assms v s
    by (simp add: read_delivery_def demo_delivery_def demo_observation_dict str_item_def integer_def demo_ints)
qed

text \<open>The first observation is accepted, the third is a gap.\<close>

definition demo_digest :: "string \<Rightarrow> string" where
  "demo_digest number = demo_hash (''C:'' @ number @ ''.'')"

lemma hex_digit_lower: "n < 16 \<Longrightarrow> is_lower_hex (hex_digit n)"
  by (auto simp: hex_digit_def is_lower_hex_def take_bit_nat_def)

lemma demo_hash_hex64: "hex64 (demo_hash s)"
proof -
  let ?code = "\<lambda>c. let n = (of_char c :: nat) in [hex_digit (n div 16), hex_digit (n mod 16)]"
  let ?all = "concat (map ?code s) @ replicate 64 CHR ''0''"
  have code: "is_lower_hex c" if "c \<in> set (?code x)" for c x
  proof -
    have "(of_char x :: nat) div 16 < 16"
      using nat_of_char_less_256 [of x] by (simp add: div_less_iff_less_mult)
    with that show ?thesis by (auto simp: Let_def intro: hex_digit_lower)
  qed
  have zero: "is_lower_hex CHR ''0''" by code_simp
  have "is_lower_hex c" if "c \<in> set (take 64 ?all)" for c
  proof -
    have "c \<in> set ?all" using that by (rule in_set_takeD)
    then consider "c \<in> set (concat (map ?code s))" | "c \<in> set (replicate 64 CHR ''0'')"
      unfolding set_append by blast
    then show ?thesis
    proof cases
      case 1
      then obtain x where "c \<in> set (?code x)" by (auto simp only: set_concat set_map)
      then show ?thesis by (rule code)
    next
      case 2
      then show ?thesis unfolding in_set_replicate using zero by simp
    qed
  qed
  moreover have "length (take 64 ?all) = 64" by (simp only: length_take length_append length_replicate)
  ultimately show ?thesis unfolding hex64_def demo_hash_def list_all_iff by blast
qed

lemma demo_hex: "hex64 (demo_digest number)" "hex64 (demo_content number oid)" "hex64 H0"
  by (simp_all only: demo_digest_def demo_content_def demo_hash_hex64) code_simp

lemma demo_digest_eq: "demo_hash ''C:1.'' = demo_digest ''1''"
  by (simp add: demo_digest_def)

lemma demo_db_tables:
  "raws demo_db = []" "conflicts demo_db = []" "apps demo_db = []" "revs demo_db = []" "cursors demo_db = []"
  "acks demo_db = []" "ack_cursors demo_db = []" "generations demo_db = [demo_generation]" "run_metas demo_db = [demo_meta]"
  "gaps demo_db = []" "shocks demo_db = []" "transitions demo_db = []" "bindings demo_db = []" "gen_transitions demo_db = []"
  "controllers demo_db = [demo_controller]" "epochs demo_db = [demo_epoch]"
  by (simp_all add: demo_db_def empty_db_def)

lemma demo_valid: "validate_journal X R demo_db = Inr ()"
  by (simp add: validate_journal_def lengths_ok_def positions_ok_def applied_def demo_db_tables keyed_loop_def)

lemma demo_head: "top_cursor demo_db k = None" "stream_head demo_db k = (0, H0)"
  by (simp_all add: stream_head_def top_cursor_def fetch_highest_def demo_db_tables)

lemma demo_checks:
  "check_run (demo_observation number oid) ''run'' demo_db = Inr ()"
  "current_generation (demo_delivery number n oid) demo_db = Inr demo_generation"
  "position_key demo_generation = demo_key"
  by (simp_all add: check_run_def demo_db_tables demo_meta_def demo_observation_dict current_generation_def
      demo_generation_def demo_delivery_def position_key_def demo_key_def)

definition demo_db1 :: "int \<Rightarrow> db" where
  "demo_db1 now = chain_rows demo_key 1 ''o1'' (demo_content ''1'' ''o1'') None H0 (demo_digest ''1'') now demo_db"

definition demo_ack :: "int \<Rightarrow> ack" where
  "demo_ack now = applied_ack demo_key 1 (demo_digest ''1'') now"

definition demo_store1 :: "int \<Rightarrow> run_store" where
  "demo_store1 now = demo_store\<lparr>contents := demo_db1 now\<rparr>"

lemma demo_first_tx:
  assumes "0 \<le> now" "now \<le> 9223372036854775807"
  shows "apply_tx demo_env now (demo_delivery ''1'' 1 ''o1'') runtime_authorizer demo_db = Inr (Inr (demo_ack now), demo_db1 now) \<and>
    foreign_keys_ok (demo_db1 now)"
proof -
  have d: "dl_observation (demo_delivery ''1'' 1 ''o1'') = demo_observation ''1'' ''o1''" "dl_run (demo_delivery ''1'' 1 ''o1'') = ''run''"
    "dl_sequence (demo_delivery ''1'' 1 ''o1'') = 1" "dl_generation (demo_delivery ''1'' 1 ''o1'') = 0"
    "dl_content (demo_delivery ''1'' 1 ''o1'') = demo_content ''1'' ''o1''"
    by (simp_all add: demo_delivery_def)
  note A = following_accepted [of demo_env demo_db "demo_delivery ''1'' 1 ''o1''" demo_generation now "demo_digest ''1''" "''o1''",
      unfolded d demo_checks demo_env_fields demo_head fst_conv snd_conv, folded demo_db1_def demo_ack_def]
  show ?thesis
    by (rule A) (use assms in \<open>simp_all add: demo_valid demo_foreign_keys demo_checks demo_db_tables int64_def demo_cursor demo_ints
        demo_digest_eq demo_hex fresh_ids_def demo_observation_dict str_item_def\<close>)
qed

lemma demo_store_contents: "contents demo_store = demo_db" "contents (demo_store1 now) = demo_db1 now"
  by (simp_all add: demo_store_def demo_store1_def)

lemma demo_connect:
  "connect demo_env demo_store = Inr demo_db" "authorizer_of demo_store d = runtime_authorizer"
  using fresh_verified(2) [OF demo_foreign_keys] fresh_verified(3) [OF demo_foreign_keys] by (simp_all add: demo_store_def)

lemma demo_first:
  assumes "0 \<le> now" "now \<le> 9223372036854775807"
  shows "ingest_apply demo_env now (demo_observation ''1'' ''o1'') demo_store = (Inr (demo_ack now), demo_store1 now)"
  using demo_first_tx [OF assms] demo_admit [OF demo_ints(2), of "''o1''"]
  by (auto simp: ingest_apply_ack transaction_Inr demo_store_contents demo_connect demo_store1_def)

section \<open>A gap\<close>

text \<open>The second observation arrives first.\<close>

definition demo_gap_db :: "int \<Rightarrow> db" where
  "demo_gap_db now = gap_rows demo_generation demo_controller 0 2 (demo_content ''2'' ''o2'') now ''MISSING_SEQUENCE'' demo_db"

definition demo_gap_store :: "int \<Rightarrow> run_store" where
  "demo_gap_store now = demo_store\<lparr>contents := demo_gap_db now\<rparr>"

lemmas gap_statement_defs = insert_gap_def insert_shock_def insert_transition_def update_controller_def insert_binding_def
  update_generation_def insert_gen_transition_def insert_generation_def transition_guard_def transition_shape_def
  controller_move_ok_def controller_shape_def gap_binding_guard_def coherence_closed_def generation_shape_def
  generation_move_ok_def successor_allowed_def now_transition_def now_generation_def has_run_def has_gap_def has_shock_def
  has_epoch_def has_controller_def shock_types_def gap_reasons_def

lemmas gap_row_defs = gap_of_def shock_of_def closing_transition_def shocked_def binding_of_def closed_generation_def
  generation_step_def successor_of_def

lemma demo_content_fresh: "demo_hash [] \<noteq> demo_content number oid"
proof
  assume "demo_hash [] = demo_content number oid"
  then have "hd (demo_hash []) = hd (demo_content number oid)" by simp
  moreover have "hd (demo_hash []) = CHR ''0''" by code_simp
  moreover have "hd (demo_content number oid) = CHR ''5''"
    by (simp add: demo_content_def demo_hash_def hex_digit_def) code_simp
  ultimately show False by simp
qed

lemma demo_gap_tx:
  assumes "1 \<le> now" "now \<le> 9223372036854775807"
  shows "gap_tx runtime_authorizer demo_generation 0 2 (demo_content ''2'' ''o2'') now ''MISSING_SEQUENCE'' demo_db = Inr (demo_gap_db now)"
  using assms
  by (simp add: gap_tx_def demo_gap_db_def gap_rows_def demo_db_tables gap_row_defs gap_statement_defs statement_defs Let_def
      demo_generation_def demo_controller_def demo_meta_def demo_epoch_def demo_hex demo_content_fresh cong: eval_congs)

lemma demo_gap_foreign_keys: "foreign_keys_ok (demo_gap_db now)"
  by (simp add: foreign_keys_ok_def demo_gap_db_def gap_rows_def demo_db_tables gap_row_defs now_generation_def late_generation_def
      late_gap_def late_binding_def late_gen_transition_def late_controller_def now_transition_def late_transition_def
      has_run_def has_gap_def has_shock_def has_epoch_def has_controller_def has_generation_def has_transition_def nullable_def
      Let_def demo_generation_def demo_controller_def demo_meta_def demo_epoch_def)

end
