(* ===== verification/Ingest_Props.thy ===== *)
theory Ingest_Props
  imports Coherence Demo_Run
begin

text \<open>
  The properties of the ingest journal, each instantiated on the small concrete run.
\<close>

text \<open>C2: Whatever sequence of calls (deliveries, confirmations, late repairs, accepted or refused)
  runs on a store whose journal is valid, the journal is valid afterwards: every stream position has
  a gapless chain of applied observations, each with its own application, revision, cursor and
  acknowledgement linked by hash, and every confirmation history is increasing.\<close>

theorem calls_keep_journal_valid:
  assumes "journal_ok E s"
  shows "journal_ok E (fold (serve E) qs s)"
  using ingest.good_serve_all [OF assms] unfolding ingest.serve_all_def .

theorem calls_keep_journal_valid_witness:
  "journal_ok demo_env (fold (serve demo_env)
     [Apply 5 (demo_observation ''1'' ''o1''), Confirm 6 (demo_ack 5), Apply 7 (demo_observation ''3'' ''o3'')] demo_store)"
  by (rule calls_keep_journal_valid) (simp add: journal_ok_def demo_store_contents demo_valid)

text \<open>C1: An acknowledgement is durable: once a delivery has been acknowledged, the acknowledged row
  and the observation's hash at its position are still what the store holds after any further
  sequence of calls.\<close>

theorem acknowledgement_is_durable:
  assumes "ingest_apply E now ob s = (Inr a, s1)" and "admit E ob = Inr v"
  shows "\<exists>k. addressed v k \<and> acknowledged (contents (fold (serve E) qs s1)) k (dl_sequence v) (dl_content v) a"
proof -
  from assms obtain d' where d': "apply_tx E now v (authorizer_of s (contents s)) (contents s) = Inr (Inr a, d')"
      "contents s1 = d'"
    by (auto simp: ingest_apply_ack transaction_Inr)
  from d'(1) obtain g where g: "validate_journal (base E) (registry E) (contents s) = Inr ()"
      "current_generation v (contents s) = Inr g"
    and p: "place E now v g (authorizer_of s (contents s)) (contents s) = Inr (Inr a, d')" by (rule apply_tx_Inr)
  have "addressed v (position_key g)"
    using g(2) by (auto simp: current_generation_Inr filter_eq_Cons_iff position_key_generation_position)
  moreover have "acknowledged (contents (fold (serve E) qs s1)) (position_key g) (dl_sequence v) (dl_content v) a"
    using acknowledged_extends [OF serve_all_extends] place_acknowledged [OF g(1) p] d'(2) by simp
  ultimately show ?thesis by blast
qed

theorem acknowledgement_is_durable_witness:
  "\<exists>k. addressed (demo_delivery ''1'' 1 ''o1'') k \<and>
     acknowledged (contents (fold (serve demo_env) [Apply 7 (demo_observation ''3'' ''o3'')] (demo_store1 5))) k 1
       (demo_content ''1'' ''o1'') (demo_ack 5)"
proof -
  have fields: "dl_sequence (demo_delivery ''1'' 1 ''o1'') = 1"
    "dl_content (demo_delivery ''1'' 1 ''o1'') = demo_content ''1'' ''o1''"
    by (simp_all add: demo_delivery_def)
  have "admit demo_env (demo_observation ''1'' ''o1'') = Inr (demo_delivery ''1'' 1 ''o1'')"
    by (rule demo_admit [OF demo_ints(2)]) simp_all
  note D = acknowledgement_is_durable [OF demo_first [of 5] this, unfolded fields]
  show ?thesis by (rule D) simp_all
qed

text \<open>Delivering the same observation again right after its acknowledgement returns the same
  acknowledgement and leaves the store as it is, whatever the clock says.\<close>

theorem redelivery_is_idempotent:
  assumes "ingest_apply E now ob s = (Inr a, s1)"
  shows "ingest_apply E later ob s1 = (Inr a, s1)"
proof -
  from assms obtain v d' where v: "admit E ob = Inr v" and c: "connect E s = Inr (contents s)"
    and d': "apply_tx E now v (authorizer_of s (contents s)) (contents s) = Inr (Inr a, d')"
      "foreign_keys_ok d'" "s1 = s\<lparr>contents := d'\<rparr>"
    by (auto simp: ingest_apply_ack transaction_Inr)
  have "connect E s1 = Inr d'" unfolding d'(3) by (rule connect_contents [OF c d'(2)])
  with v d' apply_tx_again [OF d'(1)] show ?thesis
    by (auto simp: ingest_apply_ack transaction_Inr)
qed

theorem redelivery_is_idempotent_witness:
  "ingest_apply demo_env 9 (demo_observation ''1'' ''o1'') (demo_store1 5) = (Inr (demo_ack 5), demo_store1 5)"
  by (rule redelivery_is_idempotent [OF demo_first]) simp_all

text \<open>C3: However many calls lie between two deliveries of one observation, if the second is
  acknowledged at all, it gets the acknowledgement of the first and changes nothing.\<close>

theorem later_redelivery_same_ack:
  assumes "ingest_apply E now ob s = (Inr a, s1)"
    and "ingest_apply E later ob (fold (serve E) qs s1) = (Inr b, s3)"
  shows "b = a \<and> s3 = fold (serve E) qs s1"
proof -
  let ?s2 = "fold (serve E) qs s1"
  from assms(1) obtain v d' where v: "admit E ob = Inr v"
    and d': "apply_tx E now v (authorizer_of s (contents s)) (contents s) = Inr (Inr a, d')" "contents s1 = d'"
    by (auto simp: ingest_apply_ack transaction_Inr)
  from assms(2) v obtain e where e: "apply_tx E later v (authorizer_of ?s2 (contents ?s2)) (contents ?s2) = Inr (Inr b, e)"
      "s3 = ?s2\<lparr>contents := e\<rparr>"
    by (auto simp: ingest_apply_ack transaction_Inr)
  from apply_tx_same_ack [OF d'(1) _ e(1)] serve_all_extends [of s1 E qs] d'(2) e(2) show ?thesis by simp
qed

theorem later_redelivery_same_ack_witness:
  "demo_ack 5 = demo_ack 5 \<and> demo_store1 5 = fold (serve demo_env) [Apply 9 (demo_observation ''1'' ''o1'')] (demo_store1 5)"
proof -
  have again: "ingest_apply demo_env 9 (demo_observation ''1'' ''o1'') (demo_store1 5) = (Inr (demo_ack 5), demo_store1 5)"
    using apply_tx_again [of demo_env 5 "demo_delivery ''1'' 1 ''o1''" runtime_authorizer demo_db "demo_ack 5" "demo_db1 5" 9]
      demo_first_tx [of 5] demo_admit [OF demo_ints(2), of "''o1''"] fresh_verified(2,3) [of "demo_db1 5"]
    by (auto simp: ingest_apply_ack transaction_Inr demo_store1_def demo_store_def)
  have step: "fold (serve demo_env) [Apply 9 (demo_observation ''1'' ''o1'')] (demo_store1 5) = demo_store1 5"
    by (simp add: serve_def again)
  show ?thesis
    using later_redelivery_same_ack [OF demo_first [of 5], where qs = "[Apply 9 (demo_observation ''1'' ''o1'')]", unfolded step, OF _ _ again]
    by (simp add: serve_def again)
qed

end
