(* ===== verification/Base64.thy ===== *)
theory Base64
  imports Py_Prelude
begin

text \<open>
  The URL-safe Base64 of Python's \<^verbatim>\<open>base64\<close> module, as \<^verbatim>\<open>offline_protocol.py\<close> uses it to check
  session nonces. The decoder is the lenient one: characters outside the alphabet are skipped, and
  decoding stops at a complete padding.
\<close>

section \<open>The alphabet\<close>

text \<open>\<open>urlsafe_b64decode\<close> first maps \<open>-\<close> and \<open>_\<close> to the standard characters, so both spellings
  decode.\<close>

definition b64_value :: "char \<Rightarrow> nat option" where
  "b64_value c = (let n = (of_char c :: nat) in
     if 65 \<le> n \<and> n \<le> 90 then Some (n - 65)
     else if 97 \<le> n \<and> n \<le> 122 then Some (n - 71)
     else if 48 \<le> n \<and> n \<le> 57 then Some (n + 4)
     else if n = 45 \<or> n = 43 then Some 62
     else if n = 95 \<or> n = 47 then Some 63
     else None)"

definition b64_char :: "nat \<Rightarrow> char" where
  "b64_char v = char_of
     (if v < 26 then 65 + v else if v < 52 then 71 + v else if v < 62 then v - 4 else if v = 62 then 45 else 95)"

lemma b64_char_code:
  "v < 64 \<Longrightarrow> (of_char (b64_char v) :: nat) =
     (if v < 26 then 65 + v else if v < 52 then 71 + v else if v < 62 then v - 4 else if v = 62 then 45 else 95)"
  by (simp add: b64_char_def take_bit_nat_def)

lemma b64_char_ascii: "v < 64 \<Longrightarrow> (of_char (b64_char v) :: nat) < 128"
  by (auto simp: b64_char_code)

lemma b64_value_char: "v < 64 \<Longrightarrow> b64_value (b64_char v) = Some v"
  by (auto simp: b64_value_def Let_def b64_char_code)

lemma b64_char_not_pad: "v < 64 \<Longrightarrow> b64_char v \<noteq> CHR ''=''"
  using b64_char_code [of v] by (auto split: if_splits)

lemma b64_value_bound: "b64_value c = Some v \<Longrightarrow> v < 64"
  by (auto simp: b64_value_def Let_def split: if_splits)

section \<open>Decoding\<close>

text \<open>\<open>binascii.a2b_base64\<close>: \<open>q\<close> counts the characters of the current group, \<open>l\<close> holds the bits not
  yet written and \<open>p\<close> the padding seen since the last character of the alphabet.\<close>

fun a2b :: "nat \<Rightarrow> nat \<Rightarrow> nat \<Rightarrow> string \<Rightarrow> nat list option" where
  "a2b q l p [] = (if q = 0 then Some [] else None)"
| "a2b q l p (c # cs) =
     (if c = CHR ''='' then
        (if 2 \<le> q then (if 4 \<le> q + (p + 1) then Some [] else a2b q l (p + 1) cs) else a2b q l p cs)
      else (case b64_value c of
          None \<Rightarrow> a2b q l p cs
        | Some v \<Rightarrow>
            if q = 0 then a2b 1 v 0 cs
            else if q = 1 then map_option (\<lambda>bs. (l * 4 + v div 16) # bs) (a2b 2 (v mod 16) 0 cs)
            else if q = 2 then map_option (\<lambda>bs. (l * 16 + v div 4) # bs) (a2b 3 (v mod 4) 0 cs)
            else map_option (\<lambda>bs. (l * 64 + v) # bs) (a2b 0 0 0 cs)))"

definition urlsafe_b64decode :: "string \<Rightarrow> nat list res" where
  "urlsafe_b64decode s =
     (if list_ex (\<lambda>c. (of_char c :: nat) \<ge> 128) s then Inl (ValueError ''string argument should contain only ASCII characters'')
      else case a2b 0 0 0 s of None \<Rightarrow> Inl (ValueError ''Incorrect padding'') | Some bs \<Rightarrow> Inr bs)"

section \<open>Encoding\<close>

fun urlsafe_b64encode :: "nat list \<Rightarrow> string" where
  "urlsafe_b64encode [] = []"
| "urlsafe_b64encode [a] = [b64_char (a div 4), b64_char (a mod 4 * 16), CHR ''='', CHR ''='']"
| "urlsafe_b64encode [a, b] = [b64_char (a div 4), b64_char (a mod 4 * 16 + b div 16), b64_char (b mod 16 * 4), CHR ''='']"
| "urlsafe_b64encode (a # b # c # bs) =
     b64_char (a div 4) # b64_char (a mod 4 * 16 + b div 16) # b64_char (b mod 16 * 4 + c div 64) # b64_char (c mod 64) #
     urlsafe_b64encode bs"

text \<open>\<^verbatim>\<open>.rstrip(b"=")\<close>.\<close>

definition rstrip_pad :: "string \<Rightarrow> string" where
  "rstrip_pad s = rev (dropWhile (\<lambda>c. c = CHR ''='') (rev s))"

text \<open>\<open>secrets.token_urlsafe(32)\<close> of its 32 random bytes.\<close>

definition token_urlsafe :: "nat list \<Rightarrow> string" where
  "token_urlsafe bs = rstrip_pad (urlsafe_b64encode bs)"

section \<open>Round trip\<close>

lemma rstrip_pad_snoc: "rstrip_pad (s @ [c]) = (if c = CHR ''='' then rstrip_pad s else s @ [c])"
  by (simp add: rstrip_pad_def)

lemma rstrip_pad_Cons: "c \<noteq> CHR ''='' \<Longrightarrow> rstrip_pad (c # s) = c # rstrip_pad s"
  by (induction s rule: rev_induct) (simp_all add: rstrip_pad_def dropWhile_append)

lemma b64_digits:
  fixes a b c :: nat
  assumes "a < 256" "b < 256" "c < 256"
  shows "a div 4 < 64" "a mod 4 * 16 + b div 16 < 64" "b mod 16 * 4 + c div 64 < 64" "c mod 64 < 64"
    "a mod 4 * 16 < 64" "b mod 16 * 4 < 64"
proof -
  have m: "a mod 4 < 4" "b mod 16 < 16" by simp_all
  have d: "a div 4 < 64" "b div 16 < 16" "c div 64 < 4" using assms by (simp_all add: div_less_iff_less_mult)
  show "a div 4 < 64" "a mod 4 * 16 + b div 16 < 64" "b mod 16 * 4 + c div 64 < 64" "c mod 64 < 64"
    "a mod 4 * 16 < 64" "b mod 16 * 4 < 64"
    using m d by linarith+
qed

lemma a2b_step:
  "v < 64 \<Longrightarrow> a2b 0 l p (b64_char v # cs) = a2b 1 v 0 cs"
  "v < 64 \<Longrightarrow> a2b 1 l p (b64_char v # cs) = map_option (\<lambda>bs. (l * 4 + v div 16) # bs) (a2b 2 (v mod 16) 0 cs)"
  "v < 64 \<Longrightarrow> a2b 2 l p (b64_char v # cs) = map_option (\<lambda>bs. (l * 16 + v div 4) # bs) (a2b 3 (v mod 4) 0 cs)"
  "v < 64 \<Longrightarrow> a2b 3 l p (b64_char v # cs) = map_option (\<lambda>bs. (l * 64 + v) # bs) (a2b 0 0 0 cs)"
  by (simp_all add: b64_value_char b64_char_not_pad)

lemma b64_join:
  fixes a b c :: nat
  assumes "a < 256" "b < 256" "c < 256"
  shows "a div 4 * 4 + (a mod 4 * 16 + b div 16) div 16 = a"
    "(a mod 4 * 16 + b div 16) mod 16 * 16 + (b mod 16 * 4 + c div 64) div 4 = b"
    "(b mod 16 * 4 + c div 64) mod 4 * 64 + c mod 64 = c"
    "(a mod 4 * 16 + b div 16) mod 16 * 16 + b mod 16 * 4 div 4 = b"
proof -
  have hi: "(x * 16 + b div 16) div 16 = x" "(x * 16 + b div 16) mod 16 = b div 16" for x
    using assms(2) by (simp_all add: div_less_iff_less_mult)
  have lo: "(x * 4 + c div 64) div 4 = x" "(x * 4 + c div 64) mod 4 = c div 64" for x
    using assms(3) by (simp_all add: div_less_iff_less_mult)
  show "a div 4 * 4 + (a mod 4 * 16 + b div 16) div 16 = a"
    "(a mod 4 * 16 + b div 16) mod 16 * 16 + (b mod 16 * 4 + c div 64) div 4 = b"
    "(b mod 16 * 4 + c div 64) mod 4 * 64 + c mod 64 = c"
    "(a mod 4 * 16 + b div 16) mod 16 * 16 + b mod 16 * 4 div 4 = b"
    unfolding hi lo by simp_all
qed

text \<open>Thirty-two bytes are ten groups and two bytes over, so one padding character completes them.\<close>

lemma a2b_encode:
  assumes "length bs mod 3 = 2" and "\<forall>b \<in> set bs. b < 256"
  shows "a2b 0 l p (token_urlsafe bs @ ''='') = Some bs"
  using assms
proof (induction bs arbitrary: l p rule: urlsafe_b64encode.induct)
  case (3 a b)
  then have ab: "a < 256" "b < 256" by auto
  note d = b64_digits [OF ab(1) ab(2) ab(2)]
  have "token_urlsafe [a, b] = [b64_char (a div 4), b64_char (a mod 4 * 16 + b div 16), b64_char (b mod 16 * 4)]"
    using d [THEN b64_char_not_pad] by (simp add: token_urlsafe_def rstrip_pad_def)
  then show ?case
    using b64_join [OF ab(1) ab(2) ab(2)] by (simp only: append_Cons append_Nil a2b_step d) simp
next
  case (4 a b c bs)
  then have abc: "a < 256" "b < 256" "c < 256" by auto
  have IH: "a2b 0 0 0 (token_urlsafe bs @ ''='') = Some bs"
  proof (rule "4.IH")
    have "length (a # b # c # bs) = length bs + 3" by simp
    with "4.prems"(1) show "length bs mod 3 = 2" by (simp only: mod_add_self2)
  qed (use "4.prems"(2) in simp)
  have "token_urlsafe (a # b # c # bs) = b64_char (a div 4) # b64_char (a mod 4 * 16 + b div 16) #
      b64_char (b mod 16 * 4 + c div 64) # b64_char (c mod 64) # token_urlsafe bs"
    using b64_digits [OF abc, THEN b64_char_not_pad] by (simp add: token_urlsafe_def rstrip_pad_Cons)
  then show ?case
    by (simp only: append_Cons a2b_step b64_digits [OF abc] IH b64_join [OF abc] option.map)
qed auto

lemma a2b_bytes:
  assumes "a2b q l p s = Some bs" and "q = 0 \<or> (q = 1 \<and> l < 64) \<or> (q = 2 \<and> l < 16) \<or> (q = 3 \<and> l < 4)"
  shows "\<forall>b \<in> set bs. b < 256"
  using assms
proof (induction s arbitrary: q l p bs)
  case (Cons c cs)
  show ?case
  proof (cases "c = CHR ''='' \<or> b64_value c = None")
    case True
    with Cons show ?thesis by (auto split: if_splits)
  next
    case False
    then obtain v where v: "b64_value c = Some v" "c \<noteq> CHR ''=''" by auto
    then have b: "v < 64" by (auto dest: b64_value_bound)
    have digit: "l * 4 + v div 16 < 256" if "l < 64" using that b by auto
    have byte: "l * 16 + v div 4 < 256" if "l < 16" using that b by auto
    have rest: "l * 64 + v < 256" if "l < 4" using that b by auto
    have later: "\<forall>b \<in> set z. b < 256"
      if "a2b q' l' 0 cs = Some z" "q' = 0 \<or> q' = 1 \<and> l' < 64 \<or> q' = 2 \<and> l' < 16 \<or> q' = 3 \<and> l' < 4" for q' l' z
      by (rule Cons.IH [OF that])
    show ?thesis
      using Cons.prems v b digit byte rest later [of 1 v] later [of 2 "v mod 16"] later [of 3 "v mod 4"] later [of 0 0]
      by (auto split: if_splits)
  qed
qed (auto split: if_splits)

lemma encode_ascii: "\<forall>b \<in> set bs. b < 256 \<Longrightarrow> c \<in> set (urlsafe_b64encode bs) \<Longrightarrow> (of_char c :: nat) < 128"
proof -
  have pad: "(of_char CHR ''='' :: nat) < 128" by simp
  show "\<forall>b \<in> set bs. b < 256 \<Longrightarrow> c \<in> set (urlsafe_b64encode bs) \<Longrightarrow> (of_char c :: nat) < 128"
  proof (induction bs rule: urlsafe_b64encode.induct)
    case (2 a)
    then have "a < 256" by simp
    with b64_digits [of a 0 0, THEN b64_char_ascii] 2 pad show ?case by auto
  next
    case (3 a b)
    then have "a < 256" "b < 256" by simp_all
    with b64_digits [of a b 0, THEN b64_char_ascii] 3 pad show ?case by auto
  next
    case (4 a b c' bs)
    then have "a < 256" "b < 256" "c' < 256" by simp_all
    with b64_digits [of a b c', THEN b64_char_ascii] 4 pad show ?case by auto
  qed simp
qed

end
