(* ===== verification/Session.thy ===== *)
theory Session
  imports Offline_Run Base64 Complex_Main
begin

text \<open>
  The wire protocol of \<^verbatim>\<open>src/moj_discovery/offline_protocol.py\<close>: the checks of a frame, its
  authentication code, and the session state machine of both peers.

  \<open>frame_schema\<close> is the verdict of \<^verbatim>\<open>jsonschema\<close> on the closed envelope of \<open>frame.schema.json\<close>
  and \<open>hmac_sha256\<close> the hexadecimal digest of Python's \<open>hmac\<close>. Clock readings are reals; strings
  stand for the bytes of a frame.
\<close>

record wire_env =
  run_side :: offline_env
  frame_schema :: "json \<Rightarrow> bool"
  hmac_sha256 :: "string \<Rightarrow> string \<Rightarrow> string"

abbreviation primitives :: "wire_env \<Rightarrow> ext" where
  "primitives W \<equiv> base (store_side (run_side W))"

section \<open>Frames\<close>

definition MAX_INTEGER :: int where
  "MAX_INTEGER = 9223372036854775807"

definition list_item :: "json \<Rightarrow> string \<Rightarrow> json list res" where
  "list_item v k = bindR (jitem v k) (\<lambda>x. case x of JArr xs \<Rightarrow> Inr xs | _ \<Rightarrow> Inl TypeError)"

text \<open>One observation of a batch: \<open>validate_artifact\<close>, the identity of the batch, its place, its size.\<close>

definition batch_item :: "wire_env \<Rightarrow> json \<Rightarrow> int \<times> json \<Rightarrow> unit res" where
  "batch_item W body item = (case item of (sequence, raw) \<Rightarrow>
     bindR (raise_if (\<not> raw_schema (store_side (run_side W)) raw) SchemaViolation) (\<lambda>_.
     bindR (jitem raw ''discovery_run_id'') (\<lambda>run. bindR (jitem body ''run_id'') (\<lambda>run'.
     bindR (raise_if (\<not> py_eq run run') (ValueError [])) (\<lambda>_.
     bindR (jitem raw ''context'') (\<lambda>context. bindR (jitem context ''browser_run_id'') (\<lambda>browser.
     bindR (jitem body ''browser_run_id'') (\<lambda>browser'.
     bindR (raise_if (\<not> py_eq browser browser') (ValueError [])) (\<lambda>_.
     bindR (jitem raw ''stream_id'') (\<lambda>stream. bindR (jitem body ''stream_id'') (\<lambda>stream'.
     bindR (raise_if (\<not> py_eq stream stream') (ValueError [])) (\<lambda>_.
     bindR (jitem raw ''generation'') (\<lambda>generation. bindR (jitem body ''generation'') (\<lambda>generation'.
     bindR (raise_if (\<not> py_eq generation generation') (ValueError [])) (\<lambda>_.
     bindR (jitem raw ''sequence'') (\<lambda>number.
     bindR (raise_if (\<not> str_is number (str_int sequence)) (ValueError [])) (\<lambda>_.
     bindR (jcs (primitives W) raw) (\<lambda>bytes.
       raise_if (65536 < length bytes) (ValueError [])))))))))))))))))))"

definition batch_checks :: "wire_env \<Rightarrow> json \<Rightarrow> unit res" where
  "batch_checks W body =
     bindR (bindR (str_item body ''first_sequence'') parse_int) (\<lambda>first.
     bindR (bindR (str_item body ''last_sequence'') parse_int) (\<lambda>last.
     bindR (list_item body ''observations'') (\<lambda>observations.
     bindR (raise_if (\<not> (1 \<le> first \<and> first \<le> last \<and> last \<le> MAX_INTEGER) \<or> last - first + 1 \<noteq> int (length observations))
       (ValueError [])) (\<lambda>_.
     bindR (bindR (str_item body ''generation'') parse_int) (\<lambda>generation.
     bindR (raise_if (generation > MAX_INTEGER) (ValueError [])) (\<lambda>_.
     bindR (mapR (batch_item W body) (zip (map (\<lambda>i. first + int i) [0..<length observations]) observations)) (\<lambda>_.
       Inr ())))))))"

definition frame_checks :: "wire_env \<Rightarrow> json \<Rightarrow> unit res" where
  "frame_checks W value =
     bindR (raise_if (\<not> frame_schema W value) SchemaViolation) (\<lambda>_.
     bindR (bindR (str_item value ''counter'') parse_int) (\<lambda>counter.
     bindR (raise_if (counter > MAX_INTEGER) (ValueError [])) (\<lambda>_.
     bindR (jitem value ''message_type'') (\<lambda>kind.
     bindR (if str_is kind ''BATCH'' then bindR (jitem value ''body'') (batch_checks W) else Inr ()) (\<lambda>_.
     bindR (jcs (primitives W) value) (\<lambda>bytes.
       raise_if (262144 < length bytes) (ValueError [])))))))"

definition validate_frame :: "wire_env \<Rightarrow> json \<Rightarrow> unit res" where
  "validate_frame W value = recast ''E_OFFLINE_SCHEMA'' (frame_checks W value)"

text \<open>\<^verbatim>\<open>b"BH-OFFLINE-WIRE/v1\0"\<close>.\<close>

definition WIRE_DOMAIN :: string where
  "WIRE_DOMAIN = ''BH-OFFLINE-WIRE/v1'' @ [CHR 0x00]"

definition frame_mac :: "wire_env \<Rightarrow> string \<Rightarrow> obj \<Rightarrow> string res" where
  "frame_mac W key content = bindR (jcs (primitives W) (JObj content)) (\<lambda>bytes. Inr (hmac_sha256 W key (WIRE_DOMAIN @ bytes)))"

definition encode_frame :: "wire_env \<Rightarrow> obj \<Rightarrow> string \<Rightarrow> string res" where
  "encode_frame W frame_without_mac key =
     bindR (raise_if (length key \<noteq> 32 \<or> dhas frame_without_mac ''mac'') (ValueError ''E_OFFLINE_KEY_OR_FRAME'')) (\<lambda>_.
     (let frame = frame_without_mac @ [(''mac'', JStr (replicate 64 CHR ''0''))] in
      bindR (validate_frame W (JObj frame)) (\<lambda>_.
      bindR (frame_mac W key frame_without_mac) (\<lambda>mac.
        jcs (primitives W) (JObj (dput ''mac'' (JStr mac) frame))))))"

section \<open>Session state\<close>

record session =
  ss_id :: string
  ss_run :: string
  ss_role :: string
  ss_started :: real
  ss_stage :: nat
  ss_in :: int
  ss_out :: int
  ss_client :: json
  ss_server :: json

definition new_session :: "string \<Rightarrow> string \<Rightarrow> string \<Rightarrow> real \<Rightarrow> session res" where
  "new_session session_id run role now =
     (if role \<notin> {''CLIENT'', ''BACKEND''} then Inl (ValueError ''E_OFFLINE_ROLE'')
      else Inr \<lparr>ss_id = session_id, ss_run = run, ss_role = role, ss_started = now, ss_stage = 0,
                ss_in = 0, ss_out = 0, ss_client = JNull, ss_server = JNull\<rparr>)"

definition ready :: "session \<Rightarrow> bool" where
  "ready s = (ss_stage s = 4)"

definition outgoing_direction :: "session \<Rightarrow> string" where
  "outgoing_direction s = (if ss_role s = ''CLIENT'' then ''CLIENT_TO_BACKEND'' else ''BACKEND_TO_CLIENT'')"

definition direction_of :: "session \<Rightarrow> bool \<Rightarrow> string" where
  "direction_of s incoming = (if incoming
     then (if outgoing_direction s = ''CLIENT_TO_BACKEND'' then ''BACKEND_TO_CLIENT'' else ''CLIENT_TO_BACKEND'')
     else outgoing_direction s)"

definition expected_counter :: "session \<Rightarrow> bool \<Rightarrow> int" where
  "expected_counter s incoming = (if incoming then ss_in s else ss_out s) + 1"

definition HANDSHAKE :: "string list" where
  "HANDSHAKE = [''HELLO'', ''WELCOME'', ''READY'', ''READY_ACK'']"

definition expected_incoming :: "session \<Rightarrow> bool" where
  "expected_incoming s = (if ss_role s = ''CLIENT'' then ss_stage s mod 2 = 1 else ss_stage s mod 2 = 0)"

definition valid_nonce :: "json \<Rightarrow> unit res" where
  "valid_nonce v = (case v of
      JStr nonce \<Rightarrow> bindR (urlsafe_b64decode (nonce @ ''='')) (\<lambda>decoded.
        raise_if (length decoded \<noteq> 32 \<or> rstrip_pad (urlsafe_b64encode decoded) \<noteq> nonce) (ValueError ''E_OFFLINE_NONCE''))
    | _ \<Rightarrow> Inl TypeError)"

definition check_nonce :: "obj \<Rightarrow> string \<Rightarrow> unit res" where
  "check_nonce body name = (case map_of body name of None \<Rightarrow> Inr () | Some v \<Rightarrow> valid_nonce v)"

definition bind_client_nonce :: "session \<Rightarrow> obj \<Rightarrow> json res" where
  "bind_client_nonce s body = bindR (ditem body ''client_nonce'') (\<lambda>n.
     if ss_stage s = 0 then Inr n
     else if \<not> py_eq n (ss_client s) then Inl (ValueError ''E_OFFLINE_NONCE'') else Inr (ss_client s))"

definition bind_server_nonce :: "session \<Rightarrow> obj \<Rightarrow> json \<Rightarrow> json res" where
  "bind_server_nonce s body client =
     (if ss_stage s = 0 then Inr (ss_server s)
      else bindR (ditem body ''server_nonce'') (\<lambda>n.
        if ss_stage s = 1 then (if py_eq n client then Inl (ValueError ''E_OFFLINE_NONCE'') else Inr n)
        else if \<not> py_eq n (ss_server s) then Inl (ValueError ''E_OFFLINE_NONCE'') else Inr (ss_server s)))"

definition handshake :: "real \<Rightarrow> json \<Rightarrow> obj \<Rightarrow> bool \<Rightarrow> session \<Rightarrow> session res" where
  "handshake now kind body incoming s =
     bindR (raise_if (now - ss_started s > 5) (ValueError ''E_OFFLINE_HANDSHAKE_TIMEOUT'')) (\<lambda>_.
     bindR (raise_if (\<not> str_is kind (HANDSHAKE ! ss_stage s) \<or> incoming \<noteq> expected_incoming s)
       (ValueError ''E_OFFLINE_HANDSHAKE_ORDER'')) (\<lambda>_.
     bindR (mapR (check_nonce body) [''client_nonce'', ''server_nonce'']) (\<lambda>_.
     bindR (bind_client_nonce s body) (\<lambda>client.
     bindR (bind_server_nonce s body client) (\<lambda>server.
       Inr (s\<lparr>ss_client := client, ss_server := server, ss_stage := ss_stage s + 1\<rparr>))))))"

definition after_handshake :: "json \<Rightarrow> session \<Rightarrow> session res" where
  "after_handshake kind s =
     (if ss_stage s \<noteq> 4 then Inl (ValueError ''E_OFFLINE_HANDSHAKE_ORDER'')
      else bindR (in_strs kind HANDSHAKE) (\<lambda>again.
        if again then Inl (ValueError ''E_OFFLINE_HANDSHAKE_ORDER'')
        else Inr (if str_is kind ''STOP'' then s\<lparr>ss_stage := 5\<rparr> else s)))"

definition count_frame :: "bool \<Rightarrow> session \<Rightarrow> session" where
  "count_frame incoming s = (if incoming then s\<lparr>ss_in := ss_in s + 1\<rparr> else s\<lparr>ss_out := ss_out s + 1\<rparr>)"

definition dict_value :: "json \<Rightarrow> obj res" where
  "dict_value v = (case v of JObj d \<Rightarrow> Inr d | _ \<Rightarrow> Inl TypeError)"

lemma dict_value_Inr [simp]: "dict_value v = Inr d \<longleftrightarrow> v = JObj d" "dict_value (JObj d) = Inr d"
  by (auto simp: dict_value_def split: json.splits)

text \<open>\<open>SessionState.accept\<close>; \<open>now\<close> is the clock reading taken during the handshake. A frame's body
  is a dict in every frame the schema accepts.\<close>

definition accept :: "real \<Rightarrow> obj \<Rightarrow> bool \<Rightarrow> session \<Rightarrow> session res" where
  "accept now frame incoming s =
     bindR (ditem frame ''session_id'') (\<lambda>sid.
     bindR (raise_if (\<not> str_is sid (ss_id s)) (ValueError ''E_OFFLINE_SESSION_COUNTER'')) (\<lambda>_.
     bindR (ditem frame ''direction'') (\<lambda>direction.
     bindR (raise_if (\<not> str_is direction (direction_of s incoming)) (ValueError ''E_OFFLINE_SESSION_COUNTER'')) (\<lambda>_.
     bindR (ditem frame ''counter'') (\<lambda>counter.
     bindR (raise_if (\<not> str_is counter (str_int (expected_counter s incoming))) (ValueError ''E_OFFLINE_SESSION_COUNTER'')) (\<lambda>_.
     bindR (bindR (ditem frame ''body'') dict_value) (\<lambda>body.
     bindR (raise_if (dhas body ''run_id'' \<and> \<not> str_is (dget body ''run_id'') (ss_run s)) (ValueError ''E_OFFLINE_SOURCE_BINDING'')) (\<lambda>_.
     bindR (ditem frame ''message_type'') (\<lambda>kind.
     bindR (if ss_stage s < 4 then handshake now kind body incoming s else after_handshake kind s) (\<lambda>t.
       Inr (count_frame incoming t)))))))))))"

text \<open>\<open>SessionState.send\<close>.\<close>

definition outgoing_frame :: "session \<Rightarrow> string \<Rightarrow> obj \<Rightarrow> obj" where
  "outgoing_frame s message_type body =
     [(''protocol'', JStr ''BH_OFFLINE_WIRE_V1''), (''session_id'', JStr (ss_id s)),
      (''direction'', JStr (outgoing_direction s)), (''counter'', JStr (str_int (ss_out s + 1))),
      (''message_type'', JStr message_type), (''body'', JObj body)]"

definition send :: "wire_env \<Rightarrow> real \<Rightarrow> string \<Rightarrow> obj \<Rightarrow> string \<Rightarrow> session \<Rightarrow> (string \<times> session) res" where
  "send W now message_type body key s =
     (let frame = outgoing_frame s message_type body in
      bindR (encode_frame W frame key) (\<lambda>encoded.
      bindR (accept now frame False s) (\<lambda>t. Inr (encoded, t))))"

text \<open>\<open>verify_frame\<close>: parse, check, authenticate, then let the session take the frame in.\<close>

definition read_frame :: "wire_env \<Rightarrow> string \<Rightarrow> obj res" where
  "read_frame W data = recast ''E_OFFLINE_SCHEMA''
     (bindR (parse_strict_json (primitives W) data) (\<lambda>parsed. case parsed of
        JObj frame \<Rightarrow> bindR (validate_frame W (JObj frame)) (\<lambda>_. Inr frame)
      | _ \<Rightarrow> Inl (ValueError [])))"

definition verify_frame :: "wire_env \<Rightarrow> real \<Rightarrow> string \<Rightarrow> string \<Rightarrow> session \<Rightarrow> (obj \<times> session) res" where
  "verify_frame W now data key s =
     bindR (raise_if (262144 < length data \<or> length key \<noteq> 32) (ValueError ''E_OFFLINE_FRAME_SIZE_OR_KEY'')) (\<lambda>_.
     bindR (read_frame W data) (\<lambda>frame.
     bindR (frame_mac W key (ddel ''mac'' frame)) (\<lambda>expected.
     bindR (str_item (JObj frame) ''mac'') (\<lambda>mac.
     bindR (raise_if (mac \<noteq> expected) (ValueError ''E_OFFLINE_MAC'')) (\<lambda>_.
     bindR (accept now frame True s) (\<lambda>t. Inr (frame, t)))))))"

section \<open>What an accepted frame looks like\<close>

abbreviation nonce_fields :: "string list" where
  "nonce_fields \<equiv> [''client_nonce'', ''server_nonce'']"

lemma accept_Inr:
  assumes "accept now frame incoming s = Inr t"
  obtains body kind u where "dget frame ''session_id'' = JStr (ss_id s)"
    "dget frame ''direction'' = JStr (direction_of s incoming)"
    "ditem frame ''counter'' = Inr (JStr (str_int (expected_counter s incoming)))"
    "ditem frame ''body'' = Inr (JObj body)" "ditem frame ''message_type'' = Inr kind"
    "(if ss_stage s < 4 then handshake now kind body incoming s else after_handshake kind s) = Inr u"
    "t = count_frame incoming u"
proof -
  from assms obtain sid direction count body kind u where f: "ditem frame ''session_id'' = Inr sid" "\<not> \<not> str_is sid (ss_id s)"
    "ditem frame ''direction'' = Inr direction" "\<not> \<not> str_is direction (direction_of s incoming)"
    "ditem frame ''counter'' = Inr count" "\<not> \<not> str_is count (str_int (expected_counter s incoming))"
    "ditem frame ''body'' = Inr (JObj body)" "ditem frame ''message_type'' = Inr kind"
    and r: "(if ss_stage s < 4 then handshake now kind body incoming s else after_handshake kind s) = Inr u"
      "Inr (count_frame incoming u) = (Inr t :: session res)"
    unfolding accept_def bindR_eq_Inr raise_if_Inr dict_value_Inr by blast
  show ?thesis
    by (rule that [OF _ _ _ f(7,8) r(1)]) (use f r(2) in \<open>simp_all add: ditem_eq_Inr dget_def\<close>)
qed

lemma handshake_Inr:
  assumes "handshake now kind body incoming s = Inr t"
  obtains client server where "now - ss_started s \<le> 5" "kind = JStr (HANDSHAKE ! ss_stage s)" "incoming = expected_incoming s"
    "mapR (check_nonce body) nonce_fields = Inr [(), ()]" "bind_client_nonce s body = Inr client"
    "bind_server_nonce s body client = Inr server"
    "t = s\<lparr>ss_client := client, ss_server := server, ss_stage := ss_stage s + 1\<rparr>"
  using assms by (auto simp: handshake_def)

lemma after_handshake_Inr:
  assumes "after_handshake kind s = Inr t"
  shows "ss_stage s = 4" "t = s \<or> t = s\<lparr>ss_stage := 5\<rparr>"
  using assms by (auto simp: after_handshake_def split: if_splits)

text \<open>Only the stage, the nonces and one counter ever change.\<close>

lemma accept_frame:
  assumes "accept now frame incoming s = Inr t"
  shows "ss_id t = ss_id s" "ss_run t = ss_run s" "ss_role t = ss_role s" "ss_started t = ss_started s"
    "ss_in t = ss_in s + (if incoming then 1 else 0)" "ss_out t = ss_out s + (if incoming then 0 else 1)"
    "ss_stage s \<le> 4" "ss_stage t \<in> {ss_stage s, ss_stage s + 1}" "ss_stage s < 4 \<Longrightarrow> ss_stage t = ss_stage s + 1"
proof -
  from assms obtain kind body u where
    u: "(if ss_stage s < 4 then handshake now kind body incoming s else after_handshake kind s) = Inr u"
    and t: "t = count_frame incoming u"
    by (rule accept_Inr)
  have "ss_id u = ss_id s \<and> ss_run u = ss_run s \<and> ss_role u = ss_role s \<and> ss_started u = ss_started s \<and>
      ss_in u = ss_in s \<and> ss_out u = ss_out s \<and> ss_stage s \<le> 4 \<and> ss_stage u \<in> {ss_stage s, ss_stage s + 1} \<and>
      (ss_stage s < 4 \<longrightarrow> ss_stage u = ss_stage s + 1)"
  proof (cases "ss_stage s < 4")
    case True
    with u have "handshake now kind body incoming s = Inr u" by simp
    then show ?thesis by (rule handshake_Inr) (use True in simp)
  next
    case False
    with u have "after_handshake kind s = Inr u" by simp
    from after_handshake_Inr [OF this] show ?thesis by auto
  qed
  with t show "ss_id t = ss_id s" "ss_run t = ss_run s" "ss_role t = ss_role s" "ss_started t = ss_started s"
    "ss_in t = ss_in s + (if incoming then 1 else 0)" "ss_out t = ss_out s + (if incoming then 0 else 1)"
    "ss_stage s \<le> 4" "ss_stage t \<in> {ss_stage s, ss_stage s + 1}" "ss_stage s < 4 \<Longrightarrow> ss_stage t = ss_stage s + 1"
    by (auto simp: count_frame_def)
qed

section \<open>Conversations\<close>

text \<open>A conversation: the frames a session accepts one after the other, with the clock readings.\<close>

type_synonym event = "real \<times> obj \<times> bool"

definition converse :: "session \<Rightarrow> event list \<Rightarrow> session res" where
  "converse s es = foldR (\<lambda>s (now, frame, incoming). accept now frame incoming s) s es"

definition counters :: "bool \<Rightarrow> event list \<Rightarrow> json res list" where
  "counters d es = map (\<lambda>(_, frame, _). ditem frame ''counter'') (filter (\<lambda>(_, _, incoming). incoming = d) es)"

lemma converse_simps [simp]:
  "converse s [] = Inr s"
  "converse s ((now, frame, incoming) # es) = bindR (accept now frame incoming s) (\<lambda>t. converse t es)"
  by (simp_all add: converse_def)

lemma converse_append: "converse s (es @ fs) = bindR (converse s es) (\<lambda>t. converse t fs)"
  by (simp add: converse_def foldR_append)

definition counter :: "bool \<Rightarrow> session \<Rightarrow> int" where
  "counter d s = (if d then ss_in s else ss_out s)"

lemma converse_counter:
  assumes "converse s es = Inr t"
  shows "counter d t = counter d s + int (length (counters d es))"
  using assms
proof (induction es arbitrary: s)
  case (Cons e es)
  obtain now frame incoming where e: "e = (now, frame, incoming)" by (cases e) auto
  from Cons.prems e obtain u where u: "accept now frame incoming s = Inr u" and t: "converse u es = Inr t" by auto
  have "counter d u = counter d s + (if incoming = d then 1 else 0)"
    using accept_frame(5,6) [OF u] by (auto simp: counter_def)
  with Cons.IH [OF t] e show ?case by (simp add: counters_def)
qed (simp add: counters_def)

text \<open>The frames accepted in one direction carry consecutive counters.\<close>

lemma converse_counters:
  assumes "converse s es = Inr t"
  shows "counters d es = map (\<lambda>i. Inr (JStr (str_int i))) [counter d s + 1 .. counter d t]"
  using assms
proof (induction es arbitrary: s)
  case (Cons e es)
  obtain now frame incoming where e: "e = (now, frame, incoming)" by (cases e) auto
  from Cons.prems e obtain u where u: "accept now frame incoming s = Inr u" and t: "converse u es = Inr t" by auto
  have c: "ditem frame ''counter'' = Inr (JStr (str_int (counter incoming s + 1)))"
    using u by (rule accept_Inr) (auto simp: expected_counter_def counter_def)
  have n: "counter d u = counter d s + (if incoming = d then 1 else 0)"
    using accept_frame(5,6) [OF u] by (auto simp: counter_def)
  note IH = Cons.IH [OF t]
  show ?case
  proof (cases "incoming = d")
    case True
    have "counter d s + 1 \<le> counter d t" using converse_counter [OF t, of d] n True by simp
    then have "[counter d s + 1 .. counter d t] = (counter d s + 1) # [counter d u + 1 .. counter d t]"
      using n True by (simp add: upto_rec1)
    moreover have "counters d (e # es) = Inr (JStr (str_int (counter d s + 1))) # counters d es"
      using c e True by (simp add: counters_def)
    ultimately show ?thesis using IH by simp
  next
    case False
    then have "counters d (e # es) = counters d es" "counter d u = counter d s" using n e by (simp_all add: counters_def)
    with IH show ?thesis by simp
  qed
qed (simp add: counters_def counter_def)

end
