(* ===== verification/Synthetic_Source.thy ===== *)
theory Synthetic_Source
  imports Offline_Run
begin

text \<open>
  \<^verbatim>\<open>src/moj_discovery/synthetic_source.py\<close>: the checks of one synthetic observation against its run
  context, and the observations a scenario stands for.
\<close>

section \<open>One observation\<close>

definition source_mismatch :: "json \<Rightarrow> json \<Rightarrow> bool res" where
  "source_mismatch value context =
     orR (differs (jitem value ''observation_kind'') (Inr (JStr ''TERMINAL'')))
    (orR (differs (bindR (jitem value ''context'') (\<lambda>c. jitem c ''context_kind'')) (Inr (JStr ''RUN_BOUND_NOT_DOCUMENT'')))
    (orR (differs (jitem value ''discovery_run_id'') (jitem context ''run_id''))
    (orR (differs (bindR (jitem value ''context'') (\<lambda>c. jitem c ''browser_run_id'')) (jitem context ''browser_run_id''))
    (orR (differs (jitem value ''stream_id'') (jitem context ''stream_id''))
         (differs (jitem value ''generation'') (jitem context ''generation''))))))"

definition validate_synthetic_observation :: "offline_env \<Rightarrow> string \<Rightarrow> json \<Rightarrow> json res" where
  "validate_synthetic_observation E data context =
     (let S = store_side E in
      bindR (raise_if (65536 < length data) (ValueError ''E_OFFLINE_INPUT_SIZE'')) (\<lambda>_.
      bindR (recast ''E_OFFLINE_JSON'' (parse_strict_json (base S) data)) (\<lambda>value.
      bindR (recast ''E_OFFLINE_SCHEMA'' (raise_if (\<not> raw_schema S value) SchemaViolation)) (\<lambda>_.
      bindR (validate_context E context) (\<lambda>_.
      bindR (source_mismatch value context) (\<lambda>mismatch.
      bindR (raise_if mismatch (ValueError ''E_OFFLINE_SOURCE_BINDING'')) (\<lambda>_.
      bindR (recast ''E_OFFLINE_CONTENT_HASH'' (bindR (str_item value ''content_hash'') (\<lambda>h.
        verify_canonical_content_hash (base S) (registry S) ''RawObservation'' value h))) (\<lambda>_.
        Inr value))))))))"

section \<open>A scenario\<close>

definition manifest_checks :: "offline_env \<Rightarrow> string \<Rightarrow> (json \<times> int) res" where
  "manifest_checks E data =
     bindR (parse_strict_json (base (store_side E)) data) (\<lambda>v. case v of
        JObj manifest \<Rightarrow>
          (if \<not> keys_eq manifest [''schema_version'', ''source_kind'', ''context'', ''record_count''] \<or>
              \<not> str_is (dget manifest ''schema_version'') ''offline-scenario/v1'' \<or>
              \<not> str_is (dget manifest ''source_kind'') ''SYNTHETIC_TEST'' then Inl (ValueError [])
           else case dget manifest ''record_count'' of
               JInt n \<Rightarrow>
                 if \<not> (1 \<le> n \<and> n \<le> 1000) then Inl (ValueError [])
                 else bindR (validate_context E (dget manifest ''context'')) (\<lambda>_. Inr (dget manifest ''context'', n))
             | _ \<Rightarrow> Inl (ValueError []))
      | _ \<Rightarrow> Inl (ValueError []))"

text \<open>\<open>sha256(rfc8785.dumps(v)).hexdigest()\<close>.\<close>

definition json_digest :: "ext \<Rightarrow> json \<Rightarrow> string res" where
  "json_digest X v = bindR (jcs X v) (\<lambda>bytes. Inr (sha256 X bytes))"

definition scenario_observation :: "offline_env \<Rightarrow> json \<Rightarrow> int \<Rightarrow> obj res" where
  "scenario_observation E context sequence =
     (let X = base (store_side E); number = JStr (str_int sequence) in
      bindR (jitem context ''run_id'') (\<lambda>run.
      bindR (jitem context ''stream_id'') (\<lambda>stream.
      bindR (jitem context ''generation'') (\<lambda>generation.
      bindR (json_digest X (JArr [run, stream, generation, number])) (\<lambda>identity.
      bindR (jitem context ''vendor_sha256'') (\<lambda>vendor.
      bindR (jitem context ''code_sha256'') (\<lambda>code.
      bindR (jitem context ''schema_lock_sha256'') (\<lambda>lock.
      bindR (json_digest X context) (\<lambda>receipt.
      bindR (jitem context ''browser_run_id'') (\<lambda>browser.
      bindR (jitem context ''producer_id'') (\<lambda>producer.
        Inr [(''schema_version'', JStr ''raw-observation/v1''),
          (''raw_observation_id'', JStr (''observation:'' @ identity)),
          (''observation_kind'', JStr ''TERMINAL''),
          (''pack_hash'', vendor), (''build_hash'', code), (''implementation_baseline_hash'', code),
          (''capability_manifest_hash'', lock),
          (''discovery_run_id'', run), (''run_receipt_hash'', JStr receipt),
          (''stream_id'', stream), (''generation'', generation), (''sequence'', number),
          (''context'', JObj [(''context_kind'', JStr ''RUN_BOUND_NOT_DOCUMENT''), (''browser_run_id'', browser),
             (''browser_boot_id'', browser), (''binding_reason'', JStr ''TERMINAL_ACCOUNTING'')]),
          (''clock_context'', JObj [(''clock_domain_id'', producer), (''boot_id'', browser), (''unit'', JStr ''MICROSECOND''),
             (''monotonic_value'', number), (''resolution_us'', JStr ''1''), (''owner'', JStr ''BACKEND''),
             (''mapping_id'', JStr ''NOT_APPLICABLE''), (''mapping_status'', JStr ''NOT_APPLICABLE'')]),
          (''sanitizer_version'', JStr ''sanitizer/v1''),
          (''content_hash'', JStr (replicate 64 CHR ''0'')),
          (''production_authority'', JStr ''NONE''),
          (''facts'', JObj [(''terminal_code'', JStr ''MANUAL_STOP''), (''final_generation'', generation),
             (''final_sequence'', number), (''observation_count'', number), (''gap_count'', JStr ''0''),
             (''safety_disposition'', JStr ''PARTIAL_EVIDENCE_ONLY'')])])))))))))))"

definition sealed_observation :: "offline_env \<Rightarrow> json \<Rightarrow> int \<Rightarrow> json res" where
  "sealed_observation E context sequence =
     (let S = store_side E in
      bindR (scenario_observation E context sequence) (\<lambda>raw.
      bindR (canonical_content_hash (base S) (registry S) ''RawObservation'' (JObj raw)) (\<lambda>h.
      bindR (jcs (base S) (JObj (dput ''content_hash'' (JStr h) raw))) (\<lambda>bytes.
        validate_synthetic_observation E bytes context))))"

definition load_synthetic_observations :: "offline_env \<Rightarrow> string \<Rightarrow> json list res" where
  "load_synthetic_observations E data =
     bindR (raise_if (262144 < length data) (ValueError ''E_OFFLINE_INPUT_SIZE'')) (\<lambda>_.
     bindR (recast ''E_OFFLINE_SOURCE_BINDING'' (manifest_checks E data)) (\<lambda>(context, n).
       mapR (sealed_observation E context) [1..n]))"

section \<open>What is accepted\<close>

lemma recast_Inr [simp]: "recast code m = Inr x \<longleftrightarrow> m = Inr x"
  by (auto simp: recast_def split: sum.splits)

lemma validate_synthetic_Inr:
  assumes "validate_synthetic_observation E data context = Inr value"
  shows "length data \<le> 65536" "parse_strict_json (base (store_side E)) data = Inr value"
    "raw_schema (store_side E) value" "validate_context E context = Inr ()" "source_mismatch value context = Inr False"
    "validate_raw (store_side E) value = Inr ()"
  using assms by (auto simp: validate_synthetic_observation_def Let_def validate_raw_def)

end
