(* ===== verification/Py_State.thy ===== *)
theory Py_State
  imports Py_Prelude
begin

text \<open>
  Methods that change an object and may raise half way: a computation reads a state and gives a
  result or an exception together with the state it leaves behind. Files of a directory are kept by
  name.
\<close>

named_theorems act_simps \<open>evaluation of stateful computations\<close>

type_synonym ('s, 'a) act = "'s \<Rightarrow> 'a res \<times> 's"

definition retS :: "'a \<Rightarrow> ('s, 'a) act" where
  "retS x s = (Inr x, s)"

definition failS :: "exn \<Rightarrow> ('s, 'a) act" where
  "failS e s = (Inl e, s)"

definition liftS :: "'a res \<Rightarrow> ('s, 'a) act" where
  "liftS r s = (r, s)"

definition getS :: "('s \<Rightarrow> 'a) \<Rightarrow> ('s, 'a) act" where
  "getS f s = (Inr (f s), s)"

definition modS :: "('s \<Rightarrow> 's) \<Rightarrow> ('s, unit) act" where
  "modS f s = (Inr (), f s)"

definition bindS :: "('s, 'a) act \<Rightarrow> ('a \<Rightarrow> ('s, 'b) act) \<Rightarrow> ('s, 'b) act" where
  "bindS m f s = (case m s of (Inl e, t) \<Rightarrow> (Inl e, t) | (Inr x, t) \<Rightarrow> f x t)"

fun forS :: "('a \<Rightarrow> ('s, unit) act) \<Rightarrow> 'a list \<Rightarrow> ('s, unit) act" where
  "forS f [] = retS ()"
| "forS f (x # xs) = bindS (f x) (\<lambda>_. forS f xs)"

fun mapS :: "('a \<Rightarrow> ('s, 'b) act) \<Rightarrow> 'a list \<Rightarrow> ('s, 'b list) act" where
  "mapS f [] = retS []"
| "mapS f (x # xs) = bindS (f x) (\<lambda>y. bindS (mapS f xs) (\<lambda>ys. retS (y # ys)))"

lemma act_eval [simp, act_simps]:
  "retS x s = (Inr x, s)" "failS e s = (Inl e, s)" "liftS r s = (r, s)" "getS f s = (Inr (f s), s)" "modS g s = (Inr (), g s)"
  by (simp_all add: retS_def failS_def liftS_def getS_def modS_def)

lemma bindS_Inr: "bindS m f s = (Inr y, t) \<longleftrightarrow> (\<exists>x u. m s = (Inr x, u) \<and> f x u = (Inr y, t))"
  by (auto simp: bindS_def split: prod.splits sum.splits)

lemma bindS_step: "m s = (Inr x, u) \<Longrightarrow> bindS m f s = f x u" "m s = (Inl e, u) \<Longrightarrow> bindS m f s = (Inl e, u)"
  by (simp_all add: bindS_def)

lemma bindS_eval [simp, act_simps]:
  "bindS (retS x) f s = f x s" "bindS (failS e) f s = (Inl e, s)" "bindS (getS g) f s = f (g s) s"
  "bindS (modS h) f' s = f' () (h s)" "bindS (liftS (Inr x)) f s = f x s" "bindS (liftS (Inl e)) f s = (Inl e, s)"
  by (simp_all add: bindS_def)

section \<open>Relations between the states before and after\<close>

text \<open>Whatever the outcome, a computation relates the state it starts in to the one it leaves.\<close>

definition moves :: "('s \<Rightarrow> 's \<Rightarrow> bool) \<Rightarrow> ('s, 'a) act \<Rightarrow> bool" where
  "moves R m \<longleftrightarrow> (\<forall>s. R s (snd (m s)))"

lemma moves_pure [simp]:
  "reflp R \<Longrightarrow> moves R (retS x)" "reflp R \<Longrightarrow> moves R (failS e)" "reflp R \<Longrightarrow> moves R (liftS r)"
  "reflp R \<Longrightarrow> moves R (getS f)"
  by (simp_all add: moves_def reflpD)

lemma moves_modS: "moves R (modS f) \<longleftrightarrow> (\<forall>s. R s (f s))"
  by (simp add: moves_def)

lemma moves_bindS:
  assumes "transp R" and "moves R m" and "\<And>x. moves R (f x)"
  shows "moves R (bindS m f)"
  unfolding moves_def
proof
  fix s
  have "R s (snd (m s))" using assms(2) by (simp add: moves_def)
  moreover have "R u (snd (f x u))" for x u using assms(3) by (simp add: moves_def)
  ultimately show "R s (snd (bindS m f s))"
    using transpD [OF assms(1)] by (auto simp: bindS_def split: prod.splits sum.splits)
qed

lemma moves_forS:
  assumes "reflp R" "transp R" and "\<And>x. moves R (f x)"
  shows "moves R (forS f xs)"
proof (induction xs)
  case Nil
  show ?case unfolding forS.simps by (rule moves_pure(1) [OF assms(1)])
next
  case (Cons x xs)
  show ?case unfolding forS.simps by (intro moves_bindS assms Cons.IH)
qed

lemma moves_Inr: "moves R m \<Longrightarrow> m s = (r, t) \<Longrightarrow> R s t"
  unfolding moves_def by (metis snd_conv)

section \<open>Files\<close>

text \<open>\<open>fl_plain\<close>: a regular file with one link.\<close>

record stored_file =
  fl_symlink :: bool
  fl_plain :: bool
  fl_data :: string

definition plain_file :: "string \<Rightarrow> stored_file" where
  "plain_file data = \<lparr>fl_symlink = False, fl_plain = True, fl_data = data\<rparr>"

text \<open>\<open>bytes.splitlines\<close>: lines end at a line feed, a carriage return, or both in this order.\<close>

fun splitlines :: "string \<Rightarrow> string list" where
  "splitlines [] = []"
| "splitlines (c # cs) =
     (if c = CHR 0x0A then [] # splitlines cs
      else if c = CHR 0x0D then [] # (case cs of [] \<Rightarrow> [] | d # ds \<Rightarrow> if d = CHR 0x0A then splitlines ds else splitlines cs)
      else (case splitlines cs of [] \<Rightarrow> [[c]] | w # ws \<Rightarrow> (c # w) # ws))"

lemma splitlines_line:
  "CHR 0x0A \<notin> set w \<Longrightarrow> CHR 0x0D \<notin> set w \<Longrightarrow> splitlines (w @ [CHR 0x0A] @ s) = w # splitlines s"
  by (induction w) auto

end
