(* ===== verification/Input_Journal.thy ===== *)
theory Input_Journal
  imports Synthetic_Source Py_State
begin

text \<open>
  \<^verbatim>\<open>src/moj_discovery/input_journal.py\<close>: the hash-chained file \<^verbatim>\<open>receive.jsonl\<close> of deliveries,
  outcomes and confirmations beside the run store.

  The object and its directory are one state: the files by their name relative to the run directory,
  the store, the bytes and rows verified last, and the readings the clock will give. \<open>linked\<close> says
  that some component of the directory's path is a symbolic link. Synchronisation to disk has no
  effect here.
\<close>

record journal =
  jn_linked :: bool
  jn_files :: "string \<Rightarrow> stored_file option"
  jn_context :: json
  jn_store :: run_store
  jn_verified :: string
  jn_rows :: "obj list"
  jn_clock :: "nat \<Rightarrow> int"
  jn_ticks :: nat

definition RECEIVE :: string where
  "RECEIVE = ''receive.jsonl''"

text \<open>\<^verbatim>\<open>b"BH-OFFLINE-JOURNAL/v1\0"\<close>.\<close>

definition JOURNAL_DOMAIN :: string where
  "JOURNAL_DOMAIN = ''BH-OFFLINE-JOURNAL/v1'' @ [CHR 0x00]"

abbreviation INTEGRITY :: exn where
  "INTEGRITY \<equiv> ValueError ''E_OFFLINE_JOURNAL_INTEGRITY''"

abbreviation codec :: "offline_env \<Rightarrow> ext" where
  "codec E \<equiv> base (store_side E)"

text \<open>\<open>_read\<close>: links are not followed.\<close>

definition read_file :: "(string \<Rightarrow> stored_file option) \<Rightarrow> string \<Rightarrow> nat \<Rightarrow> string res" where
  "read_file files path maximum = (case files path of
      None \<Rightarrow> Inl OSError
    | Some f \<Rightarrow>
        if fl_symlink f then Inl OSError
        else if \<not> fl_plain f \<or> maximum < length (fl_data f) then Inl (ValueError ''E_OFFLINE_FILE_INTEGRITY'')
        else Inr (fl_data f))"

section \<open>Verifying the rows\<close>

definition row_fields :: "string \<Rightarrow> string list" where
  "row_fields kind = [''row_index'', ''kind'', ''reference_receive_index'', ''previous_row_hash'', ''row_hash''] @
     (if kind = ''RECEIVED'' then [''raw_hash'', ''batch_id'', ''generation'', ''sequence'']
      else if kind = ''OUTCOME'' then [''outcome'']
      else if kind = ''ACK_CONFIRMATION'' then [''generation'', ''sequence'', ''cursor_hash'']
      else [''artifact'', ''artifact_sha256''])"

definition ROW_KINDS :: "string list" where
  "ROW_KINDS = [''RECEIVED'', ''OUTCOME'', ''ACK_CONFIRMATION'', ''PARTIAL_TAIL'']"

text \<open>The local variables of the loop.\<close>

record scan =
  sc_rows :: "obj list"
  sc_previous :: string
  sc_receives :: "int list"
  sc_outcomes :: "int list"

definition no_rows :: scan where
  "no_rows = \<lparr>sc_rows = [], sc_previous = replicate 64 CHR ''0'', sc_receives = [], sc_outcomes = []\<rparr>"

text \<open>\<open>v in s\<close> for a set of integers: a boolean equals 0 or 1, containers are unhashable.\<close>

definition in_ints :: "json \<Rightarrow> int list \<Rightarrow> bool res" where
  "in_ints v s = (if \<not> hashable v then Inl TypeError
     else Inr (case py_num v of None \<Rightarrow> False | Some i \<Rightarrow> i \<in> set s))"

text \<open>\<open>pattern.fullmatch(v)\<close>.\<close>

definition text_matches :: "(string \<Rightarrow> bool) \<Rightarrow> json \<Rightarrow> bool res" where
  "text_matches p v = (case v of JStr s \<Rightarrow> Inr (p s) | _ \<Rightarrow> Inl TypeError)"

definition row_digest :: "ext \<Rightarrow> obj \<Rightarrow> string res" where
  "row_digest X row = bindR (jcs X (JObj row)) (\<lambda>bytes. Inr (sha256 X (JOURNAL_DOMAIN @ bytes)))"

text \<open>The shape of row number \<open>index\<close> and its place in the hash chain; the result is its kind and digest.\<close>

definition check_shape :: "ext \<Rightarrow> int \<Rightarrow> string \<Rightarrow> string \<Rightarrow> obj \<Rightarrow> (string \<times> string) res" where
  "check_shape X index line previous row =
     bindR (in_strs (dget row ''kind'') ROW_KINDS) (\<lambda>known.
     if \<not> known then Inl INTEGRITY
     else (let kind = the_str (dget row ''kind'') in
       if \<not> keys_eq row (row_fields kind) \<or> dget row ''row_index'' \<noteq> JInt index \<or> \<not> str_is (dget row ''previous_row_hash'') previous
       then Inl INTEGRITY
       else bindR (jcs X (JObj row)) (\<lambda>bytes.
         bindR (raise_if (bytes \<noteq> line) INTEGRITY) (\<lambda>_.
         bindR (row_digest X (ddel ''row_hash'' row)) (\<lambda>digest.
         bindR (raise_if (\<not> str_is (dget row ''row_hash'') digest) INTEGRITY) (\<lambda>_.
           Inr (kind, digest)))))))"

definition check_reference :: "string \<Rightarrow> obj \<Rightarrow> scan \<Rightarrow> scan res" where
  "check_reference kind row st =
     (let reference = dget row ''reference_receive_index''; n = int (length (sc_receives st)) + 1 in
      if kind = ''RECEIVED'' then
        (if reference \<noteq> JInt n then Inl INTEGRITY
         else bindR (text_matches hex64 (dget row ''raw_hash'')) (\<lambda>hex.
           if \<not> hex then Inl INTEGRITY
           else bindR (text_matches uuid4 (dget row ''batch_id'')) (\<lambda>uuid.
             if \<not> uuid then Inl INTEGRITY else Inr (st\<lparr>sc_receives := sc_receives st @ [n]\<rparr>))))
      else if kind = ''OUTCOME'' then
        bindR (in_ints reference (sc_receives st)) (\<lambda>received.
        if \<not> received then Inl INTEGRITY
        else (case py_num reference of None \<Rightarrow> Inl INTEGRITY
          | Some i \<Rightarrow> if i \<in> set (sc_outcomes st) then Inl INTEGRITY else Inr (st\<lparr>sc_outcomes := sc_outcomes st @ [i]\<rparr>)))
      else if reference \<noteq> JNull then Inl INTEGRITY else Inr st)"

definition row_object :: "json \<Rightarrow> obj res" where
  "row_object v = (case v of JObj row \<Rightarrow> Inr row | _ \<Rightarrow> Inl INTEGRITY)"

lemma row_object_Inr [simp]: "row_object v = Inr row \<longleftrightarrow> v = JObj row" "row_object (JObj row) = Inr row"
  by (auto simp: row_object_def split: json.splits)

definition scan_line :: "ext \<Rightarrow> scan \<Rightarrow> string \<Rightarrow> scan res" where
  "scan_line X st line =
     bindR (bindR (parse_strict_json X line) row_object) (\<lambda>row.
     bindR (check_shape X (int (length (sc_rows st)) + 1) line (sc_previous st) row) (\<lambda>(kind, digest).
     bindR (check_reference kind row st) (\<lambda>st'.
       Inr (st'\<lparr>sc_rows := sc_rows st @ [row], sc_previous := digest\<rparr>))))"

definition scan_rows :: "ext \<Rightarrow> string \<Rightarrow> obj list res" where
  "scan_rows X data = bindR (foldR (scan_line X) no_rows (splitlines data)) (\<lambda>st. Inr (sc_rows st))"

text \<open>\<open>_rows\<close>: bytes that were verified before are not parsed again, and may only have grown.\<close>

definition rows :: "ext \<Rightarrow> (journal, obj list) act" where
  "rows X s =
     (if jn_linked s then (Inl (ValueError ''E_OFFLINE_RUN_PATH''), s)
      else if jn_files s RECEIVE = None then
        (if jn_verified s \<noteq> [] then (Inl INTEGRITY, s) else (Inr [], s))
      else case read_file (jn_files s) RECEIVE 16777216 of
        Inl e \<Rightarrow> (Inl e, s)
      | Inr data \<Rightarrow>
          if data = jn_verified s then (Inr (jn_rows s), s)
          else if \<not> starts_with data (jn_verified s) then (Inl INTEGRITY, s)
          else if data \<noteq> [] \<and> last data \<noteq> CHR 0x0A then (Inl (ValueError ''E_OFFLINE_JOURNAL_PARTIAL_TAIL''), s)
          else case scan_rows X data of
            Inl e \<Rightarrow> (Inl e, s)
          | Inr rs \<Rightarrow> (Inr rs, s\<lparr>jn_verified := data, jn_rows := rs\<rparr>))"

section \<open>Appending a row\<close>

text \<open>Opening for append creates a missing file; the size must be that of the verified bytes.\<close>

definition open_append :: "(journal, unit) act" where
  "open_append s = (case jn_files s RECEIVE of
      None \<Rightarrow>
        (let t = s\<lparr>jn_files := (jn_files s)(RECEIVE \<mapsto> plain_file [])\<rparr> in
         if jn_verified s \<noteq> [] then (Inl (ValueError ''E_OFFLINE_FILE_INTEGRITY''), t) else (Inr (), t))
    | Some f \<Rightarrow>
        if fl_symlink f then (Inl OSError, s)
        else if \<not> fl_plain f \<or> length (fl_data f) \<noteq> length (jn_verified s)
          then (Inl (ValueError ''E_OFFLINE_FILE_INTEGRITY''), s)
        else (Inr (), s))"

definition file_data :: "journal \<Rightarrow> string" where
  "file_data s = (case jn_files s RECEIVE of None \<Rightarrow> [] | Some f \<Rightarrow> fl_data f)"

definition write_row :: "string \<Rightarrow> obj list \<Rightarrow> obj \<Rightarrow> journal \<Rightarrow> journal" where
  "write_row encoded rs row s = s\<lparr>jn_files := (jn_files s)(RECEIVE \<mapsto> plain_file (file_data s @ encoded)),
     jn_verified := jn_verified s @ encoded, jn_rows := rs @ [row]\<rparr>"

definition new_row :: "obj list \<Rightarrow> obj \<Rightarrow> obj" where
  "new_row rs value =
     [(''row_index'', JInt (int (length rs) + 1)),
      (''previous_row_hash'', if rs = [] then JStr (replicate 64 CHR ''0'') else dget (last rs) ''row_hash'')] @ value"

definition append_row :: "ext \<Rightarrow> obj \<Rightarrow> (journal, unit) act" where
  "append_row X value =
     bindS (rows X) (\<lambda>rs.
     bindS (liftS (row_digest X (new_row rs value))) (\<lambda>digest.
     (let row = new_row rs value @ [(''row_hash'', JStr digest)] in
      bindS open_append (\<lambda>_.
      bindS (liftS (jcs X (JObj row))) (\<lambda>bytes.
        modS (write_row (bytes @ [CHR 0x0A]) rs row))))))"

section \<open>Recording deliveries\<close>

definition is_kind :: "string \<Rightarrow> obj \<Rightarrow> bool" where
  "is_kind kind r = str_is (dget r ''kind'') kind"

definition refers :: "int \<Rightarrow> obj \<Rightarrow> bool" where
  "refers i r = py_eq (dget r ''reference_receive_index'') (JInt i)"

definition raw_path :: "string \<Rightarrow> string" where
  "raw_path h = ''raw/'' @ h @ ''.json''"

text \<open>The observation is kept under its content hash; the rename makes its appearance atomic.\<close>

definition keep_raw :: "string \<Rightarrow> string \<Rightarrow> (journal, unit) act" where
  "keep_raw path data s = (case jn_files s path of
      Some _ \<Rightarrow> (case read_file (jn_files s) path 65536 of
          Inl e \<Rightarrow> (Inl e, s)
        | Inr stored \<Rightarrow> if stored \<noteq> data then (Inl (ValueError ''E_OFFLINE_RAW_CONFLICT''), s) else (Inr (), s))
    | None \<Rightarrow> (Inr (), s\<lparr>jn_files := (jn_files s)(path \<mapsto> plain_file data)\<rparr>))"

definition received_row :: "int \<Rightarrow> string \<Rightarrow> json \<Rightarrow> json \<Rightarrow> json \<Rightarrow> obj" where
  "received_row index batch_id h generation sequence =
     [(''kind'', JStr ''RECEIVED''), (''reference_receive_index'', JInt index), (''raw_hash'', h),
      (''batch_id'', JStr batch_id), (''generation'', generation), (''sequence'', sequence)]"

definition record_received :: "offline_env \<Rightarrow> string \<Rightarrow> string \<Rightarrow> (journal, int) act" where
  "record_received E raw_bytes batch_id =
     (let X = codec E in
      bindS (liftS (raise_if (\<not> uuid4 batch_id) (ValueError ''E_OFFLINE_SCHEMA''))) (\<lambda>_.
      bindS (rows X) (\<lambda>_.
      bindS (getS jn_context) (\<lambda>context.
      bindS (liftS (validate_synthetic_observation E raw_bytes context)) (\<lambda>raw.
      bindS (liftS (jcs X raw)) (\<lambda>data.
      bindS (liftS (str_item raw ''content_hash'')) (\<lambda>h.
      bindS (keep_raw (raw_path h) data) (\<lambda>_.
      bindS (rows X) (\<lambda>rs.
      (let index = int (length (filter (is_kind ''RECEIVED'') rs)) + 1 in
       bindS (liftS (jitem raw ''generation'')) (\<lambda>generation.
       bindS (liftS (jitem raw ''sequence'')) (\<lambda>sequence.
       bindS (append_row X (received_row index batch_id (JStr h) generation sequence)) (\<lambda>_.
         retS index)))))))))))))"

section \<open>Recording outcomes\<close>

text \<open>\<open>dict(row)\<close> of a row of \<open>ack_outbox\<close>, in column order.\<close>

definition ack_dict :: "ack \<Rightarrow> obj" where
  "ack_dict a = (case o_key a of ((run, browser, producer, stream), generation) \<Rightarrow>
     [(''ack_outbox_id'', JStr (o_id a)), (''raw_commit_id'', JStr (o_raw a)),
      (''application_id'', JStr (o_application a)), (''derived_revision_id'', JStr (o_revision a)),
      (''reducer_cursor_id'', JStr (o_reducer a)), (''run_id'', JStr run), (''browser_run_id'', JStr browser),
      (''producer_id'', JStr producer), (''stream_id'', JStr stream), (''generation'', JInt generation),
      (''highest_contiguous_sequence'', JInt (o_seq a)), (''cursor_hash'', JStr (o_cursor a)),
      (''cursor_hash_verified'', JInt 1), (''committed_at_us'', JInt (o_at a))])"

text \<open>A value bound to a comparison with a text key: containers cannot be bound, other values match no
  key of the program.\<close>

definition text_param :: "json \<Rightarrow> string option res" where
  "text_param v = (case v of JStr s \<Rightarrow> Inr (Some s) | JArr _ \<Rightarrow> Inl (DatabaseError ''type'') | JObj _ \<Rightarrow> Inl (DatabaseError ''type'')
     | _ \<Rightarrow> Inr None)"

definition store_binding :: "offline_env \<Rightarrow> run_store \<Rightarrow> json \<Rightarrow> (raw_commit option \<times> ack option) res" where
  "store_binding E s a =
     bindR (connect (store_side E) s) (\<lambda>d.
     bindR (validate_journal (codec E) (registry (store_side E)) d) (\<lambda>_.
     bindR (bindR (jget a ''raw_commit_id'') text_param) (\<lambda>raw_id.
     bindR (bindR (jget a ''ack_outbox_id'') text_param) (\<lambda>ack_id.
       Inr (fetchone (\<lambda>r. Some (r_id r) = raw_id) (raws d), fetchone (\<lambda>r. Some (o_id r) = ack_id) (acks d))))))"

abbreviation BINDING :: exn where
  "BINDING \<equiv> ValueError ''E_OFFLINE_OUTCOME_BINDING''"

text \<open>\<open>str(ack["generation"])\<close> and \<open>str(ack["highest_contiguous_sequence"])\<close> against the received row.\<close>

definition position_differs :: "json \<Rightarrow> obj \<Rightarrow> bool res" where
  "position_differs a received =
     orR (bindR (jitem a ''generation'') (\<lambda>g. Inr (\<not> str_is (dget received ''generation'') (py_str g))))
         (bindR (jitem a ''highest_contiguous_sequence'') (\<lambda>n. Inr (\<not> str_is (dget received ''sequence'') (py_str n))))"

definition applied_differs :: "json \<Rightarrow> json \<Rightarrow> obj \<Rightarrow> bool res" where
  "applied_differs raw a received =
     orR (differs (jitem raw ''content_hash'') (Inr (dget received ''raw_hash'')))
    (orR (differs (jitem raw ''generation'') (Inr (dget received ''generation'')))
    (orR (differs (jitem raw ''sequence'') (Inr (dget received ''sequence'')))
         (position_differs a received)))"

definition stored_differs :: "raw_commit option \<Rightarrow> ack option \<Rightarrow> json \<Rightarrow> obj \<Rightarrow> bool res" where
  "stored_differs raw_row actual a received = (case (raw_row, actual) of
      (Some r, Some o') \<Rightarrow>
        if \<not> str_is (dget received ''raw_hash'') (r_hash r) \<or> \<not> py_eq (JObj (ack_dict o')) a then Inr True
        else position_differs a received
    | _ \<Rightarrow> Inr True)"

definition REJECTIONS :: "string list" where
  "REJECTIONS = [''GAP'', ''CONFLICT'', ''CLOSED_GENERATION'', ''STORAGE_FAILED'']"

text \<open>The proof an outcome needs before it is written.\<close>

definition outcome_proof :: "offline_env \<Rightarrow> run_store \<Rightarrow> obj \<Rightarrow> json option \<Rightarrow> obj \<Rightarrow> unit res" where
  "outcome_proof E s outcome delivered received =
     (if str_is (dget outcome ''status'') ''APPLIED'' \<and> keys_eq outcome [''status'', ''ack'']
      then (let a = dget outcome ''ack'' in case delivered of
          Some raw \<Rightarrow> bindR (applied_differs raw a received) (\<lambda>b. raise_if b BINDING)
        | None \<Rightarrow> bindR (store_binding E s a) (\<lambda>(raw_row, actual).
            bindR (stored_differs raw_row actual a received) (\<lambda>b. raise_if b BINDING)))
      else if \<not> keys_eq outcome [''status'', ''code''] \<or> \<not> str_is (dget outcome ''status'') ''REJECTED'' then Inl BINDING
      else bindR (in_strs (dget outcome ''code'') REJECTIONS) (\<lambda>b. raise_if (\<not> b) BINDING))"

definition outcome_row :: "int \<Rightarrow> obj \<Rightarrow> obj" where
  "outcome_row index outcome =
     [(''kind'', JStr ''OUTCOME''), (''reference_receive_index'', JInt index), (''outcome'', JObj outcome)]"

text \<open>The one delivery an outcome is for, and writing its outcome once: the same outcome again is
  accepted silently, another one is a conflict.\<close>

definition received_of :: "int \<Rightarrow> obj list \<Rightarrow> obj res" where
  "received_of index rs = (case filter (\<lambda>r. is_kind ''RECEIVED'' r \<and> refers index r) rs of
      [received] \<Rightarrow> Inr received | _ \<Rightarrow> Inl BINDING)"

definition settle_outcome :: "offline_env \<Rightarrow> int \<Rightarrow> obj \<Rightarrow> json option \<Rightarrow> obj list \<Rightarrow> obj \<Rightarrow> (journal, unit) act" where
  "settle_outcome E index outcome delivered rs received =
     (case filter (\<lambda>r. is_kind ''OUTCOME'' r \<and> refers index r) rs of
        existing # _ \<Rightarrow>
          liftS (raise_if (\<not> py_eq (dget existing ''outcome'') (JObj outcome)) (ValueError ''E_OFFLINE_OUTCOME_CONFLICT''))
      | [] \<Rightarrow>
          bindS (getS jn_store) (\<lambda>store.
          bindS (liftS (outcome_proof E store outcome delivered received)) (\<lambda>_.
            append_row (codec E) (outcome_row index outcome))))"

text \<open>\<open>_record_outcome\<close>; \<open>record_outcome\<close> is the case without an applied observation.\<close>

definition record_outcome :: "offline_env \<Rightarrow> int \<Rightarrow> obj \<Rightarrow> json option \<Rightarrow> (journal, unit) act" where
  "record_outcome E index outcome delivered =
     bindS (rows (codec E)) (\<lambda>rs.
     bindS (liftS (received_of index rs)) (\<lambda>received.
       settle_outcome E index outcome delivered rs received))"

section \<open>Applying a delivery\<close>

definition tick :: "(journal, int) act" where
  "tick s = (Inr (jn_clock s (jn_ticks s)), s\<lparr>jn_ticks := jn_ticks s + 1\<rparr>)"

definition ERRORS :: "(string \<times> string) list" where
  "ERRORS = [(''E_INGEST_GAP'', ''GAP''), (''E_INGEST_CONFLICT'', ''CONFLICT''), (''E_INGEST_GENERATION_CLOSED'', ''CLOSED_GENERATION'')]"

text \<open>What the caught exceptions become: known rejections, storage failures; the rest propagates.\<close>

definition outcome_of :: "ack res \<Rightarrow> obj res" where
  "outcome_of r = (case r of
      Inr a \<Rightarrow> Inr [(''status'', JStr ''APPLIED''), (''ack'', JObj (ack_dict a))]
    | Inl e \<Rightarrow> (case value_error_text e of
        Some t \<Rightarrow> (case map_of ERRORS t of
            None \<Rightarrow> Inl e
          | Some code \<Rightarrow> Inr [(''status'', JStr ''REJECTED''), (''code'', JStr code)])
      | None \<Rightarrow> (case e of
            IntegrityError _ \<Rightarrow> Inr [(''status'', JStr ''REJECTED''), (''code'', JStr ''STORAGE_FAILED'')]
          | DatabaseError _ \<Rightarrow> Inr [(''status'', JStr ''REJECTED''), (''code'', JStr ''STORAGE_FAILED'')]
          | OSError \<Rightarrow> Inr [(''status'', JStr ''REJECTED''), (''code'', JStr ''STORAGE_FAILED'')]
          | _ \<Rightarrow> Inl e)))"

definition ingest :: "offline_env \<Rightarrow> json \<Rightarrow> (journal, obj) act" where
  "ingest E raw =
     bindS tick (\<lambda>now s. (case ingest_apply (store_side E) now raw (jn_store s) of
       (r, store) \<Rightarrow> (outcome_of r, s\<lparr>jn_store := store\<rparr>)))"

type_synonym observer = "(string \<Rightarrow> int \<Rightarrow> unit res) option"

definition observe :: "observer \<Rightarrow> string \<Rightarrow> int \<Rightarrow> (journal, unit) act" where
  "observe ob point index = liftS (case ob of None \<Rightarrow> Inr () | Some f \<Rightarrow> f point index)"

definition apply_received :: "offline_env \<Rightarrow> observer \<Rightarrow> int \<Rightarrow> json \<Rightarrow> (journal, obj) act" where
  "apply_received E ob index raw =
     bindS (ingest E raw) (\<lambda>outcome.
     bindS (observe ob ''AFTER_APPLY'' index) (\<lambda>_.
     bindS (record_outcome E index outcome (if ob = None then Some raw else None)) (\<lambda>_.
       retS outcome)))"

definition journal_apply :: "offline_env \<Rightarrow> observer \<Rightarrow> string \<Rightarrow> string \<Rightarrow> (journal, obj) act" where
  "journal_apply E ob raw_bytes batch_id =
     bindS (record_received E raw_bytes batch_id) (\<lambda>index.
     bindS (observe ob ''AFTER_RECEIVED'' index) (\<lambda>_.
     bindS (getS jn_context) (\<lambda>context.
     bindS (liftS (validate_synthetic_observation E raw_bytes context)) (\<lambda>raw.
       apply_received E ob index raw))))"

section \<open>Confirmations\<close>

definition durable_ack :: "offline_env \<Rightarrow> run_store \<Rightarrow> string \<Rightarrow> string \<Rightarrow> string \<Rightarrow> ack option res" where
  "durable_ack E s generation sequence cursor_hash =
     bindR (connect (store_side E) s) (\<lambda>d.
     bindR (parse_int generation) (\<lambda>g. bindR (parse_int sequence) (\<lambda>n.
     bindR (sql_int g) (\<lambda>_. bindR (sql_int n) (\<lambda>_.
       Inr (fetchone (\<lambda>a. snd (o_key a) = g \<and> o_seq a = n \<and> o_cursor a = cursor_hash) (acks d)))))))"

definition confirm :: "offline_env \<Rightarrow> ack \<Rightarrow> (journal, ack_cursor) act" where
  "confirm E a = bindS tick (\<lambda>now s. (case confirm_ack (store_side E) now a (jn_store s) of
     (r, store) \<Rightarrow> (r, s\<lparr>jn_store := store\<rparr>)))"

definition confirmation_row :: "string \<Rightarrow> string \<Rightarrow> string \<Rightarrow> obj" where
  "confirmation_row generation sequence cursor_hash =
     [(''kind'', JStr ''ACK_CONFIRMATION''), (''reference_receive_index'', JNull), (''generation'', JStr generation),
      (''sequence'', JStr sequence), (''cursor_hash'', JStr cursor_hash)]"

definition record_ack_confirmation :: "offline_env \<Rightarrow> string \<Rightarrow> string \<Rightarrow> string \<Rightarrow> (journal, unit) act" where
  "record_ack_confirmation E generation sequence cursor_hash =
     bindS (getS jn_store) (\<lambda>s.
     bindS (liftS (durable_ack E s generation sequence cursor_hash)) (\<lambda>a.
     case a of
       None \<Rightarrow> failS (ValueError ''E_OFFLINE_ACK_BINDING'')
     | Some a \<Rightarrow> bindS (confirm E a) (\<lambda>_. append_row (codec E) (confirmation_row generation sequence cursor_hash))))"

section \<open>Opening a run directory\<close>

text \<open>\<open>raw_dir\<close>: the directory \<^verbatim>\<open>raw\<close> is there and is no link. Nothing has been verified yet.\<close>

definition open_journal ::
  "offline_env \<Rightarrow> bool \<Rightarrow> bool \<Rightarrow> (string \<Rightarrow> stored_file option) \<Rightarrow> run_store \<Rightarrow> (nat \<Rightarrow> int) \<Rightarrow> journal res" where
  "open_journal E link raw_dir files s clock =
     bindR (raise_if (link \<or> \<not> raw_dir) (ValueError ''E_OFFLINE_RUN_PATH'')) (\<lambda>_.
     bindR (bindR (read_file files ''context.json'' 262144) (parse_strict_json (codec E))) (\<lambda>context.
     bindR (validate_context E context) (\<lambda>_.
       Inr \<lparr>jn_linked = False, jn_files = files, jn_context = context, jn_store = s, jn_verified = [], jn_rows = [],
            jn_clock = clock, jn_ticks = 0\<rparr>)))"

end
