(* ===== verification/Journal_Recovery.thy ===== *)
theory Journal_Recovery
  imports Input_Journal
begin

text \<open>
  The rest of \<^verbatim>\<open>input_journal.py\<close>: reading the journal back (\<open>iter_operations\<close>) and finishing what a
  crash interrupted (\<open>reconcile\<close>).
\<close>

section \<open>Operations\<close>

definition operation_mismatch :: "ext \<Rightarrow> string \<Rightarrow> json \<Rightarrow> obj \<Rightarrow> bool res" where
  "operation_mismatch X data raw row =
     orR (differs (jitem raw ''content_hash'') (Inr (dget row ''raw_hash'')))
    (orR (differs (jitem raw ''generation'') (Inr (dget row ''generation'')))
    (orR (differs (jitem raw ''sequence'') (Inr (dget row ''sequence'')))
         (bindR (jcs X raw) (\<lambda>bytes. Inr (bytes \<noteq> data)))))"

definition received_operation :: "offline_env \<Rightarrow> journal \<Rightarrow> obj \<Rightarrow> obj res" where
  "received_operation E s row =
     bindR (str_item (JObj row) ''raw_hash'') (\<lambda>h.
     bindR (read_file (jn_files s) (raw_path h) 65536) (\<lambda>data.
     bindR (validate_synthetic_observation E data (jn_context s)) (\<lambda>raw.
     bindR (operation_mismatch (codec E) data raw row) (\<lambda>b.
     bindR (raise_if b (ValueError ''E_OFFLINE_RAW_BINDING'')) (\<lambda>_.
       Inr (row @ [(''raw'', raw)]))))))"

definition tail_path :: "string \<Rightarrow> string" where
  "tail_path h = ''partial-tail-'' @ h @ ''.jsonl''"

definition tail_operation :: "offline_env \<Rightarrow> journal \<Rightarrow> obj \<Rightarrow> obj res" where
  "tail_operation E s row =
     bindR (str_item (JObj row) ''artifact_sha256'') (\<lambda>h.
     bindR (raise_if (\<not> str_is (dget row ''artifact'') (tail_path h)) INTEGRITY) (\<lambda>_.
     bindR (read_file (jn_files s) (tail_path h) 16777216) (\<lambda>data.
     bindR (raise_if (sha256 (codec E) data \<noteq> h) INTEGRITY) (\<lambda>_. Inr row))))"

definition operation :: "offline_env \<Rightarrow> journal \<Rightarrow> obj \<Rightarrow> obj res" where
  "operation E s row =
     (if is_kind ''RECEIVED'' row then received_operation E s row
      else if is_kind ''PARTIAL_TAIL'' row then tail_operation E s row
      else Inr row)"

definition iter_operations :: "offline_env \<Rightarrow> (journal, obj list) act" where
  "iter_operations E = bindS (rows (codec E)) (\<lambda>rs s. (mapR (operation E s) rs, s))"

section \<open>A partial tail\<close>

text \<open>\<^verbatim>\<open>data[: data.rfind(b"\n") + 1]\<close>.\<close>

definition whole_lines :: "string \<Rightarrow> string" where
  "whole_lines data = rev (dropWhile (\<lambda>c. c \<noteq> CHR 0x0A) (rev data))"

definition tail_row :: "string \<Rightarrow> obj" where
  "tail_row digest = [(''kind'', JStr ''PARTIAL_TAIL''), (''reference_receive_index'', JNull),
     (''artifact'', JStr (tail_path digest)), (''artifact_sha256'', JStr digest)]"

text \<open>The torn file is kept under the name of its digest; the journal goes on after its last whole line.\<close>

definition retain_tail :: "string \<Rightarrow> string \<Rightarrow> journal \<Rightarrow> journal" where
  "retain_tail digest data s = s\<lparr>jn_files :=
     (jn_files s)(tail_path digest := jn_files s RECEIVE, RECEIVE \<mapsto> plain_file (whole_lines data))\<rparr>"

definition repair_tail :: "offline_env \<Rightarrow> (journal, unit) act" where
  "repair_tail E s =
     (if jn_files s RECEIVE = None then (Inr (), s)
      else case read_file (jn_files s) RECEIVE 16777216 of
        Inl e \<Rightarrow> (Inl e, s)
      | Inr data \<Rightarrow>
          if data = [] \<or> last data = CHR 0x0A then (Inr (), s)
          else (let digest = sha256 (codec E) data in
            if jn_files s (tail_path digest) \<noteq> None then (Inl (ValueError ''E_OFFLINE_PARTIAL_ALREADY_RETAINED''), s)
            else append_row (codec E) (tail_row digest) (retain_tail digest data s)))"

section \<open>Reconciling\<close>

text \<open>What the store knows of a delivery without an outcome: the gap it caused, or the first
  acknowledgement of its content.\<close>

definition known_effect :: "offline_env \<Rightarrow> run_store \<Rightarrow> string \<Rightarrow> (gap_record option \<times> ack option) res" where
  "known_effect E s h =
     bindR (connect (store_side E) s) (\<lambda>d.
     bindR (validate_journal (codec E) (registry (store_side E)) d) (\<lambda>_.
       Inr (fetchone (\<lambda>p. p_id p = ''gap:'' @ h) (gaps d),
            fetchone (\<lambda>a. list_ex (\<lambda>r. r_id r = o_raw a \<and> r_hash r = h) (raws d)) (acks d))))"

definition gap_outcome :: "json \<Rightarrow> obj \<Rightarrow> gap_record \<Rightarrow> obj res" where
  "gap_outcome context row p =
     (case p_stream p of (run, _, _, stream) \<Rightarrow>
       bindR (orR (differs (Inr (JStr run)) (jitem context ''run_id''))
             (orR (differs (Inr (JStr stream)) (jitem context ''stream_id''))
                  (bindR (bindR (str_item (JObj row) ''sequence'') parse_int) (\<lambda>n. Inr (p_detected p \<noteq> n))))) (\<lambda>b.
       bindR (raise_if b BINDING) (\<lambda>_.
       if p_reason p = ''MISSING_SEQUENCE'' then Inr [(''status'', JStr ''REJECTED''), (''code'', JStr ''GAP'')]
       else if p_reason p = ''CONFLICTING_DUPLICATE'' then Inr [(''status'', JStr ''REJECTED''), (''code'', JStr ''CONFLICT'')]
       else Inl (KeyError (p_reason p)))))"

definition finish :: "offline_env \<Rightarrow> observer \<Rightarrow> obj \<Rightarrow> (journal, unit) act" where
  "finish E ob row =
     (let index = the_int (dget row ''reference_receive_index'') in
      bindS (getS jn_store) (\<lambda>store.
      bindS (liftS (bindR (str_item (JObj row) ''raw_hash'') (known_effect E store))) (\<lambda>(gap, a).
      case gap of
        Some p \<Rightarrow> bindS (getS jn_context) (\<lambda>context. bindS (liftS (gap_outcome context row p)) (\<lambda>outcome.
          record_outcome E index outcome None))
      | None \<Rightarrow> (case a of
          Some x \<Rightarrow> record_outcome E index [(''status'', JStr ''APPLIED''), (''ack'', JObj (ack_dict x))] None
        | None \<Rightarrow> bindS (apply_received E ob index (dget row ''raw'')) (\<lambda>_. retS ())))))"

definition completed :: "obj list \<Rightarrow> obj \<Rightarrow> bool" where
  "completed operations row =
     list_ex (\<lambda>r. is_kind ''OUTCOME'' r \<and> py_eq (dget r ''reference_receive_index'') (dget row ''reference_receive_index'')) operations"

definition unfinished :: "obj list \<Rightarrow> obj list" where
  "unfinished operations = filter (\<lambda>r. is_kind ''RECEIVED'' r \<and> \<not> completed operations r) operations"

text \<open>\<open>same_path\<close>: the store given is the one of the run directory.\<close>

definition reconcile :: "offline_env \<Rightarrow> observer \<Rightarrow> bool \<Rightarrow> (journal, int) act" where
  "reconcile E ob same_path =
     bindS (liftS (raise_if (\<not> same_path) (ValueError ''E_OFFLINE_RUN_PATH''))) (\<lambda>_.
     bindS (repair_tail E) (\<lambda>_.
     bindS (iter_operations E) (\<lambda>operations.
     bindS (forS (finish E ob) (unfinished operations)) (\<lambda>_.
       retS (int (length (unfinished operations)))))))"

end
