(* ===== verification/Offline_Receiver.thy ===== *)
theory Offline_Receiver
  imports Session Journal_Recovery
begin

text \<open>
  \<^verbatim>\<open>src/moj_discovery/offline_receiver.py\<close>: the receiver of batches. \<open>process_batch\<close> is one
  uninterrupted computation on the journal; the connection coroutine is given by its reactions: to an
  upgrade request, to the first two frames, and to each further frame, in the order the sockets
  deliver them. The frame hook for fault injection (\<open>before_send\<close>) is not set.
\<close>

section \<open>A batch\<close>

definition BATCH_FIELDS :: "string list" where
  "BATCH_FIELDS = [''run_id'', ''browser_run_id'', ''producer_id'', ''stream_id'', ''generation'']"

abbreviation IDENTITY :: exn where
  "IDENTITY \<equiv> ValueError ''E_OFFLINE_IDENTITY''"

definition batch_identity :: "json \<Rightarrow> obj res" where
  "batch_identity body = mapR (\<lambda>name. bindR (jitem body name) (\<lambda>v. Inr (name, v))) (''batch_id'' # BATCH_FIELDS)"

definition check_binding :: "offline_env \<Rightarrow> run_store \<Rightarrow> json \<Rightarrow> unit res" where
  "check_binding E s body =
     bindR (connect (store_side E) s) (\<lambda>d.
     bindR (str_item body ''run_id'') (\<lambda>run. bindR (str_item body ''browser_run_id'') (\<lambda>browser.
     bindR (str_item body ''stream_id'') (\<lambda>stream.
     bindR (bindR (str_item body ''generation'') parse_int) (\<lambda>n. bindR (sql_int n) (\<lambda>_.
     bindR (jitem body ''producer_id'') (\<lambda>producer.
       (case filter (\<lambda>g. (case g_stream g of (r, b, _, t) \<Rightarrow> r = run \<and> b = browser \<and> t = stream) \<and> g_generation g = n)
           (generations d) of
          [g] \<Rightarrow> (case g_stream g of (_, _, p, _) \<Rightarrow> raise_if (\<not> str_is producer p) IDENTITY)
        | _ \<Rightarrow> Inl IDENTITY))))))))"

text \<open>The observations in order, up to the first rejection: the last acknowledgement and the rejection code.\<close>

fun apply_all :: "offline_env \<Rightarrow> observer \<Rightarrow> string \<Rightarrow> json option \<Rightarrow> string list \<Rightarrow> (journal, json option \<times> json option) act" where
  "apply_all E ob batch_id latest [] = retS (latest, None)"
| "apply_all E ob batch_id latest (payload # payloads) =
     bindS (journal_apply E ob payload batch_id) (\<lambda>outcome.
     if \<not> str_is (dget outcome ''status'') ''APPLIED'' then retS (latest, Some (dget outcome ''code''))
     else apply_all E ob batch_id (Some (dget outcome ''ack'')) payloads)"

text \<open>\<^verbatim>\<open>SELECT MAX(highest_contiguous_sequence) FROM ack_cursors WHERE owner='BACKEND'\<close>.\<close>

definition confirmed_sequence :: "db \<Rightarrow> int option" where
  "confirmed_sequence d = (case filter (\<lambda>k. k_owner k = ''BACKEND'') (ack_cursors d) of
     [] \<Rightarrow> None | ks \<Rightarrow> Some (Max (set (map k_seq ks))))"

definition stored_ack :: "offline_env \<Rightarrow> db \<Rightarrow> json \<Rightarrow> unit res" where
  "stored_ack E d a =
     bindR (validate_journal (codec E) (registry (store_side E)) d) (\<lambda>_.
     bindR (bindR (jitem a ''ack_outbox_id'') text_param) (\<lambda>id.
     (case fetchone (\<lambda>r. Some (o_id r) = id) (acks d) of
        None \<Rightarrow> Inl (ValueError ''E_OFFLINE_ACK_BINDING'')
      | Some r \<Rightarrow> raise_if (\<not> py_eq (JObj (ack_dict r)) a) (ValueError ''E_OFFLINE_ACK_BINDING''))))"

definition int_item :: "json \<Rightarrow> string \<Rightarrow> int res" where
  "int_item v k = bindR (jitem v k) (\<lambda>x. case x of JInt i \<Rightarrow> Inr i | _ \<Rightarrow> Inl TypeError)"

text \<open>Acknowledging: a sequence beyond the confirmed ones is confirmed first, any other must be the
  stored acknowledgement.\<close>

definition acknowledge :: "offline_env \<Rightarrow> json \<Rightarrow> obj \<Rightarrow> json \<Rightarrow> (journal, string \<times> obj) act" where
  "acknowledge E body identity a =
     bindS (liftS (int_item a ''highest_contiguous_sequence'')) (\<lambda>sequence.
     bindS (getS jn_store) (\<lambda>s.
     bindS (liftS (connect (store_side E) s)) (\<lambda>d.
     bindS (liftS (str_item a ''cursor_hash'')) (\<lambda>cursor_hash.
     bindS (case confirmed_sequence d of
         None \<Rightarrow> retS False
       | Some confirmed \<Rightarrow> if sequence \<le> confirmed then bindS (liftS (stored_ack E d a)) (\<lambda>_. retS True) else retS False) (\<lambda>known.
     bindS (if known then retS ()
        else bindS (liftS (str_item body ''generation'')) (\<lambda>g. record_ack_confirmation E g (str_int sequence) cursor_hash)) (\<lambda>_.
       retS (''ACK'', identity @ [(''highest_contiguous_sequence'', JStr (str_int sequence)), (''cursor_hash'', JStr cursor_hash)])))))))"

definition process_batch :: "wire_env \<Rightarrow> observer \<Rightarrow> obj \<Rightarrow> (journal, (string \<times> obj) list) act" where
  "process_batch W ob frame =
     (let E = run_side W in
      bindS (liftS (validate_frame W (JObj frame))) (\<lambda>_.
      bindS (liftS (ditem frame ''message_type'')) (\<lambda>kind.
      bindS (liftS (raise_if (\<not> str_is kind ''BATCH'') (ValueError ''E_OFFLINE_MESSAGE_TYPE''))) (\<lambda>_.
      bindS (liftS (ditem frame ''body'')) (\<lambda>body.
      bindS (getS jn_context) (\<lambda>context.
      bindS (liftS (anyR (\<lambda>name. differs (jitem body name) (jitem context name)) BATCH_FIELDS)) (\<lambda>foreign.
      bindS (liftS (raise_if foreign IDENTITY)) (\<lambda>_.
      bindS (getS jn_store) (\<lambda>s.
      bindS (liftS (check_binding E s body)) (\<lambda>_.
      bindS (liftS (bindR (list_item body ''observations'') (mapR (jcs (codec E))))) (\<lambda>payloads.
      bindS (liftS (mapR (\<lambda>p. validate_synthetic_observation E p context) payloads)) (\<lambda>_.
      bindS (liftS (batch_identity body)) (\<lambda>identity.
      bindS (liftS (str_item body ''batch_id'')) (\<lambda>batch_id.
      bindS (apply_all E ob batch_id None payloads) (\<lambda>(latest, rejection).
      bindS (case latest of None \<Rightarrow> retS [] | Some a \<Rightarrow> bindS (acknowledge E body identity a) (\<lambda>m. retS [m])) (\<lambda>responses.
        retS (responses @ (case rejection of None \<Rightarrow> [] | Some code \<Rightarrow> [(''NACK'', identity @ [(''code'', code)])]))))))))))))))))))"

section \<open>Connections\<close>

text \<open>A socket is known by a number. \<open>rv_open\<close> are the reserved sockets that are not closed.\<close>

record connection =
  cn_session :: session
  cn_key :: string

record receiver =
  rv_journal :: journal
  rv_reserved :: "nat list"
  rv_used :: "string list"
  rv_active :: "nat option"
  rv_rejections :: "string list"
  rv_ready :: "nat \<Rightarrow> connection option"

datatype verdict = Upgrade | Forbidden | Unavailable

definition http_bound :: "json \<Rightarrow> string \<Rightarrow> string list \<Rightarrow> string list \<Rightarrow> bool res" where
  "http_bound context path hosts origins =
     bindR (jitem context ''allowed_extension_origin'') (\<lambda>origin.
       Inr (path = ''/offline'' \<and> hosts = [''127.0.0.1:8765''] \<and> map JStr origins = [origin]))"

text \<open>\<open>_request\<close>; \<open>gone\<close> tells which sockets have been closed since.\<close>

definition request :: "(nat \<Rightarrow> bool) \<Rightarrow> nat \<Rightarrow> string \<Rightarrow> string list \<Rightarrow> string list \<Rightarrow> receiver \<Rightarrow> verdict res \<times> receiver" where
  "request gone c path hosts origins r =
     (let r = r\<lparr>rv_reserved := filter (\<lambda>i. \<not> gone i) (rv_reserved r)\<rparr> in
      case http_bound (jn_context (rv_journal r)) path hosts origins of
        Inl e \<Rightarrow> (Inl e, r)
      | Inr bound \<Rightarrow>
          if \<not> bound then (Inr Forbidden, r\<lparr>rv_rejections := rv_rejections r @ [''E_OFFLINE_HTTP_BINDING'']\<rparr>)
          else if 2 \<le> length (rv_reserved r) then
            (Inr Unavailable, r\<lparr>rv_rejections := rv_rejections r @ [''E_OFFLINE_SOCKET_CAPACITY'']\<rparr>)
          else (Inr Upgrade, r\<lparr>rv_reserved := List.insert c (rv_reserved r)\<rparr>))"

text \<open>The end of a connection: the \<open>finally\<close> block, after the handler of rejections if one is raised.\<close>

definition leave :: "nat \<Rightarrow> receiver \<Rightarrow> receiver" where
  "leave c r = r\<lparr>rv_reserved := removeAll c (rv_reserved r),
     rv_active := (if rv_active r = Some c then None else rv_active r), rv_ready := (rv_ready r)(c := None)\<rparr>"

definition reject :: "nat \<Rightarrow> receiver \<Rightarrow> receiver" where
  "reject c r = leave c (r\<lparr>rv_rejections := rv_rejections r @ [''E_OFFLINE_CONNECTION_REJECTED'']\<rparr>)"

text \<open>The first frame: parsed and checked; the session must be known and unused, then the frame is
  verified in a new session, whose handshake began five seconds before the deadline.\<close>

definition hello :: "wire_env \<Rightarrow> (string \<Rightarrow> string option) \<Rightarrow> json \<Rightarrow> string list \<Rightarrow> real \<Rightarrow> real \<Rightarrow> string \<Rightarrow> connection res" where
  "hello W keys context used deadline now data =
     bindR (bindR (parse_strict_json (primitives W) data) dict_value) (\<lambda>f.
     bindR (validate_frame W (JObj f)) (\<lambda>_.
     bindR (str_item (JObj f) ''session_id'') (\<lambda>sid.
     (case keys sid of
        None \<Rightarrow> Inl (ValueError ''E_OFFLINE_SESSION_REUSE'')
      | Some key \<Rightarrow>
          if sid \<in> set used then Inl (ValueError ''E_OFFLINE_SESSION_REUSE'')
          else bindR (str_item context ''run_id'') (\<lambda>run.
            bindR (new_session sid run ''BACKEND'' (deadline - 5)) (\<lambda>s.
            bindR (verify_frame W now data key s) (\<lambda>(_, s).
              Inr \<lparr>cn_session = s, cn_key = key\<rparr>)))))))"

text \<open>Messages are sent one after the other; each advances the session. What was sent before a failure
  stays sent.\<close>

fun send_all :: "wire_env \<Rightarrow> real \<Rightarrow> (string \<times> obj) list \<Rightarrow> connection \<Rightarrow> string list \<times> connection res" where
  "send_all W now [] cn = ([], Inr cn)"
| "send_all W now ((kind, body) # ms) cn =
     (case send W now kind body (cn_key cn) (cn_session cn) of
        Inl e \<Rightarrow> ([], Inl e)
      | Inr (bytes, s) \<Rightarrow> (case send_all W now ms (cn\<lparr>cn_session := s\<rparr>) of (out, r) \<Rightarrow> (bytes # out, r)))"

text \<open>The active connection is replaced by the one that has just shaken hands; the old socket is closed
  and leaves.\<close>

definition activate :: "nat \<Rightarrow> connection \<Rightarrow> receiver \<Rightarrow> receiver" where
  "activate c cn r =
     (let r = (case rv_active r of None \<Rightarrow> r | Some old \<Rightarrow> if old \<noteq> c then leave old r else r)
      in r\<lparr>rv_active := Some c, rv_ready := (rv_ready r)(c \<mapsto> cn)\<rparr>)"

text \<open>The handshake of socket \<open>c\<close>: the first frame, \<open>WELCOME\<close> with the server nonce \<open>token\<close>, the second
  frame, \<open>READY_ACK\<close>.\<close>

definition handshake_body :: "connection \<Rightarrow> string \<Rightarrow> obj" where
  "handshake_body cn token = [(''run_id'', JStr (ss_run (cn_session cn))), (''client_nonce'', ss_client (cn_session cn)),
     (''server_nonce'', JStr token)]"

definition open_connection ::
  "wire_env \<Rightarrow> (string \<Rightarrow> string option) \<Rightarrow> nat \<Rightarrow> real \<Rightarrow> real \<Rightarrow> real \<Rightarrow> string \<Rightarrow> string \<Rightarrow> string \<Rightarrow> receiver \<Rightarrow> string list \<times> receiver" where
  "open_connection W keys c deadline now later token first_data second_data r =
     (case hello W keys (jn_context (rv_journal r)) (rv_used r) deadline now first_data of
        Inl _ \<Rightarrow> ([], reject c r)
      | Inr cn \<Rightarrow>
          (let r = r\<lparr>rv_used := List.insert (ss_id (cn_session cn)) (rv_used r)\<rparr>; body = handshake_body cn token in
           case send_all W now [(''WELCOME'', body)] cn of
             (out, Inl _) \<Rightarrow> (out, reject c r)
           | (out, Inr cn) \<Rightarrow>
               (case verify_frame W later second_data (cn_key cn) (cn_session cn) of
                  Inl _ \<Rightarrow> (out, reject c r)
                | Inr (_, s) \<Rightarrow>
                    (case send_all W later [(''READY_ACK'', body)] (cn\<lparr>cn_session := s\<rparr>) of
                       (out', Inl _) \<Rightarrow> (out @ out', reject c r)
                     | (out', Inr cn) \<Rightarrow> (out @ out', activate c cn r)))))"

text \<open>One further frame on socket \<open>c\<close>, within the 600 seconds of the run.\<close>

definition answer :: "wire_env \<Rightarrow> nat \<Rightarrow> real \<Rightarrow> (string \<times> obj) list \<Rightarrow> connection \<Rightarrow> receiver \<Rightarrow> string list \<times> receiver" where
  "answer W c now messages cn r =
     (case send_all W now messages cn of
        (out, Inl _) \<Rightarrow> (out, reject c r)
      | (out, Inr cn) \<Rightarrow>
          if list_ex (\<lambda>(kind, _). kind = ''NACK'') messages then (out, leave c r)
          else (out, r\<lparr>rv_ready := (rv_ready r)(c \<mapsto> cn)\<rparr>))"

definition frame_arrives :: "wire_env \<Rightarrow> observer \<Rightarrow> nat \<Rightarrow> real \<Rightarrow> real \<Rightarrow> string \<Rightarrow> receiver \<Rightarrow> string list \<times> receiver" where
  "frame_arrives W ob c elapsed now data r =
     (case rv_ready r c of
        None \<Rightarrow> ([], r)
      | Some cn \<Rightarrow>
          if 600 \<le> elapsed then ([], reject c r)
          else (case verify_frame W now data (cn_key cn) (cn_session cn) of
              Inl _ \<Rightarrow> ([], reject c r)
            | Inr (f, s) \<Rightarrow>
                (let kind = dget f ''message_type''; cn = cn\<lparr>cn_session := s\<rparr> in
                 if str_is kind ''STOP'' then ([], leave c r)
                 else if str_is kind ''PING'' then answer W c now [(''PONG'', the_dict (dget f ''body''))] cn r
                 else if \<not> str_is kind ''BATCH'' \<or> rv_active r \<noteq> Some c then ([], reject c r)
                 else (case process_batch W ob f (rv_journal r) of
                     (Inl _, j) \<Rightarrow> ([], reject c (r\<lparr>rv_journal := j\<rparr>))
                   | (Inr responses, j) \<Rightarrow> answer W c now responses cn (r\<lparr>rv_journal := j\<rparr>)))))"

end
