(* ===== verification/Journal_Laws.thy ===== *)
theory Journal_Laws
  imports Journal_Recovery "HOL-Library.Sublist"
begin

text \<open>
  Laws of the input journal: nothing on disk is ever taken back, and what a verified file consists of.
\<close>

section \<open>Whole lines\<close>

lemma whole_lines_append: "whole_lines (a @ b) = (if CHR 0x0A \<in> set b then a @ whole_lines b else whole_lines a)"
proof -
  have "whole_lines (a @ b) = (if \<exists>x \<in> set b. \<not> x \<noteq> CHR 0x0A then a @ whole_lines b else whole_lines a)"
    by (auto simp: whole_lines_def dropWhile_append)
  then show ?thesis by auto
qed

lemma whole_lines_prefix: "prefix (whole_lines a) a"
proof (induction a rule: rev_induct)
  case (snoc c a)
  then have "prefix (whole_lines a) (a @ [c])" using prefix_prefix by blast
  moreover have "whole_lines [c] = (if c = CHR 0x0A then [c] else [])" by (simp add: whole_lines_def)
  ultimately show ?case by (auto simp: whole_lines_append)
qed (simp add: whole_lines_def)

lemma whole_lines_mono: "prefix a b \<Longrightarrow> prefix (whole_lines a) (whole_lines b)"
proof -
  assume "prefix a b"
  then obtain c where b: "b = a @ c" by (auto simp: prefix_def)
  have "prefix (whole_lines a) (a @ whole_lines c)"
    using whole_lines_prefix prefix_prefix by blast
  then show ?thesis unfolding b by (auto simp: whole_lines_append)
qed

lemma whole_lines_idem: "whole_lines (whole_lines a) = whole_lines a"
proof (induction a rule: rev_induct)
  case (snoc c a)
  then show ?case by (auto simp: whole_lines_append) (simp_all add: whole_lines_def)
qed (simp add: whole_lines_def)

lemma whole_lines_complete: "data \<noteq> [] \<Longrightarrow> last data = CHR 0x0A \<Longrightarrow> whole_lines data = data"
  by (cases data rule: rev_cases) (simp_all add: whole_lines_def)

section \<open>What every operation keeps\<close>

text \<open>The whole lines of the journal stay, so do all other files, the context and the directory.\<close>

definition keeps :: "journal \<Rightarrow> journal \<Rightarrow> bool" where
  "keeps s t \<longleftrightarrow> prefix (whole_lines (file_data s)) (whole_lines (file_data t)) \<and>
     (\<forall>p f. p \<noteq> RECEIVE \<longrightarrow> jn_files s p = Some f \<longrightarrow> jn_files t p = Some f) \<and>
     jn_context t = jn_context s \<and> jn_linked t = jn_linked s"

lemma keeps_refl: "reflp keeps"
  by (simp add: reflp_def keeps_def)

lemma keeps_trans: "transp keeps"
proof (rule transpI)
  fix s t u
  assume st: "keeps s t" and tu: "keeps t u"
  have "prefix (whole_lines (file_data s)) (whole_lines (file_data u))"
    using st tu prefix_order.trans unfolding keeps_def by blast
  with st tu show "keeps s u" unfolding keeps_def by auto
qed

lemmas keeps_intros = moves_bindS [OF keeps_trans] moves_pure [OF keeps_refl] moves_forS [OF keeps_refl keeps_trans]

lemma keeps_same_files: "jn_files t = jn_files s \<Longrightarrow> jn_context t = jn_context s \<Longrightarrow> jn_linked t = jn_linked s \<Longrightarrow> keeps s t"
  by (simp add: keeps_def file_data_def)

lemma rows_keeps: "moves keeps (rows X)"
  unfolding moves_def rows_def by (auto intro: keeps_same_files split: sum.splits)

lemma open_append_keeps: "moves keeps open_append"
  unfolding moves_def open_append_def
  by (auto simp: keeps_def file_data_def plain_file_def Let_def split: option.splits)

lemma write_row_keeps: "moves keeps (modS (write_row encoded rs row))"
  unfolding moves_modS write_row_def
  by (auto simp: keeps_def file_data_def plain_file_def intro!: whole_lines_mono split: option.splits)

lemma append_row_keeps: "moves keeps (append_row X value)"
  unfolding append_row_def Let_def
  by (intro keeps_intros rows_keeps open_append_keeps write_row_keeps)

lemma raw_path_not_receive: "raw_path h \<noteq> RECEIVE"
  by (simp add: raw_path_def RECEIVE_def)

lemma tail_path_not_receive: "tail_path h \<noteq> RECEIVE"
  by (simp add: tail_path_def RECEIVE_def)

lemma keep_raw_keeps: "moves keeps (keep_raw (raw_path h) data)"
  unfolding moves_def keep_raw_def using raw_path_not_receive [of h]
  by (auto simp: keeps_def file_data_def split: option.splits sum.splits)

lemma record_received_keeps: "moves keeps (record_received E raw_bytes batch_id)"
  unfolding record_received_def Let_def
  by (intro keeps_intros rows_keeps append_row_keeps keep_raw_keeps)

lemma settle_outcome_keeps: "moves keeps (settle_outcome E index outcome delivered rs received)"
  unfolding settle_outcome_def by (auto split: list.splits intro!: keeps_intros append_row_keeps)

lemma record_outcome_keeps: "moves keeps (record_outcome E index outcome delivered)"
  unfolding record_outcome_def by (intro keeps_intros rows_keeps settle_outcome_keeps)

lemma ingest_keeps: "moves keeps (ingest E raw)"
  unfolding moves_def ingest_def
  by (auto simp: bindS_def tick_def intro: keeps_same_files split: prod.splits)

lemma apply_received_keeps: "moves keeps (apply_received E ob index raw)"
  unfolding apply_received_def observe_def by (intro keeps_intros ingest_keeps record_outcome_keeps)

lemma journal_apply_keeps: "moves keeps (journal_apply E ob raw_bytes batch_id)"
  unfolding journal_apply_def observe_def by (intro keeps_intros record_received_keeps apply_received_keeps)

lemma confirm_keeps: "moves keeps (confirm E a)"
  unfolding moves_def confirm_def by (auto simp: bindS_def tick_def intro: keeps_same_files split: prod.splits)

lemma record_ack_confirmation_keeps: "moves keeps (record_ack_confirmation E generation sequence cursor_hash)"
  unfolding record_ack_confirmation_def
  by (intro keeps_intros) (auto intro!: keeps_intros confirm_keeps append_row_keeps split: option.splits)

lemma iter_operations_keeps: "moves keeps (iter_operations E)"
  unfolding iter_operations_def
  by (intro moves_bindS [OF keeps_trans] rows_keeps) (simp add: moves_def keeps_same_files)

lemma retain_tail_keeps:
  assumes "jn_files s (tail_path digest) = None" and "read_file (jn_files s) RECEIVE n = Inr data"
  shows "keeps s (retain_tail digest data s)"
proof -
  have "file_data s = data" using assms(2) by (auto simp: read_file_def file_data_def split: option.splits if_splits)
  with assms(1) tail_path_not_receive [of digest] show ?thesis
    by (auto simp: keeps_def retain_tail_def file_data_def plain_file_def whole_lines_idem)
qed

lemma repair_tail_keeps: "moves keeps (repair_tail E)"
  unfolding moves_def
proof
  fix s
  show "keeps s (snd (repair_tail E s))"
  proof (cases "snd (repair_tail E s) = s")
    case True
    then show ?thesis using keeps_refl by (simp add: reflpD)
  next
    case False
    then obtain data where d: "read_file (jn_files s) RECEIVE 16777216 = Inr data"
      and t: "jn_files s (tail_path (sha256 (codec E) data)) = None"
      and r: "repair_tail E s = append_row (codec E) (tail_row (sha256 (codec E) data)) (retain_tail (sha256 (codec E) data) data s)"
      by (auto simp: repair_tail_def Let_def split: sum.splits if_splits)
    have "keeps (retain_tail (sha256 (codec E) data) data s) (snd (repair_tail E s))"
      unfolding r using append_row_keeps unfolding moves_def by blast
    with retain_tail_keeps [OF t d] show ?thesis using transpD [OF keeps_trans] by blast
  qed
qed

lemma finish_keeps: "moves keeps (finish E ob row)"
proof -
  have "moves keeps (case x of (gap, a) \<Rightarrow> (case gap of
        Some p \<Rightarrow> bindS (getS jn_context) (\<lambda>context. bindS (liftS (gap_outcome context row p)) (\<lambda>outcome.
          record_outcome E index outcome None))
      | None \<Rightarrow> (case a of
          Some x \<Rightarrow> record_outcome E index [(''status'', JStr ''APPLIED''), (''ack'', JObj (ack_dict x))] None
        | None \<Rightarrow> bindS (apply_received E ob index (dget row ''raw'')) (\<lambda>_. retS ()))))" for x index
    by (cases x; cases "fst x"; cases "snd x") (auto intro!: keeps_intros record_outcome_keeps apply_received_keeps)
  then show ?thesis unfolding finish_def Let_def by (intro keeps_intros)
qed

lemma reconcile_keeps: "moves keeps (reconcile E ob same_path)"
  unfolding reconcile_def by (intro keeps_intros repair_tail_keeps iter_operations_keeps finish_keeps)

end
