(* ===== verification/Receiver_Laws.thy ===== *)
theory Receiver_Laws
  imports Offline_Receiver Journal_Laws
begin

text \<open>
  The receiver as a transition system: upgrade requests, handshakes, frames, timeouts and lost connections in
  any order, and what holds in every state it reaches.
\<close>

section \<open>Steps\<close>

inductive receiver_step :: "wire_env \<Rightarrow> (string \<Rightarrow> string option) \<Rightarrow> observer \<Rightarrow> receiver \<Rightarrow> receiver \<Rightarrow> bool"
  for W keys ob where
  upgrade: "request gone c path hosts origins r = (v, r') \<Longrightarrow> receiver_step W keys ob r r'"
| joining: "c \<in> set (rv_reserved r) \<Longrightarrow> rv_ready r c = None \<Longrightarrow>
     open_connection W keys c deadline now later token first_data second_data r = (out, r') \<Longrightarrow> receiver_step W keys ob r r'"
| arrival: "frame_arrives W ob c elapsed now data r = (out, r') \<Longrightarrow> receiver_step W keys ob r r'"
| lost: "receiver_step W keys ob r (leave c r)"
| timeout: "receiver_step W keys ob r (reject c r)"

inductive receiver_reaches :: "wire_env \<Rightarrow> (string \<Rightarrow> string option) \<Rightarrow> observer \<Rightarrow> receiver \<Rightarrow> receiver \<Rightarrow> bool"
  for W keys ob r where
  start: "receiver_reaches W keys ob r r"
| step: "receiver_reaches W keys ob r s \<Longrightarrow> receiver_step W keys ob s t \<Longrightarrow> receiver_reaches W keys ob r t"

inductive_cases receiver_stepE: "receiver_step W keys ob r r'"

definition new_receiver :: "journal \<Rightarrow> receiver" where
  "new_receiver j = \<lparr>rv_journal = j, rv_reserved = [], rv_used = [], rv_active = None, rv_rejections = [], rv_ready = (\<lambda>_. None)\<rparr>"

section \<open>What the pieces leave\<close>

lemma leave_fields [simp]:
  "rv_journal (leave c r) = rv_journal r" "rv_used (leave c r) = rv_used r"
  "rv_reserved (leave c r) = removeAll c (rv_reserved r)" "rv_ready (leave c r) = (rv_ready r)(c := None)"
  "rv_active (leave c r) = (if rv_active r = Some c then None else rv_active r)" "rv_rejections (leave c r) = rv_rejections r"
  by (simp_all add: leave_def)

lemma reject_fields [simp]:
  "rv_journal (reject c r) = rv_journal r" "rv_used (reject c r) = rv_used r"
  "rv_reserved (reject c r) = removeAll c (rv_reserved r)" "rv_ready (reject c r) = (rv_ready r)(c := None)"
  "rv_active (reject c r) = (if rv_active r = Some c then None else rv_active r)"
  by (simp_all add: reject_def)

lemma request_cases:
  assumes "request gone c path hosts origins r = (v, r')"
  shows "rv_journal r' = rv_journal r" "rv_used r' = rv_used r" "rv_ready r' = rv_ready r" "rv_active r' = rv_active r"
    "distinct (rv_reserved r) \<Longrightarrow> distinct (rv_reserved r')" "length (rv_reserved r) \<le> 2 \<Longrightarrow> length (rv_reserved r') \<le> 2"
proof -
  have l: "length (filter p xs) \<le> 2" if "length xs \<le> 2" for p and xs :: "nat list"
    using le_trans [OF length_filter_le that] .
  from assms show "rv_journal r' = rv_journal r" "rv_used r' = rv_used r" "rv_ready r' = rv_ready r" "rv_active r' = rv_active r"
    "distinct (rv_reserved r) \<Longrightarrow> distinct (rv_reserved r')" "length (rv_reserved r) \<le> 2 \<Longrightarrow> length (rv_reserved r') \<le> 2"
    by (auto simp: request_def Let_def List.insert_def l split: sum.splits if_splits)
qed

lemma send_session:
  assumes "send W now kind body key s = Inr (bytes, t)"
  shows "ss_id t = ss_id s" "ss_stage s \<le> 4" "ss_stage s < 4 \<Longrightarrow> ss_stage t = ss_stage s + 1"
    "ss_stage t \<in> {ss_stage s, ss_stage s + 1}" "kind \<noteq> ''STOP'' \<Longrightarrow> ss_stage s = 4 \<Longrightarrow> ss_stage t = 4"
proof -
  from assms have a: "accept now (outgoing_frame s kind body) False s = Inr t"
    by (auto simp: send_def Let_def)
  from accept_frame [OF a] show "ss_id t = ss_id s" "ss_stage s \<le> 4" "ss_stage s < 4 \<Longrightarrow> ss_stage t = ss_stage s + 1"
    "ss_stage t \<in> {ss_stage s, ss_stage s + 1}" by simp_all
  show "ss_stage t = 4" if "kind \<noteq> ''STOP''" "ss_stage s = 4"
  proof (rule accept_Inr [OF a])
    fix body' v u
    assume "ditem (outgoing_frame s kind body) ''message_type'' = Inr v" "t = count_frame False u"
      "(if ss_stage s < 4 then handshake now v body' False s else after_handshake v s) = Inr u"
    with that show ?thesis
      by (auto simp: outgoing_frame_def after_handshake_def count_frame_def split: if_splits)
  qed
qed

lemma send_all_session:
  assumes "send_all W now ms cn = (out, Inr cn')"
  shows "ss_id (cn_session cn') = ss_id (cn_session cn) \<and> cn_key cn' = cn_key cn \<and>
    (list_all (\<lambda>(kind, _). kind \<noteq> ''STOP'') ms \<longrightarrow> ss_stage (cn_session cn) = 4 \<longrightarrow> ss_stage (cn_session cn') = 4)"
  using assms
proof (induction ms arbitrary: cn out)
  case (Cons m ms)
  obtain kind body where m: "m = (kind, body)" by (cases m)
  from Cons.prems m obtain bytes s out' where s: "send W now kind body (cn_key cn) (cn_session cn) = Inr (bytes, s)"
    and r: "send_all W now ms (cn\<lparr>cn_session := s\<rparr>) = (out', Inr cn')"
    by (auto split: sum.splits prod.splits)
  with send_session [OF s] Cons.IH [OF r] m show ?case by simp
qed simp

lemma verify_session:
  assumes "verify_frame W now data key s = Inr (f, t)"
  shows "\<exists>b. accept now f b s = Inr t" "ss_id t = ss_id s" "ss_stage s \<le> 4" "ss_stage s < 4 \<Longrightarrow> ss_stage t = ss_stage s + 1"
    "ss_stage s = 4 \<Longrightarrow> \<not> str_is (dget f ''message_type'') ''STOP'' \<Longrightarrow> ss_stage t = 4"
proof -
  from assms have a: "accept now f True s = Inr t" by (auto simp: verify_frame_def)
  then show "\<exists>b. accept now f b s = Inr t" by blast
  from accept_frame [OF a] show "ss_id t = ss_id s" "ss_stage s \<le> 4" "ss_stage s < 4 \<Longrightarrow> ss_stage t = ss_stage s + 1" by simp_all
  show "ss_stage t = 4" if "ss_stage s = 4" "\<not> str_is (dget f ''message_type'') ''STOP''"
  proof (rule accept_Inr [OF a])
    fix body v u
    assume "ditem f ''message_type'' = Inr v" "t = count_frame True u"
      "(if ss_stage s < 4 then handshake now v body True s else after_handshake v s) = Inr u"
    moreover from this(1) have "dget f ''message_type'' = v" by (simp add: ditem_eq_Inr dget_def)
    ultimately show ?thesis using that
      by (auto simp: after_handshake_def count_frame_def split: if_splits)
  qed
qed

lemma hello_Inr:
  assumes "hello W keys context used deadline now data = Inr cn"
  shows "keys (ss_id (cn_session cn)) = Some (cn_key cn)" "ss_id (cn_session cn) \<notin> set used" "ss_stage (cn_session cn) = 1"
proof -
  from assms obtain sid key run s f t where k: "keys sid = Some key" "sid \<notin> set used"
    and n: "new_session sid run ''BACKEND'' (deadline - 5) = Inr s" and v: "verify_frame W now data key s = Inr (f, t)"
    and cn: "cn = \<lparr>cn_session = t, cn_key = key\<rparr>"
    by (auto simp: hello_def split: option.splits if_splits)
  have "ss_id s = sid" "ss_stage s = 0" using n by (auto simp: new_session_def)
  with verify_session [OF v] k cn show "keys (ss_id (cn_session cn)) = Some (cn_key cn)"
    "ss_id (cn_session cn) \<notin> set used" "ss_stage (cn_session cn) = 1" by simp_all
qed

text \<open>A handshake either fails, leaving at most a used session, or makes its socket the active one.\<close>

lemma open_cases:
  assumes "open_connection W keys c deadline now later token first_data second_data r = (out, r')"
  obtains (refused) "r' = reject c r"
    | (failed) sid where "r' = reject c (r\<lparr>rv_used := List.insert sid (rv_used r)\<rparr>)" "sid \<notin> set (rv_used r)"
    | (opened) cn where "r' = activate c cn (r\<lparr>rv_used := List.insert (ss_id (cn_session cn)) (rv_used r)\<rparr>)"
        "ss_id (cn_session cn) \<notin> set (rv_used r)" "keys (ss_id (cn_session cn)) = Some (cn_key cn)" "ready (cn_session cn)"
proof (cases "hello W keys (jn_context (rv_journal r)) (rv_used r) deadline now first_data")
  case (Inl e)
  with assms refused show thesis by (simp add: open_connection_def)
next
  case (Inr cn)
  let ?r = "r\<lparr>rv_used := List.insert (ss_id (cn_session cn)) (rv_used r)\<rparr>"
  note H = hello_Inr [OF Inr]
  from assms Inr consider (bad) "r' = reject c ?r"
    | (good) cn1 out1 f s out2 cn2 where "send_all W now [(''WELCOME'', handshake_body cn token)] cn = (out1, Inr cn1)"
      "verify_frame W later second_data (cn_key cn1) (cn_session cn1) = Inr (f, s)"
      "send_all W later [(''READY_ACK'', handshake_body cn token)] (cn1\<lparr>cn_session := s\<rparr>) = (out2, Inr cn2)"
      "r' = activate c cn2 ?r"
    by (auto simp: open_connection_def Let_def simp del: send_all.simps split: prod.splits sum.splits)
  then show thesis
  proof cases
    case bad
    then show ?thesis using H(2) by (rule failed)
  next
    case good
    have one: "\<exists>b. send W t k m (cn_key x) (cn_session x) = Inr (b, cn_session y)"
      if "send_all W t [(k, m)] x = (o', Inr y)" for t k m x y o'
      using that by (auto split: sum.splits)
    obtain b1 where s1: "send W now ''WELCOME'' (handshake_body cn token) (cn_key cn) (cn_session cn) = Inr (b1, cn_session cn1)"
      using one [OF good(1)] by blast
    obtain b2 where s2: "send W later ''READY_ACK'' (handshake_body cn token) (cn_key cn1) s = Inr (b2, cn_session cn2)"
      using one [OF good(3)] by auto
    have stages: "ss_stage (cn_session cn1) = 2" "ss_stage s = 3" "ss_stage (cn_session cn2) = 4"
      using send_session(3) [OF s1] verify_session(4) [OF good(2)] send_session(3) [OF s2] H(3) by simp_all
    have ids: "ss_id (cn_session cn2) = ss_id (cn_session cn)" "cn_key cn2 = cn_key cn"
      using send_session(1) [OF s1] verify_session(2) [OF good(2)] send_session(1) [OF s2]
        send_all_session [OF good(1)] send_all_session [OF good(3)] by simp_all
    show ?thesis
      by (rule opened [of cn2]) (use good(4) H ids stages in \<open>simp_all add: ready_def\<close>)
  qed
qed

lemma activate_fields:
  assumes "activate c cn r = r'"
  shows "rv_journal r' = rv_journal r" "rv_used r' = rv_used r" "rv_active r' = Some c" "rv_ready r' c = Some cn"
    "\<And>d dn. d \<noteq> c \<Longrightarrow> rv_ready r' d = Some dn \<Longrightarrow> rv_ready r d = Some dn"
    "\<exists>x. rv_reserved r' = rv_reserved r \<or> rv_reserved r' = removeAll x (rv_reserved r)"
  using assms by (auto simp: activate_def Let_def split: option.splits if_splits)

section \<open>Batches\<close>

lemma apply_all_keeps: "moves keeps (apply_all E ob batch_id latest payloads)"
proof (induction payloads arbitrary: latest)
  case Nil
  show ?case unfolding apply_all.simps by (rule moves_pure(1) [OF keeps_refl])
next
  case (Cons p ps)
  show ?case unfolding apply_all.simps
    by (intro moves_bindS [OF keeps_trans] journal_apply_keeps) (auto intro: Cons.IH moves_pure(1) [OF keeps_refl])
qed

lemma acknowledge_keeps: "moves keeps (acknowledge E body identity a)"
  unfolding acknowledge_def
  by (intro keeps_intros) (auto intro!: keeps_intros record_ack_confirmation_keeps split: option.splits)

lemma process_batch_keeps: "moves keeps (process_batch W ob frame)"
proof -
  have "moves keeps (case x of (latest, rejection) \<Rightarrow>
      bindS (case latest of None \<Rightarrow> retS [] | Some a \<Rightarrow> bindS (acknowledge E body identity a) (\<lambda>m. retS [m])) (\<lambda>responses.
        retS (responses @ (case rejection of None \<Rightarrow> [] | Some code \<Rightarrow> [(''NACK'', identity @ [(''code'', code)])]))))"
    for x E body identity
    by (cases x) (auto intro!: keeps_intros acknowledge_keeps split: option.splits)
  then show ?thesis
    unfolding process_batch_def Let_def by (intro keeps_intros apply_all_keeps)
qed

lemma acknowledge_kind: "acknowledge E body identity a s = (Inr m, t) \<Longrightarrow> fst m = ''ACK''"
  by (auto simp: acknowledge_def bindS_Inr)

text \<open>A batch is answered by at most one acknowledgement, then at most one rejection.\<close>

lemma process_batch_answers:
  assumes "process_batch W ob frame s = (Inr ms, t)"
  shows "map fst ms \<in> {[], [''ACK''], [''NACK''], [''ACK'', ''NACK'']}"
proof -
  from assms obtain latest rejection E body identity u responses v where
    r: "(case latest of None \<Rightarrow> retS [] | Some a \<Rightarrow> bindS (acknowledge E body identity a) (\<lambda>m. retS [m])) u = (Inr responses, v)"
    and ms: "ms = responses @ (case rejection of None \<Rightarrow> [] | Some code \<Rightarrow> [(''NACK'', identity @ [(''code'', code)])])"
    unfolding process_batch_def Let_def bindS_Inr by (auto simp: bindS_Inr split: prod.splits)
  have "map fst responses \<in> {[], [''ACK'']}"
    using r acknowledge_kind by (auto simp: bindS_Inr split: option.splits)
  with ms show ?thesis by (auto split: option.splits)
qed

section \<open>Frames\<close>

lemma answer_cases:
  assumes "answer W c now ms cn r = (out, r')" and "list_all (\<lambda>(kind, _). kind \<noteq> ''STOP'') ms" and "ready (cn_session cn)"
  obtains (gone) "r' = reject c r \<or> r' = leave c r"
    | (kept) cn' where "r' = r\<lparr>rv_ready := (rv_ready r)(c \<mapsto> cn')\<rparr>" "ss_id (cn_session cn') = ss_id (cn_session cn)"
        "cn_key cn' = cn_key cn" "ready (cn_session cn')"
proof (cases "send_all W now ms cn")
  case (Pair o' x)
  show thesis
  proof (cases x)
    case (Inl e)
    with assms(1) Pair gone show ?thesis by (simp add: answer_def)
  next
    case (Inr cn')
    with Pair have s: "send_all W now ms cn = (o', Inr cn')" by simp
    from assms(1) s have "r' = leave c r \<or> r' = r\<lparr>rv_ready := (rv_ready r)(c \<mapsto> cn')\<rparr>"
      by (auto simp: answer_def split: if_splits)
    with send_all_session [OF s] assms(2,3) gone kept show ?thesis by (auto simp: ready_def)
  qed
qed

lemma frame_cases:
  assumes "frame_arrives W ob c elapsed now data r = (out, r')" and "\<forall>cn. rv_ready r c = Some cn \<longrightarrow> ready (cn_session cn)"
  obtains (ignored) "r' = r" "rv_ready r c = None"
    | (gone) j where "r' = reject c (r\<lparr>rv_journal := j\<rparr>) \<or> r' = leave c (r\<lparr>rv_journal := j\<rparr>)" "keeps (rv_journal r) j"
        "rv_active r \<noteq> Some c \<Longrightarrow> j = rv_journal r"
    | (kept) j cn cn' where "rv_ready r c = Some cn" "r' = r\<lparr>rv_journal := j, rv_ready := (rv_ready r)(c \<mapsto> cn')\<rparr>"
        "ss_id (cn_session cn') = ss_id (cn_session cn)" "cn_key cn' = cn_key cn" "ready (cn_session cn')"
        "keeps (rv_journal r) j" "rv_active r \<noteq> Some c \<Longrightarrow> j = rv_journal r"
proof (cases "rv_ready r c")
  case None
  with assms(1) ignored show thesis by (simp add: frame_arrives_def)
next
  case (Some cn)
  have same: "r\<lparr>rv_journal := rv_journal r\<rparr> = r" "keeps (rv_journal r) (rv_journal r)"
    using keeps_refl by (simp_all add: reflpD)
  show thesis
  proof (cases "r' = reject c r \<or> r' = leave c r")
    case True
    then show ?thesis using gone [of "rv_journal r"] same by simp
  next
    case False
    with assms(1) Some obtain f s where v: "verify_frame W now data (cn_key cn) (cn_session cn) = Inr (f, s)"
      and n: "\<not> str_is (dget f ''message_type'') ''STOP''"
      and k: "(\<exists>body. answer W c now [(''PONG'', body)] (cn\<lparr>cn_session := s\<rparr>) r = (out, r')) \<or>
        rv_active r = Some c \<and> (\<exists>res j. process_batch W ob f (rv_journal r) = (res, j) \<and> (case res of
          Inl _ \<Rightarrow> r' = reject c (r\<lparr>rv_journal := j\<rparr>)
        | Inr ms \<Rightarrow> answer W c now ms (cn\<lparr>cn_session := s\<rparr>) (r\<lparr>rv_journal := j\<rparr>) = (out, r')))"
      by (auto simp: frame_arrives_def Let_def split: sum.splits prod.splits if_splits)
    have s: "ready s" "ss_id s = ss_id (cn_session cn)"
      using verify_session [OF v] n assms(2) Some by (simp_all add: ready_def)
    let ?cn = "cn\<lparr>cn_session := s\<rparr>"
    have answered: thesis
      if "answer W c now ms ?cn (r\<lparr>rv_journal := j\<rparr>) = (out, r')" "list_all (\<lambda>(kind, _). kind \<noteq> ''STOP'') ms"
        "keeps (rv_journal r) j" "rv_active r \<noteq> Some c \<Longrightarrow> j = rv_journal r" for ms j
    proof (rule answer_cases [OF that(1,2)])
      show "ready (cn_session ?cn)" using s(1) by simp
      assume "r' = reject c (r\<lparr>rv_journal := j\<rparr>) \<or> r' = leave c (r\<lparr>rv_journal := j\<rparr>)"
      then show thesis using that(3,4) by (rule gone)
    next
      fix cn'
      assume "r' = r\<lparr>rv_journal := j\<rparr>\<lparr>rv_ready := (rv_ready (r\<lparr>rv_journal := j\<rparr>))(c \<mapsto> cn')\<rparr>"
        "ss_id (cn_session cn') = ss_id (cn_session ?cn)" "cn_key cn' = cn_key ?cn" "ready (cn_session cn')"
      then show thesis using that(3,4) s(2) by (intro kept [OF Some, of cn' j]) simp_all
    qed
    from k show ?thesis
    proof (elim disjE exE conjE)
      fix body
      assume "answer W c now [(''PONG'', body)] ?cn r = (out, r')"
      then show ?thesis using answered [of "[(''PONG'', body)]" "rv_journal r"] same by simp
    next
      fix res j
      assume act: "rv_active r = Some c" and p: "process_batch W ob f (rv_journal r) = (res, j)"
        and c: "case res of Inl _ \<Rightarrow> r' = reject c (r\<lparr>rv_journal := j\<rparr>)
          | Inr ms \<Rightarrow> answer W c now ms ?cn (r\<lparr>rv_journal := j\<rparr>) = (out, r')"
      have j: "keeps (rv_journal r) j" using moves_Inr [OF process_batch_keeps p] .
      show ?thesis
      proof (cases res)
        case (Inl e)
        with c show ?thesis using gone [OF _ j] act by simp
      next
        case (Inr ms)
        with p process_batch_answers have "map fst ms \<in> {[], [''ACK''], [''NACK''], [''ACK'', ''NACK'']}" by blast
        then have "''STOP'' \<notin> set (map fst ms)" by auto
        then have "list_all (\<lambda>(kind, _). kind \<noteq> ''STOP'') ms" by (force simp: list_all_iff)
        with c Inr show ?thesis using answered [OF _ _ j] act by simp
      qed
    qed
  qed
qed

section \<open>The invariant\<close>

text \<open>Ready connections have shaken hands in a session that is marked used, under its own key; no two of
  them share a session.\<close>

definition live :: "(string \<Rightarrow> string option) \<Rightarrow> string list \<Rightarrow> connection \<Rightarrow> bool" where
  "live keys used cn \<longleftrightarrow> ready (cn_session cn) \<and> ss_id (cn_session cn) \<in> set used \<and> keys (ss_id (cn_session cn)) = Some (cn_key cn)"

definition apart :: "(nat \<Rightarrow> connection option) \<Rightarrow> bool" where
  "apart f \<longleftrightarrow> inj_on (\<lambda>c. ss_id (cn_session (the (f c)))) (dom f)"

definition receiver_sound :: "(string \<Rightarrow> string option) \<Rightarrow> receiver \<Rightarrow> bool" where
  "receiver_sound keys r \<longleftrightarrow> distinct (rv_reserved r) \<and> length (rv_reserved r) \<le> 2 \<and> distinct (rv_used r) \<and>
     (\<forall>cn \<in> ran (rv_ready r). live keys (rv_used r) cn) \<and> apart (rv_ready r) \<and>
     (\<forall>c. rv_active r = Some c \<longrightarrow> c \<in> dom (rv_ready r))"

lemma sound_new: "receiver_sound keys (new_receiver j)"
  by (simp add: receiver_sound_def new_receiver_def apart_def dom_def)

lemma distinct_removeAll_2: "distinct xs \<Longrightarrow> length xs \<le> 2 \<Longrightarrow> distinct (removeAll c xs) \<and> length (removeAll c xs) \<le> (2 :: nat)"
  by (simp add: distinct_removeAll le_trans [OF length_removeAll_less_eq])

lemma ran_upd_None: "ran (f(c := None)) \<subseteq> ran f"
  by (auto simp: ran_def split: if_splits)

lemma ran_upd_Some: "ran (f(c \<mapsto> x)) \<subseteq> insert x (ran f)"
  by (auto simp: ran_def split: if_splits)

lemma apart_remove: "apart f \<Longrightarrow> apart (f(c := None))"
  by (auto simp: apart_def inj_on_def)

lemma apart_replace:
  assumes "apart f" and "f c = Some x" and "ss_id (cn_session y) = ss_id (cn_session x)"
  shows "apart (f(c \<mapsto> y))"
proof -
  have "ss_id (cn_session (the ((f(c \<mapsto> y)) d))) = ss_id (cn_session (the (f d)))" for d
    using assms(2,3) by simp
  moreover have "dom (f(c \<mapsto> y)) = dom f" using assms(2) by auto
  ultimately show ?thesis using assms(1) by (simp add: apart_def)
qed

lemma apart_add:
  assumes "apart f" and "\<forall>x \<in> ran f. ss_id (cn_session x) \<noteq> ss_id (cn_session y)"
  shows "apart (f(c \<mapsto> y))"
proof -
  have "ss_id (cn_session (the (f d))) \<noteq> ss_id (cn_session y)" if "d \<in> dom f" for d
    using assms(2) that by (auto simp: ran_def)
  with assms(1) show ?thesis unfolding apart_def inj_on_def by (simp add: dom_def) metis
qed

lemma live_mono: "live keys used cn \<Longrightarrow> set used \<subseteq> set used' \<Longrightarrow> live keys used' cn"
  by (auto simp: live_def)

lemma sound_leave: "receiver_sound keys r \<Longrightarrow> receiver_sound keys (leave c r)"
  unfolding receiver_sound_def leave_fields
  using distinct_removeAll_2 [of "rv_reserved r" c] ran_upd_None [of "rv_ready r" c]
    apart_remove [of "rv_ready r" c] by auto

lemma sound_reject: "receiver_sound keys r \<Longrightarrow> receiver_sound keys (reject c r)"
  using sound_leave [of keys r c] unfolding receiver_sound_def reject_fields leave_fields .

lemma sound_journal: "receiver_sound keys r \<Longrightarrow> receiver_sound keys (r\<lparr>rv_journal := j\<rparr>)"
  by (simp add: receiver_sound_def)

lemma sound_used: "receiver_sound keys r \<Longrightarrow> receiver_sound keys (r\<lparr>rv_used := List.insert sid (rv_used r)\<rparr>)"
  unfolding receiver_sound_def by (auto intro: live_mono)

lemma sound_activate:
  assumes S: "receiver_sound keys r" and cn: "live keys (rv_used r) cn"
    and fresh: "\<forall>x \<in> ran (rv_ready r). ss_id (cn_session x) \<noteq> ss_id (cn_session cn)"
  shows "receiver_sound keys (activate c cn r)"
proof -
  have add: "receiver_sound keys (q\<lparr>rv_active := Some c, rv_ready := (rv_ready q)(c \<mapsto> cn)\<rparr>)"
    if "receiver_sound keys q" "rv_used q = rv_used r" "ran (rv_ready q) \<subseteq> ran (rv_ready r)" for q
    using that cn fresh apart_add [of "rv_ready q" cn c] ran_upd_Some [of "rv_ready q" c cn]
    unfolding receiver_sound_def by auto
  show ?thesis
    using add [OF S] add [OF sound_leave [OF S]] ran_upd_None [of "rv_ready r"]
    by (auto simp: activate_def Let_def split: option.splits)
qed

lemma sound_step:
  assumes "receiver_step W keys ob r r'" and S: "receiver_sound keys r"
  shows "receiver_sound keys r'"
  using assms(1)
proof (cases rule: receiver_step.cases)
  case (upgrade gone c path hosts origins v)
  from request_cases [OF upgrade] S show ?thesis unfolding receiver_sound_def by simp
next
  case (joining c deadline now later token first_data second_data out)
  from joining(3) show ?thesis
  proof (cases rule: open_cases)
    case refused
    with S show ?thesis by (simp add: sound_reject)
  next
    case (failed sid)
    then show ?thesis using sound_reject [OF sound_used [OF S, of sid]] by (simp only:)
  next
    case (opened cn)
    have "ss_id (cn_session x) \<in> set (rv_used r)" if "x \<in> ran (rv_ready r)" for x
      using that S by (simp add: receiver_sound_def live_def)
    with opened(2) have f: "\<forall>x \<in> ran (rv_ready r). ss_id (cn_session x) \<noteq> ss_id (cn_session cn)" by metis
    show ?thesis unfolding opened(1)
      by (rule sound_activate [OF sound_used [OF S]]) (use opened(3,4) f in \<open>simp_all add: live_def\<close>)
  qed
next
  case (arrival c elapsed now data out)
  have R: "\<forall>cn. rv_ready r c = Some cn \<longrightarrow> ready (cn_session cn)"
    using S by (auto simp: receiver_sound_def live_def ran_def)
  from arrival R show ?thesis
  proof (cases rule: frame_cases)
    case ignored
    with S show ?thesis by simp
  next
    case (gone j)
    with S show ?thesis using sound_reject sound_leave sound_journal by metis
  next
    case (kept j cn cn')
    have "live keys (rv_used r) cn" using S kept(1) by (auto simp: receiver_sound_def ran_def)
    with kept have "live keys (rv_used r) cn'" by (simp add: live_def)
    with S kept(1-3) show ?thesis
      using apart_replace [of "rv_ready r" c cn cn'] ran_upd_Some [of "rv_ready r" c cn']
      unfolding receiver_sound_def by auto
  qed
next
  case (lost c)
  with S show ?thesis by (simp add: sound_leave)
next
  case (timeout c)
  with S show ?thesis by (simp add: sound_reject)
qed

lemma sound_reaches: "receiver_reaches W keys ob r s \<Longrightarrow> receiver_sound keys r \<Longrightarrow> receiver_sound keys s"
  by (induction rule: receiver_reaches.induct) (auto intro: sound_step)

section \<open>What a step does to the journal\<close>

lemma step_journal:
  assumes "receiver_step W keys ob r r'" and "receiver_sound keys r"
  shows "keeps (rv_journal r) (rv_journal r')" "rv_active r = None \<Longrightarrow> rv_journal r' = rv_journal r"
    "set (rv_used r) \<subseteq> set (rv_used r')"
proof -
  have "keeps (rv_journal r) (rv_journal r') \<and> (rv_active r = None \<longrightarrow> rv_journal r' = rv_journal r) \<and> set (rv_used r) \<subseteq> set (rv_used r')"
    using assms(1)
  proof (cases rule: receiver_step.cases)
    case (upgrade gone c path hosts origins v)
    from request_cases [OF upgrade] show ?thesis using keeps_refl by (simp add: reflpD)
  next
    case (joining c deadline now later token first_data second_data out)
    have "rv_journal r' = rv_journal r \<and> set (rv_used r) \<subseteq> set (rv_used r')"
      using joining(3)
      by (cases rule: open_cases) (use activate_fields(1,2) [OF refl] in \<open>auto simp del: List.insert_def\<close>)
    then show ?thesis using keeps_refl by (simp add: reflpD)
  next
    case (arrival c elapsed now data out)
    have R: "\<forall>cn. rv_ready r c = Some cn \<longrightarrow> ready (cn_session cn)"
      using assms(2) by (auto simp: receiver_sound_def live_def ran_def)
    from arrival R show ?thesis
      by (cases rule: frame_cases) (use keeps_refl in \<open>auto simp: reflpD\<close>)
  next
    case (lost c)
    then show ?thesis using keeps_refl by (simp add: reflpD)
  next
    case (timeout c)
    then show ?thesis using keeps_refl by (simp add: reflpD)
  qed
  then show "keeps (rv_journal r) (rv_journal r')" "rv_active r = None \<Longrightarrow> rv_journal r' = rv_journal r"
    "set (rv_used r) \<subseteq> set (rv_used r')" by blast+
qed

end
