(* ===== verification/Json_Order.thy ===== *)
theory Json_Order
  imports Canonical
begin

text \<open>
  JSON values up to the order of names. A canonical printer sorts the names of every object, so a
  value that is printed and read back is the same value only in this sense; \<open>canonical_printer\<close>
  states what the program relies on when it re-reads what it printed.
\<close>

section \<open>Values up to the order of names\<close>

fun norm :: "json \<Rightarrow> json" where
  "norm (JArr xs) = JArr (map norm xs)"
| "norm (JObj d) = JObj (sort_key fst (map (\<lambda>(k, v). (k, norm v)) d))"
| "norm v = v"

lemma norm_str [simp]: "norm v = JStr s \<longleftrightarrow> v = JStr s" "JStr s = norm v \<longleftrightarrow> v = JStr s"
  by (cases v; auto)+

lemma norm_scalar: "hashable v \<Longrightarrow> norm w = norm v \<Longrightarrow> w = v"
  by (cases v; cases w) (auto simp: hashable_def)

lemma norm_obj: "norm v = norm (JObj d) \<Longrightarrow> \<exists>e. v = JObj e"
  by (cases v) auto

lemma map_of_norm:
  assumes "dict_ok d"
  shows "map_of (sort_key fst (map (\<lambda>(k, v). (k, norm v)) d)) k = map_option norm (map_of d k)"
proof -
  let ?m = "map (\<lambda>(k, v). (k, norm v)) d"
  have k: "map fst ?m = map fst d" by (induction d) auto
  have "distinct (map fst ?m)" unfolding k using assms by (simp add: dict_ok_def dkeys_def)
  moreover have "mset (map fst (sort_key fst ?m)) = mset (map fst ?m)" by (simp only: mset_map mset_sort)
  then have "distinct (map fst (sort_key fst ?m)) \<longleftrightarrow> distinct (map fst ?m)" by (rule mset_eq_imp_distinct_iff)
  ultimately have "map_of (sort_key fst ?m) = map_of ?m"
    using map_of_inject_set [of "sort_key fst ?m" ?m] by simp
  moreover have "map_of ?m k = map_option norm (map_of d k)" by (induction d) auto
  ultimately show ?thesis by simp
qed

definition same_dict :: "obj \<Rightarrow> obj \<Rightarrow> bool" where
  "same_dict d e \<longleftrightarrow> (\<forall>k. map_option norm (map_of d k) = map_option norm (map_of e k))"

lemma norm_same_dict:
  "norm (JObj d) = norm (JObj e) \<Longrightarrow> dict_ok d \<Longrightarrow> dict_ok e \<Longrightarrow> same_dict d e"
  unfolding same_dict_def by (metis json.inject(5) map_of_norm norm.simps(2))

lemma same_dict_str: "same_dict d e \<Longrightarrow> map_of d k = Some (JStr s) \<Longrightarrow> map_of e k = Some (JStr s)"
  unfolding same_dict_def by (metis (no_types, lifting) map_option_eq_Some norm.simps(4) norm_str(2))

lemma same_dict_some: "same_dict d e \<Longrightarrow> map_of d k = Some v \<Longrightarrow> \<exists>w. map_of e k = Some w \<and> norm w = norm v"
  unfolding same_dict_def by (metis map_option_eq_Some option.simps(9))

lemma same_dict_none: "same_dict d e \<Longrightarrow> map_of d k = None \<Longrightarrow> map_of e k = None"
  unfolding same_dict_def by (metis option.map_disc_iff)

lemma norm_ddel:
  "norm (JObj (ddel k d)) = JObj (filter (\<lambda>(k', v). k' \<noteq> k) (sort_key fst (map (\<lambda>(k, v). (k, norm v)) d)))"
proof -
  have "map (\<lambda>(k, v). (k, norm v)) (ddel k d) = filter (\<lambda>(k', v). k' \<noteq> k) (map (\<lambda>(k, v). (k, norm v)) d)"
    by (induction d) auto
  then show ?thesis by (simp add: filter_sort)
qed

lemma norm_ddel_cong: "norm (JObj d) = norm (JObj e) \<Longrightarrow> norm (JObj (ddel k d)) = norm (JObj (ddel k e))"
  unfolding norm_ddel by simp

lemma norm_dict_ok: "unique_names (JObj d) \<Longrightarrow> dict_ok d"
  by (simp add: dict_ok_def)

lemma filter_key: "distinct (map fst zs) \<Longrightarrow> z \<in> set zs \<Longrightarrow> filter (\<lambda>x. fst z = fst x) zs = [z]"
proof (induction zs)
  case (Cons y zs)
  then show ?case
  proof (cases "z = y")
    case True
    with Cons.prems have "filter (\<lambda>x. fst z = fst x) zs = []" by (auto simp: filter_empty_conv image_iff)
    with True show ?thesis by simp
  next
    case False
    with Cons show ?thesis by (auto simp: image_iff)
  qed
qed simp

lemma sort_by_name:
  assumes "distinct (map fst xs)" "distinct (map fst ys)" and "map_of xs = map_of ys"
  shows "sort_key fst xs = sort_key fst ys"
proof -
  have s: "set xs = set ys" using map_of_inject_set assms by blast
  have "distinct xs" "distinct ys" using assms by (simp_all add: distinct_map)
  with s have m: "mset xs = mset ys" by (simp add: set_eq_iff_mset_eq_distinct)
  let ?t = "sort_key fst ys"
  have d: "distinct (map fst ?t)"
    using assms(2) mset_eq_imp_distinct_iff [of "map fst ?t" "map fst ys"] by (simp only: mset_map mset_sort)
  show ?thesis
  proof (rule properties_for_sort_key)
    show "mset ?t = mset xs" using m by simp
    show "filter (\<lambda>x. fst k = fst x) ?t = filter (\<lambda>x. fst k = fst x) xs" if "k \<in> set ?t" for k
      using filter_key [OF d that] filter_key [OF assms(1), of k] that s by simp
  qed simp
qed

lemma same_dict_norm:
  assumes "dict_ok d" "dict_ok e" and "same_dict d e"
  shows "norm (JObj d) = norm (JObj e)"
proof -
  let ?m = "map (\<lambda>(k, v). (k, norm v))"
  have k: "map fst (?m x) = map fst x" for x :: obj by (induction x) auto
  have m: "map_of (?m x) k = map_option norm (map_of x k)" for x :: obj and k by (induction x) auto
  have "sort_key fst (?m d) = sort_key fst (?m e)"
  proof (rule sort_by_name)
    show "distinct (map fst (?m d))" "distinct (map fst (?m e))" unfolding k using assms(1,2) by (simp_all add: dict_ok_def dkeys_def)
    show "map_of (?m d) = map_of (?m e)" using assms(3) by (simp add: fun_eq_iff m same_dict_def)
  qed
  then show ?thesis by simp
qed

lemma norm_rejoin:
  assumes "dict_ok d" "dict_ok e" and "norm (JObj (ddel k d)) = norm (JObj (ddel k e))" and "map_of d k = map_of e k"
  shows "norm (JObj d) = norm (JObj e)"
proof (rule same_dict_norm [OF assms(1,2)])
  have "dict_ok (ddel k x)" if "dict_ok x" for x
    using that by (simp add: dict_ok_def dkeys_def ddel_def distinct_map_filter)
  with norm_same_dict [OF assms(3)] assms(1,2) have "same_dict (ddel k d) (ddel k e)" by blast
  with assms(4) show "same_dict d e"
    unfolding same_dict_def by (metis fun_upd_other map_of_ddel)
qed

section \<open>A canonical printer\<close>

text \<open>RFC 8785: the text of a value that strict reading admits reads back as the value, depends on the
  value only, and has no line breaks (control characters are escaped).\<close>

definition canonical_printer :: "ext \<Rightarrow> bool" where
  "canonical_printer X \<longleftrightarrow>
     (\<forall>v text. jcs X v = Inr text \<longrightarrow> unique_names v \<longrightarrow> unicode_ok X v \<longrightarrow> (\<exists>w. parse_strict_json X text = Inr w \<and> norm w = norm v)) \<and>
     (\<forall>v w. norm v = norm w \<longrightarrow> jcs X v = jcs X w) \<and>
     (\<forall>v text. jcs X v = Inr text \<longrightarrow> text \<noteq> [] \<and> CHR 0x0A \<notin> set text \<and> CHR 0x0D \<notin> set text)"

lemma printer_reads:
  "canonical_printer X \<Longrightarrow> jcs X v = Inr s \<Longrightarrow> unique_names v \<Longrightarrow> unicode_ok X v \<Longrightarrow>
     \<exists>w. parse_strict_json X s = Inr w \<and> norm w = norm v"
  unfolding canonical_printer_def by blast

lemma printer_same: "canonical_printer X \<Longrightarrow> norm v = norm w \<Longrightarrow> jcs X v = jcs X w"
  unfolding canonical_printer_def by blast

lemma printer_line:
  "canonical_printer X \<Longrightarrow> jcs X v = Inr s \<Longrightarrow> s \<noteq> [] \<and> CHR 0x0A \<notin> set s \<and> CHR 0x0D \<notin> set s"
  unfolding canonical_printer_def by blast

end
