(* ===== verification/Journal_Scan.thy ===== *)
theory Journal_Scan
  imports Journal_Laws Json_Order
begin

text \<open>
  What a journal file that verifies consists of: an unbroken hash chain of numbered rows, deliveries
  numbered from one, and at most one outcome for each delivery, after it.
\<close>

section \<open>The chain\<close>

definition row_hash :: "obj \<Rightarrow> string" where
  "row_hash r = the_str (dget r ''row_hash'')"

definition sealed :: "ext \<Rightarrow> int \<Rightarrow> string \<Rightarrow> obj \<Rightarrow> bool" where
  "sealed X index previous r \<longleftrightarrow> dget r ''row_index'' = JInt index \<and> dget r ''previous_row_hash'' = JStr previous \<and>
     dget r ''row_hash'' = JStr (row_hash r) \<and> row_digest X (ddel ''row_hash'' r) = Inr (row_hash r)"

definition last_hash :: "obj list \<Rightarrow> string" where
  "last_hash rs = (if rs = [] then replicate 64 CHR ''0'' else row_hash (last rs))"

fun chained :: "ext \<Rightarrow> obj list \<Rightarrow> bool" where
  "chained X rs = (\<forall>i < length rs. sealed X (int i + 1) (last_hash (take i rs)) (rs ! i))"

declare chained.simps [simp del]

lemma chained_Nil: "chained X []"
  by (simp add: chained.simps)

lemma chained_snoc: "chained X (rs @ [r]) \<longleftrightarrow> chained X rs \<and> sealed X (int (length rs) + 1) (last_hash rs) r"
  by (auto simp: chained.simps less_Suc_eq nth_append)

section \<open>References\<close>

definition reference :: "obj \<Rightarrow> json" where
  "reference r = dget r ''reference_receive_index''"

definition receives :: "obj list \<Rightarrow> int list" where
  "receives rs = [1 .. int (length (filter (is_kind ''RECEIVED'') rs))]"

definition outcome_refs :: "obj list \<Rightarrow> int option list" where
  "outcome_refs rs = map (py_num \<circ> reference) (filter (is_kind ''OUTCOME'') rs)"

text \<open>The \<open>n\<close>-th delivery has number \<open>n\<close>; the outcomes refer to different deliveries before them.\<close>

definition referenced :: "obj list \<Rightarrow> obj \<Rightarrow> bool" where
  "referenced rs r \<longleftrightarrow>
     (is_kind ''RECEIVED'' r \<longrightarrow> reference r = JInt (int (length (receives rs)) + 1)) \<and>
     (is_kind ''OUTCOME'' r \<longrightarrow> (\<exists>i \<in> set (receives rs). py_num (reference r) = Some i \<and> Some i \<notin> set (outcome_refs rs))) \<and>
     (\<not> is_kind ''RECEIVED'' r \<longrightarrow> \<not> is_kind ''OUTCOME'' r \<longrightarrow> reference r = JNull)"

definition well_referenced :: "obj list \<Rightarrow> bool" where
  "well_referenced rs \<longleftrightarrow> (\<forall>i < length rs. referenced (take i rs) (rs ! i))"

lemma well_referenced_Nil: "well_referenced []"
  by (simp add: well_referenced_def)

lemma well_referenced_snoc: "well_referenced (rs @ [r]) \<longleftrightarrow> well_referenced rs \<and> referenced rs r"
  by (auto simp: well_referenced_def less_Suc_eq nth_append)

lemma receives_snoc: "receives (rs @ [r]) = receives rs @ (if is_kind ''RECEIVED'' r then [int (length (receives rs)) + 1] else [])"
proof -
  have "[1 .. int n + 1] = [1 .. int n] @ [int n + 1]" for n
    using upto_rec2 [of 1 "int n + 1"] by simp
  then show ?thesis by (auto simp: receives_def add.commute)
qed

lemma outcome_refs_snoc: "outcome_refs (rs @ [r]) = outcome_refs rs @ (if is_kind ''OUTCOME'' r then [py_num (reference r)] else [])"
  by (simp add: outcome_refs_def)

section \<open>What the scan establishes\<close>

definition scanned :: "ext \<Rightarrow> string list \<Rightarrow> scan \<Rightarrow> bool" where
  "scanned X lines st \<longleftrightarrow> map (\<lambda>r. jcs X (JObj r)) (sc_rows st) = map Inr lines \<and>
     list_all2 (\<lambda>line r. parse_strict_json X line = Inr (JObj r)) lines (sc_rows st) \<and>
     chained X (sc_rows st) \<and> sc_previous st = last_hash (sc_rows st) \<and> well_referenced (sc_rows st) \<and>
     sc_receives st = receives (sc_rows st) \<and> map Some (sc_outcomes st) = outcome_refs (sc_rows st)"

lemma scanned_empty: "scanned X [] no_rows"
  by (simp add: scanned_def no_rows_def chained_Nil well_referenced_Nil last_hash_def receives_def outcome_refs_def)

lemma check_shape_Inr:
  assumes "check_shape X index line previous row = Inr (kind, digest)"
  shows "dget row ''kind'' = JStr kind" "kind \<in> set ROW_KINDS" "keys_eq row (row_fields kind)" "jcs X (JObj row) = Inr line"
    "row_hash row = digest" "sealed X index previous row"
  using assms by (auto simp: check_shape_def Let_def in_strs_True sealed_def row_hash_def split: if_splits)

lemma kind_cases: "kind \<in> set ROW_KINDS \<Longrightarrow> kind \<in> {''RECEIVED'', ''OUTCOME''} \<or> kind \<notin> {''RECEIVED'', ''OUTCOME''}"
  by blast

lemma check_reference_Inr:
  assumes "check_reference kind row st = Inr st'" and "dget row ''kind'' = JStr kind"
    and "sc_receives st = receives rs" and "map Some (sc_outcomes st) = outcome_refs rs"
  shows "referenced rs row" "sc_receives st' = receives (rs @ [row])" "map Some (sc_outcomes st') = outcome_refs (rs @ [row])"
proof -
  have k: "is_kind x row \<longleftrightarrow> x = kind" for x using assms(2) by (auto simp: is_kind_def)
  have o: "Some i \<in> set (outcome_refs rs) \<longleftrightarrow> i \<in> set (sc_outcomes st)" for i
    unfolding assms(4) [symmetric] by auto
  consider (received) "kind = ''RECEIVED''" | (outcome) "kind = ''OUTCOME''" | (other) "kind \<noteq> ''RECEIVED''" "kind \<noteq> ''OUTCOME''"
    by blast
  then have "referenced rs row \<and> sc_receives st' = receives (rs @ [row]) \<and> map Some (sc_outcomes st') = outcome_refs (rs @ [row])"
  proof cases
    case received
    then have "reference row = JInt (int (length (sc_receives st)) + 1)"
      "st' = st\<lparr>sc_receives := sc_receives st @ [int (length (sc_receives st)) + 1]\<rparr>"
      using assms(1) by (auto simp: check_reference_def Let_def reference_def split: if_splits)
    with received assms(3,4) show ?thesis by (simp add: referenced_def k receives_snoc outcome_refs_snoc)
  next
    case outcome
    then obtain i where i: "py_num (reference row) = Some i" "i \<in> set (sc_receives st)" "i \<notin> set (sc_outcomes st)"
      "st' = st\<lparr>sc_outcomes := sc_outcomes st @ [i]\<rparr>"
      using assms(1) by (auto simp: check_reference_def Let_def reference_def in_ints_def split: if_splits option.splits)
    with outcome assms(3,4) o show ?thesis by (auto simp: referenced_def k receives_snoc outcome_refs_snoc)
  next
    case other
    then have "reference row = JNull" "st' = st"
      using assms(1) by (auto simp: check_reference_def Let_def reference_def split: if_splits)
    with other assms(3,4) show ?thesis by (simp add: referenced_def k receives_snoc outcome_refs_snoc)
  qed
  then show "referenced rs row" "sc_receives st' = receives (rs @ [row])" "map Some (sc_outcomes st') = outcome_refs (rs @ [row])"
    by blast+
qed

lemma scan_line_scanned:
  assumes "scan_line X st line = Inr st'" and S: "scanned X lines st"
  shows "scanned X (lines @ [line]) st'"
proof -
  from assms(1) obtain row kind digest u where p: "parse_strict_json X line = Inr (JObj row)"
    and c: "check_shape X (int (length (sc_rows st)) + 1) line (sc_previous st) row = Inr (kind, digest)"
    and r: "check_reference kind row st = Inr u" and st': "st' = u\<lparr>sc_rows := sc_rows st @ [row], sc_previous := digest\<rparr>"
    by (auto simp: scan_line_def split: json.splits prod.splits)
  note shape = check_shape_Inr [OF c]
  note refs = check_reference_Inr [OF r shape(1), of "sc_rows st"]
  show ?thesis
    using S p shape(4-6) refs st'
    by (auto simp: scanned_def chained_snoc well_referenced_snoc last_hash_def list_all2_appendI)
qed

lemma scan_fold: "foldR (scan_line X) st ls = Inr st' \<Longrightarrow> scanned X lines st \<Longrightarrow> scanned X (lines @ ls) st'"
proof (induction ls arbitrary: st lines)
  case (Cons line ls)
  from Cons.prems(1) obtain u where u: "scan_line X st line = Inr u" "foldR (scan_line X) u ls = Inr st'" by auto
  from Cons.IH [OF u(2) scan_line_scanned [OF u(1) Cons.prems(2)]] show ?case by simp
qed simp

lemma scan_rows_Inr:
  assumes "scan_rows X data = Inr rs"
  shows "map (\<lambda>r. jcs X (JObj r)) rs = map Inr (splitlines data)" "chained X rs" "well_referenced rs"
    "list_all2 (\<lambda>line r. parse_strict_json X line = Inr (JObj r)) (splitlines data) rs"
proof -
  from assms obtain st where st: "foldR (scan_line X) no_rows (splitlines data) = Inr st" "rs = sc_rows st"
    by (auto simp: scan_rows_def)
  from scan_fold [OF st(1) scanned_empty] st(2)
  show "map (\<lambda>r. jcs X (JObj r)) rs = map Inr (splitlines data)" "chained X rs" "well_referenced rs"
    "list_all2 (\<lambda>line r. parse_strict_json X line = Inr (JObj r)) (splitlines data) rs"
    by (simp_all add: scanned_def)
qed

section \<open>Tampering\<close>

text \<open>Two files with the same last row hash have the same lines, unless two of their rows collide: different texts
  that the program hashed for them have the same digest.\<close>

definition row_preimage :: "ext \<Rightarrow> obj \<Rightarrow> string res" where
  "row_preimage X r = bindR (jcs X (JObj (ddel ''row_hash'' r))) (\<lambda>bytes. Inr (JOURNAL_DOMAIN @ bytes))"

definition rows_collide :: "ext \<Rightarrow> obj \<Rightarrow> obj \<Rightarrow> bool" where
  "rows_collide X r s \<longleftrightarrow> (\<exists>m n. row_preimage X r = Inr m \<and> row_preimage X s = Inr n \<and> m \<noteq> n \<and> sha256 X m = sha256 X n)"

lemma digest_determines:
  assumes P: "canonical_printer X" and n: "\<not> rows_collide X r s"
    and r: "row_digest X (ddel ''row_hash'' r) = Inr h" "unique_names (JObj r)" "unicode_ok X (JObj r)"
    and s: "row_digest X (ddel ''row_hash'' s) = Inr h" "unique_names (JObj s)" "unicode_ok X (JObj s)"
  shows "norm (JObj (ddel ''row_hash'' r)) = norm (JObj (ddel ''row_hash'' s))"
proof -
  from r(1) s(1) obtain a b where ab: "jcs X (JObj (ddel ''row_hash'' r)) = Inr a" "jcs X (JObj (ddel ''row_hash'' s)) = Inr b"
    "sha256 X (JOURNAL_DOMAIN @ a) = sha256 X (JOURNAL_DOMAIN @ b)"
    by (auto simp: row_digest_def)
  with n have "a = b" by (auto simp: rows_collide_def row_preimage_def)
  have "unique_names (JObj (ddel k d))" "unicode_ok X (JObj (ddel k d))" if "unique_names (JObj d)" "unicode_ok X (JObj d)" for k d
    using that by (auto simp: list_all_iff ddel_def dkeys_def distinct_map_filter)
  then obtain v w where "parse_strict_json X a = Inr v" "norm v = norm (JObj (ddel ''row_hash'' r))"
    "parse_strict_json X b = Inr w" "norm w = norm (JObj (ddel ''row_hash'' s))"
    using printer_reads [OF P ab(1)] printer_reads [OF P ab(2)] r s by blast
  with \<open>a = b\<close> show ?thesis by simp
qed

definition readable :: "ext \<Rightarrow> obj \<Rightarrow> bool" where
  "readable X r \<longleftrightarrow> unique_names (JObj r) \<and> unicode_ok X (JObj r)"

lemma parsed_readable: "parse_strict_json X line = Inr (JObj r) \<Longrightarrow> readable X r"
  by (auto simp: parse_strict_json_def readable_def validate_unicode_def simp del: unique_names.simps unicode_ok.simps
      split: if_splits option.splits)

lemma sealed_norm:
  assumes "canonical_printer X" and "\<not> rows_collide X r s" and "readable X r" "readable X s"
    and "sealed X i p r" "sealed X j q s" and "row_hash r = row_hash s"
  shows "norm (JObj r) = norm (JObj s)" "i = j" "p = q"
proof -
  have rd: "unique_names (JObj r)" "unicode_ok X (JObj r)" "unique_names (JObj s)" "unicode_ok X (JObj s)"
    using assms(3,4) unfolding readable_def by blast+
  have h: "row_digest X (ddel ''row_hash'' r) = Inr (row_hash r)" "row_digest X (ddel ''row_hash'' s) = Inr (row_hash r)"
    "dget r ''row_hash'' = JStr (row_hash r)" "dget s ''row_hash'' = JStr (row_hash r)"
    using assms(5-7) by (simp_all add: sealed_def)
  have n: "norm (JObj (ddel ''row_hash'' r)) = norm (JObj (ddel ''row_hash'' s))"
    by (rule digest_determines [OF assms(1,2) h(1) rd(1,2) h(2) rd(3,4)])
  have "map_of r ''row_hash'' = map_of s ''row_hash''"
    using h(3,4) by (auto simp: dget_def split: option.splits)
  then show "norm (JObj r) = norm (JObj s)" using norm_rejoin [OF _ _ n] norm_dict_ok rd(1,3) by blast
  then have sd: "same_dict r s" using norm_same_dict norm_dict_ok rd(1,3) by blast
  then have "norm (dget r k) = norm (dget s k)" for k
    unfolding same_dict_def dget_def by (metis map_option_is_None option.case_eq_if option.map_sel)
  from this [of "''row_index''"] this [of "''previous_row_hash''"] assms(5,6) show "i = j" "p = q"
    by (simp_all add: sealed_def)
qed

lemma chain_determined:
  assumes "canonical_printer X" and "\<forall>r \<in> set rs. \<forall>s \<in> set ss. \<not> rows_collide X r s"
    and "chained X rs" "chained X ss" and "list_all (readable X) rs" "list_all (readable X) ss"
    and "length rs = length ss" and "last_hash rs = last_hash ss"
  shows "map (norm \<circ> JObj) rs = map (norm \<circ> JObj) ss"
  using assms(2-8)
proof (induction rs arbitrary: ss rule: rev_induct)
  case (snoc r rs)
  then obtain ss' s where ss: "ss = ss' @ [s]" by (cases ss rule: rev_cases) auto
  with snoc.prems have l: "length rs = length ss'" "row_hash r = row_hash s" "readable X r" "readable X s"
    and c: "sealed X (int (length rs) + 1) (last_hash rs) r" "sealed X (int (length ss') + 1) (last_hash ss') s"
    by (simp_all add: chained_snoc last_hash_def)
  have "\<not> rows_collide X r s" using snoc.prems(1) ss by simp
  note e = sealed_norm [OF assms(1) this l(3,4) c l(2)]
  have "map (norm \<circ> JObj) rs = map (norm \<circ> JObj) ss'"
    using snoc.prems ss l e(3) by (intro snoc.IH) (simp_all add: chained_snoc)
  with e(1) ss show ?case by (simp del: norm.simps add: comp_def)
qed simp

lemma same_last_hash:
  assumes "canonical_printer X" and "\<forall>r \<in> set rs. \<forall>s \<in> set ss. \<not> rows_collide X r s"
    and r: "scan_rows X a = Inr rs" "rs \<noteq> []" and s: "scan_rows X b = Inr ss" "ss \<noteq> []" and h: "last_hash rs = last_hash ss"
  shows "splitlines a = splitlines b"
proof -
  note R = scan_rows_Inr [OF r(1)] and S = scan_rows_Inr [OF s(1)]
  have read: "list_all (readable X) rs" "list_all (readable X) ss"
    using R(4) S(4) by (auto simp: list_all2_conv_all_nth list_all_length intro: parsed_readable)
  obtain rs' r where rs: "rs = rs' @ [r]" using r(2) by (cases rs rule: rev_cases) auto
  obtain ss' s where ss: "ss = ss' @ [s]" using s(2) by (cases ss rule: rev_cases) auto
  have "row_hash r = row_hash s" using h rs ss by (simp add: last_hash_def)
  moreover have "sealed X (int (length rs') + 1) (last_hash rs') r" "sealed X (int (length ss') + 1) (last_hash ss') s"
    using R(2) S(2) rs ss by (simp_all add: chained_snoc)
  moreover have "readable X r" "readable X s" using read rs ss by simp_all
  moreover have "\<not> rows_collide X r s" using assms(2) rs ss by simp
  ultimately have "int (length rs') + 1 = int (length ss') + 1" using sealed_norm(2) [OF assms(1)] by blast
  then have "length rs = length ss" using rs ss by simp
  from chain_determined [OF assms(1,2) R(2) S(2) read this h]
  have n: "map (norm \<circ> JObj) rs = map (norm \<circ> JObj) ss" .
  have "map (\<lambda>r. jcs X (JObj r)) rs = map (\<lambda>r. jcs X (JObj r)) ss"
  proof (rule nth_equalityI)
    show "length (map (\<lambda>r. jcs X (JObj r)) rs) = length (map (\<lambda>r. jcs X (JObj r)) ss)" using \<open>length rs = length ss\<close> by simp
    show "map (\<lambda>r. jcs X (JObj r)) rs ! i = map (\<lambda>r. jcs X (JObj r)) ss ! i" if "i < length (map (\<lambda>r. jcs X (JObj r)) rs)" for i
      using that \<open>length rs = length ss\<close> arg_cong [OF n, of "\<lambda>xs. xs ! i"] printer_same [OF assms(1)] by simp
  qed
  then have "map Inr (splitlines a) = (map Inr (splitlines b) :: string res list)" using R(1) S(1) by simp
  then show ?thesis by (simp add: inj_map_eq_map inj_on_def)
qed

end
