(* ===== verification/Journal_Reconcile.thy ===== *)
theory Journal_Reconcile
  imports Journal_Scan
begin

text \<open>
  After a reconciliation no delivery is without an outcome. The proofs follow the rows the object
  holds: \<open>clean\<close> says they are those of the bytes on disk.
\<close>

section \<open>Rows held and rows on disk\<close>

definition clean :: "journal \<Rightarrow> bool" where
  "clean s \<longleftrightarrow> file_data s = jn_verified s \<and> (jn_verified s = [] \<longrightarrow> jn_rows s = [])"

lemma read_file_data: "read_file (jn_files s) RECEIVE n = Inr data \<Longrightarrow> file_data s = data"
  by (auto simp: read_file_def file_data_def split: option.splits if_splits)

lemma scan_rows_empty: "scan_rows X [] = Inr []"
  by (simp add: scan_rows_def no_rows_def)

lemma rows_clean:
  assumes "rows X s = (Inr rs, t)" and "clean s"
  shows "t = s" "rs = jn_rows s"
  using assms read_file_data [of s] by (auto simp: rows_def clean_def file_data_def split: sum.splits if_splits)

text \<open>A journal object that has just been opened holds nothing.\<close>

definition opened :: "journal \<Rightarrow> bool" where
  "opened s \<longleftrightarrow> jn_verified s = [] \<and> jn_rows s = []"

lemma rows_opened:
  assumes "rows X s = (Inr rs, t)" and "opened s"
  shows "clean t" "rs = jn_rows t" "well_referenced (jn_rows t)"
proof -
  consider (none) "jn_files s RECEIVE = None" "t = s" "rs = []"
    | (empty) "t = s" "rs = []" "file_data s = []"
    | (scan) data where "read_file (jn_files s) RECEIVE 16777216 = Inr data" "scan_rows X data = Inr rs"
      "t = s\<lparr>jn_verified := data, jn_rows := rs\<rparr>"
    using assms read_file_data [of s] by (auto simp: rows_def opened_def split: sum.splits if_splits)
  then have "clean t \<and> rs = jn_rows t \<and> well_referenced (jn_rows t)"
  proof cases
    case scan
    have "file_data t = data" using read_file_data [OF scan(1)] scan(3) by (simp add: file_data_def)
    moreover have "rs = []" if "data = []" using scan(2) that by (simp add: scan_rows_empty)
    ultimately show ?thesis using scan(3) scan_rows_Inr(3) [OF scan(2)] by (simp add: clean_def)
  qed (use assms(2) in \<open>auto simp: clean_def opened_def file_data_def well_referenced_Nil\<close>)
  then show "clean t" "rs = jn_rows t" "well_referenced (jn_rows t)" by blast+
qed

lemma append_row_clean:
  assumes "append_row X value s = (Inr u, t)" and "clean s"
  shows "clean t" "\<exists>h. jn_rows t = jn_rows s @ [new_row (jn_rows s) value @ [(''row_hash'', JStr h)]]"
proof -
  from assms(1) obtain rs s1 digest s2 bytes where r: "rows X s = (Inr rs, s1)" and o': "open_append s1 = (Inr (), s2)"
    and t: "t = write_row (bytes @ [CHR 0x0A]) rs (new_row rs value @ [(''row_hash'', JStr digest)]) s2"
    unfolding append_row_def by (auto simp: bindS_Inr Let_def)
  have s1: "s1 = s" "rs = jn_rows s" using rows_clean [OF r assms(2)] by blast+
  have "file_data s2 = file_data s" "jn_verified s2 = jn_verified s" "jn_rows s2 = jn_rows s"
    using o' s1(1) by (auto simp: open_append_def file_data_def plain_file_def Let_def split: option.splits if_splits)
  with t s1 assms(2) show "clean t"
    by (simp add: clean_def write_row_def file_data_def plain_file_def)
  from t s1 show "\<exists>h. jn_rows t = jn_rows s @ [new_row (jn_rows s) value @ [(''row_hash'', JStr h)]]"
    by (auto simp: write_row_def)
qed

lemma rows_again:
  assumes "rows X s = (Inr rs, t)"
  shows "rows X t = (Inr rs, t)"
proof -
  have "t = s \<or> (\<exists>data. \<not> jn_linked s \<and> jn_files s RECEIVE \<noteq> None \<and> read_file (jn_files s) RECEIVE 16777216 = Inr data \<and>
      t = s\<lparr>jn_verified := data, jn_rows := rs\<rparr>)"
    using assms by (simp add: rows_def split: sum.splits if_splits)
  then show ?thesis
  proof (elim disjE exE conjE)
    assume "t = s"
    with assms show ?thesis by simp
  next
    fix data
    assume "\<not> jn_linked s" "jn_files s RECEIVE \<noteq> None" "read_file (jn_files s) RECEIVE 16777216 = Inr data"
      "t = s\<lparr>jn_verified := data, jn_rows := rs\<rparr>"
    then show ?thesis unfolding rows_def by auto
  qed
qed

lemma append_row_opened:
  assumes "append_row X value s = (Inr u, t)" and "opened s"
  shows "\<exists>rs h. clean t \<and> well_referenced rs \<and> jn_rows t = rs @ [new_row rs value @ [(''row_hash'', JStr h)]]"
proof -
  from assms(1) obtain rs s1 where r: "rows X s = (Inr rs, s1)" unfolding append_row_def by (auto simp: bindS_Inr)
  note R = rows_opened [OF r assms(2)]
  have "append_row X value s1 = append_row X value s"
    using r rows_again [OF r] by (simp add: append_row_def bindS_def)
  with assms(1) have "append_row X value s1 = (Inr u, t)" by simp
  from append_row_clean [OF this R(1)] R(2,3) show ?thesis by blast
qed

section \<open>Rows gained\<close>

text \<open>From a clean state, an operation ends clean and adds rows of one kind only.\<close>

definition gains :: "string \<Rightarrow> journal \<Rightarrow> journal \<Rightarrow> bool" where
  "gains kind s t \<longleftrightarrow> clean t \<and> (\<exists>new. jn_rows t = jn_rows s @ new \<and> list_all (is_kind kind) new)"

lemma gains_refl: "clean s \<Longrightarrow> gains kind s s"
  by (simp add: gains_def)

lemma gains_trans: "gains kind s t \<Longrightarrow> gains kind t u \<Longrightarrow> gains kind s u"
  by (auto simp: gains_def)

definition has_outcome :: "int \<Rightarrow> obj list \<Rightarrow> bool" where
  "has_outcome i rs \<longleftrightarrow> list_ex (\<lambda>r. is_kind ''OUTCOME'' r \<and> refers i r) rs"

lemma has_outcome_gains: "gains kind s t \<Longrightarrow> has_outcome i (jn_rows s) \<Longrightarrow> has_outcome i (jn_rows t)"
  by (auto simp: gains_def has_outcome_def)

lemma record_outcome_gains:
  assumes "record_outcome E i outcome delivered s = (Inr u, t)" and "clean s"
  shows "gains ''OUTCOME'' s t" "has_outcome i (jn_rows t)"
proof -
  from assms(1) obtain rs s1 received where r: "rows (codec E) s = (Inr rs, s1)"
    and k: "settle_outcome E i outcome delivered rs received s1 = (Inr u, t)"
    by (auto simp: record_outcome_def bindS_Inr)
  have s1: "s1 = s" "rs = jn_rows s" using rows_clean [OF r assms(2)] by blast+
  show "gains ''OUTCOME'' s t" "has_outcome i (jn_rows t)"
  proof (atomize (full), cases "filter (\<lambda>r. is_kind ''OUTCOME'' r \<and> refers i r) rs")
    case (Cons existing others)
    then have "existing \<in> set rs \<and> is_kind ''OUTCOME'' existing \<and> refers i existing"
      by (auto simp: filter_eq_Cons_iff)
    moreover have "t = s" using k Cons s1 by (simp add: settle_outcome_def)
    ultimately show "gains ''OUTCOME'' s t \<and> has_outcome i (jn_rows t)"
      using s1 gains_refl [OF assms(2)] by (auto simp: has_outcome_def list_ex_iff)
  next
    case Nil
    with k s1(1) have a: "append_row (codec E) (outcome_row i outcome) s = (Inr u, t)"
      by (auto simp: settle_outcome_def bindS_Inr)
    from append_row_clean [OF this assms(2)] obtain h where
      h: "clean t" "jn_rows t = jn_rows s @ [new_row (jn_rows s) (outcome_row i outcome) @ [(''row_hash'', JStr h)]]" by blast
    moreover have "is_kind ''OUTCOME'' (new_row rs' (outcome_row i outcome) @ [(''row_hash'', JStr h)])"
      "refers i (new_row rs' (outcome_row i outcome) @ [(''row_hash'', JStr h)])" for rs'
      by (simp_all add: new_row_def outcome_row_def is_kind_def refers_def)
    ultimately show "gains ''OUTCOME'' s t \<and> has_outcome i (jn_rows t)" by (simp add: gains_def has_outcome_def)
  qed
qed

lemma ingest_gains: "ingest E raw s = (r, t) \<Longrightarrow> clean s \<Longrightarrow> clean t \<and> jn_rows t = jn_rows s"
  by (auto simp: ingest_def bindS_def tick_def clean_def file_data_def split: prod.splits)

lemma apply_received_gains:
  assumes "apply_received E ob i raw s = (Inr outcome, t)" and "clean s"
  shows "gains ''OUTCOME'' s t" "has_outcome i (jn_rows t)"
proof -
  from assms(1) obtain s1 delivered u where i: "ingest E raw s = (Inr outcome, s1)"
    and r: "record_outcome E i outcome delivered s1 = (Inr u, t)"
    by (auto simp: apply_received_def observe_def bindS_Inr)
  from ingest_gains [OF i assms(2)] have s1: "clean s1" "jn_rows s1 = jn_rows s" by blast+
  from record_outcome_gains [OF r s1(1)] s1(2) show "gains ''OUTCOME'' s t" "has_outcome i (jn_rows t)"
    by (simp_all add: gains_def)
qed

lemma finish_gains:
  assumes "finish E ob row s = (Inr u, t)" and "clean s"
  shows "gains ''OUTCOME'' s t" "has_outcome (the_int (reference row)) (jn_rows t)"
proof -
  let ?i = "the_int (reference row)"
  from assms(1) consider (known) outcome where "record_outcome E ?i outcome None s = (Inr u, t)"
    | (ingested) outcome where "apply_received E ob ?i (dget row ''raw'') s = (Inr outcome, t)"
    by (auto simp: finish_def Let_def bindS_Inr reference_def split: option.splits prod.splits)
  then have "gains ''OUTCOME'' s t \<and> has_outcome ?i (jn_rows t)"
  proof cases
    case (known outcome)
    from record_outcome_gains [OF this assms(2)] show ?thesis by blast
  next
    case (ingested outcome)
    from apply_received_gains [OF this assms(2)] show ?thesis by blast
  qed
  then show "gains ''OUTCOME'' s t" "has_outcome ?i (jn_rows t)" by blast+
qed

lemma finish_all_gains:
  assumes "forS (finish E ob) ops s = (Inr u, t)" and "clean s"
  shows "gains ''OUTCOME'' s t \<and> list_all (\<lambda>row. has_outcome (the_int (reference row)) (jn_rows t)) ops"
  using assms
proof (induction ops arbitrary: s)
  case Nil
  then show ?case by (simp add: gains_refl)
next
  case (Cons row ops)
  then obtain v s1 where f: "finish E ob row s = (Inr v, s1)" and fs: "forS (finish E ob) ops s1 = (Inr u, t)"
    by (auto simp: bindS_Inr)
  note F = finish_gains [OF f Cons.prems(2)]
  have "clean s1" using F(1) by (simp add: gains_def)
  note IH = Cons.IH [OF fs this]
  then have "gains ''OUTCOME'' s1 t" by blast
  with IH F gains_trans [OF F(1)] has_outcome_gains show ?case by auto
qed

section \<open>Reconciliation\<close>

text \<open>Every delivery among the rows has an outcome among them.\<close>

definition settled :: "obj list \<Rightarrow> bool" where
  "settled rs \<longleftrightarrow> list_all (\<lambda>r. is_kind ''RECEIVED'' r \<longrightarrow> completed rs r) rs"

lemma operation_fields:
  assumes "operation E s row = Inr r" and "is_kind ''RECEIVED'' row \<Longrightarrow> reference row \<noteq> JNull"
  shows "is_kind k r \<longleftrightarrow> is_kind k row" "reference r = reference row \<or> \<not> is_kind ''RECEIVED'' row"
    "\<not> is_kind ''RECEIVED'' row \<Longrightarrow> r = row"
proof -
  have "dget (row @ [(''raw'', x)]) k = dget row k" if "k \<noteq> ''raw''" for k x
    using that by (induction row) auto
  with assms(1) show "is_kind k r \<longleftrightarrow> is_kind k row" "reference r = reference row \<or> \<not> is_kind ''RECEIVED'' row"
    "\<not> is_kind ''RECEIVED'' row \<Longrightarrow> r = row"
    by (auto simp: operation_def received_operation_def tail_operation_def is_kind_def reference_def split: if_splits)
qed

lemma mapR_nth: "mapR f xs = Inr ys \<Longrightarrow> length ys = length xs \<and> (\<forall>i < length xs. f (xs ! i) = Inr (ys ! i))"
  by (induction xs arbitrary: ys) (auto simp: nth_Cons split: nat.splits)

lemma mapR_mem: "mapR f xs = Inr ys \<Longrightarrow> (y \<in> set ys \<longleftrightarrow> (\<exists>x \<in> set xs. f x = Inr y))"
  by (induction xs arbitrary: ys) auto

lemma well_referenced_received:
  assumes "well_referenced rs" "r \<in> set rs" "is_kind ''RECEIVED'' r"
  shows "\<exists>i. reference r = JInt i"
  using assms by (auto simp: well_referenced_def referenced_def in_set_conv_nth)

lemma refers_reference: "reference row = JInt i \<Longrightarrow> refers i r \<longleftrightarrow> py_eq (reference r) (reference row)"
  by (simp add: refers_def reference_def)

lemma repair_tail_cases:
  assumes "repair_tail E s = (Inr u, t)"
  obtains "t = s" | data where "append_row (codec E) (tail_row (sha256 (codec E) data)) (retain_tail (sha256 (codec E) data) data s) = (Inr u, t)"
proof (cases "jn_files s RECEIVE = None")
  case True
  with assms that(1) show ?thesis by (simp add: repair_tail_def)
next
  case False
  show ?thesis
  proof (cases "read_file (jn_files s) RECEIVE 16777216")
    case (Inl e)
    from assms show ?thesis unfolding repair_tail_def Inl sum.case if_not_P [OF False] by simp
  next
    case (Inr data)
    show ?thesis
    proof (cases "data = [] \<or> last data = CHR 0x0A")
      case True
      have "t = s" using assms unfolding repair_tail_def Inr sum.case if_not_P [OF False] if_P [OF True] by simp
      then show ?thesis by (rule that(1))
    next
      case torn: False
      have "jn_files s (tail_path (sha256 (codec E) data)) = None"
        using assms unfolding repair_tail_def Inr sum.case if_not_P [OF False] if_not_P [OF torn] Let_def by (auto split: if_splits)
      then have "append_row (codec E) (tail_row (sha256 (codec E) data)) (retain_tail (sha256 (codec E) data) data s) = (Inr u, t)"
        using assms unfolding repair_tail_def Inr sum.case if_not_P [OF False] if_not_P [OF torn] Let_def by simp
      then show ?thesis by (rule that(2))
    qed
  qed
qed

text \<open>The state the operations are read in: the file is verified or its torn tail has been set aside.\<close>

lemma operations_start:
  assumes "repair_tail E s = (Inr u, s1)" and "iter_operations E s1 = (Inr ops, s2)" and "opened s"
  shows "clean s2" "mapR (operation E s2) (jn_rows s2) = Inr ops"
    "\<exists>rs new. jn_rows s2 = rs @ new \<and> well_referenced rs \<and> list_all (is_kind ''PARTIAL_TAIL'') new"
proof -
  from assms(2) obtain rs where r: "rows (codec E) s1 = (Inr rs, s2)" and m: "mapR (operation E s2) rs = Inr ops"
    by (auto simp: iter_operations_def bindS_Inr)
  consider (same) "s1 = s" | (torn) digest data where
    "append_row (codec E) (tail_row digest) (retain_tail digest data s) = (Inr u, s1)"
    using assms(1) by (rule repair_tail_cases) blast+
  then have "clean s2 \<and> rs = jn_rows s2 \<and>
      (\<exists>rs new. jn_rows s2 = rs @ new \<and> well_referenced rs \<and> list_all (is_kind ''PARTIAL_TAIL'') new)"
  proof cases
    case same
    note R = rows_opened [OF r [unfolded same] assms(3)]
    have "jn_rows s2 = jn_rows s2 @ [] \<and> well_referenced (jn_rows s2) \<and> list_all (is_kind ''PARTIAL_TAIL'') []"
      using R(3) by simp
    with R(1,2) show ?thesis by blast
  next
    case torn
    have "opened (retain_tail digest data s)" using assms(3) by (simp add: opened_def retain_tail_def)
    from append_row_opened [OF torn this] obtain rs' h where
      a: "clean s1" "well_referenced rs'" "jn_rows s1 = rs' @ [new_row rs' (tail_row digest) @ [(''row_hash'', JStr h)]]" by blast
    have "is_kind ''PARTIAL_TAIL'' (new_row rs' (tail_row digest) @ [(''row_hash'', JStr h)])"
      by (simp add: is_kind_def new_row_def tail_row_def)
    then have "list_all (is_kind ''PARTIAL_TAIL'') [new_row rs' (tail_row digest) @ [(''row_hash'', JStr h)]]" by simp
    with rows_clean [OF r a(1)] a show ?thesis by metis
  qed
  with m show "clean s2" "mapR (operation E s2) (jn_rows s2) = Inr ops"
    "\<exists>rs new. jn_rows s2 = rs @ new \<and> well_referenced rs \<and> list_all (is_kind ''PARTIAL_TAIL'') new"
    by auto
qed

lemma reconcile_settles:
  assumes "reconcile E ob same_path s = (Inr n, t)" and "opened s"
  shows "settled (jn_rows t)" "clean t"
proof -
  from assms(1) obtain u s1 ops s2 v where tail: "repair_tail E s = (Inr u, s1)" and it: "iter_operations E s1 = (Inr ops, s2)"
    and f: "forS (finish E ob) (unfinished ops) s2 = (Inr v, t)"
    by (auto simp: reconcile_def bindS_Inr)
  note O = operations_start [OF tail it assms(2)]
  from O(3) obtain rs new where rows: "jn_rows s2 = rs @ new" "well_referenced rs" "list_all (is_kind ''PARTIAL_TAIL'') new" by blast
  from finish_all_gains [OF f O(1)] have g: "gains ''OUTCOME'' s2 t"
    and finished: "list_all (\<lambda>row. has_outcome (the_int (reference row)) (jn_rows t)) (unfinished ops)" by blast+
  from g obtain outs where t: "jn_rows t = jn_rows s2 @ outs" "list_all (is_kind ''OUTCOME'') outs" "clean t"
    by (auto simp: gains_def)
  have ref: "\<exists>i. reference r = JInt i" if "r \<in> set (jn_rows s2)" "is_kind ''RECEIVED'' r" for r
    using that rows well_referenced_received by (auto simp: list_all_iff is_kind_def)
  have "completed (jn_rows t) r" if r: "r \<in> set (jn_rows t)" "is_kind ''RECEIVED'' r" for r
  proof -
    have mem: "r \<in> set (jn_rows s2)" using r t(1,2) by (auto simp: list_all_iff is_kind_def)
    then obtain op where op: "operation E s2 r = Inr op" "op \<in> set ops"
      using mapR_mem [OF O(2)] mapR_nth [OF O(2)] by (metis in_set_conv_nth)
    obtain i where i: "reference r = JInt i" using ref mem r(2) by blast
    note fields = operation_fields [OF op(1)]
    have opf: "is_kind ''RECEIVED'' op" "reference op = JInt i" using fields(1,2) i r(2) by auto
    show ?thesis
    proof (cases "completed ops op")
      case True
      then obtain x where x: "x \<in> set ops" "is_kind ''OUTCOME'' x" "py_eq (reference x) (reference op)"
        by (auto simp: completed_def list_ex_iff reference_def)
      then obtain y where y: "y \<in> set (jn_rows s2)" "operation E s2 y = Inr x" using mapR_mem [OF O(2)] by blast
      have "is_kind ''RECEIVED'' y \<Longrightarrow> reference y \<noteq> JNull" using ref [OF y(1)] by fastforce
      from operation_fields [OF y(2) this] x(2) have "x = y" by (auto simp: is_kind_def)
      with x y t(1) opf i show ?thesis by (auto simp: completed_def list_ex_iff reference_def)
    next
      case False
      with op(2) opf have "op \<in> set (unfinished ops)" by (simp add: unfinished_def)
      with finished opf(2) have "has_outcome i (jn_rows t)" by (auto simp: list_all_iff)
      then show ?thesis using i by (auto simp: has_outcome_def completed_def list_ex_iff refers_def reference_def)
    qed
  qed
  then show "settled (jn_rows t)" by (simp add: settled_def list_all_iff)
  show "clean t" by (rule t(3))
qed

end
