(* ===== verification/Journal_Props.thy ===== *)
theory Journal_Props
  imports Journal_Reconcile Demo_Run
begin

text \<open>
  The properties of the input journal, each instantiated on a small file.
\<close>

section \<open>Calls\<close>

datatype journal_call =
    Deliver string string
  | Confirmed string string string
  | Settle int obj
  | Read_Back
  | Reconcile bool

fun journal_step :: "offline_env \<Rightarrow> observer \<Rightarrow> journal_call \<Rightarrow> journal \<Rightarrow> journal" where
  "journal_step E ob (Deliver bytes batch) s = snd (journal_apply E ob bytes batch s)"
| "journal_step E ob (Confirmed g n h) s = snd (record_ack_confirmation E g n h s)"
| "journal_step E ob (Settle i outcome) s = snd (record_outcome E i outcome None s)"
| "journal_step E ob Read_Back s = snd (iter_operations E s)"
| "journal_step E ob (Reconcile same_path) s = snd (reconcile E ob same_path s)"

lemma journal_step_keeps: "keeps s (journal_step E ob c s)"
  using journal_apply_keeps record_ack_confirmation_keeps record_outcome_keeps iter_operations_keeps reconcile_keeps
  unfolding moves_def by (cases c) simp_all

lemma journal_steps_keep: "keeps s (fold (journal_step E ob) cs s)"
proof (induction cs arbitrary: s)
  case Nil
  then show ?case using keeps_refl by (simp add: reflpD)
next
  case (Cons c cs)
  from transpD [OF keeps_trans journal_step_keeps Cons.IH] show ?case by simp
qed

text \<open>C5: The journal only grows: whatever calls are made, with whatever results or crashes of the
  observer in between, every whole line that was in \<^verbatim>\<open>receive.jsonl\<close> is still there, at the same place,
  and every other file of the run directory is still there with the same bytes.\<close>

theorem journal_only_grows:
  "prefix (whole_lines (file_data s)) (whole_lines (file_data (fold (journal_step E ob) cs s))) \<and>
   (jn_files s)(RECEIVE := None) \<subseteq>\<^sub>m jn_files (fold (journal_step E ob) cs s)"
  using journal_steps_keep [of s E ob cs] by (auto simp: keeps_def map_le_def)

section \<open>Verified files\<close>

text \<open>A stand-in printer for the one row of a file, and a constant digest.\<close>

definition slip_hash :: string where
  "slip_hash = replicate 64 CHR ''a''"

definition slip :: obj where
  "slip = [(''row_index'', JInt 1), (''previous_row_hash'', JStr (replicate 64 CHR ''0'')), (''kind'', JStr ''PARTIAL_TAIL''),
     (''reference_receive_index'', JNull), (''artifact'', JStr ''a''), (''artifact_sha256'', JStr ''h'')]"

definition slip_row :: obj where
  "slip_row = slip @ [(''row_hash'', JStr slip_hash)]"

definition slip_codec :: ext where
  "slip_codec = \<lparr>json_loads = (\<lambda>s. if s = ''row'' then Some (JObj slip_row) else if s = ''body'' then Some (JObj slip) else None),
     nfc = (\<lambda>s. s), sha256 = (\<lambda>m. slip_hash),
     jcs = (\<lambda>v. if norm v = norm (JObj slip_row) then Inr ''row'' else if norm v = norm (JObj slip) then Inr ''body''
       else Inl TypeError)\<rparr>"

lemma slip_fields: "jcs slip_codec v = (if norm v = norm (JObj slip_row) then Inr ''row'' else if norm v = norm (JObj slip)
      then Inr ''body'' else Inl TypeError)"
  "sha256 slip_codec m = slip_hash" "nfc slip_codec s = s"
  "json_loads slip_codec s = (if s = ''row'' then Some (JObj slip_row) else if s = ''body'' then Some (JObj slip) else None)"
  by (simp_all only: slip_codec_def ext.simps)

lemma slip_unicode: "unicode_ok slip_codec v"
  by (induction v) (auto simp: slip_fields(3) list_all_iff)

lemma slip_reads: "parse_strict_json slip_codec ''row'' = Inr (JObj slip_row)" "parse_strict_json slip_codec ''body'' = Inr (JObj slip)"
  by (simp_all add: parse_strict_json_def slip_fields(4) starts_with_def UTF8_BOM_def validate_unicode_def slip_unicode
      slip_row_def slip_def del: unicode_ok.simps)

lemma slip_norm: "norm (JObj slip) \<noteq> norm (JObj slip_row)"
proof
  assume "norm (JObj slip) = norm (JObj slip_row)"
  then have "sort_key fst (map (\<lambda>(k, v). (k, norm v)) slip) = sort_key fst (map (\<lambda>(k, v). (k, norm v)) slip_row)" by simp
  from arg_cong [OF this, of length] show False by (simp add: slip_row_def)
qed

lemma slip_printer: "canonical_printer slip_codec"
  unfolding canonical_printer_def slip_fields(1) using slip_reads
  by (auto simp del: norm.simps unique_names.simps unicode_ok.simps split: if_splits)

lemma slip_scan: "scan_rows slip_codec (''row'' @ [CHR 0x0A]) = Inr [slip_row]" "scan_rows slip_codec ''row'' = Inr [slip_row]"
proof -
  have d: "ddel ''row_hash'' slip_row = slip" by (simp add: slip_row_def slip_def ddel_def)
  have "row_digest slip_codec slip = Inr slip_hash"
    using slip_norm by (simp add: row_digest_def slip_fields(1,2) del: norm.simps)
  then have "check_shape slip_codec 1 ''row'' (replicate 64 CHR ''0'') slip_row = Inr (''PARTIAL_TAIL'', slip_hash)"
    unfolding check_shape_def d slip_fields(1)
    by (simp add: slip_row_def slip_def ROW_KINDS_def row_fields_def in_strs_def keys_eq_def dkeys_def del: norm.simps)
  moreover have "check_reference ''PARTIAL_TAIL'' slip_row st = Inr st" for st
    by (simp add: check_reference_def slip_row_def slip_def)
  ultimately have "scan_line slip_codec no_rows ''row'' =
      Inr (no_rows\<lparr>sc_rows := [slip_row], sc_previous := slip_hash\<rparr>)"
    by (simp add: scan_line_def slip_reads no_rows_def)
  then show "scan_rows slip_codec (''row'' @ [CHR 0x0A]) = Inr [slip_row]" "scan_rows slip_codec ''row'' = Inr [slip_row]"
    by (simp_all add: scan_rows_def)
qed

text \<open>What a journal file that verifies holds: its lines are the canonical forms of the rows, each
  row is sealed by the hash of its content and of its predecessor, rows are numbered from one, the
  \<open>n\<close>-th delivery has number \<open>n\<close>, and outcomes refer to different deliveries that precede them.\<close>

theorem verified_rows_are_chained:
  assumes "scan_rows X data = Inr rs"
  shows "map (\<lambda>r. jcs X (JObj r)) rs = map Inr (splitlines data) \<and> chained X rs \<and> well_referenced rs"
  using scan_rows_Inr(1-3) [OF assms] by blast

theorem verified_rows_are_chained_witness: "chained slip_codec [slip_row] \<and> well_referenced [slip_row]"
  using verified_rows_are_chained [OF slip_scan(1)] by blast

text \<open>C8: The hash of the last row commits to the whole journal: two files that verify and end in the
  same row hash have the same lines, or one row of each is a collision of SHA-256: the different texts
  hashed for these two rows have the same digest. The printer is canonical.\<close>

theorem last_hash_commits_to_the_file:
  assumes "canonical_printer X" and "scan_rows X a = Inr rs" and "scan_rows X b = Inr ss"
    and "rs \<noteq> []" and "ss \<noteq> []" and "last_hash rs = last_hash ss"
  shows "splitlines a = splitlines b \<or>
    (\<exists>r \<in> set rs. \<exists>s \<in> set ss. \<exists>m n. row_preimage X r = Inr m \<and> row_preimage X s = Inr n \<and> m \<noteq> n \<and> sha256 X m = sha256 X n)"
  using same_last_hash [OF assms(1) _ assms(2,4,3,5,6)] unfolding rows_collide_def by blast

theorem last_hash_commits_to_the_file_witness: "splitlines (''row'' @ [CHR 0x0A]) = splitlines ''row''"
  using last_hash_commits_to_the_file [OF slip_printer slip_scan] by auto

section \<open>Outcomes\<close>

lemma py_eq_obj: "py_eq (JObj d) v \<Longrightarrow> \<exists>e. v = JObj e \<and> (\<forall>k x. (k, x) \<in> set d \<longrightarrow> (\<exists>y. map_of e k = Some y \<and> py_eq x y))"
  by (cases v) (auto simp: list_all_iff split: option.splits)

lemma stored_outcome:
  assumes "outcome_proof E s outcome None received = Inr ()" and "str_is (dget outcome ''status'') ''APPLIED''"
  shows "\<exists>d a r. connect (store_side E) s = Inr d \<and> validate_journal (codec E) (registry (store_side E)) d = Inr () \<and>
     a \<in> set (acks d) \<and> r \<in> set (raws d) \<and> o_raw a = r_id r \<and> py_eq (JObj (ack_dict a)) (dget outcome ''ack'') \<and>
     dget received ''raw_hash'' = JStr (r_hash r)"
proof -
  let ?a = "dget outcome ''ack''"
  have k: "keys_eq outcome [''status'', ''ack'']"
    using assms by (auto simp: outcome_proof_def split: if_splits)
  with assms obtain x where b: "store_binding E s ?a = Inr x" and c: "stored_differs (fst x) (snd x) ?a received = Inr False"
    by (auto simp: outcome_proof_def Let_def split: prod.splits)
  from c obtain r a where x: "fst x = Some r" "snd x = Some a" "str_is (dget received ''raw_hash'') (r_hash r)"
    "py_eq (JObj (ack_dict a)) ?a"
    by (cases x) (auto simp: stored_differs_def split: option.splits if_splits)
  from b obtain d raw_id ack_id where d: "connect (store_side E) s = Inr d"
    "validate_journal (codec E) (registry (store_side E)) d = Inr ()"
    "bindR (jget ?a ''raw_commit_id'') text_param = Inr raw_id"
    "x = (fetchone (\<lambda>r. Some (r_id r) = raw_id) (raws d), fetchone (\<lambda>a. Some (o_id a) = ack_id) (acks d))"
    by (auto simp: store_binding_def)
  have m: "(''raw_commit_id'', JStr (o_raw a)) \<in> set (ack_dict a)" by (auto simp: ack_dict_def case_prod_beta)
  obtain e where e: "?a = JObj e" "\<forall>k x. (k, x) \<in> set (ack_dict a) \<longrightarrow> (\<exists>y. map_of e k = Some y \<and> py_eq x y)"
    using py_eq_obj [OF x(4)] by (elim exE conjE)
  obtain y where "map_of e ''raw_commit_id'' = Some y" "py_eq (JStr (o_raw a)) y"
    using e(2) [rule_format, OF m] by (elim exE conjE)
  then have "map_of e ''raw_commit_id'' = Some (JStr (o_raw a))" by (simp add: py_eq_str_left)
  with d(3) e(1) have "raw_id = Some (o_raw a)" by (simp add: text_param_def dget_def)
  with d(4) x(1,2) have "r \<in> set (raws d) \<and> o_raw a = r_id r" "a \<in> set (acks d)"
    by (auto simp: find_Some_iff)
  with d(1,2) x(3,4) show ?thesis by auto
qed

lemma received_of_Inr: "received_of i rs = Inr r \<Longrightarrow> r \<in> set rs \<and> is_kind ''RECEIVED'' r \<and> refers i r"
  by (auto simp: received_of_def filter_eq_Cons_iff split: list.splits)

text \<open>C7: An \<open>APPLIED\<close> outcome that is recorded without the observation at hand (by a caller or after a
  crash) is backed by the store: the store passes the complete validation and holds exactly this
  acknowledgement, together with the raw commit it acknowledges, whose content hash is that of the
  delivery.\<close>

theorem recorded_application_is_in_the_store:
  assumes "record_outcome E i outcome None s = (Inr (), t)" and "clean s" and "\<not> has_outcome i (jn_rows s)"
    and "dget outcome ''status'' = JStr ''APPLIED''"
  shows "\<exists>received d a r. received \<in> set (jn_rows s) \<and> is_kind ''RECEIVED'' received \<and> refers i received \<and>
     connect (store_side E) (jn_store s) = Inr d \<and> validate_journal (codec E) (registry (store_side E)) d = Inr () \<and>
     a \<in> set (acks d) \<and> r \<in> set (raws d) \<and> o_raw a = r_id r \<and> py_eq (JObj (ack_dict a)) (dget outcome ''ack'') \<and>
     dget received ''raw_hash'' = JStr (r_hash r)"
proof -
  from assms(1) obtain rs s1 received where r: "rows (codec E) s = (Inr rs, s1)" "received_of i rs = Inr received"
    and k: "settle_outcome E i outcome None rs received s1 = (Inr (), t)"
    by (auto simp: record_outcome_def bindS_Inr)
  have s1: "s1 = s" "rs = jn_rows s" using rows_clean [OF r(1) assms(2)] by blast+
  have "filter (\<lambda>r. is_kind ''OUTCOME'' r \<and> refers i r) rs = []"
    using assms(3) s1 by (simp add: has_outcome_def list_ex_iff filter_empty_conv)
  with k s1(1) have "outcome_proof E (jn_store s) outcome None received = Inr ()"
    by (auto simp: settle_outcome_def bindS_Inr)
  from stored_outcome [OF this assms(4)] received_of_Inr [OF r(2)] s1(2) show ?thesis by blast
qed

text \<open>C6: Reconciliation after a crash leaves no delivery without an outcome: whatever file a freshly
  opened journal finds, torn or not, when \<open>reconcile\<close> returns then every delivery among the verified
  rows has an outcome, and the rows are those of the file.\<close>

theorem reconcile_finishes_every_delivery:
  assumes "reconcile E ob same_path s = (Inr n, t)" and "opened s"
  shows "settled (jn_rows t) \<and> file_data t = jn_verified t"
  using reconcile_settles [OF assms] by (simp add: clean_def)

section \<open>A run directory\<close>

definition demo_received :: obj where
  "demo_received = received_row 1 ''batch'' (JStr (demo_content ''1'' ''o1'')) (JStr ''0'') (JStr ''1'')"

definition demo_journal :: "string \<Rightarrow> string \<Rightarrow> obj list \<Rightarrow> journal" where
  "demo_journal data verified rs = \<lparr>jn_linked = False, jn_files = [RECEIVE \<mapsto> plain_file data], jn_context = demo_context,
     jn_store = demo_store1 5, jn_verified = verified, jn_rows = rs, jn_clock = int, jn_ticks = 0\<rparr>"

definition demo_outcome :: obj where
  "demo_outcome = [(''status'', JStr ''APPLIED''), (''ack'', JObj (ack_dict (demo_ack 5)))]"

lemma demo_store1_connect: "connect demo_env (demo_store1 5) = Inr (demo_db1 5)"
  using fresh_verified(2) [of "demo_db1 5"] demo_first_tx [of 5] by (simp add: demo_store1_def demo_store_def)

lemma demo_store1_valid: "validate_journal demo_primitives ''registry'' (demo_db1 5) = Inr ()"
proof -
  have "journal_ok demo_env (serve demo_env (Apply 5 (demo_observation ''1'' ''o1'')) demo_store)"
    by (rule ingest.good_serve) (simp add: journal_ok_def demo_store_contents demo_valid)
  then show ?thesis by (simp add: demo_first serve_def journal_ok_def demo_store_contents demo_env_fields)
qed

lemma demo_journal_fields: "codec demo_offline = demo_primitives" "store_side demo_offline = demo_env"
  "jcs demo_primitives v = Inr (demo_form v)" "sha256 demo_primitives = demo_hash"
  by (simp_all add: demo_offline_def demo_env_def demo_primitives_def)

lemma demo_ack_dict: "ack_dict (demo_ack 5) =
    [(''ack_outbox_id'', JStr (''ack:'' @ demo_digest ''1'')), (''raw_commit_id'', JStr (''raw:'' @ demo_digest ''1'')),
     (''application_id'', JStr (''application:'' @ demo_digest ''1'')), (''derived_revision_id'', JStr (''revision:'' @ demo_digest ''1'')),
     (''reducer_cursor_id'', JStr (''cursor:'' @ demo_digest ''1'')), (''run_id'', JStr ''run''), (''browser_run_id'', JStr ''browser''),
     (''producer_id'', JStr ''producer''), (''stream_id'', JStr ''stream''), (''generation'', JInt 0),
     (''highest_contiguous_sequence'', JInt 1), (''cursor_hash'', JStr (demo_digest ''1'')),
     (''cursor_hash_verified'', JInt 1), (''committed_at_us'', JInt 5)]"
  by (simp add: ack_dict_def demo_ack_def applied_ack_def demo_key_def)

lemma demo_outcome_proof: "outcome_proof demo_offline (demo_store1 5) demo_outcome None demo_received = Inr ()"
proof -
  have "acks (demo_db1 5) = [demo_ack 5]" "raws (demo_db1 5) = [applied_raw demo_key 1 ''o1'' (demo_content ''1'' ''o1'') H0 (demo_digest ''1'') 5]"
    by (simp_all add: demo_db1_def chain_rows_def demo_db_tables demo_ack_def)
  moreover have "o_id (demo_ack 5) = ''ack:'' @ demo_digest ''1''" by (simp add: demo_ack_def applied_ack_def)
  ultimately have "store_binding demo_offline (demo_store1 5) (JObj (ack_dict (demo_ack 5))) =
      Inr (Some (applied_raw demo_key 1 ''o1'' (demo_content ''1'' ''o1'') H0 (demo_digest ''1'') 5), Some (demo_ack 5))"
    by (simp add: store_binding_def demo_journal_fields demo_store1_connect demo_env_fields demo_store1_valid demo_ack_dict
        text_param_def applied_raw_def)
  moreover have "stored_differs (Some (applied_raw demo_key 1 ''o1'' (demo_content ''1'' ''o1'') H0 (demo_digest ''1'') 5)) (Some (demo_ack 5))
      (JObj (ack_dict (demo_ack 5))) demo_received = Inr False"
    by (simp add: stored_differs_def position_differs_def demo_ack_dict applied_raw_def demo_received_def received_row_def
        demo_ints ditem_def py_str_def cong: eval_congs)
  ultimately show ?thesis
    by (simp add: outcome_proof_def demo_outcome_def keys_eq_def dkeys_def)
qed

lemma demo_append:
  assumes "clean s" and "jn_files s RECEIVE = Some (plain_file (jn_verified s))" and "\<not> jn_linked s"
    and "length (jn_verified s) \<le> 16777216" "jn_verified s \<noteq> []"
  shows "append_row demo_primitives value s =
     (let row = new_row (jn_rows s) value @ [(''row_hash'', JStr (demo_hash (JOURNAL_DOMAIN @ demo_form (JObj (new_row (jn_rows s) value)))))] in
      (Inr (), write_row (demo_form (JObj row) @ [CHR 0x0A]) (jn_rows s) row s))"
proof -
  have "rows demo_primitives s = (Inr (jn_rows s), s)"
    using assms by (simp add: rows_def read_file_def plain_file_def)
  moreover have "open_append s = (Inr (), s)"
    using assms(2) by (simp add: open_append_def plain_file_def)
  ultimately show ?thesis
    by (simp add: append_row_def bindS_step row_digest_def demo_journal_fields Let_def)
qed

theorem recorded_application_is_in_the_store_witness:
  "\<exists>d a r. a \<in> set (acks d) \<and> r \<in> set (raws d) \<and> o_raw a = r_id r \<and> connect demo_env (demo_store1 5) = Inr d"
proof -
  let ?s = "demo_journal ''line'' ''line'' [demo_received]"
  have f: "jn_files ?s RECEIVE = Some (plain_file (jn_verified ?s))" "\<not> jn_linked ?s" "jn_verified ?s = ''line''"
    "jn_rows ?s = [demo_received]" "jn_store ?s = demo_store1 5"
    by (simp_all add: demo_journal_def)
  have c: "clean ?s" by (simp add: clean_def file_data_def f plain_file_def)
  have k: "is_kind ''RECEIVED'' demo_received" "refers 1 demo_received" "\<not> is_kind ''OUTCOME'' demo_received"
    by (simp_all add: demo_received_def received_row_def is_kind_def refers_def)
  have "rows demo_primitives ?s = (Inr [demo_received], ?s)"
    using f by (simp add: rows_def read_file_def plain_file_def)
  then have "record_outcome demo_offline 1 demo_outcome None ?s = append_row demo_primitives (outcome_row 1 demo_outcome) ?s"
    by (simp add: record_outcome_def demo_journal_fields demo_env_fields bindS_step received_of_def settle_outcome_def k f demo_outcome_proof)
  with demo_append [OF c f(1,2)] f(3) obtain t where "record_outcome demo_offline 1 demo_outcome None ?s = (Inr (), t)"
    by (simp add: Let_def)
  from recorded_application_is_in_the_store [OF this c] show ?thesis
    by (simp add: f k has_outcome_def demo_outcome_def demo_journal_fields) blast
qed

text \<open>The file ends in the middle of a row.\<close>

theorem reconcile_finishes_every_delivery_witness:
  "\<exists>t. reconcile demo_offline None True (demo_journal ''torn'' [] []) = (Inr 0, t) \<and> settled (jn_rows t) \<and> file_data t = jn_verified t"
proof -
  let ?h = "demo_hash ''torn''" and ?s = "demo_journal ''torn'' [] []"
  define s where "s = retain_tail ?h ''torn'' ?s"
  have p: "tail_path ?h \<noteq> RECEIVE" by (rule tail_path_not_receive)
  have w: "whole_lines ''torn'' = []" by (simp add: whole_lines_def)
  have files: "jn_files s RECEIVE = Some (plain_file [])" "jn_files s (tail_path ?h) = Some (plain_file ''torn'')"
    "jn_verified s = []" "jn_rows s = []" "\<not> jn_linked s"
    using p by (simp_all add: s_def retain_tail_def demo_journal_def w)
  define row where "row = new_row [] (tail_row ?h) @ [(''row_hash'', JStr (demo_hash (JOURNAL_DOMAIN @ demo_form (JObj (new_row [] (tail_row ?h))))))]"
  define t where "t = write_row (demo_form (JObj row) @ [CHR 0x0A]) [] row s"
  have "rows demo_primitives s = (Inr [], s)" using files by (simp add: rows_def read_file_def plain_file_def)
  moreover have "open_append s = (Inr (), s)" using files by (simp add: open_append_def plain_file_def)
  ultimately have "append_row demo_primitives (tail_row ?h) s = (Inr (), t)"
    by (simp add: append_row_def bindS_step row_digest_def demo_journal_fields Let_def row_def t_def)
  moreover have "jn_files ?s RECEIVE = Some (plain_file ''torn'')" "jn_files ?s (tail_path ?h) = None"
    using p by (simp_all add: demo_journal_def)
  ultimately have tail: "repair_tail demo_offline ?s = (Inr (), t)"
    by (simp add: repair_tail_def read_file_def plain_file_def demo_journal_fields demo_env_fields Let_def s_def [symmetric])
  have form: "demo_form (JObj row) = ''.''"
    by (simp add: demo_form_def row_def new_row_def tail_row_def dget_def)
  have t: "jn_files t RECEIVE = Some (plain_file (''.'' @ [CHR 0x0A]))" "jn_files t (tail_path ?h) = Some (plain_file ''torn'')"
    "jn_verified t = ''.'' @ [CHR 0x0A]" "jn_rows t = [row]" "\<not> jn_linked t"
    using files p by (simp_all add: t_def write_row_def file_data_def plain_file_def form)
  have "is_kind ''PARTIAL_TAIL'' row" "\<not> is_kind ''RECEIVED'' row" "str_item (JObj row) ''artifact_sha256'' = Inr ?h"
    "dget row ''artifact'' = JStr (tail_path ?h)"
    by (simp_all add: row_def new_row_def tail_row_def is_kind_def str_item_def ditem_def)
  then have "operation demo_offline t row = Inr row"
    using t(2) by (simp add: operation_def tail_operation_def read_file_def plain_file_def demo_journal_fields demo_env_fields)
  moreover have "rows demo_primitives t = (Inr [row], t)" using t by (simp add: rows_def read_file_def plain_file_def)
  ultimately have "iter_operations demo_offline t = (Inr [row], t)"
    by (simp add: iter_operations_def bindS_step demo_journal_fields demo_env_fields)
  moreover have "unfinished [row] = []" using \<open>\<not> is_kind ''RECEIVED'' row\<close> by (simp add: unfinished_def)
  ultimately have r: "reconcile demo_offline None True ?s = (Inr 0, t)"
    using tail by (simp add: reconcile_def bindS_step)
  have "opened ?s" by (simp add: opened_def demo_journal_def)
  from reconcile_finishes_every_delivery [OF r this] r show ?thesis by blast
qed

end
