(* ===== verification/Session_Laws.thy ===== *)
theory Session_Laws
  imports Session
begin

text \<open>
  Laws of the wire sessions: what a completed handshake consists of, and that two peers stay in step.
\<close>

section \<open>Nonces\<close>

lemma decoded_bytes: "urlsafe_b64decode s = Inr bs \<Longrightarrow> list_all (\<lambda>b. b < 256) bs"
  using a2b_bytes [of 0 0 0 s] by (auto simp: urlsafe_b64decode_def list_all_iff split: if_splits option.splits)

lemma decode_token:
  assumes "length bs mod 3 = 2" and "list_all (\<lambda>b. b < 256) bs"
  shows "urlsafe_b64decode (token_urlsafe bs @ ''='') = Inr bs"
proof -
  have b: "\<forall>b \<in> set bs. b < 256" using assms(2) by (simp add: list_all_iff)
  have "set (rstrip_pad s) \<subseteq> set s" for s
    unfolding rstrip_pad_def using set_dropWhileD [of _ "\<lambda>c. c = CHR ''=''" "rev s"] by auto
  then have "(of_char c :: nat) < 128" if "c \<in> set (token_urlsafe bs)" for c
    using encode_ascii [OF b] that unfolding token_urlsafe_def by blast
  moreover have "(of_char CHR ''='' :: nat) < 128" by simp
  ultimately have "\<not> list_ex (\<lambda>c. 128 \<le> (of_char c :: nat)) (token_urlsafe bs @ ''='')"
    by (auto simp: list_ex_iff not_le)
  with a2b_encode [OF assms(1) b] show ?thesis by (simp add: urlsafe_b64decode_def)
qed

lemma valid_nonce_str: "valid_nonce v = Inr u \<Longrightarrow> \<exists>s. v = JStr s"
  by (auto simp: valid_nonce_def split: json.splits)

section \<open>One handshake step\<close>

definition frame_kind :: "event \<Rightarrow> json" where
  "frame_kind e = dget (fst (snd e)) ''message_type''"

definition frame_incoming :: "event \<Rightarrow> bool" where
  "frame_incoming e = snd (snd e)"

definition body_field :: "string \<Rightarrow> event \<Rightarrow> json" where
  "body_field k e = (case dget (fst (snd e)) ''body'' of JObj body \<Rightarrow> dget body k | _ \<Rightarrow> JNull)"

lemma handshake_step:
  assumes "accept now frame incoming s = Inr t" and "ss_stage s < 4"
  defines "e \<equiv> (now, frame, incoming)"
  shows "frame_kind e = JStr (HANDSHAKE ! ss_stage s)" "incoming = expected_incoming s" "now - ss_started s \<le> 5"
    "body_field ''client_nonce'' e = ss_client t" "valid_nonce (ss_client t) = Inr ()"
    "0 < ss_stage s \<Longrightarrow> valid_nonce (ss_client s) = Inr () \<Longrightarrow> ss_client t = ss_client s"
    "0 < ss_stage s \<Longrightarrow> body_field ''server_nonce'' e = ss_server t \<and> valid_nonce (ss_server t) = Inr ()"
    "ss_stage s = 1 \<Longrightarrow> ss_server t \<noteq> ss_client t"
    "1 < ss_stage s \<Longrightarrow> valid_nonce (ss_server s) = Inr () \<Longrightarrow> ss_server t = ss_server s"
proof -
  from assms(1) obtain kind body u where f: "ditem frame ''body'' = Inr (JObj body)" "ditem frame ''message_type'' = Inr kind"
    and u: "(if ss_stage s < 4 then handshake now kind body incoming s else after_handshake kind s) = Inr u"
    and t: "t = count_frame incoming u"
    by (rule accept_Inr)
  from u assms(2) have "handshake now kind body incoming s = Inr u" by simp
  then obtain client server where h: "now - ss_started s \<le> 5" "kind = JStr (HANDSHAKE ! ss_stage s)" "incoming = expected_incoming s"
      "mapR (check_nonce body) nonce_fields = Inr [(), ()]" "bind_client_nonce s body = Inr client"
      "bind_server_nonce s body client = Inr server"
      "u = s\<lparr>ss_client := client, ss_server := server, ss_stage := ss_stage s + 1\<rparr>"
    by (rule handshake_Inr)
  have checked: "check_nonce body k = Inr ()" if "k \<in> set nonce_fields" for k using h(4) that by auto
  have ts: "ss_client t = client" "ss_server t = server" using t h(7) by (simp_all add: count_frame_def)
  from h(5) obtain n where n: "ditem body ''client_nonce'' = Inr n"
    and nc: "if ss_stage s = 0 then client = n else py_eq n (ss_client s) \<and> client = ss_client s"
    by (auto simp: bind_client_nonce_def split: if_splits)
  have nv: "valid_nonce n = Inr ()" using checked [of "''client_nonce''"] n by (simp add: check_nonce_def ditem_eq_Inr)
  then obtain ns where ns: "n = JStr ns" by (auto dest: valid_nonce_str)
  have cn: "client = n" using nc ns by (auto simp: py_eq_str_left split: if_splits)
  have bf: "dget frame ''body'' = JObj body" "dget body ''client_nonce'' = n"
    using f n by (simp_all add: ditem_eq_Inr dget_def)
  show "frame_kind e = JStr (HANDSHAKE ! ss_stage s)" "incoming = expected_incoming s" "now - ss_started s \<le> 5"
    "body_field ''client_nonce'' e = ss_client t" "valid_nonce (ss_client t) = Inr ()"
    using f h bf ts cn nv by (simp_all add: frame_kind_def body_field_def e_def ditem_eq_Inr dget_def)
  show "ss_client t = ss_client s" if "0 < ss_stage s"
    using nc that ts by auto
  have server: "\<exists>m. ditem body ''server_nonce'' = Inr m \<and> server = m \<and> (ss_stage s = 1 \<longrightarrow> m \<noteq> client) \<and>
      (ss_stage s \<noteq> 1 \<longrightarrow> server = ss_server s) \<and> valid_nonce m = Inr ()" if "0 < ss_stage s"
  proof -
    from h(6) that obtain m where m: "ditem body ''server_nonce'' = Inr m"
      and mc: "if ss_stage s = 1 then \<not> py_eq m client \<and> server = m else py_eq m (ss_server s) \<and> server = ss_server s"
      by (auto simp: bind_server_nonce_def split: if_splits)
    have mv: "valid_nonce m = Inr ()" using checked [of "''server_nonce''"] m by (simp add: check_nonce_def ditem_eq_Inr)
    then obtain ms where "m = JStr ms" by (auto dest: valid_nonce_str)
    with m mc mv show ?thesis by (auto simp: py_eq_str_left split: if_splits)
  qed
  show "body_field ''server_nonce'' e = ss_server t \<and> valid_nonce (ss_server t) = Inr ()" if "0 < ss_stage s"
    using server [OF that] ts bf by (auto simp: body_field_def e_def ditem_eq_Inr dget_def)
  show "ss_server t \<noteq> ss_client t" if "ss_stage s = 1"
    using server that ts by auto
  show "ss_server t = ss_server s" if "1 < ss_stage s"
    using server that ts by auto
qed

lemma converse_stage: "converse s es = Inr t \<Longrightarrow> ss_stage t \<le> ss_stage s + length es"
proof (induction es arbitrary: s)
  case (Cons e es)
  obtain now frame incoming where e: "e = (now, frame, incoming)" by (cases e) auto
  from Cons.prems e obtain u where u: "accept now frame incoming s = Inr u" and t: "converse u es = Inr t" by auto
  from Cons.IH [OF t] accept_frame(8) [OF u] show ?case by auto
qed simp

text \<open>The parties' turns: the client speaks first.\<close>

definition turns :: "string \<Rightarrow> bool list" where
  "turns role = (if role = ''CLIENT'' then [False, True, False, True] else [True, False, True, False])"

definition full_handshake :: "string \<Rightarrow> real \<Rightarrow> event list \<Rightarrow> bool" where
  "full_handshake role started es \<longleftrightarrow>
     map frame_kind es = map JStr HANDSHAKE \<and> map frame_incoming es = turns role \<and>
     list_all (\<lambda>(now, _). now - started \<le> 5) es \<and>
     (\<exists>c n. map (body_field ''client_nonce'') es = replicate 4 (JStr c) \<and>
        map (body_field ''server_nonce'') (tl es) = replicate 3 (JStr n) \<and>
        c \<noteq> n \<and> valid_nonce (JStr c) = Inr () \<and> valid_nonce (JStr n) = Inr ())"

lemma handshake_completed:
  assumes "converse s es = Inr t" and "ss_stage s = 0" and "4 \<le> ss_stage t" and "ss_role s \<in> {''CLIENT'', ''BACKEND''}"
  shows "full_handshake (ss_role s) (ss_started s) (take 4 es)"
proof -
  have "4 \<le> length es" using converse_stage [OF assms(1)] assms(2,3) by simp
  then obtain e0 e1 e2 e3 rest where "es = e0 # e1 # e2 # e3 # rest"
    by (auto simp: numeral_eq_Suc Suc_le_length_iff)
  moreover obtain n0 f0 i0 n1 f1 i1 n2 f2 i2 n3 f3 i3 where
    e: "e0 = (n0, f0, i0)" "e1 = (n1, f1, i1)" "e2 = (n2, f2, i2)" "e3 = (n3, f3, i3)"
    by (metis surj_pair)
  ultimately have es: "es = (n0, f0, i0) # (n1, f1, i1) # (n2, f2, i2) # (n3, f3, i3) # rest" by simp
  with assms(1) obtain s1 s2 s3 s4 where a: "accept n0 f0 i0 s = Inr s1" "accept n1 f1 i1 s1 = Inr s2"
    "accept n2 f2 i2 s2 = Inr s3" "accept n3 f3 i3 s3 = Inr s4"
    by auto
  note fr = a [THEN accept_frame(3)] a [THEN accept_frame(4)]
  have st: "ss_stage s1 = 1" "ss_stage s2 = 2" "ss_stage s3 = 3"
    using accept_frame(9) [OF a(1)] accept_frame(9) [OF a(2)] accept_frame(9) [OF a(3)] assms(2) by simp_all
  note h0 = handshake_step [OF a(1), unfolded assms(2)]
  note h1 = handshake_step [OF a(2), unfolded st]
  note h2 = handshake_step [OF a(3), unfolded st]
  note h3 = handshake_step [OF a(4), unfolded st]
  obtain c n where c: "ss_client s1 = JStr c" "ss_server s2 = JStr n"
    using valid_nonce_str [OF h0(5)] h1(7) valid_nonce_str [of "ss_server s2"] by auto
  have same: "ss_client s2 = JStr c" "ss_client s3 = JStr c" "ss_client s4 = JStr c"
    "ss_server s3 = JStr n" "ss_server s4 = JStr n"
    using h0(5) h1(5-7) h2(5-9) h3(5-9) c by simp_all
  have "c \<noteq> n" using h1(8) same(1) c(2) by simp
  moreover have "map (body_field ''client_nonce'') (take 4 es) = replicate 4 (JStr c)"
    "map (body_field ''server_nonce'') (tl (take 4 es)) = replicate 3 (JStr n)"
    using h0(4) h1(4,7) h2(4,7) h3(4,7) same c es by (simp_all add: numeral_eq_Suc)
  moreover have "map frame_kind (take 4 es) = map JStr HANDSHAKE"
    using h0(1) h1(1) h2(1) h3(1) es by (simp add: HANDSHAKE_def)
  moreover have "map frame_incoming (take 4 es) = turns (ss_role s)"
    using h0(2) h1(2) h2(2) h3(2) es fr assms(2,4) st
    by (auto simp: turns_def frame_incoming_def expected_incoming_def)
  moreover have "list_all (\<lambda>(now, _). now - ss_started s \<le> 5) (take 4 es)"
    using h0(3) h1(3) h2(3) h3(3) es fr by simp
  ultimately show ?thesis
    using h0(5) h1(7) c unfolding full_handshake_def by auto
qed

section \<open>Two peers in step\<close>

text \<open>The two ends of one session after the same frames.\<close>

definition peers :: "session \<Rightarrow> session \<Rightarrow> bool" where
  "peers a b \<longleftrightarrow> ss_id a = ss_id b \<and> ss_run a = ss_run b \<and> ss_stage a = ss_stage b \<and>
     {ss_role a, ss_role b} = {''CLIENT'', ''BACKEND''} \<and> ss_in a = ss_out b \<and> ss_out a = ss_in b \<and>
     ss_client a = ss_client b \<and> ss_server a = ss_server b"

lemma peers_sym: "peers a b \<Longrightarrow> peers b a"
  by (auto simp: peers_def)

lemma peers_turn:
  assumes "peers a b"
  shows "direction_of b True = direction_of a False" "expected_counter b True = expected_counter a False"
    "ss_stage a < 4 \<Longrightarrow> expected_incoming b \<longleftrightarrow> \<not> expected_incoming a"
  using assms by (auto simp: peers_def direction_of_def outgoing_direction_def expected_counter_def expected_incoming_def
      doubleton_eq_iff)

lemma handshake_peer:
  assumes P: "peers a b" and h: "handshake now kind body False a = Inr a'"
    and timely: "later - ss_started b \<le> 5" and stage: "ss_stage a < 4"
  shows "\<exists>b'. handshake later kind body True b = Inr b' \<and> peers a' b' \<and> ss_in b' = ss_in b \<and> ss_out a' = ss_out a \<and>
     ss_in a' = ss_in a \<and> ss_out b' = ss_out b"
proof -
  have eq: "ss_stage b = ss_stage a" "ss_client b = ss_client a" "ss_server b = ss_server a"
    using P by (simp_all add: peers_def)
  have same: "bind_client_nonce b body = bind_client_nonce a body" "bind_server_nonce b body c = bind_server_nonce a body c" for c
    by (simp_all only: bind_client_nonce_def bind_server_nonce_def eq)
  show ?thesis
    using h by (rule handshake_Inr)
      (use P timely peers_turn(3) [OF P stage] in \<open>auto simp: handshake_def same peers_def\<close>)
qed

lemma after_handshake_peer:
  assumes "peers a b" and "after_handshake kind a = Inr a'"
  shows "\<exists>b'. after_handshake kind b = Inr b' \<and> peers a' b' \<and> ss_in b' = ss_in b \<and> ss_out a' = ss_out a \<and>
     ss_in a' = ss_in a \<and> ss_out b' = ss_out b"
proof -
  have st: "ss_stage b = ss_stage a" using assms(1) by (simp add: peers_def)
  from assms(2) have a: "ss_stage a = 4" "in_strs kind HANDSHAKE = Inr False"
    "a' = (if str_is kind ''STOP'' then a\<lparr>ss_stage := 5\<rparr> else a)"
    by (auto simp: after_handshake_def split: if_splits)
  show ?thesis
  proof (cases "str_is kind ''STOP''")
    case True
    then have "after_handshake kind b = Inr (b\<lparr>ss_stage := 5\<rparr>)" using a st by (simp add: after_handshake_def)
    moreover have "peers a' (b\<lparr>ss_stage := 5\<rparr>)" using assms(1) a(3) True by (simp add: peers_def)
    ultimately show ?thesis using a(3) True by auto
  next
    case False
    then have "after_handshake kind b = Inr b" using a st by (simp add: after_handshake_def)
    with assms(1) a(3) False show ?thesis by auto
  qed
qed

lemma count_peers: "peers a b \<Longrightarrow> peers (count_frame False a) (count_frame True b)"
  by (simp add: peers_def count_frame_def)

lemma accept_peer:
  assumes P: "peers a b" and s: "accept now frame False a = Inr a'"
    and timely: "ss_stage a < 4 \<Longrightarrow> later - ss_started b \<le> 5"
  shows "\<exists>b'. accept later frame True b = Inr b' \<and> peers a' b'"
proof -
  from s obtain sid direction count body kind u where f: "ditem frame ''session_id'' = Inr sid" "str_is sid (ss_id a)"
    "ditem frame ''direction'' = Inr direction" "str_is direction (direction_of a False)"
    "ditem frame ''counter'' = Inr count" "str_is count (str_int (expected_counter a False))"
    "ditem frame ''body'' = Inr (JObj body)" "\<not> (dhas body ''run_id'' \<and> \<not> str_is (dget body ''run_id'') (ss_run a))"
    "ditem frame ''message_type'' = Inr kind"
    and u: "(if ss_stage a < 4 then handshake now kind body False a else after_handshake kind a) = Inr u"
      "a' = count_frame False u"
    unfolding accept_def bindR_eq_Inr raise_if_Inr dict_value_Inr not_not by blast
  have same: "ss_id b = ss_id a" "ss_run b = ss_run a" "ss_stage b = ss_stage a" using P by (simp_all add: peers_def)
  have "\<exists>v. (if ss_stage b < 4 then handshake later kind body True b else after_handshake kind b) = Inr v \<and> peers u v"
    using handshake_peer [OF P, of now kind body u later] after_handshake_peer [OF P, of kind u] u(1) timely same(3)
    by (auto split: if_splits)
  then obtain v where v: "(if ss_stage b < 4 then handshake later kind body True b else after_handshake kind b) = Inr v"
    "peers u v" by blast
  have "accept later frame True b = Inr (count_frame True v)"
    unfolding accept_def f bindR_simps same peers_turn [OF P] using f v(1) same(3) by simp
  with count_peers [OF v(2)] u(2) show ?thesis by blast
qed

end
