(* ===== verification/Wire.thy ===== *)
theory Wire
  imports Session_Laws Json_Order
begin

text \<open>
  What travels between the two peers: the bytes one session sends are verified by the other. A
  canonical printer sorts the names of an object, so the frame that is read back equals the frame
  that was sent up to the order of names (\<open>norm\<close>). The checks of a frame do not see this order, nor
  which code of 64 digits the frame carries, so what was checked before sending passes again on arrival.
\<close>

section \<open>Values that differ in the order of names\<close>

definition alike :: "json \<Rightarrow> json \<Rightarrow> bool" where
  "alike v w \<longleftrightarrow> norm w = norm v \<and> unique_names v \<and> unique_names w"

lemma norm_length: "norm (JObj d) = norm (JObj e) \<Longrightarrow> length d = length e"
proof -
  assume "norm (JObj d) = norm (JObj e)"
  then have "sort_key fst (map (\<lambda>(k, v). (k, norm v)) d) = sort_key fst (map (\<lambda>(k, v). (k, norm v)) e)" by simp
  from arg_cong [OF this, of length] show ?thesis by simp
qed

lemma alike_refl: "unique_names v \<Longrightarrow> alike v v" and alike_sym: "alike v w \<Longrightarrow> alike w v"
  by (simp_all add: alike_def)

lemma alike_str: "alike v w \<Longrightarrow> v = JStr s \<longleftrightarrow> w = JStr s"
  unfolding alike_def by (metis norm_str(1))

lemma alike_scalar: "alike v w \<Longrightarrow> hashable v \<Longrightarrow> w = v"
  unfolding alike_def by (blast intro: norm_scalar)

lemma alike_dict: "alike (JObj d) w \<Longrightarrow> \<exists>e. w = JObj e \<and> dict_ok d \<and> dict_ok e \<and> same_dict d e \<and> length e = length d"
  using norm_obj [of w d] norm_same_dict [of d] norm_dict_ok norm_length unfolding alike_def by metis

lemma unique_member: "unique_names (JObj d) \<Longrightarrow> map_of d k = Some v \<Longrightarrow> unique_names v"
  by (auto simp: list_all_iff dest: map_of_SomeD)

lemma alike_member:
  assumes "alike (JObj d) (JObj e)" and "map_of d k = Some v"
  shows "\<exists>w. map_of e k = Some w \<and> alike v w"
proof -
  from alike_dict [OF assms(1)] assms(2) same_dict_some obtain w where "map_of e k = Some w" "norm w = norm v" by blast
  with assms unique_member show ?thesis unfolding alike_def by blast
qed

lemma alike_list: "alike (JArr xs) w \<Longrightarrow> \<exists>ys. w = JArr ys \<and> list_all2 alike xs ys"
proof -
  assume a: "alike (JArr xs) w"
  then obtain ys where w: "w = JArr ys" and m: "map norm ys = map norm xs" by (cases w) (auto simp: alike_def)
  from m have "length ys = length xs" by (metis length_map)
  moreover have "alike (xs ! i) (ys ! i)" if "i < length xs" for i
    using a w m that \<open>length ys = length xs\<close> unfolding alike_def by (simp add: list_all_length) (metis nth_map)
  ultimately show ?thesis using w by (simp add: list_all2_conv_all_nth)
qed

lemma dict_all: "dict_ok d \<Longrightarrow> list_all (\<lambda>(k, v). P k v) d \<longleftrightarrow> (\<forall>k v. map_of d k = Some v \<longrightarrow> P k v)"
  by (fastforce simp: list_all_iff dict_ok_def dkeys_def dest: map_of_SomeD)

lemma py_eq_hashable: "py_eq x y \<Longrightarrow> hashable x \<longleftrightarrow> hashable y"
  by (cases x; cases y) (simp_all add: hashable_def)

lemma alike_hashable:
  shows "py_eq x y \<Longrightarrow> hashable x \<or> hashable y \<Longrightarrow> alike x x' \<Longrightarrow> py_eq x' y"
    and "py_eq x y \<Longrightarrow> hashable x \<or> hashable y \<Longrightarrow> alike y y' \<Longrightarrow> py_eq x y'"
  using alike_scalar py_eq_hashable by blast+

lemma py_eq_alike_left: "py_eq x y \<Longrightarrow> alike x x' \<Longrightarrow> py_eq x' y"
proof (induction x y arbitrary: x' rule: py_eq.induct)
  case (3 xs ys)
  from alike_list [OF "3.prems"(2)] obtain xs' where x': "x' = JArr xs'" and a: "list_all2 alike xs xs'" by blast
  have "py_eq (xs' ! i) (ys ! i)" if "i < length xs'" for i
  proof -
    have i: "i < length xs" "length ys = length xs" using that a "3.prems"(1) by (simp_all add: list_all2_lengthD)
    then have "(xs ! i, ys ! i) \<in> set (zip xs ys)" by (auto simp: in_set_zip)
    moreover have "py_eq (xs ! i) (ys ! i)" using "3.prems"(1) i by (simp add: list_all_length)
    ultimately show ?thesis using "3.IH" a i by (metis list_all2_nthD)
  qed
  then show ?case using "3.prems"(1) a x' by (simp add: list_all_length list_all2_lengthD)
next
  case (4 xs ys)
  from alike_dict [OF "4.prems"(2)] obtain xs' where x': "x' = JObj xs'" and ok: "dict_ok xs" "dict_ok xs'" and l: "length xs' = length xs" by blast
  note a = "4.prems"(2) [unfolded x']
  have "\<exists>y. map_of ys k = Some y \<and> py_eq v' y" if k: "map_of xs' k = Some v'" for k v'
  proof -
    from alike_member [OF alike_sym [OF a] k] obtain v where v: "map_of xs k = Some v" "alike v v'" using alike_sym by blast
    have "case map_of ys k of None \<Rightarrow> False | Some y \<Rightarrow> py_eq v y"
      using "4.prems"(1) map_of_SomeD [OF v(1)] by (fastforce simp: list_all_iff)
    then obtain y where y: "map_of ys k = Some y" "py_eq v y" by (auto split: option.splits)
    with "4.IH" [OF map_of_SomeD [OF v(1)] refl y(1) y(2) v(2)] show ?thesis by blast
  qed
  then have "list_all (\<lambda>(k, x). case map_of ys k of None \<Rightarrow> False | Some y \<Rightarrow> py_eq x y) xs'"
    unfolding dict_all [OF ok(2)] by (metis option.simps(5))
  with "4.prems"(1) l x' show ?case by simp
qed (rule alike_hashable(1), assumption, simp add: hashable_def, assumption)+

lemma py_eq_alike_right: "py_eq x y \<Longrightarrow> alike y y' \<Longrightarrow> py_eq x y'"
proof (induction x y arbitrary: y' rule: py_eq.induct)
  case (3 xs ys)
  from alike_list [OF "3.prems"(2)] obtain ys' where y': "y' = JArr ys'" and a: "list_all2 alike ys ys'" by blast
  have "py_eq (xs ! i) (ys' ! i)" if "i < length xs" for i
  proof -
    have i: "i < length ys" "length xs = length ys" using that "3.prems"(1) by simp_all
    then have "(xs ! i, ys ! i) \<in> set (zip xs ys)" by (auto simp: in_set_zip)
    moreover have "py_eq (xs ! i) (ys ! i)" using "3.prems"(1) i by (simp add: list_all_length)
    ultimately show ?thesis using "3.IH" a i by (metis list_all2_nthD)
  qed
  then show ?case using "3.prems"(1) a y' by (simp add: list_all_length list_all2_lengthD)
next
  case (4 xs ys)
  from alike_dict [OF "4.prems"(2)] obtain ys' where y': "y' = JObj ys'" and l: "length ys' = length ys" by blast
  have "case map_of ys' k of None \<Rightarrow> False | Some w \<Rightarrow> py_eq v w" if k: "(k, v) \<in> set xs" for k v
  proof -
    from "4.prems"(1) k obtain y where y: "map_of ys k = Some y" "py_eq v y" by (auto simp: list_all_iff split: option.splits)
    from alike_member [OF "4.prems"(2) [unfolded y'] y(1)] obtain w where w: "map_of ys' k = Some w" "alike y w" by blast
    from "4.IH" [OF k refl y(1) y(2) w(2)] w(1) show ?thesis by simp
  qed
  with "4.prems"(1) l y' show ?case by (auto simp: list_all_iff)
qed (rule alike_hashable(2), assumption, simp add: hashable_def, assumption)+

lemma py_eq_alike: "alike v v' \<Longrightarrow> alike w w' \<Longrightarrow> py_eq v w \<Longrightarrow> py_eq v' w'"
  by (blast intro: py_eq_alike_left py_eq_alike_right)

section \<open>The checks of a frame see the value only\<close>

text \<open>What the program relies on: JSON Schema judges the value, not the order of names; the schema of a frame restricts its
  \<^verbatim>\<open>mac\<close> to 64 lower-case hexadecimal digits and nothing else; the digest of HMAC-SHA-256 is such a text, ASCII is
  in normal form, and two frames that differ in such a text are printed with the same length.\<close>

definition wire_library :: "wire_env \<Rightarrow> bool" where
  "wire_library W \<longleftrightarrow>
     (\<forall>v w. norm v = norm w \<longrightarrow> frame_schema W v = frame_schema W w) \<and>
     (\<forall>v w. norm v = norm w \<longrightarrow> raw_schema (store_side (run_side W)) v = raw_schema (store_side (run_side W)) w) \<and>
     (\<forall>d m n. hex64 m \<longrightarrow> hex64 n \<longrightarrow>
        frame_schema W (JObj (d @ [(''mac'', JStr m)])) = frame_schema W (JObj (d @ [(''mac'', JStr n)]))) \<and>
     (\<forall>key message. hex64 (hmac_sha256 W key message)) \<and>
     (\<forall>s. list_all (\<lambda>c. (of_char c :: nat) < 128) s \<longrightarrow> nfc (primitives W) s = s) \<and>
     (\<forall>d m n s t. hex64 m \<longrightarrow> hex64 n \<longrightarrow> jcs (primitives W) (JObj (d @ [(''mac'', JStr m)])) = Inr s \<longrightarrow>
        jcs (primitives W) (JObj (d @ [(''mac'', JStr n)])) = Inr t \<longrightarrow> length s = length t)"

lemma wire_laws:
  assumes "wire_library W"
  shows schema_same: "norm v = norm w \<Longrightarrow> frame_schema W v = frame_schema W w"
    and raw_same: "norm v = norm w \<Longrightarrow> raw_schema (store_side (run_side W)) v = raw_schema (store_side (run_side W)) w"
    and mac_free: "hex64 m \<Longrightarrow> hex64 n \<Longrightarrow> frame_schema W (JObj (d @ [(''mac'', JStr m)])) = frame_schema W (JObj (d @ [(''mac'', JStr n)]))"
    and hmac_hex: "hex64 (hmac_sha256 W key message)"
    and ascii_normal: "list_all (\<lambda>c. (of_char c :: nat) < 128) s \<Longrightarrow> nfc (primitives W) s = s"
    and mac_length: "hex64 m \<Longrightarrow> hex64 n \<Longrightarrow> jcs (primitives W) (JObj (d @ [(''mac'', JStr m)])) = Inr x \<Longrightarrow>
      jcs (primitives W) (JObj (d @ [(''mac'', JStr n)])) = Inr y \<Longrightarrow> length x = length y"
  using assms unfolding wire_library_def by blast+

lemma alike_item: "alike v w \<Longrightarrow> jitem v k = Inr x \<Longrightarrow> \<exists>y. jitem w k = Inr y \<and> alike x y"
proof -
  assume a: "alike v w" and i: "jitem v k = Inr x"
  then obtain d where v: "v = JObj d" and k: "map_of d k = Some x" by (cases v) (simp_all add: ditem_eq_Inr)
  from alike_dict [OF a [unfolded v]] obtain e where w: "w = JObj e" by blast
  from alike_member [OF a [unfolded v w] k] w show ?thesis by (auto simp: ditem_eq_Inr)
qed

lemma alike_str_item: "alike v w \<Longrightarrow> str_item v k = Inr s \<Longrightarrow> str_item w k = Inr s"
proof -
  assume a: "alike v w" and s: "str_item v k = Inr s"
  from s obtain x where "jitem v k = Inr x" "(case x of JStr s \<Rightarrow> Inr s | _ \<Rightarrow> Inl TypeError) = Inr s" by (auto simp: str_item_def)
  then have "jitem v k = Inr (JStr s)" by (cases x) simp_all
  from alike_item [OF a this] obtain y where y: "jitem w k = Inr y" "alike (JStr s) y" by blast
  have "y = JStr s" using alike_str [OF y(2), of s] by simp
  with y(1) have "jitem w k = Inr (JStr s)" by simp
  then show ?thesis by (simp add: str_item_def)
qed

lemma alike_list_item: "alike v w \<Longrightarrow> list_item v k = Inr xs \<Longrightarrow> \<exists>ys. list_item w k = Inr ys \<and> list_all2 alike xs ys"
proof -
  assume a: "alike v w" and l: "list_item v k = Inr xs"
  from l obtain x where "jitem v k = Inr x" "(case x of JArr xs \<Rightarrow> Inr xs | _ \<Rightarrow> Inl TypeError) = Inr xs" by (auto simp: list_item_def)
  then have "jitem v k = Inr (JArr xs)" by (cases x) simp_all
  from alike_item [OF a this] obtain y where y: "jitem w k = Inr y" "alike (JArr xs) y" by blast
  from alike_list [OF y(2)] y(1) obtain ys where "jitem w k = Inr (JArr ys)" "list_all2 alike xs ys" by auto
  then show ?thesis by (simp add: list_item_def)
qed

lemma mapR_checks: "mapR f xs = Inr us \<Longrightarrow> x \<in> set xs \<Longrightarrow> f x = Inr ()"
  by (induction xs arbitrary: us) auto

lemma checks_mapR: "\<forall>x \<in> set xs. f x = Inr () \<Longrightarrow> \<exists>us. mapR f xs = Inr (us :: unit list)"
  by (induction xs) auto

lemma batch_item_alike:
  assumes W: "canonical_printer (primitives W)" "wire_library W" and c: "batch_item W body (n, raw) = Inr ()"
    and b: "alike body body'" and r: "alike raw raw'"
  shows "batch_item W body' (n, raw') = Inr ()"
proof -
  from c obtain run run' ctx browser browser' stream stream' generation generation' number bytes where
    s: "raw_schema (store_side (run_side W)) raw"
    and i: "jitem raw ''discovery_run_id'' = Inr run" "jitem body ''run_id'' = Inr run'" "py_eq run run'"
      "jitem raw ''context'' = Inr ctx" "jitem ctx ''browser_run_id'' = Inr browser" "jitem body ''browser_run_id'' = Inr browser'"
      "py_eq browser browser'" "jitem raw ''stream_id'' = Inr stream" "jitem body ''stream_id'' = Inr stream'" "py_eq stream stream'"
      "jitem raw ''generation'' = Inr generation" "jitem body ''generation'' = Inr generation'" "py_eq generation generation'"
      "jitem raw ''sequence'' = Inr number" "number = JStr (str_int n)"
    and bytes: "jcs (primitives W) raw = Inr bytes" "length bytes \<le> 65536"
    by (auto simp: batch_item_def)
  obtain x1 x2 x3 where 1: "jitem raw' ''discovery_run_id'' = Inr x1" "jitem body' ''run_id'' = Inr x2" "py_eq x1 x2"
    "jitem raw' ''context'' = Inr x3" "alike ctx x3"
    using alike_item [OF r i(1)] alike_item [OF b i(2)] alike_item [OF r i(4)] py_eq_alike i(3) by metis
  obtain x4 x5 where 2: "jitem x3 ''browser_run_id'' = Inr x4" "jitem body' ''browser_run_id'' = Inr x5" "py_eq x4 x5"
    using alike_item [OF 1(5) i(5)] alike_item [OF b i(6)] py_eq_alike i(7) by metis
  obtain x6 x7 where 3: "jitem raw' ''stream_id'' = Inr x6" "jitem body' ''stream_id'' = Inr x7" "py_eq x6 x7"
    using alike_item [OF r i(8)] alike_item [OF b i(9)] py_eq_alike i(10) by metis
  obtain x8 x9 where 4: "jitem raw' ''generation'' = Inr x8" "jitem body' ''generation'' = Inr x9" "py_eq x8 x9"
    using alike_item [OF r i(11)] alike_item [OF b i(12)] py_eq_alike i(13) by metis
  have 5: "jitem raw' ''sequence'' = Inr (JStr (str_int n))" using alike_item [OF r i(14)] i(15) alike_str by metis
  have "raw_schema (store_side (run_side W)) raw'" using raw_same [OF W(2), of raw' raw] s r by (simp add: alike_def)
  moreover have "jcs (primitives W) raw' = Inr bytes" using printer_same [OF W(1), of raw' raw] r bytes(1) by (simp add: alike_def)
  ultimately show ?thesis using 1 2 3 4 5 bytes(2) by (simp add: batch_item_def)
qed

lemma batch_checks_alike:
  assumes W: "canonical_printer (primitives W)" "wire_library W" and c: "batch_checks W body = Inr ()" and b: "alike body body'"
  shows "batch_checks W body' = Inr ()"
proof -
  from c obtain s1 s2 s3 first last generation xs us where s: "str_item body ''first_sequence'' = Inr s1" "parse_int s1 = Inr first"
      "str_item body ''last_sequence'' = Inr s2" "parse_int s2 = Inr last" "list_item body ''observations'' = Inr xs"
      "1 \<le> first \<and> first \<le> last \<and> last \<le> MAX_INTEGER" "last - first + 1 = int (length xs)"
      "str_item body ''generation'' = Inr s3" "parse_int s3 = Inr generation" "generation \<le> MAX_INTEGER"
    and m: "mapR (batch_item W body) (zip (map (\<lambda>i. first + int i) [0..<length xs]) xs) = Inr us"
    by (auto simp: batch_checks_def not_less)
  from alike_list_item [OF b s(5)] obtain ys where y: "list_item body' ''observations'' = Inr ys" "list_all2 alike xs ys" by blast
  then have l: "length ys = length xs" by (simp add: list_all2_lengthD)
  have "\<forall>z \<in> set (zip (map (\<lambda>i. first + int i) [0..<length ys]) ys). batch_item W body' z = Inr ()"
  proof
    fix z
    assume "z \<in> set (zip (map (\<lambda>i. first + int i) [0..<length ys]) ys)"
    with l obtain i where i: "i < length xs" "z = (first + int i, ys ! i)" by (auto simp: set_zip)
    then have "(first + int i, xs ! i) \<in> set (zip (map (\<lambda>i. first + int i) [0..<length xs]) xs)"
      unfolding set_zip by (auto intro!: exI [of _ i])
    from mapR_checks [OF m this] have "batch_item W body (first + int i, xs ! i) = Inr ()" .
    from batch_item_alike [OF W this b list_all2_nthD [OF y(2) i(1)]] i(2) show "batch_item W body' z = Inr ()" by simp
  qed
  from checks_mapR [OF this] obtain us' where "mapR (batch_item W body') (zip (map (\<lambda>i. first + int i) [0..<length ys]) ys) = Inr us'"
    by (elim exE)
  moreover have "\<not> (\<not> (1 \<le> first \<and> first \<le> last \<and> last \<le> MAX_INTEGER) \<or> last - first + 1 \<noteq> int (length ys))"
    using s(6,7) l by simp
  moreover have "\<not> generation > MAX_INTEGER" using s(10) by simp
  ultimately show ?thesis
    unfolding batch_checks_def alike_str_item [OF b s(1)] alike_str_item [OF b s(3)] alike_str_item [OF b s(8)] y(1)
    by (simp only: bindR_simps s(2,4,9) raise_if_simps)
qed

lemma frame_checks_Inr:
  assumes "frame_checks W v = Inr ()"
  obtains s counter kind bytes where "frame_schema W v" "str_item v ''counter'' = Inr s" "parse_int s = Inr counter" "counter \<le> MAX_INTEGER"
    "jitem v ''message_type'' = Inr kind" "kind = JStr ''BATCH'' \<Longrightarrow> \<exists>body. jitem v ''body'' = Inr body \<and> batch_checks W body = Inr ()"
    "jcs (primitives W) v = Inr bytes" "length bytes \<le> 262144"
  using assms by (auto simp: frame_checks_def not_less split: if_splits)

lemma frame_checksI:
  assumes "frame_schema W v" "str_item v ''counter'' = Inr s" "parse_int s = Inr c" "c \<le> MAX_INTEGER"
    "jitem v ''message_type'' = Inr kind" "kind = JStr ''BATCH'' \<Longrightarrow> \<exists>body. jitem v ''body'' = Inr body \<and> batch_checks W body = Inr ()"
    "jcs (primitives W) v = Inr bytes" "length bytes \<le> 262144"
  shows "frame_checks W v = Inr ()"
proof -
  have "(if str_is kind ''BATCH'' then bindR (jitem v ''body'') (batch_checks W) else Inr ()) = Inr ()" using assms(6) by auto
  moreover have "\<not> c > MAX_INTEGER" "\<not> 262144 < length bytes" using assms(4,8) by simp_all
  ultimately show ?thesis
    unfolding frame_checks_def assms(2,5,7) by (simp only: bindR_simps assms(1,3) raise_if_simps not_True_eq_False)
qed

lemma frame_checks_alike:
  assumes W: "canonical_printer (primitives W)" "wire_library W" and c: "frame_checks W v = Inr ()" and a: "alike v w"
  shows "frame_checks W w = Inr ()"
proof -
  from c obtain s counter kind bytes where f: "frame_schema W v" "str_item v ''counter'' = Inr s" "parse_int s = Inr counter" "counter \<le> MAX_INTEGER"
    "jitem v ''message_type'' = Inr kind" and b: "kind = JStr ''BATCH'' \<Longrightarrow> \<exists>body. jitem v ''body'' = Inr body \<and> batch_checks W body = Inr ()"
    and p: "jcs (primitives W) v = Inr bytes" "length bytes \<le> 262144"
    by (rule frame_checks_Inr) blast
  from alike_item [OF a f(5)] obtain kind' where k: "jitem w ''message_type'' = Inr kind'" "alike kind kind'" by blast
  have "\<exists>body. jitem w ''body'' = Inr body \<and> batch_checks W body = Inr ()" if "kind' = JStr ''BATCH''"
  proof -
    from that k(2) alike_str have "kind = JStr ''BATCH''" by blast
    with b obtain body where c: "jitem v ''body'' = Inr body" "batch_checks W body = Inr ()" by blast
    from alike_item [OF a c(1)] obtain body' where "jitem w ''body'' = Inr body'" "alike body body'" by blast
    with batch_checks_alike [OF W c(2)] show ?thesis by blast
  qed
  moreover have "frame_schema W w" using schema_same [OF W(2), of w v] a f(1) by (simp add: alike_def)
  moreover have "jcs (primitives W) w = Inr bytes" using printer_same [OF W(1), of w v] a p(1) by (simp add: alike_def)
  ultimately show ?thesis using frame_checksI [OF _ alike_str_item [OF a f(2)] f(3,4) k(1)] p(2) by blast
qed

lemma frame_checks_mac:
  assumes L: "wire_library W" and h: "hex64 m" "hex64 n" and c: "frame_checks W (JObj (d @ [(''mac'', JStr m)])) = Inr ()"
    and p: "jcs (primitives W) (JObj (d @ [(''mac'', JStr n)])) = Inr text"
  shows "frame_checks W (JObj (d @ [(''mac'', JStr n)])) = Inr ()"
proof -
  have i: "jitem (JObj (d @ [(''mac'', JStr n)])) k = jitem (JObj (d @ [(''mac'', JStr m)])) k" if "k \<noteq> ''mac''" for k
    using that by (simp add: ditem_def map_add_def split: option.split)
  from c obtain s counter kind bytes where f: "frame_schema W (JObj (d @ [(''mac'', JStr m)]))"
      "str_item (JObj (d @ [(''mac'', JStr m)])) ''counter'' = Inr s" "parse_int s = Inr counter" "counter \<le> MAX_INTEGER"
      "jitem (JObj (d @ [(''mac'', JStr m)])) ''message_type'' = Inr kind"
    and b: "kind = JStr ''BATCH'' \<Longrightarrow> \<exists>body. jitem (JObj (d @ [(''mac'', JStr m)])) ''body'' = Inr body \<and> batch_checks W body = Inr ()"
    and l: "jcs (primitives W) (JObj (d @ [(''mac'', JStr m)])) = Inr bytes" "length bytes \<le> 262144"
    by (rule frame_checks_Inr) blast
  show ?thesis
  proof (rule frame_checksI [OF _ _ f(3,4) _ _ p])
    show "frame_schema W (JObj (d @ [(''mac'', JStr n)]))" using mac_free [OF L h] f(1) by blast
    show "str_item (JObj (d @ [(''mac'', JStr n)])) ''counter'' = Inr s" using f(2) unfolding str_item_def by (subst i) simp_all
    show "jitem (JObj (d @ [(''mac'', JStr n)])) ''message_type'' = Inr kind" using f(5) by (subst i) simp_all
    show "\<exists>body. jitem (JObj (d @ [(''mac'', JStr n)])) ''body'' = Inr body \<and> batch_checks W body = Inr ()" if "kind = JStr ''BATCH''"
      using b [OF that] by (subst i) simp_all
    show "length text \<le> 262144" using mac_length [OF L h l(1) p] l(2) by simp
  qed
qed

section \<open>A session looks at texts only\<close>

lemma handshake_same:
  assumes h: "handshake now kind body incoming s = Inr t" and same: "same_dict body body'"
  shows "handshake now kind body' incoming s = Inr t"
proof -
  obtain client server where p: "now - ss_started s \<le> 5" "kind = JStr (HANDSHAKE ! ss_stage s)" "incoming = expected_incoming s"
    "mapR (check_nonce body) nonce_fields = Inr [(), ()]" "bind_client_nonce s body = Inr client"
    "bind_server_nonce s body client = Inr server"
    "t = s\<lparr>ss_client := client, ss_server := server, ss_stage := ss_stage s + 1\<rparr>"
    using h by (rule handshake_Inr)
  have field: "map_of body' k = map_of body k" if "k \<in> set nonce_fields" for k
  proof (cases "map_of body k")
    case None
    with same_dict_none [OF same] show ?thesis by simp
  next
    case (Some v)
    have "check_nonce body k = Inr ()" using p(4) that by auto
    with Some obtain s where "v = JStr s" by (auto simp: check_nonce_def dest: valid_nonce_str)
    with Some same_dict_str [OF same] show ?thesis by simp
  qed
  have "check_nonce body' k = check_nonce body k" "ditem body' k = ditem body k" if "k \<in> set nonce_fields" for k
    using field [OF that] by (simp_all add: check_nonce_def ditem_def)
  then have "mapR (check_nonce body') nonce_fields = mapR (check_nonce body) nonce_fields"
    "bind_client_nonce s body' = bind_client_nonce s body" "bind_server_nonce s body' client = bind_server_nonce s body client"
    by (simp_all add: bind_client_nonce_def bind_server_nonce_def)
  with p show ?thesis by (simp add: handshake_def)
qed

lemma after_handshake_hashable: "after_handshake kind s = Inr t \<Longrightarrow> hashable kind"
  by (cases kind) (auto simp: after_handshake_def in_strs_def hashable_def split: if_splits)

lemma accept_same:
  assumes a: "accept now frame incoming s = Inr t" and same: "same_dict frame frame'"
    and inner: "\<And>b b'. map_of frame ''body'' = Some (JObj b) \<Longrightarrow> map_of frame' ''body'' = Some (JObj b') \<Longrightarrow> same_dict b b'"
  shows "accept now frame' incoming s = Inr t"
proof -
  from a obtain sid direction count body kind u where f: "ditem frame ''session_id'' = Inr sid" "str_is sid (ss_id s)"
    "ditem frame ''direction'' = Inr direction" "str_is direction (direction_of s incoming)"
    "ditem frame ''counter'' = Inr count" "str_is count (str_int (expected_counter s incoming))"
    "ditem frame ''body'' = Inr (JObj body)" "\<not> (dhas body ''run_id'' \<and> \<not> str_is (dget body ''run_id'') (ss_run s))"
    "ditem frame ''message_type'' = Inr kind"
    and u: "(if ss_stage s < 4 then handshake now kind body incoming s else after_handshake kind s) = Inr u"
      "t = count_frame incoming u"
    unfolding accept_def bindR_eq_Inr raise_if_Inr dict_value_Inr not_not by blast
  obtain body' where b: "map_of frame' ''body'' = Some (JObj body')"
    using same_dict_some [OF same, of "''body''"] f(7) norm_obj unfolding ditem_eq_Inr by blast
  have sb: "same_dict body body'" using inner f(7) b by (simp add: ditem_eq_Inr)
  have run: "\<not> (dhas body' ''run_id'' \<and> \<not> str_is (dget body' ''run_id'') (ss_run s))"
    using f(8) same_dict_none [OF sb, of "''run_id''"] same_dict_str [OF sb, of "''run_id''" "ss_run s"]
    by (cases "map_of body ''run_id''") (auto simp: dhas_def dget_def)
  have k: "hashable kind"
  proof (cases "ss_stage s < 4")
    case True
    with u have "handshake now kind body incoming s = Inr u" by simp
    then show ?thesis by (rule handshake_Inr) (simp add: hashable_def)
  next
    case False
    with u(1) show ?thesis by (simp add: after_handshake_hashable)
  qed
  have kind: "ditem frame' ''message_type'' = Inr kind"
    using same_dict_some [OF same] f(9) norm_scalar [OF k] unfolding ditem_eq_Inr by blast
  have texts: "ditem frame' k = Inr (JStr x)" if "ditem frame k = Inr (JStr x)" for k x
    using same_dict_str [OF same] that unfolding ditem_eq_Inr .
  have v: "(if ss_stage s < 4 then handshake now kind body' incoming s else after_handshake kind s) = Inr u"
    using u(1) handshake_same [OF _ sb] by (auto split: if_splits)
  from f have t: "ditem frame' ''session_id'' = Inr (JStr (ss_id s))" "ditem frame' ''direction'' = Inr (JStr (direction_of s incoming))"
    "ditem frame' ''counter'' = Inr (JStr (str_int (expected_counter s incoming)))"
    by (auto intro: texts)
  show ?thesis
    unfolding accept_def t bindR_simps kind using b run v u(2) by (simp add: ditem_eq_Inr [THEN iffD2])
qed

section \<open>From one peer to the other\<close>

text \<open>What sending promises: the bytes print the frame with its code.\<close>

lemma send_Inr:
  assumes "send W now kind body key s = Inr (bytes, t)"
  obtains mac where "length key = 32" "frame_mac W key (outgoing_frame s kind body) = Inr mac"
    "frame_checks W (JObj (outgoing_frame s kind body @ [(''mac'', JStr (replicate 64 CHR ''0''))])) = Inr ()"
    "jcs (primitives W) (JObj (outgoing_frame s kind body @ [(''mac'', JStr mac)])) = Inr bytes"
    "accept now (outgoing_frame s kind body) False s = Inr t"
  using assms by (auto simp: send_def encode_frame_def Let_def outgoing_frame_def validate_frame_def recast_def split: sum.splits)

lemma accept_append: "dhas frame k \<or> k \<notin> {''session_id'', ''direction'', ''counter'', ''body'', ''message_type''} \<Longrightarrow>
    accept now (frame @ [(k, v)]) incoming s = accept now frame incoming s"
proof -
  assume k: "dhas frame k \<or> k \<notin> {''session_id'', ''direction'', ''counter'', ''body'', ''message_type''}"
  have "ditem (frame @ [(k, v)]) x = ditem frame x"
    if "x \<in> {''session_id'', ''direction'', ''counter'', ''body'', ''message_type''}" for x
    using k that by (cases "map_of frame x") (auto simp: ditem_def map_add_def dhas_def split: option.splits)
  then show ?thesis by (simp add: accept_def)
qed

lemma outgoing_unicode:
  assumes "wire_library W" and "unicode_ok (primitives W) (JObj (outgoing_frame s kind body))" and "hex64 mac"
  shows "unicode_ok (primitives W) (JObj (outgoing_frame s kind body @ [(''mac'', JStr mac)]))"
proof -
  have ascii: "nfc (primitives W) t = t" if "list_all (\<lambda>c. (of_char c :: nat) < 128) t" for t
    using ascii_normal [OF assms(1) that] .
  have "list_all (\<lambda>c. (of_char c :: nat) < 128) mac"
    using assms(3) by (auto simp: hex64_def is_lower_hex_def list_all_iff Let_def dest!: bspec)
  then show ?thesis using assms(2) ascii [of "''mac''"] ascii [of mac] by simp
qed

lemma verify_sent:
  assumes P: "peers a b" and s: "send W now kind body key a = Inr (bytes, a')"
    and timely: "ss_stage a < 4 \<Longrightarrow> later - ss_started b \<le> 5"
    and W: "canonical_printer (primitives W)" "wire_library W"
    and names: "unique_names (JObj body)" and unicode: "unicode_ok (primitives W) (JObj (outgoing_frame a kind body))"
  shows "\<exists>g b'. verify_frame W later bytes key b = Inr (g, b') \<and> peers a' b'"
proof -
  let ?f = "outgoing_frame a kind body"
  obtain mac where m: "length key = 32" "frame_mac W key ?f = Inr mac"
    "jcs (primitives W) (JObj (?f @ [(''mac'', JStr mac)])) = Inr bytes" "accept now ?f False a = Inr a'"
    and checked: "frame_checks W (JObj (?f @ [(''mac'', JStr (replicate 64 CHR ''0''))])) = Inr ()"
    using s by (rule send_Inr)
  let ?v = "?f @ [(''mac'', JStr mac)]"
  have hex: "hex64 mac" using m(2) W(2) hmac_hex by (auto simp: frame_mac_def)
  have uv: "unique_names (JObj ?v)" using names by (simp add: outgoing_frame_def)
  obtain w where w: "parse_strict_json (primitives W) bytes = Inr w" "norm w = norm (JObj ?v)"
    using printer_reads [OF W(1) m(3) uv outgoing_unicode [OF W(2) unicode hex]] by blast
  obtain g where g: "w = JObj g" using norm_obj [OF w(2)] by blast
  have uw: "unique_names (JObj g)" using w(1) g by (auto simp: parse_strict_json_def split: if_splits option.splits)
  have dicts: "dict_ok ?v" "dict_ok g" using uv uw by (simp_all add: dict_ok_def)
  have wg: "norm (JObj g) = norm (JObj ?v)" using w(2) unfolding g .
  have same: "same_dict ?v g" "same_dict g ?v"
    by (rule norm_same_dict [OF wg [symmetric] dicts], rule norm_same_dict [OF wg dicts(2,1)])
  have "ddel ''mac'' ?v = ?f" by (simp add: outgoing_frame_def)
  with printer_same [OF W(1) norm_ddel_cong [OF wg, of "''mac''"]]
  have "jcs (primitives W) (JObj (ddel ''mac'' g)) = jcs (primitives W) (JObj ?f)" by simp
  then have mac: "frame_mac W key (ddel ''mac'' g) = Inr mac" using m(2) unfolding frame_mac_def by simp
  have "hex64 (replicate 64 CHR ''0'')" by code_simp
  from frame_checks_mac [OF W(2) this hex checked m(3)] have "frame_checks W (JObj ?v) = Inr ()" .
  moreover have "alike (JObj ?v) (JObj g)" using wg uv uw by (simp add: alike_def del: norm.simps unique_names.simps)
  ultimately have valid: "frame_checks W (JObj g) = Inr ()" by (rule frame_checks_alike [OF W])
  have "jcs (primitives W) (JObj g) = Inr bytes" using printer_same [OF W(1) wg] m(3) by simp
  with valid have size: "length bytes \<le> 262144" by (auto elim!: frame_checks_Inr)
  have inner: "same_dict x y" if "map_of ?v ''body'' = Some (JObj x)" "map_of g ''body'' = Some (JObj y)" for x y
  proof (rule norm_same_dict)
    have "map_option norm (map_of g ''body'') = map_option norm (map_of ?v ''body'')" using same(2) by (simp only: same_dict_def)
    then show "norm (JObj x) = norm (JObj y)" unfolding that by (simp del: norm.simps)
    show "dict_ok x" using that(1) names by (auto simp: outgoing_frame_def dict_ok_def)
    show "dict_ok y" using unique_member [OF uw that(2)] by (simp add: dict_ok_def)
  qed
  have "accept now ?v False a = Inr a'"
    by (subst accept_append) (use m(4) in \<open>auto simp: outgoing_frame_def\<close>)
  from accept_same [OF this same(1) inner] have "accept now g False a = Inr a'" by blast
  from accept_peer [OF P this timely] obtain b' where b: "accept later g True b = Inr b'" "peers a' b'" by blast
  have "str_item (JObj g) ''mac'' = Inr mac"
    using same_dict_str [OF same(1), of "''mac''" mac] by (simp add: str_item_def ditem_def outgoing_frame_def)
  moreover have "read_frame W bytes = Inr g"
    using w(1) g valid by (simp add: read_frame_def validate_frame_def recast_def)
  ultimately have "verify_frame W later bytes key b = Inr (g, b')"
    using m(1) size mac b(1) by (simp add: verify_frame_def)
  with b(2) show ?thesis by blast
qed

end
