(* ===== verification/Session_Props.thy ===== *)
theory Session_Props
  imports Wire Demo_Run
begin

text \<open>
  The properties of the wire sessions, each instantiated on a short conversation.
\<close>

section \<open>A short conversation\<close>

definition demo_nonce :: "nat \<Rightarrow> json" where
  "demo_nonce b = JStr (token_urlsafe (replicate 32 b))"

definition demo_session :: "string \<Rightarrow> session" where
  "demo_session role = \<lparr>ss_id = ''session'', ss_run = ''run'', ss_role = role, ss_started = 0, ss_stage = 0,
     ss_in = 0, ss_out = 0, ss_client = JNull, ss_server = JNull\<rparr>"

definition demo_frame :: "bool \<Rightarrow> int \<Rightarrow> string \<Rightarrow> obj \<Rightarrow> obj" where
  "demo_frame by_client n kind body =
     [(''session_id'', JStr ''session''),
      (''direction'', JStr (if by_client then ''CLIENT_TO_BACKEND'' else ''BACKEND_TO_CLIENT'')),
      (''counter'', JStr (str_int n)), (''message_type'', JStr kind), (''body'', JObj body)]"

definition demo_hello :: obj where
  "demo_hello = [(''run_id'', JStr ''run''), (''client_nonce'', demo_nonce 1)]"

definition demo_nonces :: obj where
  "demo_nonces = demo_hello @ [(''server_nonce'', demo_nonce 2)]"

definition demo_talk :: "event list" where
  "demo_talk = [(0, demo_frame True 1 ''HELLO'' demo_hello, True), (0, demo_frame False 1 ''WELCOME'' demo_nonces, False),
     (0, demo_frame True 2 ''READY'' demo_nonces, True), (0, demo_frame False 2 ''READY_ACK'' demo_nonces, False),
     (0, demo_frame True 3 ''STOP'' [], True)]"

lemma token_length: "urlsafe_b64decode (token_urlsafe (replicate 32 b) @ ''='') = Inr (replicate 32 b)" if "b < 256"
  by (rule decode_token) (simp_all add: list_all_iff that)

lemma demo_nonce_valid: "b < 256 \<Longrightarrow> valid_nonce (demo_nonce b) = Inr ()"
  by (simp add: valid_nonce_def demo_nonce_def token_length token_urlsafe_def [symmetric])

lemma demo_nonce_distinct: "demo_nonce 1 \<noteq> demo_nonce 2"
proof
  assume "demo_nonce 1 = demo_nonce 2"
  then have "token_urlsafe (replicate 32 1) = token_urlsafe (replicate 32 2)" by (simp add: demo_nonce_def)
  with token_length [of 1] token_length [of 2] show False by (simp add: numeral_eq_Suc)
qed

lemma demo_nonce_eq: "py_eq (demo_nonce a) (demo_nonce b) \<longleftrightarrow> demo_nonce a = demo_nonce b"
  by (simp add: demo_nonce_def)

lemmas demo_defs = accept_def demo_session_def demo_frame_def demo_hello_def demo_nonces_def direction_of_def
  outgoing_direction_def expected_counter_def handshake_def after_handshake_def expected_incoming_def HANDSHAKE_def
  check_nonce_def bind_client_nonce_def bind_server_nonce_def count_frame_def

lemma demo_talks: "\<exists>t. converse (demo_session ''BACKEND'') (take 4 demo_talk) = Inr t \<and> ss_stage t = 4 \<and> ss_in t = 2"
  using demo_nonce_distinct
  by (simp add: demo_talk_def demo_defs demo_nonce_valid demo_nonce_eq)

lemma demo_talks_all: "\<exists>t. converse (demo_session ''BACKEND'') demo_talk = Inr t \<and> ss_stage t = 5 \<and> ss_in t = 3"
  using demo_nonce_distinct
  by (simp add: demo_talk_def demo_defs demo_nonce_valid demo_nonce_eq)

section \<open>Properties\<close>

text \<open>C9: A frame that a session has accepted is never accepted again, in either direction, whatever
  was exchanged in between: the second presentation raises the counter error.\<close>

theorem frames_are_not_replayed:
  assumes "converse s es = Inr t" and "(now, frame, d) \<in> set es"
  shows "accept later frame d t = Inl (ValueError ''E_OFFLINE_SESSION_COUNTER'')"
proof -
  from assms obtain fs gs where es: "es = fs @ (now, frame, d) # gs" by (meson split_list)
  with assms(1) obtain u v where u: "accept now frame d u = Inr v" by (auto simp: converse_append)
  then obtain sid direction where f: "ditem frame ''session_id'' = Inr sid" "ditem frame ''direction'' = Inr direction"
    unfolding accept_def bindR_eq_Inr by blast
  have "ditem frame ''counter'' \<in> set (counters d es)" using es by (auto simp: counters_def)
  then obtain i where "i \<le> counter d t" "ditem frame ''counter'' = Inr (JStr (str_int i))"
    unfolding converse_counters [OF assms(1)] by auto
  with f show ?thesis
    by (auto simp: accept_def expected_counter_def counter_def raise_if_def)
qed

theorem frames_are_not_replayed_witness:
  "\<exists>t. converse (demo_session ''BACKEND'') (take 4 demo_talk) = Inr t \<and>
     accept 1 (demo_frame True 2 ''READY'' demo_nonces) True t = Inl (ValueError ''E_OFFLINE_SESSION_COUNTER'')"
proof -
  obtain t where t: "converse (demo_session ''BACKEND'') (take 4 demo_talk) = Inr t" using demo_talks by blast
  have "(0, demo_frame True 2 ''READY'' demo_nonces, True) \<in> set (take 4 demo_talk)" by (simp add: demo_talk_def)
  from t frames_are_not_replayed [OF t this, of 1] show ?thesis by blast
qed

text \<open>C10: A session that is ready has exchanged exactly the four handshake frames first, in order and
  in turns, within five seconds, all with one well-formed client nonce and one well-formed server
  nonce, and the two nonces differ.\<close>

theorem ready_session_has_shaken_hands:
  assumes "new_session sid run role started = Inr s" and "converse s es = Inr t" and "ready t"
  shows "full_handshake role started (take 4 es)"
proof -
  from assms(1) have s: "ss_stage s = 0" "ss_role s = role" "ss_started s = started" "ss_role s \<in> {''CLIENT'', ''BACKEND''}"
    by (auto simp: new_session_def split: if_splits)
  have "4 \<le> ss_stage t" using assms(3) by (simp add: ready_def)
  with handshake_completed [OF assms(2) s(1) _ s(4)] s(2,3) show ?thesis by simp
qed

theorem ready_session_has_shaken_hands_witness: "full_handshake ''BACKEND'' 0 (take 4 demo_talk)"
proof -
  obtain t where t: "converse (demo_session ''BACKEND'') (take 4 demo_talk) = Inr t" "ready t"
    using demo_talks by (auto simp: ready_def)
  have "new_session ''session'' ''run'' ''BACKEND'' 0 = Inr (demo_session ''BACKEND'')"
    by (simp add: new_session_def demo_session_def)
  from ready_session_has_shaken_hands [OF this t] show ?thesis by simp
qed

text \<open>\<open>STOP\<close> ends a session: it is the last frame any conversation accepts.\<close>

theorem stop_is_final:
  assumes "converse s (es @ (now, frame, d) # fs) = Inr t" and "frame_kind (now, frame, d) = JStr ''STOP''"
  shows "fs = []"
proof (rule ccontr)
  assume "fs \<noteq> []"
  then obtain now' frame' d' gs where fs: "fs = (now', frame', d') # gs" by (metis neq_Nil_conv surj_pair)
  with assms(1) obtain u v w where a: "accept now frame d u = Inr v" "accept now' frame' d' v = Inr w"
    by (auto simp: converse_append)
  have "\<not> ss_stage u < 4"
  proof
    assume stage: "ss_stage u < 4"
    then have "HANDSHAKE ! ss_stage u \<in> set HANDSHAKE" by (intro nth_mem) (simp add: HANDSHAKE_def)
    moreover have "''STOP'' = HANDSHAKE ! ss_stage u" using handshake_step(1) [OF a(1) stage] assms(2) by simp
    ultimately have "''STOP'' \<in> set HANDSHAKE" by (simp only:)
    then show False by (simp add: HANDSHAKE_def)
  qed
  moreover from a(1) obtain kind body x where "ditem frame ''message_type'' = Inr kind"
    "(if ss_stage u < 4 then handshake now kind body d u else after_handshake kind u) = Inr x" "v = count_frame d x"
    by (rule accept_Inr)
  ultimately have "ss_stage v = 5"
    using assms(2) by (auto simp: frame_kind_def dget_def ditem_eq_Inr after_handshake_def count_frame_def split: if_splits)
  with accept_frame(7) [OF a(2)] show False by simp
qed

theorem stop_is_final_witness: "drop 5 demo_talk = []"
proof -
  obtain t where t: "converse (demo_session ''BACKEND'') demo_talk = Inr t" using demo_talks_all by blast
  have "demo_talk = take 4 demo_talk @ (0, demo_frame True 3 ''STOP'' [], True) # drop 5 demo_talk"
    by (simp add: demo_talk_def)
  with t show ?thesis
    by (intro stop_is_final [of "demo_session ''BACKEND''" "take 4 demo_talk" 0 "demo_frame True 3 ''STOP'' []" True _ t])
      (simp_all add: frame_kind_def demo_frame_def)
qed

text \<open>The two ends of a session never diverge: when they are in step and one of them sends a
  frame, the other accepts it (within the five seconds while the handshake runs), and they are in
  step again.\<close>

theorem sent_frame_keeps_peers_in_step:
  assumes "peers a b" and "accept now frame False a = Inr a'" and "ss_stage a < 4 \<Longrightarrow> later - ss_started b \<le> 5"
  shows "\<exists>b'. accept later frame True b = Inr b' \<and> peers a' b'"
  by (rule accept_peer [OF assms])

theorem sent_frame_keeps_peers_in_step_witness:
  "\<exists>a' b'. accept 0 (demo_frame True 1 ''HELLO'' demo_hello) False (demo_session ''CLIENT'') = Inr a' \<and>
     accept 1 (demo_frame True 1 ''HELLO'' demo_hello) True (demo_session ''BACKEND'') = Inr b' \<and> peers a' b'"
proof -
  have "peers (demo_session ''CLIENT'') (demo_session ''BACKEND'')"
    by (simp add: peers_def demo_session_def)
  moreover obtain a' where a': "accept 0 (demo_frame True 1 ''HELLO'' demo_hello) False (demo_session ''CLIENT'') = Inr a'"
    by (simp add: demo_defs demo_nonce_valid)
  ultimately show ?thesis
    using sent_frame_keeps_peers_in_step [of "demo_session ''CLIENT''" "demo_session ''BACKEND''" 0
        "demo_frame True 1 ''HELLO'' demo_hello" a' 1]
    by (auto simp: demo_session_def)
qed

text \<open>A session accepts exactly the nonces that \<open>secrets.token_urlsafe(32)\<close> can make: the
  unpadded URL-safe Base64 of some thirty-two bytes, and nothing else that merely decodes.\<close>

theorem nonce_is_a_token:
  "valid_nonce (JStr s) = Inr () \<longleftrightarrow> (\<exists>bs. length bs = 32 \<and> list_all (\<lambda>b. b < 256) bs \<and> s = token_urlsafe bs)"
proof
  assume "valid_nonce (JStr s) = Inr ()"
  then obtain bs where "urlsafe_b64decode (s @ ''='') = Inr bs" "length bs = 32" "s = token_urlsafe bs"
    by (auto simp: valid_nonce_def token_urlsafe_def)
  with decoded_bytes show "\<exists>bs. length bs = 32 \<and> list_all (\<lambda>b. b < 256) bs \<and> s = token_urlsafe bs" by blast
next
  assume "\<exists>bs. length bs = 32 \<and> list_all (\<lambda>b. b < 256) bs \<and> s = token_urlsafe bs"
  then obtain bs where bs: "length bs = 32" "list_all (\<lambda>b. b < 256) bs" "s = token_urlsafe bs" by blast
  then have "urlsafe_b64decode (s @ ''='') = Inr bs" by (simp add: decode_token)
  with bs show "valid_nonce (JStr s) = Inr ()" by (simp add: valid_nonce_def token_urlsafe_def)
qed

section \<open>Bytes on the wire\<close>

text \<open>A stand-in printer that knows the three forms of one frame, and the reader of the signed one.\<close>

definition demo_unsigned :: obj where
  "demo_unsigned = outgoing_frame (demo_session ''CLIENT'') ''HELLO'' demo_hello"

definition demo_with_mac :: "string \<Rightarrow> obj" where
  "demo_with_mac mac = demo_unsigned @ [(''mac'', JStr mac)]"

definition demo_mac :: string where
  "demo_mac = replicate 64 CHR ''a''"

definition demo_print :: "json \<Rightarrow> string res" where
  "demo_print v = (if norm v = norm (JObj demo_unsigned) then Inr ''unsign''
     else if norm v = norm (JObj (demo_with_mac (replicate 64 CHR ''0''))) then Inr ''zeroed''
     else if norm v = norm (JObj (demo_with_mac demo_mac)) then Inr ''signed'' else Inl TypeError)"

definition demo_codec :: ext where
  "demo_codec = \<lparr>json_loads = (\<lambda>s. if s = ''signed'' then Some (JObj (demo_with_mac demo_mac))
       else if s = ''zeroed'' then Some (JObj (demo_with_mac (replicate 64 CHR ''0'')))
       else if s = ''unsign'' then Some (JObj demo_unsigned) else None),
     nfc = (\<lambda>s. s), sha256 = demo_hash, jcs = demo_print\<rparr>"

definition demo_wire :: wire_env where
  "demo_wire = \<lparr>run_side = \<lparr>store_side = demo_env\<lparr>base := demo_codec\<rparr>, context_schema = is_dict\<rparr>,
     frame_schema = is_dict, hmac_sha256 = (\<lambda>key message. demo_mac)\<rparr>"

definition demo_key32 :: string where
  "demo_key32 = replicate 32 CHR ''k''"

lemma demo_wire_primitives:
  "jcs (primitives demo_wire) = demo_print" "frame_schema demo_wire = is_dict" "hmac_sha256 demo_wire key m = demo_mac"
  "json_loads (primitives demo_wire) s = (if s = ''signed'' then Some (JObj (demo_with_mac demo_mac))
     else if s = ''zeroed'' then Some (JObj (demo_with_mac (replicate 64 CHR ''0'')))
     else if s = ''unsign'' then Some (JObj demo_unsigned) else None)"
  "nfc (primitives demo_wire) s = s"
  by (simp_all add: demo_wire_def demo_codec_def)


lemma demo_mac_length: "length (demo_with_mac m) = 7" "length demo_unsigned = 6"
  by (simp_all add: demo_with_mac_def demo_unsigned_def outgoing_frame_def)

lemma demo_mac_field: "dict_ok (demo_with_mac m)" "map_of (demo_with_mac m) ''mac'' = Some (JStr m)"
  by (simp_all add: demo_with_mac_def demo_unsigned_def outgoing_frame_def dict_ok_def)

lemma demo_mac_norm: "norm (JObj (demo_with_mac m)) = norm (JObj (demo_with_mac m')) \<longleftrightarrow> m = m'"
  using norm_same_dict [OF _ demo_mac_field(1) demo_mac_field(1), of m m']
    same_dict_str [of "demo_with_mac m" "demo_with_mac m'" "''mac''" m] demo_mac_field(2) by auto

lemma demo_norms:
  "norm (JObj (demo_with_mac m)) \<noteq> norm (JObj demo_unsigned)" "norm (JObj demo_unsigned) \<noteq> norm (JObj (demo_with_mac m))"
  using norm_length [of "demo_with_mac m" demo_unsigned] norm_length [of demo_unsigned "demo_with_mac m"] demo_mac_length
  by (auto simp del: norm.simps)

lemma demo_prints:
  "demo_print (JObj demo_unsigned) = Inr ''unsign''"
  "demo_print (JObj (demo_with_mac (replicate 64 CHR ''0''))) = Inr ''zeroed''"
  "demo_print (JObj (demo_with_mac demo_mac)) = Inr ''signed''"
proof -
  have m: "demo_mac \<noteq> replicate 64 CHR ''0''" by code_simp
  show "demo_print (JObj demo_unsigned) = Inr ''unsign''"
    "demo_print (JObj (demo_with_mac (replicate 64 CHR ''0''))) = Inr ''zeroed''"
    "demo_print (JObj (demo_with_mac demo_mac)) = Inr ''signed''"
    unfolding demo_print_def using demo_norms demo_mac_norm m by (simp_all only: if_True if_False simp_thms)
qed

lemma demo_wire_valid:
  "demo_print (JObj (demo_with_mac m)) = Inr bytes \<Longrightarrow> length bytes \<le> 262144 \<Longrightarrow>
   validate_frame demo_wire (JObj (demo_with_mac m)) = Inr ()"
  using parse_int_str_int [of 1]
  by (simp add: validate_frame_def recast_def frame_checks_def demo_wire_primitives demo_with_mac_def demo_unsigned_def
      outgoing_frame_def str_item_def MAX_INTEGER_def demo_session_def)

lemma demo_sends:
  "\<exists>t. send demo_wire 0 ''HELLO'' demo_hello demo_key32 (demo_session ''CLIENT'') = Inr (''signed'', t)"
proof -
  obtain t where t: "accept 0 demo_unsigned False (demo_session ''CLIENT'') = Inr t"
    by (simp add: demo_unsigned_def outgoing_frame_def demo_defs demo_nonce_valid)
  have "\<not> dhas demo_unsigned ''mac''" by (simp add: demo_unsigned_def outgoing_frame_def)
  moreover have "dput ''mac'' (JStr demo_mac) (demo_unsigned @ [(''mac'', JStr z)]) = demo_with_mac demo_mac" for z
    by (simp add: demo_unsigned_def outgoing_frame_def demo_with_mac_def)
  ultimately have "encode_frame demo_wire demo_unsigned demo_key32 = Inr ''signed''"
    using demo_prints(1,3) demo_wire_valid [OF demo_prints(2)]
    by (simp add: encode_frame_def demo_key32_def frame_mac_def demo_wire_primitives demo_with_mac_def)
  with t show ?thesis by (simp add: send_def demo_unsigned_def [symmetric])
qed

lemma demo_wire_unicode: "unicode_ok (primitives demo_wire) v"
  by (induction v) (auto simp: demo_wire_primitives list_all_iff)

lemma demo_unique: "unique_names (JObj demo_unsigned)" "unique_names (JObj (demo_with_mac m))"
  by (simp_all add: demo_with_mac_def demo_unsigned_def outgoing_frame_def demo_hello_def demo_nonce_def)

lemma demo_parses:
  "parse_strict_json (primitives demo_wire) s = (if s = ''signed'' then Inr (JObj (demo_with_mac demo_mac))
     else if s = ''zeroed'' then Inr (JObj (demo_with_mac (replicate 64 CHR ''0'')))
     else if s = ''unsign'' then Inr (JObj demo_unsigned) else Inl (CanonicalError ''MALFORMED_UTF8_OR_JSON''))"
  using demo_unique demo_wire_unicode
  by (auto simp: parse_strict_json_def demo_wire_primitives starts_with_def UTF8_BOM_def validate_unicode_def
      simp del: unicode_ok.simps unique_names.simps)

lemma demo_reads: "parse_strict_json (primitives demo_wire) ''signed'' = Inr (JObj (demo_with_mac demo_mac))"
  by (simp add: demo_parses)

lemma demo_canonical: "canonical_printer (primitives demo_wire)"
  unfolding canonical_printer_def demo_parses
  by (auto simp: demo_wire_primitives demo_print_def simp del: norm.simps unique_names.simps unicode_ok.simps split: if_splits)

lemma norm_kinds: "norm v = norm w \<Longrightarrow> is_dict v = is_dict w"
  by (cases v; cases w) auto

lemma demo_library: "wire_library demo_wire"
proof -
  have hex: "hex64 demo_mac" by code_simp
  have len: "length s = length t" if "demo_print v = Inr s" "demo_print w = Inr t" for v w s t
    using that by (auto simp: demo_print_def split: if_splits)
  have raw: "raw_schema (store_side (run_side demo_wire)) = is_dict" by (simp add: demo_wire_def demo_env_fields)
  show ?thesis
    unfolding wire_library_def demo_wire_primitives raw
  proof (intro conjI allI impI)
    show "is_dict v = is_dict w" if "norm v = norm w" for v w using norm_kinds [OF that] .
    then show "is_dict v = is_dict w" if "norm v = norm w" for v w using that .
    show "hex64 demo_mac" by (rule hex)
    show "length s = length t" if "demo_print (JObj (d @ [(''mac'', JStr m)])) = Inr s" "demo_print (JObj (d @ [(''mac'', JStr n)])) = Inr t" for d m n s t
      using len [OF that] .
  qed simp_all
qed

text \<open>C11: What one peer sends, the other verifies: the bytes of \<open>send\<close> pass \<open>verify_frame\<close> under the same
  key and leave the two sessions in step. The checks that the frame passed before it was sent are all passed again on
  arrival, although it then carries its code and its names are sorted. The printer is canonical, the JSON Schema validator, HMAC
  and normalization do what \<open>wire_library\<close> states, and the frame is in normal form, as strict reading demands.\<close>

theorem sent_bytes_are_verified:
  assumes "peers a b" and "send W now kind body key a = Inr (bytes, a')"
    and "ss_stage a < 4 \<Longrightarrow> later - ss_started b \<le> 5" and "canonical_printer (primitives W)" and "wire_library W"
    and "unique_names (JObj body)" and "unicode_ok (primitives W) (JObj (outgoing_frame a kind body))"
  shows "\<exists>frame b'. verify_frame W later bytes key b = Inr (frame, b') \<and> peers a' b'"
  by (rule verify_sent [OF assms])

theorem sent_bytes_are_verified_witness:
  "\<exists>frame b'. verify_frame demo_wire 1 ''signed'' demo_key32 (demo_session ''BACKEND'') = Inr (frame, b')"
proof -
  obtain t where s: "send demo_wire 0 ''HELLO'' demo_hello demo_key32 (demo_session ''CLIENT'') = Inr (''signed'', t)"
    using demo_sends by blast
  have p: "peers (demo_session ''CLIENT'') (demo_session ''BACKEND'')" by (simp add: peers_def demo_session_def)
  have u: "unique_names (JObj demo_hello)" by (simp add: demo_hello_def demo_nonce_def)
  from sent_bytes_are_verified [OF p s _ demo_canonical demo_library u demo_wire_unicode, of 1] show ?thesis by (auto simp: demo_session_def)
qed

end
