(* ===== verification/Receiver_Props.thy ===== *)
theory Receiver_Props
  imports Receiver_Laws Journal_Props Session_Props
begin

text \<open>
  The properties of the receiver.
\<close>

section \<open>A receiver at work\<close>

definition demo_receiver :: receiver where
  "demo_receiver = new_receiver ((demo_journal [] [] [])\<lparr>jn_context := JObj [(''allowed_extension_origin'', JStr ''chrome'')]\<rparr>)"

definition demo_upgraded :: receiver where
  "demo_upgraded = demo_receiver\<lparr>rv_reserved := [7]\<rparr>"

lemma demo_upgrade: "request (\<lambda>_. False) 7 ''/offline'' [''127.0.0.1:8765''] [''chrome''] demo_receiver = (Inr Upgrade, demo_upgraded)"
  by (simp add: request_def http_bound_def demo_receiver_def demo_upgraded_def new_receiver_def ditem_def)

lemma demo_reaches: "receiver_reaches W keys ob demo_receiver demo_upgraded"
  by (rule receiver_reaches.step [OF receiver_reaches.start receiver_step.upgrade [OF demo_upgrade]])

section \<open>Connections\<close>

text \<open>C12: In every state the receiver reaches, at most two sockets are reserved; every ready connection has
  completed the handshake of a session that the key provider knows, is marked used, and is shared with
  no other ready connection; and the active socket is one of them.\<close>

theorem receiver_connections_are_sound:
  assumes "receiver_reaches W keys ob (new_receiver j) r"
  shows "length (rv_reserved r) \<le> 2 \<and>
    (\<forall>cn \<in> ran (rv_ready r). ready (cn_session cn) \<and> ss_id (cn_session cn) \<in> set (rv_used r) \<and>
       keys (ss_id (cn_session cn)) = Some (cn_key cn)) \<and>
    inj_on (\<lambda>c. ss_id (cn_session (the (rv_ready r c)))) (dom (rv_ready r)) \<and>
    (\<forall>c. rv_active r = Some c \<longrightarrow> c \<in> dom (rv_ready r))"
  using sound_reaches [OF assms sound_new] unfolding receiver_sound_def live_def apart_def by blast

theorem receiver_connections_are_sound_witness: "length (rv_reserved demo_upgraded) \<le> 2"
  using receiver_connections_are_sound [OF demo_reaches [unfolded demo_receiver_def]] by blast

lemma used_reaches: "receiver_reaches W keys ob r s \<Longrightarrow> receiver_sound keys r \<Longrightarrow>
    receiver_sound keys s \<and> set (rv_used r) \<subseteq> set (rv_used s) \<and> keeps (rv_journal r) (rv_journal s)"
proof (induction rule: receiver_reaches.induct)
  case start
  then show ?case using keeps_refl by (simp add: reflpD)
next
  case (step s t)
  then have S: "receiver_sound keys s" "keeps (rv_journal r) (rv_journal s)" "set (rv_used r) \<subseteq> set (rv_used s)" by simp_all
  note J = step_journal [OF step.hyps(2) S(1)]
  show ?case using sound_step [OF step.hyps(2) S(1)] transpD [OF keeps_trans S(2) J(1)] subset_trans [OF S(3) J(3)] by blast
qed

text \<open>A session identifier is used once: after a socket has presented it in an authenticated first
  frame, no later handshake in that session is answered, whatever the peer sends; the socket is closed.\<close>

theorem used_session_is_refused:
  assumes "receiver_sound keys r" and "sid \<in> set (rv_used r)" and "receiver_reaches W keys ob r s"
    and "parse_strict_json (primitives W) data = Inr (JObj f)" and "dget f ''session_id'' = JStr sid"
  shows "open_connection W keys c deadline now later token data second_data s = ([], reject c s)"
proof -
  have used: "sid \<in> set (rv_used s)" using used_reaches [OF assms(3,1)] assms(2) by blast
  have "str_item (JObj f) ''session_id'' = Inr x \<Longrightarrow> x = sid" for x
    using assms(5) by (auto simp: str_item_def ditem_def dget_def split: option.splits json.splits)
  with assms(4) used have "hello W keys (jn_context (rv_journal s)) (rv_used s) deadline now data \<noteq> Inr cn" for cn
    by (auto simp: hello_def split: option.splits)
  then obtain e where "hello W keys (jn_context (rv_journal s)) (rv_used s) deadline now data = Inl e"
    by (cases "hello W keys (jn_context (rv_journal s)) (rv_used s) deadline now data") auto
  then show ?thesis by (simp add: open_connection_def)
qed

theorem used_session_is_refused_witness:
  "open_connection demo_wire (\<lambda>_. Some demo_key32) 7 5 0 1 ''token'' ''signed'' [] (demo_receiver\<lparr>rv_used := [''session'']\<rparr>) =
     ([], reject 7 (demo_receiver\<lparr>rv_used := [''session'']\<rparr>))"
proof (rule used_session_is_refused [OF _ _ receiver_reaches.start demo_reads])
  show "receiver_sound (\<lambda>_. Some demo_key32) (demo_receiver\<lparr>rv_used := [''session'']\<rparr>)"
    by (simp add: receiver_sound_def demo_receiver_def new_receiver_def apart_def dom_def)
  show "''session'' \<in> set (rv_used (demo_receiver\<lparr>rv_used := [''session'']\<rparr>))" by simp
  show "dget (demo_with_mac demo_mac) ''session_id'' = JStr ''session''"
    by (simp add: demo_with_mac_def demo_unsigned_def outgoing_frame_def demo_session_def)
qed

text \<open>Whatever sockets come, send and go, the receiver only extends the journal of the run: whole
  lines and kept files stay; and a frame on a socket that is not the active one leaves it unchanged.\<close>

theorem receiver_only_extends_the_journal:
  assumes "receiver_reaches W keys ob (new_receiver j) r"
  shows "prefix (whole_lines (file_data j)) (whole_lines (file_data (rv_journal r))) \<and>
    (jn_files j)(RECEIVE := None) \<subseteq>\<^sub>m jn_files (rv_journal r) \<and>
    (rv_active r \<noteq> Some c \<longrightarrow> rv_journal (snd (frame_arrives W ob c elapsed now data r)) = rv_journal r)"
proof -
  note S = sound_reaches [OF assms sound_new]
  have "keeps j (rv_journal r)" using used_reaches [OF assms sound_new] by (simp add: new_receiver_def)
  moreover have "rv_journal (snd (frame_arrives W ob c elapsed now data r)) = rv_journal r" if a: "rv_active r \<noteq> Some c"
  proof -
    obtain out r' where f: "frame_arrives W ob c elapsed now data r = (out, r')" by force
    have "\<forall>cn. rv_ready r c = Some cn \<longrightarrow> ready (cn_session cn)" using S by (auto simp: receiver_sound_def live_def ran_def)
    with f have "rv_journal r' = rv_journal r" by (cases rule: frame_cases) (use a in auto)
    with f show ?thesis by simp
  qed
  ultimately show ?thesis by (auto simp: keeps_def map_le_def)
qed

theorem receiver_only_extends_the_journal_witness:
  "rv_journal (snd (frame_arrives demo_wire None 3 0 0 ''signed'' demo_upgraded)) = rv_journal demo_upgraded"
  using receiver_only_extends_the_journal [OF demo_reaches [unfolded demo_receiver_def], of 3]
  by (simp add: demo_upgraded_def demo_receiver_def new_receiver_def)

section \<open>Acknowledgements\<close>

lemma connected: "connect E s = Inr d \<Longrightarrow> d = contents s"
  by (auto simp: connect_def)

lemma find_mem: "List.find p xs = Some x \<Longrightarrow> x \<in> set xs \<and> p x"
  by (auto simp: find_Some_iff)

lemma append_row_store: "moves (\<lambda>s t. jn_store t = jn_store s) (append_row X value)"
proof -
  have R: "transp (\<lambda>s t. jn_store t = jn_store s)" "reflp (\<lambda>s t. jn_store t = jn_store s)"
    by (simp_all add: transp_def reflp_def)
  have "moves (\<lambda>s t. jn_store t = jn_store s) (rows X)" "moves (\<lambda>s t. jn_store t = jn_store s) open_append"
    by (auto simp: moves_def rows_def open_append_def Let_def split: sum.splits option.splits)
  moreover have "moves (\<lambda>s t. jn_store t = jn_store s) (modS (write_row e rs row))" for e rs row
    by (simp add: moves_modS write_row_def)
  ultimately show ?thesis
    unfolding append_row_def Let_def by (intro moves_bindS [OF R(1)] moves_pure(3) [OF R(2)])
qed

lemma confirm_stored:
  assumes "record_ack_confirmation E g (str_int n) h s = (Inr (), t)"
  shows "\<exists>a \<in> set (acks (contents (jn_store t))). o_seq a = n \<and> o_cursor a = h"
proof -
  from assms obtain found where f: "durable_ack E (jn_store s) g (str_int n) h = Inr found"
    and r: "(case found of None \<Rightarrow> failS (ValueError ''E_OFFLINE_ACK_BINDING'')
      | Some a \<Rightarrow> bindS (confirm E a) (\<lambda>_. append_row (codec E) (confirmation_row g (str_int n) h))) s = (Inr (), t)"
    unfolding record_ack_confirmation_def by (auto simp: bindS_Inr)
  then obtain a where found: "found = Some a" by (cases found) auto
  from r obtain k s1 where c: "confirm E a s = (Inr k, s1)" and w: "append_row (codec E) (confirmation_row g (str_int n) h) s1 = (Inr (), t)"
    unfolding found option.case bindS_Inr by blast
  from f found have d: "durable_ack E (jn_store s) g (str_int n) h = Inr (Some a)" by simp
  have a: "a \<in> set (acks (contents (jn_store s)))" "o_seq a = n" "o_cursor a = h"
    using d by (auto simp: durable_ack_def parse_int_str_int dest!: connected find_mem)
  from c obtain now where k: "confirm_ack (store_side E) now a (jn_store s) = (Inr k, jn_store s1)"
    by (auto simp: confirm_def bindS_def tick_def split: prod.splits)
  have "store_extends (jn_store s) (serve (store_side E) (Confirm now a) (jn_store s))" by (rule ingest.grows_serve)
  with k have "store_extends (jn_store s) (jn_store s1)" by (simp add: serve_def)
  moreover have "jn_store t = jn_store s1"
    using moves_Inr [OF append_row_store w] .
  ultimately show ?thesis using a
    by (auto simp: store_extends_def extends_def prefix_def)
qed

text \<open>C13: The receiver acknowledges only what is durable: when it composes an \<open>ACK\<close>, the store holds an
  acknowledgement row with exactly the sequence and cursor hash it announces.\<close>

theorem sent_ack_is_durable:
  assumes "acknowledge E body identity a s = (Inr (kind, message), t)"
  shows "kind = ''ACK'' \<and> (\<exists>r \<in> set (acks (contents (jn_store t))).
    message = identity @ [(''highest_contiguous_sequence'', JStr (str_int (o_seq r))), (''cursor_hash'', JStr (o_cursor r))])"
proof -
  from assms obtain n d h known s1 where i: "int_item a ''highest_contiguous_sequence'' = Inr n" "str_item a ''cursor_hash'' = Inr h"
    and d: "connect (store_side E) (jn_store s) = Inr d"
    and k: "(case confirmed_sequence d of None \<Rightarrow> retS False
       | Some confirmed \<Rightarrow> if n \<le> confirmed then bindS (liftS (stored_ack E d a)) (\<lambda>_. retS True) else retS False) s = (Inr known, s1)"
    and r: "(if known then retS () else bindS (liftS (str_item body ''generation'')) (\<lambda>g. record_ack_confirmation E g (str_int n) h)) s1 = (Inr (), t)"
    and m: "kind = ''ACK''" "message = identity @ [(''highest_contiguous_sequence'', JStr (str_int n)), (''cursor_hash'', JStr h)]"
    unfolding acknowledge_def by (auto simp: bindS_Inr)
  have "\<exists>r \<in> set (acks (contents (jn_store t))). o_seq r = n \<and> o_cursor r = h"
  proof (cases known)
    case False
    with r obtain g where "record_ack_confirmation E g (str_int n) h s1 = (Inr (), t)" by (auto simp: bindS_Inr)
    then show ?thesis by (rule confirm_stored)
  next
    case True
    with k r have t: "t = s" "stored_ack E d a = Inr ()"
      by (auto simp: bindS_Inr split: option.splits if_splits)
    obtain x id where f: "fetchone (\<lambda>r. Some (o_id r) = id) (acks d) = Some x" and e: "py_eq (JObj (ack_dict x)) a"
      using t(2) by (auto simp: stored_ack_def split: option.splits)
    have x: "x \<in> set (acks d)" "py_eq (JObj (ack_dict x)) a" using find_mem [OF f] e by simp_all
    have mem: "(''highest_contiguous_sequence'', JInt (o_seq x)) \<in> set (ack_dict x)"
      "(''cursor_hash'', JStr (o_cursor x)) \<in> set (ack_dict x)" by (auto simp: ack_dict_def case_prod_beta)
    obtain e where e: "a = JObj e" "\<forall>k v. (k, v) \<in> set (ack_dict x) \<longrightarrow> (\<exists>y. map_of e k = Some y \<and> py_eq v y)"
      using py_eq_obj [OF x(2)] by (elim exE conjE)
    from e(2) [rule_format, OF mem(1)] e(2) [rule_format, OF mem(2)] i e(1)
    have "o_seq x = n" "o_cursor x = h"
      by (auto simp: int_item_def str_item_def ditem_def split: option.splits json.splits)
    with x(1) t(1) connected [OF d] show ?thesis by blast
  qed
  with m show ?thesis by blast
qed

definition demo_confirmation :: ack_cursor where
  "demo_confirmation = confirmation (demo_ack 5) None 6"

definition demo_confirmed_db :: db where
  "demo_confirmed_db = (demo_db1 5)\<lparr>ack_cursors := [demo_confirmation]\<rparr>"

lemma demo_db1_tables: "acks (demo_db1 5) = [demo_ack 5]" "ack_cursors (demo_db1 5) = []"
  by (simp_all add: demo_db1_def chain_rows_def demo_db_tables demo_ack_def)

lemma demo_db1_parts:
  "raws (demo_db1 5) = [applied_raw demo_key 1 ''o1'' (demo_content ''1'' ''o1'') H0 (demo_digest ''1'') 5]"
  "cursors (demo_db1 5) = [applied_cursor demo_key 1 (demo_content ''1'' ''o1'') H0 (demo_digest ''1'') 5]"
  "generations (demo_db1 5) = [demo_generation]"
  by (simp_all add: demo_db1_def chain_rows_def demo_db_tables)

lemma demo_confirm_tx: "confirm_tx demo_env 6 (demo_ack 5) runtime_authorizer (demo_db1 5) = Inr (demo_confirmation, demo_confirmed_db)"
proof -
  have "top_ack (demo_db1 5) k = None" for k by (simp add: top_ack_def fetch_highest_def demo_db1_tables)
  moreover have "insert_ack_cursor demo_confirmation (demo_db1 5) = Inr demo_confirmed_db"
    by (simp add: insert_ack_cursor_def ack_cursor_guard_def statement_defs demo_confirmation_def confirmation_def demo_confirmed_db_def
        demo_db1_tables demo_ack_def applied_ack_def demo_key_def demo_hex demo_db1_parts now_ack_cursor_def has_generation_def
        applied_raw_def applied_cursor_def demo_generation_def cong: eval_congs)
  moreover have "ack_cursors demo_confirmed_db = [demo_confirmation]" "k_id demo_confirmation = ''confirmation:'' @ o_cursor (demo_ack 5)"
    by (simp_all add: demo_confirmed_db_def demo_confirmation_def confirmation_def)
  ultimately show ?thesis
    by (simp add: confirm_tx_def demo_env_fields demo_store1_valid demo_db1_tables demo_confirmation_def [symmetric]
        authorized_def runtime_authorizer_def)
qed

text \<open>The confirmation of the first acknowledgement of the concrete run.\<close>

lemma demo_confirm: "confirm_ack demo_env 6 (demo_ack 5) (demo_store1 5) = (Inr demo_confirmation, (demo_store1 5)\<lparr>contents := demo_confirmed_db\<rparr>)"
proof -
  have f: "foreign_keys_ok (demo_db1 5)" using demo_first_tx [of 5] by simp
  have "now_ack_cursor demo_confirmed_db demo_confirmation"
    by (simp add: now_ack_cursor_def has_generation_def demo_confirmed_db_def demo_db1_parts demo_generation_def demo_confirmation_def
        confirmation_def demo_ack_def applied_ack_def demo_key_def nullable_def)
  then have "foreign_keys_ok demo_confirmed_db"
    by (intro foreign_keys_grow [OF f]) (auto simp: covers_def demo_confirmed_db_def has_run_def has_generation_def
        has_epoch_def has_shock_def has_controller_def has_gap_def has_transition_def has_raw_def has_app_def has_rev_def has_cursor_def
        demo_db1_tables)
  moreover have "authorizer_of (demo_store1 5) d = runtime_authorizer" for d
    using fresh_verified(3) [OF f] by (simp add: demo_store1_def demo_store_def)
  ultimately show ?thesis using demo_confirm_tx
    by (simp add: confirm_ack_def transaction_Inr demo_store1_connect demo_store_contents)
qed

definition demo_settled :: journal where
  "demo_settled = (demo_journal ''line'' ''line'' [demo_received])\<lparr>jn_clock := (\<lambda>_. 6)\<rparr>"

theorem sent_ack_is_durable_witness:
  "\<exists>m t. acknowledge demo_offline (JObj [(''generation'', JStr ''0'')]) [] (JObj (ack_dict (demo_ack 5))) demo_settled = (Inr m, t) \<and>
     (\<exists>r \<in> set (acks (contents (jn_store t))).
        m = (''ACK'', [(''highest_contiguous_sequence'', JStr (str_int (o_seq r))), (''cursor_hash'', JStr (o_cursor r))]))"
proof -
  let ?a = "demo_ack 5"
  have fields: "o_seq ?a = 1" "o_cursor ?a = demo_digest ''1''" "snd (o_key ?a) = 0"
    by (simp_all add: demo_ack_def applied_ack_def demo_key_def)
  have store: "jn_store demo_settled = demo_store1 5" by (simp add: demo_settled_def demo_journal_def)
  have "durable_ack demo_offline (demo_store1 5) ''0'' (str_int 1) (demo_digest ''1'') = Inr (Some ?a)"
    by (simp add: durable_ack_def demo_journal_fields demo_store1_connect demo_ints sql_int_def int64_def demo_db1_tables fields)
  moreover obtain s1 where c: "confirm demo_offline ?a demo_settled = (Inr demo_confirmation, s1)"
    and s1: "s1 = demo_settled\<lparr>jn_ticks := 1, jn_store := (demo_store1 5)\<lparr>contents := demo_confirmed_db\<rparr>\<rparr>"
    by (simp add: confirm_def bindS_step tick_def store demo_journal_fields demo_settled_def demo_journal_def demo_confirm)
  moreover have "\<exists>t. append_row demo_primitives v s1 = (Inr (), t)" for v
  proof -
    have "clean s1" "jn_files s1 RECEIVE = Some (plain_file (jn_verified s1))" "\<not> jn_linked s1" "jn_verified s1 = ''line''"
      by (simp_all add: s1 demo_settled_def demo_journal_def clean_def file_data_def plain_file_def)
    from demo_append [OF this(1-3), of v] this(4) show ?thesis by (simp add: Let_def)
  qed
  ultimately have "\<exists>t. record_ack_confirmation demo_offline ''0'' (str_int 1) (demo_digest ''1'') demo_settled = (Inr (), t)"
    by (simp add: record_ack_confirmation_def store bindS_step demo_journal_fields demo_env_fields)
  then obtain t where r: "record_ack_confirmation demo_offline ''0'' (str_int 1) (demo_digest ''1'') demo_settled = (Inr (), t)" by blast
  have items: "int_item (JObj (ack_dict ?a)) ''highest_contiguous_sequence'' = Inr 1"
    "str_item (JObj (ack_dict ?a)) ''cursor_hash'' = Inr (demo_digest ''1'')"
    "str_item (JObj [(''generation'', JStr ''0'')]) ''generation'' = Inr ''0''"
    by (simp_all add: demo_ack_dict int_item_def str_item_def ditem_def)
  have "acknowledge demo_offline (JObj [(''generation'', JStr ''0'')]) [] (JObj (ack_dict ?a)) demo_settled =
      (Inr (''ACK'', [(''highest_contiguous_sequence'', JStr (str_int 1)), (''cursor_hash'', JStr (demo_digest ''1''))]), t)"
    using r by (simp add: acknowledge_def items store demo_journal_fields demo_store1_connect confirmed_sequence_def demo_db1_tables
        bindS_step)
  from this sent_ack_is_durable [OF this] show ?thesis by simp
qed

end
