(* ===== verification/Py_Time.thy ===== *)
theory Py_Time
  imports Py_Prelude
begin

text \<open>
  Python's \<open>datetime.fromisoformat\<close> on texts with an explicit offset, as the checks of the repository
  use it: a date \<^verbatim>\<open>YYYY-MM-DD\<close>, one separator character, a time and an offset. An instant is its number
  of microseconds from the start of year 1, UTC. The week-date and digits-only forms, which no artifact
  of the repository uses, are refused here.
\<close>

section \<open>The calendar\<close>

definition leap_year :: "int \<Rightarrow> bool" where
  "leap_year y = (4 dvd y \<and> (\<not> 100 dvd y \<or> 400 dvd y))"

definition days_in_month :: "int \<Rightarrow> int \<Rightarrow> int" where
  "days_in_month y m = (if m = 2 then (if leap_year y then 29 else 28)
     else if m = 4 \<or> m = 6 \<or> m = 9 \<or> m = 11 then 30 else 31)"

definition days_before_year :: "int \<Rightarrow> int" where
  "days_before_year y = (let p = y - 1 in p * 365 + p div 4 - p div 100 + p div 400)"

definition days_before_month :: "int \<Rightarrow> int \<Rightarrow> int" where
  "days_before_month y m = sum_list (map (\<lambda>i. days_in_month y (int i)) [1..<nat m])"

definition date_ordinal :: "int \<Rightarrow> int \<Rightarrow> int \<Rightarrow> int" where
  "date_ordinal y m d = days_before_year y + days_before_month y m + d"

definition valid_date :: "int \<Rightarrow> int \<Rightarrow> int \<Rightarrow> bool" where
  "valid_date y m d = (1 \<le> y \<and> y \<le> 9999 \<and> 1 \<le> m \<and> m \<le> 12 \<and> 1 \<le> d \<and> d \<le> days_in_month y m)"

text \<open>The first and the last microsecond of the calendar.\<close>

definition FIRST_TIME :: int where
  "FIRST_TIME = 86400000000"

definition LAST_TIME :: int where
  "LAST_TIME = 3652059 * 86400000000 + 86399999999"

section \<open>Parsing\<close>

definition BAD_ISO :: exn where
  "BAD_ISO = ValueError ''Invalid isoformat string''"

text \<open>A field of exactly \<open>n\<close> digits and the rest of the text.\<close>

definition number_field :: "nat \<Rightarrow> string \<Rightarrow> (int \<times> string) option" where
  "number_field n s = (let f = take n s in
     if length f = n \<and> list_all is_digit f then map_option (\<lambda>i. (i, drop n s)) (digits_val 0 f) else None)"

definition expect :: "char \<Rightarrow> string \<Rightarrow> string option" where
  "expect c s = (case s of [] \<Rightarrow> None | d # ds \<Rightarrow> if d = c then Some ds else None)"

text \<open>\<^verbatim>\<open>HH[:MM[:SS]]\<close>.\<close>

definition clock_fields :: "string \<Rightarrow> ((int \<times> int \<times> int) \<times> string) option" where
  "clock_fields s = (case number_field 2 s of None \<Rightarrow> None | Some (h, s1) \<Rightarrow>
     (case expect CHR '':'' s1 of None \<Rightarrow> Some ((h, 0, 0), s1) | Some s2 \<Rightarrow>
       (case number_field 2 s2 of None \<Rightarrow> None | Some (m, s3) \<Rightarrow>
         (case expect CHR '':'' s3 of None \<Rightarrow> Some ((h, m, 0), s3) | Some s4 \<Rightarrow>
           (case number_field 2 s4 of None \<Rightarrow> None | Some (sec, s5) \<Rightarrow> Some ((h, m, sec), s5))))))"

text \<open>A fraction after a point or comma: the first six digits count.\<close>

definition fraction :: "string \<Rightarrow> (int \<times> string) option" where
  "fraction s = (case s of
      c # cs \<Rightarrow>
        if c = CHR ''.'' \<or> c = CHR '','' then
          (let ds = takeWhile is_digit cs in
           if ds = [] then None
           else map_option (\<lambda>i. (i, dropWhile is_digit cs)) (digits_val 0 (take 6 (ds @ ''000000''))))
        else Some (0, s)
    | [] \<Rightarrow> Some (0, s))"

definition time_fields :: "string \<Rightarrow> ((int \<times> int \<times> int \<times> int) \<times> string) option" where
  "time_fields s = (case clock_fields s of None \<Rightarrow> None | Some ((h, m, sec), s1) \<Rightarrow>
     (case fraction s1 of None \<Rightarrow> None | Some (us, s2) \<Rightarrow>
       if h \<le> 23 \<and> m \<le> 59 \<and> sec \<le> 59 then Some ((h, m, sec, us), s2) else None))"

definition time_us :: "int \<times> int \<times> int \<times> int \<Rightarrow> int" where
  "time_us t = (case t of (h, m, sec, us) \<Rightarrow> ((h * 60 + m) * 60 + sec) * 1000000 + us)"

text \<open>The offset; \<open>None\<close> inside stands for a text without one.\<close>

definition zone :: "string \<Rightarrow> int option option" where
  "zone s = (case s of [] \<Rightarrow> Some None
    | c # cs \<Rightarrow>
        if c = CHR ''Z'' then (if cs = [] then Some (Some 0) else None)
        else if c = CHR ''+'' \<or> c = CHR ''-'' then
          (case time_fields cs of
             Some (t, []) \<Rightarrow> Some (Some (if c = CHR ''-'' then - time_us t else time_us t))
           | _ \<Rightarrow> None)
        else None)"

definition date_fields :: "string \<Rightarrow> ((int \<times> int \<times> int) \<times> string) option" where
  "date_fields s = (case number_field 4 s of None \<Rightarrow> None | Some (y, s1) \<Rightarrow>
     (case expect CHR ''-'' s1 of None \<Rightarrow> None | Some s2 \<Rightarrow>
       (case number_field 2 s2 of None \<Rightarrow> None | Some (m, s3) \<Rightarrow>
         (case expect CHR ''-'' s3 of None \<Rightarrow> None | Some s4 \<Rightarrow>
           (case number_field 2 s4 of None \<Rightarrow> None | Some (d, s5) \<Rightarrow>
             if valid_date y m d then Some ((y, m, d), s5) else None)))))"

text \<open>The local time in microseconds and the offset, if any. One character of any kind separates date
  and time.\<close>

definition fromisoformat :: "string \<Rightarrow> (int \<times> int option) res" where
  "fromisoformat s = (case date_fields s of
      None \<Rightarrow> Inl BAD_ISO
    | Some ((y, m, d), s1) \<Rightarrow>
        (let day = date_ordinal y m d * 86400000000 in
         case s1 of [] \<Rightarrow> Inr (day, None)
         | _ # s2 \<Rightarrow> (case time_fields s2 of
             None \<Rightarrow> Inl BAD_ISO
           | Some (t, s3) \<Rightarrow> (case zone s3 of
               None \<Rightarrow> Inl BAD_ISO
             | Some z \<Rightarrow> Inr (day + time_us t, z)))))"

text \<open>The instant of a text in UTC, written with a final \<open>Z\<close>: the checks replace it by an offset.\<close>

definition utc_instant :: "string \<Rightarrow> int res" where
  "utc_instant text = bindR (assertR (ends_with text ''Z'')) (\<lambda>_.
     bindR (fromisoformat (butlast text @ ''+00:00'')) (\<lambda>(t, z).
     bindR (assertR (z = Some 0)) (\<lambda>_. Inr t)))"

definition instant :: "json \<Rightarrow> int res" where
  "instant v = bindR (as_string v) utc_instant"

end
