(* ===== verification/Json_Items.thy ===== *)
theory Json_Items
  imports Py_Prelude
begin

text \<open>
  What the checks of JSON documents share: typed items of a dict, literal tables, and checks that return
  the code of the first failure or nothing, and may raise on the way.
\<close>

text \<open>A chain of computations that succeeds, taken apart from the front.\<close>

lemma bindR_E: "bindR m f = Inr y \<Longrightarrow> (\<And>x. m = Inr x \<Longrightarrow> f x = Inr y \<Longrightarrow> P) \<Longrightarrow> P"
  by auto

text \<open>What a container holds is smaller: the recursions over JSON values end.\<close>

lemma size_element: "x \<in> set xs \<Longrightarrow> size x < size (JArr xs)"
  by (simp add: less_Suc_eq_le size_list_estimation')

lemma size_member: "(k, x) \<in> set d \<Longrightarrow> size x < size (JObj d)"
proof -
  assume "(k, x) \<in> set d"
  then have "size x \<le> size_list (size_prod (\<lambda>_. 0) size) d" by (intro size_list_estimation' [of "(k, x)"]) auto
  then show ?thesis by simp
qed

section \<open>Typed items\<close>

definition string_item :: "obj \<Rightarrow> string \<Rightarrow> string res" where
  "string_item d k = bindR (ditem d k) as_string"

definition strings_item :: "obj \<Rightarrow> string \<Rightarrow> string list res" where
  "strings_item d k = bindR (bindR (ditem d k) as_list) (mapR as_string)"

definition array_item :: "obj \<Rightarrow> string \<Rightarrow> json list res" where
  "array_item d k = bindR (ditem d k) as_list"

definition object_item :: "obj \<Rightarrow> string \<Rightarrow> obj res" where
  "object_item d k = bindR (ditem d k) as_object"

definition objects_item :: "obj \<Rightarrow> string \<Rightarrow> obj list res" where
  "objects_item d k = bindR (bindR (ditem d k) as_list) (mapR as_object)"

lemma string_item_Inr: "string_item d k = Inr s \<longleftrightarrow> dget d k = JStr s"
  by (auto simp: string_item_def ditem_def dget_def split: option.splits)

lemma array_item_Inr: "array_item d k = Inr xs \<longleftrightarrow> dget d k = JArr xs"
  by (auto simp: array_item_def ditem_def dget_def split: option.splits)

lemma object_item_Inr: "object_item d k = Inr e \<longleftrightarrow> dget d k = JObj e"
  by (auto simp: object_item_def ditem_def dget_def split: option.splits)

lemma mapR_as_string: "mapR as_string xs = Inr ss \<longleftrightarrow> xs = map JStr ss"
  by (induction xs arbitrary: ss) (auto simp: Cons_eq_map_conv)

lemma mapR_as_object: "mapR as_object xs = Inr ds \<longleftrightarrow> xs = map JObj ds"
  by (induction xs arbitrary: ds) (auto simp: Cons_eq_map_conv)

lemma strings_item_Inr: "strings_item d k = Inr ss \<longleftrightarrow> dget d k = JArr (map JStr ss)"
  by (auto simp: strings_item_def ditem_def dget_def mapR_as_string split: option.splits)

lemma objects_item_Inr: "objects_item d k = Inr ds \<longleftrightarrow> dget d k = JArr (map JObj ds)"
  by (auto simp: objects_item_def ditem_def dget_def mapR_as_object split: option.splits)

text \<open>\<open>d[k]\<close> of a literal table.\<close>

definition table_item :: "(string \<times> 'a) list \<Rightarrow> string \<Rightarrow> 'a res" where
  "table_item d k = (case map_of d k of None \<Rightarrow> Inl (KeyError k) | Some v \<Rightarrow> Inr v)"

lemma table_item_Inr: "table_item d k = Inr v \<longleftrightarrow> map_of d k = Some v"
  by (auto simp: table_item_def split: option.splits)

text \<open>\<^verbatim>\<open>if c: raise ValueError(text)\<close>, where the condition may raise itself.\<close>

definition refuse_if :: "bool res \<Rightarrow> string \<Rightarrow> unit res" where
  "refuse_if c text = bindR c (\<lambda>b. raise_if b (ValueError text))"

lemma refuse_if_Inr [res_elims]: "refuse_if c text = Inr u \<longleftrightarrow> c = Inr False"
  by (auto simp: refuse_if_def)

text \<open>\<^verbatim>\<open>assert d[k] == text\<close>.\<close>

definition assert_text :: "obj \<Rightarrow> string \<Rightarrow> string \<Rightarrow> unit res" where
  "assert_text d k text = bindR (ditem d k) (\<lambda>v. assertR (str_is v text))"

section \<open>Checks\<close>

text \<open>\<open>None\<close>: the check passes; \<open>Some code\<close>: it returns the code of a failure.\<close>

type_synonym check_result = "string option res"

definition passes :: "check_result \<Rightarrow> bool" where
  "passes v \<longleftrightarrow> v = Inr None"

definition fail_if :: "bool res \<Rightarrow> string \<Rightarrow> check_result \<Rightarrow> check_result" where
  "fail_if c code rest = bindR c (\<lambda>b. if b then Inr (Some code) else rest)"

text \<open>\<^verbatim>\<open>error = \<dots>; if error is not None: return error\<close>.\<close>

definition first_of :: "check_result \<Rightarrow> check_result \<Rightarrow> check_result" where
  "first_of v rest = bindR v (\<lambda>e. case e of None \<Rightarrow> rest | Some code \<Rightarrow> Inr (Some code))"

fun each_passes :: "('a \<Rightarrow> check_result) \<Rightarrow> 'a list \<Rightarrow> check_result" where
  "each_passes f [] = Inr None"
| "each_passes f (x # xs) = first_of (f x) (each_passes f xs)"

named_theorems check_rules \<open>what a passed check says\<close>

lemma passes_fail_if [check_rules]: "passes (fail_if c code rest) \<longleftrightarrow> c = Inr False \<and> passes rest"
  by (auto simp: passes_def fail_if_def split: if_splits)

lemma passes_first_of [check_rules]: "passes (first_of v rest) \<longleftrightarrow> passes v \<and> passes rest"
  by (auto simp: passes_def first_of_def split: option.splits)

lemma passes_each [check_rules]: "passes (each_passes f xs) \<longleftrightarrow> (\<forall>x \<in> set xs. passes (f x))"
  by (induction xs) (simp_all add: passes_first_of, simp add: passes_def)

lemma passes_bind [check_rules]: "passes (bindR m f) \<longleftrightarrow> (\<exists>x. m = Inr x \<and> passes (f x))"
  by (auto simp: passes_def)

lemma passes_value [check_rules]: "passes (Inr x) \<longleftrightarrow> x = None"
  and passes_exn [check_rules]: "\<not> passes (Inl e)"
  by (simp_all add: passes_def)

lemma passes_if [check_rules]: "passes (if b then v else w) \<longleftrightarrow> (if b then passes v else passes w)"
  by simp

end
