(* ===== verification/Auth_Keys.thy ===== *)
theory Auth_Keys
  imports Canonical Base64 Py_Time Json_Items
begin

text \<open>
  \<^verbatim>\<open>src/moj_discovery/authorization_semantics.py\<close>, first part: the constants of the contract, verifier
  keys, signatures, and the checks that make a signed record mechanically valid.

  The JSON Schema validator and Ed25519 verification are parameters: \<open>au_schema schema value\<close> is the
  verdict of the validator built from the schema file, \<open>au_ed25519 key signature message\<close> that of
  \<open>Ed25519PublicKey.verify\<close> on the raw key bytes.
\<close>

section \<open>Constants\<close>

definition SIGNATURE_DOMAIN :: string where
  "SIGNATURE_DOMAIN = ''HYBRID-DISCOVERY/v6.2/SIGNATURE/Ed25519/v1'' @ [CHR 0x00]"

definition TEST_TRUST_MODE :: string where
  "TEST_TRUST_MODE = ''RFC8032_TEST_KEY_TEMPORARILY_TRUSTED_FOR_MECHANISM_TEST_ONLY''"

definition ACTIVE_TRUST_MODE :: string where
  "ACTIVE_TRUST_MODE = ''ACTIVE_TRUST_ROOT''"

definition FAILURE_PRECEDENCE :: "string list" where
  "FAILURE_PRECEDENCE =
     [''MALFORMED_UTF8_OR_JSON'', ''DUPLICATE_JSON_KEY'', ''SCHEMA_INVALID'', ''NON_NFC_OR_INVALID_UNICODE'',
      ''UNSUPPORTED_VERSION_OR_ALGORITHM'', ''CONTENT_HASH_MISMATCH'', ''UNTRUSTED_KEY_ID'',
      ''KEY_ROLE_OR_ISSUANCE_INVALID'', ''SIGNATURE_INVALID'', ''PACK_HASH_MISMATCH'', ''BASELINE_MISMATCH'',
      ''BUILD_HASH_MISMATCH'', ''AUDIENCE_MISMATCH'', ''REVOKED'', ''CLOCK_UNTRUSTED'', ''NOT_YET_VALID'', ''EXPIRED'',
      ''PREREQUISITE_GATE_INVALID'', ''SCOPE_BINDING_MISMATCH'', ''CONSUMPTION_STORE_UNAVAILABLE'', ''ALREADY_CONSUMED'',
      ''SERIAL_CONFLICT'', ''LOCAL_STATE_CONFLICT'']"

definition ALLOWED_ROLES :: "(string \<times> string list) list" where
  "ALLOWED_ROLES =
     [(''GateReceipt'', [''PACK_REVIEWER'']), (''DiscoveryRunAuthorization'', [''DISCOVERY_OPERATOR'']),
      (''BodyClassApproval'', [''DISCOVERY_OPERATOR'']), (''ProviderProbeProtocol'', [''PACK_REVIEWER'', ''PROVIDER_OPERATOR'']),
      (''ProviderCallAuthorization'', [''PROVIDER_OPERATOR'']), (''RevocationRecord'', [''REVOCATION_AUTHORITY''])]"

definition EXPECTED_AUDIENCE :: "(string \<times> string) list" where
  "EXPECTED_AUDIENCE =
     [(''GateReceipt'', ''hybrid-discovery:bootstrap-gate:v1''),
      (''DiscoveryRunAuthorization'', ''hybrid-discovery:extension-run-controller:v1''),
      (''BodyClassApproval'', ''hybrid-discovery:body-broker:v1''),
      (''ProviderProbeProtocol'', ''hybrid-discovery:provider-protocol:v1''),
      (''ProviderCallAuthorization'', ''hybrid-discovery:provider-client:v1''),
      (''RevocationRecord'', ''hybrid-discovery:revocation-ledger:v1'')]"

definition TRUST_ROLES :: "string list" where
  "TRUST_ROLES = [''PACK_REVIEWER'', ''DISCOVERY_OPERATOR'', ''PROVIDER_OPERATOR'', ''REVOCATION_AUTHORITY'']"

definition AUDIENCE_ROLE_BINDINGS :: "(string \<times> string list) list" where
  "AUDIENCE_ROLE_BINDINGS =
     [(''hybrid-discovery:bootstrap-gate:v1'', [''PACK_REVIEWER'']),
      (''hybrid-discovery:extension-run-controller:v1'', [''DISCOVERY_OPERATOR'']),
      (''hybrid-discovery:body-broker:v1'', [''DISCOVERY_OPERATOR'']),
      (''hybrid-discovery:provider-protocol:v1'', [''PACK_REVIEWER'', ''PROVIDER_OPERATOR'']),
      (''hybrid-discovery:provider-client:v1'', [''PROVIDER_OPERATOR'']),
      (''hybrid-discovery:revocation-ledger:v1'', [''REVOCATION_AUTHORITY''])]"

section \<open>Bytes\<close>

text \<open>\<open>bytes.fromhex\<close>: pairs of hexadecimal digits, with ASCII blanks between the pairs.\<close>

definition hex_value :: "char \<Rightarrow> nat option" where
  "hex_value c = (let n = (of_char c :: nat) in
     if 48 \<le> n \<and> n \<le> 57 then Some (n - 48)
     else if 97 \<le> n \<and> n \<le> 102 then Some (n - 87)
     else if 65 \<le> n \<and> n \<le> 70 then Some (n - 55)
     else None)"

definition ascii_blank :: "char \<Rightarrow> bool" where
  "ascii_blank c = (let n = (of_char c :: nat) in (9 \<le> n \<and> n \<le> 13) \<or> n = 32)"

fun hex_bytes :: "string \<Rightarrow> string option" where
  "hex_bytes [] = Some []"
| "hex_bytes [c] = (if ascii_blank c then Some [] else None)"
| "hex_bytes (c # d # s) =
     (if ascii_blank c then hex_bytes (d # s)
      else case (hex_value c, hex_value d) of
          (Some h, Some l) \<Rightarrow> map_option (\<lambda>bs. char_of (16 * h + l) # bs) (hex_bytes s)
        | _ \<Rightarrow> None)"

definition bytes_fromhex :: "string \<Rightarrow> string res" where
  "bytes_fromhex s = (case hex_bytes s of None \<Rightarrow> Inl (ValueError ''non-hexadecimal number'') | Some bs \<Rightarrow> Inr bs)"

text \<open>\<open>_decode_base64url\<close>: the characters are checked first, so the strict decoder meets the alphabet
  and the padding only.\<close>

definition base64url_char :: "char \<Rightarrow> bool" where
  "base64url_char c = (let n = (of_char c :: nat) in
     (65 \<le> n \<and> n \<le> 90) \<or> (97 \<le> n \<and> n \<le> 122) \<or> (48 \<le> n \<and> n \<le> 57) \<or> n = 45 \<or> n = 95)"

definition decode_base64url :: "string \<Rightarrow> nat \<Rightarrow> string res" where
  "decode_base64url v expected_length =
     (if \<not> list_all base64url_char v then Inl (ValueError ''invalid unpadded base64url'')
      else case urlsafe_b64decode (v @ replicate ((4 - length v mod 4) mod 4) CHR ''='') of
          Inl _ \<Rightarrow> Inl (ValueError ''invalid unpadded base64url'')
        | Inr decoded \<Rightarrow>
            if length decoded \<noteq> expected_length then Inl (ValueError ''invalid decoded length'')
            else if rstrip_pad (urlsafe_b64encode decoded) \<noteq> v then Inl (ValueError ''noncanonical unpadded base64url'')
            else Inr (map char_of decoded))"

section \<open>Keys\<close>

record auth_env =
  au_codec :: ext
  au_registry :: string
  au_schema :: "obj \<Rightarrow> json \<Rightarrow> bool"
  au_ed25519 :: "string \<Rightarrow> string \<Rightarrow> string \<Rightarrow> bool"

text \<open>\<open>_VerifierKey\<close>; the public key is its raw bytes.\<close>

record verifier_key =
  vk_id :: string
  vk_public :: string
  vk_issuers :: "string list"
  vk_roles :: "string list"
  vk_audiences :: "string list"
  vk_from :: int
  vk_until :: int
  vk_active :: bool
  vk_test_only :: bool

text \<open>What the checks are given besides the records: \<open>validator\<close>, \<open>trust_mode\<close> and \<open>keys\<close>.\<close>

record verifier =
  vf_env :: auth_env
  vf_valid :: "json \<Rightarrow> bool"
  vf_mode :: string
  vf_keys :: "(string \<times> verifier_key) list"

definition trusted :: "verifier \<Rightarrow> verifier_key \<Rightarrow> bool" where
  "trusted V key = ((vf_mode V = TEST_TRUST_MODE \<and> vk_test_only key) \<or> (vf_mode V = ACTIVE_TRUST_MODE \<and> vk_active key))"

definition record_hash :: "verifier \<Rightarrow> string \<Rightarrow> obj \<Rightarrow> string res" where
  "record_hash V record_type r = canonical_content_hash (au_codec (vf_env V)) (au_registry (vf_env V)) record_type (JObj r)"

definition instant_item :: "obj \<Rightarrow> string \<Rightarrow> int res" where
  "instant_item d k = bindR (ditem d k) instant"

definition issuance_order_is_valid :: "obj \<Rightarrow> bool res" where
  "issuance_order_is_valid r =
     bindR (instant_item r ''issued_at'') (\<lambda>issued.
     bindR (instant_item r ''not_before'') (\<lambda>not_before.
     bindR (instant_item r ''expires_at'') (\<lambda>expires. Inr (issued \<le> not_before \<and> not_before < expires))))"

text \<open>\<open>_signature_is_valid\<close>: an invalid signature and a \<open>ValueError\<close> mean no, other exceptions propagate.\<close>

definition verify_signature :: "verifier \<Rightarrow> obj \<Rightarrow> string \<Rightarrow> unit res" where
  "verify_signature V r key =
     bindR (bindR (string_item r ''signature'') (\<lambda>s. decode_base64url s 64)) (\<lambda>signature.
     bindR (bindR (string_item r ''content_hash'') bytes_fromhex) (\<lambda>content_hash.
       raise_if (\<not> au_ed25519 (vf_env V) key signature (SIGNATURE_DOMAIN @ content_hash)) InvalidSignature))"

definition signature_is_valid :: "verifier \<Rightarrow> obj \<Rightarrow> string \<Rightarrow> bool res" where
  "signature_is_valid V r key = (case verify_signature V r key of
      Inr _ \<Rightarrow> Inr True
    | Inl e \<Rightarrow> if e = InvalidSignature \<or> value_error_text e \<noteq> None then Inr False else Inl e)"

section \<open>Mechanically valid records\<close>

definition mechanism_fields :: "verifier \<Rightarrow> obj \<Rightarrow> (string \<times> string \<times> verifier_key option \<times> int \<times> string \<times> string) res" where
  "mechanism_fields V r =
     bindR (string_item r ''record_type'') (\<lambda>record_type.
     bindR (record_hash V record_type r) (\<lambda>digest.
     bindR (string_item r ''issuer_key_id'') (\<lambda>key_id.
     bindR (instant_item r ''issued_at'') (\<lambda>issued.
     bindR (string_item r ''issuer_role'') (\<lambda>role.
     bindR (string_item r ''audience'') (\<lambda>audience.
       Inr (record_type, digest, map_of (vf_keys V) key_id, issued, role, audience)))))))"

definition mechanism_caught :: "exn \<Rightarrow> bool" where
  "mechanism_caught e = (e = AssertionError \<or> value_error_text e \<noteq> None \<or> (case e of KeyError _ \<Rightarrow> True | _ \<Rightarrow> False))"

definition allR_in_order :: "bool res list \<Rightarrow> bool res" where
  "allR_in_order cs = allR (\<lambda>c. c) cs"

definition anyR_in_order :: "bool res list \<Rightarrow> bool res" where
  "anyR_in_order cs = anyR (\<lambda>c. c) cs"

definition mechanism_checks :: "verifier \<Rightarrow> obj \<Rightarrow> string \<Rightarrow> string \<Rightarrow> verifier_key \<Rightarrow> int \<Rightarrow> string \<Rightarrow> string \<Rightarrow> bool res" where
  "mechanism_checks V r record_type digest key issued role audience = allR_in_order
     [Inr (trusted V key),
      Inr (py_eq (JStr digest) (dget r ''content_hash'')),
      Inr (role \<in> set (case map_of ALLOWED_ROLES record_type of None \<Rightarrow> [] | Some roles \<Rightarrow> roles)),
      Inr (role \<in> set (vk_roles key)),
      in_strs (dget r ''issuer'') (vk_issuers key),
      Inr (audience \<in> set (vk_audiences key)),
      Inr (map_of EXPECTED_AUDIENCE record_type = Some audience),
      Inr (vk_from key \<le> issued \<and> issued \<le> vk_until key),
      issuance_order_is_valid r,
      signature_is_valid V r (vk_public key)]"

definition record_mechanism_valid :: "verifier \<Rightarrow> obj \<Rightarrow> bool res" where
  "record_mechanism_valid V r =
     (if \<not> vf_valid V (JObj r) then Inr False
      else case mechanism_fields V r of
        Inl e \<Rightarrow> if mechanism_caught e then Inr False else Inl e
      | Inr (_, _, None, _) \<Rightarrow> Inr False
      | Inr (record_type, digest, Some key, issued, role, audience) \<Rightarrow>
          mechanism_checks V r record_type digest key issued role audience)"

end
