(* ===== verification/Auth_Faults.thy ===== *)
theory Auth_Faults
  imports Auth_Keys
begin

text \<open>
  \<^verbatim>\<open>authorization_semantics.py\<close>, second part: revocation, and the groups of faults that one record can
  have. A group takes the set of faults found so far and returns it extended, or raises.
\<close>

definition flag :: "bool res \<Rightarrow> string \<Rightarrow> string set \<Rightarrow> string set res" where
  "flag c code F = bindR c (\<lambda>b. Inr (if b then insert code F else F))"

section \<open>Revocation\<close>

text \<open>\<open>str.encode("ascii")\<close>.\<close>

definition ascii_encode :: "string \<Rightarrow> string res" where
  "ascii_encode s = (if list_all (\<lambda>c. (of_char c :: nat) < 128) s then Inr s else Inl (ValueError ''ascii''))"

definition GENESIS_DOMAIN :: string where
  "GENESIS_DOMAIN = ''HYBRID-DISCOVERY/v6.2/REVOCATION-LEDGER-GENESIS/v1'' @ [CHR 0x00]"

definition ledger_genesis :: "verifier \<Rightarrow> string \<Rightarrow> string res" where
  "ledger_genesis V ledger_id = bindR (ascii_encode ledger_id) (\<lambda>b. Inr (sha256 (au_codec (vf_env V)) (GENESIS_DOMAIN @ b)))"

text \<open>Whether entry \<open>sequence\<close> of the ledger breaks the chain.\<close>

definition entry_broken :: "verifier \<Rightarrow> obj \<Rightarrow> string \<Rightarrow> int \<Rightarrow> string \<Rightarrow> obj \<Rightarrow> obj \<Rightarrow> bool res" where
  "entry_broken V r ledger_id sequence previous candidate checkpoint = anyR_in_order
     [Inr (\<not> str_is (dget candidate ''record_type'') ''RevocationRecord''),
      Inr (\<not> str_is (dget candidate ''ledger_id'') ledger_id),
      Inr (\<not> str_is (dget candidate ''revocation_sequence'') (str_int sequence)),
      Inr (\<not> py_eq (dget candidate ''previous_revocation_hash'') (if sequence = 1 then JNull else JStr previous)),
      Inr (\<not> py_eq (JObj checkpoint) (JObj [(''ledger_id'', JStr ledger_id), (''sequence'', JStr (str_int (sequence - 1))),
        (''head_hash'', JStr previous)])),
      Inr (\<not> py_eq (dget candidate ''pack_bindings'') (dget r ''pack_bindings'')),
      Inr (\<not> py_eq (dget candidate ''implementation_bindings'') (dget r ''implementation_bindings'')),
      notR (record_mechanism_valid V candidate)]"

definition revokes :: "obj \<Rightarrow> int \<Rightarrow> obj \<Rightarrow> bool res" where
  "revokes r now candidate =
     bindR (instant_item candidate ''effective_at'') (\<lambda>at. Inr (at \<le> now \<and>
       (py_eq (dget candidate ''revoked_content_hash'') (dget r ''content_hash'') \<or>
        py_eq (dget candidate ''revoked_serial'') (dget r ''serial'') \<or>
        py_eq (dget candidate ''revoked_key_id'') (dget r ''issuer_key_id''))))"

text \<open>The loop over the entries: \<open>None\<close> when one breaks the chain, else the last hash and the verdict.\<close>

fun ledger_scan :: "verifier \<Rightarrow> obj \<Rightarrow> int \<Rightarrow> string \<Rightarrow> int \<Rightarrow> string \<Rightarrow> bool \<Rightarrow> json list \<Rightarrow> (string \<times> bool) option res" where
  "ledger_scan V r now ledger_id sequence previous revoked [] = Inr (Some (previous, revoked))"
| "ledger_scan V r now ledger_id sequence previous revoked (v # vs) =
     bindR (as_object v) (\<lambda>candidate.
     case dget candidate ''revocation_checkpoint'' of
       JObj checkpoint \<Rightarrow>
         bindR (entry_broken V r ledger_id sequence previous candidate checkpoint) (\<lambda>broken.
         if broken then Inr None
         else bindR (string_item candidate ''content_hash'') (\<lambda>h.
           bindR (revokes r now candidate) (\<lambda>b.
             ledger_scan V r now ledger_id (sequence + 1) h (revoked \<or> b) vs)))
     | _ \<Rightarrow> Inr None)"

text \<open>The two sequence numbers; \<open>AssertionError\<close> and \<open>ValueError\<close> are caught.\<close>

definition checkpoint_sequences :: "obj \<Rightarrow> obj \<Rightarrow> (int \<times> int) option res" where
  "checkpoint_sequences signed required =
     (case bindR (bindR (string_item signed ''sequence'') parse_int) (\<lambda>s.
           bindR (bindR (string_item required ''sequence'') parse_int) (\<lambda>n. Inr (s, n))) of
        Inr p \<Rightarrow> Inr (Some p)
      | Inl e \<Rightarrow> if e = AssertionError \<or> value_error_text e \<noteq> None then Inr None else Inl e)"

definition scan_ledger :: "verifier \<Rightarrow> obj \<Rightarrow> int \<Rightarrow> obj \<Rightarrow> obj \<Rightarrow> obj \<Rightarrow> int \<Rightarrow> (bool \<times> bool) res" where
  "scan_ledger V r now state required signed required_sequence =
     bindR (string_item required ''ledger_id'') (\<lambda>ledger_id.
     bindR (ledger_genesis V ledger_id) (\<lambda>genesis.
     bindR (ditem signed ''head_hash'') (\<lambda>head.
     if \<not> str_is head genesis then Inr (False, False)
     else bindR (bindR (ditem state ''signed_revocation_records'') as_list) (\<lambda>entries.
       if int (length entries) \<noteq> required_sequence then Inr (False, False)
       else bindR (ledger_scan V r now ledger_id 1 genesis False entries) (\<lambda>scanned. case scanned of
           None \<Rightarrow> Inr (False, False)
         | Some (last_hash, revoked) \<Rightarrow>
             bindR (ditem required ''head_hash'') (\<lambda>required_head.
               Inr (if \<not> str_is required_head last_hash then (False, False) else (revoked, True))))))))"

definition is_revoked :: "verifier \<Rightarrow> obj \<Rightarrow> obj \<Rightarrow> int \<Rightarrow> (bool \<times> bool) res" where
  "is_revoked V r context now = (case dget context ''revocation_state'' of
      JObj state \<Rightarrow>
        if \<not> keys_eq state [''required_revocation_checkpoint'', ''signed_revocation_records''] then Inr (False, False)
        else bindR (bindR (ditem state ''required_revocation_checkpoint'') as_object) (\<lambda>required.
          bindR (bindR (ditem r ''revocation_checkpoint'') as_object) (\<lambda>signed.
          if \<not> keys_eq required [''ledger_id'', ''sequence'', ''head_hash''] then Inr (False, False)
          else bindR (differs (ditem required ''ledger_id'') (ditem signed ''ledger_id'')) (\<lambda>other.
            if other then Inr (False, False)
            else bindR (checkpoint_sequences signed required) (\<lambda>sequences. case sequences of
                None \<Rightarrow> Inr (False, False)
              | Some (s, n) \<Rightarrow>
                  if s \<noteq> 0 \<or> n < s then Inr (False, False) else scan_ledger V r now state required signed n))))
    | _ \<Rightarrow> Inr (False, False))"

section \<open>Clock and time\<close>

text \<open>\<open>int(_as_string(d[k]))\<close>.\<close>

definition int_text_item :: "obj \<Rightarrow> string \<Rightarrow> int res" where
  "int_text_item d k = bindR (string_item d k) parse_int"

definition clock_keys :: "string list" where
  "clock_keys = [''clock_domain_id'', ''boot_id'', ''unit'', ''value'', ''resolution'']"

definition clock_identity_invalid :: "obj \<Rightarrow> obj \<Rightarrow> obj \<Rightarrow> obj \<Rightarrow> bool res" where
  "clock_identity_invalid start deadline current wall = anyR_in_order
     [Inr (\<not> keys_eq start clock_keys), Inr (\<not> keys_eq deadline clock_keys), Inr (\<not> keys_eq current clock_keys),
      anyR (\<lambda>k. orR (differs (ditem start k) (ditem deadline k)) (differs (ditem start k) (ditem current k)))
        [''clock_domain_id'', ''boot_id'', ''unit''],
      Inr (\<not> py_eq (dget wall ''boot_id'') (dget start ''boot_id''))]"

definition monotonic_faults :: "obj \<Rightarrow> obj \<Rightarrow> obj \<Rightarrow> string set \<Rightarrow> string set res" where
  "monotonic_faults start deadline current F =
     bindR (int_text_item start ''value'') (\<lambda>s.
     bindR (int_text_item deadline ''value'') (\<lambda>d.
     bindR (int_text_item current ''value'') (\<lambda>c.
     bindR (flag (Inr (s > c \<or> d \<le> s)) ''CLOCK_UNTRUSTED'' F) (\<lambda>F.
     bindR (flag (Inr (d - s > 1800000000)) ''CLOCK_UNTRUSTED'' F) (\<lambda>F.
       flag (Inr (c \<ge> d)) ''EXPIRED'' F)))))"

definition clock_context_wrong :: "obj \<Rightarrow> bool" where
  "clock_context_wrong context = (\<not> is_false (dget context ''backend_restart_detected'') \<or>
     \<not> is_false (dget context ''wall_clock_rollback_detected'') \<or>
     \<not> is_false (dget context ''monotonic_regression_detected'') \<or>
     \<not> is_true (dget context ''clock_evidence_verified''))"

definition clock_faults :: "obj \<Rightarrow> obj \<Rightarrow> string set \<Rightarrow> string set res" where
  "clock_faults r context F =
     bindR (bindR (ditem r ''verifier_clock'') as_object) (\<lambda>clock.
     bindR (bindR (ditem clock ''monotonic_start'') as_object) (\<lambda>start.
     bindR (bindR (ditem clock ''monotonic_deadline'') as_object) (\<lambda>deadline.
     bindR (bindR (ditem clock ''trusted_wall_anchor'') as_object) (\<lambda>wall.
     case dget context ''current_monotonic'' of
       JObj current \<Rightarrow>
         if clock_context_wrong context then Inr (insert ''CLOCK_UNTRUSTED'' F)
         else bindR (clock_identity_invalid start deadline current wall) (\<lambda>invalid.
           bindR (if invalid then Inr (insert ''CLOCK_UNTRUSTED'' F) else monotonic_faults start deadline current F) (\<lambda>F.
             flag (bindR (instant_item wall ''value'') (\<lambda>w. bindR (instant_item r ''issued_at'') (\<lambda>i. Inr (w > i))))
               ''CLOCK_UNTRUSTED'' F))
     | _ \<Rightarrow> Inr (insert ''CLOCK_UNTRUSTED'' F)))))"

definition add_clock_and_time_faults :: "obj \<Rightarrow> obj \<Rightarrow> int \<Rightarrow> string set \<Rightarrow> string set res" where
  "add_clock_and_time_faults r context now F =
     bindR (bindR (ditem r ''record_type'') (\<lambda>v. in_strs v [''DiscoveryRunAuthorization'', ''ProviderCallAuthorization''])) (\<lambda>clocked.
     bindR (if clocked then clock_faults r context F else Inr F) (\<lambda>F.
     bindR (flag (bindR (instant_item r ''not_before'') (\<lambda>t. Inr (now < t))) ''NOT_YET_VALID'' F) (\<lambda>F.
       flag (bindR (instant_item r ''expires_at'') (\<lambda>t. Inr (now \<ge> t))) ''EXPIRED'' F)))"

section \<open>Prerequisite gates\<close>

text \<open>Iterating over a value.\<close>

fun iterate :: "json \<Rightarrow> json list res" where
  "iterate (JArr xs) = Inr xs"
| "iterate (JObj d) = Inr (map (JStr \<circ> fst) d)"
| "iterate (JStr s) = Inr (map (\<lambda>c. JStr [c]) s)"
| "iterate _ = Inl TypeError"

definition GATE_KINDS :: "string list" where
  "GATE_KINDS = [''R0_REPAIR_ACCEPTED'', ''F0A_FOUNDATION_ACCEPTED'', ''DISCOVERY_SECURITY_ACCEPTED'']"

definition gate_invalid :: "verifier \<Rightarrow> obj \<Rightarrow> int \<Rightarrow> string \<Rightarrow> string option \<Rightarrow> obj \<Rightarrow> obj \<Rightarrow> bool \<times> bool \<Rightarrow> bool res" where
  "gate_invalid V r now kind previous binding receipt revocation = anyR_in_order
     [Inr (\<not> str_is (dget binding ''gate_kind'') kind),
      Inr (\<not> str_is (dget receipt ''gate_kind'') kind),
      Inr (\<not> py_eq (dget binding ''content_hash'') (dget receipt ''content_hash'')),
      Inr (\<not> str_is (dget receipt ''gate_result'') ''PASS''),
      Inr (\<not> str_is (dget receipt ''declared_use_semantics'') ''SINGLE_USE''),
      Inr (\<not> is_true (dget receipt ''one_use'')),
      Inr (\<not> str_is (dget receipt ''consumed_before'') ''ATOMIC_LEDGER_COMMIT_BEFORE_GATE_USE''),
      Inr (\<not> py_eq (dget receipt ''prerequisite_receipt_hashes'')
        (JArr (case previous of None \<Rightarrow> [] | Some h \<Rightarrow> [JStr h]))),
      Inr (\<not> py_eq (dget receipt ''pack_bindings'') (dget r ''pack_bindings'')),
      Inr (\<not> py_eq (dget receipt ''implementation_bindings'') (dget r ''implementation_bindings'')),
      notR (record_mechanism_valid V receipt),
      Inr (fst revocation),
      Inr (\<not> snd revocation),
      bindR (instant_item receipt ''not_before'') (\<lambda>t. Inr (now < t)),
      bindR (instant_item receipt ''expires_at'') (\<lambda>t. Inr (now \<ge> t))]"

text \<open>\<open>zip(bindings, supplied, strict=True)\<close> over the three gates: the lengths are compared when one
  side is exhausted.\<close>

fun gate_faults :: "verifier \<Rightarrow> obj \<Rightarrow> obj \<Rightarrow> int \<Rightarrow> string list \<Rightarrow> string option \<Rightarrow> json list \<Rightarrow> json list \<Rightarrow> string set \<Rightarrow> string set res" where
  "gate_faults V r context now (kind # kinds) previous (b # bs) (v # vs) F =
     bindR (as_object b) (\<lambda>binding.
     bindR (as_object v) (\<lambda>receipt.
     bindR (is_revoked V receipt context now) (\<lambda>revocation.
     bindR (flag (gate_invalid V r now kind previous binding receipt revocation) ''PREREQUISITE_GATE_INVALID'' F) (\<lambda>F.
     bindR (string_item receipt ''content_hash'') (\<lambda>h.
       gate_faults V r context now kinds (Some h) bs vs F)))))"
| "gate_faults V r context now kinds previous [] [] F = Inr F"
| "gate_faults V r context now kinds previous bs vs F = Inl (ValueError ''zip'')"

definition run_gate_faults :: "verifier \<Rightarrow> obj \<Rightarrow> obj \<Rightarrow> obj \<Rightarrow> int \<Rightarrow> string set \<Rightarrow> string set res" where
  "run_gate_faults V r reference context now F =
     bindR (ditem r ''prerequisite_gates'') (\<lambda>bindings.
     bindR (differs (Inr bindings) (ditem reference ''prerequisite_gates'')) (\<lambda>other.
     if other then Inr (insert ''PREREQUISITE_GATE_INVALID'' F)
     else case dget context ''prerequisite_gate_records'' of
         JArr supplied \<Rightarrow>
           if length supplied \<noteq> 3 then Inr (insert ''PREREQUISITE_GATE_INVALID'' F)
           else bindR (iterate bindings) (\<lambda>bs. gate_faults V r context now GATE_KINDS None bs supplied F)
       | _ \<Rightarrow> Inr (insert ''PREREQUISITE_GATE_INVALID'' F)))"

text \<open>The two tests of the record type exclude each other.\<close>

definition add_prerequisite_faults :: "verifier \<Rightarrow> obj \<Rightarrow> obj \<Rightarrow> obj \<Rightarrow> int \<Rightarrow> string set \<Rightarrow> string set res" where
  "add_prerequisite_faults V r reference context now F =
     bindR (ditem r ''record_type'') (\<lambda>t.
     if str_is t ''DiscoveryRunAuthorization'' then run_gate_faults V r reference context now F
     else if str_is t ''GateReceipt'' then
       flag (differs (ditem r ''prerequisite_receipt_hashes'') (ditem reference ''prerequisite_receipt_hashes''))
         ''PREREQUISITE_GATE_INVALID'' F
     else Inr F)"

section \<open>Scope\<close>

text \<open>\<open>_overlay_expected\<close>.\<close>

definition overlay_expected :: "obj \<Rightarrow> (string \<times> string) list \<Rightarrow> obj \<Rightarrow> obj" where
  "overlay_expected context mapping expected =
     fold (\<lambda>(name, context_name) e. if dhas context context_name then dput name (dget context context_name) e else e) mapping expected"

abbreviation SCOPE :: string where
  "SCOPE \<equiv> ''SCOPE_BINDING_MISMATCH''"

definition BROWSER_FIELDS :: "string list" where
  "BROWSER_FIELDS = [''browser_id'', ''profile_id'', ''browser_run_id'', ''window_id'', ''tab_id'', ''tab_instance_id'',
     ''document_id'', ''navigation_id'', ''origin'', ''pathname'']"

definition browser_faults :: "obj \<Rightarrow> obj \<Rightarrow> obj \<Rightarrow> string set \<Rightarrow> string set res" where
  "browser_faults r reference context F =
     bindR (bindR (ditem r ''browser_binding'') as_object) (\<lambda>actual.
     bindR (bindR (ditem reference ''browser_binding'') as_object) (\<lambda>expected.
       flag (Inr (\<not> py_eq (JObj actual)
         (JObj (overlay_expected context (map (\<lambda>f. (f, ''expected_'' @ f)) BROWSER_FIELDS) expected)))) SCOPE F))"

text \<open>\<^verbatim>\<open>for field in (\<dots>): if record[field] != reference[field]\<close>.\<close>

definition field_faults :: "obj \<Rightarrow> obj \<Rightarrow> string list \<Rightarrow> string set \<Rightarrow> string set res" where
  "field_faults r reference names F = foldR (\<lambda>F k. flag (differs (ditem r k) (ditem reference k)) SCOPE F) F names"

definition run_scope_faults :: "obj \<Rightarrow> obj \<Rightarrow> string set \<Rightarrow> string set res" where
  "run_scope_faults r reference F =
     bindR (field_faults r reference [''authorization_mode'', ''discovery_run_id'', ''pairing_secret_commitment'',
       ''verifier_clock'', ''prerequisite_gates'', ''budget''] F) (\<lambda>F.
     bindR (ditem r ''authorization_mode'') (\<lambda>mode.
     bindR (flag (Inr (str_is mode ''NEW_RUN'' \<and> dhas r ''resume_binding'')) SCOPE F) (\<lambda>F.
       flag (Inr (str_is mode ''RESUME_EXISTING_RUN'' \<and>
         (\<not> dhas r ''resume_binding'' \<or> \<not> py_eq (dget r ''resume_binding'') (dget reference ''resume_binding'')))) SCOPE F)))"

definition gate_scope_faults :: "obj \<Rightarrow> obj \<Rightarrow> obj \<Rightarrow> string set \<Rightarrow> string set res" where
  "gate_scope_faults r reference context F =
     bindR (field_faults r reference [''gate_kind'', ''gate_result'', ''criteria_evidence_hashes''] F) (\<lambda>F.
     bindR (ditem r ''gate_kind'') (\<lambda>kind.
       flag (Inr (str_is kind ''EVIDENCE_EXPORT_ACCEPTED'' \<and>
         (\<not> py_eq (dget r ''bound_run_id'') (dget_or context ''expected_bound_run_id'' (dget reference ''bound_run_id'')) \<or>
          \<not> py_eq (dget r ''accepted_sanitized_export_manifest_hash'')
            (dget_or context ''expected_accepted_sanitized_export_manifest_hash''
              (dget reference ''accepted_sanitized_export_manifest_hash''))))) SCOPE F))"

text \<open>\<open>next((item for item in items if \<dots>), None)\<close> over the dicts of a list.\<close>

definition find_item :: "json \<Rightarrow> string \<Rightarrow> json \<Rightarrow> obj option" where
  "find_item items k v = (case items of
      JArr xs \<Rightarrow> map_option the_dict (List.find (\<lambda>x. is_dict x \<and> py_eq (dget (the_dict x) k) v) xs)
    | _ \<Rightarrow> None)"

definition protocol_invalid :: "verifier \<Rightarrow> obj \<Rightarrow> int \<Rightarrow> obj \<Rightarrow> bool \<times> bool \<Rightarrow> bool res" where
  "protocol_invalid V r now protocol revocation =
     (let endpoint = find_item (dget protocol ''endpoint_templates'') ''endpoint_template_id'' (dget r ''endpoint_template_id'');
          window = find_item (dget protocol ''sample_windows'') ''window_id'' (dget r ''sample_window_id'');
          offered = (\<lambda>k. case endpoint of None \<Rightarrow> JNull | Some e \<Rightarrow> dget e k)
      in anyR_in_order
       [notR (record_mechanism_valid V protocol),
        Inr (fst revocation),
        Inr (\<not> snd revocation),
        bindR (instant_item protocol ''not_before'') (\<lambda>t. Inr (now < t)),
        bindR (instant_item protocol ''expires_at'') (\<lambda>t. Inr (now \<ge> t)),
        Inr (\<not> py_eq (dget protocol ''protocol_id'') (dget r ''protocol_id'')),
        Inr (\<not> py_eq (dget protocol ''content_hash'') (dget r ''protocol_content_hash'')),
        Inr (endpoint = None),
        Inr (window = None),
        Inr (\<not> py_eq (offered ''method'') (dget r ''method'')),
        Inr (\<not> py_eq (offered ''body_policy'') (dget r ''body_policy'')),
        bindR (int_text_item r ''maximum_response_bytes'') (\<lambda>m.
          bindR (int_text_item protocol ''maximum_response_bytes'') (\<lambda>c. Inr (m > c)))])"

definition call_scope_faults :: "verifier \<Rightarrow> obj \<Rightarrow> obj \<Rightarrow> obj \<Rightarrow> int \<Rightarrow> string set \<Rightarrow> string set res" where
  "call_scope_faults V r reference context now F =
     bindR (field_faults r reference [''provider_call_id'', ''protocol_id'', ''protocol_content_hash'', ''endpoint_template_id'',
       ''sample_window_id'', ''sample_id'', ''method'', ''body_policy'', ''maximum_response_bytes'', ''verifier_clock''] F) (\<lambda>F.
     case dget context ''provider_protocol_record'' of
       JObj protocol \<Rightarrow>
         bindR (is_revoked V protocol context now) (\<lambda>revocation.
           flag (protocol_invalid V r now protocol revocation) SCOPE F)
     | _ \<Rightarrow> Inr (insert SCOPE F))"

definition add_scope_faults :: "verifier \<Rightarrow> obj \<Rightarrow> obj \<Rightarrow> obj \<Rightarrow> int \<Rightarrow> string set \<Rightarrow> string set res" where
  "add_scope_faults V r reference context now F =
     bindR (string_item r ''record_type'') (\<lambda>t.
     bindR (flag (differs (ditem r ''scope'') (ditem reference ''scope'')) SCOPE F) (\<lambda>F.
     bindR (if t \<in> {''DiscoveryRunAuthorization'', ''BodyClassApproval''} then browser_faults r reference context F else Inr F) (\<lambda>F.
     if t = ''DiscoveryRunAuthorization'' then run_scope_faults r reference F
     else if t = ''GateReceipt'' then gate_scope_faults r reference context F
     else if t = ''BodyClassApproval'' then
       field_faults r reference [''discovery_run_id'', ''body_class'', ''metadata_only_evidence_hash'', ''test_only_manifest_hash''] F
     else if t = ''ProviderProbeProtocol'' then
       field_faults r reference [''protocol_id'', ''protocol_state'', ''endpoint_templates'', ''sample_windows'',
         ''deterministic_sampling_rule'', ''retry_policy'', ''maximum_response_bytes'', ''allowed_fields'', ''denominators'',
         ''cadence'', ''budget'', ''licensing'', ''credential_class'', ''accepted_schema_versions'', ''prohibited_outputs''] F
     else if t = ''ProviderCallAuthorization'' then call_scope_faults V r reference context now F
     else Inr F)))"

section \<open>Consumption\<close>

text \<open>A tuple of values, or \<open>None\<close>.\<close>

definition same_tuple :: "json list option \<Rightarrow> json list option \<Rightarrow> bool" where
  "same_tuple a b = (case (a, b) of
      (None, None) \<Rightarrow> True
    | (Some xs, Some ys) \<Rightarrow> list_all2 py_eq xs ys
    | _ \<Rightarrow> False)"

definition consumption_identity :: "obj \<Rightarrow> json list option" where
  "consumption_identity r = (let fields = [''issuer'', ''issuer_key_id'', ''audience'', ''serial''] in
     if list_all (dhas r) fields then Some (map (dget r) fields) else None)"

definition list_or_empty :: "obj \<Rightarrow> string \<Rightarrow> json list res" where
  "list_or_empty context k = as_list (dget_or context k (JArr []))"

definition consumed_fault :: "obj \<Rightarrow> json \<Rightarrow> string set \<Rightarrow> json \<Rightarrow> string set res" where
  "consumed_fault r content_hash F v =
     bindR (as_object v) (\<lambda>consumed.
       Inr (if \<not> py_eq (dget consumed ''content_hash'') content_hash then F
            else if consumption_identity consumed \<noteq> None \<and> \<not> same_tuple (consumption_identity consumed) (consumption_identity r)
              then insert ''LOCAL_STATE_CONFLICT'' F
            else insert ''ALREADY_CONSUMED'' F))"

definition add_consumption_faults :: "obj \<Rightarrow> obj \<Rightarrow> string set \<Rightarrow> string set res" where
  "add_consumption_faults r context F =
     bindR (ditem r ''one_use'') (\<lambda>once.
     if \<not> is_true once then Inr F
     else bindR (ditem r ''content_hash'') (\<lambda>h.
       bindR (flag (bindR (list_or_empty context ''consumed_content_hashes'') (\<lambda>hs. Inr (list_ex (\<lambda>x. py_eq x h) hs)))
         ''ALREADY_CONSUMED'' F) (\<lambda>F.
       bindR (list_or_empty context ''consumed_records'') (\<lambda>rs. foldR (consumed_fault r h) F rs))))"

section \<open>Serial numbers and nonces\<close>

definition SCOPE_DOMAIN :: string where
  "SCOPE_DOMAIN = ''HYBRID-DISCOVERY/v6.2/AUTHORIZATION-SCOPE-BINDING/v1'' @ [CHR 0x00]"

definition SCOPE_FIELDS :: "(string \<times> string list) list" where
  "SCOPE_FIELDS =
     [(''GateReceipt'', [''gate_kind'', ''bound_run_id'']),
      (''DiscoveryRunAuthorization'', [''discovery_run_id'', ''browser_binding'']),
      (''BodyClassApproval'', [''discovery_run_id'', ''browser_binding'', ''body_class'']),
      (''ProviderProbeProtocol'', [''protocol_id'']),
      (''ProviderCallAuthorization'', [''protocol_id'', ''endpoint_template_id'', ''sample_window_id'', ''sample_id'']),
      (''RevocationRecord'', [''ledger_id''])]"

definition scope_binding_hash :: "verifier \<Rightarrow> obj \<Rightarrow> string res" where
  "scope_binding_hash V r =
     bindR (string_item r ''record_type'') (\<lambda>t.
     bindR (ditem r ''scope'') (\<lambda>scope.
     bindR (table_item SCOPE_FIELDS t) (\<lambda>fields.
     bindR (jcs (au_codec (vf_env V)) (JObj ([(''record_type'', JStr t), (''scope'', scope)] @
         map (\<lambda>k. (k, dget r k)) (filter (dhas r) fields)))) (\<lambda>canonical.
       Inr (sha256 (au_codec (vf_env V)) (SCOPE_DOMAIN @ canonical))))))"

definition scope_caught :: "exn \<Rightarrow> bool" where
  "scope_caught e = (mechanism_caught e \<or> e = TypeError)"

definition nonce_scope :: "verifier \<Rightarrow> obj \<Rightarrow> json list option res" where
  "nonce_scope V r = (let fields = [''issuer'', ''issuer_key_id'', ''audience''] in
     if \<not> list_all (dhas r) fields then Inr None
     else if dget r ''scope_binding_hash'' \<noteq> JNull then Inr (Some (map (dget r) fields @ [dget r ''scope_binding_hash'']))
     else (case scope_binding_hash V r of
         Inr h \<Rightarrow> Inr (Some (map (dget r) fields @ [JStr h]))
       | Inl e \<Rightarrow> if scope_caught e then Inr None else Inl e))"

definition nonce_reused :: "verifier \<Rightarrow> obj \<Rightarrow> obj \<Rightarrow> bool res" where
  "nonce_reused V r consumed =
     bindR (nonce_scope V consumed) (\<lambda>scope.
     if scope = None then Inr False
     else bindR (nonce_scope V r) (\<lambda>own.
       if \<not> same_tuple scope own then Inr False
       else andR (notR (differs (Inr (dget consumed ''nonce'')) (ditem r ''nonce'')))
         (differs (Inr (dget consumed ''content_hash'')) (ditem r ''content_hash''))))"

definition serial_fault :: "verifier \<Rightarrow> obj \<Rightarrow> string set \<Rightarrow> json \<Rightarrow> string set res" where
  "serial_fault V r F v =
     bindR (as_object v) (\<lambda>consumed.
     bindR (flag (if same_tuple (consumption_identity consumed) (consumption_identity r)
         then differs (Inr (dget consumed ''content_hash'')) (ditem r ''content_hash'') else Inr False) ''SERIAL_CONFLICT'' F) (\<lambda>F.
       flag (nonce_reused V r consumed) ''LOCAL_STATE_CONFLICT'' F))"

definition add_serial_and_local_state_faults :: "verifier \<Rightarrow> obj \<Rightarrow> obj \<Rightarrow> obj \<Rightarrow> string set \<Rightarrow> string set res" where
  "add_serial_and_local_state_faults V r reference context F =
     bindR (ditem r ''record_type'') (\<lambda>t.
     bindR (if str_is t ''RevocationRecord''
       then bindR (flag (differs (ditem r ''revocation_sequence'') (ditem reference ''revocation_sequence'')) ''SERIAL_CONFLICT'' F)
         (flag (differs (ditem r ''previous_revocation_hash'') (ditem reference ''previous_revocation_hash'')) ''LOCAL_STATE_CONFLICT'')
       else Inr F) (\<lambda>F.
     bindR (list_or_empty context ''consumed_records'') (\<lambda>rs. foldR (serial_fault V r) F rs)))"

end
