(* ===== verification/Authorization.thy ===== *)
theory Authorization
  imports Auth_Faults
begin

text \<open>
  \<^verbatim>\<open>authorization_semantics.py\<close>, third part: the evaluation of one record, and the verification of the
  sealed bundle of vectors against it. The three files of the bundle are given as their bytes.
\<close>

section \<open>Evaluating a record\<close>

text \<open>\<open>_Evaluation\<close>: the first fault in the order of precedence decides.\<close>

record evaluation =
  ev_result :: string
  ev_faults :: "string set"

definition evaluation_of :: "string set \<Rightarrow> evaluation" where
  "evaluation_of F = \<lparr>ev_result = (case List.find (\<lambda>code. code \<in> F) FAILURE_PRECEDENCE of None \<Rightarrow> ''VALID'' | Some code \<Rightarrow> code),
     ev_faults = F\<rparr>"

definition issuance_invalid :: "obj \<Rightarrow> obj \<Rightarrow> verifier_key option \<Rightarrow> string list \<Rightarrow> string \<Rightarrow> int \<Rightarrow> bool res" where
  "issuance_invalid r reference key allowed_roles role issued = (case key of
      None \<Rightarrow> Inr True
    | Some k \<Rightarrow> anyR_in_order
        [Inr (role \<notin> set allowed_roles),
         Inr (role \<notin> set (vk_roles k)),
         notR (bindR (ditem r ''issuer'') (\<lambda>v. in_strs v (vk_issuers k))),
         differs (ditem r ''issuer'') (ditem reference ''issuer''),
         notR (bindR (ditem r ''audience'') (\<lambda>v. in_strs v (vk_audiences k))),
         Inr (\<not> (vk_from k \<le> issued \<and> issued \<le> vk_until k)),
         notR (issuance_order_is_valid r)])"

definition key_faults :: "verifier \<Rightarrow> string \<Rightarrow> obj \<Rightarrow> obj \<Rightarrow> string set \<Rightarrow> string set res" where
  "key_faults V record_type r reference F =
     bindR (string_item r ''issuer_key_id'') (\<lambda>key_id.
     (let key = map_of (vf_keys V) key_id in
      bindR (flag (Inr (vf_mode V \<notin> {TEST_TRUST_MODE, ACTIVE_TRUST_MODE})) ''KEY_ROLE_OR_ISSUANCE_INVALID'' F) (\<lambda>F.
      bindR (flag (Inr (case key of None \<Rightarrow> True | Some k \<Rightarrow> \<not> trusted V k)) ''UNTRUSTED_KEY_ID'' F) (\<lambda>F.
      bindR (table_item ALLOWED_ROLES record_type) (\<lambda>allowed_roles.
      bindR (string_item r ''issuer_role'') (\<lambda>role.
      bindR (instant_item r ''issued_at'') (\<lambda>issued.
      bindR (flag (issuance_invalid r reference key allowed_roles role issued) ''KEY_ROLE_OR_ISSUANCE_INVALID'' F) (\<lambda>F.
        flag (case key of None \<Rightarrow> Inr False | Some k \<Rightarrow> notR (signature_is_valid V r (vk_public k))) ''SIGNATURE_INVALID'' F))))))))"

definition PACK_FIELDS :: "(string \<times> string) list" where
  "PACK_FIELDS =
     [(''final_pack_zip_sha256'', ''expected_pack_zip_sha256''), (''pack_manifest_sha256'', ''expected_pack_manifest_sha256''),
      (''repo0_baseline_receipt_sha256'', ''expected_repo0_baseline_receipt_sha256''),
      (''repo0_git_commit_oid'', ''expected_repo0_git_commit_oid''), (''repo0_git_tree_oid'', ''expected_repo0_git_tree_oid''),
      (''repo0_tree_sha256'', ''expected_repo0_tree_sha256'')]"

definition IMPLEMENTATION_FIELDS :: "(string \<times> string) list" where
  "IMPLEMENTATION_FIELDS =
     [(''implementation_build_hash'', ''expected_implementation_build_hash''),
      (''dependency_lock_hash'', ''expected_dependency_lock_hash''), (''schema_vendor_hash'', ''expected_schema_vendor_hash'')]"

definition binding_faults :: "obj \<Rightarrow> obj \<Rightarrow> obj \<Rightarrow> string set \<Rightarrow> string set res" where
  "binding_faults r reference context F =
     bindR (bindR (ditem reference ''pack_bindings'') as_object) (\<lambda>pack.
     (let expected = overlay_expected context PACK_FIELDS pack in
      bindR (bindR (ditem r ''pack_bindings'') as_object) (\<lambda>actual.
      bindR (flag (anyR (\<lambda>k. differs (ditem actual k) (ditem expected k)) [''final_pack_zip_sha256'', ''pack_manifest_sha256''])
        ''PACK_HASH_MISMATCH'' F) (\<lambda>F.
      bindR (flag (anyR (\<lambda>k. differs (ditem actual k) (ditem expected k))
          [''repo0_baseline_receipt_sha256'', ''repo0_git_commit_oid'', ''repo0_git_tree_oid'', ''repo0_tree_sha256''])
        ''BASELINE_MISMATCH'' F) (\<lambda>F.
      bindR (bindR (ditem reference ''implementation_bindings'') as_object) (\<lambda>implementation.
        flag (differs (ditem r ''implementation_bindings'')
            (Inr (JObj (overlay_expected context IMPLEMENTATION_FIELDS implementation))))
          ''BUILD_HASH_MISMATCH'' F))))))"

definition audience_faults :: "string \<Rightarrow> obj \<Rightarrow> obj \<Rightarrow> string set \<Rightarrow> string set res" where
  "audience_faults record_type r context F =
     bindR (table_item EXPECTED_AUDIENCE record_type) (\<lambda>audience.
       flag (bindR (ditem r ''audience'') (\<lambda>v.
           Inr (\<not> py_eq v (dget_or context ''expected_audience'' (JStr audience)) \<or> \<not> str_is v audience)))
         ''AUDIENCE_MISMATCH'' F)"

definition validation_time :: "obj \<Rightarrow> obj \<Rightarrow> int res" where
  "validation_time r context = bindR (ditem r ''not_before'') (\<lambda>v. instant (dget_or context ''validation_time'' v))"

definition record_faults :: "verifier \<Rightarrow> string \<Rightarrow> string \<Rightarrow> obj \<Rightarrow> obj \<Rightarrow> obj \<Rightarrow> string set res" where
  "record_faults V record_type computed r reference context =
     bindR (flag (bindR (ditem r ''content_hash'') (\<lambda>h. Inr (\<not> str_is h computed))) ''CONTENT_HASH_MISMATCH'' {}) (\<lambda>F.
     bindR (key_faults V record_type r reference F) (\<lambda>F.
     bindR (binding_faults r reference context F) (\<lambda>F.
     bindR (audience_faults record_type r context F) (\<lambda>F.
     bindR (validation_time r context) (\<lambda>now.
     bindR (is_revoked V r context now) (\<lambda>(revoked, revocation_valid).
     bindR (flag (Inr revoked) ''REVOKED'' F) (\<lambda>F.
     bindR (flag (Inr (\<not> revocation_valid)) ''LOCAL_STATE_CONFLICT'' F) (\<lambda>F.
     bindR (add_clock_and_time_faults r context now F) (\<lambda>F.
     bindR (add_prerequisite_faults V r reference context now F) (\<lambda>F.
     bindR (add_scope_faults V r reference context now F) (\<lambda>F.
     bindR (flag (Inr (\<not> is_true (dget_or context ''consumption_store_available'' (JBool True)))) ''CONSUMPTION_STORE_UNAVAILABLE'' F) (\<lambda>F.
     bindR (add_consumption_faults r context F) (\<lambda>F.
       add_serial_and_local_state_faults V r reference context F)))))))))))))"

definition evaluate_record :: "verifier \<Rightarrow> obj \<Rightarrow> obj \<Rightarrow> obj \<Rightarrow> evaluation res" where
  "evaluate_record V r reference context =
     (if \<not> vf_valid V (JObj r) then Inr (evaluation_of {''SCHEMA_INVALID''})
      else bindR (string_item r ''record_type'') (\<lambda>record_type.
        case record_hash V record_type r of
          Inl e \<Rightarrow> (case e of
              CanonicalError code \<Rightarrow> Inr (evaluation_of
                {if code \<in> set FAILURE_PRECEDENCE then code else ''UNSUPPORTED_VERSION_OR_ALGORITHM''})
            | _ \<Rightarrow> Inl e)
        | Inr computed \<Rightarrow> bindR (record_faults V record_type computed r reference context) (\<lambda>F. Inr (evaluation_of F))))"

section \<open>Mutations\<close>

text \<open>\<open>text.split("/")\<close>.\<close>

fun split_on :: "char \<Rightarrow> string \<Rightarrow> string list" where
  "split_on c [] = [[]]"
| "split_on c (d # s) = (if d = c then [] # split_on c s else (case split_on c s of [] \<Rightarrow> [[d]] | w # ws \<Rightarrow> (d # w) # ws))"

text \<open>\<open>xs[i]\<close>: negative indices count from the end.\<close>

definition list_position :: "int \<Rightarrow> json list \<Rightarrow> nat res" where
  "list_position i xs = (let n = int (length xs); j = (if i < 0 then i + n else i) in
     if 0 \<le> j \<and> j < n then Inr (nat j) else Inl IndexError)"

fun replace_at :: "string list \<Rightarrow> json \<Rightarrow> json \<Rightarrow> json res" where
  "replace_at [] v target = Inr v"
| "replace_at (c # cs) v target = (case target of
      JObj d \<Rightarrow> (case map_of d c of
          None \<Rightarrow> Inl AssertionError
        | Some inner \<Rightarrow> bindR (replace_at cs v inner) (\<lambda>w. Inr (JObj (dput c w d))))
    | JArr xs \<Rightarrow>
        bindR (parse_int c) (\<lambda>i. bindR (list_position i xs) (\<lambda>n.
          bindR (replace_at cs v (xs ! n)) (\<lambda>w. Inr (JArr (xs[n := w])))))
    | _ \<Rightarrow> Inl AssertionError)"

definition apply_mutation :: "json \<Rightarrow> json \<Rightarrow> json res" where
  "apply_mutation r m =
     bindR (as_object m) (\<lambda>mutation.
     bindR (assertR (keys_eq mutation [''operation'', ''path'', ''value''])) (\<lambda>_.
     bindR (bindR (ditem mutation ''operation'') (\<lambda>v. assertR (str_is v ''replace''))) (\<lambda>_.
     bindR (string_item mutation ''path'') (\<lambda>path.
     bindR (assertR (starts_with path ''/'' \<and> path \<noteq> ''/'')) (\<lambda>_.
     bindR (ditem mutation ''value'') (\<lambda>v.
       replace_at (map pointer_unescape (split_on CHR ''/'' (drop 1 path))) v r))))))"

definition apply_mutations :: "obj \<Rightarrow> json list \<Rightarrow> obj res" where
  "apply_mutations reference mutations = bindR (foldR apply_mutation (JObj reference) mutations) as_object"

section \<open>The trust root\<close>

text \<open>\<open>assert d[k] == text\<close>.\<close>

definition assert_item :: "obj \<Rightarrow> string \<Rightarrow> string \<Rightarrow> unit res" where
  "assert_item d k text = bindR (ditem d k) (\<lambda>v. assertR (str_is v text))"

definition assert_items :: "obj \<Rightarrow> (string \<times> string) list \<Rightarrow> unit res" where
  "assert_items d kvs = bindR (mapR (\<lambda>(k, text). assert_item d k text) kvs) (\<lambda>_. Inr ())"

text \<open>\<open>tuple(_as_list(d[k])) == (\<dots>)\<close> for texts.\<close>

definition assert_texts :: "obj \<Rightarrow> string \<Rightarrow> string list \<Rightarrow> unit res" where
  "assert_texts d k texts = bindR (bindR (ditem d k) as_list) (\<lambda>xs. assertR (xs = map JStr texts))"

definition audience_binding :: "json \<Rightarrow> (string \<times> string list) res" where
  "audience_binding v =
     bindR (as_object v) (\<lambda>binding.
     bindR (assertR (keys_eq binding [''audience'', ''roles''])) (\<lambda>_.
     bindR (string_item binding ''audience'') (\<lambda>audience.
     bindR (strings_item binding ''roles'') (\<lambda>roles. Inr (audience, roles)))))"

definition KEY_PREFIX :: string where
  "KEY_PREFIX = ''key:ed25519:''"

definition check_rfc_vector :: "auth_env \<Rightarrow> obj \<Rightarrow> (string \<times> string) res" where
  "check_rfc_vector A rfc =
     bindR (assert_items rfc [(''trust'', ''TEST_ONLY_UNTRUSTED''),
       (''seed_hex'', ''9d61b19deffd5a60ba844af492ec2cc44449c5697b326919703bac031cae7f60'')]) (\<lambda>_.
     bindR (bindR (string_item rfc ''public_key_hex'') bytes_fromhex) (\<lambda>public.
     bindR (assertR (length public = 32)) (\<lambda>_.
     bindR (assert_item rfc ''public_key_unpadded_base64url'' (rstrip_pad (urlsafe_b64encode (map of_char public)))) (\<lambda>_.
     (let key_id = KEY_PREFIX @ sha256 (au_codec A) public in
      bindR (assert_item rfc ''key_id'' key_id) (\<lambda>_.
      bindR (bindR (string_item rfc ''empty_message_signature_hex'') bytes_fromhex) (\<lambda>signature.
      bindR (assertR (length signature = 64)) (\<lambda>_.
      bindR (raise_if (\<not> au_ed25519 A public signature []) InvalidSignature) (\<lambda>_.
        Inr (public, key_id))))))))))"

definition test_key :: "auth_env \<Rightarrow> string \<Rightarrow> string \<Rightarrow> (string \<times> verifier_key) list \<Rightarrow> json \<Rightarrow> (string \<times> verifier_key) list res" where
  "test_key A rfc_public rfc_key_id keys v =
     bindR (as_object v) (\<lambda>entry.
     bindR (assertR (keys_eq entry [''label'', ''trust'', ''status'', ''issuers'', ''roles'', ''audiences'', ''valid_from'',
       ''valid_until'', ''key_id'', ''public_key''])) (\<lambda>_.
     bindR (assert_items entry [(''trust'', ''TEST_ONLY_UNTRUSTED''), (''status'', ''TEST_ONLY_DISABLED''),
       (''label'', ''RFC8032_TEST_VECTOR_1'')]) (\<lambda>_.
     bindR (assert_texts entry ''issuers'' [''issuer:rfc8032-test-vector-1'']) (\<lambda>_.
     bindR (assert_texts entry ''roles'' TRUST_ROLES) (\<lambda>_.
     bindR (assert_texts entry ''audiences'' (map fst AUDIENCE_ROLE_BINDINGS)) (\<lambda>_.
     bindR (instant_item entry ''valid_from'') (\<lambda>valid_from.
     bindR (instant_item entry ''valid_until'') (\<lambda>valid_until.
     bindR (assertR (valid_from < valid_until)) (\<lambda>_.
     bindR (bindR (string_item entry ''public_key'') (\<lambda>s. decode_base64url s 32)) (\<lambda>raw_key.
     (let key_id = KEY_PREFIX @ sha256 (au_codec A) raw_key in
      bindR (assert_item entry ''key_id'' key_id) (\<lambda>_.
      bindR (assertR (raw_key = rfc_public \<and> key_id = rfc_key_id)) (\<lambda>_.
      bindR (assertR (map_of keys key_id = None)) (\<lambda>_.
      bindR (strings_item entry ''issuers'') (\<lambda>issuers.
      bindR (strings_item entry ''roles'') (\<lambda>roles.
      bindR (strings_item entry ''audiences'') (\<lambda>audiences.
        Inr (keys @ [(key_id, \<lparr>vk_id = key_id, vk_public = raw_key, vk_issuers = issuers, vk_roles = roles,
          vk_audiences = audiences, vk_from = valid_from, vk_until = valid_until, vk_active = False,
          vk_test_only = True\<rparr>)]))))))))))))))))))"

definition TRUST_ROOT_FIELDS :: "string list" where
  "TRUST_ROOT_FIELDS = [''schema_version'', ''signature_algorithm'', ''public_key_encoding'', ''key_id_derivation'',
     ''signature_domain'', ''runtime_key_material'', ''signing_key_custody'', ''trust_roles'', ''audience_role_bindings'',
     ''trusted_keys'', ''test_only_untrusted_keys'', ''production_authority'']"

definition load_and_validate_trust_root :: "auth_env \<Rightarrow> obj \<Rightarrow> obj \<Rightarrow> (string \<times> verifier_key) list res" where
  "load_and_validate_trust_root A trust rfc =
     bindR (assertR (keys_eq trust TRUST_ROOT_FIELDS)) (\<lambda>_.
     bindR (assert_items trust
       [(''schema_version'', ''trust-root/v1''), (''signature_algorithm'', ''Ed25519''),
        (''public_key_encoding'', ''RAW_32_BYTES_UNPADDED_BASE64URL_CANONICAL_REENCODE_REQUIRED''),
        (''key_id_derivation'', ''key:ed25519:<sha256-lowercase-hex-of-raw-public-key>''),
        (''signature_domain'', SIGNATURE_DOMAIN), (''runtime_key_material'', ''VERIFIER_PUBLIC_KEYS_ONLY''),
        (''signing_key_custody'', ''USER_SCOPED_OS_BACKED_OUTSIDE_PACK_AND_RUNTIME'')]) (\<lambda>_.
     bindR (assert_texts trust ''trust_roles'' TRUST_ROLES) (\<lambda>_.
     bindR (bindR (bindR (ditem trust ''audience_role_bindings'') as_list) (mapR audience_binding)) (\<lambda>bindings.
     bindR (assertR (bindings = AUDIENCE_ROLE_BINDINGS)) (\<lambda>_.
     bindR (bindR (ditem trust ''trusted_keys'') as_list) (\<lambda>active_values.
     bindR (assertR (active_values = [])) (\<lambda>_.
     bindR (check_rfc_vector A rfc) (\<lambda>(rfc_public, rfc_key_id).
     bindR (bindR (ditem trust ''test_only_untrusted_keys'') as_list) (\<lambda>entries.
     bindR (foldR (test_key A rfc_public rfc_key_id) [] entries) (\<lambda>keys.
     bindR (assertR (length keys = 1)) (\<lambda>_.
       Inr keys)))))))))))"

end
