(* ===== verification/Auth_Bundle.thy ===== *)
theory Auth_Bundle
  imports Authorization
begin

text \<open>
  \<^verbatim>\<open>authorization_semantics.py\<close>, last part: the shape of the bundle and \<open>validate_authorization_semantics\<close>,
  which recomputes the outcome of every vector.
\<close>

section \<open>Shape\<close>

definition TOP_LEVEL_FIELDS :: "string list" where
  "TOP_LEVEL_FIELDS =
     [''schema_version'', ''trust'', ''canonical_algorithm'', ''signature_algorithm'', ''signature_domain'',
      ''hash_domain'', ''excluded_json_pointers'', ''rfc8032_test_vector_1'', ''test_only_signed_record_vectors'',
      ''recovered_approved_compatibility_vector'', ''base_record'', ''failure_precedence'',
      ''clock_lease_contract_and_vectors'', ''vectors'', ''production_authority'']"

definition RUN_VECTOR_IDS :: "string list" where
  "RUN_VECTOR_IDS =
     [''AUTH_VALID'', ''AUTH_FORGED_SIGNATURE'', ''AUTH_EXPIRED'', ''AUTH_REPLAYED'', ''AUTH_REVOKED'',
      ''AUTH_WRONG_AUDIENCE_RESIGNED'', ''AUTH_WRONG_BUILD_RESIGNED'', ''AUTH_WRONG_ORIGIN_RESIGNED'',
      ''AUTH_WRONG_TAB_RESIGNED'', ''AUTH_WRONG_DOCUMENT_RESIGNED'', ''AUTH_PREREQUISITE_MISSING'',
      ''AUTH_PREREQUISITE_SWAPPED'', ''AUTH_PREREQUISITE_FORGED'']"

definition SIGNED_VECTOR_IDS :: "string list" where
  "SIGNED_VECTOR_IDS =
     [''GATERECEIPT_VALID_SIGNATURE'', ''BODYCLASSAPPROVAL_VALID_SIGNATURE'',
      ''PROVIDERPROBEPROTOCOL_VALID_SIGNATURE'', ''PROVIDERCALLAUTHORIZATION_VALID_SIGNATURE'',
      ''REVOCATIONRECORD_VALID_SIGNATURE'', ''GATE_WRONG_ROLE_RESIGNED'', ''GATE_WRONG_AUDIENCE_RESIGNED'',
      ''GATE_WRONG_PACK_BINDING_RESIGNED'', ''GATE_SINGLE_USE_REPLAY_RESIGNED'', ''GATE_REVOKED'',
      ''EXPORT_DESTRUCTION_GATE_VALID_SIGNATURE'', ''EXPORT_DESTRUCTION_GATE_WRONG_RUN_RESIGNED'',
      ''EXPORT_DESTRUCTION_GATE_WRONG_EXPORT_HASH_RESIGNED'', ''EXPORT_DESTRUCTION_GATE_REPLAY'',
      ''EXPORT_DESTRUCTION_GATE_WRONG_ROLE_RESIGNED'', ''EXPORT_DESTRUCTION_GATE_WRONG_AUDIENCE_RESIGNED'',
      ''BODY_WRONG_ROLE_RESIGNED'', ''BODY_WRONG_AUDIENCE_RESIGNED'', ''BODY_WRONG_TAB_BINDING_RESIGNED'',
      ''BODY_REPLAYED'', ''BODY_REVOKED'', ''PROTOCOL_WRONG_ROLE_RESIGNED'', ''PROTOCOL_WRONG_AUDIENCE_RESIGNED'',
      ''PROTOCOL_WRONG_ENDPOINT_BINDING_RESIGNED'', ''PROTOCOL_REUSE_ALLOWED'', ''PROTOCOL_REVOKED'',
      ''CALL_WRONG_ROLE_RESIGNED'', ''CALL_WRONG_AUDIENCE_RESIGNED'', ''CALL_WRONG_PROTOCOL_BINDING_RESIGNED'',
      ''CALL_REPLAYED'', ''CALL_REVOKED'', ''REVOCATION_WRONG_ROLE_RESIGNED'', ''REVOCATION_WRONG_AUDIENCE_RESIGNED'',
      ''REVOCATION_CHAIN_BINDING_RESIGNED'', ''REVOCATION_SEQUENCE_CONFLICT_RESIGNED'']"

definition CLOCK_VECTOR_IDS :: "string list" where
  "CLOCK_VECTOR_IDS =
     [''CLOCK_VALID_CONTROL'', ''CLOCK_BOOT_CHANGED'', ''CLOCK_BACKEND_RESTARTED'', ''CLOCK_WALL_ROLLBACK'',
      ''CLOCK_MONOTONIC_REGRESSION'', ''CLOCK_EVIDENCE_MISSING'', ''CLOCK_MONOTONIC_EXPIRED'',
      ''CLOCK_NOT_YET_VALID'', ''PRECEDENCE_REVOKED_BEFORE_CLOCK_AND_EXPIRED'',
      ''PRECEDENCE_CLOCK_BEFORE_NOT_YET_AND_CONSUMED'', ''PRECEDENCE_SIGNATURE_BEFORE_BUILD_AND_EXPIRED'',
      ''PRECEDENCE_UNTRUSTED_KEY_BEFORE_AUDIENCE_AND_EXPIRED'']"

definition assert_ids :: "string list \<Rightarrow> obj list \<Rightarrow> unit res" where
  "assert_ids ids vs = assertR (map (\<lambda>v. dget v ''vector_id'') vs = map JStr ids)"

definition assert_all :: "('a \<Rightarrow> bool) \<Rightarrow> 'a list \<Rightarrow> unit res" where
  "assert_all p xs = assertR (list_all p xs)"

definition BASE_RECORDS :: "string list" where
  "BASE_RECORDS = [''GateReceipt'', ''EvidenceExportAcceptedGateReceipt'', ''BodyClassApproval'', ''ProviderProbeProtocol'',
     ''ProviderCallAuthorization'', ''RevocationRecord'']"

definition SIGNED_FIELDS :: "string list" where
  "SIGNED_FIELDS = [''vector_id'', ''base_record'', ''mutations'', ''test_trust_mode'', ''verification_state'',
     ''expected_test_result'', ''expected_active_result'']"

definition signed_vector_shape :: "obj \<Rightarrow> bool" where
  "signed_vector_shape v = (keys_eq v SIGNED_FIELDS \<or> keys_eq v (SIGNED_FIELDS @ [''failure_precedence_outcome'']))"

definition signed_shape :: "obj \<Rightarrow> unit res" where
  "signed_shape signed =
     bindR (assertR (keys_eq signed [''classification'', ''signature_algorithm'', ''signature_domain'', ''hash_rule'',
       ''active_trust_invariant'', ''base_records'', ''vectors''])) (\<lambda>_.
     bindR (object_item signed ''base_records'') (\<lambda>records. assertR (dkeys records = BASE_RECORDS)))"

definition validate_bundle_shape :: "obj \<Rightarrow> unit res" where
  "validate_bundle_shape vectors =
     bindR (assertR (keys_eq vectors TOP_LEVEL_FIELDS)) (\<lambda>_.
     bindR (object_item vectors ''rfc8032_test_vector_1'') (\<lambda>rfc.
     bindR (assertR (keys_eq rfc [''trust'', ''seed_hex'', ''public_key_hex'', ''public_key_unpadded_base64url'', ''key_id'',
       ''empty_message_signature_hex''])) (\<lambda>_.
     bindR (object_item vectors ''test_only_signed_record_vectors'') (\<lambda>signed.
     bindR (signed_shape signed) (\<lambda>_.
     bindR (objects_item vectors ''vectors'') (\<lambda>run_vectors.
     bindR (assert_ids RUN_VECTOR_IDS run_vectors) (\<lambda>_.
     bindR (assert_all (\<lambda>v. keys_eq v [''vector_id'', ''base_record'', ''mutations'', ''verification_context'', ''expected_result''])
       run_vectors) (\<lambda>_.
     bindR (objects_item signed ''vectors'') (\<lambda>signed_vectors.
     bindR (assert_ids SIGNED_VECTOR_IDS signed_vectors) (\<lambda>_.
     bindR (assert_all signed_vector_shape signed_vectors) (\<lambda>_.
     bindR (object_item vectors ''clock_lease_contract_and_vectors'') (\<lambda>clock.
     bindR (assertR (keys_eq clock [''context_schema'', ''vectors''])) (\<lambda>_.
     bindR (objects_item clock ''vectors'') (\<lambda>clock_vectors.
     bindR (assert_ids CLOCK_VECTOR_IDS clock_vectors) (\<lambda>_.
       assert_all (\<lambda>v. keys_eq v [''vector_id'', ''base_record'', ''record_mutations'', ''verification_mode'',
         ''verification_context'', ''faults'', ''expected_result'']) clock_vectors)))))))))))))))"

definition validate_bundle_contract :: "obj \<Rightarrow> obj \<Rightarrow> unit res" where
  "validate_bundle_contract vectors trust =
     bindR (assert_items vectors
       [(''schema_version'', ''authorization-vectors/v1''), (''trust'', ''TEST_ONLY_UNTRUSTED''),
        (''canonical_algorithm'', ''HD-JCS-SHA256-v1''), (''signature_algorithm'', ''Ed25519''),
        (''signature_domain'', SIGNATURE_DOMAIN)]) (\<lambda>_.
     bindR (bindR (ditem vectors ''excluded_json_pointers'') (\<lambda>v.
       assertR (v = JArr [JStr ''/content_hash'', JStr ''/signature'']))) (\<lambda>_.
     bindR (assert_texts vectors ''failure_precedence'' FAILURE_PRECEDENCE) (\<lambda>_.
     bindR (assert_item vectors ''production_authority'' ''NONE'') (\<lambda>_.
       assert_item trust ''production_authority'' ''NONE''))))"

section \<open>Recomputing the outcomes\<close>

text \<open>\<open>_assert_result\<close>; the message of a failed assertion reads the vector's identifier.\<close>

definition assert_result :: "obj \<Rightarrow> string \<Rightarrow> string \<Rightarrow> unit res" where
  "assert_result vector field_name computed =
     bindR (ditem vector field_name) (\<lambda>expected.
       if str_is expected computed then Inr () else bindR (ditem vector ''vector_id'') (\<lambda>_. Inl AssertionError))"

definition signed_vector_context :: "obj \<Rightarrow> obj \<Rightarrow> obj res" where
  "signed_vector_context reference state =
     bindR (ditem reference ''not_before'') (\<lambda>v.
       Inr (if dhas state ''validation_time'' then state else state @ [(''validation_time'', v)]))"

definition mutated :: "obj \<Rightarrow> obj \<Rightarrow> string \<Rightarrow> obj res" where
  "mutated reference vector k = bindR (bindR (ditem vector k) as_list) (apply_mutations reference)"

definition check_run_vector :: "verifier \<Rightarrow> obj \<Rightarrow> json \<Rightarrow> unit res" where
  "check_run_vector V reference v =
     bindR (as_object v) (\<lambda>vector.
     bindR (mutated reference vector ''mutations'') (\<lambda>r.
     bindR (object_item vector ''verification_context'') (\<lambda>context.
     bindR (evaluate_record (V\<lparr>vf_mode := TEST_TRUST_MODE\<rparr>) r reference context) (\<lambda>e.
       assert_result vector ''expected_result'' (ev_result e)))))"

definition check_signed_vector :: "verifier \<Rightarrow> obj \<Rightarrow> json \<Rightarrow> unit res" where
  "check_signed_vector V base_records v =
     bindR (as_object v) (\<lambda>vector.
     bindR (string_item vector ''vector_id'') (\<lambda>_.
     bindR (string_item vector ''base_record'') (\<lambda>base_name.
     bindR (object_item base_records base_name) (\<lambda>reference.
     bindR (mutated reference vector ''mutations'') (\<lambda>r.
     bindR (object_item vector ''verification_state'') (\<lambda>state.
     bindR (signed_vector_context reference state) (\<lambda>context.
     bindR (string_item vector ''test_trust_mode'') (\<lambda>mode.
     bindR (evaluate_record (V\<lparr>vf_mode := mode\<rparr>) r reference context) (\<lambda>test.
     bindR (assert_result vector ''expected_test_result'' (ev_result test)) (\<lambda>_.
     bindR (evaluate_record (V\<lparr>vf_mode := ACTIVE_TRUST_MODE\<rparr>) r reference context) (\<lambda>active.
       assert_result vector ''expected_active_result'' (ev_result active))))))))))))"

definition check_clock_vector :: "verifier \<Rightarrow> obj \<Rightarrow> json \<Rightarrow> unit res" where
  "check_clock_vector V reference v =
     bindR (as_object v) (\<lambda>vector.
     bindR (mutated reference vector ''record_mutations'') (\<lambda>r.
     bindR (object_item vector ''verification_context'') (\<lambda>context.
     bindR (string_item vector ''verification_mode'') (\<lambda>mode.
     bindR (evaluate_record (V\<lparr>vf_mode := mode\<rparr>) r reference context) (\<lambda>e.
     bindR (assert_result vector ''expected_result'' (ev_result e)) (\<lambda>_.
     bindR (strings_item vector ''faults'') (\<lambda>declared.
       if ev_faults e = set declared then Inr () else bindR (ditem vector ''vector_id'') (\<lambda>_. Inl AssertionError))))))))"

definition each :: "(json \<Rightarrow> unit res) \<Rightarrow> obj \<Rightarrow> string \<Rightarrow> unit res" where
  "each f d k = bindR (bindR (ditem d k) as_list) (\<lambda>xs. bindR (mapR f xs) (\<lambda>_. Inr ()))"

definition check_bundle :: "verifier \<Rightarrow> obj \<Rightarrow> unit res" where
  "check_bundle V vectors =
     bindR (object_item vectors ''base_record'') (\<lambda>run_reference.
     bindR (each (check_run_vector V run_reference) vectors ''vectors'') (\<lambda>_.
     bindR (object_item vectors ''test_only_signed_record_vectors'') (\<lambda>signed.
     bindR (object_item signed ''base_records'') (\<lambda>base_records.
     bindR (each (check_signed_vector V base_records) signed ''vectors'') (\<lambda>_.
     bindR (object_item vectors ''clock_lease_contract_and_vectors'') (\<lambda>clock_group.
       each (check_clock_vector V run_reference) clock_group ''vectors''))))))"

definition validate_authorization_semantics :: "auth_env \<Rightarrow> string \<Rightarrow> string \<Rightarrow> string \<Rightarrow> unit res" where
  "validate_authorization_semantics A vectors_file schema_file trust_file =
     bindR (bindR (parse_strict_json (au_codec A) vectors_file) as_object) (\<lambda>vectors.
     bindR (bindR (parse_strict_json (au_codec A) schema_file) as_object) (\<lambda>schema.
     bindR (bindR (parse_strict_json (au_codec A) trust_file) as_object) (\<lambda>trust.
     bindR (validate_bundle_shape vectors) (\<lambda>_.
     bindR (assertR (au_schema A schema (JObj trust))) (\<lambda>_.
     bindR (bindR (object_item vectors ''rfc8032_test_vector_1'') (load_and_validate_trust_root A trust)) (\<lambda>keys.
     bindR (validate_bundle_contract vectors trust) (\<lambda>_.
       check_bundle \<lparr>vf_env = A, vf_valid = au_schema A schema, vf_mode = [], vf_keys = keys\<rparr> vectors)))))))"

end
