(* ===== verification/Auth_Laws.thy ===== *)
theory Auth_Laws
  imports Auth_Bundle
begin

text \<open>
  Laws of the authorization checks: faults are only ever added, all of them have a place in the order of
  precedence, and what a record without faults satisfies.
\<close>

section \<open>Groups of faults add faults\<close>

definition adds :: "(string set \<Rightarrow> string set res) \<Rightarrow> bool" where
  "adds f \<longleftrightarrow> (\<forall>F G. f F = Inr G \<longrightarrow> F \<subseteq> G \<and> G \<subseteq> F \<union> set FAILURE_PRECEDENCE)"

named_theorems adding \<open>groups of faults that only add known faults\<close>

lemma addsI: "(\<And>F G. f F = Inr G \<Longrightarrow> F \<subseteq> G \<and> G \<subseteq> F \<union> set FAILURE_PRECEDENCE) \<Longrightarrow> adds f"
  by (simp add: adds_def)

lemma addsD: "adds f \<Longrightarrow> f F = Inr G \<Longrightarrow> F \<subseteq> G" "adds f \<Longrightarrow> f F = Inr G \<Longrightarrow> G \<subseteq> F \<union> set FAILURE_PRECEDENCE"
  by (simp_all add: adds_def)

lemma flag_Inr: "flag c code F = Inr G \<longleftrightarrow> (\<exists>b. c = Inr b \<and> G = (if b then insert code F else F))"
  by (auto simp: flag_def)

lemma adds_flag [adding]: "code \<in> set FAILURE_PRECEDENCE \<Longrightarrow> adds (flag c code)"
  by (intro addsI) (auto simp: flag_Inr split: if_splits)

lemma adds_insert [adding]: "code \<in> set FAILURE_PRECEDENCE \<Longrightarrow> adds (\<lambda>F. Inr (insert code F))"
  by (intro addsI) auto

lemma adds_same [adding]: "adds (\<lambda>F. Inr F)" "adds (\<lambda>F. Inl e)"
  by (simp_all add: adds_def)

lemma adds_seq [adding]: "adds f \<Longrightarrow> adds g \<Longrightarrow> adds (\<lambda>F. bindR (f F) g)"
  unfolding adds_def by fastforce

lemma adds_bind [adding]: "(\<And>x. adds (f x)) \<Longrightarrow> adds (\<lambda>F. bindR m (\<lambda>x. f x F))"
  by (cases m) (simp_all add: adds_def)

lemma adds_if [adding]: "adds f \<Longrightarrow> adds g \<Longrightarrow> adds (\<lambda>F. if b then f F else g F)"
  by (simp add: adds_def)

lemma adds_fold [adding]: "(\<And>x. adds (\<lambda>F. f F x)) \<Longrightarrow> adds (\<lambda>F. foldR f F xs)"
proof (induction xs)
  case (Cons x xs)
  then have "adds (\<lambda>F. bindR (f F x) (\<lambda>F. foldR f F xs))" by (intro adds_seq) simp_all
  then show ?case by simp
qed (simp add: adds_same)

lemma known_codes [adding]:
  "''SCHEMA_INVALID'' \<in> set FAILURE_PRECEDENCE" "''UNSUPPORTED_VERSION_OR_ALGORITHM'' \<in> set FAILURE_PRECEDENCE"
  "''CONTENT_HASH_MISMATCH'' \<in> set FAILURE_PRECEDENCE" "''UNTRUSTED_KEY_ID'' \<in> set FAILURE_PRECEDENCE"
  "''KEY_ROLE_OR_ISSUANCE_INVALID'' \<in> set FAILURE_PRECEDENCE" "''SIGNATURE_INVALID'' \<in> set FAILURE_PRECEDENCE"
  "''PACK_HASH_MISMATCH'' \<in> set FAILURE_PRECEDENCE" "''BASELINE_MISMATCH'' \<in> set FAILURE_PRECEDENCE"
  "''BUILD_HASH_MISMATCH'' \<in> set FAILURE_PRECEDENCE" "''AUDIENCE_MISMATCH'' \<in> set FAILURE_PRECEDENCE"
  "''REVOKED'' \<in> set FAILURE_PRECEDENCE" "''CLOCK_UNTRUSTED'' \<in> set FAILURE_PRECEDENCE"
  "''NOT_YET_VALID'' \<in> set FAILURE_PRECEDENCE" "''EXPIRED'' \<in> set FAILURE_PRECEDENCE"
  "''PREREQUISITE_GATE_INVALID'' \<in> set FAILURE_PRECEDENCE" "SCOPE \<in> set FAILURE_PRECEDENCE"
  "''CONSUMPTION_STORE_UNAVAILABLE'' \<in> set FAILURE_PRECEDENCE" "''ALREADY_CONSUMED'' \<in> set FAILURE_PRECEDENCE"
  "''SERIAL_CONFLICT'' \<in> set FAILURE_PRECEDENCE" "''LOCAL_STATE_CONFLICT'' \<in> set FAILURE_PRECEDENCE"
  by (simp_all add: FAILURE_PRECEDENCE_def)

lemma adds_key_faults [adding]: "adds (key_faults V record_type r reference)"
  unfolding key_faults_def Let_def by (intro adding)

lemma adds_binding_faults [adding]: "adds (binding_faults r reference context)"
  unfolding binding_faults_def Let_def by (intro adding)

lemma adds_audience_faults [adding]: "adds (audience_faults record_type r context)"
  unfolding audience_faults_def by (intro adding)

lemma adds_monotonic [adding]: "adds (monotonic_faults start deadline current)"
  unfolding monotonic_faults_def by (intro adding)

lemma adds_object: "(\<And>d. adds (f d)) \<Longrightarrow> adds g \<Longrightarrow> adds (\<lambda>F. case v of JObj d \<Rightarrow> f d F | _ \<Rightarrow> g F)"
  by (cases v) simp_all

lemma adds_array: "(\<And>xs. adds (f xs)) \<Longrightarrow> adds g \<Longrightarrow> adds (\<lambda>F. case v of JArr xs \<Rightarrow> f xs F | _ \<Rightarrow> g F)"
  by (cases v) simp_all

lemma adds_clock_faults [adding]: "adds (clock_faults r context)"
  unfolding clock_faults_def by (intro adds_bind adds_object) (intro adding)+

lemma adds_clock_and_time [adding]: "adds (add_clock_and_time_faults r context now)"
  unfolding add_clock_and_time_faults_def by (intro adding)

lemma adds_gate_faults [adding]: "adds (gate_faults V r context now kinds previous bs vs)"
proof (induction kinds arbitrary: previous bs vs)
  case Nil
  show ?case by (cases bs; cases vs) (simp_all add: adds_same)
next
  case (Cons kind kinds)
  show ?case
  proof (cases "bs = [] \<or> vs = []")
    case True
    then show ?thesis by (cases bs; cases vs) (simp_all add: adds_same)
  next
    case False
    then obtain b bs' v vs' where "bs = b # bs'" "vs = v # vs'" by (meson neq_Nil_conv)
    then show ?thesis by simp (intro adding Cons.IH)
  qed
qed

lemma adds_run_gate_faults [adding]: "adds (run_gate_faults V r reference context now)"
  unfolding run_gate_faults_def by (intro adds_bind adds_if adds_array adds_insert known_codes adds_gate_faults)

lemma adds_prerequisites [adding]: "adds (add_prerequisite_faults V r reference context now)"
  unfolding add_prerequisite_faults_def by (intro adding)

lemma adds_browser_faults [adding]: "adds (browser_faults r reference context)"
  unfolding browser_faults_def by (intro adding)

lemma adds_field_faults [adding]: "adds (field_faults r reference names)"
  unfolding field_faults_def by (intro adding)

lemma adds_run_scope_faults [adding]: "adds (run_scope_faults r reference)"
  unfolding run_scope_faults_def by (intro adding)

lemma adds_gate_scope_faults [adding]: "adds (gate_scope_faults r reference context)"
  unfolding gate_scope_faults_def by (intro adding)

lemma adds_call_scope_faults [adding]: "adds (call_scope_faults V r reference context now)"
  unfolding call_scope_faults_def by (intro adds_seq adds_object adds_bind adding)

lemma adds_scope [adding]: "adds (add_scope_faults V r reference context now)"
  unfolding add_scope_faults_def by (intro adding)

lemma adds_consumed_fault [adding]: "adds (\<lambda>F. consumed_fault r h F v)"
  unfolding consumed_fault_def
  by (intro adds_bind addsI) (auto simp: FAILURE_PRECEDENCE_def split: if_splits)

lemma adds_consumption [adding]: "adds (add_consumption_faults r context)"
  unfolding add_consumption_faults_def by (intro adding)

lemma adds_serial_fault [adding]: "adds (\<lambda>F. serial_fault V r F v)"
  unfolding serial_fault_def by (intro adding)

lemma adds_serial [adding]: "adds (add_serial_and_local_state_faults V r reference context)"
  unfolding add_serial_and_local_state_faults_def by (intro adding)

section \<open>The faults of a record\<close>

lemma adds_pair [adding]: "(\<And>a b. adds (f a b)) \<Longrightarrow> adds (\<lambda>F. bindR m (\<lambda>(a, b). f a b F))"
  by (cases m) (simp_all add: adds_def split_beta)

lemma record_faults_known:
  assumes "record_faults V record_type computed r reference context = Inr G"
  shows "G \<subseteq> set FAILURE_PRECEDENCE"
proof -
  have "adds (\<lambda>F.
     bindR (flag (bindR (ditem r ''content_hash'') (\<lambda>h. Inr (\<not> str_is h computed))) ''CONTENT_HASH_MISMATCH'' F) (\<lambda>F.
     bindR (key_faults V record_type r reference F) (\<lambda>F.
     bindR (binding_faults r reference context F) (\<lambda>F.
     bindR (audience_faults record_type r context F) (\<lambda>F.
     bindR (validation_time r context) (\<lambda>now.
     bindR (is_revoked V r context now) (\<lambda>(revoked, revocation_valid).
     bindR (flag (Inr revoked) ''REVOKED'' F) (\<lambda>F.
     bindR (flag (Inr (\<not> revocation_valid)) ''LOCAL_STATE_CONFLICT'' F) (\<lambda>F.
     bindR (add_clock_and_time_faults r context now F) (\<lambda>F.
     bindR (add_prerequisite_faults V r reference context now F) (\<lambda>F.
     bindR (add_scope_faults V r reference context now F) (\<lambda>F.
     bindR (flag (Inr (\<not> is_true (dget_or context ''consumption_store_available'' (JBool True)))) ''CONSUMPTION_STORE_UNAVAILABLE'' F) (\<lambda>F.
     bindR (add_consumption_faults r context F) (\<lambda>F.
       add_serial_and_local_state_faults V r reference context F))))))))))))))"
    by (intro adding)
  then show ?thesis using assms addsD(2) unfolding record_faults_def by fastforce
qed

lemma adds_empty: "adds f \<Longrightarrow> f F = Inr {} \<Longrightarrow> F = {}"
  using addsD(1) by blast

lemma flag_empty: "flag c code F = Inr {} \<longleftrightarrow> c = Inr False \<and> F = {}"
  by (auto simp: flag_Inr split: if_splits)

text \<open>A record without faults passes every group on its own.\<close>

lemma no_record_faults:
  assumes "record_faults V record_type computed r reference context = Inr {}"
  obtains now where "ditem r ''content_hash'' = Inr (JStr computed)" "validation_time r context = Inr now"
    "key_faults V record_type r reference {} = Inr {}" "binding_faults r reference context {} = Inr {}"
    "audience_faults record_type r context {} = Inr {}" "is_revoked V r context now = Inr (False, True)"
    "add_clock_and_time_faults r context now {} = Inr {}"
    "add_prerequisite_faults V r reference context now {} = Inr {}"
    "add_scope_faults V r reference context now {} = Inr {}"
    "add_consumption_faults r context {} = Inr {}"
    "add_serial_and_local_state_faults V r reference context {} = Inr {}"
proof -
  from assms obtain F1 F2 F3 F4 now p F5 F6 F7 F8 F9 F10 F11 where
    c: "flag (bindR (ditem r ''content_hash'') (\<lambda>h. Inr (\<not> str_is h computed))) ''CONTENT_HASH_MISMATCH'' {} = Inr F1"
      "key_faults V record_type r reference F1 = Inr F2" "binding_faults r reference context F2 = Inr F3"
      "audience_faults record_type r context F3 = Inr F4" "validation_time r context = Inr now"
      "is_revoked V r context now = Inr p" "flag (Inr (fst p)) ''REVOKED'' F4 = Inr F5"
      "flag (Inr (\<not> snd p)) ''LOCAL_STATE_CONFLICT'' F5 = Inr F6" "add_clock_and_time_faults r context now F6 = Inr F7"
      "add_prerequisite_faults V r reference context now F7 = Inr F8"
      "add_scope_faults V r reference context now F8 = Inr F9"
      "flag (Inr (\<not> is_true (dget_or context ''consumption_store_available'' (JBool True)))) ''CONSUMPTION_STORE_UNAVAILABLE'' F9 = Inr F10"
      "add_consumption_faults r context F10 = Inr F11"
      "add_serial_and_local_state_faults V r reference context F11 = Inr {}"
    unfolding record_faults_def case_prod_beta by (elim bindR_E) (rule that)
  note c(14)
  moreover have "F11 = {}" by (rule adds_empty [OF adds_serial c(14)])
  moreover from this have "F10 = {}" using c(13) adds_empty [OF adds_consumption] by simp
  moreover from this have "F9 = {}" using c(12) by (simp only: flag_empty)
  moreover from this have "F8 = {}" using c(11) adds_empty [OF adds_scope] by simp
  moreover from this have "F7 = {}" using c(10) adds_empty [OF adds_prerequisites] by simp
  moreover from this have "F6 = {}" using c(9) adds_empty [OF adds_clock_and_time] by simp
  moreover from this have "F5 = {}" "snd p" using c(8) by (simp_all add: flag_empty)
  moreover from this have "F4 = {}" "\<not> fst p" using c(7) by (simp_all add: flag_empty)
  moreover from this have "F3 = {}" using c(4) adds_empty [OF adds_audience_faults] by simp
  moreover from this have "F2 = {}" using c(3) adds_empty [OF adds_binding_faults] by simp
  moreover from this have "F1 = {}" using c(2) adds_empty [OF adds_key_faults] by simp
  ultimately show thesis using that [OF _ c(5)] c by (cases p) (auto simp: flag_empty)
qed

lemma evaluation_of_result:
  assumes "F \<subseteq> set FAILURE_PRECEDENCE"
  shows "ev_result (evaluation_of F) = ''VALID'' \<longleftrightarrow> F = {}"
    and "F \<noteq> {} \<Longrightarrow> \<exists>n < length FAILURE_PRECEDENCE. ev_result (evaluation_of F) = FAILURE_PRECEDENCE ! n \<and>
      FAILURE_PRECEDENCE ! n \<in> F \<and> (\<forall>m < n. FAILURE_PRECEDENCE ! m \<notin> F)"
proof -
  have v: "''VALID'' \<notin> set FAILURE_PRECEDENCE" by (simp add: FAILURE_PRECEDENCE_def)
  have *: "F = {}" if "List.find (\<lambda>code. code \<in> F) FAILURE_PRECEDENCE = None"
    using that assms by (auto simp: find_None_iff)
  show "ev_result (evaluation_of F) = ''VALID'' \<longleftrightarrow> F = {}"
    using v * by (auto simp: evaluation_of_def find_Some_iff in_set_conv_nth find_None_iff split: option.splits)
  show "\<exists>n < length FAILURE_PRECEDENCE. ev_result (evaluation_of F) = FAILURE_PRECEDENCE ! n \<and>
      FAILURE_PRECEDENCE ! n \<in> F \<and> (\<forall>m < n. FAILURE_PRECEDENCE ! m \<notin> F)" if "F \<noteq> {}"
    using * that by (auto simp: evaluation_of_def find_Some_iff split: option.splits)
qed

lemma evaluate_record_faults:
  assumes "evaluate_record V r reference context = Inr e"
  obtains F where "e = evaluation_of F" "F \<subseteq> set FAILURE_PRECEDENCE"
proof (cases "vf_valid V (JObj r)")
  case False
  then have "e = evaluation_of {''SCHEMA_INVALID''}" using assms by (simp add: evaluate_record_def)
  then show thesis by (rule that) (simp add: known_codes)
next
  case True
  then obtain t where t: "(case record_hash V t r of
      Inl e \<Rightarrow> (case e of
          CanonicalError code \<Rightarrow> Inr (evaluation_of
            {if code \<in> set FAILURE_PRECEDENCE then code else ''UNSUPPORTED_VERSION_OR_ALGORITHM''})
        | _ \<Rightarrow> Inl e)
    | Inr computed \<Rightarrow> bindR (record_faults V t computed r reference context) (\<lambda>F. Inr (evaluation_of F))) = Inr e"
    using assms unfolding evaluate_record_def by (simp only: if_not_P not_True_eq_False if_False) (elim bindR_E)
  show thesis
  proof (cases "record_hash V t r")
    case (Inl x)
    then show thesis
      using t that known_codes(2) by (cases x) (auto split: if_splits)
  next
    case (Inr h)
    then obtain F where F: "record_faults V t h r reference context = Inr F" "e = evaluation_of F"
      using t by auto
    show thesis by (rule that [OF F(2) record_faults_known [OF F(1)]])
  qed
qed

lemma instant_item_Inr: "instant_item d k = Inr t \<longleftrightarrow> dhas d k \<and> instant (dget d k) = Inr t"
  by (auto simp: instant_item_def ditem_def dget_def dhas_def split: option.splits)

lemma valid_evaluation:
  assumes "evaluate_record V r reference context = Inr e" and "ev_result e = ''VALID''"
  obtains t h where "vf_valid V (JObj r)" "dget r ''record_type'' = JStr t" "record_hash V t r = Inr h"
    "record_faults V t h r reference context = Inr {}"
proof -
  have valid: "vf_valid V (JObj r)"
    using assms evaluation_of_result(1) [of "{''SCHEMA_INVALID''}"] known_codes(1)
    by (auto simp: evaluate_record_def split: if_splits)
  then obtain t where t: "string_item r ''record_type'' = Inr t" "(case record_hash V t r of
      Inl e \<Rightarrow> (case e of
          CanonicalError code \<Rightarrow> Inr (evaluation_of
            {if code \<in> set FAILURE_PRECEDENCE then code else ''UNSUPPORTED_VERSION_OR_ALGORITHM''})
        | _ \<Rightarrow> Inl e)
    | Inr computed \<Rightarrow> bindR (record_faults V t computed r reference context) (\<lambda>F. Inr (evaluation_of F))) = Inr e"
    using assms(1) unfolding evaluate_record_def by (simp only: if_not_P not_True_eq_False if_False) (elim bindR_E)
  have code: "ev_result (evaluation_of {c}) \<noteq> ''VALID''" if "c \<in> set FAILURE_PRECEDENCE" for c
    using evaluation_of_result(1) [of "{c}"] that by simp
  show thesis
  proof (cases "record_hash V t r")
    case (Inl x)
    then show thesis
      using t(2) assms(2) code known_codes(2) by (cases x) (auto split: if_splits)
  next
    case (Inr h)
    then obtain F where F: "record_faults V t h r reference context = Inr F" "e = evaluation_of F"
      using t(2) by auto
    then have "F = {}" using assms(2) evaluation_of_result(1) [OF record_faults_known [OF F(1)]] by simp
    then show thesis using that [OF valid _ Inr] F t(1) by (simp add: string_item_Inr)
  qed
qed

end
