(* ===== verification/Auth_Valid.thy ===== *)
theory Auth_Valid
  imports Auth_Laws
begin

text \<open>
  What a record without faults satisfies, group by group: its key and signature, its validity window, the
  revocation ledger it was checked against, its gates and its single use.
\<close>

lemma anyR_in_order_False: "anyR_in_order cs = Inr False \<longleftrightarrow> (\<forall>c \<in> set cs. c = Inr False)"
  by (simp add: anyR_in_order_def anyR_eq_False)

lemma allR_in_order_True: "allR_in_order cs = Inr True \<longleftrightarrow> (\<forall>c \<in> set cs. c = Inr True)"
  by (simp add: allR_in_order_def allR_eq_True)

section \<open>Key and signature\<close>

text \<open>The signature of the record is one of its hash under the key.\<close>

definition signed_by :: "verifier \<Rightarrow> obj \<Rightarrow> string \<Rightarrow> bool" where
  "signed_by V r public \<longleftrightarrow> (\<exists>s signature h bytes. dget r ''signature'' = JStr s \<and> decode_base64url s 64 = Inr signature \<and>
     dget r ''content_hash'' = JStr h \<and> bytes_fromhex h = Inr bytes \<and>
     au_ed25519 (vf_env V) public signature (SIGNATURE_DOMAIN @ bytes))"

lemma verify_signature_Inr: "verify_signature V r public = Inr () \<longleftrightarrow> signed_by V r public"
  by (auto simp: verify_signature_def signed_by_def string_item_Inr raise_if_def split: if_splits)

lemma signature_is_valid_True: "signature_is_valid V r public = Inr True \<longleftrightarrow> signed_by V r public"
  unfolding verify_signature_Inr [symmetric] by (simp add: signature_is_valid_def split: sum.split)

definition authentic :: "verifier \<Rightarrow> obj \<Rightarrow> string \<Rightarrow> verifier_key \<Rightarrow> bool" where
  "authentic V r t k \<longleftrightarrow> (\<exists>key_id role issued. dget r ''issuer_key_id'' = JStr key_id \<and> map_of (vf_keys V) key_id = Some k \<and>
     trusted V k \<and> dget r ''issuer_role'' = JStr role \<and> role \<in> set (vk_roles k) \<and>
     (\<exists>roles. map_of ALLOWED_ROLES t = Some roles \<and> role \<in> set roles) \<and>
     dget r ''issuer'' \<in> JStr ` set (vk_issuers k) \<and> dget r ''audience'' \<in> JStr ` set (vk_audiences k) \<and>
     instant_item r ''issued_at'' = Inr issued \<and> vk_from k \<le> issued \<and> issued \<le> vk_until k \<and>
     issuance_order_is_valid r = Inr True \<and> signed_by V r (vk_public k))"

lemma no_key_faults:
  assumes "key_faults V t r reference {} = Inr {}"
  obtains k where "authentic V r t k"
proof -
  from assms obtain key_id F1 F2 roles role issued F3 where
    c: "string_item r ''issuer_key_id'' = Inr key_id"
      "flag (Inr (case map_of (vf_keys V) key_id of None \<Rightarrow> True | Some k \<Rightarrow> \<not> trusted V k)) ''UNTRUSTED_KEY_ID'' F1 = Inr F2"
      "table_item ALLOWED_ROLES t = Inr roles" "string_item r ''issuer_role'' = Inr role"
      "instant_item r ''issued_at'' = Inr issued"
      "flag (issuance_invalid r reference (map_of (vf_keys V) key_id) roles role issued) ''KEY_ROLE_OR_ISSUANCE_INVALID'' F2 = Inr F3"
      "flag (case map_of (vf_keys V) key_id of None \<Rightarrow> Inr False | Some k \<Rightarrow> notR (signature_is_valid V r (vk_public k)))
        ''SIGNATURE_INVALID'' F3 = Inr {}"
    unfolding key_faults_def Let_def by (elim bindR_E) (rule that)
  have e3: "F3 = {}" using c(7) by (simp add: flag_empty)
  then have e2: "F2 = {}" using c(6) by (simp only: flag_empty)
  then obtain k where k: "map_of (vf_keys V) key_id = Some k" "trusted V k"
    using c(2) by (auto simp: flag_empty split: option.splits)
  have s: "signed_by V r (vk_public k)"
    using c(7) k(1) by (simp add: flag_empty signature_is_valid_True)
  have i: "role \<in> set roles" "role \<in> set (vk_roles k)" "vk_from k \<le> issued" "issued \<le> vk_until k"
    "issuance_order_is_valid r = Inr True"
    "\<exists>v. ditem r ''issuer'' = Inr v \<and> in_strs v (vk_issuers k) = Inr True"
    "\<exists>v. ditem r ''audience'' = Inr v \<and> in_strs v (vk_audiences k) = Inr True"
    using c(6) k(1) e3 by (simp_all add: flag_empty issuance_invalid_def anyR_in_order_False)
  have j: "dget r ''issuer'' \<in> JStr ` set (vk_issuers k)" "dget r ''audience'' \<in> JStr ` set (vk_audiences k)"
    using i(6,7) by (auto simp: ditem_eq_Inr dget_def in_strs_True)
  show thesis
    using c(1,3,4,5) k i(1-5) j s by (intro that [of k]) (auto simp: authentic_def string_item_Inr table_item_Inr)
qed

section \<open>Time\<close>

lemma no_time_faults:
  assumes "add_clock_and_time_faults r context now {} = Inr {}"
  obtains start stop where "instant_item r ''not_before'' = Inr start" "instant_item r ''expires_at'' = Inr stop"
    "start \<le> now" "now < stop"
proof -
  from assms obtain F1 F2 where
    "flag (bindR (instant_item r ''not_before'') (\<lambda>t. Inr (now < t))) ''NOT_YET_VALID'' F1 = Inr F2"
    "flag (bindR (instant_item r ''expires_at'') (\<lambda>t. Inr (now \<ge> t))) ''EXPIRED'' F2 = Inr {}"
    unfolding add_clock_and_time_faults_def by (elim bindR_E) (rule that)
  then show thesis using that by (auto simp: flag_empty)
qed

lemma no_audience_faults:
  assumes "audience_faults t r context {} = Inr {}"
  shows "\<exists>a. map_of EXPECTED_AUDIENCE t = Some a \<and> dget r ''audience'' = JStr a"
  using assms by (auto simp: audience_faults_def table_item_Inr flag_empty ditem_eq_Inr dget_def)

section \<open>Single use\<close>

lemma no_consumption_faults:
  assumes "add_consumption_faults r context {} = Inr {}" and "dget r ''one_use'' = JBool True"
    and "dget context ''consumed_content_hashes'' = JArr hs" and "dget r ''content_hash'' = JStr h"
  shows "JStr h \<notin> set hs"
proof
  assume h: "JStr h \<in> set hs"
  have i: "ditem r ''one_use'' = Inr (JBool True)" "ditem r ''content_hash'' = Inr (JStr h)"
    using assms(2,4) by (auto simp: ditem_def dget_def split: option.splits)
  have l: "list_or_empty context ''consumed_content_hashes'' = Inr hs"
    using assms(3) by (auto simp: list_or_empty_def dget_def dget_or_def split: option.splits)
  from h have "list_ex (\<lambda>x. py_eq x (JStr h)) hs" by (auto simp: list_ex_iff intro!: bexI [of _ "JStr h"])
  with assms(1) obtain rs where "foldR (consumed_fault r (JStr h)) {''ALREADY_CONSUMED''} rs = Inr {}"
    by (auto simp: add_consumption_faults_def i l flag_def)
  from adds_empty [OF adds_fold this] adds_consumed_fault show False by blast
qed

section \<open>Revocation\<close>

text \<open>The ledger as a chain: entry \<open>n\<close> names the hash of entry \<open>n - 1\<close>, the last one ends in the head.\<close>

fun ledger_chain :: "verifier \<Rightarrow> int \<Rightarrow> string \<Rightarrow> json list \<Rightarrow> string \<Rightarrow> bool" where
  "ledger_chain V n previous [] head \<longleftrightarrow> previous = head"
| "ledger_chain V n previous (JObj c # vs) head \<longleftrightarrow>
     dget c ''record_type'' = JStr ''RevocationRecord'' \<and> dget c ''revocation_sequence'' = JStr (str_int n) \<and>
     dget c ''previous_revocation_hash'' = (if n = 1 then JNull else JStr previous) \<and>
     record_mechanism_valid V c = Inr True \<and> (\<exists>h. dget c ''content_hash'' = JStr h \<and> ledger_chain V (n + 1) h vs head)"
| "ledger_chain V n previous (v # vs) head \<longleftrightarrow> False"

text \<open>An entry that is in effect and names the record by its hash, its serial or its key.\<close>

definition effective_revocation :: "obj \<Rightarrow> int \<Rightarrow> json \<Rightarrow> bool" where
  "effective_revocation r now v \<longleftrightarrow> (\<exists>c at. v = JObj c \<and> instant_item c ''effective_at'' = Inr at \<and> at \<le> now \<and>
     (py_eq (dget c ''revoked_content_hash'') (dget r ''content_hash'') \<or> py_eq (dget c ''revoked_serial'') (dget r ''serial'') \<or>
      py_eq (dget c ''revoked_key_id'') (dget r ''issuer_key_id'')))"

definition dated_entry :: "json \<Rightarrow> bool" where
  "dated_entry v \<longleftrightarrow> (\<exists>c at. v = JObj c \<and> instant_item c ''effective_at'' = Inr at)"

lemma py_eq_null_or_str: "py_eq v (if b then JNull else JStr s) \<longleftrightarrow> v = (if b then JNull else JStr s)"
  by (simp add: py_eq_null py_eq_str)

lemma ledger_scan_Some:
  assumes "ledger_scan V r now ledger_id n previous revoked vs = Inr (Some (head, b))"
  shows "ledger_chain V n previous vs head \<and> b = (revoked \<or> (\<exists>v \<in> set vs. effective_revocation r now v)) \<and>
    (\<forall>v \<in> set vs. dated_entry v)"
  using assms
proof (induction vs arbitrary: n previous revoked)
  case (Cons v vs)
  from Cons.prems obtain c where c: "v = JObj c" by auto
  with Cons.prems obtain cp where v: "v = JObj c" "dget c ''revocation_checkpoint'' = JObj cp"
    by (cases "dget c ''revocation_checkpoint''") auto
  with Cons.prems obtain h b' where
    nb: "entry_broken V r ledger_id n previous c cp = Inr False" and
    h: "string_item c ''content_hash'' = Inr h" and b': "revokes r now c = Inr b'" and
    rest: "ledger_scan V r now ledger_id (n + 1) h (revoked \<or> b') vs = Inr (Some (head, b))"
    by (auto split: if_splits)
  have e: "effective_revocation r now v = b'" and d: "dated_entry v"
    using v(1) b' by (auto simp: effective_revocation_def dated_entry_def revokes_def)
  show ?case
    using Cons.IH [OF rest] nb h e d v(1)
    by (auto simp: entry_broken_def anyR_in_order_False string_item_Inr py_eq_null_or_str)
qed simp

lemma scan_ledger_valid:
  assumes "scan_ledger V r now state required signed n = Inr (b, True)"
  obtains entries ledger_id genesis head where
    "dget state ''signed_revocation_records'' = JArr entries" "dget required ''ledger_id'' = JStr ledger_id"
    "ledger_genesis V ledger_id = Inr genesis" "dget signed ''head_hash'' = JStr genesis"
    "dget required ''head_hash'' = JStr head" "int (length entries) = n"
    "ledger_chain V 1 genesis entries head" "b = (\<exists>v \<in> set entries. effective_revocation r now v)" "\<forall>v \<in> set entries. dated_entry v"
proof -
  from assms obtain ledger_id genesis hd entries head scanned where
    s: "dget required ''ledger_id'' = JStr ledger_id" "ledger_genesis V ledger_id = Inr genesis"
      "dget signed ''head_hash'' = JStr genesis" "dget state ''signed_revocation_records'' = JArr entries"
      "int (length entries) = n" "dget required ''head_hash'' = JStr head"
      "ledger_scan V r now ledger_id 1 genesis False entries = Inr (Some (head, b))"
    unfolding scan_ledger_def
    by (auto simp: string_item_Inr ditem_eq_Inr dget_def split: if_splits option.splits)
  show thesis using that [OF s(4,1,2,3,6,5)] ledger_scan_Some [OF s(7)] by simp
qed

lemma not_revoked:
  assumes "is_revoked V r context now = Inr (b, True)"
  obtains state required signed entries ledger_id genesis head where
    "dget context ''revocation_state'' = JObj state" "dget state ''required_revocation_checkpoint'' = JObj required"
    "dget state ''signed_revocation_records'' = JArr entries" "dget required ''ledger_id'' = JStr ledger_id"
    "ledger_genesis V ledger_id = Inr genesis" "dget required ''head_hash'' = JStr head"
    "ledger_chain V 1 genesis entries head" "b = (\<exists>v \<in> set entries. effective_revocation r now v)" "\<forall>v \<in> set entries. dated_entry v"
proof -
  from assms obtain state where st: "dget context ''revocation_state'' = JObj state"
    by (cases "dget context ''revocation_state''") (auto simp: is_revoked_def)
  note a = assms [unfolded is_revoked_def st json.case]
  then have "keys_eq state [''required_revocation_checkpoint'', ''signed_revocation_records'']" by (rule contrapos_pp) simp
  with a obtain v required signed where
    r: "ditem state ''required_revocation_checkpoint'' = Inr v" "as_object v = Inr required" and
    a: "(if \<not> keys_eq required [''ledger_id'', ''sequence'', ''head_hash''] then Inr (False, False)
          else bindR (differs (ditem required ''ledger_id'') (ditem signed ''ledger_id'')) (\<lambda>other.
            if other then Inr (False, False)
            else bindR (checkpoint_sequences signed required) (\<lambda>sequences. case sequences of
                None \<Rightarrow> Inr (False, False)
              | Some (s, n) \<Rightarrow>
                  if s \<noteq> 0 \<or> n < s then Inr (False, False) else scan_ledger V r now state required signed n))) = Inr (b, True)"
    by (simp only: not_True_eq_False if_False) (elim bindR_E, rule that)
  from a have "keys_eq required [''ledger_id'', ''sequence'', ''head_hash'']" by (rule contrapos_pp) simp
  with a obtain other where
    a: "(if other then Inr (False, False)
            else bindR (checkpoint_sequences signed required) (\<lambda>sequences. case sequences of
                None \<Rightarrow> Inr (False, False)
              | Some (s, n) \<Rightarrow>
                  if s \<noteq> 0 \<or> n < s then Inr (False, False) else scan_ledger V r now state required signed n)) = Inr (b, True)"
    by (simp only: not_True_eq_False if_False) (erule bindR_E, rule that)
  from a have "\<not> other" by (rule contrapos_pn) simp
  with a obtain ps where
    ps: "(case ps of None \<Rightarrow> Inr (False, False)
       | Some (s, n) \<Rightarrow> if s \<noteq> 0 \<or> n < s then Inr (False, False) else scan_ledger V r now state required signed n)
       = Inr (b, True)"
    by (simp only: if_False) (erule bindR_E, rule that)
  from ps obtain n where "scan_ledger V r now state required signed n = Inr (b, True)"
    by (auto split: option.splits if_splits)
  with st r have s: "dget context ''revocation_state'' = JObj state"
      "dget state ''required_revocation_checkpoint'' = JObj required"
      "scan_ledger V r now state required signed n = Inr (b, True)"
    by (auto simp: ditem_eq_Inr dget_def)
  from scan_ledger_valid [OF s(3)] show thesis using that [OF s(1,2)] by metis
qed

text \<open>The ledger is complete, and no entry that is in effect names the record by its hash, its serial or its key.\<close>

definition unrevoked :: "verifier \<Rightarrow> obj \<Rightarrow> int \<Rightarrow> obj \<Rightarrow> bool" where
  "unrevoked V context now r \<longleftrightarrow> (\<exists>state required entries ledger_id genesis head.
     dget context ''revocation_state'' = JObj state \<and> dget state ''required_revocation_checkpoint'' = JObj required \<and>
     dget state ''signed_revocation_records'' = JArr entries \<and> dget required ''ledger_id'' = JStr ledger_id \<and>
     ledger_genesis V ledger_id = Inr genesis \<and> dget required ''head_hash'' = JStr head \<and> ledger_chain V 1 genesis entries head \<and>
     (\<forall>v \<in> set entries. \<exists>c at. v = JObj c \<and> instant_item c ''effective_at'' = Inr at \<and>
        (at \<le> now \<longrightarrow> \<not> py_eq (dget c ''revoked_content_hash'') (dget r ''content_hash'') \<and>
           \<not> py_eq (dget c ''revoked_serial'') (dget r ''serial'') \<and> \<not> py_eq (dget c ''revoked_key_id'') (dget r ''issuer_key_id''))))"

lemma unrevoked_record:
  assumes "is_revoked V r context now = Inr (False, True)"
  shows "unrevoked V context now r"
proof -
  from assms obtain state required signed entries ledger_id genesis head where
    n: "dget context ''revocation_state'' = JObj state" "dget state ''required_revocation_checkpoint'' = JObj required"
      "dget state ''signed_revocation_records'' = JArr entries" "dget required ''ledger_id'' = JStr ledger_id"
      "ledger_genesis V ledger_id = Inr genesis" "dget required ''head_hash'' = JStr head" "ledger_chain V 1 genesis entries head"
    and e: "\<not> (\<exists>v \<in> set entries. effective_revocation r now v)" "\<forall>v \<in> set entries. dated_entry v"
    by (rule not_revoked) simp
  have "\<exists>c at. v = JObj c \<and> instant_item c ''effective_at'' = Inr at \<and>
        (at \<le> now \<longrightarrow> \<not> py_eq (dget c ''revoked_content_hash'') (dget r ''content_hash'') \<and>
           \<not> py_eq (dget c ''revoked_serial'') (dget r ''serial'') \<and> \<not> py_eq (dget c ''revoked_key_id'') (dget r ''issuer_key_id''))"
    if "v \<in> set entries" for v
    using e that unfolding effective_revocation_def dated_entry_def by blast
  with n show ?thesis unfolding unrevoked_def by blast
qed

section \<open>Gates\<close>

text \<open>A receipt of gate \<open>kind\<close> that builds on the receipt with hash \<open>previous\<close>: it passed, is for one use, names its predecessor,
  is mechanically valid, and at the time \<open>now\<close> it is in its window and unrevoked.\<close>

definition gate_passes :: "verifier \<Rightarrow> obj \<Rightarrow> int \<Rightarrow> string \<Rightarrow> string list \<Rightarrow> obj \<Rightarrow> string \<Rightarrow> bool" where
  "gate_passes V context now kind previous g h \<longleftrightarrow>
     dget g ''gate_kind'' = JStr kind \<and> dget g ''gate_result'' = JStr ''PASS'' \<and> dget g ''one_use'' = JBool True \<and>
     dget g ''prerequisite_receipt_hashes'' = JArr (map JStr previous) \<and> dget g ''content_hash'' = JStr h \<and>
     record_mechanism_valid V g = Inr True \<and>
     (\<exists>first last. instant_item g ''not_before'' = Inr first \<and> first \<le> now \<and> instant_item g ''expires_at'' = Inr last \<and> now < last) \<and>
     unrevoked V context now g"

lemma py_eq_strs: "py_eq v (JArr (map JStr ss)) \<longleftrightarrow> v = JArr (map JStr ss)"
proof (cases v)
  case (JArr xs)
  have "(length xs = length ss \<and> list_all (\<lambda>(x, y). py_eq x y) (zip xs (map JStr ss))) \<longleftrightarrow> xs = map JStr ss"
  proof (induction xs arbitrary: ss)
    case (Cons x xs)
    then show ?case by (cases ss) (simp_all add: py_eq_str conj_left_commute)
  qed simp
  then show ?thesis using JArr by simp
qed simp_all

lemma gate_faults_Cons:
  assumes "gate_faults V r context now (kind # kinds) previous bs (v # vs) {} = Inr {}"
  obtains g h b bs' where "v = JObj g" "bs = b # bs'" "gate_faults V r context now kinds (Some h) bs' vs {} = Inr {}"
    "gate_passes V context now kind (case previous of None \<Rightarrow> [] | Some p \<Rightarrow> [p]) g h"
proof (cases bs)
  case (Cons b bs')
  from assms obtain g binding rv F h where
    s: "as_object v = Inr g" "is_revoked V g context now = Inr rv" "string_item g ''content_hash'' = Inr h"
      "flag (gate_invalid V r now kind previous binding g rv) ''PREREQUISITE_GATE_INVALID'' {} = Inr F"
      "gate_faults V r context now kinds (Some h) bs' vs F = Inr {}"
    unfolding Cons gate_faults.simps by (elim bindR_E) (rule that)
  have F: "F = {}" by (rule adds_empty [OF adds_gate_faults s(5)])
  have p: "(case previous of None \<Rightarrow> [] | Some h \<Rightarrow> [JStr h]) = map JStr (case previous of None \<Rightarrow> [] | Some p \<Rightarrow> [p])"
    by (simp split: option.split)
  have "gate_passes V context now kind (case previous of None \<Rightarrow> [] | Some p \<Rightarrow> [p]) g h"
    using s(2,3,4) unfolding F flag_empty gate_invalid_def anyR_in_order_False p
    by (cases rv) (auto simp: gate_passes_def py_eq_strs string_item_Inr not_le intro: unrevoked_record)
  then show thesis using that s(1,5) Cons unfolding F as_Inr by blast
qed (use assms in simp)

lemma no_run_gate_faults:
  assumes "run_gate_faults V r reference context now {} = Inr {}"
  obtains g1 h1 g2 h2 g3 h3 where
    "dget context ''prerequisite_gate_records'' = JArr [JObj g1, JObj g2, JObj g3]"
    "gate_passes V context now ''R0_REPAIR_ACCEPTED'' [] g1 h1"
    "gate_passes V context now ''F0A_FOUNDATION_ACCEPTED'' [h1] g2 h2"
    "gate_passes V context now ''DISCOVERY_SECURITY_ACCEPTED'' [h2] g3 h3"
proof -
  from assms obtain supplied bs where
    s: "dget context ''prerequisite_gate_records'' = JArr supplied" "length supplied = 3"
      "gate_faults V r context now GATE_KINDS None bs supplied {} = Inr {}"
    unfolding run_gate_faults_def by (auto split: if_splits json.splits)
  then obtain v1 v2 v3 where v: "supplied = [v1, v2, v3]"
    by (auto simp: numeral_3_eq_3 length_Suc_conv)
  from gate_faults_Cons [OF s(3) [unfolded v GATE_KINDS_def]] obtain g1 h1 bs1 where
    1: "v1 = JObj g1" "gate_passes V context now ''R0_REPAIR_ACCEPTED'' [] g1 h1"
      "gate_faults V r context now [''F0A_FOUNDATION_ACCEPTED'', ''DISCOVERY_SECURITY_ACCEPTED''] (Some h1) bs1 [v2, v3] {} = Inr {}"
    by simp metis
  from gate_faults_Cons [OF 1(3)] obtain g2 h2 bs2 where
    2: "v2 = JObj g2" "gate_passes V context now ''F0A_FOUNDATION_ACCEPTED'' [h1] g2 h2"
      "gate_faults V r context now [''DISCOVERY_SECURITY_ACCEPTED''] (Some h2) bs2 [v3] {} = Inr {}"
    by simp metis
  from gate_faults_Cons [OF 2(3)] obtain g3 h3 where
    3: "v3 = JObj g3" "gate_passes V context now ''DISCOVERY_SECURITY_ACCEPTED'' [h2] g3 h3"
    by simp metis
  show thesis using that s(1) v 1(1,2) 2(1,2) 3 by simp
qed

section \<open>The trust root\<close>

lemma test_keys_are_inactive:
  assumes "foldR (test_key A rfc_public rfc_key_id) keys vs = Inr keys'" and "\<forall>(i, k) \<in> set keys. \<not> vk_active k \<and> vk_test_only k"
  shows "\<forall>(i, k) \<in> set keys'. \<not> vk_active k \<and> vk_test_only k"
  using assms
proof (induction vs arbitrary: keys)
  case (Cons v vs)
  then obtain keys1 where k: "test_key A rfc_public rfc_key_id keys v = Inr keys1"
    "foldR (test_key A rfc_public rfc_key_id) keys1 vs = Inr keys'" by auto
  from k(1) have "\<forall>(i, k) \<in> set keys1. \<not> vk_active k \<and> vk_test_only k"
    using Cons.prems(2) unfolding test_key_def Let_def by (elim bindR_E) auto
  from Cons.IH [OF k(2) this] show ?case .
qed simp

lemma trust_root_keys_are_inactive:
  assumes "load_and_validate_trust_root A trust rfc = Inr keys"
  shows "length keys = 1 \<and> (\<forall>(i, k) \<in> set keys. \<not> vk_active k \<and> vk_test_only k)"
proof -
  from assms obtain p entries keys' u where
    k: "foldR (test_key A (fst p) (snd p)) [] entries = Inr keys'" "assertR (length keys' = 1) = Inr u" "(Inr keys' :: (string \<times> verifier_key) list res) = Inr keys"
    unfolding load_and_validate_trust_root_def case_prod_beta by (elim bindR_E) (rule that)
  have "length keys' = 1" using k(2) by (simp add: assertR_def split: if_splits)
  then show ?thesis using test_keys_are_inactive [OF k(1)] k(3) by simp
qed

section \<open>Mutations\<close>

text \<open>Reading the value at a path, as \<open>replace_at\<close> finds its way.\<close>

fun read_at :: "string list \<Rightarrow> json \<Rightarrow> json res" where
  "read_at [] target = Inr target"
| "read_at (c # cs) target = (case target of
      JObj d \<Rightarrow> (case map_of d c of None \<Rightarrow> Inl AssertionError | Some inner \<Rightarrow> read_at cs inner)
    | JArr xs \<Rightarrow> bindR (parse_int c) (\<lambda>i. bindR (list_position i xs) (\<lambda>n. read_at cs (xs ! n)))
    | _ \<Rightarrow> Inl AssertionError)"

lemma dput_back: "map_of d k = Some v \<Longrightarrow> dput k v (dput k w d) = d"
  by (induction k w d rule: dput.induct) (auto split: if_splits)

lemma list_position_bound: "list_position i xs = Inr n \<Longrightarrow> n < length xs"
  by (auto simp: list_position_def Let_def split: if_splits)

lemma list_position_update: "list_position i (xs[n := v]) = list_position i xs"
  by (simp add: list_position_def)

lemma replace_at_back:
  assumes "replace_at path v t = Inr t'"
  shows "read_at path t' = Inr v \<and> (\<exists>old. read_at path t = Inr old \<and> replace_at path old t' = Inr t)"
  using assms
proof (induction path arbitrary: t t')
  case (Cons c cs)
  show ?case
  proof (cases t)
    case (JObj d)
    with Cons.prems obtain inner w where i: "map_of d c = Some inner" "replace_at cs v inner = Inr w" "t' = JObj (dput c w d)"
      by (auto split: option.splits)
    from Cons.IH [OF i(2)] show ?thesis using JObj i(1,3) by (auto simp: map_of_dput dput_back)
  next
    case (JArr xs)
    with Cons.prems obtain i n w where i: "parse_int c = Inr i" "list_position i xs = Inr n"
      "replace_at cs v (xs ! n) = Inr w" "t' = JArr (xs[n := w])"
      by auto
    from Cons.IH [OF i(3)] obtain old where
      o: "read_at cs w = Inr v" "read_at cs (xs ! n) = Inr old" "replace_at cs old w = Inr (xs ! n)" by blast
    have n: "n < length xs" by (rule list_position_bound [OF i(2)])
    have "read_at (c # cs) t' = Inr v" using o(1) n by (simp add: i(1,2,4) list_position_update)
    moreover have "read_at (c # cs) t = Inr old" using o(2) by (simp add: i(1,2) JArr)
    moreover have "replace_at (c # cs) old t' = Inr t" using o(3) n by (simp add: i(1,2,4) JArr list_position_update)
    ultimately show ?thesis by blast
  qed (use Cons.prems in auto)
qed simp

end
