(* ===== verification/Auth_Props.thy ===== *)
theory Auth_Props
  imports Auth_Valid Authorization
begin

text \<open>
  The properties of the authorization checks: how a result is chosen among the faults, what a VALID result
  guarantees, and that the trust root of the repository never makes a record valid in active mode.
\<close>

text \<open>
  A concrete verifier and records for the witnesses of the authorization properties: one key, a ledger with
  one entry, three gate receipts and an authorization of a run. The imported functions are stand-ins: every
  hash is 64 zeros and every signature verifies.
\<close>

definition auth_registry_entry :: "string \<Rightarrow> json" where
  "auth_registry_entry t = JObj [(''artifact_type'', JStr t), (''domain'', JStr ''D''),
     (''excluded_json_pointers'', JArr [JStr ''/content_hash'', JStr ''/signature''])]"

definition auth_types :: "string list" where
  "auth_types = [''GateReceipt'', ''DiscoveryRunAuthorization'', ''RevocationRecord'']"

definition auth_registry :: json where
  "auth_registry = JObj
     [(''domains'', JArr (map auth_registry_entry auth_types)),
      (''domain_validation_classes'', JArr [JObj [(''class_id'', JStr ''SCHEMA_GATED_SELF_HASH''),
         (''artifact_types'', JArr (map JStr auth_types))]]),
      (''schema_binding_groups'', JArr [JObj [(''artifact_types'', JArr (map JStr auth_types)),
         (''required_excluded_json_pointers'', JArr [JStr ''/content_hash'', JStr ''/signature''])]])]"

definition zeros :: string where
  "zeros = replicate 64 CHR ''0''"

definition demo_auth :: auth_env where
  "demo_auth = \<lparr>au_codec = \<lparr>json_loads = (\<lambda>_. Some auth_registry), nfc = (\<lambda>s. s), sha256 = (\<lambda>_. zeros), jcs = (\<lambda>_. Inr [])\<rparr>,
     au_registry = [], au_schema = (\<lambda>_ _. True), au_ed25519 = (\<lambda>_ _ _. True)\<rparr>"

definition demo_key :: verifier_key where
  "demo_key = \<lparr>vk_id = ''k'', vk_public = ''p'', vk_issuers = [''i''], vk_roles = TRUST_ROLES,
     vk_audiences = map fst AUDIENCE_ROLE_BINDINGS, vk_from = 0, vk_until = 10 ^ 18, vk_active = False, vk_test_only = True\<rparr>"

definition demo_verifier :: verifier where
  "demo_verifier = \<lparr>vf_env = demo_auth, vf_valid = (\<lambda>_. True), vf_mode = TEST_TRUST_MODE, vf_keys = [(''k'', demo_key)]\<rparr>"

definition checkpoint :: "string \<Rightarrow> json" where
  "checkpoint n = JObj [(''ledger_id'', JStr ''L''), (''sequence'', JStr n), (''head_hash'', JStr zeros)]"

definition signed_record :: "string \<Rightarrow> string \<Rightarrow> string \<Rightarrow> obj \<Rightarrow> obj" where
  "signed_record t role audience rest =
     [(''record_type'', JStr t), (''issuer'', JStr ''i''), (''issuer_key_id'', JStr ''k''), (''issuer_role'', JStr role),
      (''audience'', JStr audience), (''issued_at'', JStr ''2026-01-01T00:00:00Z''), (''not_before'', JStr ''2026-01-01T00:00:00Z''),
      (''expires_at'', JStr ''2026-01-02T00:00:00Z''), (''content_hash'', JStr zeros), (''signature'', JStr (replicate 86 CHR ''A'')),
      (''revocation_checkpoint'', checkpoint ''0''), (''implementation_bindings'', JObj []),
      (''pack_bindings'', JObj (map (\<lambda>(k, _). (k, JStr ''x'')) PACK_FIELDS))] @ rest"

definition demo_revocation :: obj where
  "demo_revocation = signed_record ''RevocationRecord'' ''REVOCATION_AUTHORITY'' ''hybrid-discovery:revocation-ledger:v1''
     [(''ledger_id'', JStr ''L''), (''revocation_sequence'', JStr ''1''), (''previous_revocation_hash'', JNull),
      (''effective_at'', JStr ''2026-01-01T00:00:00Z''), (''revoked_serial'', JStr ''s0'')]"

definition demo_gate :: "string \<Rightarrow> string list \<Rightarrow> obj" where
  "demo_gate kind previous = signed_record ''GateReceipt'' ''PACK_REVIEWER'' ''hybrid-discovery:bootstrap-gate:v1''
     [(''gate_kind'', JStr kind), (''gate_result'', JStr ''PASS''), (''declared_use_semantics'', JStr ''SINGLE_USE''),
      (''one_use'', JBool True), (''consumed_before'', JStr ''ATOMIC_LEDGER_COMMIT_BEFORE_GATE_USE''),
      (''prerequisite_receipt_hashes'', JArr (map JStr previous)), (''serial'', JStr ''s1'')]"

definition demo_monotonic :: "string \<Rightarrow> json" where
  "demo_monotonic v = JObj [(''clock_domain_id'', JStr ''c''), (''boot_id'', JStr ''b''), (''unit'', JStr ''us''),
     (''value'', JStr v), (''resolution'', JStr ''1'')]"

definition demo_run :: obj where
  "demo_run = signed_record ''DiscoveryRunAuthorization'' ''DISCOVERY_OPERATOR'' ''hybrid-discovery:extension-run-controller:v1''
     [(''one_use'', JBool True), (''serial'', JStr ''s2''), (''scope'', JNull), (''browser_binding'', JObj []),
      (''authorization_mode'', JStr ''NEW_RUN''), (''discovery_run_id'', JStr ''r''), (''pairing_secret_commitment'', JStr ''c''),
      (''budget'', JNull),
      (''verifier_clock'', JObj [(''monotonic_start'', demo_monotonic ''1''), (''monotonic_deadline'', demo_monotonic ''9''),
         (''trusted_wall_anchor'', JObj [(''boot_id'', JStr ''b''), (''value'', JStr ''2026-01-01T00:00:00Z'')])]),
      (''prerequisite_gates'', JArr (map (\<lambda>k. JObj [(''gate_kind'', JStr k), (''content_hash'', JStr zeros)]) GATE_KINDS))]"

definition demo_gates :: "obj list" where
  "demo_gates = [demo_gate ''R0_REPAIR_ACCEPTED'' [], demo_gate ''F0A_FOUNDATION_ACCEPTED'' [zeros],
     demo_gate ''DISCOVERY_SECURITY_ACCEPTED'' [zeros]]"

definition demo_context :: "string list \<Rightarrow> obj" where
  "demo_context consumed =
     [(''validation_time'', JStr ''2026-01-01T12:00:00Z''), (''current_monotonic'', demo_monotonic ''5''),
      (''backend_restart_detected'', JBool False), (''wall_clock_rollback_detected'', JBool False),
      (''monotonic_regression_detected'', JBool False), (''clock_evidence_verified'', JBool True),
      (''revocation_state'', JObj [(''required_revocation_checkpoint'', checkpoint ''1''),
         (''signed_revocation_records'', JArr [JObj demo_revocation])]),
      (''prerequisite_gate_records'', JArr (map JObj demo_gates)),
      (''consumed_content_hashes'', JArr (map JStr consumed))]"

abbreviation noon :: int where
  "noon \<equiv> 63902952000000000"

text \<open>The signature, the hash and the times of the demonstration are decoded once; the results serve as code
  equations of the evaluations below.\<close>

definition demo_signature :: string where
  "demo_signature = replicate 86 CHR ''A''"

lemma demo_signature_decodes: "decode_base64url demo_signature 64 = Inr (replicate 64 CHR 0x00)"
  by code_simp

lemma zeros_decode: "bytes_fromhex zeros = Inr (replicate 32 CHR 0x00)"
  by code_simp

lemma demo_times:
  "instant (JStr ''2026-01-01T00:00:00Z'') = Inr 63902908800000000"
  "instant (JStr ''2026-01-02T00:00:00Z'') = Inr 63902995200000000"
  "instant (JStr ''2026-01-01T12:00:00Z'') = Inr noon"
  by code_simp+

lemma decode_base64url_once [code]:
  "decode_base64url v n = (if n = 64 \<and> v = demo_signature then Inr (replicate 64 CHR 0x00)
     else if \<not> list_all base64url_char v then Inl (ValueError ''invalid unpadded base64url'')
      else case urlsafe_b64decode (v @ replicate ((4 - length v mod 4) mod 4) CHR ''='') of
          Inl _ \<Rightarrow> Inl (ValueError ''invalid unpadded base64url'')
        | Inr decoded \<Rightarrow>
            if length decoded \<noteq> n then Inl (ValueError ''invalid decoded length'')
            else if rstrip_pad (urlsafe_b64encode decoded) \<noteq> v then Inl (ValueError ''noncanonical unpadded base64url'')
            else Inr (map char_of decoded))"
  using demo_signature_decodes by (cases "n = 64 \<and> v = demo_signature") (simp, simp only: decode_base64url_def if_False)

lemma bytes_fromhex_once [code]:
  "bytes_fromhex s = (if s = zeros then Inr (replicate 32 CHR 0x00)
     else case hex_bytes s of None \<Rightarrow> Inl (ValueError ''non-hexadecimal number'') | Some bs \<Rightarrow> Inr bs)"
  using zeros_decode by (cases "s = zeros") (simp, simp add: bytes_fromhex_def)

lemma instant_once [code]:
  "instant v = (if v = JStr ''2026-01-01T00:00:00Z'' then Inr 63902908800000000
     else if v = JStr ''2026-01-02T00:00:00Z'' then Inr 63902995200000000
     else if v = JStr ''2026-01-01T12:00:00Z'' then Inr noon
     else bindR (as_string v) utc_instant)"
  using demo_times by (simp add: instant_def)

text \<open>Each group of faults is evaluated on its own; the list of consumed hashes plays a part in one of them.\<close>

lemma demo_hash: "record_hash demo_verifier ''DiscoveryRunAuthorization'' demo_run = Inr zeros"
  by code_simp

lemma demo_key_faults: "key_faults demo_verifier ''DiscoveryRunAuthorization'' demo_run demo_run {} = Inr {}"
  by code_simp

lemma demo_binding_faults: "binding_faults demo_run demo_run (demo_context cs) {} = Inr {}"
  by code_simp

lemma demo_audience_faults: "audience_faults ''DiscoveryRunAuthorization'' demo_run (demo_context cs) {} = Inr {}"
  by code_simp

lemma demo_time: "validation_time demo_run (demo_context cs) = Inr noon"
  by code_simp

lemma demo_unrevoked: "is_revoked demo_verifier demo_run (demo_context cs) noon = Inr (False, True)"
  by code_simp

lemma demo_clock_faults: "add_clock_and_time_faults demo_run (demo_context cs) noon {} = Inr {}"
  by code_simp

lemma demo_gates_unrevoked:
  "is_revoked demo_verifier (demo_gate ''R0_REPAIR_ACCEPTED'' []) (demo_context cs) noon = Inr (False, True)"
  "is_revoked demo_verifier (demo_gate ''F0A_FOUNDATION_ACCEPTED'' [zeros]) (demo_context cs) noon = Inr (False, True)"
  "is_revoked demo_verifier (demo_gate ''DISCOVERY_SECURITY_ACCEPTED'' [zeros]) (demo_context cs) noon = Inr (False, True)"
  by code_simp+

definition demo_binding :: "string \<Rightarrow> json" where
  "demo_binding k = JObj [(''gate_kind'', JStr k), (''content_hash'', JStr zeros)]"

lemma demo_gates_pass:
  "gate_invalid demo_verifier demo_run noon ''R0_REPAIR_ACCEPTED'' None (the_dict (demo_binding ''R0_REPAIR_ACCEPTED''))
     (demo_gate ''R0_REPAIR_ACCEPTED'' []) (False, True) = Inr False"
  "gate_invalid demo_verifier demo_run noon ''F0A_FOUNDATION_ACCEPTED'' (Some zeros) (the_dict (demo_binding ''F0A_FOUNDATION_ACCEPTED''))
     (demo_gate ''F0A_FOUNDATION_ACCEPTED'' [zeros]) (False, True) = Inr False"
  "gate_invalid demo_verifier demo_run noon ''DISCOVERY_SECURITY_ACCEPTED'' (Some zeros) (the_dict (demo_binding ''DISCOVERY_SECURITY_ACCEPTED''))
     (demo_gate ''DISCOVERY_SECURITY_ACCEPTED'' [zeros]) (False, True) = Inr False"
  by code_simp+

lemma demo_gate_hash: "string_item (demo_gate k p) ''content_hash'' = Inr zeros"
  by (simp add: demo_gate_def signed_record_def string_item_def)

lemma demo_bindings: "ditem demo_run ''prerequisite_gates'' = Inr (JArr (map demo_binding GATE_KINDS))"
  by code_simp

lemma demo_bindings_agree: "differs (Inr (JArr (map demo_binding GATE_KINDS))) (Inr (JArr (map demo_binding GATE_KINDS))) = Inr False"
  by code_simp

lemma demo_supplied: "dget (demo_context cs) ''prerequisite_gate_records'' = JArr (map JObj demo_gates)"
  by (simp add: demo_context_def)

lemma demo_binding_object: "as_object (demo_binding k) = Inr (the_dict (demo_binding k))"
  by (simp add: demo_binding_def)

lemma demo_run_gate_faults: "run_gate_faults demo_verifier demo_run demo_run (demo_context cs) noon {} = Inr {}"
  by (simp add: run_gate_faults_def demo_bindings demo_bindings_agree demo_supplied)
     (simp add: demo_gates_def GATE_KINDS_def demo_binding_object demo_gates_unrevoked demo_gates_pass demo_gate_hash flag_def)

lemma demo_prerequisite_faults: "add_prerequisite_faults demo_verifier demo_run demo_run (demo_context cs) noon {} = Inr {}"
proof -
  have "ditem demo_run ''record_type'' = Inr (JStr ''DiscoveryRunAuthorization'')" by code_simp
  then show ?thesis by (simp add: add_prerequisite_faults_def demo_run_gate_faults)
qed

lemma demo_scope_faults: "add_scope_faults demo_verifier demo_run demo_run (demo_context cs) noon {} = Inr {}"
  by code_simp

lemma demo_serial_faults: "add_serial_and_local_state_faults demo_verifier demo_run demo_run (demo_context cs) F = Inr F"
  by code_simp

lemma demo_content_hash: "ditem demo_run ''content_hash'' = Inr (JStr zeros)"
  by code_simp

lemma demo_record_faults:
  assumes "add_consumption_faults demo_run (demo_context cs) {} = Inr F"
  shows "evaluate_record demo_verifier demo_run demo_run (demo_context cs) = Inr (evaluation_of F)"
proof -
  have t: "string_item demo_run ''record_type'' = Inr ''DiscoveryRunAuthorization''" by code_simp
  have v: "vf_valid demo_verifier (JObj demo_run)" by (simp add: demo_verifier_def)
  have s: "dget_or (demo_context cs) ''consumption_store_available'' (JBool True) = JBool True"
    by (simp add: demo_context_def dget_or_def)
  show ?thesis
    unfolding evaluate_record_def record_faults_def
    using assms v
    by (simp add: t demo_hash demo_content_hash demo_key_faults demo_binding_faults demo_audience_faults demo_time demo_unrevoked
        demo_clock_faults demo_prerequisite_faults demo_scope_faults demo_serial_faults s flag_def)
qed

lemma demo_run_is_valid:
  "evaluate_record demo_verifier demo_run demo_run (demo_context []) = Inr \<lparr>ev_result = ''VALID'', ev_faults = {}\<rparr>"
proof -
  have "add_consumption_faults demo_run (demo_context []) {} = Inr {}" by code_simp
  from demo_record_faults [OF this] show ?thesis by (simp add: evaluation_of_def FAILURE_PRECEDENCE_def)
qed

lemma demo_run_consumed:
  "evaluate_record demo_verifier demo_run demo_run (demo_context [zeros])
     = Inr \<lparr>ev_result = ''ALREADY_CONSUMED'', ev_faults = {''ALREADY_CONSUMED''}\<rparr>"
proof -
  have "add_consumption_faults demo_run (demo_context [zeros]) {} = Inr {''ALREADY_CONSUMED''}" by code_simp
  from demo_record_faults [OF this] show ?thesis by (simp add: evaluation_of_def FAILURE_PRECEDENCE_def)
qed

section \<open>A trust root\<close>

definition demo_key_id :: string where
  "demo_key_id = KEY_PREFIX @ zeros"

definition demo_rfc :: obj where
  "demo_rfc =
     [(''trust'', JStr ''TEST_ONLY_UNTRUSTED''),
      (''seed_hex'', JStr ''9d61b19deffd5a60ba844af492ec2cc44449c5697b326919703bac031cae7f60''),
      (''public_key_hex'', JStr zeros), (''public_key_unpadded_base64url'', JStr (replicate 43 CHR ''A'')),
      (''key_id'', JStr demo_key_id), (''empty_message_signature_hex'', JStr (zeros @ zeros))]"

definition demo_test_key :: obj where
  "demo_test_key =
     [(''label'', JStr ''RFC8032_TEST_VECTOR_1''), (''trust'', JStr ''TEST_ONLY_UNTRUSTED''), (''status'', JStr ''TEST_ONLY_DISABLED''),
      (''issuers'', JArr [JStr ''issuer:rfc8032-test-vector-1'']), (''roles'', JArr (map JStr TRUST_ROLES)),
      (''audiences'', JArr (map (JStr \<circ> fst) AUDIENCE_ROLE_BINDINGS)), (''valid_from'', JStr ''2026-01-01T00:00:00Z''),
      (''valid_until'', JStr ''2027-01-01T00:00:00Z''), (''key_id'', JStr demo_key_id),
      (''public_key'', JStr (replicate 43 CHR ''A''))]"

definition demo_trust :: obj where
  "demo_trust =
     [(''schema_version'', JStr ''trust-root/v1''), (''signature_algorithm'', JStr ''Ed25519''),
      (''public_key_encoding'', JStr ''RAW_32_BYTES_UNPADDED_BASE64URL_CANONICAL_REENCODE_REQUIRED''),
      (''key_id_derivation'', JStr ''key:ed25519:<sha256-lowercase-hex-of-raw-public-key>''),
      (''signature_domain'', JStr SIGNATURE_DOMAIN), (''runtime_key_material'', JStr ''VERIFIER_PUBLIC_KEYS_ONLY''),
      (''signing_key_custody'', JStr ''USER_SCOPED_OS_BACKED_OUTSIDE_PACK_AND_RUNTIME''),
      (''trust_roles'', JArr (map JStr TRUST_ROLES)),
      (''audience_role_bindings'', JArr (map (\<lambda>(a, rs). JObj [(''audience'', JStr a), (''roles'', JArr (map JStr rs))]) AUDIENCE_ROLE_BINDINGS)),
      (''trusted_keys'', JArr []), (''test_only_untrusted_keys'', JArr [JObj demo_test_key]), (''production_authority'', JStr ''NONE'')]"

definition demo_root_keys :: "(string \<times> verifier_key) list" where
  "demo_root_keys = [(demo_key_id, \<lparr>vk_id = demo_key_id, vk_public = replicate 32 CHR 0x00,
     vk_issuers = [''issuer:rfc8032-test-vector-1''], vk_roles = TRUST_ROLES, vk_audiences = map fst AUDIENCE_ROLE_BINDINGS,
     vk_from = 63902908800000000, vk_until = 63934444800000000, vk_active = False, vk_test_only = True\<rparr>)]"

lemma demo_root_loads: "load_and_validate_trust_root demo_auth demo_trust demo_rfc = Inr demo_root_keys"
  by code_simp

definition active_verifier :: verifier where
  "active_verifier = \<lparr>vf_env = demo_auth, vf_valid = (\<lambda>_. True), vf_mode = ACTIVE_TRUST_MODE, vf_keys = demo_root_keys\<rparr>"

definition root_gate :: obj where
  "root_gate = dput ''issuer_key_id'' (JStr demo_key_id) (demo_gate ''R0_REPAIR_ACCEPTED'' []) @
     [(''scope'', JNull), (''criteria_evidence_hashes'', JArr [])]"

lemma root_gate_evaluates: "\<not> isl (evaluate_record active_verifier root_gate root_gate (demo_context []))"
  by code_simp

section \<open>Results\<close>

text \<open>C17: The result of an evaluation is decided by precedence. All its faults are codes of the precedence
  list; without a fault the result is VALID; otherwise it is the fault that comes first in the list.\<close>

theorem first_fault_decides:
  assumes "evaluate_record V r reference context = Inr e"
  shows "ev_faults e \<subseteq> set FAILURE_PRECEDENCE \<and> (ev_result e = ''VALID'' \<longleftrightarrow> ev_faults e = {}) \<and>
    (ev_faults e \<noteq> {} \<longrightarrow> (\<exists>n < length FAILURE_PRECEDENCE. ev_result e = FAILURE_PRECEDENCE ! n \<and>
      ev_result e \<in> ev_faults e \<and> (\<forall>m < n. FAILURE_PRECEDENCE ! m \<notin> ev_faults e)))"
proof -
  obtain F where F: "e = evaluation_of F" "F \<subseteq> set FAILURE_PRECEDENCE" by (rule evaluate_record_faults [OF assms])
  have "ev_faults e = F" by (simp add: F(1) evaluation_of_def)
  then show ?thesis
    using F(2) evaluation_of_result(1) [OF F(2)] evaluation_of_result(2) [OF F(2)] unfolding F(1) [symmetric] by metis
qed

text \<open>C14: A VALID record is authentic and current: it passes the schema, names its own canonical hash, is
  signed over that hash by a known and trusted key that may play its role and was valid when it was issued,
  is presented inside its validity window, and its audience is the one of its type.\<close>

theorem valid_record_is_authentic:
  assumes "evaluate_record V r reference context = Inr e" and "ev_result e = ''VALID''"
  shows "vf_valid V (JObj r) \<and> (\<exists>t h k now start stop. dget r ''record_type'' = JStr t \<and>
     record_hash V t r = Inr h \<and> dget r ''content_hash'' = JStr h \<and> authentic V r t k \<and>
     validation_time r context = Inr now \<and> instant_item r ''not_before'' = Inr start \<and>
     instant_item r ''expires_at'' = Inr stop \<and> start \<le> now \<and> now < stop \<and>
     (\<exists>a. map_of EXPECTED_AUDIENCE t = Some a \<and> dget r ''audience'' = JStr a))"
proof -
  obtain t h where v: "vf_valid V (JObj r)" "dget r ''record_type'' = JStr t" "record_hash V t r = Inr h"
    "record_faults V t h r reference context = Inr {}" by (rule valid_evaluation [OF assms])
  obtain now where n: "ditem r ''content_hash'' = Inr (JStr h)" "validation_time r context = Inr now"
    "key_faults V t r reference {} = Inr {}" "audience_faults t r context {} = Inr {}"
    "add_clock_and_time_faults r context now {} = Inr {}" by (rule no_record_faults [OF v(4)])
  obtain k where "authentic V r t k" by (rule no_key_faults [OF n(3)])
  moreover obtain start stop where "instant_item r ''not_before'' = Inr start" "instant_item r ''expires_at'' = Inr stop"
    "start \<le> now" "now < stop" by (rule no_time_faults [OF n(5)])
  moreover have "\<exists>a. map_of EXPECTED_AUDIENCE t = Some a \<and> dget r ''audience'' = JStr a"
    by (rule no_audience_faults [OF n(4)])
  moreover have "dget r ''content_hash'' = JStr h" using n(1) by (simp add: ditem_eq_Inr dget_def)
  ultimately show ?thesis using v(1,2,3) n(2) by blast
qed

text \<open>C15: No entry of the revocation ledger that is in effect at the validation time names a VALID record by its content
  hash, its serial or the id of its key; the ledger is given whole: a chain of valid revocation records from the
  genesis hash to the required head, each with the time it takes effect.\<close>

theorem valid_record_is_not_revoked:
  assumes "evaluate_record V r reference context = Inr e" and "ev_result e = ''VALID''"
  shows "\<exists>now state required entries ledger_id genesis head. validation_time r context = Inr now \<and>
    dget context ''revocation_state'' = JObj state \<and> dget state ''required_revocation_checkpoint'' = JObj required \<and>
    dget state ''signed_revocation_records'' = JArr entries \<and> dget required ''ledger_id'' = JStr ledger_id \<and>
    ledger_genesis V ledger_id = Inr genesis \<and> dget required ''head_hash'' = JStr head \<and>
    ledger_chain V 1 genesis entries head \<and>
    (\<forall>v \<in> set entries. \<exists>c at. v = JObj c \<and> instant_item c ''effective_at'' = Inr at \<and>
       (at \<le> now \<longrightarrow> \<not> py_eq (dget c ''revoked_content_hash'') (dget r ''content_hash'') \<and>
          \<not> py_eq (dget c ''revoked_serial'') (dget r ''serial'') \<and> \<not> py_eq (dget c ''revoked_key_id'') (dget r ''issuer_key_id'')))"
proof -
  obtain t h where v: "record_faults V t h r reference context = Inr {}" by (rule valid_evaluation [OF assms])
  obtain now where n: "validation_time r context = Inr now" "is_revoked V r context now = Inr (False, True)"
    by (rule no_record_faults [OF v])
  from unrevoked_record [OF n(2)] n(1) show ?thesis unfolding unrevoked_def by blast
qed

text \<open>A record for one use whose hash was consumed is never VALID.\<close>

theorem consumed_record_is_not_valid:
  assumes "evaluate_record V r reference context = Inr e" and "dget r ''one_use'' = JBool True"
    and "dget context ''consumed_content_hashes'' = JArr hs" and "dget r ''content_hash'' \<in> set hs"
  shows "ev_result e \<noteq> ''VALID''"
proof
  assume "ev_result e = ''VALID''"
  then obtain t h where v: "record_faults V t h r reference context = Inr {}" by (rule valid_evaluation [OF assms(1)])
  obtain now where n: "ditem r ''content_hash'' = Inr (JStr h)" "add_consumption_faults r context {} = Inr {}"
    by (rule no_record_faults [OF v])
  have h: "dget r ''content_hash'' = JStr h" using n(1) by (simp add: ditem_eq_Inr dget_def)
  from no_consumption_faults [OF n(2) assms(2,3) h] show False using assms(4) h by simp
qed

text \<open>C16: A VALID authorization of a discovery run comes with the receipts of the three gates, in their
  order: each passed, is for one use, mechanically valid, names the hash of the one before, and at the validation
  time of the authorization it is in its window and unrevoked.\<close>

theorem valid_run_has_passed_its_gates:
  assumes "evaluate_record V r reference context = Inr e" and "ev_result e = ''VALID''"
    and "dget r ''record_type'' = JStr ''DiscoveryRunAuthorization''"
  shows "\<exists>now g1 h1 g2 h2 g3 h3. validation_time r context = Inr now \<and>
    dget context ''prerequisite_gate_records'' = JArr [JObj g1, JObj g2, JObj g3] \<and>
    gate_passes V context now ''R0_REPAIR_ACCEPTED'' [] g1 h1 \<and>
    gate_passes V context now ''F0A_FOUNDATION_ACCEPTED'' [h1] g2 h2 \<and>
    gate_passes V context now ''DISCOVERY_SECURITY_ACCEPTED'' [h2] g3 h3"
proof -
  obtain t h where v: "record_faults V t h r reference context = Inr {}" by (rule valid_evaluation [OF assms(1,2)])
  obtain now where n: "validation_time r context = Inr now" "add_prerequisite_faults V r reference context now {} = Inr {}"
    by (rule no_record_faults [OF v])
  have "run_gate_faults V r reference context now {} = Inr {}"
    using n(2) assms(3) by (auto simp: add_prerequisite_faults_def ditem_eq_Inr dget_def split: option.splits)
  from no_run_gate_faults [OF this] n(1) show ?thesis by metis
qed

text \<open>The trust root of the repository gives no authority: with the keys it loads, one inactive test key,
  no record is VALID in active mode, whatever it says and however it is signed.\<close>

theorem trust_root_grants_nothing:
  assumes "load_and_validate_trust_root A trust rfc = Inr keys" and "vf_keys V = keys" and "vf_mode V = ACTIVE_TRUST_MODE"
    and "evaluate_record V r reference context = Inr e"
  shows "ev_result e \<noteq> ''VALID''"
proof
  assume "ev_result e = ''VALID''"
  then obtain t h where v: "record_faults V t h r reference context = Inr {}" by (rule valid_evaluation [OF assms(4)])
  obtain now where n: "key_faults V t r reference {} = Inr {}" by (rule no_record_faults [OF v])
  obtain k where k: "authentic V r t k" by (rule no_key_faults [OF n])
  then obtain i where "(i, k) \<in> set keys" "trusted V k" using assms(2) by (auto simp: authentic_def dest: map_of_SomeD)
  moreover have "ACTIVE_TRUST_MODE \<noteq> TEST_TRUST_MODE" by (simp add: ACTIVE_TRUST_MODE_def TEST_TRUST_MODE_def)
  ultimately show False
    using trust_root_keys_are_inactive [OF assms(1)] assms(3) by (auto simp: trusted_def)
qed

text \<open>A mutation of a vector changes the value at its path and nothing else: reading the path gives the
  new value, and putting the old value back restores the document.\<close>

theorem mutation_can_be_undone:
  assumes "replace_at path v t = Inr t'"
  shows "read_at path t' = Inr v \<and> (\<exists>old. read_at path t = Inr old \<and> replace_at path old t' = Inr t)"
  by (rule replace_at_back [OF assms])

section \<open>Witnesses\<close>

theorem first_fault_decides_witness:
  "\<exists>n < length FAILURE_PRECEDENCE. ''ALREADY_CONSUMED'' = FAILURE_PRECEDENCE ! n \<and>
     (\<forall>m < n. FAILURE_PRECEDENCE ! m \<notin> {''ALREADY_CONSUMED''})"
  using first_fault_decides [OF demo_run_consumed] by simp

theorem valid_record_is_authentic_witness: "\<exists>k. authentic demo_verifier demo_run ''DiscoveryRunAuthorization'' k"
proof -
  have "dget demo_run ''record_type'' = JStr ''DiscoveryRunAuthorization''" by code_simp
  then show ?thesis using valid_record_is_authentic [OF demo_run_is_valid] by auto
qed

theorem valid_record_is_not_revoked_witness:
  "\<exists>now at. validation_time demo_run (demo_context []) = Inr now \<and> instant_item demo_revocation ''effective_at'' = Inr at \<and>
     (at \<le> now \<longrightarrow> \<not> py_eq (dget demo_revocation ''revoked_serial'') (dget demo_run ''serial''))"
proof -
  have "dget (demo_context []) ''revocation_state'' = JObj [(''required_revocation_checkpoint'', checkpoint ''1''),
         (''signed_revocation_records'', JArr [JObj demo_revocation])]"
    by (simp add: demo_context_def)
  then show ?thesis using valid_record_is_not_revoked [OF demo_run_is_valid] by auto
qed

theorem consumed_record_is_not_valid_witness: "''ALREADY_CONSUMED'' \<noteq> ''VALID''"
proof -
  have "dget demo_run ''one_use'' = JBool True" "dget demo_run ''content_hash'' = JStr zeros"
    "dget (demo_context [zeros]) ''consumed_content_hashes'' = JArr [JStr zeros]"
    by (code_simp, code_simp, simp add: demo_context_def)
  then show ?thesis using consumed_record_is_not_valid [OF demo_run_consumed] by simp
qed

theorem valid_run_has_passed_its_gates_witness:
  "\<exists>now h. validation_time demo_run (demo_context []) = Inr now \<and>
     gate_passes demo_verifier (demo_context []) now ''R0_REPAIR_ACCEPTED'' [] (demo_gate ''R0_REPAIR_ACCEPTED'' []) h"
proof -
  have "dget demo_run ''record_type'' = JStr ''DiscoveryRunAuthorization''" by code_simp
  then show ?thesis
    using valid_run_has_passed_its_gates [OF demo_run_is_valid] demo_supplied by (auto simp: demo_gates_def)
qed

theorem trust_root_grants_nothing_witness:
  "\<exists>e. evaluate_record active_verifier root_gate root_gate (demo_context []) = Inr e \<and> ev_result e \<noteq> ''VALID''"
proof -
  obtain e where e: "evaluate_record active_verifier root_gate root_gate (demo_context []) = Inr e"
    using root_gate_evaluates by (cases "evaluate_record active_verifier root_gate root_gate (demo_context [])") simp_all
  have "vf_keys active_verifier = demo_root_keys" "vf_mode active_verifier = ACTIVE_TRUST_MODE"
    by (simp_all add: active_verifier_def)
  from trust_root_grants_nothing [OF demo_root_loads this e] e show ?thesis by blast
qed

theorem mutation_can_be_undone_witness:
  "read_at [''a'', ''1''] (JObj [(''a'', JArr [JNull, JBool True])]) = Inr (JBool True)"
proof -
  have "replace_at [''a'', ''1''] (JBool True) (JObj [(''a'', JArr [JNull, JNull])]) = Inr (JObj [(''a'', JArr [JNull, JBool True])])"
    by code_simp
  from mutation_can_be_undone [OF this] show ?thesis by simp
qed

end
