(* ===== verification/Clock_Vectors.thy ===== *)
theory Clock_Vectors
  imports Canonical
begin

text \<open>
  \<^verbatim>\<open>src/moj_discovery/clock_vectors.py\<close>: the offset of two clocks from a four-timestamp exchange, the
  check of a stored mapping against it, the overflow guard of the governed midpoint, and the hash check of
  a clock observation. The verdict of the JSON Schema of the clock records is a parameter.
\<close>

section \<open>Observations\<close>

record clock_observation =
  co_accepted :: bool
  co_error :: string
  co_schema_valid :: bool
  co_computed_hash :: "string option"

definition observation_rejected :: "string \<Rightarrow> bool \<Rightarrow> string option \<Rightarrow> clock_observation" where
  "observation_rejected error schema_valid computed =
     \<lparr>co_accepted = False, co_error = error, co_schema_valid = schema_valid, co_computed_hash = computed\<rparr>"

text \<open>\<open>computed_hash\<close> is bound when the second hash computation raises, not when the first one does.\<close>

definition verify_clock_observation :: "(obj \<Rightarrow> bool) \<Rightarrow> ext \<Rightarrow> string \<Rightarrow> string \<Rightarrow> obj \<Rightarrow> clock_observation res" where
  "verify_clock_observation schema X registry artifact_type r =
     (if \<not> dhas r ''content_hash'' then Inr (observation_rejected ''SCHEMA_INVALID_BEFORE_CANONICAL_HASH'' False None)
      else if \<not> schema r then Inr (observation_rejected ''SCHEMA_INVALID'' False None)
      else case dget r ''content_hash'' of
        JStr expected \<Rightarrow> (case canonical_content_hash X registry artifact_type (JObj r) of
            Inl e \<Rightarrow> (case e of CanonicalError code \<Rightarrow> Inr (observation_rejected code True None) | _ \<Rightarrow> Inl e)
          | Inr computed \<Rightarrow> (case verify_canonical_content_hash X registry artifact_type (JObj r) expected of
              Inl e \<Rightarrow> (case e of CanonicalError code \<Rightarrow> Inr (observation_rejected code True (Some computed)) | _ \<Rightarrow> Inl e)
            | Inr _ \<Rightarrow> Inr \<lparr>co_accepted = True, co_error = ''SCHEMA_VALID_AND_RECOMPUTED_HASH_MATCH'',
                co_schema_valid = True, co_computed_hash = Some computed\<rparr>))
      | _ \<Rightarrow> Inr (observation_rejected ''SCHEMA_INVALID'' False None))"

section \<open>Drift and midpoint\<close>

definition compute_drift :: "json \<Rightarrow> json \<Rightarrow> json \<Rightarrow> int res" where
  "compute_drift relative_drift_ppm source_anchor_us x = (case (relative_drift_ppm, source_anchor_us, x) of
      (JInt ppm, JInt anchor, JInt at) \<Rightarrow>
        if ppm < 0 \<or> anchor < 0 \<or> at < 0 then Inl (ValueError ''E_INVALID_DRIFT_INPUT'')
        else (let numerator = ppm * abs (at - anchor) in Inr ((numerator + 999999) div 1000000))
    | _ \<Rightarrow> Inl (ValueError ''E_INVALID_DRIFT_INPUT''))"

definition INT64_MAX :: int where
  "INT64_MAX = 2 ^ 63 - 1"

definition INT64_MIN :: int where
  "INT64_MIN = - (2 ^ 63)"

definition MIDPOINT_FIELDS :: "string list" where
  "MIDPOINT_FIELDS = [''offset_lower_us'', ''offset_upper_us'', ''base_uncertainty_us'', ''offset_midpoint_us'']"

definition in_int64 :: "int \<Rightarrow> bool" where
  "in_int64 n = (\<not> (n < INT64_MIN \<or> n > INT64_MAX))"

definition validate_midpoint :: "obj \<Rightarrow> bool \<times> string" where
  "validate_midpoint v =
     (if \<not> keys_eq v MIDPOINT_FIELDS \<or> \<not> list_all (\<lambda>k. is_int (dget v k)) MIDPOINT_FIELDS
      then (False, ''REJECT_CHECK_CONSTRAINT'')
      else let lower = the_int (dget v ''offset_lower_us''); upper = the_int (dget v ''offset_upper_us'');
               midpoint = the_int (dget v ''offset_midpoint_us''); uncertainty = the_int (dget v ''base_uncertainty_us'') in
        if \<not> list_all in_int64 [lower, upper, midpoint] then (False, ''REJECT_OVERFLOW_GUARD'')
        else if uncertainty < 0 \<or> uncertainty > 125000 \<or> lower > INT64_MAX - uncertainty * 2
          then (False, ''REJECT_OVERFLOW_GUARD'')
        else if lower > midpoint \<or> midpoint > upper \<or> upper \<noteq> lower + uncertainty * 2 \<or> midpoint \<noteq> lower + uncertainty
          then (False, ''REJECT_CHECK_CONSTRAINT'')
        else (True, if upper = INT64_MAX then ''ACCEPT_OVERFLOW_SAFE'' else ''ACCEPT''))"

section \<open>The exchange\<close>

record clock_evaluation =
  ce_accepted :: bool
  ce_error :: string
  ce_raw_lower :: int
  ce_raw_upper :: int
  ce_rtt :: int
  ce_padding :: int
  ce_interval :: "int \<times> int"
  ce_midpoint :: int
  ce_uncertainty :: int

definition clock_result :: "string \<Rightarrow> int \<Rightarrow> int \<Rightarrow> int \<Rightarrow> int \<Rightarrow> int \<Rightarrow> int \<Rightarrow> clock_evaluation" where
  "clock_result error raw_lower raw_upper rtt padding lower upper = (let midpoint = (lower + upper) div 2 in
     \<lparr>ce_accepted = (error = ''ACCEPT''), ce_error = error, ce_raw_lower = raw_lower, ce_raw_upper = raw_upper,
      ce_rtt = rtt, ce_padding = padding, ce_interval = (lower, upper), ce_midpoint = midpoint,
      ce_uncertainty = max (midpoint - lower) (upper - midpoint)\<rparr>)"

definition reject_clock :: "clock_evaluation \<Rightarrow> string \<Rightarrow> clock_evaluation" where
  "reject_clock actual error = actual\<lparr>ce_accepted := False, ce_error := error\<rparr>"

definition IDENTITY_FIELDS :: "string list" where
  "IDENTITY_FIELDS = [''clock_domain_id'', ''boot_id'', ''unit'', ''owner'']"

definition ENDPOINT_FIELDS :: "string list" where
  "ENDPOINT_FIELDS = [''clock_domain_id'', ''boot_id'', ''owner'', ''unit'', ''resolution_us'']"

definition TIMESTAMPS :: "string list" where
  "TIMESTAMPS = [''t1'', ''t2'', ''t3'', ''t4'']"

definition ENDPOINT_OVERRIDES :: "string list" where
  "ENDPOINT_OVERRIDES = concat (map (\<lambda>t. map (\<lambda>f. t @ ''_'' @ f) IDENTITY_FIELDS) TIMESTAMPS)"

definition RAW_FIELDS :: "string list" where
  "RAW_FIELDS = [''source'', ''target'', ''t1'', ''t2'', ''t3'', ''t4'', ''valid_sample_count'', ''mapping_segment_age_us'',
     ''wall_step_us'', ''eligible_target_intervals'', ''proven_mapping''] @ ENDPOINT_OVERRIDES"

definition GUARDRAIL_FIELDS :: "string list" where
  "GUARDRAIL_FIELDS = [''max_network_rtt_us'', ''max_base_uncertainty_us'', ''minimum_valid_samples'',
     ''max_mapping_segment_age_us'', ''wall_step_tolerance_us'']"

definition nonempty_str :: "json \<Rightarrow> bool" where
  "nonempty_str v = (case v of JStr s \<Rightarrow> s \<noteq> [] | _ \<Rightarrow> False)"

definition nonneg_int :: "json \<Rightarrow> bool" where
  "nonneg_int v = (case v of JInt i \<Rightarrow> 0 \<le> i | _ \<Rightarrow> False)"

definition valid_endpoint :: "json \<Rightarrow> bool" where
  "valid_endpoint v = (case v of
      JObj e \<Rightarrow> keys_eq e ENDPOINT_FIELDS \<and> list_all (\<lambda>k. nonempty_str (dget e k)) IDENTITY_FIELDS \<and>
        nonneg_int (dget e ''resolution_us'')
    | _ \<Rightarrow> False)"

definition valid_interval :: "json \<Rightarrow> bool" where
  "valid_interval v = (case v of JArr xs \<Rightarrow> length xs = 2 \<and> list_all is_int xs | _ \<Rightarrow> False)"

definition valid_input :: "json \<Rightarrow> json \<Rightarrow> bool" where
  "valid_input raw guardrails = (case (raw, guardrails) of
      (JObj r, JObj g) \<Rightarrow>
        keys_subset r RAW_FIELDS \<and>
        list_all (\<lambda>k. is_int (dget r k)) TIMESTAMPS \<and>
        list_all (\<lambda>side. valid_endpoint (dget r side)) [''source'', ''target''] \<and>
        list_all (\<lambda>k. dhas r k \<longrightarrow> nonempty_str (dget r k)) ENDPOINT_OVERRIDES \<and>
        list_all (\<lambda>k. nonneg_int (dget g k)) GUARDRAIL_FIELDS \<and>
        list_all (\<lambda>k. dhas r k \<longrightarrow> nonneg_int (dget r k)) [''valid_sample_count'', ''mapping_segment_age_us''] \<and>
        (dhas r ''wall_step_us'' \<longrightarrow> is_int (dget r ''wall_step_us'')) \<and>
        (dhas r ''proven_mapping'' \<longrightarrow> is_true (dget r ''proven_mapping'') \<or> is_false (dget r ''proven_mapping'')) \<and>
        (dhas r ''eligible_target_intervals'' \<longrightarrow> (case dget r ''eligible_target_intervals'' of
            JArr xs \<Rightarrow> xs \<noteq> [] \<and> list_all valid_interval xs | _ \<Rightarrow> False))
    | _ \<Rightarrow> False)"

text \<open>The accessors of a validated sample.\<close>

definition int_of :: "obj \<Rightarrow> string \<Rightarrow> int" where
  "int_of d k = the_int (dget d k)"

definition int_or :: "obj \<Rightarrow> string \<Rightarrow> int \<Rightarrow> int" where
  "int_or d k n = the_int (dget_or d k (JInt n))"

text \<open>\<^verbatim>\<open>raw.get(f"{t}_{field}", endpoint[field]) != endpoint[field]\<close>; both are strings.\<close>

definition overridden :: "obj \<Rightarrow> string \<Rightarrow> string \<Rightarrow> obj \<Rightarrow> bool" where
  "overridden r t f endpoint = (dget_or r (t @ ''_'' @ f) (dget endpoint f) \<noteq> dget endpoint f)"

definition interval_bounds :: "obj \<Rightarrow> (int \<times> int) list" where
  "interval_bounds r = map (\<lambda>v. (the_int (the_list v ! 0), the_int (the_list v ! 1))) (the_list (dget r ''eligible_target_intervals''))"

definition sample_error :: "obj \<Rightarrow> obj \<Rightarrow> clock_evaluation \<Rightarrow> string option" where
  "sample_error r limits actual =
     (let source = the_dict (dget r ''source''); target = the_dict (dget r ''target'');
          endpoints = [(''t1'', source), (''t4'', source), (''t2'', target), (''t3'', target)];
          intervals = interval_bounds r in
      if ce_rtt actual < 0 then Some ''E_NEGATIVE_NETWORK_RTT''
      else if list_ex (\<lambda>t. overridden r t ''clock_domain_id'' source) [''t1'', ''t4''] then Some ''E_SOURCE_DOMAIN_MISMATCH''
      else if list_ex (\<lambda>t. overridden r t ''clock_domain_id'' target) [''t2'', ''t3''] then Some ''E_TARGET_DOMAIN_MISMATCH''
      else if list_ex (\<lambda>(t, e). overridden r t ''boot_id'' e) endpoints then Some ''E_BOOT_MISMATCH''
      else if list_ex (\<lambda>(t, e). \<not> str_is (dget e ''unit'') ''MICROSECOND'' \<or>
          \<not> str_is (dget_or r (t @ ''_unit'') (dget e ''unit'')) ''MICROSECOND'') endpoints then Some ''E_UNIT_NOT_MICROSECOND''
      else if list_ex (\<lambda>(t, e). overridden r t ''owner'' e) endpoints then Some ''E_TIMESTAMP_OWNER_MISMATCH''
      else if ce_rtt actual > int_of limits ''max_network_rtt_us'' then Some ''E_MAX_NETWORK_RTT_EXCEEDED''
      else if ce_uncertainty actual > int_of limits ''max_base_uncertainty_us'' then Some ''E_MAX_BASE_UNCERTAINTY_EXCEEDED''
      else if int_or r ''valid_sample_count'' (int_of limits ''minimum_valid_samples'') < int_of limits ''minimum_valid_samples''
        then Some ''E_MINIMUM_VALID_SAMPLES''
      else if int_or r ''mapping_segment_age_us'' 0 > int_of limits ''max_mapping_segment_age_us''
        then Some ''E_MAX_MAPPING_SEGMENT_AGE''
      else if abs (int_or r ''wall_step_us'' 0) > int_of limits ''wall_step_tolerance_us'' then Some ''E_WALL_STEP_TOLERANCE''
      else if intervals \<noteq> [] \<and> Max (set (map fst intervals)) > Min (set (map snd intervals)) then Some ''E_INCONSISTENT_MAPPING''
      else if is_false (dget r ''proven_mapping'') \<or>
          (str_is (dget source ''owner'') ''CDP_BROWSER'' \<and> \<not> is_true (dget r ''proven_mapping'')) then Some ''SOURCE_AGE_UNKNOWN''
      else None)"

text \<open>\<open>actual\<close>: what the four timestamps say.\<close>

definition measured :: "obj \<Rightarrow> clock_evaluation" where
  "measured r =
     (let t1 = int_of r ''t1''; t2 = int_of r ''t2''; t3 = int_of r ''t3''; t4 = int_of r ''t4'';
          raw_lower = t3 - t4; raw_upper = t2 - t1; rtt = (t4 - t1) - (t3 - t2);
          padding = int_of (the_dict (dget r ''source'')) ''resolution_us'' + int_of (the_dict (dget r ''target'')) ''resolution_us'' in
      clock_result ''ACCEPT'' raw_lower raw_upper rtt padding (raw_lower - padding) (raw_upper + padding))"

definition derive_clock_mapping :: "json \<Rightarrow> json \<Rightarrow> clock_evaluation" where
  "derive_clock_mapping raw guardrails =
     (if \<not> valid_input raw guardrails then clock_result ''E_INVALID_RAW_CLOCK_INPUT'' 0 0 0 0 0 0
      else let r = the_dict raw in
        if int_of r ''t3'' < int_of r ''t2'' then clock_result ''E_NEGATIVE_TARGET_ORDER'' 0 0 0 0 0 0
        else if int_of r ''t4'' < int_of r ''t1'' then clock_result ''E_NEGATIVE_SOURCE_ORDER'' 0 0 0 0 0 0
        else case sample_error r (the_dict guardrails) (measured r) of
            None \<Rightarrow> measured r
          | Some error \<Rightarrow> reject_clock (measured r) error)"

section \<open>Stored mappings\<close>

definition evaluation_items :: "clock_evaluation \<Rightarrow> obj" where
  "evaluation_items e =
     [(''accepted'', JBool (ce_accepted e)), (''error'', JStr (ce_error e)), (''raw_lower_us'', JInt (ce_raw_lower e)),
      (''raw_upper_us'', JInt (ce_raw_upper e)), (''network_rtt_us'', JInt (ce_rtt e)), (''padding_us'', JInt (ce_padding e)),
      (''offset_interval_us'', JArr [JInt (fst (ce_interval e)), JInt (snd (ce_interval e))]),
      (''offset_midpoint_us'', JInt (ce_midpoint e)), (''base_uncertainty_us'', JInt (ce_uncertainty e)),
      (''offset_lower_us'', JInt (fst (ce_interval e))), (''offset_upper_us'', JInt (snd (ce_interval e)))]"

definition STORED_FIELDS :: "string list" where
  "STORED_FIELDS = [''accepted'', ''error'', ''raw_lower_us'', ''raw_upper_us'', ''network_rtt_us'', ''padding_us'',
     ''offset_interval_us'', ''offset_midpoint_us'', ''base_uncertainty_us'', ''offset_lower_us'', ''offset_upper_us'']"

text \<open>\<open>type(a) is type(b)\<close>.\<close>

fun same_type :: "json \<Rightarrow> json \<Rightarrow> bool" where
  "same_type JNull JNull = True"
| "same_type (JBool _) (JBool _) = True"
| "same_type (JInt _) (JInt _) = True"
| "same_type (JStr _) (JStr _) = True"
| "same_type (JArr _) (JArr _) = True"
| "same_type (JObj _) (JObj _) = True"
| "same_type _ _ = False"

definition ill_typed :: "obj \<Rightarrow> string \<times> json \<Rightarrow> bool" where
  "ill_typed expected = (\<lambda>(k, v). if k = ''offset_interval_us'' then \<not> valid_interval v else \<not> same_type v (dget expected k))"

definition stored_error :: "obj \<Rightarrow> obj \<Rightarrow> clock_evaluation \<Rightarrow> string option" where
  "stored_error stored limits actual =
     (let expected = evaluation_items actual;
          lower = int_or stored ''offset_lower_us'' (fst (ce_interval actual));
          upper = int_or stored ''offset_upper_us'' (snd (ce_interval actual));
          interval = map the_int (the_list (dget_or stored ''offset_interval_us'' (JArr [JInt lower, JInt upper]))) in
      if stored = [] \<or> \<not> keys_subset stored STORED_FIELDS then Some ''E_STORED_MAPPING_MISMATCH''
      else if list_ex (ill_typed expected) stored then Some ''E_STORED_MAPPING_MISMATCH''
      else if lower > upper \<or> interval ! 0 > interval ! 1 then Some ''E_INVERTED_OFFSET_INTERVAL''
      else if int_or stored ''network_rtt_us'' 0 > int_of limits ''max_network_rtt_us'' then Some ''E_MAX_NETWORK_RTT_EXCEEDED''
      else if int_or stored ''base_uncertainty_us'' 0 > int_of limits ''max_base_uncertainty_us''
        then Some ''E_MAX_BASE_UNCERTAINTY_EXCEEDED''
      else if list_ex (\<lambda>(k, v). \<not> py_eq v (dget expected k)) stored then Some ''E_STORED_MAPPING_MISMATCH''
      else None)"

definition validate_stored_mapping :: "obj \<Rightarrow> json \<Rightarrow> json \<Rightarrow> clock_evaluation" where
  "validate_stored_mapping stored raw guardrails =
     (let actual = derive_clock_mapping raw guardrails in
      if \<not> ce_accepted actual then actual
      else case stored_error stored (the_dict guardrails) actual of
          None \<Rightarrow> actual
        | Some error \<Rightarrow> reject_clock actual error)"

text \<open>The test-only adapter of the vectors.\<close>

definition evaluate_clock_mapping_vector :: "obj \<Rightarrow> json \<Rightarrow> clock_evaluation" where
  "evaluate_clock_mapping_vector vector guardrails =
     (let stored = filter (\<lambda>(k, _). k \<in> set STORED_FIELDS) vector;
          raw = filter (\<lambda>(k, _). k \<notin> set STORED_FIELDS \<union> {''id'', ''expected'', ''source_owner''}) vector;
          raw = (case dget raw ''source'' of
              JObj e \<Rightarrow> if dhas vector ''source_owner''
                then dput ''source'' (JObj (dput ''owner'' (dget vector ''source_owner'') e)) raw else raw
            | _ \<Rightarrow> raw) in
      if stored \<noteq> [] then validate_stored_mapping stored (JObj raw) guardrails else derive_clock_mapping (JObj raw) guardrails)"

end
