(* ===== verification/Clock_Props.thy ===== *)
theory Clock_Props
  imports Complex_Main Clock_Vectors "HOL-Library.Word"
begin

text \<open>
  The properties of the clock arithmetic: the derived interval contains the true offset of the clocks, the
  stored assertions add nothing, the overflow guard is exact on 64-bit integers, the drift is a ceiling.
\<close>

section \<open>Laws\<close>

lemma clock_result_simps [simp]:
  "ce_accepted (clock_result e a b c d l u) = (e = ''ACCEPT'')" "ce_error (clock_result e a b c d l u) = e"
  "ce_rtt (clock_result e a b c d l u) = c" "ce_interval (clock_result e a b c d l u) = (l, u)"
  "ce_midpoint (clock_result e a b c d l u) = (l + u) div 2" "ce_padding (clock_result e a b c d l u) = d"
  "ce_uncertainty (clock_result e a b c d l u) = max ((l + u) div 2 - l) (u - (l + u) div 2)"
  by (simp_all add: clock_result_def Let_def)

lemma reject_clock_simps [simp]:
  "\<not> ce_accepted (reject_clock a e)" "ce_error (reject_clock a e) = e" "ce_interval (reject_clock a e) = ce_interval a"
  by (simp_all add: reject_clock_def)

lemma derive_accepted:
  assumes "ce_accepted (derive_clock_mapping raw guardrails)"
  obtains r g where "raw = JObj r" "guardrails = JObj g" "valid_input (JObj r) (JObj g)" "int_of r ''t2'' \<le> int_of r ''t3''"
    "int_of r ''t1'' \<le> int_of r ''t4''" "sample_error r g (measured r) = None" "derive_clock_mapping raw guardrails = measured r"
proof -
  have v: "valid_input raw guardrails" using assms by (auto simp: derive_clock_mapping_def split: if_splits)
  then obtain r g where rg: "raw = JObj r" "guardrails = JObj g"
    by (cases raw; cases guardrails) (auto simp: valid_input_def)
  then show thesis
    using that [OF rg] v assms by (auto simp: derive_clock_mapping_def Let_def split: if_splits option.splits)
qed

lemma sample_limits:
  assumes "sample_error r g a = None"
  shows "0 \<le> ce_rtt a" and "ce_rtt a \<le> int_of g ''max_network_rtt_us''"
    and "ce_uncertainty a \<le> int_of g ''max_base_uncertainty_us''"
  using assms by (auto simp: sample_error_def Let_def split: if_splits)

lemma measured_interval:
  "ce_interval (measured r) =
     (int_of r ''t3'' - int_of r ''t4'' - ce_padding (measured r), int_of r ''t2'' - int_of r ''t1'' + ce_padding (measured r))"
  by (simp add: measured_def Let_def)

lemma measured_padding:
  "ce_padding (measured r) = int_of (the_dict (dget r ''source'')) ''resolution_us'' + int_of (the_dict (dget r ''target'')) ''resolution_us''"
  by (simp add: measured_def Let_def)

lemma measured_middle:
  "ce_midpoint (measured r) = (fst (ce_interval (measured r)) + snd (ce_interval (measured r))) div 2"
  "ce_uncertainty (measured r) = max (ce_midpoint (measured r) - fst (ce_interval (measured r)))
     (snd (ce_interval (measured r)) - ce_midpoint (measured r))"
  by (simp_all add: measured_def Let_def)

section \<open>The offset\<close>

text \<open>C18: An accepted mapping contains the true offset. Let \<open>\<theta>\<close> be the offset of the target clock, \<open>a1 \<dots> a4\<close> the true
  source times of sending, receiving, answering and receiving the answer, and let every timestamp be read
  within the resolution of its clock. If no message arrives before it is sent, \<open>\<theta>\<close> lies in the derived
  interval, at most the base uncertainty away from its midpoint.\<close>

theorem accepted_mapping_contains_offset:
  fixes \<theta> a1 a2 a3 a4 :: real
  assumes "ce_accepted (derive_clock_mapping (JObj r) guardrails)" and "a1 \<le> a2" and "a3 \<le> a4"
    and "\<bar>of_int (int_of r ''t1'') - a1\<bar> \<le> of_int (int_of (the_dict (dget r ''source'')) ''resolution_us'')"
    and "\<bar>of_int (int_of r ''t4'') - a4\<bar> \<le> of_int (int_of (the_dict (dget r ''source'')) ''resolution_us'')"
    and "\<bar>of_int (int_of r ''t2'') - (a2 + \<theta>)\<bar> \<le> of_int (int_of (the_dict (dget r ''target'')) ''resolution_us'')"
    and "\<bar>of_int (int_of r ''t3'') - (a3 + \<theta>)\<bar> \<le> of_int (int_of (the_dict (dget r ''target'')) ''resolution_us'')"
  shows "let e = derive_clock_mapping (JObj r) guardrails in
     of_int (fst (ce_interval e)) \<le> \<theta> \<and> \<theta> \<le> of_int (snd (ce_interval e)) \<and>
     \<bar>\<theta> - of_int (ce_midpoint e)\<bar> \<le> of_int (ce_uncertainty e)"
proof -
  obtain r' g where e: "JObj r = JObj r'" "derive_clock_mapping (JObj r) guardrails = measured r'"
    by (rule derive_accepted [OF assms(1)])
  define l u where "l = fst (ce_interval (measured r))" and "u = snd (ce_interval (measured r))"
  have l: "of_int l \<le> \<theta>" and u: "\<theta> \<le> of_int u"
    using assms(2-7) by (simp_all add: l_def u_def measured_interval measured_padding)
  define m where "m = ce_midpoint (measured r)"
  have m: "ce_uncertainty (measured r) = max (m - l) (u - m)" by (simp add: measured_middle(2) m_def l_def u_def)
  have "\<bar>\<theta> - of_int m\<bar> \<le> max (of_int m - of_int l) (of_int u - of_int m)" using l u by (auto simp: max_def abs_if)
  then have "\<bar>\<theta> - of_int m\<bar> \<le> of_int (ce_uncertainty (measured r))" by (simp add: m)
  then show ?thesis using l u e by (simp add: Let_def l_def u_def m_def)
qed

text \<open>C19: What an accepted mapping is worth is bounded by the guardrails: its round trip and its base
  uncertainty stay within their limits, the interval is as wide as the round trip and twice the padding, and
  the midpoint halves it up to one microsecond.\<close>

theorem accepted_mapping_is_bounded:
  assumes "ce_accepted (derive_clock_mapping raw (JObj g))"
  shows "let e = derive_clock_mapping raw (JObj g); (l, u) = ce_interval e in
     0 \<le> ce_rtt e \<and> ce_rtt e \<le> int_of g ''max_network_rtt_us'' \<and>
     ce_uncertainty e \<le> int_of g ''max_base_uncertainty_us'' \<and> u - l = ce_rtt e + 2 * ce_padding e \<and>
     l \<le> ce_midpoint e \<and> ce_midpoint e \<le> u \<and> 2 * ce_uncertainty e - (u - l) \<in> {0, 1}"
proof -
  obtain r g' where e: "raw = JObj r" "JObj g = JObj g'" "valid_input (JObj r) (JObj g')"
    "sample_error r g' (measured r) = None" "derive_clock_mapping raw (JObj g) = measured r"
    by (rule derive_accepted [OF assms])
  define l u where "l = fst (ce_interval (measured r))" and "u = snd (ce_interval (measured r))"
  note s = sample_limits [OF e(4)]
  have p: "0 \<le> ce_padding (measured r)"
    using e(3) by (auto simp: measured_padding valid_input_def valid_endpoint_def nonneg_int_def int_of_def split: json.splits)
  have w: "u - l = ce_rtt (measured r) + 2 * ce_padding (measured r)"
    by (simp add: l_def u_def measured_def Let_def)
  have m: "ce_midpoint (measured r) = (l + u) div 2" "ce_uncertainty (measured r) = max ((l + u) div 2 - l) (u - (l + u) div 2)"
    by (simp_all add: measured_middle l_def u_def)
  have "l \<le> u" using w p s(1) by linarith
  then have "l \<le> (l + u) div 2" "(l + u) div 2 \<le> u" "2 * max ((l + u) div 2 - l) (u - (l + u) div 2) - (u - l) \<in> {0, 1}"
    by (auto simp: max_def)
  moreover have "ce_interval (measured r) = (l, u)" by (simp add: l_def u_def)
  ultimately show ?thesis using e(2,5) s w m by (simp add: Let_def)
qed

text \<open>C20: Stored assertions never make a mapping eligible and never change it: an accepted stored mapping is
  the mapping derived from the raw timestamps, and each stored value is the derived one.\<close>

theorem stored_mapping_is_derived:
  assumes "ce_accepted (validate_stored_mapping stored raw guardrails)"
  shows "validate_stored_mapping stored raw guardrails = derive_clock_mapping raw guardrails \<and>
     ce_accepted (derive_clock_mapping raw guardrails) \<and> stored \<noteq> [] \<and>
     (\<forall>(k, v) \<in> set stored. k \<in> set STORED_FIELDS \<and> py_eq v (dget (evaluation_items (derive_clock_mapping raw guardrails)) k))"
proof -
  have a: "ce_accepted (derive_clock_mapping raw guardrails)"
    and n: "stored_error stored (the_dict guardrails) (derive_clock_mapping raw guardrails) = None"
    using assms by (auto simp: validate_stored_mapping_def Let_def split: if_splits option.splits)
  have "stored \<noteq> []" "keys_subset stored STORED_FIELDS"
    "\<not> list_ex (\<lambda>(k, v). \<not> py_eq v (dget (evaluation_items (derive_clock_mapping raw guardrails)) k)) stored"
    using n by (auto simp: stored_error_def Let_def split: if_splits)
  then show ?thesis
    using a n by (auto simp: validate_stored_mapping_def keys_subset_def dkeys_def list_all_iff list_ex_iff)
qed

text \<open>The identifier and the expected outcome of a vector never affect its evaluation.\<close>

theorem vector_metadata_is_ignored:
  assumes "filter (\<lambda>(k, _). k \<notin> {''id'', ''expected''}) vector = filter (\<lambda>(k, _). k \<notin> {''id'', ''expected''}) vector'"
  shows "evaluate_clock_mapping_vector vector guardrails = evaluate_clock_mapping_vector vector' guardrails"
proof -
  let ?keep = "\<lambda>(k, _ :: json). k \<notin> {''id'', ''expected''}"
  have f: "filter p vector = filter p vector'" if "\<And>kv. p kv \<Longrightarrow> ?keep kv" for p
  proof -
    have "filter p (filter ?keep v) = filter p v" for v using that by (induction v) auto
    then show ?thesis using arg_cong [OF assms, of "filter p"] by simp
  qed
  have m: "map_of (filter ?keep v) ''source_owner'' = map_of v ''source_owner''" for v by (induction v) auto
  have 1: "map_of vector ''source_owner'' = map_of vector' ''source_owner''"
    using m [of vector] m [of vector'] assms by simp
  have 2: "filter (\<lambda>(k, _). k \<in> set STORED_FIELDS) vector = filter (\<lambda>(k, _). k \<in> set STORED_FIELDS) vector'"
    by (rule f) (auto simp: STORED_FIELDS_def)
  have 3: "filter (\<lambda>(k, _). k \<notin> set STORED_FIELDS \<union> {''id'', ''expected'', ''source_owner''}) vector =
      filter (\<lambda>(k, _). k \<notin> set STORED_FIELDS \<union> {''id'', ''expected'', ''source_owner''}) vector'"
    by (rule f) auto
  show ?thesis unfolding evaluate_clock_mapping_vector_def dhas_def dget_def by (simp only: 1 2 3)
qed

section \<open>64-bit arithmetic and drift\<close>

lemma is_int_iff: "is_int v \<longleftrightarrow> (\<exists>i. v = JInt i)"
  by (cases v) simp_all

lemma midpoint_exact:
  "fst (validate_midpoint v) \<longleftrightarrow> keys_eq v MIDPOINT_FIELDS \<and> (\<exists>l n. dget v ''offset_lower_us'' = JInt l \<and>
     dget v ''base_uncertainty_us'' = JInt n \<and> dget v ''offset_midpoint_us'' = JInt (l + n) \<and>
     dget v ''offset_upper_us'' = JInt (l + 2 * n) \<and> 0 \<le> n \<and> n \<le> 125000 \<and> - (2 ^ 63) \<le> l \<and> l + 2 * n < 2 ^ 63)"
proof (cases "keys_eq v MIDPOINT_FIELDS \<and> list_all (\<lambda>k. is_int (dget v k)) MIDPOINT_FIELDS")
  case True
  then obtain l u n m where "dget v ''offset_lower_us'' = JInt l" "dget v ''offset_upper_us'' = JInt u"
    "dget v ''base_uncertainty_us'' = JInt n" "dget v ''offset_midpoint_us'' = JInt m"
    by (auto simp: MIDPOINT_FIELDS_def is_int_iff)
  then show ?thesis
    using True by (auto simp: validate_midpoint_def Let_def in_int64_def INT64_MAX_def INT64_MIN_def)
qed (auto simp: validate_midpoint_def MIDPOINT_FIELDS_def)

text \<open>The overflow-safe predicates accept exactly the consistent midpoints: four integers with
  \<open>midpoint = lower + uncertainty\<close> and \<open>upper = lower + 2 * uncertainty\<close> in the range of 64 bits, with an
  uncertainty of at most 125 milliseconds.\<close>

theorem midpoint_check_is_exact:
  "fst (validate_midpoint v) \<longleftrightarrow> keys_eq v MIDPOINT_FIELDS \<and> (\<exists>l n. dget v ''offset_lower_us'' = JInt l \<and>
     dget v ''base_uncertainty_us'' = JInt n \<and> dget v ''offset_midpoint_us'' = JInt (l + n) \<and>
     dget v ''offset_upper_us'' = JInt (l + 2 * n) \<and> 0 \<le> n \<and> n \<le> 125000 \<and> - (2 ^ 63) \<le> l \<and> l + 2 * n < 2 ^ 63)"
  by (rule midpoint_exact)

text \<open>On accepted values the sums of the governed midpoint do not wrap when computed with 64-bit words.\<close>

theorem accepted_midpoint_does_not_wrap:
  assumes "fst (validate_midpoint v)" and "dget v ''offset_lower_us'' = JInt l" and "dget v ''base_uncertainty_us'' = JInt n"
  shows "dget v ''offset_upper_us'' = JInt (sint (word_of_int l + 2 * word_of_int n :: 64 word)) \<and>
     dget v ''offset_midpoint_us'' = JInt (sint (word_of_int l + word_of_int n :: 64 word))"
proof -
  have r: "0 \<le> n" "- (2 ^ 63) \<le> l" "l + 2 * n < 2 ^ 63" "dget v ''offset_midpoint_us'' = JInt (l + n)"
    "dget v ''offset_upper_us'' = JInt (l + 2 * n)"
    using assms by (auto simp: midpoint_exact)
  have w: "sint (word_of_int k :: 64 word) = k" if "- (2 ^ 63) \<le> k" "k < 2 ^ 63" for k
    using that by (simp add: sint_sbintrunc' signed_take_bit_int_eq_self)
  have "word_of_int l + 2 * word_of_int n = (word_of_int (l + 2 * n) :: 64 word)"
    "word_of_int l + word_of_int n = (word_of_int (l + n) :: 64 word)" by simp_all
  then show ?thesis using r w [of "l + 2 * n"] w [of "l + n"] by simp
qed

text \<open>The drift is the least number of microseconds that covers the relative drift over the distance: the
  ceiling of the exact quotient.\<close>

theorem drift_is_the_ceiling:
  assumes "0 \<le> ppm" and "0 \<le> anchor" and "0 \<le> x"
  shows "compute_drift (JInt ppm) (JInt anchor) (JInt x) = Inr \<lceil>of_int (ppm * \<bar>x - anchor\<bar>) / (1000000 :: real)\<rceil>"
proof -
  have "\<lceil>of_int k / (1000000 :: real)\<rceil> = (k + 999999) div 1000000" for k :: int
  proof -
    have "\<lceil>of_int k / (1000000 :: real)\<rceil> = - (- k div 1000000)" using ceiling_divide_eq_div [of k 1000000] by simp
    also have "\<dots> = (k + 999999) div 1000000" by linarith
    finally show ?thesis .
  qed
  then have "\<lceil>of_int (ppm * \<bar>x - anchor\<bar>) / (1000000 :: real)\<rceil> = (ppm * \<bar>x - anchor\<bar> + 999999) div 1000000" .
  then show ?thesis using assms by (simp only: compute_drift_def) (simp add: Let_def)
qed

text \<open>An observation is accepted exactly when it satisfies the schema and carries its own canonical hash.\<close>

theorem observation_accepted_iff:
  "(\<exists>e. verify_clock_observation schema X registry t r = Inr e \<and> co_accepted e) \<longleftrightarrow>
   schema r \<and> (\<exists>h. dget r ''content_hash'' = JStr h \<and> canonical_content_hash X registry t (JObj r) = Inr h)"
proof -
  have "dhas r ''content_hash''" if "dget r ''content_hash'' = JStr h" for h
    using that by (cases "map_of r ''content_hash''") (simp_all add: dhas_def dget_def)
  then show ?thesis
    by (cases "dget r ''content_hash''"; cases "canonical_content_hash X registry t (JObj r)")
       (auto simp: verify_clock_observation_def observation_rejected_def verify_canonical_content_hash_def raise_if_def split: exn.splits)
qed

section \<open>Witnesses\<close>

definition demo_endpoint :: "string \<Rightarrow> json" where
  "demo_endpoint owner = JObj [(''clock_domain_id'', JStr owner), (''boot_id'', JStr ''b''), (''owner'', JStr owner),
     (''unit'', JStr ''MICROSECOND''), (''resolution_us'', JInt 1)]"

definition demo_sample :: obj where
  "demo_sample = [(''source'', demo_endpoint ''SOURCE''), (''target'', demo_endpoint ''TARGET''),
     (''t1'', JInt 100), (''t2'', JInt 1150), (''t3'', JInt 1160), (''t4'', JInt 211)]"

definition demo_guardrails :: obj where
  "demo_guardrails = [(''max_network_rtt_us'', JInt 250), (''max_base_uncertainty_us'', JInt 125), (''minimum_valid_samples'', JInt 3),
     (''max_mapping_segment_age_us'', JInt 1000), (''wall_step_tolerance_us'', JInt 0)]"

lemma demo_mapping:
  "derive_clock_mapping (JObj demo_sample) (JObj demo_guardrails) =
     \<lparr>ce_accepted = True, ce_error = ''ACCEPT'', ce_raw_lower = 949, ce_raw_upper = 1050, ce_rtt = 101, ce_padding = 2,
      ce_interval = (947, 1052), ce_midpoint = 999, ce_uncertainty = 53\<rparr>"
  by code_simp

theorem accepted_mapping_contains_offset_witness:
  "947 \<le> (1000 :: real) \<and> (1000 :: real) \<le> 1052 \<and> \<bar>1000 - 999 :: real\<bar> \<le> 53"
proof -
  have "int_of demo_sample ''t1'' = 100" "int_of demo_sample ''t2'' = 1150" "int_of demo_sample ''t3'' = 1160"
    "int_of demo_sample ''t4'' = 211" "int_of (the_dict (dget demo_sample ''source'')) ''resolution_us'' = 1"
    "int_of (the_dict (dget demo_sample ''target'')) ''resolution_us'' = 1" by code_simp+
  then show ?thesis
    using accepted_mapping_contains_offset [of demo_sample "JObj demo_guardrails" 100 150 160 210 1000]
    by (simp add: demo_mapping)
qed

theorem accepted_mapping_is_bounded_witness: "(101 :: int) \<le> int_of demo_guardrails ''max_network_rtt_us''"
  using accepted_mapping_is_bounded [of "JObj demo_sample" demo_guardrails] by (simp add: demo_mapping)

theorem stored_mapping_is_derived_witness:
  "validate_stored_mapping [(''offset_midpoint_us'', JInt 999)] (JObj demo_sample) (JObj demo_guardrails) =
     derive_clock_mapping (JObj demo_sample) (JObj demo_guardrails)"
proof -
  have "ce_accepted (validate_stored_mapping [(''offset_midpoint_us'', JInt 999)] (JObj demo_sample) (JObj demo_guardrails))"
    by code_simp
  from stored_mapping_is_derived [OF this] show ?thesis by simp
qed

theorem vector_metadata_is_ignored_witness:
  "evaluate_clock_mapping_vector ((''id'', JStr ''MAP-NEG-01'') # demo_sample) (JObj demo_guardrails)
     = evaluate_clock_mapping_vector (demo_sample @ [(''expected'', JStr ''REJECT'')]) (JObj demo_guardrails)"
proof (rule vector_metadata_is_ignored)
  show "filter (\<lambda>(k, _). k \<notin> {''id'', ''expected''}) ((''id'', JStr ''MAP-NEG-01'') # demo_sample)
      = filter (\<lambda>(k, _). k \<notin> {''id'', ''expected''}) (demo_sample @ [(''expected'', JStr ''REJECT'')])"
    by (simp add: demo_sample_def)
qed

definition demo_midpoint :: obj where
  "demo_midpoint = [(''offset_lower_us'', JInt (2 ^ 63 - 251)), (''offset_upper_us'', JInt (2 ^ 63 - 1)),
     (''base_uncertainty_us'', JInt 125), (''offset_midpoint_us'', JInt (2 ^ 63 - 126))]"

theorem accepted_midpoint_does_not_wrap_witness:
  "dget demo_midpoint ''offset_upper_us'' = JInt (sint (word_of_int (2 ^ 63 - 251) + 2 * word_of_int 125 :: 64 word))"
proof -
  have "fst (validate_midpoint demo_midpoint)" by code_simp
  moreover have "dget demo_midpoint ''offset_lower_us'' = JInt (2 ^ 63 - 251)" "dget demo_midpoint ''base_uncertainty_us'' = JInt 125"
    by (simp_all add: demo_midpoint_def)
  ultimately show ?thesis using accepted_midpoint_does_not_wrap by blast
qed

theorem drift_is_the_ceiling_witness: "compute_drift (JInt 50) (JInt 0) (JInt 30000) = Inr \<lceil>1500000 / (1000000 :: real)\<rceil>"
  using drift_is_the_ceiling [of 50 0 30000] by simp

end
