(* ===== verification/Scope_Vectors.thy ===== *)
theory Scope_Vectors
  imports Json_Items Py_Time
begin

text \<open>
  \<^verbatim>\<open>src/moj_discovery/semantic_vectors.py\<close>, first part: the semantic checks of scope records, after
  their schema has been validated. Every check returns the code of the first failure, or \<open>None\<close>.
\<close>

section \<open>Constants\<close>

definition SCOPE_CATEGORIES :: "string list" where
  "SCOPE_CATEGORIES = [''coverage'', ''semantics'', ''identity_confidence'', ''missingness'', ''timing'', ''replayability'',
     ''schema_stability'', ''capacity'', ''quota'', ''licensing'', ''cost'']"

text \<open>An entry of the policy: its identifier, schema, schema version, artifact, pointer and category.\<close>

definition scope_entry :: "string \<Rightarrow> string \<Rightarrow> string \<Rightarrow> string \<Rightarrow> string list" where
  "scope_entry stage name artifact category =
     [''scope0-input:'' @ stage @ ''-'' @ name, ''urn:hybrid-discovery:v6.2:'' @ stage @ ''-evidence:v1'', stage @ ''-report/v1'',
      artifact, ''/scope0_projection/'' @ category, category]"

definition SCOPE_E0_ENTRIES :: "string list list" where
  "SCOPE_E0_ENTRIES =
     [scope_entry ''e0'' ''catalog-coverage'' ''catalog-capability-report.json'' ''coverage'',
      scope_entry ''e0'' ''catalog-missingness'' ''catalog-capability-report.json'' ''missingness'',
      scope_entry ''e0'' ''global-semantics'' ''global-operator-state-report.json'' ''semantics'',
      scope_entry ''e0'' ''identity-confidence'' ''operator-identity-report.json'' ''identity_confidence'',
      scope_entry ''e0'' ''orientation-semantics'' ''participant-orientation-report.json'' ''semantics'',
      scope_entry ''e0'' ''transport-semantics'' ''transport-semantics-report.json'' ''semantics'',
      scope_entry ''e0'' ''transport-schema-stability'' ''transport-semantics-report.json'' ''schema_stability'',
      scope_entry ''e0'' ''quote-semantics'' ''quote-display-parity-report.json'' ''semantics'',
      scope_entry ''e0'' ''browser-replayability'' ''browser-lifecycle-report.json'' ''replayability'',
      scope_entry ''e0'' ''clock-timing'' ''clock-timestamp-report.json'' ''timing'',
      scope_entry ''e0'' ''gap-missingness'' ''gaps-and-loss-report.json'' ''missingness'',
      scope_entry ''e0'' ''gap-replayability'' ''gaps-and-loss-report.json'' ''replayability'',
      scope_entry ''e0'' ''loopback-capacity'' ''loopback-topology-report.json'' ''capacity'',
      scope_entry ''e0'' ''loopback-replayability'' ''loopback-topology-report.json'' ''replayability'',
      scope_entry ''e0'' ''natural-capacity'' ''capacity-report.json'' ''capacity'',
      scope_entry ''e0'' ''natural-timing'' ''capacity-report.json'' ''timing'']"

definition SCOPE_D0_ENTRIES :: "string list list" where
  "SCOPE_D0_ENTRIES =
     [scope_entry ''d0'' ''provider-coverage'' ''football-provider-capability-report.json'' ''coverage'',
      scope_entry ''d0'' ''provider-schema-stability'' ''football-provider-capability-report.json'' ''schema_stability'',
      scope_entry ''d0'' ''provider-quota'' ''football-provider-capability-report.json'' ''quota'',
      scope_entry ''d0'' ''provider-licensing'' ''football-provider-capability-report.json'' ''licensing'',
      scope_entry ''d0'' ''provider-cost'' ''football-provider-capability-report.json'' ''cost'',
      scope_entry ''d0'' ''latency-timing'' ''football-latency-report.json'' ''timing'',
      scope_entry ''d0'' ''latency-missingness'' ''football-latency-report.json'' ''missingness'',
      scope_entry ''d0'' ''latency-capacity'' ''football-latency-report.json'' ''capacity'',
      scope_entry ''d0'' ''correction-replayability'' ''football-correction-report.json'' ''replayability'',
      scope_entry ''d0'' ''identity-confidence'' ''football-identity-report.json'' ''identity_confidence'']"

definition SCOPE_POLICY_ENTRIES :: "string list list" where
  "SCOPE_POLICY_ENTRIES = SCOPE_E0_ENTRIES @ SCOPE_D0_ENTRIES"

definition SCOPE_EXCLUDED_SOURCE_CLASSES :: "string list" where
  "SCOPE_EXCLUDED_SOURCE_CLASSES = [''RAW_OBSERVATION'', ''SCENARIO_BODY'', ''BETSLIP'', ''POSITION'', ''CASHOUT'',
     ''REDACTION_MATCH'', ''RESULT_DATA'', ''MODEL_METRICS'', ''MARKET_METRICS'', ''FINANCIAL_METRICS'', ''CHAMPION_DATA'',
     ''PRODUCTION_AUTHORITY'']"

definition PERFORMANCE_DENIAL_CODES :: "string list" where
  "PERFORMANCE_DENIAL_CODES = [''RESULT_DATA'', ''MODEL_METRICS'', ''CALIBRATION_METRICS'', ''MARKET_METRICS'',
     ''FINANCIAL_METRICS'', ''RANKING_DATA'', ''CHAMPION_DATA'', ''PRODUCTION_AUTHORITY'']"

section \<open>Timestamps\<close>

text \<open>\<open>str.upper\<close> on Latin-1; the two letters whose capital lies outside stay as they are.\<close>

definition upper_char :: "char \<Rightarrow> string" where
  "upper_char c = (let n = (of_char c :: nat) in
     if 97 \<le> n \<and> n \<le> 122 \<or> 224 \<le> n \<and> n \<le> 254 \<and> n \<noteq> 247 then [char_of (n - 32)]
     else if n = 223 then ''SS'' else [c])"

definition str_upper :: "string \<Rightarrow> string" where
  "str_upper s = concat (map upper_char s)"

text \<open>A time is its local microseconds and its offset, if any; \<open>\<le>\<close> on times with and without an offset raises.\<close>

definition timestamp :: "json \<Rightarrow> (int \<times> int option) res" where
  "timestamp v = bindR (as_string v) (\<lambda>s.
     fromisoformat (concat (map (\<lambda>c. if c = CHR ''Z'' then ''+00:00'' else [c]) (str_upper s))))"

definition instant_of :: "int \<times> int option \<Rightarrow> int" where
  "instant_of t = (case snd t of None \<Rightarrow> fst t | Some z \<Rightarrow> fst t - z)"

definition time_le :: "int \<times> int option \<Rightarrow> int \<times> int option \<Rightarrow> bool res" where
  "time_le a b = (if (snd a = None) \<noteq> (snd b = None) then Inl TypeError else Inr (instant_of a \<le> instant_of b))"

definition time_lt :: "int \<times> int option \<Rightarrow> int \<times> int option \<Rightarrow> bool res" where
  "time_lt a b = (if (snd a = None) \<noteq> (snd b = None) then Inl TypeError else Inr (instant_of a < instant_of b))"

definition plus_us :: "int \<times> int option \<Rightarrow> int \<Rightarrow> (int \<times> int option) res" where
  "plus_us t d = (if fst t + d > LAST_TIME then Inl OverflowError else Inr (fst t + d, snd t))"

section \<open>The policy\<close>

definition assert_eq :: "obj \<Rightarrow> string \<Rightarrow> json \<Rightarrow> unit res" where
  "assert_eq d k v = bindR (ditem d k) (\<lambda>w. assertR (py_eq w v))"

definition policy_entry :: "json \<Rightarrow> string list res" where
  "policy_entry v = bindR (as_object v) (\<lambda>entry. bindR (mapR (ditem entry)
     [''entry_id'', ''schema_id'', ''schema_version'', ''artifact_name'', ''json_pointer'', ''category'']) (\<lambda>vs. Inr (map py_str vs)))"

definition validate_scope_policy :: "obj \<Rightarrow> unit res" where
  "validate_scope_policy policy =
     bindR (assert_eq policy ''schema_version'' (JStr ''scope0-input-policy/v1'')) (\<lambda>_.
     bindR (bindR (ditem policy ''wildcard_pointers_permitted'') (\<lambda>v. assertR (is_false v))) (\<lambda>_.
     bindR (assert_eq policy ''production_authority'' (JStr ''NONE'')) (\<lambda>_.
     bindR (strings_item policy ''allowed_categories'') (\<lambda>categories.
     bindR (assertR (set categories = set SCOPE_CATEGORIES)) (\<lambda>_.
     bindR (strings_item policy ''excluded_source_classes'') (\<lambda>classes.
     bindR (assertR (set classes = set SCOPE_EXCLUDED_SOURCE_CLASSES)) (\<lambda>_.
     bindR (array_item policy ''entries'') (\<lambda>entries.
     bindR (mapR policy_entry entries) (\<lambda>rows.
     bindR (assertR (length entries = card (set rows) \<and> card (set rows) = 26)) (\<lambda>_.
     bindR (assertR (set rows = set SCOPE_POLICY_ENTRIES)) (\<lambda>_.
       assertR (list_all (\<lambda>row. CHR ''*'' \<notin> set (row ! 4)) rows))))))))))))"

section \<open>Scope records\<close>

definition production_error :: "obj \<Rightarrow> string option" where
  "production_error r =
     (let p = dget r ''production_authority'';
          p = (case p of JObj d \<Rightarrow> dget d ''AUTHORIZED_PRODUCTION_PHASES'' | _ \<Rightarrow> p);
          p = (if p = JNull then dget r ''AUTHORIZED_PRODUCTION_PHASES'' else p) in
      if str_is p ''NONE'' then None else Some ''E_PRODUCTION_AUTHORITY'')"

text \<open>\<open>r.get(k) != b.get(k)\<close> and \<open>r.get(k) != text\<close>.\<close>

definition gets_differ :: "obj \<Rightarrow> obj \<Rightarrow> string \<Rightarrow> bool res" where
  "gets_differ r b k = Inr (\<not> py_eq (dget r k) (dget b k))"

definition get_not :: "obj \<Rightarrow> string \<Rightarrow> string \<Rightarrow> bool res" where
  "get_not r k text = Inr (\<not> str_is (dget r k) text)"

definition scope_integrity_error :: "obj \<Rightarrow> obj \<Rightarrow> check_result" where
  "scope_integrity_error r base =
     fail_if (Inr (\<not> py_eq (dget r ''stored_approval_hash'') (dget r ''recomputed_approval_hash''))) ''E_APPROVAL_IMMUTABILITY'' (
     fail_if (Inr (\<not> py_eq (dget r ''stored_approval_hash'') (dget r ''revocation_approval_hash''))) ''E_REVOCATION_APPROVAL_HASH'' (
     fail_if (gets_differ r base ''revocation_sequence'') ''E_REVOCATION_SEQUENCE'' (
     fail_if (gets_differ r base ''previous_revocation_hash'') ''E_REVOCATION_PREVIOUS_HASH'' (
     fail_if (Inr (\<not> is_true (dget r ''terminal''))) ''E_REVOCATION_TERMINAL'' (Inr None)))))"

definition scope_revocation_error :: "obj \<Rightarrow> obj \<Rightarrow> check_result" where
  "scope_revocation_error r base =
     fail_if (Inr (\<not> is_true (dget r ''terminal'') \<or> \<not> is_false (dget r ''reopening_permitted''))) ''E_REVOCATION_TERMINAL'' (
     fail_if (gets_differ r base ''approval_hash'') ''E_REVOCATION_APPROVAL_HASH'' (
     fail_if (gets_differ r base ''revocation_sequence'') ''E_REVOCATION_SEQUENCE'' (
     fail_if (gets_differ r base ''previous_revocation_hash'') ''E_REVOCATION_PREVIOUS_HASH'' (Inr None))))"

definition no_feasible_scope_error :: "obj \<Rightarrow> check_result" where
  "no_feasible_scope_error r =
     fail_if (get_not r ''authority'' ''NONE'') ''E_SCOPE_AUTHORITY'' (
     fail_if (Inr (list_ex (dhas r) [''competition_id'', ''forecast_bundle_scope'', ''supported_horizons'', ''evaluation_bands'',
       ''temporal_partitions'', ''admitted_inputs''])) ''E_NO_FEASIBLE_POSITIVE_SCOPE'' (Inr None))"

subsection \<open>Evaluation bands\<close>

definition phase_order :: "(string \<times> int) list" where
  "phase_order = [(''PRE_MATCH'', 0), (''FIRST_HALF'', 1), (''HALFTIME'', 2), (''SECOND_HALF'', 3), (''EXTRA_TIME'', 4)]"

definition admission_by_state :: obj where
  "admission_by_state = map (\<lambda>(p, _). (p, JStr (''ADMITTED_'' @ p))) phase_order"

text \<open>\<open>KeyError\<close> and \<open>ValueError\<close> of the two bounds are caught.\<close>

definition band_minutes :: "obj \<Rightarrow> (int \<times> int) option" where
  "band_minutes band = (case bindR (ditem band ''start_minute'') (\<lambda>s. parse_int (py_str s)) of
      Inl _ \<Rightarrow> None
    | Inr s \<Rightarrow> (case bindR (ditem band ''end_minute'') (\<lambda>e. parse_int (py_str e)) of Inl _ \<Rightarrow> None | Inr e \<Rightarrow> Some (s, e)))"

text \<open>The loop over the bands of a horizon: an error code, or the live intervals and the chronology.\<close>

fun scan_bands :: "string \<Rightarrow> string set \<Rightarrow> (int \<times> int) list \<Rightarrow> (int \<times> int) list \<Rightarrow> json list
    \<Rightarrow> (string + (int \<times> int) list \<times> (int \<times> int) list) res" where
  "scan_bands horizon allowed live chronology [] = Inr (Inr (live, chronology))"
| "scan_bands horizon allowed live chronology (v # vs) =
     bindR (as_object v) (\<lambda>band.
     (let phase = py_str (dget band ''fixture_phase'');
          is_live = phase \<in> {''FIRST_HALF'', ''SECOND_HALF'', ''EXTRA_TIME''} in
      if horizon = ''H1'' \<and> phase \<notin> {''PRE_MATCH'', ''FIRST_HALF''} then Inr (Inl ''E_SCOPE_H1_PHASE'')
      else if phase \<notin> allowed \<or> \<not> py_eq (dget band ''admission_code'') (dget admission_by_state phase)
        then Inr (Inl ''E_SCOPE_BAND_STATE'')
      else if \<not> is_live \<and> (dhas band ''start_minute'' \<or> dhas band ''end_minute'') then Inr (Inl ''E_SCOPE_NONLIVE_MINUTE'')
      else if \<not> is_live then bindR (table_item phase_order phase) (\<lambda>n.
        scan_bands horizon allowed live (chronology @ [(n, -1)]) vs)
      else case band_minutes band of
          None \<Rightarrow> Inr (Inl ''E_SCOPE_MINUTE_RANGE'')
        | Some (start, stop) \<Rightarrow>
            if start < 0 \<or> start > 180 \<or> stop < 0 \<or> stop > 180 then Inr (Inl ''E_SCOPE_MINUTE_RANGE'')
            else if start \<ge> stop then Inr (Inl ''E_SCOPE_MINUTE_ORDER'')
            else bindR (table_item phase_order phase) (\<lambda>n.
              scan_bands horizon allowed (live @ [(start, stop)]) (chronology @ [(n, start)]) vs)))"

fun overlap :: "(int \<times> int) list \<Rightarrow> bool" where
  "overlap (a # b # rest) = (fst b < snd a \<or> overlap (b # rest))"
| "overlap _ = False"

definition horizon_error :: "string set \<Rightarrow> string \<times> json \<Rightarrow> check_result" where
  "horizon_error allowed = (\<lambda>(horizon, v).
     bindR (as_list v) (\<lambda>bands.
     bindR (scan_bands horizon allowed [] [] bands) (\<lambda>scanned. case scanned of
         Inl code \<Rightarrow> Inr (Some code)
       | Inr (live, chronology) \<Rightarrow>
           fail_if (Inr (chronology \<noteq> sort chronology)) ''E_SCOPE_BAND_ORDER'' (
           fail_if (Inr (overlap (sort live))) ''E_SCOPE_BAND_OVERLAP'' (Inr None)))))"

definition band_error :: "obj \<Rightarrow> string list \<Rightarrow> check_result" where
  "band_error evaluation_bands eligible_states = each_passes (horizon_error (set eligible_states)) evaluation_bands"

subsection \<open>Temporal partitions\<close>

definition touched :: "obj \<Rightarrow> bool" where
  "touched window = (\<not> str_is (dget window ''pre_freeze_access_state'') ''NEVER_ACCESSED'' \<or>
     \<not> str_is (dget window ''pre_freeze_access_event_count'') ''0'')"

definition window_bounds :: "obj \<Rightarrow> ((int \<times> int option) \<times> (int \<times> int option)) res" where
  "window_bounds window =
     bindR (bindR (ditem window ''start'') timestamp) (\<lambda>start.
     bindR (bindR (ditem window ''end'') timestamp) (\<lambda>stop. Inr (start, stop)))"

definition partition_error :: "obj \<Rightarrow> check_result" where
  "partition_error partitions =
     bindR (object_item partitions ''TRAIN'') (\<lambda>train.
     bindR (object_item partitions ''VALIDATION'') (\<lambda>validation.
     bindR (object_item partitions ''TEST'') (\<lambda>test.
     bindR (object_item partitions ''FORWARD'') (\<lambda>forward.
       fail_if (Inr (touched test)) ''E_SCOPE_TEST_TOUCHED'' (
       fail_if (Inr (touched forward)) ''E_SCOPE_FORWARD_TOUCHED'' (
       bindR (mapR window_bounds [train, validation, test, forward]) (\<lambda>bounds.
       fail_if (anyR (\<lambda>(start, stop). time_le stop start) bounds) ''E_SCOPE_PARTITION_EMPTY'' (
       fail_if (time_lt (fst (bounds ! 1)) (snd (bounds ! 0))) ''E_SCOPE_PARTITION_OVERLAP'' (
       fail_if (time_lt (fst (bounds ! 2)) (snd (bounds ! 1))) ''E_SCOPE_PARTITION_ORDER'' (
       fail_if (time_lt (fst (bounds ! 3)) (snd (bounds ! 2))) ''E_SCOPE_PARTITION_OVERLAP'' (
       fail_if (Inr (\<not> sorted (map (instant_of \<circ> fst) bounds))) ''E_SCOPE_PARTITION_ORDER'' (Inr None))))))))))))"

subsection \<open>Admitted inputs\<close>

definition BINDING_EXPECTATIONS :: "(string \<times> string \<times> string) list" where
  "BINDING_EXPECTATIONS =
     [(''scope_input_view_binding'', ''urn:hybrid-discovery:v6.2:meta-records:v1'', ''scope-input-view/v1''),
      (''scope_input_audit_binding'', ''urn:hybrid-discovery:v6.2:meta-records:v1'', ''scope-input-audit/v1''),
      (''scope_input_policy_binding'', ''urn:hybrid-discovery:v6.2:scope0-input-policy:v1'', ''scope0-input-policy/v1'')]"

definition scope_binding_error :: "obj \<Rightarrow> obj \<Rightarrow> string \<times> string \<times> string \<Rightarrow> check_result" where
  "scope_binding_error r base = (\<lambda>(field_name, schema_id, schema_version).
     bindR (object_item r field_name) (\<lambda>binding.
       fail_if (Inr (\<not> str_is (dget binding ''schema_id'') schema_id \<or> \<not> str_is (dget binding ''schema_version'') schema_version))
         ''E_SCOPE_SCHEMA_VERSION'' (
       bindR (object_item base field_name) (\<lambda>base_binding.
       fail_if (gets_differ binding base_binding ''content_hash'') ''E_SCOPE_EVIDENCE_HASH'' (Inr None)))))"

text \<open>A dict comprehension over the objects of a list: later items replace earlier ones.\<close>

definition dict_of :: "(obj \<Rightarrow> (string \<times> 'a) res) \<Rightarrow> json list \<Rightarrow> (string \<Rightarrow> 'a option) res" where
  "dict_of f vs = bindR (mapR (\<lambda>v. bindR (as_object v) f) vs) (\<lambda>kvs. Inr (map_of (rev kvs)))"

text \<open>The first item with the identifier; items before it must be objects.\<close>

fun first_with_id :: "string \<Rightarrow> json list \<Rightarrow> obj option res" where
  "first_with_id i [] = Inr None"
| "first_with_id i (v # vs) = bindR (as_object v) (\<lambda>item.
     if str_is (dget item ''policy_entry_id'') i then Inr (Some item) else first_with_id i vs)"

definition source_error :: "obj \<Rightarrow> json list \<Rightarrow> (string \<Rightarrow> json option) \<Rightarrow> string \<Rightarrow> obj \<Rightarrow> check_result" where
  "source_error admitted base_inputs base_hashes entry_id entry =
     bindR (object_item admitted ''source_ref'') (\<lambda>source_ref.
     fail_if (gets_differ source_ref entry ''schema_version'') ''E_SCOPE_SCHEMA_VERSION'' (
     fail_if (Inr (\<not> py_eq (dget source_ref ''schema_id'') (dget entry ''schema_id'') \<or>
         \<not> str_is (dget source_ref ''artifact_type'')
           (if str_is (dget entry ''schema_version'') ''e0-report/v1'' then ''E0_REPORT'' else ''D0_REPORT''))) ''E_SCOPE_POLICY_ADMISSION'' (
     bindR (first_with_id entry_id base_inputs) (\<lambda>base_item.
     fail_if (case base_item of
         None \<Rightarrow> Inr False
       | Some item \<Rightarrow> bindR (object_item item ''source_ref'') (\<lambda>ref. Inr (\<not> py_eq (JObj source_ref) (JObj ref)))) ''E_SCOPE_EVIDENCE_HASH'' (
     fail_if (Inr (case base_hashes entry_id of
         None \<Rightarrow> False
       | Some h \<Rightarrow> h \<noteq> JNull \<and> \<not> py_eq (dget admitted ''projected_value_hash'') h)) ''E_SCOPE_EVIDENCE_HASH'' (Inr None))))))"

fun inputs_error :: "json list \<Rightarrow> (string \<Rightarrow> json option) \<Rightarrow> (string \<Rightarrow> obj option) \<Rightarrow> string set \<Rightarrow> json list \<Rightarrow> check_result" where
  "inputs_error base_inputs base_hashes policy_entries seen [] = Inr None"
| "inputs_error base_inputs base_hashes policy_entries seen (v # vs) =
     bindR (as_object v) (\<lambda>admitted.
     (let pointer = py_str (dget admitted ''json_pointer''); entry_id = py_str (dget admitted ''policy_entry_id'') in
      fail_if (Inr (CHR ''*'' \<in> set pointer)) ''E_SCOPE_POLICY_POINTER'' (
      case policy_entries entry_id of
          None \<Rightarrow> Inr (Some ''E_SCOPE_POLICY_ADMISSION'')
        | Some entry \<Rightarrow>
            fail_if (Inr (entry_id \<in> seen)) ''E_SCOPE_POLICY_ADMISSION'' (
            fail_if (gets_differ admitted entry ''category'') ''E_SCOPE_POLICY_CATEGORY'' (
            fail_if (Inr (\<not> str_is (dget entry ''json_pointer'') pointer)) ''E_SCOPE_POLICY_POINTER'' (
            first_of (source_error admitted base_inputs base_hashes entry_id entry) (
              inputs_error base_inputs base_hashes policy_entries (insert entry_id seen) vs)))))))"

definition admission_error :: "obj \<Rightarrow> obj \<Rightarrow> obj \<Rightarrow> check_result" where
  "admission_error r base policy =
     first_of (each_passes (scope_binding_error r base) BINDING_EXPECTATIONS) (
     bindR (array_item policy ''entries'') (\<lambda>entries.
     bindR (dict_of (\<lambda>entry. bindR (ditem entry ''entry_id'') (\<lambda>i. Inr (py_str i, entry))) entries) (\<lambda>policy_entries.
     bindR (array_item base ''admitted_inputs'') (\<lambda>base_inputs.
     bindR (dict_of (\<lambda>item. bindR (ditem item ''policy_entry_id'') (\<lambda>i. Inr (py_str i, dget item ''projected_value_hash'')))
       base_inputs) (\<lambda>base_hashes.
     bindR (array_item r ''admitted_inputs'') (\<lambda>inputs.
       inputs_error base_inputs base_hashes policy_entries {} inputs))))))"

subsection \<open>The frozen scope\<close>

definition review_boundary :: "obj \<Rightarrow> bool res" where
  "review_boundary r =
     bindR (bindR (ditem r ''valid_from'') timestamp) (\<lambda>valid_from.
     bindR (bindR (ditem r ''review_by'') timestamp) (\<lambda>review_by.
       andR (time_le valid_from review_by)
         (bindR (plus_us valid_from (2592000 * 1000000)) (\<lambda>limit. time_le review_by limit))))"

definition lineage_error :: "obj \<Rightarrow> check_result" where
  "lineage_error lineage =
     fail_if (get_not lineage ''replay_disposition'' ''MATCHED'') ''E_SCOPE_LEDGER_REPLAY'' (
     fail_if (Inr (\<not> str_is (dget lineage ''contamination_status'') ''CLEAN'' \<or> \<not> str_is (dget lineage ''test_access_events'') ''0'' \<or>
       \<not> str_is (dget lineage ''forward_access_events'') ''0'')) ''E_SCOPE_CONTAMINATION'' (
     fail_if (get_not lineage ''access_ledger_schema_version'' ''scope-input-audit/v1'') ''E_SCOPE_SCHEMA_VERSION'' (
     bindR (object_item lineage ''access_ledger_ref'') (\<lambda>ledger_ref.
     fail_if (Inr (\<not> str_is (dget ledger_ref ''schema_id'') ''urn:hybrid-discovery:v6.2:meta-records:v1'' \<or>
       \<not> str_is (dget ledger_ref ''schema_version'') ''scope-input-audit/v1'' \<or>
       \<not> str_is (dget ledger_ref ''artifact_type'') ''SCOPE_INPUT_AUDIT'')) ''E_SCOPE_SCHEMA_VERSION'' (
     fail_if (Inr (\<not> py_eq (dget ledger_ref ''content_hash'') (dget lineage ''access_ledger_hash''))) ''E_SCOPE_EVIDENCE_HASH''
       (Inr None))))))"

definition denial_error :: "obj \<Rightarrow> check_result" where
  "denial_error r =
     bindR (object_item r ''performance_input_denial'') (\<lambda>denial.
     fail_if (orR (Inr (\<not> is_true (dget denial ''policy_enforced'') \<or> \<not> is_true (dget denial ''audit_confirmed'')))
       (bindR (strings_item denial ''denied_category_codes'') (\<lambda>codes. Inr (set codes \<noteq> set PERFORMANCE_DENIAL_CODES))))
       ''E_SCOPE_PERFORMANCE_DENIAL'' (
     bindR (object_item r ''contamination_lineage'') lineage_error))"

definition frozen_scope_error :: "obj \<Rightarrow> obj \<Rightarrow> obj \<Rightarrow> check_result" where
  "frozen_scope_error r base policy =
     fail_if (get_not r ''authority'' ''V7_DESIGN_ONLY'') ''E_SCOPE_AUTHORITY'' (
     bindR (object_item r ''forecast_bundle_scope'') (\<lambda>forecast_scope.
     fail_if (gets_differ r forecast_scope ''competition_id'') ''E_SCOPE_COMPETITION_MISMATCH'' (
     bindR (strings_item r ''supported_horizons'') (\<lambda>horizons.
     bindR (object_item r ''evaluation_bands'') (\<lambda>bands.
     fail_if (Inr (set horizons \<noteq> set (dkeys bands))) ''E_SCOPE_HORIZON_BAND_KEYS'' (
     bindR (strings_item forecast_scope ''eligible_fixture_states'') (\<lambda>states.
     first_of (band_error bands states) (
     bindR (object_item r ''temporal_partitions'') (\<lambda>partitions.
     first_of (partition_error partitions) (
     fail_if (notR (review_boundary r)) ''E_SCOPE_REVIEW_BOUNDARY'' (
     first_of (admission_error r base policy) (denial_error r))))))))))))"

definition scope_error :: "obj \<Rightarrow> obj \<Rightarrow> obj \<Rightarrow> check_result" where
  "scope_error r base policy =
     (if dhas r ''stored_approval_hash'' then scope_integrity_error r base
      else first_of (Inr (production_error r)) (
        if str_is (dget r ''record_kind'') ''FROZEN_INITIAL_SCOPE_APPROVAL'' then frozen_scope_error r base policy
        else if str_is (dget r ''record_kind'') ''NO_FEASIBLE_SCOPE'' then no_feasible_scope_error r
        else if str_is (dget r ''record_kind'') ''SCOPE_REVOCATION'' then scope_revocation_error r base
        else Inr (Some ''E_SCOPE_RECORD_KIND'')))"

end
