(* ===== verification/Review_Vectors.thy ===== *)
theory Review_Vectors
  imports Scope_Vectors
begin

text \<open>
  \<^verbatim>\<open>src/moj_discovery/semantic_vectors.py\<close>, second part: the registries of decisions and consumers, and
  the semantic checks of reviews and of capability verdicts.
\<close>

section \<open>Registries\<close>

definition REQUIRED_DECISIONS :: "string list" where
  "REQUIRED_DECISIONS =
     [''OPERATOR_CATALOG_WDL_COVERAGE'', ''OPERATOR_GLOBAL_STATE_COVERAGE'', ''OPERATOR_TRANSPORT_TARGET_INVENTORY'',
      ''OPERATOR_SEQUENCE_RESUME_SEMANTICS'', ''OPERATOR_IDENTIFIER_STABILITY'', ''OPERATOR_IDENTIFIER_LIFECYCLE'',
      ''OPERATOR_WDL_ORIENTATION'', ''OPERATOR_PRICE_TRANSFORMATION_ATOMICITY'', ''OPERATOR_TIMESTAMP_SEMANTICS'',
      ''BROWSER_LIFECYCLE_CONTINUITY'', ''LOOPBACK_TOPOLOGY'', ''NATURAL_CAPACITY'', ''BODY_CLASS_SAFETY'',
      ''CASHOUT_OBSERVABILITY'', ''BETSLIP_POSITION_SEMANTICS'', ''PARTIAL_CASHOUT_SIDE_EFFECT_FREEDOM'',
      ''PROVIDER_FEASIBILITY'', ''POST_SHOCK_RESNAPSHOT_RECOGNITION'']"

definition DISCOVERY_CONSUMERS :: "string list" where
  "DISCOVERY_CONSUMERS =
     [''G0_DISCOVERY_EVIDENCE_REVIEW'', ''SCOPE0_INPUT_VIEW_BUILDER'', ''SCOPE0_SCOPE_FREEZER'', ''V7_DESIGN_HANDOFF'',
      ''FUTURE_FORMAL_SCANNER'', ''FUTURE_OPERATOR_STATE_REDUCER'', ''FUTURE_COHERENCE_CONTROLLER'',
      ''FUTURE_PROVIDER_FEASIBILITY_SELECTOR'']"

definition READINESS_INPUTS :: "string list" where
  "READINESS_INPUTS =
     [''REPO0_BASELINE_VALID'', ''SAFE_TO_IMPLEMENT_R0'', ''SAFE_TO_IMPLEMENT_F0A'', ''SAFE_TO_IMPLEMENT_SEC0'',
      ''SAFE_TO_IMPLEMENT_E0'', ''SAFE_TO_IMPLEMENT_D0'', ''SAFE_TO_FREEZE_SCOPE0'']"

definition text_items :: "string \<Rightarrow> obj list \<Rightarrow> string list res" where
  "text_items k items = mapR (\<lambda>item. bindR (ditem item k) (\<lambda>v. Inr (py_str v))) items"

definition validate_required_decision_registry :: "obj \<Rightarrow> unit res" where
  "validate_required_decision_registry registry =
     bindR (assert_eq registry ''schema_version'' (JStr ''required-discovery-decisions/v1'')) (\<lambda>_.
     bindR (assert_eq registry ''decision_count'' (JInt (int (length REQUIRED_DECISIONS)))) (\<lambda>_.
     bindR (bindR (ditem registry ''additional_decisions_permitted'') (\<lambda>v. assertR (is_false v))) (\<lambda>_.
     bindR (assert_eq registry ''production_authority'' (JStr ''NONE'')) (\<lambda>_.
     bindR (objects_item registry ''decisions'') (\<lambda>decisions.
     bindR (text_items ''decision_id'' decisions) (\<lambda>ids.
     bindR (assertR (ids = REQUIRED_DECISIONS)) (\<lambda>_.
     bindR (mapR (\<lambda>d. ditem d ''order'') decisions) (\<lambda>orders.
     bindR (assertR (list_all2 py_eq orders (map JInt [1..18]))) (\<lambda>_.
     bindR (allR (\<lambda>d. bindR (ditem d ''unresolved_default'') (\<lambda>v. Inr (str_is v ''UNKNOWN''))) decisions) (\<lambda>b.
       assertR b))))))))))"

definition validate_consumer_registry :: "obj \<Rightarrow> unit res" where
  "validate_consumer_registry registry =
     bindR (assert_eq registry ''schema_version'' (JStr ''discovery-capability-consumers/v1'')) (\<lambda>_.
     bindR (assert_eq registry ''production_authority'' (JStr ''NONE'')) (\<lambda>_.
     bindR (objects_item registry ''consumers'') (\<lambda>consumers.
     bindR (assertR (length consumers = length DISCOVERY_CONSUMERS)) (\<lambda>_.
     bindR (text_items ''consumer_id'' consumers) (\<lambda>ids.
       assertR (set ids = set DISCOVERY_CONSUMERS))))))"

section \<open>Reviews\<close>

definition blocker_error :: "obj \<Rightarrow> obj \<Rightarrow> check_result" where
  "blocker_error r finding =
     fail_if (andR (Inr (is_true (dget finding ''blocking'')))
       (bindR (strings_item finding ''affected_verdicts'') (\<lambda>verdicts. Inr (list_ex (\<lambda>k. \<not> str_is (dget r k) ''NO'') verdicts))))
       ''E_BLOCKER_VERDICT'' (Inr None)"

definition WITHHOLDING :: "string list" where
  "WITHHOLDING = [''UNSUPPORTED'', ''UNKNOWN'', ''NOT_OBSERVED'', ''INCONCLUSIVE'', ''SAFETY_STOP'']"

definition withheld_error :: "json \<Rightarrow> string list \<Rightarrow> string list \<Rightarrow> check_result" where
  "withheld_error disposition consumers limitations =
     bindR (in_strs disposition WITHHOLDING) (\<lambda>withheld.
     if \<not> withheld then Inr None
     else if consumers \<noteq> [] then Inr (Some (''E_'' @ the_str disposition @ ''_AUTHORIZES_CONSUMER''))
     else if limitations = [] then Inr (Some (''E_'' @ the_str disposition @ ''_LIMITATION''))
     else Inr None)"

definition decision_error :: "obj \<Rightarrow> check_result" where
  "decision_error decision =
     bindR (strings_item decision ''authorized_consumers'') (\<lambda>consumers.
     fail_if (Inr (\<not> set consumers \<subseteq> set DISCOVERY_CONSUMERS)) ''E_CONSUMER_UNKNOWN'' (
     bindR (array_item decision ''evidence_refs'') (\<lambda>evidence.
     bindR (strings_item decision ''limitation_codes'') (\<lambda>limitations.
     (let disposition = dget decision ''disposition'' in
      fail_if (Inr (str_is disposition ''SUPPORTED'' \<and> evidence = [])) ''E_SUPPORTED_EVIDENCE_REQUIRED'' (
      fail_if (Inr (str_is disposition ''PARTIAL'' \<and> (evidence = [] \<or> limitations = []))) ''E_PARTIAL_SEMANTICS'' (
        withheld_error disposition consumers limitations)))))))"

definition review_error :: "obj \<Rightarrow> check_result" where
  "review_error r =
     first_of (Inr (production_error r)) (
     bindR (objects_item r ''findings'') (\<lambda>findings.
     fail_if (andR (in_strs (dget r ''review_outcome'') [''HELD'', ''REJECTED'']) (Inr (findings = []))) ''E_REVIEW_FINDINGS_EMPTY'' (
     fail_if (Inr (\<not> distinct (map (\<lambda>f. py_str (dget f ''finding_id'')) findings))) ''E_FINDING_ID_DUPLICATE'' (
     first_of (each_passes (blocker_error r) findings) (
     fail_if (Inr (str_is (dget r ''READY_TO_IMPLEMENT_DISCOVERY_PACK'') ''YES'' \<and>
         list_ex (\<lambda>k. \<not> str_is (dget r k) ''YES'') READINESS_INPUTS)) ''E_READY_CONTRADICTION'' (
     bindR (objects_item r ''required_discovery_decisions'') (\<lambda>decisions.
     (let decision_ids = map (\<lambda>d. py_str (dget d ''decision_id'')) decisions in
      fail_if (Inr (decision_ids \<noteq> REQUIRED_DECISIONS \<or> \<not> distinct decision_ids)) ''E_REQUIRED_DECISION_SET'' (
        each_passes decision_error decisions)))))))))"

section \<open>Capability verdicts\<close>

text \<open>\<open>confidence not in {\<dots>}\<close>.\<close>

definition confidence_not :: "json \<Rightarrow> string list \<Rightarrow> bool res" where
  "confidence_not confidence allowed = notR (in_strs confidence allowed)"

definition verdict_error :: "string \<Rightarrow> json \<Rightarrow> string set \<Rightarrow> string set \<Rightarrow> json list \<Rightarrow> string list \<Rightarrow> string list \<Rightarrow> bool \<Rightarrow> check_result" where
  "verdict_error v confidence authorized blocked evidence limitations unknowns context_closed =
     (if v = ''SUPPORTED'' then
        fail_if (Inr (evidence = [])) ''E_SUPPORTED_EVIDENCE_REQUIRED'' (
        fail_if (confidence_not confidence [''OBSERVED'', ''INFERRED'']) ''E_SUPPORTED_CONFIDENCE'' (
        fail_if (Inr (unknowns \<noteq> [])) ''E_SUPPORTED_UNKNOWN'' (
        fail_if (Inr (authorized = {})) ''E_SUPPORTED_CONSUMER_SCOPE'' (
        fail_if (Inr (\<not> context_closed)) ''E_SUPPORTED_SEMANTICS'' (Inr None)))))
      else if v = ''PARTIAL'' then
        fail_if (Inr (limitations = [])) ''E_PARTIAL_LIMITATION'' (
        fail_if (Inr (evidence = [])) ''E_PARTIAL_SEMANTICS'' (
        fail_if (Inr (blocked = {})) ''E_PARTIAL_BLOCKED_CONSUMER'' (
        fail_if (Inr (authorized = {})) ''E_PARTIAL_AUTHORIZED_CONSUMER'' (
        fail_if (confidence_not confidence [''OBSERVED'', ''INFERRED'']) ''E_PARTIAL_CONFIDENCE'' (
        fail_if (Inr (\<not> context_closed)) ''E_PARTIAL_SEMANTICS'' (Inr None))))))
      else if v = ''UNSUPPORTED'' then
        fail_if (Inr (authorized \<noteq> {})) ''E_UNSUPPORTED_AUTHORIZES'' (
        fail_if (Inr (limitations = [])) ''E_UNSUPPORTED_LIMITATION'' (
        fail_if (Inr (unknowns \<noteq> [])) ''E_UNSUPPORTED_UNKNOWN'' (
        fail_if (Inr (evidence = [] \<or> \<not> context_closed)) ''E_UNSUPPORTED_SEMANTICS'' (Inr None))))
      else if v = ''UNKNOWN'' then
        fail_if (Inr (authorized \<noteq> {})) ''E_UNKNOWN_AUTHORIZES'' (
        fail_if (confidence_not confidence [''UNKNOWN'', ''NOT_OBSERVED'']) ''E_UNKNOWN_SEMANTICS'' (
        fail_if (Inr (limitations = [] \<or> unknowns = [])) ''E_UNKNOWN_SEMANTICS'' (Inr None)))
      else if v = ''INDETERMINATE'' then
        fail_if (Inr (authorized \<noteq> {})) ''E_INDETERMINATE_AUTHORIZES'' (
        fail_if (confidence_not confidence [''CONFLICT'', ''INTEGRITY_FAILURE'', ''INSUFFICIENT_SAMPLE''])
          ''E_INDETERMINATE_CONFIDENCE'' (
        fail_if (Inr (evidence = [] \<or> limitations = [])) ''E_INDETERMINATE_SEMANTICS'' (Inr None)))
      else Inr (Some ''E_CAPABILITY_VERDICT''))"

definition capability_error :: "obj \<Rightarrow> check_result" where
  "capability_error r =
     first_of (Inr (production_error r)) (
     bindR (strings_item r ''evaluated_consumers'') (\<lambda>evaluated.
     bindR (strings_item r ''authorized_consumers'') (\<lambda>authorized.
     bindR (strings_item r ''blocked_consumers'') (\<lambda>blocked.
     fail_if (Inr (\<not> set evaluated \<union> set authorized \<union> set blocked \<subseteq> set DISCOVERY_CONSUMERS)) ''E_CONSUMER_UNKNOWN'' (
     (let v = py_str (dget r ''verdict'') in
     bindR (array_item r ''evidence_refs'') (\<lambda>evidence.
     bindR (strings_item r ''limitation_codes'') (\<lambda>limitations.
     bindR (strings_item r ''unknown_codes'') (\<lambda>unknowns.
     bindR (object_item r ''tested_context'') (\<lambda>tested.
     first_of (verdict_error v (dget r ''confidence'') (set authorized) (set blocked) evidence limitations unknowns
       (str_is (dget tested ''context_status'') ''CLOSED'')) (
     fail_if (Inr (set authorized \<inter> set blocked \<noteq> {})) ''E_CONSUMER_PARTITION_OVERLAP'' (
     fail_if (Inr (set evaluated \<noteq> set DISCOVERY_CONSUMERS \<or> set authorized \<union> set blocked \<noteq> set evaluated))
       ''E_CONSUMER_PARTITION_INCOMPLETE'' (
     fail_if (Inr (v \<in> {''UNSUPPORTED'', ''UNKNOWN'', ''INDETERMINATE''} \<and> set blocked \<noteq> set evaluated))
       (''E_'' @ v @ ''_SEMANTICS'') (Inr None))))))))))))))"

section \<open>Vectors\<close>

definition semantic_vector_error :: "string \<Rightarrow> obj \<Rightarrow> obj \<Rightarrow> obj option \<Rightarrow> check_result" where
  "semantic_vector_error vector_name base_case candidate_case scope_policy =
     bindR (object_item candidate_case ''record'') (\<lambda>r.
     bindR (object_item base_case ''record'') (\<lambda>base.
     if vector_name = ''scope-semantic-v1.json'' then
       (case scope_policy of None \<Rightarrow> Inl AssertionError | Some policy \<Rightarrow> scope_error r base policy)
     else bindR (assertR (vector_name = ''review-semantic-v1.json'')) (\<lambda>_.
       if str_is (dget r ''schema_version'') ''discovery-capability/v1'' then capability_error r else review_error r)))"

end
