(* ===== verification/Semantic_Props.thy ===== *)
theory Semantic_Props
  imports Review_Vectors
begin

text \<open>
  What a scope, a review and a capability that pass the semantic checks satisfy.
\<close>

section \<open>Temporal partitions\<close>

definition instant_item_of :: "obj \<Rightarrow> string \<Rightarrow> int option" where
  "instant_item_of window k = (case bindR (ditem window k) timestamp of Inl _ \<Rightarrow> None | Inr t \<Rightarrow> Some (instant_of t))"

text \<open>A window read as the instants of its two ends.\<close>

definition window_is :: "obj \<Rightarrow> string \<Rightarrow> int \<Rightarrow> int \<Rightarrow> bool" where
  "window_is partitions name start stop \<longleftrightarrow> (\<exists>w. dget partitions name = JObj w \<and>
     instant_item_of w ''start'' = Some start \<and> instant_item_of w ''end'' = Some stop)"

lemma window_bounds_Inr:
  "window_bounds w = Inr b \<Longrightarrow> instant_item_of w ''start'' = Some (instant_of (fst b)) \<and>
     instant_item_of w ''end'' = Some (instant_of (snd b))"
  by (auto simp: window_bounds_def instant_item_of_def)

lemma time_order: "time_le a b = Inr False \<Longrightarrow> instant_of b < instant_of a" "time_lt a b = Inr False \<Longrightarrow> instant_of b \<le> instant_of a"
  by (auto simp: time_le_def time_lt_def split: if_splits)

lemma partitions_ordered:
  assumes "passes (partition_error partitions)"
  shows "\<exists>t0 t1 v0 v1 s0 s1 f0 f1. window_is partitions ''TRAIN'' t0 t1 \<and> window_is partitions ''VALIDATION'' v0 v1 \<and>
     window_is partitions ''TEST'' s0 s1 \<and> window_is partitions ''FORWARD'' f0 f1 \<and>
     t0 < t1 \<and> t1 \<le> v0 \<and> v0 < v1 \<and> v1 \<le> s0 \<and> s0 < s1 \<and> s1 \<le> f0 \<and> f0 < f1"
    and "\<forall>k \<in> {''TEST'', ''FORWARD''}. \<exists>w. dget partitions k = JObj w \<and> \<not> touched w"
proof -
  from assms obtain train validation test forward bounds where
    w: "object_item partitions ''TRAIN'' = Inr train" "object_item partitions ''VALIDATION'' = Inr validation"
      "object_item partitions ''TEST'' = Inr test" "object_item partitions ''FORWARD'' = Inr forward" and
    t: "\<not> touched test" "\<not> touched forward" and
    b: "mapR window_bounds [train, validation, test, forward] = Inr bounds" and
    e: "anyR (\<lambda>(start, stop). time_le stop start) bounds = Inr False" and
    o: "time_lt (fst (bounds ! 1)) (snd (bounds ! 0)) = Inr False" "time_lt (fst (bounds ! 2)) (snd (bounds ! 1)) = Inr False"
      "time_lt (fst (bounds ! 3)) (snd (bounds ! 2)) = Inr False"
    unfolding partition_error_def check_rules by auto
  from b obtain b0 b1 b2 b3 where bs: "window_bounds train = Inr b0" "window_bounds validation = Inr b1"
    "window_bounds test = Inr b2" "window_bounds forward = Inr b3" "bounds = [b0, b1, b2, b3]" by auto
  have l: "instant_of (fst b) < instant_of (snd b)" if "b \<in> set bounds" for b
    using e that time_order(1) by (cases b) (auto simp: anyR_eq_False)
  note i = bs(1-4) [THEN window_bounds_Inr]
  have g: "dget partitions ''TRAIN'' = JObj train" "dget partitions ''VALIDATION'' = JObj validation"
    "dget partitions ''TEST'' = JObj test" "dget partitions ''FORWARD'' = JObj forward"
    using w by (simp_all add: object_item_Inr)
  have "window_is partitions ''TRAIN'' (instant_of (fst b0)) (instant_of (snd b0))"
    "window_is partitions ''VALIDATION'' (instant_of (fst b1)) (instant_of (snd b1))"
    "window_is partitions ''TEST'' (instant_of (fst b2)) (instant_of (snd b2))"
    "window_is partitions ''FORWARD'' (instant_of (fst b3)) (instant_of (snd b3))"
    unfolding window_is_def using g i by auto
  moreover have "instant_of (fst b0) < instant_of (snd b0)" "instant_of (fst b1) < instant_of (snd b1)"
    "instant_of (fst b2) < instant_of (snd b2)" "instant_of (fst b3) < instant_of (snd b3)"
    by (rule l, simp add: bs(5))+
  moreover have "instant_of (snd b0) \<le> instant_of (fst b1)" "instant_of (snd b1) \<le> instant_of (fst b2)"
    "instant_of (snd b2) \<le> instant_of (fst b3)"
    using o [THEN time_order(2)] by (simp_all add: bs(5))
  ultimately show "\<exists>t0 t1 v0 v1 s0 s1 f0 f1. window_is partitions ''TRAIN'' t0 t1 \<and> window_is partitions ''VALIDATION'' v0 v1 \<and>
     window_is partitions ''TEST'' s0 s1 \<and> window_is partitions ''FORWARD'' f0 f1 \<and>
     t0 < t1 \<and> t1 \<le> v0 \<and> v0 < v1 \<and> v1 \<le> s0 \<and> s0 < s1 \<and> s1 \<le> f0 \<and> f0 < f1" by blast
  show "\<forall>k \<in> {''TEST'', ''FORWARD''}. \<exists>w. dget partitions k = JObj w \<and> \<not> touched w" using g t by simp
qed

section \<open>Evaluation bands\<close>

definition live_phase :: "obj \<Rightarrow> bool" where
  "live_phase band \<longleftrightarrow> py_str (dget band ''fixture_phase'') \<in> {''FIRST_HALF'', ''SECOND_HALF'', ''EXTRA_TIME''}"

text \<open>The minutes of the live bands of a horizon, in order.\<close>

definition live_minutes :: "json list \<Rightarrow> (int \<times> int) list" where
  "live_minutes bands = map (\<lambda>v. the (band_minutes (the_dict v))) (filter (live_phase \<circ> the_dict) bands)"

lemma scan_bands_live:
  assumes "scan_bands horizon allowed live chronology vs = Inr (Inr (live', chronology'))"
  shows "live' = live @ live_minutes vs \<and> (\<forall>v \<in> set vs. live_phase (the_dict v) \<longrightarrow>
    (\<exists>s e. band_minutes (the_dict v) = Some (s, e) \<and> 0 \<le> s \<and> s < e \<and> e \<le> 180))"
  using assms
proof (induction vs arbitrary: live chronology)
  case Nil
  then show ?case by (simp add: live_minutes_def)
next
  case (Cons v vs)
  from Cons.prems obtain band where band: "v = JObj band" by auto
  show ?case
  proof (cases "live_phase band")
    case True
    then obtain s e n where m: "band_minutes band = Some (s, e)" "0 \<le> s" "s < e" "e \<le> 180"
      "scan_bands horizon allowed (live @ [(s, e)]) (chronology @ [(n, s)]) vs = Inr (Inr (live', chronology'))"
      using Cons.prems unfolding band live_phase_def
      by (auto simp: Let_def split: if_splits option.splits)
    from Cons.IH [OF m(5)] m band True show ?thesis by (simp add: live_minutes_def)
  next
    case False
    then obtain n where m: "scan_bands horizon allowed live (chronology @ [(n, -1)]) vs = Inr (Inr (live', chronology'))"
      using Cons.prems unfolding band live_phase_def
      by (auto simp: Let_def split: if_splits option.splits)
    from Cons.IH [OF m] band False show ?thesis by (simp add: live_minutes_def)
  qed
qed

lemma no_overlap_ordered: "\<not> overlap xs \<Longrightarrow> \<forall>x \<in> set xs. fst x < snd x \<Longrightarrow> sorted_wrt (\<lambda>a b. snd a \<le> fst b) xs"
proof (induction xs rule: overlap.induct)
  case (1 a b rest)
  then have s: "sorted_wrt (\<lambda>a b. snd a \<le> fst b) (b # rest)" by simp
  have "snd a \<le> fst c" if "c \<in> set (b # rest)" for c
  proof (cases "c = b")
    case False
    with that s have "snd b \<le> fst c" by simp
    moreover have "snd a \<le> fst b" "fst b < snd b" using 1(2,3) by auto
    ultimately show ?thesis by linarith
  qed (use 1(2) in simp)
  with s show ?case by simp
qed simp_all

text \<open>A minute inside a band.\<close>

definition covers :: "int \<Rightarrow> int \<times> int \<Rightarrow> bool" where
  "covers m i \<longleftrightarrow> fst i \<le> m \<and> m < snd i"

lemma minute_in_one:
  assumes "sorted_wrt (\<lambda>a b. snd a \<le> fst b) xs"
  shows "length (filter (covers m) xs) \<le> 1"
  using assms
proof (induction xs)
  case (Cons x xs)
  show ?case
  proof (cases "covers m x")
    case True
    have "\<not> covers m y" if "y \<in> set xs" for y
      using Cons.prems that True by (fastforce simp: covers_def)
    then have "filter (covers m) xs = []" by (simp add: filter_empty_conv)
    then show ?thesis by simp
  qed (use Cons in simp)
qed simp

lemma bands_disjoint:
  assumes "passes (band_error bands states)" and "(horizon, JArr vs) \<in> set bands"
  shows "length (filter (covers m) (live_minutes vs)) \<le> 1"
    and "\<forall>i \<in> set (live_minutes vs). 0 \<le> fst i \<and> fst i < snd i \<and> snd i \<le> 180"
proof -
  from assms have "passes (horizon_error (set states) (horizon, JArr vs))"
    unfolding band_error_def check_rules by blast
  then obtain scanned where sc: "scan_bands horizon (set states) [] [] vs = Inr scanned"
    "passes (case scanned of Inl code \<Rightarrow> Inr (Some code)
       | Inr (live, chronology) \<Rightarrow>
           fail_if (Inr (chronology \<noteq> sort chronology)) ''E_SCOPE_BAND_ORDER'' (
           fail_if (Inr (overlap (sort live))) ''E_SCOPE_BAND_OVERLAP'' (Inr None)))"
    unfolding horizon_error_def prod.case check_rules by auto
  then obtain live chronology where "scanned = Inr (live, chronology)" and o: "\<not> overlap (sort live)"
    by (cases scanned) (auto simp: check_rules)
  with sc(1) have s: "scan_bands horizon (set states) [] [] vs = Inr (Inr (live, chronology))" by simp
  note l = scan_bands_live [OF s]
  then have live: "live = live_minutes vs" by simp
  show b: "\<forall>i \<in> set (live_minutes vs). 0 \<le> fst i \<and> fst i < snd i \<and> snd i \<le> 180"
    using l by (fastforce simp: live_minutes_def)
  then have "sorted_wrt (\<lambda>a b. snd a \<le> fst b) (sort (live_minutes vs))"
    using no_overlap_ordered [OF o] live by simp
  then have "length (filter (covers m) (sort (live_minutes vs))) \<le> 1" by (rule minute_in_one)
  moreover have "mset (filter (covers m) (sort (live_minutes vs))) = mset (filter (covers m) (live_minutes vs))" by simp
  ultimately show "length (filter (covers m) (live_minutes vs)) \<le> 1" by (metis size_mset)
qed

section \<open>The frozen scope\<close>

lemma frozen_scope_passes:
  assumes "passes (scope_error r base policy)" and "dget r ''record_kind'' = JStr ''FROZEN_INITIAL_SCOPE_APPROVAL''"
    and "\<not> dhas r ''stored_approval_hash''"
  obtains states bands partitions where "production_error r = None" "dget r ''evaluation_bands'' = JObj bands"
    "dget r ''temporal_partitions'' = JObj partitions" "passes (band_error bands states)" "passes (partition_error partitions)"
    "passes (admission_error r base policy)" "review_boundary r = Inr True" "passes (denial_error r)"
proof -
  have f: "production_error r = None" "passes (frozen_scope_error r base policy)"
    using assms unfolding scope_error_def by (simp_all add: check_rules)
  from f(2) obtain states bands partitions where "object_item r ''evaluation_bands'' = Inr bands"
    "object_item r ''temporal_partitions'' = Inr partitions" "passes (band_error bands states)" "passes (partition_error partitions)"
    "passes (admission_error r base policy)" "notR (review_boundary r) = Inr False" "passes (denial_error r)"
    unfolding frozen_scope_error_def check_rules by blast
  with f(1) show thesis by (intro that) (simp_all add: object_item_Inr)
qed

section \<open>Admitted inputs\<close>

text \<open>An input that the policy admits, with the hash that the base record recorded for it.\<close>

definition admitted_by :: "(string \<Rightarrow> obj option) \<Rightarrow> (string \<Rightarrow> json option) \<Rightarrow> obj \<Rightarrow> bool" where
  "admitted_by policy_entries base_hashes d \<longleftrightarrow>
     (\<exists>entry. policy_entries (py_str (dget d ''policy_entry_id'')) = Some entry \<and>
       py_eq (dget d ''category'') (dget entry ''category'') \<and>
       dget entry ''json_pointer'' = JStr (py_str (dget d ''json_pointer''))) \<and>
     CHR ''*'' \<notin> set (py_str (dget d ''json_pointer'')) \<and>
     (\<forall>h. base_hashes (py_str (dget d ''policy_entry_id'')) = Some h \<longrightarrow> h \<noteq> JNull \<longrightarrow> py_eq (dget d ''projected_value_hash'') h)"

lemma inputs_admitted:
  assumes "passes (inputs_error base_inputs base_hashes policy_entries seen vs)"
  shows "\<exists>ds. vs = map JObj ds \<and> distinct (map (\<lambda>d. py_str (dget d ''policy_entry_id'')) ds) \<and>
    (\<forall>d \<in> set ds. py_str (dget d ''policy_entry_id'') \<notin> seen \<and> admitted_by policy_entries base_hashes d)"
  using assms
proof (induction vs arbitrary: seen)
  case (Cons v vs)
  from Cons.prems obtain d entry where v: "v = JObj d" and
    e: "policy_entries (py_str (dget d ''policy_entry_id'')) = Some entry" and
    c: "CHR ''*'' \<notin> set (py_str (dget d ''json_pointer''))" "py_str (dget d ''policy_entry_id'') \<notin> seen"
      "py_eq (dget d ''category'') (dget entry ''category'')"
      "dget entry ''json_pointer'' = JStr (py_str (dget d ''json_pointer''))" and
    s: "passes (source_error d base_inputs base_hashes (py_str (dget d ''policy_entry_id'')) entry)" and
    rest: "passes (inputs_error base_inputs base_hashes policy_entries (insert (py_str (dget d ''policy_entry_id'')) seen) vs)"
    by (auto simp: check_rules Let_def gets_differ_def split: option.splits)
  from s have "\<forall>h. base_hashes (py_str (dget d ''policy_entry_id'')) = Some h \<longrightarrow> h \<noteq> JNull \<longrightarrow>
      py_eq (dget d ''projected_value_hash'') h"
    unfolding source_error_def check_rules by (auto split: option.splits)
  with e c have d: "admitted_by policy_entries base_hashes d" by (simp add: admitted_by_def)
  from Cons.IH [OF rest] obtain ds where "vs = map JObj ds" "distinct (map (\<lambda>d. py_str (dget d ''policy_entry_id'')) ds)"
    "\<forall>d' \<in> set ds. py_str (dget d' ''policy_entry_id'') \<notin> insert (py_str (dget d ''policy_entry_id'')) seen \<and>
      admitted_by policy_entries base_hashes d'" by blast
  with v d c(2) show ?case by (intro exI [of _ "d # ds"]) force
qed simp

section \<open>Reviews and capabilities\<close>

lemma review_passes:
  assumes "passes (review_error r)"
  obtains findings decisions where "production_error r = None" "dget r ''findings'' = JArr (map JObj findings)"
    "\<forall>f \<in> set findings. passes (blocker_error r f)"
    "dget r ''READY_TO_IMPLEMENT_DISCOVERY_PACK'' = JStr ''YES'' \<longrightarrow> (\<forall>k \<in> set READINESS_INPUTS. dget r k = JStr ''YES'')"
    "dget r ''required_discovery_decisions'' = JArr (map JObj decisions)"
    "map (\<lambda>d. py_str (dget d ''decision_id'')) decisions = REQUIRED_DECISIONS" "\<forall>d \<in> set decisions. passes (decision_error d)"
proof -
  from assms obtain findings decisions where "production_error r = None" "objects_item r ''findings'' = Inr findings"
    "\<forall>f \<in> set findings. passes (blocker_error r f)"
    "\<not> (str_is (dget r ''READY_TO_IMPLEMENT_DISCOVERY_PACK'') ''YES'' \<and> list_ex (\<lambda>k. \<not> str_is (dget r k) ''YES'') READINESS_INPUTS)"
    "objects_item r ''required_discovery_decisions'' = Inr decisions"
    "map (\<lambda>d. py_str (dget d ''decision_id'')) decisions = REQUIRED_DECISIONS" "\<forall>d \<in> set decisions. passes (decision_error d)"
    unfolding review_error_def check_rules Let_def by auto
  then show thesis by (intro that) (auto simp: objects_item_Inr list_ex_iff)
qed

lemma blocker_passes:
  assumes "passes (blocker_error r f)" and "dget f ''blocking'' = JBool True"
    and "dget f ''affected_verdicts'' = JArr vs" and "JStr k \<in> set vs"
  shows "dget r k = JStr ''NO''"
proof -
  from assms(1,2) obtain ks where "strings_item f ''affected_verdicts'' = Inr ks" "\<not> list_ex (\<lambda>k. \<not> str_is (dget r k) ''NO'') ks"
    unfolding blocker_error_def check_rules by (auto simp: andR_def)
  then show ?thesis using assms(3,4) by (auto simp: strings_item_Inr list_ex_iff)
qed

lemma capability_passes:
  assumes "passes (capability_error r)"
  obtains evaluated authorized blocked evidence limitations unknowns closed_context where
    "strings_item r ''evaluated_consumers'' = Inr evaluated" "strings_item r ''authorized_consumers'' = Inr authorized"
    "strings_item r ''blocked_consumers'' = Inr blocked" "array_item r ''evidence_refs'' = Inr evidence"
    "passes (verdict_error (py_str (dget r ''verdict'')) (dget r ''confidence'') (set authorized) (set blocked) evidence
      limitations unknowns closed_context)"
    "set authorized \<inter> set blocked = {}" "set evaluated = set DISCOVERY_CONSUMERS" "set authorized \<union> set blocked = set evaluated"
  using assms unfolding capability_error_def check_rules Let_def by auto

lemma verdict_passes:
  assumes "passes (verdict_error v confidence authorized blocked evidence limitations unknowns closed_context)"
  shows "v \<in> {''SUPPORTED'', ''PARTIAL'', ''UNSUPPORTED'', ''UNKNOWN'', ''INDETERMINATE''}"
    and "v \<in> {''UNSUPPORTED'', ''UNKNOWN'', ''INDETERMINATE''} \<longleftrightarrow> authorized = {}"
    and "v \<in> {''SUPPORTED'', ''PARTIAL''} \<Longrightarrow> evidence \<noteq> []"
  using assms unfolding verdict_error_def by (auto simp: check_rules split: if_splits)

section \<open>Properties\<close>

text \<open>C21: The partitions of an accepted scope cannot leak: TRAIN, VALIDATION, TEST and FORWARD are nonempty windows
  of time in this order without overlap, and TEST and FORWARD were never accessed.\<close>

theorem accepted_scope_does_not_leak:
  assumes "passes (scope_error r base policy)" and "dget r ''record_kind'' = JStr ''FROZEN_INITIAL_SCOPE_APPROVAL''"
    and "\<not> dhas r ''stored_approval_hash''"
  shows "\<exists>partitions t0 t1 v0 v1 s0 s1 f0 f1. dget r ''temporal_partitions'' = JObj partitions \<and>
     window_is partitions ''TRAIN'' t0 t1 \<and> window_is partitions ''VALIDATION'' v0 v1 \<and>
     window_is partitions ''TEST'' s0 s1 \<and> window_is partitions ''FORWARD'' f0 f1 \<and>
     t0 < t1 \<and> t1 \<le> v0 \<and> v0 < v1 \<and> v1 \<le> s0 \<and> s0 < s1 \<and> s1 \<le> f0 \<and> f0 < f1 \<and>
     (\<forall>k \<in> {''TEST'', ''FORWARD''}. \<exists>w. dget partitions k = JObj w \<and> \<not> touched w)"
proof -
  obtain partitions where p: "dget r ''temporal_partitions'' = JObj partitions" "passes (partition_error partitions)"
    by (rule frozen_scope_passes [OF assms])
  from partitions_ordered [OF p(2)] p(1) show ?thesis by blast
qed

text \<open>In an accepted scope the live bands of every horizon are nonempty, within 180 minutes, and disjoint: no
  minute of a match lies in two of them.\<close>

theorem accepted_bands_are_disjoint:
  assumes "passes (scope_error r base policy)" and "dget r ''record_kind'' = JStr ''FROZEN_INITIAL_SCOPE_APPROVAL''"
    and "\<not> dhas r ''stored_approval_hash''" and "dget r ''evaluation_bands'' = JObj bands" and "(horizon, JArr vs) \<in> set bands"
  shows "(\<forall>i \<in> set (live_minutes vs). 0 \<le> fst i \<and> fst i < snd i \<and> snd i \<le> 180) \<and>
    (\<forall>m. length (filter (covers m) (live_minutes vs)) \<le> 1)"
proof -
  obtain states bands' where "dget r ''evaluation_bands'' = JObj bands'" "passes (band_error bands' states)"
    by (rule frozen_scope_passes [OF assms(1-3)])
  with bands_disjoint assms(4,5) show ?thesis by fastforce
qed

text \<open>An accepted scope uses admitted evidence only: its inputs have distinct identifiers, each is an entry of the
  policy with the same category and pointer, without wildcard, and repeats the hash recorded in the base.\<close>

theorem accepted_inputs_are_admitted:
  assumes "passes (scope_error r base policy)" and "dget r ''record_kind'' = JStr ''FROZEN_INITIAL_SCOPE_APPROVAL''"
    and "\<not> dhas r ''stored_approval_hash''"
  shows "\<exists>inputs entries policy_entries base_inputs base_hashes. dget r ''admitted_inputs'' = JArr (map JObj inputs) \<and>
    dget policy ''entries'' = JArr entries \<and>
    dict_of (\<lambda>entry. bindR (ditem entry ''entry_id'') (\<lambda>i. Inr (py_str i, entry))) entries = Inr policy_entries \<and>
    dget base ''admitted_inputs'' = JArr base_inputs \<and>
    dict_of (\<lambda>item. bindR (ditem item ''policy_entry_id'') (\<lambda>i. Inr (py_str i, dget item ''projected_value_hash'')))
      base_inputs = Inr base_hashes \<and>
    distinct (map (\<lambda>d. py_str (dget d ''policy_entry_id'')) inputs) \<and>
    (\<forall>d \<in> set inputs. admitted_by policy_entries base_hashes d)"
proof -
  have "passes (admission_error r base policy)" by (rule frozen_scope_passes [OF assms])
  then obtain entries policy_entries base_inputs base_hashes vs where
    a: "array_item policy ''entries'' = Inr entries"
      "dict_of (\<lambda>entry. bindR (ditem entry ''entry_id'') (\<lambda>i. Inr (py_str i, entry))) entries = Inr policy_entries"
      "array_item base ''admitted_inputs'' = Inr base_inputs"
      "dict_of (\<lambda>item. bindR (ditem item ''policy_entry_id'') (\<lambda>i. Inr (py_str i, dget item ''projected_value_hash''))) base_inputs
        = Inr base_hashes"
      "array_item r ''admitted_inputs'' = Inr vs" "passes (inputs_error base_inputs base_hashes policy_entries {} vs)"
    unfolding admission_error_def check_rules by blast
  from inputs_admitted [OF a(6)] obtain inputs where "vs = map JObj inputs"
    "distinct (map (\<lambda>d. py_str (dget d ''policy_entry_id'')) inputs)" "\<forall>d \<in> set inputs. admitted_by policy_entries base_hashes d"
    by blast
  with a(1-5) show ?thesis unfolding array_item_Inr by blast
qed

text \<open>A review with a blocking finding cannot announce readiness: if a finding blocks one of the verdicts that
  readiness rests on, an accepted review does not say that the pack is ready.\<close>

theorem blocked_review_is_not_ready:
  assumes "passes (review_error r)" and "dget r ''findings'' = JArr (map JObj findings)" and "f \<in> set findings"
    and "dget f ''blocking'' = JBool True" and "dget f ''affected_verdicts'' = JArr vs" and "JStr k \<in> set vs"
    and "k \<in> set READINESS_INPUTS"
  shows "dget r ''READY_TO_IMPLEMENT_DISCOVERY_PACK'' \<noteq> JStr ''YES''"
proof
  assume y: "dget r ''READY_TO_IMPLEMENT_DISCOVERY_PACK'' = JStr ''YES''"
  obtain findings' where p: "dget r ''findings'' = JArr (map JObj findings')" "\<forall>f \<in> set findings'. passes (blocker_error r f)"
    "dget r ''READY_TO_IMPLEMENT_DISCOVERY_PACK'' = JStr ''YES'' \<longrightarrow> (\<forall>k \<in> set READINESS_INPUTS. dget r k = JStr ''YES'')"
    by (rule review_passes [OF assms(1)])
  have "map JObj findings' = map JObj findings" using p(1) assms(2) by simp
  then have "findings' = findings" by (rule map_injective) (simp add: inj_def)
  then have "dget r k = JStr ''NO''" using blocker_passes assms(3-6) p(2) by blast
  with p(3) y assms(7) show False by simp
qed

text \<open>An accepted capability divides all consumers into the authorized and the blocked ones. Some consumer is
  authorized exactly when the verdict is SUPPORTED or PARTIAL, and then there is evidence.\<close>

theorem capability_partitions_consumers:
  assumes "passes (capability_error r)"
  shows "\<exists>authorized blocked evidence. dget r ''authorized_consumers'' = JArr (map JStr authorized) \<and>
    dget r ''blocked_consumers'' = JArr (map JStr blocked) \<and> dget r ''evidence_refs'' = JArr evidence \<and>
    set authorized \<inter> set blocked = {} \<and> set authorized \<union> set blocked = set DISCOVERY_CONSUMERS \<and>
    (authorized \<noteq> [] \<longleftrightarrow> py_str (dget r ''verdict'') \<in> {''SUPPORTED'', ''PARTIAL''}) \<and> (authorized \<noteq> [] \<longrightarrow> evidence \<noteq> [])"
proof -
  obtain evaluated authorized blocked evidence limitations unknowns closed_context where
    c: "strings_item r ''authorized_consumers'' = Inr authorized" "strings_item r ''blocked_consumers'' = Inr blocked"
      "array_item r ''evidence_refs'' = Inr evidence" and
    v: "passes (verdict_error (py_str (dget r ''verdict'')) (dget r ''confidence'') (set authorized) (set blocked) evidence
      limitations unknowns closed_context)" and
    s: "set authorized \<inter> set blocked = {}" "set evaluated = set DISCOVERY_CONSUMERS" "set authorized \<union> set blocked = set evaluated"
    by (rule capability_passes [OF assms])
  note w = verdict_passes [OF v]
  have "authorized \<noteq> [] \<longleftrightarrow> py_str (dget r ''verdict'') \<in> {''SUPPORTED'', ''PARTIAL''}"
    using w(1,2) by auto
  then show ?thesis using c s w(3) unfolding strings_item_Inr array_item_Inr by blast
qed

section \<open>Witnesses\<close>

definition demo_window :: "string \<Rightarrow> string \<Rightarrow> json" where
  "demo_window start stop = JObj [(''start'', JStr start), (''end'', JStr stop), (''pre_freeze_access_state'', JStr ''NEVER_ACCESSED''),
     (''pre_freeze_access_event_count'', JStr ''0'')]"

definition demo_band :: "string \<Rightarrow> string \<Rightarrow> string \<Rightarrow> json" where
  "demo_band phase start stop = JObj [(''fixture_phase'', JStr phase), (''admission_code'', JStr (''ADMITTED_'' @ phase)),
     (''start_minute'', JStr start), (''end_minute'', JStr stop)]"

definition demo_bands :: "json list" where
  "demo_bands = [demo_band ''FIRST_HALF'' ''0'' ''15'', demo_band ''FIRST_HALF'' ''15'' ''45'', demo_band ''SECOND_HALF'' ''46'' ''90'']"

definition demo_binding_of :: "string \<times> string \<times> string \<Rightarrow> string \<times> json" where
  "demo_binding_of = (\<lambda>(k, i, v). (k, JObj [(''schema_id'', JStr i), (''schema_version'', JStr v), (''content_hash'', JStr ''h'')]))"

definition demo_policy :: obj where
  "demo_policy = [(''entries'', JArr (map (\<lambda>row. JObj (zip [''entry_id'', ''schema_id'', ''schema_version'', ''artifact_name'',
     ''json_pointer'', ''category''] (map JStr row))) SCOPE_POLICY_ENTRIES))]"

definition demo_input :: json where
  "demo_input = JObj [(''policy_entry_id'', JStr ''scope0-input:d0-provider-cost''), (''category'', JStr ''cost''),
     (''json_pointer'', JStr ''/scope0_projection/cost''), (''projected_value_hash'', JStr ''p''),
     (''source_ref'', JObj [(''schema_id'', JStr ''urn:hybrid-discovery:v6.2:d0-evidence:v1''), (''schema_version'', JStr ''d0-report/v1''),
        (''artifact_type'', JStr ''D0_REPORT'')])]"

definition demo_scope :: obj where
  "demo_scope =
     [(''record_kind'', JStr ''FROZEN_INITIAL_SCOPE_APPROVAL''), (''production_authority'', JStr ''NONE''),
      (''authority'', JStr ''V7_DESIGN_ONLY''), (''competition_id'', JStr ''c''),
      (''forecast_bundle_scope'', JObj [(''competition_id'', JStr ''c''),
         (''eligible_fixture_states'', JArr (map JStr [''FIRST_HALF'', ''SECOND_HALF'']))]),
      (''supported_horizons'', JArr [JStr ''H2'']), (''evaluation_bands'', JObj [(''H2'', JArr demo_bands)]),
      (''temporal_partitions'', JObj [(''TRAIN'', demo_window ''2024-01-01T00:00:00Z'' ''2024-06-01T00:00:00Z''),
         (''VALIDATION'', demo_window ''2024-06-01T00:00:00Z'' ''2024-09-01T00:00:00Z''),
         (''TEST'', demo_window ''2024-09-01t02:00:00+02:00'' ''2025-01-01T00:00:00Z''),
         (''FORWARD'', demo_window ''2025-01-01T00:00:00Z'' ''2026-01-01T00:00:00Z'')]),
      (''valid_from'', JStr ''2026-01-01T00:00:00Z''), (''review_by'', JStr ''2026-01-31T00:00:00Z''),
      (''admitted_inputs'', JArr [demo_input]),
      (''performance_input_denial'', JObj [(''policy_enforced'', JBool True), (''audit_confirmed'', JBool True),
         (''denied_category_codes'', JArr (map JStr PERFORMANCE_DENIAL_CODES))]),
      (''contamination_lineage'', JObj [(''replay_disposition'', JStr ''MATCHED''), (''contamination_status'', JStr ''CLEAN''),
         (''test_access_events'', JStr ''0''), (''forward_access_events'', JStr ''0''),
         (''access_ledger_schema_version'', JStr ''scope-input-audit/v1''), (''access_ledger_hash'', JStr ''l''),
         (''access_ledger_ref'', JObj [(''schema_id'', JStr ''urn:hybrid-discovery:v6.2:meta-records:v1''),
            (''schema_version'', JStr ''scope-input-audit/v1''), (''artifact_type'', JStr ''SCOPE_INPUT_AUDIT''), (''content_hash'', JStr ''l'')])])]
     @ map demo_binding_of BINDING_EXPECTATIONS"

lemma demo_scope_passes: "passes (scope_error demo_scope demo_scope demo_policy)"
  unfolding passes_def by code_simp

lemma demo_scope_items:
  "dget demo_scope ''record_kind'' = JStr ''FROZEN_INITIAL_SCOPE_APPROVAL''" "\<not> dhas demo_scope ''stored_approval_hash''"
  "dget demo_scope ''evaluation_bands'' = JObj [(''H2'', JArr demo_bands)]"
  by code_simp+

theorem accepted_scope_does_not_leak_witness:
  "\<exists>partitions v0 v1 s0 s1. dget demo_scope ''temporal_partitions'' = JObj partitions \<and>
     window_is partitions ''VALIDATION'' v0 v1 \<and> window_is partitions ''TEST'' s0 s1 \<and> v1 \<le> s0"
  using accepted_scope_does_not_leak [OF demo_scope_passes demo_scope_items(1,2)] by blast

theorem accepted_bands_are_disjoint_witness: "\<forall>m. length (filter (covers m) (live_minutes demo_bands)) \<le> 1"
  using accepted_bands_are_disjoint [OF demo_scope_passes demo_scope_items, of "''H2''" demo_bands] by simp

theorem accepted_inputs_are_admitted_witness:
  "\<exists>inputs. dget demo_scope ''admitted_inputs'' = JArr (map JObj inputs) \<and>
     distinct (map (\<lambda>d. py_str (dget d ''policy_entry_id'')) inputs)"
  using accepted_inputs_are_admitted [OF demo_scope_passes demo_scope_items(1,2)] by blast

definition demo_finding :: obj where
  "demo_finding = [(''finding_id'', JStr ''F1''), (''blocking'', JBool True), (''affected_verdicts'', JArr [JStr ''SAFE_TO_IMPLEMENT_E0''])]"

definition demo_review :: obj where
  "demo_review =
     [(''production_authority'', JStr ''NONE''), (''review_outcome'', JStr ''HELD''), (''findings'', JArr [JObj demo_finding]),
      (''SAFE_TO_IMPLEMENT_E0'', JStr ''NO''), (''READY_TO_IMPLEMENT_DISCOVERY_PACK'', JStr ''NO''),
      (''required_discovery_decisions'', JArr (map (\<lambda>i. JObj [(''decision_id'', JStr i), (''disposition'', JStr ''UNKNOWN''),
         (''authorized_consumers'', JArr []), (''evidence_refs'', JArr []), (''limitation_codes'', JArr [JStr ''L''])]) REQUIRED_DECISIONS))]"

theorem blocked_review_is_not_ready_witness: "dget demo_review ''READY_TO_IMPLEMENT_DISCOVERY_PACK'' \<noteq> JStr ''YES''"
proof -
  have "passes (review_error demo_review)" unfolding passes_def by code_simp
  moreover have "dget demo_review ''findings'' = JArr (map JObj [demo_finding])" by (simp add: demo_review_def)
  moreover have "dget demo_finding ''blocking'' = JBool True"
    "dget demo_finding ''affected_verdicts'' = JArr [JStr ''SAFE_TO_IMPLEMENT_E0'']" by (simp_all add: demo_finding_def)
  moreover have "''SAFE_TO_IMPLEMENT_E0'' \<in> set READINESS_INPUTS" by (simp add: READINESS_INPUTS_def)
  ultimately show ?thesis using blocked_review_is_not_ready by fastforce
qed

definition demo_capability :: obj where
  "demo_capability =
     [(''production_authority'', JStr ''NONE''), (''verdict'', JStr ''PARTIAL''), (''confidence'', JStr ''OBSERVED''),
      (''evaluated_consumers'', JArr (map JStr DISCOVERY_CONSUMERS)), (''authorized_consumers'', JArr (map JStr (take 2 DISCOVERY_CONSUMERS))),
      (''blocked_consumers'', JArr (map JStr (drop 2 DISCOVERY_CONSUMERS))), (''evidence_refs'', JArr [JStr ''e'']),
      (''limitation_codes'', JArr [JStr ''l'']), (''unknown_codes'', JArr []), (''tested_context'', JObj [(''context_status'', JStr ''CLOSED'')])]"

theorem capability_partitions_consumers_witness:
  "\<exists>authorized. dget demo_capability ''authorized_consumers'' = JArr (map JStr authorized) \<and> authorized \<noteq> []"
proof -
  have p: "passes (capability_error demo_capability)" unfolding passes_def by code_simp
  have "py_str (dget demo_capability ''verdict'') = ''PARTIAL''" by code_simp
  then show ?thesis using capability_partitions_consumers [OF p] by auto
qed

end
