(* ===== verification/Review_Auth.thy ===== *)
theory Review_Auth
  imports Canonical Base64 Py_Time Json_Items
begin

text \<open>
  \<^verbatim>\<open>src/moj_discovery/review_authorization.py\<close>: launch authorizations and execution receipts of
  reviews, signed under separate domains. Keys are their raw bytes; the JSON Schema verdicts and Ed25519
  are parameters, and so is the time \<open>now\<close> in microseconds UTC.
\<close>

record review_env =
  rv_codec :: ext
  rv_schema :: "string \<Rightarrow> string \<Rightarrow> obj \<Rightarrow> bool"
  rv_ed25519 :: "string \<Rightarrow> string \<Rightarrow> string \<Rightarrow> bool"
  rv_uuid5 :: "string \<Rightarrow> string"

text \<open>A private key: its public key and its signatures.\<close>

record signing_key =
  sk_public :: string
  sk_sign :: "string \<Rightarrow> string"

section \<open>Constants\<close>

definition LAUNCH_ID_DOMAIN :: string where
  "LAUNCH_ID_DOMAIN = ''HD636/REVIEW-LAUNCH/ID/v1'' @ [CHR 0x00]"

definition LAUNCH_SIGN_DOMAIN :: string where
  "LAUNCH_SIGN_DOMAIN = ''HD636/REVIEW-LAUNCH/SIGN/v1'' @ [CHR 0x00]"

definition RECEIPT_ID_DOMAIN :: string where
  "RECEIPT_ID_DOMAIN = ''HD636/REVIEW-RECEIPT/ID/v1'' @ [CHR 0x00]"

definition RECEIPT_SIGN_DOMAIN :: string where
  "RECEIPT_SIGN_DOMAIN = ''HD636/REVIEW-RECEIPT/SIGN/v1'' @ [CHR 0x00]"

definition DESCENDANT_IDENTITY_FIELDS :: "string list" where
  "DESCENDANT_IDENTITY_FIELDS =
     [''repository_qualification_receipt_sha256'', ''repository_identity_kind'', ''repository_commit_oid'',
      ''repository_tree_oid'', ''repository_file_tree_root_sha256'']"

section \<open>Identity and binding\<close>

definition nonempty_text :: "json \<Rightarrow> bool" where
  "nonempty_text v = (case v of JStr s \<Rightarrow> s \<noteq> [] | _ \<Rightarrow> False)"

definition review_identity :: "obj \<Rightarrow> obj res" where
  "review_identity v =
     bindR (refuse_if (Inr (\<not> str_is (dget v ''repository_identity_kind'') ''DESCENDANT'' \<or>
       \<not> list_all (\<lambda>k. nonempty_text (dget v k)) DESCENDANT_IDENTITY_FIELDS)) ''E_REVIEW_IDENTITY'') (\<lambda>_.
     Inr (map (\<lambda>k. (k, dget v k)) DESCENDANT_IDENTITY_FIELDS))"

definition same_identity :: "obj \<Rightarrow> obj \<Rightarrow> bool res" where
  "same_identity a b = bindR (review_identity a) (\<lambda>x. bindR (review_identity b) (\<lambda>y. Inr (py_eq (JObj x) (JObj y))))"

definition is_current :: "obj \<Rightarrow> bool" where
  "is_current authorization = str_is (dget authorization ''schema_version'') ''review-launch-authorization/v2''"

definition versioned :: "string \<Rightarrow> bool \<Rightarrow> string" where
  "versioned name current = name @ ''/v'' @ (if current then ''2'' else ''1'')"

definition verify_review_result_binding :: "obj \<Rightarrow> obj \<Rightarrow> unit res" where
  "verify_review_result_binding result authorization =
     (let current = is_current authorization in
      bindR (refuse_if (Inr (\<not> str_is (dget result ''schema_version'') (versioned ''independent-review-result'' current) \<or>
        list_ex (\<lambda>k. \<not> py_eq (dget result k) (dget authorization k) \<or> \<not> dhas result k \<or> \<not> dhas authorization k)
          [''review_role'', ''review_run_id'', ''pack_zip_sha256''])) ''E_REVIEW_RESULT_BINDING'') (\<lambda>_.
      if current then refuse_if (notR (same_identity result authorization)) ''E_REVIEW_IDENTITY''
      else refuse_if (Inr (\<not> py_eq (dget result ''repo0_receipt_sha256'') (dget authorization ''repo0_receipt_sha256'')))
        ''E_REVIEW_RESULT_BINDING''))"

section \<open>Signatures\<close>

definition BAD_SIGNATURE :: exn where
  "BAD_SIGNATURE = ValueError ''E_REVIEW_AUTH_SIGNATURE''"

definition review_b64decode :: "json \<Rightarrow> string res" where
  "review_b64decode v = (case v of
      JStr s \<Rightarrow>
        if CHR ''='' \<in> set s then Inl BAD_SIGNATURE
        else (case urlsafe_b64decode (s @ replicate ((4 - length s mod 4) mod 4) CHR ''='') of
            Inl _ \<Rightarrow> Inl BAD_SIGNATURE
          | Inr decoded \<Rightarrow>
              if rstrip_pad (urlsafe_b64encode decoded) \<noteq> s then Inl BAD_SIGNATURE else Inr (map char_of decoded))
    | _ \<Rightarrow> Inl BAD_SIGNATURE)"

text \<open>\<open>_projection\<close>: the canonical bytes without the excluded fields.\<close>

definition projection :: "review_env \<Rightarrow> obj \<Rightarrow> string list \<Rightarrow> string res" where
  "projection E v excluded = jcs (rv_codec E) (JObj (filter (\<lambda>(k, _). k \<notin> set excluded) v))"

definition review_identifier :: "review_env \<Rightarrow> obj \<Rightarrow> string \<Rightarrow> string \<Rightarrow> string \<Rightarrow> string res" where
  "review_identifier E v prefix tag derived =
     bindR (projection E v [''signature'', derived]) (\<lambda>p. Inr (prefix @ sha256 (rv_codec E) (tag @ p)))"

definition key_id :: "review_env \<Rightarrow> string \<Rightarrow> string" where
  "key_id E public_key = ''key:ed25519:'' @ sha256 (rv_codec E) public_key"

text \<open>\<open>sign_review_launch_authorization\<close> and \<open>sign_review_execution_receipt\<close> differ in prefix, domains and field.\<close>

definition sign_document :: "review_env \<Rightarrow> signing_key \<Rightarrow> string \<Rightarrow> string \<Rightarrow> string \<Rightarrow> string \<Rightarrow> obj \<Rightarrow> obj res" where
  "sign_document E sk derived prefix id_domain sign_domain document =
     (let v = ddel ''signature'' (ddel derived document);
          v = dput ''issuer_key_id'' (JStr (key_id E (sk_public sk))) v in
      bindR (review_identifier E v prefix id_domain derived) (\<lambda>i.
      (let v = dput derived (JStr i) v in
       bindR (projection E v [''signature'']) (\<lambda>p.
         Inr (dput ''signature'' (JStr (rstrip_pad (urlsafe_b64encode (map of_char (sk_sign sk (sign_domain @ p)))))) v)))))"

definition sign_review_launch_authorization :: "review_env \<Rightarrow> obj \<Rightarrow> signing_key \<Rightarrow> obj res" where
  "sign_review_launch_authorization E authorization sk =
     sign_document E sk ''authorization_id'' ''REVIEW-LAUNCH:'' LAUNCH_ID_DOMAIN LAUNCH_SIGN_DOMAIN authorization"

definition sign_review_execution_receipt :: "review_env \<Rightarrow> obj \<Rightarrow> signing_key \<Rightarrow> obj res" where
  "sign_review_execution_receipt E receipt sk =
     sign_document E sk ''receipt_id'' ''REVIEW-RECEIPT:'' RECEIPT_ID_DOMAIN RECEIPT_SIGN_DOMAIN receipt"

definition review_verify_signature :: "review_env \<Rightarrow> obj \<Rightarrow> string \<Rightarrow> string \<Rightarrow> unit res" where
  "review_verify_signature E v public_key tag =
     bindR (review_b64decode (dget v ''signature'')) (\<lambda>signature.
     bindR (raise_if (length signature \<noteq> 64) BAD_SIGNATURE) (\<lambda>_.
     bindR (projection E v [''signature'']) (\<lambda>p.
       raise_if (\<not> rv_ed25519 E public_key signature (tag @ p)) BAD_SIGNATURE)))"

section \<open>Time\<close>

text \<open>\<open>astimezone\<close> leaves the calendar at its two ends.\<close>

definition review_instant :: "json \<Rightarrow> string \<Rightarrow> int res" where
  "review_instant v error = (case fromisoformat (py_str v) of
      Inl e \<Rightarrow> Inl (if value_error_text e \<noteq> None then ValueError error else e)
    | Inr (t, None) \<Rightarrow> Inl (ValueError error)
    | Inr (t, Some z) \<Rightarrow> if t - z < FIRST_TIME \<or> t - z > LAST_TIME then Inl OverflowError else Inr (t - z))"

definition review_instant_item :: "obj \<Rightarrow> string \<Rightarrow> string \<Rightarrow> int res" where
  "review_instant_item d k error = bindR (ditem d k) (\<lambda>v. review_instant v error)"

definition MAXIMUM_DURATION :: int where
  "MAXIMUM_DURATION = 14400 * 1000000"

section \<open>Launch authorizations\<close>

definition mount_invalid :: "json \<Rightarrow> bool" where
  "mount_invalid v = (case v of
      JObj mount \<Rightarrow> \<not> str_is (dget mount ''mode'') ''READ_ONLY'' \<or> \<not> py_eq (dget mount ''source_root'') (dget mount ''workspace_mount'') \<or>
        \<not> is_str (dget mount ''source_root'')
    | _ \<Rightarrow> True)"

definition verify_mounts :: "obj \<Rightarrow> unit res" where
  "verify_mounts authorization = (case dget authorization ''input_mounts'' of
      JArr mounts \<Rightarrow> raise_if (length mounts \<noteq> 5 \<or> list_ex mount_invalid mounts \<or>
        \<not> distinct (map (\<lambda>m. the_str (dget (the_dict m) ''source_root'')) mounts)) (ValueError ''E_REVIEW_AUTH_BINDING'')
    | _ \<Rightarrow> Inl (ValueError ''E_REVIEW_AUTH_BINDING''))"

text \<open>What the caller expects; the last two only if given.\<close>

record launch_expectation =
  lx_role :: json
  lx_workspace :: json
  lx_pack :: json
  lx_boot :: "json option"
  lx_epoch :: "json option"

definition launch_window_invalid :: "int \<Rightarrow> int \<Rightarrow> int \<Rightarrow> int \<Rightarrow> bool" where
  "launch_window_invalid issued not_before expires now =
     (\<not> (issued \<le> not_before \<and> not_before \<le> now \<and> now < expires) \<or> expires - issued \<noteq> MAXIMUM_DURATION)"

definition expected_other :: "obj \<Rightarrow> string \<Rightarrow> json option \<Rightarrow> bool" where
  "expected_other d k expected = (case expected of None \<Rightarrow> False | Some v \<Rightarrow> \<not> py_eq (dget d k) v)"

definition launch_terms_invalid :: "obj \<Rightarrow> launch_expectation \<Rightarrow> int \<Rightarrow> int \<Rightarrow> int \<Rightarrow> int \<Rightarrow> bool" where
  "launch_terms_invalid a x issued not_before expires now =
     (\<not> str_is (dget a ''production_authority'') ''NONE'' \<or>
      \<not> str_is (dget a ''issuer_role'') ''HOST_REVIEW_AUTHORITY'' \<or>
      \<not> str_is (dget a ''audience'') ''hybrid-discovery:independent-review-launcher:v1'' \<or>
      \<not> str_is (dget a ''signature_algorithm'') ''Ed25519'' \<or>
      \<not> is_true (dget a ''fresh_session_required'') \<or>
      \<not> py_eq (dget a ''maximum_duration_seconds'') (JInt 14400) \<or>
      launch_window_invalid issued not_before expires now \<or>
      \<not> py_eq (dget a ''review_role'') (lx_role x) \<or>
      \<not> py_eq (dget a ''workspace_root'') (lx_workspace x) \<or>
      \<not> py_eq (dget a ''pack_zip_sha256'') (lx_pack x) \<or>
      expected_other a ''host_boot_id'' (lx_boot x) \<or>
      expected_other a ''trust_epoch'' (lx_epoch x))"

text \<open>the identifier and the issuer's key, then the signature: both kinds of document start like this.\<close>

definition launch_binding :: "review_env \<Rightarrow> obj \<Rightarrow> string \<Rightarrow> string res" where
  "launch_binding E a public_key =
     bindR (review_identifier E a ''REVIEW-LAUNCH:'' LAUNCH_ID_DOMAIN ''authorization_id'') (\<lambda>expected_id.
     bindR (raise_if (\<not> str_is (dget a ''authorization_id'') expected_id \<or> \<not> str_is (dget a ''issuer_key_id'') (key_id E public_key))
       (ValueError ''E_REVIEW_AUTH_BINDING'')) (\<lambda>_.
     bindR (review_verify_signature E a public_key LAUNCH_SIGN_DOMAIN) (\<lambda>_. Inr expected_id)))"

definition verify_review_launch_authorization :: "review_env \<Rightarrow> obj \<Rightarrow> string \<Rightarrow> launch_expectation \<Rightarrow> int \<Rightarrow> string res" where
  "verify_review_launch_authorization E a public_key x now =
     bindR (raise_if (\<not> rv_schema E ''review-launch-authorization.schema.json'' ''ReviewLaunchAuthorization'' a)
       (ValueError ''E_REVIEW_AUTH_SCHEMA'')) (\<lambda>_.
     bindR (launch_binding E a public_key) (\<lambda>expected_id.
     bindR (review_instant_item a ''issued_at'' ''E_REVIEW_AUTH_EXPIRY'') (\<lambda>issued.
     bindR (review_instant_item a ''not_before'' ''E_REVIEW_AUTH_EXPIRY'') (\<lambda>not_before.
     bindR (review_instant_item a ''expires_at'' ''E_REVIEW_AUTH_EXPIRY'') (\<lambda>expires.
     bindR (raise_if (launch_terms_invalid a x issued not_before expires now) (ValueError ''E_REVIEW_AUTH_BINDING'')) (\<lambda>_.
     bindR (verify_mounts a) (\<lambda>_. Inr expected_id)))))))"

section \<open>Execution receipts\<close>

definition receipt_binding :: "review_env \<Rightarrow> obj \<Rightarrow> obj \<Rightarrow> string \<Rightarrow> string res" where
  "receipt_binding E receipt a public_key =
     bindR (review_identifier E receipt ''REVIEW-RECEIPT:'' RECEIPT_ID_DOMAIN ''receipt_id'') (\<lambda>expected_id.
     bindR (refuse_if (orR (Inr (\<not> str_is (dget receipt ''receipt_id'') expected_id))
         (differs (Inr (dget receipt ''issuer_key_id'')) (ditem a ''issuer_key_id''))) ''E_REVIEW_RECEIPT_BINDING'') (\<lambda>_.
     bindR (review_verify_signature E receipt public_key RECEIPT_SIGN_DOMAIN) (\<lambda>_. Inr expected_id)))"

definition receipt_identity :: "obj \<Rightarrow> obj \<Rightarrow> unit res" where
  "receipt_identity receipt a =
     bindR (ditem a ''schema_version'') (\<lambda>version.
     (let current = str_is version ''review-launch-authorization/v2'' in
      bindR (refuse_if (bindR (ditem receipt ''schema_version'') (\<lambda>v.
        Inr (\<not> str_is v (versioned ''review-execution-receipt'' current)))) ''E_REVIEW_IDENTITY'') (\<lambda>_.
      if current then refuse_if (notR (same_identity receipt a)) ''E_REVIEW_IDENTITY'' else Inr ())))"

definition fresh_invalid :: "json \<Rightarrow> bool" where
  "fresh_invalid v = (case v of
      JObj fresh \<Rightarrow> \<not> str_is (dget fresh ''attestation_type'') ''HUMAN_FRESH_CODEX_SESSION'' \<or> \<not> is_true (dget fresh ''attested'') \<or>
        \<not> is_true (dget fresh ''procedural_not_cryptographic'')
    | _ \<Rightarrow> True)"

text \<open>The two tests on the times of a review: inside the authorization, and not longer than four hours.\<close>

definition run_window_invalid :: "int \<Rightarrow> int \<Rightarrow> int \<Rightarrow> int \<Rightarrow> int \<Rightarrow> bool" where
  "run_window_invalid consumed started finished expires now =
     (\<not> (consumed \<le> started \<and> started \<le> finished \<and> finished \<le> expires \<and> finished \<le> now) \<or> finished - started > MAXIMUM_DURATION)"

definition receipt_terms_invalid :: "obj \<Rightarrow> obj \<Rightarrow> json list \<Rightarrow> json \<Rightarrow> bool \<Rightarrow> bool res" where
  "receipt_terms_invalid receipt a expected_roots result_sha256 bad_window = anyR (\<lambda>c. c)
     [differs (Inr (dget receipt ''authorization_id'')) (ditem a ''authorization_id''),
      Inr (\<not> str_is (dget receipt ''issuer_role'') ''HOST_REVIEW_AUTHORITY''),
      differs (Inr (dget receipt ''review_role'')) (ditem a ''review_role''),
      differs (Inr (dget receipt ''review_run_id'')) (ditem a ''review_run_id''),
      differs (Inr (dget receipt ''workspace_root'')) (ditem a ''workspace_root''),
      Inr (\<not> py_eq (dget receipt ''input_content_roots'') (JArr expected_roots)),
      Inr (\<not> py_eq (dget receipt ''result_sha256'') result_sha256),
      Inr (\<not> str_is (dget receipt ''production_authority'') ''NONE''),
      Inr (\<not> str_is (dget receipt ''signature_algorithm'') ''Ed25519''),
      differs (Inr (dget receipt ''host_boot_id'')) (ditem a ''host_boot_id''),
      differs (Inr (dget receipt ''trust_epoch'')) (ditem a ''trust_epoch''),
      Inr (dget receipt ''unexpected_changed_paths'' \<noteq> JArr []),
      Inr (\<not> (case dget receipt ''allowed_changed_paths'' of JArr xs \<Rightarrow> xs \<noteq> [] | _ \<Rightarrow> False)),
      Inr (fresh_invalid (dget receipt ''fresh_session_attestation'')),
      Inr bad_window]"

definition mount_roots :: "obj \<Rightarrow> json list res" where
  "mount_roots a = bindR (array_item a ''input_mounts'') (mapR (\<lambda>v. bindR (as_object v) (\<lambda>m. ditem m ''content_root_sha256'')))"

definition verify_review_execution_receipt :: "review_env \<Rightarrow> obj \<Rightarrow> obj \<Rightarrow> string \<Rightarrow> json \<Rightarrow> json option \<Rightarrow> json option \<Rightarrow> int \<Rightarrow> string res" where
  "verify_review_execution_receipt E receipt a public_key result_sha256 boot epoch now =
     bindR (ditem a ''review_role'') (\<lambda>role.
     bindR (ditem a ''workspace_root'') (\<lambda>workspace.
     bindR (ditem a ''pack_zip_sha256'') (\<lambda>pack.
     bindR (verify_review_launch_authorization E a public_key
       \<lparr>lx_role = role, lx_workspace = workspace, lx_pack = pack, lx_boot = boot, lx_epoch = epoch\<rparr> now) (\<lambda>_.
     bindR (raise_if (\<not> rv_schema E ''review-execution-receipt.schema.json'' ''ReviewExecutionReceipt'' receipt)
       (ValueError ''E_REVIEW_AUTH_SCHEMA'')) (\<lambda>_.
     bindR (receipt_binding E receipt a public_key) (\<lambda>expected_id.
     bindR (receipt_identity receipt a) (\<lambda>_.
     bindR (mount_roots a) (\<lambda>expected_roots.
     bindR (review_instant_item receipt ''started_at'' ''E_REVIEW_RECEIPT_FRESHNESS'') (\<lambda>started.
     bindR (review_instant_item receipt ''finished_at'' ''E_REVIEW_RECEIPT_FRESHNESS'') (\<lambda>finished.
     bindR (review_instant_item receipt ''authorization_consumed_at'' ''E_REVIEW_RECEIPT_FRESHNESS'') (\<lambda>consumed.
     bindR (review_instant_item a ''expires_at'' ''E_REVIEW_RECEIPT_FRESHNESS'') (\<lambda>expires.
     bindR (refuse_if (receipt_terms_invalid receipt a expected_roots result_sha256
         (run_window_invalid consumed started finished expires now)) ''E_REVIEW_RECEIPT_BINDING'') (\<lambda>_.
       Inr expected_id)))))))))))))"

end
