(* ===== verification/Review_Aggregate.thy ===== *)
theory Review_Aggregate
  imports Review_Auth Auth_Keys
begin

text \<open>
  \<^verbatim>\<open>src/moj_discovery/review_aggregation.py\<close>: the aggregation of the implementation and the
  cybersecurity review into one result, and the shape of a plan's self review.
\<close>

section \<open>Constants\<close>

definition RESULT_DOMAIN :: string where
  "RESULT_DOMAIN = ''HD636/REVIEW-RESULT/v1'' @ [CHR 0x00]"

definition IMPLEMENTATION_FLAGS :: "string list" where
  "IMPLEMENTATION_FLAGS = [''REPO0_BASELINE_VALID'', ''SAFE_TO_IMPLEMENT_R0'', ''SAFE_TO_IMPLEMENT_F0A'', ''SAFE_TO_IMPLEMENT_SEC0'',
     ''SAFE_TO_IMPLEMENT_E0'', ''SAFE_TO_IMPLEMENT_D0'']"

definition SECURITY_FLAGS :: "string list" where
  "SECURITY_FLAGS = [''CYBERSECURITY_REVIEW_COMPLETE'', ''CHROME_CAPABILITY_BOUNDARY_PASS'', ''AUTHORIZATION_TRUST_PASS'',
     ''CREDENTIAL_EVIDENCE_BOUNDARY_PASS'', ''HASHING_CRYPTOGRAPHY_PASS'', ''CUSTODY_ISOLATION_PASS'']"

definition severity_rank :: "string \<Rightarrow> int" where
  "severity_rank s = (case map_of [(''CRITICAL'', 0), (''IMPORTANT'', 1), (''MINOR'', 2)] s of None \<Rightarrow> 99 | Some n \<Rightarrow> n)"

definition IMPLEMENTATION_ROLE :: string where
  "IMPLEMENTATION_ROLE = ''IMPLEMENTATION_READINESS_REVIEWER''"

definition SECURITY_ROLE :: string where
  "SECURITY_ROLE = ''CYBERSECURITY_REVIEWER''"

section \<open>Single documents\<close>

definition digest :: "review_env \<Rightarrow> obj \<Rightarrow> string res" where
  "digest E v = bindR (jcs (rv_codec E) (JObj v)) (\<lambda>p. Inr (sha256 (rv_codec E) p))"

definition review_content_hash :: "review_env \<Rightarrow> obj \<Rightarrow> string res" where
  "review_content_hash E v = bindR (projection E v [''content_hash'']) (\<lambda>p. Inr (sha256 (rv_codec E) (RESULT_DOMAIN @ p)))"

definition RECEIPT_FIELDS :: "string list" where
  "RECEIPT_FIELDS = [''authorization_id'', ''review_role'', ''review_run_id'', ''workspace_root'', ''input_content_roots'',
     ''result_sha256'', ''commands_executed_root'', ''finished_at'', ''fresh_session_attestation'', ''production_authority'',
     ''signature_algorithm'', ''signature'', ''host_boot_id'', ''trust_epoch'', ''preparation_commands_root'']"

definition complete_receipt :: "obj \<Rightarrow> string \<Rightarrow> unit res" where
  "complete_receipt receipt role =
     bindR (raise_if (\<not> list_all (dhas receipt) RECEIPT_FIELDS \<or> \<not> str_is (dget receipt ''review_role'') role)
       (ValueError ''E_REVIEW_RECEIPT'')) (\<lambda>_.
     raise_if
       (\<not> (case dget receipt ''input_content_roots'' of
             JArr roots \<Rightarrow> length roots = 5 \<and> list_all (\<lambda>v. is_str v \<and> length (the_str v) = 64) roots | _ \<Rightarrow> False) \<or>
        \<not> (case dget receipt ''fresh_session_attestation'' of
             JObj fresh \<Rightarrow> is_true (dget fresh ''attested'') \<and> is_true (dget fresh ''procedural_not_cryptographic'') | _ \<Rightarrow> False) \<or>
        \<not> str_is (dget receipt ''production_authority'') ''NONE'' \<or> \<not> str_is (dget receipt ''signature_algorithm'') ''Ed25519'')
       (ValueError ''E_REVIEW_RECEIPT''))"

definition review_is_well_formed :: "review_env \<Rightarrow> obj \<Rightarrow> string \<Rightarrow> bool \<Rightarrow> unit res" where
  "review_is_well_formed E review role current =
     bindR (raise_if (current \<and> \<not> rv_schema E ''review-result.schema.json''
         (if role = IMPLEMENTATION_ROLE then ''DescendantImplementationReviewResult'' else ''DescendantCybersecurityReviewResult'') review)
       (ValueError ''E_REVIEW_AUTH_SCHEMA'')) (\<lambda>_.
     refuse_if (anyR (\<lambda>c. c)
       [Inr (\<not> str_is (dget review ''schema_version'') (versioned ''independent-review-result'' current)),
        Inr (\<not> str_is (dget review ''review_role'') role),
        Inr (\<not> str_is (dget review ''authorized_production_phases'') ''NONE''),
        bindR (review_content_hash E review) (\<lambda>h. Inr (\<not> str_is (dget review ''content_hash'') h)),
        Inr (\<not> is_list (dget review ''findings'')),
        Inr (\<not> is_dict (dget review ''verdicts''))]) ''E_REVIEW_RESULT'')"

definition has_blocking_findings :: "obj \<Rightarrow> bool" where
  "has_blocking_findings review =
     list_ex (\<lambda>v. is_dict v \<and> is_true (dget (the_dict v) ''blocking'')) (the_list (dget review ''findings''))"

section \<open>The pair of reviews\<close>

record reviews =
  rw_implementation :: obj
  rw_cybersecurity :: obj
  rw_implementation_receipt :: obj
  rw_cybersecurity_receipt :: obj
  rw_implementation_authorization :: obj
  rw_cybersecurity_authorization :: obj
  rw_public_key :: string
  rw_config :: obj
  rw_boot :: json
  rw_epoch :: json
  rw_now :: int
  rw_seal :: "obj option"

definition seal_mismatch :: "reviews \<Rightarrow> bool res" where
  "seal_mismatch W = (case rw_seal W of
      None \<Rightarrow> Inr True
    | Some seal \<Rightarrow> anyR (\<lambda>c. c)
        [Inr (\<not> str_is (dget seal ''schema_version'') ''external-seal-attestation/v7''),
         Inr (\<not> str_is (dget seal ''artifact_type'') ''RUNTIME_PACK''),
         notR (same_identity seal (rw_implementation W)),
         differs (Inr (dget seal ''zip_sha256'')) (ditem (rw_implementation W) ''pack_zip_sha256''),
         Inr (\<not> py_eq (dget seal ''manifest_sha256'') (dget (rw_implementation_authorization W) ''pack_manifest_sha256'') \<or>
           \<not> py_eq (dget seal ''manifest_sha256'') (dget (rw_cybersecurity_authorization W) ''pack_manifest_sha256''))])"

definition is_current_config :: "obj \<Rightarrow> bool" where
  "is_current_config config = str_is (dget config ''schema_version'') ''review-aggregation-config/v2''"

text \<open>Authority, shape, bindings and identity.\<close>

definition check_reviews :: "review_env \<Rightarrow> reviews \<Rightarrow> unit res" where
  "check_reviews E W =
     (let current = is_current_config (rw_config W); version = dget (rw_config W) ''schema_version'' in
      bindR (raise_if (\<not> str_is (dget (rw_config W) ''authorized_production_phases'') ''NONE'') (ValueError ''E_REVIEW_AUTHORITY'')) (\<lambda>_.
      bindR (raise_if (\<not> hashable version) TypeError) (\<lambda>_.
      bindR (raise_if (version \<notin> {JNull, JStr ''review-aggregation-config/v1'', JStr ''review-aggregation-config/v2''})
        (ValueError ''E_REVIEW_RESULT'')) (\<lambda>_.
      bindR (review_is_well_formed E (rw_implementation W) IMPLEMENTATION_ROLE current) (\<lambda>_.
      bindR (review_is_well_formed E (rw_cybersecurity W) SECURITY_ROLE current) (\<lambda>_.
      bindR (verify_review_result_binding (rw_implementation W) (rw_implementation_authorization W)) (\<lambda>_.
      bindR (verify_review_result_binding (rw_cybersecurity W) (rw_cybersecurity_authorization W)) (\<lambda>_.
      if \<not> current then Inr ()
      else bindR (refuse_if (notR (same_identity (rw_implementation W) (rw_cybersecurity W))) ''E_REVIEW_IDENTITY'') (\<lambda>_.
        refuse_if (seal_mismatch W) ''E_REVIEW_IDENTITY'')))))))))"

definition verify_receipt :: "review_env \<Rightarrow> reviews \<Rightarrow> obj \<Rightarrow> obj \<Rightarrow> obj \<Rightarrow> string res" where
  "verify_receipt E W receipt authorization result =
     bindR (digest E result) (\<lambda>h.
       verify_review_execution_receipt E receipt authorization (rw_public_key W) (JStr h) (Some (rw_boot W)) (Some (rw_epoch W)) (rw_now W))"

definition equals :: "obj \<Rightarrow> obj \<Rightarrow> string \<Rightarrow> bool res" where
  "equals a b k = notR (differs (ditem a k) (ditem b k))"

definition not_independent :: "reviews \<Rightarrow> bool res" where
  "not_independent W = anyR (\<lambda>c. c)
     [Inr (\<not> py_eq (dget (rw_implementation W) ''pack_zip_sha256'') (dget (rw_cybersecurity W) ''pack_zip_sha256'')),
      Inr (\<not> py_eq (dget (rw_implementation W) ''repo0_receipt_sha256'') (dget (rw_cybersecurity W) ''repo0_receipt_sha256'')),
      equals (rw_implementation_receipt W) (rw_cybersecurity_receipt W) ''workspace_root'',
      equals (rw_implementation_receipt W) (rw_cybersecurity_receipt W) ''authorization_id'',
      equals (rw_implementation_receipt W) (rw_cybersecurity_receipt W) ''review_run_id'',
      differs (ditem (rw_implementation_receipt W) ''input_content_roots'') (ditem (rw_cybersecurity_receipt W) ''input_content_roots''),
      Inr (py_eq (dget (rw_implementation_authorization W) ''one_use_serial'') (dget (rw_cybersecurity_authorization W) ''one_use_serial'')),
      Inr (py_eq (dget (rw_implementation_authorization W) ''allowed_output_root'')
        (dget (rw_cybersecurity_authorization W) ''allowed_output_root''))]"

text \<open>Receipts, independence and the digests of the results.\<close>

definition check_receipts :: "review_env \<Rightarrow> reviews \<Rightarrow> unit res" where
  "check_receipts E W =
     bindR (verify_receipt E W (rw_implementation_receipt W) (rw_implementation_authorization W) (rw_implementation W)) (\<lambda>_.
     bindR (verify_receipt E W (rw_cybersecurity_receipt W) (rw_cybersecurity_authorization W) (rw_cybersecurity W)) (\<lambda>_.
     bindR (complete_receipt (rw_implementation_receipt W) IMPLEMENTATION_ROLE) (\<lambda>_.
     bindR (complete_receipt (rw_cybersecurity_receipt W) SECURITY_ROLE) (\<lambda>_.
     bindR (refuse_if (not_independent W) ''E_REVIEW_INDEPENDENCE'') (\<lambda>_.
       refuse_if (orR
         (differs (ditem (rw_implementation_receipt W) ''result_sha256'') (bindR (digest E (rw_implementation W)) (\<lambda>h. Inr (JStr h))))
         (differs (ditem (rw_cybersecurity_receipt W) ''result_sha256'') (bindR (digest E (rw_cybersecurity W)) (\<lambda>h. Inr (JStr h)))))
         ''E_REVIEW_RECEIPT'')))))"

text \<open>The delay since the later of the two reviews; \<open>total_seconds()\<close> is a float, exact to the
  microsecond below \<open>2 ^ 33\<close> seconds, and compared as an exact number here.\<close>

definition check_freshness :: "reviews \<Rightarrow> unit res" where
  "check_freshness W =
     bindR (review_instant_item (rw_implementation_receipt W) ''finished_at'' ''E_REVIEW_FRESHNESS'') (\<lambda>a.
     bindR (review_instant_item (rw_cybersecurity_receipt W) ''finished_at'' ''E_REVIEW_FRESHNESS'') (\<lambda>b.
     case dget (rw_config W) ''maximum_aggregate_delay_seconds'' of
       JInt delay \<Rightarrow> raise_if (rw_now W - max a b > delay * 1000000) (ValueError ''E_REVIEW_FRESHNESS'')
     | _ \<Rightarrow> Inl (ValueError ''E_REVIEW_FRESHNESS'')))"

section \<open>The aggregate\<close>

definition implementation_flags :: "bool \<Rightarrow> string list" where
  "implementation_flags current = (if current then ''DESCENDANT_REPOSITORY_VALID'' # tl IMPLEMENTATION_FLAGS else IMPLEMENTATION_FLAGS)"

definition check_verdicts :: "obj \<Rightarrow> obj \<Rightarrow> bool \<Rightarrow> unit res" where
  "check_verdicts implementation_verdicts cybersecurity_verdicts current =
     bindR (raise_if (\<not> str_is (dget implementation_verdicts ''AUTHORIZED_PRODUCTION_PHASES'') ''NONE'' \<or>
       \<not> str_is (dget cybersecurity_verdicts ''AUTHORIZED_PRODUCTION_PHASES'') ''NONE'') (ValueError ''E_REVIEW_AUTHORITY'')) (\<lambda>_.
     raise_if (str_is (dget implementation_verdicts ''READY_TO_IMPLEMENT_DISCOVERY_PACK'') ''YES'' \<and>
       list_ex (\<lambda>k. \<not> str_is (dget implementation_verdicts k) ''YES'') (implementation_flags current))
       (ValueError ''E_REVIEW_PREREQUISITES''))"

definition both_passed :: "reviews \<Rightarrow> obj \<Rightarrow> obj \<Rightarrow> bool" where
  "both_passed W implementation_verdicts cybersecurity_verdicts =
     (str_is (dget (rw_implementation W) ''review_outcome'') ''PASS'' \<and>
      str_is (dget (rw_cybersecurity W) ''review_outcome'') ''PASS'' \<and>
      str_is (dget implementation_verdicts ''READY_TO_IMPLEMENT_DISCOVERY_PACK'') ''YES'' \<and>
      list_all (\<lambda>k. str_is (dget cybersecurity_verdicts k) ''YES'') SECURITY_FLAGS \<and>
      \<not> has_blocking_findings (rw_implementation W) \<and> \<not> has_blocking_findings (rw_cybersecurity W))"

definition finding_id :: "obj \<Rightarrow> string" where
  "finding_id item = py_str (dget item ''finding_id'')"

definition finding_key :: "obj \<Rightarrow> int \<times> string" where
  "finding_key item = (severity_rank (py_str (dget item ''severity'')), finding_id item)"

definition merged_findings :: "json list \<Rightarrow> obj list res" where
  "merged_findings findings =
     (if \<not> list_all is_dict findings then Inl (ValueError ''E_REVIEW_RESULT'')
      else let rows = map the_dict findings in
        if \<not> distinct (map finding_id rows) then Inl (ValueError ''E_REVIEW_FINDINGS'') else Inr (sort_key finding_key rows))"

definition aggregate_name :: "review_env \<Rightarrow> string list \<Rightarrow> string res" where
  "aggregate_name E hashes = bindR (mapR bytes_fromhex hashes) (\<lambda>bs. Inr (sha256 (rv_codec E) (concat bs)))"

definition aggregate_identity :: "reviews \<Rightarrow> bool \<Rightarrow> obj res" where
  "aggregate_identity W current =
     (if current then review_identity (rw_implementation W)
      else bindR (ditem (rw_implementation W) ''repo0_receipt_sha256'') (\<lambda>v. Inr [(''repo0_receipt_sha256'', v)]))"

definition aggregate_verdicts :: "obj \<Rightarrow> bool \<Rightarrow> bool \<Rightarrow> obj" where
  "aggregate_verdicts implementation_verdicts current passed =
     map (\<lambda>k. (k, dget_or implementation_verdicts k (JStr ''NO''))) (implementation_flags current) @
     [(''READY_TO_IMPLEMENT_DISCOVERY_PACK'', JStr (if passed then ''YES'' else ''NO'')),
      (''SAFE_TO_FREEZE_SCOPE0'', dget_or implementation_verdicts ''SAFE_TO_FREEZE_SCOPE0'' (JStr ''NO'')),
      (''AUTHORIZED_PRODUCTION_PHASES'', JStr ''NONE'')]"

definition aggregate_document :: "review_env \<Rightarrow> bool \<Rightarrow> bool \<Rightarrow> obj list \<Rightarrow> json \<Rightarrow> obj \<Rightarrow> string \<Rightarrow> string list \<Rightarrow> obj \<Rightarrow> obj" where
  "aggregate_document E current passed rows pack identity name hashes verdicts =
     [(''schema_version'', JStr (if current then ''review-aggregate-result/v2'' else ''independent-review-result/v1'')),
      (''review_role'', JStr ''AGGREGATE_REVIEWER''), (''review_outcome'', JStr (if passed then ''PASS'' else ''HOLD'')),
      (''findings'', JArr (map JObj rows)), (''pack_zip_sha256'', pack)] @ identity @
     [(''review_run_id'', JStr (rv_uuid5 E (''hd634:'' @ name))),
      (''implementation_review_sha256'', JStr (hashes ! 0)), (''cybersecurity_review_sha256'', JStr (hashes ! 1)),
      (''implementation_receipt_sha256'', JStr (hashes ! 2)), (''cybersecurity_receipt_sha256'', JStr (hashes ! 3)),
      (''verdicts'', JObj verdicts), (''authorized_production_phases'', JStr ''NONE'')]"

definition build_aggregate :: "review_env \<Rightarrow> reviews \<Rightarrow> bool \<Rightarrow> bool \<Rightarrow> obj \<Rightarrow> obj list \<Rightarrow> obj res" where
  "build_aggregate E W current passed implementation_verdicts rows =
     bindR (mapR (digest E) [rw_implementation W, rw_cybersecurity W, rw_implementation_receipt W, rw_cybersecurity_receipt W]) (\<lambda>hashes.
     bindR (aggregate_name E hashes) (\<lambda>name.
     bindR (ditem (rw_implementation W) ''pack_zip_sha256'') (\<lambda>pack.
     bindR (aggregate_identity W current) (\<lambda>identity.
       Inr (aggregate_document E current passed rows pack identity name hashes
         (aggregate_verdicts implementation_verdicts current passed))))))"

definition aggregate_independent_reviews :: "review_env \<Rightarrow> reviews \<Rightarrow> obj res" where
  "aggregate_independent_reviews E W =
     (let current = is_current_config (rw_config W) in
      bindR (check_reviews E W) (\<lambda>_.
      bindR (check_receipts E W) (\<lambda>_.
      bindR (check_freshness W) (\<lambda>_.
      bindR (object_item (rw_implementation W) ''verdicts'') (\<lambda>implementation_verdicts.
      bindR (object_item (rw_cybersecurity W) ''verdicts'') (\<lambda>cybersecurity_verdicts.
      bindR (check_verdicts implementation_verdicts cybersecurity_verdicts current) (\<lambda>_.
      bindR (merged_findings (the_list (dget (rw_implementation W) ''findings'') @ the_list (dget (rw_cybersecurity W) ''findings''))) (\<lambda>rows.
      bindR (build_aggregate E W current (both_passed W implementation_verdicts cybersecurity_verdicts) implementation_verdicts rows) (\<lambda>aggregate.
      bindR (review_content_hash E aggregate) (\<lambda>h.
      (let aggregate = dput ''content_hash'' (JStr h) aggregate in
       bindR (raise_if (current \<and> \<not> rv_schema E ''review-result.schema.json'' ''DescendantAggregateReviewResult'' aggregate)
         (ValueError ''E_REVIEW_AUTH_SCHEMA'')) (\<lambda>_. Inr aggregate))))))))))))"

section \<open>Self reviews\<close>

definition SELF_REVIEW_FIELDS :: "string list" where
  "SELF_REVIEW_FIELDS = [''schema_version'', ''governed_content_root'', ''task_manifest_sha256'', ''checks'', ''test_exit_code'',
     ''test_output_sha256'', ''independent_plan_review'', ''runtime_implementation_ready'', ''authorized_production_phases'']"

definition build_plan_self_review :: "obj \<Rightarrow> obj res" where
  "build_plan_self_review r =
     bindR (raise_if (\<not> keys_eq r SELF_REVIEW_FIELDS \<or>
       list_ex (dhas r) [''zip_sha256'', ''zip'', ''sidecar'', ''manifest_sha256'', ''final_manifest_sha256''] \<or>
       \<not> str_is (dget r ''schema_version'') ''plan-self-review/v1'') (ValueError ''E_SELF_REVIEW_BINDING'')) (\<lambda>_.
     bindR (raise_if (\<not> py_eq (dget r ''test_exit_code'') (JInt 0) \<or> \<not> str_is (dget r ''independent_plan_review'') ''PENDING'' \<or>
       \<not> str_is (dget r ''runtime_implementation_ready'') ''NO'' \<or> \<not> str_is (dget r ''authorized_production_phases'') ''NONE'')
       (ValueError ''E_SELF_REVIEW_BINDING'')) (\<lambda>_. Inr r))"

end
