(* ===== verification/Review_Laws.thy ===== *)
theory Review_Laws
  imports Review_Aggregate
begin

text \<open>
  Laws of reviews: the signing and the verifying half of \<^verbatim>\<open>review_authorization.py\<close> fit together, and
  what an accepted receipt and a passed aggregation say of their documents.
\<close>

section \<open>Unpadded Base64 of any length\<close>

lemma a2b_urlsafe: "\<forall>b \<in> set bs. b < 256 \<Longrightarrow> a2b 0 l p (urlsafe_b64encode bs) = Some bs"
proof (induction bs arbitrary: l p rule: urlsafe_b64encode.induct)
  case (2 a)
  then have a: "a < 256" by simp
  then show ?case
    using b64_digits [OF a a a] b64_join [of a 0 0] by (simp only: urlsafe_b64encode.simps a2b_step) simp
next
  case (3 a b)
  then have ab: "a < 256" "b < 256" by auto
  note d = b64_digits [OF ab(1) ab(2) ab(2)]
  show ?case
    using b64_join [OF ab(1) ab(2) ab(2)] by (simp only: urlsafe_b64encode.simps a2b_step d) simp
next
  case (4 a b c bs)
  then have abc: "a < 256" "b < 256" "c < 256" and IH: "a2b 0 0 0 (urlsafe_b64encode bs) = Some bs" by auto
  show ?case
    by (simp only: urlsafe_b64encode.simps a2b_step b64_digits [OF abc] IH b64_join [OF abc] option.map)
qed simp

lemma urlsafe_pads:
  "\<forall>b \<in> set bs. b < 256 \<Longrightarrow> \<exists>k < 3. urlsafe_b64encode bs = token_urlsafe bs @ replicate k CHR ''=''"
  "\<forall>b \<in> set bs. b < 256 \<Longrightarrow> length (urlsafe_b64encode bs) mod 4 = 0"
  "\<forall>b \<in> set bs. b < 256 \<Longrightarrow> CHR ''='' \<notin> set (token_urlsafe bs)"
proof (induction bs rule: urlsafe_b64encode.induct)
  case 1
  { case 1 show ?case by (simp add: token_urlsafe_def rstrip_pad_def)
  next case 2 show ?case by simp
  next case 3 show ?case by (simp add: token_urlsafe_def rstrip_pad_def) }
next
  case (2 a)
  have t: "token_urlsafe [a] = [b64_char (a div 4), b64_char (a mod 4 * 16)]"
    and n: "b64_char (a div 4) \<noteq> CHR ''=''" "b64_char (a mod 4 * 16) \<noteq> CHR ''=''" if "a < 256"
    using b64_digits [OF that that that, THEN b64_char_not_pad] by (simp_all add: token_urlsafe_def rstrip_pad_def)
  { case 1 then show ?case using t by (intro exI [of _ 2]) (simp add: numeral_2_eq_2)
  next case 2 show ?case by simp
  next case 3 then show ?case using t n by simp }
next
  case (3 a b)
  have t: "token_urlsafe [a, b] = [b64_char (a div 4), b64_char (a mod 4 * 16 + b div 16), b64_char (b mod 16 * 4)]"
    and n: "b64_char (a div 4) \<noteq> CHR ''=''" "b64_char (a mod 4 * 16 + b div 16) \<noteq> CHR ''=''" "b64_char (b mod 16 * 4) \<noteq> CHR ''=''"
    if "a < 256" "b < 256"
    using b64_digits [OF that that(2), THEN b64_char_not_pad] by (simp_all add: token_urlsafe_def rstrip_pad_def)
  { case 1 then show ?case using t by (intro exI [of _ 1]) simp
  next case 2 show ?case by simp
  next case 3 then show ?case using t n by simp }
next
  case (4 a b c bs)
  have t: "token_urlsafe (a # b # c # bs) = b64_char (a div 4) # b64_char (a mod 4 * 16 + b div 16) #
      b64_char (b mod 16 * 4 + c div 64) # b64_char (c mod 64) # token_urlsafe bs"
    and n: "b64_char (a div 4) \<noteq> CHR ''=''" "b64_char (a mod 4 * 16 + b div 16) \<noteq> CHR ''=''"
      "b64_char (b mod 16 * 4 + c div 64) \<noteq> CHR ''=''" "b64_char (c mod 64) \<noteq> CHR ''=''"
    if "a < 256" "b < 256" "c < 256"
    using b64_digits [OF that, THEN b64_char_not_pad] by (simp_all add: token_urlsafe_def rstrip_pad_Cons)
  { case 1 then show ?case using t 4 by auto
  next case 2 then show ?case using 4 by auto
  next case 3 then show ?case using t n 4 by auto }
qed

lemma bytes_of_text: "map char_of (map of_char (s :: string) :: nat list) = s" "\<forall>b \<in> set (map of_char (s :: string) :: nat list). b < 256"
  by (auto simp: comp_def)

lemma pad_count:
  fixes n k :: nat
  assumes "k < 3" and "(n + k) mod 4 = 0"
  shows "(4 - n mod 4) mod 4 = k"
proof -
  have "(n mod 4 + k) mod 4 = 0" using assms(2) by (simp add: mod_add_left_eq)
  moreover have "n mod 4 \<in> {0, 1, 2, 3}" by auto
  moreover have "k = 0 \<or> k = 1 \<or> k = 2" using assms(1) by auto
  ultimately show ?thesis by (auto dest: dvd_imp_le)
qed

definition unpadded :: "string \<Rightarrow> string" where
  "unpadded s = rstrip_pad (urlsafe_b64encode (map of_char s))"

lemma b64decode_unpadded: "review_b64decode (JStr (unpadded s)) = Inr s"
proof -
  let ?bs = "map of_char s :: nat list"
  have bytes: "\<forall>b \<in> set ?bs. b < 256" using bytes_of_text(2) .
  have t: "unpadded s = token_urlsafe ?bs" by (simp add: unpadded_def token_urlsafe_def)
  obtain k where k: "k < 3" "urlsafe_b64encode ?bs = token_urlsafe ?bs @ replicate k CHR ''=''" using urlsafe_pads(1) [OF bytes] by blast
  have "(length (token_urlsafe ?bs) + k) mod 4 = 0" using urlsafe_pads(2) [OF bytes] k by simp
  with k(1) have pads: "(4 - length (token_urlsafe ?bs) mod 4) mod 4 = k" by (intro pad_count)
  have decoded: "urlsafe_b64decode (urlsafe_b64encode ?bs) = Inr ?bs"
    using encode_ascii [OF bytes] by (auto simp: urlsafe_b64decode_def list_ex_iff a2b_urlsafe [OF bytes] not_le)
  have "rstrip_pad (urlsafe_b64encode ?bs) = token_urlsafe ?bs" by (simp only: token_urlsafe_def)
  then show ?thesis
    unfolding t review_b64decode_def json.case pads k(2) [symmetric] decoded
    using urlsafe_pads(3) [OF bytes] by (simp only: sum.case if_False bytes_of_text(1) simp_thms)
qed

section \<open>What is signed verifies\<close>

lemma projection_dput: "k \<in> set excluded \<Longrightarrow> projection E (dput k x v) excluded = projection E v excluded"
proof -
  assume k: "k \<in> set excluded"
  have "filter (\<lambda>(k', _). k' \<notin> set excluded) (dput k x v) = filter (\<lambda>(k', _). k' \<notin> set excluded) v"
    using k by (induction k x v rule: dput.induct) auto
  then show ?thesis by (simp only: projection_def)
qed

lemma review_identifier_dput:
  "k = ''signature'' \<or> k = derived \<Longrightarrow> review_identifier E (dput k x v) prefix tag derived = review_identifier E v prefix tag derived"
  by (auto simp: review_identifier_def projection_dput)

text \<open>The private key of \<open>sk_public\<close>: Ed25519 signatures have 64 bytes and verify under their public key.\<close>

definition genuine_key :: "review_env \<Rightarrow> signing_key \<Rightarrow> bool" where
  "genuine_key E sk \<longleftrightarrow> (\<forall>m. length (sk_sign sk m) = 64 \<and> rv_ed25519 E (sk_public sk) (sk_sign sk m) m)"

lemma sign_document_Inr:
  assumes "sign_document E sk derived prefix id_domain sign_domain document = Inr v"
    and "derived \<noteq> ''signature''" "derived \<noteq> ''issuer_key_id''"
  obtains i p where "review_identifier E v prefix id_domain derived = Inr i" "dget v derived = JStr i"
    "dget v ''issuer_key_id'' = JStr (key_id E (sk_public sk))" "projection E v [''signature''] = Inr p"
    "dget v ''signature'' = JStr (unpadded (sk_sign sk (sign_domain @ p)))"
proof -
  let ?u = "dput ''issuer_key_id'' (JStr (key_id E (sk_public sk))) (ddel ''signature'' (ddel derived document))"
  from assms(1) obtain i p where i: "review_identifier E ?u prefix id_domain derived = Inr i"
    and p: "projection E (dput derived (JStr i) ?u) [''signature''] = Inr p"
    and v: "v = dput ''signature'' (JStr (unpadded (sk_sign sk (sign_domain @ p)))) (dput derived (JStr i) ?u)"
    unfolding sign_document_def Let_def unpadded_def by auto
  show thesis
  proof (rule that)
    show "review_identifier E v prefix id_domain derived = Inr i" using i v by (simp add: review_identifier_dput)
    show "projection E v [''signature''] = Inr p" using p v by (simp add: projection_dput)
  qed (use assms(2, 3) v in \<open>simp_all add: dget_dput\<close>)
qed

lemma signature_verifies:
  assumes "genuine_key E sk" "projection E v [''signature''] = Inr p" "dget v ''signature'' = JStr (unpadded (sk_sign sk (tag @ p)))"
  shows "review_verify_signature E v (sk_public sk) tag = Inr ()"
  using assms by (simp add: review_verify_signature_def b64decode_unpadded genuine_key_def)

section \<open>Accepted documents\<close>

text \<open>The document carries a signature of its canonical bytes under the given domain.\<close>

definition signed_by :: "review_env \<Rightarrow> string \<Rightarrow> string \<Rightarrow> obj \<Rightarrow> bool" where
  "signed_by E public_key tag v \<longleftrightarrow> (\<exists>signature p. review_b64decode (dget v ''signature'') = Inr signature \<and> length signature = 64 \<and>
     projection E v [''signature''] = Inr p \<and> rv_ed25519 E public_key signature (tag @ p))"

lemma review_signature_Inr: "review_verify_signature E v public_key tag = Inr u \<longleftrightarrow> signed_by E public_key tag v"
  by (auto simp: review_verify_signature_def signed_by_def)

lemma review_instant_item_Inr: "review_instant_item d k e = Inr t \<Longrightarrow> review_instant (dget d k) e = Inr t"
  by (auto simp: review_instant_item_def ditem_eq_Inr dget_def)

lemma launch_binding_Inr:
  assumes "launch_binding E a public_key = Inr i"
  shows "signed_by E public_key LAUNCH_SIGN_DOMAIN a" "str_is (dget a ''authorization_id'') i"
  using assms by (auto simp: launch_binding_def review_signature_Inr)

lemma receipt_binding_Inr:
  assumes "receipt_binding E receipt a public_key = Inr i"
  shows "signed_by E public_key RECEIPT_SIGN_DOMAIN receipt" "str_is (dget receipt ''receipt_id'') i"
  using assms by (auto simp: receipt_binding_def review_signature_Inr res_elims)

text \<open>The authorization is in its window of exactly four hours.\<close>

lemma launch_authorization_Inr:
  assumes "verify_review_launch_authorization E a public_key x now = Inr i"
  obtains issued not_before expires where "signed_by E public_key LAUNCH_SIGN_DOMAIN a"
    "review_instant (dget a ''issued_at'') ''E_REVIEW_AUTH_EXPIRY'' = Inr issued"
    "review_instant (dget a ''expires_at'') ''E_REVIEW_AUTH_EXPIRY'' = Inr expires"
    "issued \<le> not_before" "not_before \<le> now" "now < expires" "expires = issued + MAXIMUM_DURATION"
proof -
  from assms obtain i' issued not_before expires u where
    c: "launch_binding E a public_key = Inr i'"
      "review_instant_item a ''issued_at'' ''E_REVIEW_AUTH_EXPIRY'' = Inr issued"
      "review_instant_item a ''expires_at'' ''E_REVIEW_AUTH_EXPIRY'' = Inr expires"
      "raise_if (launch_terms_invalid a x issued not_before expires now) (ValueError ''E_REVIEW_AUTH_BINDING'') = Inr u"
    unfolding verify_review_launch_authorization_def by (elim bindR_E) (rule that)
  from c(4) have "\<not> launch_window_invalid issued not_before expires now" by (simp add: launch_terms_invalid_def)
  then show thesis
    using that [of issued expires not_before] c(1-3) launch_binding_Inr(1) [OF c(1)] review_instant_item_Inr
    by (simp add: launch_window_invalid_def)
qed

definition RECEIPT_COPIES :: "string list" where
  "RECEIPT_COPIES = [''authorization_id'', ''review_role'', ''review_run_id'', ''workspace_root'', ''host_boot_id'', ''trust_epoch'']"

lemma differs_item_False: "differs (Inr v) (ditem d k) = Inr False \<Longrightarrow> py_eq v (dget d k)"
  by (auto simp: differs_False ditem_eq_Inr dget_def)

lemma receipt_terms_False:
  assumes "receipt_terms_invalid receipt a roots h bad = Inr False"
  shows "\<forall>k \<in> set RECEIPT_COPIES. py_eq (dget receipt k) (dget a k)" "py_eq (dget receipt ''result_sha256'') h"
    "py_eq (dget receipt ''input_content_roots'') (JArr roots)" "\<not> bad"
  using assms by (auto simp: receipt_terms_invalid_def RECEIPT_COPIES_def anyR_eq_False dest: differs_item_False)

lemma execution_receipt_Inr:
  assumes "verify_review_execution_receipt E receipt a public_key h boot epoch now = Inr i"
  obtains x j roots consumed started finished expires where
    "verify_review_launch_authorization E a public_key x now = Inr j"
    "signed_by E public_key RECEIPT_SIGN_DOMAIN receipt"
    "mount_roots a = Inr roots"
    "receipt_terms_invalid receipt a roots h (run_window_invalid consumed started finished expires now) = Inr False"
    "review_instant (dget receipt ''authorization_consumed_at'') ''E_REVIEW_RECEIPT_FRESHNESS'' = Inr consumed"
    "review_instant (dget receipt ''started_at'') ''E_REVIEW_RECEIPT_FRESHNESS'' = Inr started"
    "review_instant (dget receipt ''finished_at'') ''E_REVIEW_RECEIPT_FRESHNESS'' = Inr finished"
    "review_instant (dget a ''expires_at'') ''E_REVIEW_RECEIPT_FRESHNESS'' = Inr expires"
proof -
  from assms obtain x j i' roots consumed started finished expires u where
    c: "verify_review_launch_authorization E a public_key x now = Inr j"
      "receipt_binding E receipt a public_key = Inr i'" "mount_roots a = Inr roots"
      "review_instant_item receipt ''started_at'' ''E_REVIEW_RECEIPT_FRESHNESS'' = Inr started"
      "review_instant_item receipt ''finished_at'' ''E_REVIEW_RECEIPT_FRESHNESS'' = Inr finished"
      "review_instant_item receipt ''authorization_consumed_at'' ''E_REVIEW_RECEIPT_FRESHNESS'' = Inr consumed"
      "review_instant_item a ''expires_at'' ''E_REVIEW_RECEIPT_FRESHNESS'' = Inr expires"
      "refuse_if (receipt_terms_invalid receipt a roots h (run_window_invalid consumed started finished expires now))
        ''E_REVIEW_RECEIPT_BINDING'' = Inr u"
    unfolding verify_review_execution_receipt_def by (elim bindR_E) (rule that)
  show thesis
    by (rule that [OF c(1) receipt_binding_Inr(1) [OF c(2)] c(3) c(8) [unfolded refuse_if_Inr]
      c(6) [THEN review_instant_item_Inr] c(4) [THEN review_instant_item_Inr] c(5) [THEN review_instant_item_Inr]
      c(7) [THEN review_instant_item_Inr]])
qed

text \<open>The error code does not influence the instant.\<close>

lemma review_instant_code: "review_instant v e = Inr t \<longleftrightarrow> review_instant v e' = Inr t"
  by (auto simp: review_instant_def split: sum.splits prod.splits option.splits if_splits)

section \<open>Aggregates\<close>

lemma merged_findings_Inr:
  assumes "merged_findings (map JObj fs) = Inr rows"
  shows "mset rows = mset fs" "sorted (map finding_key rows)" "distinct (map finding_id rows)"
proof -
  have the: "map the_dict (map JObj fs) = fs" by (induction fs) simp_all
  have "list_all is_dict (map JObj fs)" by (induction fs) simp_all
  then have r: "rows = sort_key finding_key fs" and d: "distinct (map finding_id fs)"
    using assms unfolding merged_findings_def the Let_def by (simp_all split: if_splits)
  show m: "mset rows = mset fs" and "sorted (map finding_key rows)" using r by simp_all
  from m have "mset (map finding_id rows) = mset (map finding_id fs)" by simp
  then show "distinct (map finding_id rows)" using d mset_eq_imp_distinct_iff by blast
qed

lemma all_dicts: "list_all is_dict xs \<Longrightarrow> map JObj (map the_dict xs) = xs"
proof (induction xs)
  case (Cons x xs)
  then show ?case by (cases x) simp_all
qed simp

lemma merged_findings_dicts: "merged_findings xs = Inr rows \<Longrightarrow> map JObj (map the_dict xs) = xs"
proof -
  assume "merged_findings xs = Inr rows"
  then have "list_all is_dict xs" unfolding merged_findings_def by (rule contrapos_pp) simp
  then show ?thesis by (rule all_dicts)
qed

lemma aggregate_identity_keys:
  assumes "aggregate_identity W current = Inr d"
  shows "dget d ''verdicts'' = JNull" "dget d ''authorized_production_phases'' = JNull"
    "map_of d ''verdicts'' = None" "map_of d ''authorized_production_phases'' = None"
  using assms by (auto simp: aggregate_identity_def review_identity_def DESCENDANT_IDENTITY_FIELDS_def split: if_splits)

lemma dget_append: "dget (d @ d') k = (case map_of d k of None \<Rightarrow> dget d' k | Some v \<Rightarrow> v)"
  by (simp add: dget_def map_add_def split: option.splits)

lemma build_aggregate_Inr:
  assumes "build_aggregate E W current passed verdicts rows = Inr d"
  shows "dget d ''review_outcome'' = JStr (if passed then ''PASS'' else ''HOLD'')" "dget d ''findings'' = JArr (map JObj rows)"
    "dget d ''authorized_production_phases'' = JStr ''NONE''" "dget d ''verdicts'' = JObj (aggregate_verdicts verdicts current passed)"
proof -
  from assms obtain hashes name pack identity where i: "aggregate_identity W current = Inr identity"
    and "Inr (aggregate_document E current passed rows pack identity name hashes (aggregate_verdicts verdicts current passed)) = (Inr d :: obj res)"
    unfolding build_aggregate_def by (elim bindR_E) (rule that)
  then have d: "d = aggregate_document E current passed rows pack identity name hashes (aggregate_verdicts verdicts current passed)"
    by simp
  note k = aggregate_identity_keys [OF i]
  show "dget d ''review_outcome'' = JStr (if passed then ''PASS'' else ''HOLD'')" "dget d ''findings'' = JArr (map JObj rows)"
    "dget d ''authorized_production_phases'' = JStr ''NONE''" "dget d ''verdicts'' = JObj (aggregate_verdicts verdicts current passed)"
    using k by (simp_all add: dget_append d aggregate_document_def)
qed

lemma aggregate_Inr:
  assumes "aggregate_independent_reviews E W = Inr result"
  obtains iv cv rows where "check_reviews E W = Inr ()" "check_receipts E W = Inr ()" "check_freshness W = Inr ()"
    "dget (rw_implementation W) ''verdicts'' = JObj iv" "dget (rw_cybersecurity W) ''verdicts'' = JObj cv"
    "check_verdicts iv cv (is_current_config (rw_config W)) = Inr ()"
    "merged_findings (the_list (dget (rw_implementation W) ''findings'') @ the_list (dget (rw_cybersecurity W) ''findings'')) = Inr rows"
    "dget result ''review_outcome'' = JStr (if both_passed W iv cv then ''PASS'' else ''HOLD'')"
    "dget result ''findings'' = JArr (map JObj rows)"
    "dget result ''authorized_production_phases'' = JStr ''NONE''"
    "dget result ''verdicts'' = JObj (aggregate_verdicts iv (is_current_config (rw_config W)) (both_passed W iv cv))"
proof -
  from assms obtain u1 u2 u3 iv cv u4 rows d h u5 where
    c: "check_reviews E W = Inr u1" "check_receipts E W = Inr u2" "check_freshness W = Inr u3"
      "object_item (rw_implementation W) ''verdicts'' = Inr iv" "object_item (rw_cybersecurity W) ''verdicts'' = Inr cv"
      "check_verdicts iv cv (is_current_config (rw_config W)) = Inr u4"
      "merged_findings (the_list (dget (rw_implementation W) ''findings'') @ the_list (dget (rw_cybersecurity W) ''findings'')) = Inr rows"
      "build_aggregate E W (is_current_config (rw_config W)) (both_passed W iv cv) iv rows = Inr d"
    and r: "Inr (dput ''content_hash'' (JStr h) d) = (Inr result :: obj res)"
    unfolding aggregate_independent_reviews_def Let_def by (elim bindR_E) (rule that)
  have result: "result = dput ''content_hash'' (JStr h) d" using r by simp
  show thesis
    by (rule that [OF _ _ _ c(4) [unfolded object_item_Inr] c(5) [unfolded object_item_Inr] _ c(7)])
      (use c(1-3, 6) build_aggregate_Inr [OF c(8)] in \<open>simp_all add: result dget_dput\<close>)
qed

lemma equals_False: "equals a b k = Inr False \<Longrightarrow> \<not> py_eq (dget a k) (dget b k)"
  by (auto simp: equals_def differs_def ditem_eq_Inr dget_def)

lemma check_receipts_Inr:
  assumes "check_receipts E W = Inr ()"
  obtains i j where
    "verify_receipt E W (rw_implementation_receipt W) (rw_implementation_authorization W) (rw_implementation W) = Inr i"
    "verify_receipt E W (rw_cybersecurity_receipt W) (rw_cybersecurity_authorization W) (rw_cybersecurity W) = Inr j"
    "complete_receipt (rw_implementation_receipt W) IMPLEMENTATION_ROLE = Inr ()"
    "complete_receipt (rw_cybersecurity_receipt W) SECURITY_ROLE = Inr ()"
    "not_independent W = Inr False"
proof -
  from assms obtain i j u v w where
    c: "verify_receipt E W (rw_implementation_receipt W) (rw_implementation_authorization W) (rw_implementation W) = Inr i"
    "verify_receipt E W (rw_cybersecurity_receipt W) (rw_cybersecurity_authorization W) (rw_cybersecurity W) = Inr j"
    "complete_receipt (rw_implementation_receipt W) IMPLEMENTATION_ROLE = Inr u"
    "complete_receipt (rw_cybersecurity_receipt W) SECURITY_ROLE = Inr v"
    "refuse_if (not_independent W) ''E_REVIEW_INDEPENDENCE'' = Inr w"
    unfolding check_receipts_def by (elim bindR_E) (rule that)
  show thesis by (rule that [OF c(1, 2)]) (use c(3-5) in \<open>simp_all add: refuse_if_Inr\<close>)
qed

lemma independent:
  assumes "not_independent W = Inr False"
  shows "\<forall>k \<in> {''workspace_root'', ''authorization_id'', ''review_run_id''}.
      \<not> py_eq (dget (rw_implementation_receipt W) k) (dget (rw_cybersecurity_receipt W) k)"
    "\<forall>k \<in> {''one_use_serial'', ''allowed_output_root''}.
      \<not> py_eq (dget (rw_implementation_authorization W) k) (dget (rw_cybersecurity_authorization W) k)"
  using assms by (auto simp: not_independent_def anyR_eq_False dest: equals_False)

end
