(* ===== verification/Review_Props.thy ===== *)
theory Review_Props
  imports Review_Laws Review_Aggregate
begin

text \<open>
  Properties of the review authorizations, the execution receipts and the aggregation: signing and
  verification fit together, an accepted receipt is bound to its authorization and its window, and a passed
  aggregate rests on two independent passed reviews.
\<close>

text \<open>
  Two concrete reviews with their authorizations and receipts, for the witnesses of the review properties.
  The imported functions are stand-ins: canonical bytes are the role a document names, the hash tells the two
  roles apart, and one key signs everything with 64 zero bytes.
\<close>

definition role_bytes :: "json \<Rightarrow> string res" where
  "role_bytes v = Inr (py_str (dget (the_dict v) ''review_role''))"

definition role_hash :: "string \<Rightarrow> string" where
  "role_hash s = replicate 64 (if is_substring ''CYBER'' s then CHR ''1'' else CHR ''0'')"

definition demo_reviewing :: review_env where
  "demo_reviewing = \<lparr>rv_codec = \<lparr>json_loads = (\<lambda>_. None), nfc = (\<lambda>s. s), sha256 = role_hash, jcs = role_bytes\<rparr>,
     rv_schema = (\<lambda>_ _ _. True), rv_ed25519 = (\<lambda>_ s _. s = replicate 64 CHR 0x00), rv_uuid5 = (\<lambda>s. s)\<rparr>"

definition demo_signing_key :: signing_key where
  "demo_signing_key = \<lparr>sk_public = ''k'', sk_sign = (\<lambda>_. replicate 64 CHR 0x00)\<rparr>"

definition text_entries :: "(string \<times> string) list \<Rightarrow> obj" where
  "text_entries = map (\<lambda>(k, s). (k, JStr s))"

definition signature_64 :: json where
  "signature_64 = JStr (replicate 86 CHR ''A'')"

definition demo_mount :: "string \<Rightarrow> json" where
  "demo_mount n = JObj (text_entries [(''mode'', ''READ_ONLY''), (''source_root'', n), (''workspace_mount'', n),
     (''content_root_sha256'', role_hash [])])"

definition demo_launch :: "string \<Rightarrow> string \<Rightarrow> obj" where
  "demo_launch role n = text_entries
     [(''schema_version'', ''review-launch-authorization/v1''), (''review_role'', role), (''review_run_id'', ''run'' @ n),
      (''workspace_root'', ''/w'' @ n), (''pack_zip_sha256'', ''p''), (''repo0_receipt_sha256'', ''r''),
      (''issued_at'', ''2026-01-01T08:00:00+00:00''), (''not_before'', ''2026-01-01T08:00:00+00:00''),
      (''expires_at'', ''2026-01-01T12:00:00+00:00''), (''production_authority'', ''NONE''),
      (''issuer_role'', ''HOST_REVIEW_AUTHORITY''), (''audience'', ''hybrid-discovery:independent-review-launcher:v1''),
      (''signature_algorithm'', ''Ed25519''), (''host_boot_id'', ''b''), (''one_use_serial'', ''s'' @ n),
      (''allowed_output_root'', ''/o'' @ n), (''issuer_key_id'', ''key:ed25519:'' @ role_hash ''k''),
      (''authorization_id'', ''REVIEW-LAUNCH:'' @ role_hash role)] @
     [(''fresh_session_required'', JBool True), (''maximum_duration_seconds'', JInt 14400), (''trust_epoch'', JInt 1),
      (''input_mounts'', JArr (map demo_mount [''/1'', ''/2'', ''/3'', ''/4'', ''/5''])), (''signature'', signature_64)]"

definition demo_receipt :: "string \<Rightarrow> string \<Rightarrow> obj" where
  "demo_receipt role n = text_entries
     [(''schema_version'', ''review-execution-receipt/v1''), (''review_role'', role), (''review_run_id'', ''run'' @ n),
      (''workspace_root'', ''/w'' @ n), (''authorization_id'', ''REVIEW-LAUNCH:'' @ role_hash role),
      (''receipt_id'', ''REVIEW-RECEIPT:'' @ role_hash role), (''issuer_key_id'', ''key:ed25519:'' @ role_hash ''k''),
      (''issuer_role'', ''HOST_REVIEW_AUTHORITY''), (''result_sha256'', role_hash role), (''production_authority'', ''NONE''),
      (''signature_algorithm'', ''Ed25519''), (''host_boot_id'', ''b''), (''commands_executed_root'', ''c''),
      (''preparation_commands_root'', ''c''), (''authorization_consumed_at'', ''2026-01-01T09:00:00+00:00''),
      (''started_at'', ''2026-01-01T09:00:00+00:00''), (''finished_at'', ''2026-01-01T10:00:00+00:00'')] @
     [(''trust_epoch'', JInt 1), (''input_content_roots'', JArr (replicate 5 (JStr (role_hash [])))),
      (''unexpected_changed_paths'', JArr []), (''allowed_changed_paths'', JArr [JStr ''out'']),
      (''fresh_session_attestation'', JObj [(''attestation_type'', JStr ''HUMAN_FRESH_CODEX_SESSION''), (''attested'', JBool True),
         (''procedural_not_cryptographic'', JBool True)]), (''signature'', signature_64)]"

definition demo_finding :: "string \<Rightarrow> string \<Rightarrow> json" where
  "demo_finding i severity = JObj [(''finding_id'', JStr i), (''severity'', JStr severity), (''blocking'', JBool False)]"

definition demo_review :: "string \<Rightarrow> string \<Rightarrow> json list \<Rightarrow> (string \<times> string) list \<Rightarrow> obj" where
  "demo_review role n findings verdicts = text_entries
     [(''schema_version'', ''independent-review-result/v1''), (''review_role'', role), (''review_run_id'', ''run'' @ n),
      (''pack_zip_sha256'', ''p''), (''repo0_receipt_sha256'', ''r''), (''authorized_production_phases'', ''NONE''),
      (''review_outcome'', ''PASS''), (''content_hash'', role_hash role)] @
     [(''findings'', JArr findings), (''verdicts'', JObj (text_entries ((''AUTHORIZED_PRODUCTION_PHASES'', ''NONE'') # verdicts)))]"

definition demo_reviews :: reviews where
  "demo_reviews = \<lparr>rw_implementation = demo_review IMPLEMENTATION_ROLE ''1'' [demo_finding ''f1'' ''MINOR'']
       (map (\<lambda>k. (k, ''YES'')) (''READY_TO_IMPLEMENT_DISCOVERY_PACK'' # IMPLEMENTATION_FLAGS)),
     rw_cybersecurity = demo_review SECURITY_ROLE ''2'' [demo_finding ''f2'' ''CRITICAL''] (map (\<lambda>k. (k, ''YES'')) SECURITY_FLAGS),
     rw_implementation_receipt = demo_receipt IMPLEMENTATION_ROLE ''1'', rw_cybersecurity_receipt = demo_receipt SECURITY_ROLE ''2'',
     rw_implementation_authorization = demo_launch IMPLEMENTATION_ROLE ''1'',
     rw_cybersecurity_authorization = demo_launch SECURITY_ROLE ''2'', rw_public_key = ''k'',
     rw_config = [(''authorized_production_phases'', JStr ''NONE''), (''maximum_aggregate_delay_seconds'', JInt 3600)],
     rw_boot = JStr ''b'', rw_epoch = JInt 1, rw_now = 63902944800000000, rw_seal = None\<rparr>"

text \<open>The signature and the times are decoded once; the results serve as code equations below.\<close>

lemma signature_64_decodes: "review_b64decode signature_64 = Inr (replicate 64 CHR 0x00)"
  by code_simp

lemma review_times:
  "review_instant (JStr ''2026-01-01T08:00:00+00:00'') e = Inr 63902937600000000"
  "review_instant (JStr ''2026-01-01T09:00:00+00:00'') e = Inr 63902941200000000"
  "review_instant (JStr ''2026-01-01T10:00:00+00:00'') e = Inr 63902944800000000"
  "review_instant (JStr ''2026-01-01T12:00:00+00:00'') e = Inr 63902952000000000"
  by code_simp+

definition demo_times :: "(json \<times> int) list" where
  "demo_times = [(JStr ''2026-01-01T08:00:00+00:00'', 63902937600000000), (JStr ''2026-01-01T09:00:00+00:00'', 63902941200000000),
     (JStr ''2026-01-01T10:00:00+00:00'', 63902944800000000), (JStr ''2026-01-01T12:00:00+00:00'', 63902952000000000)]"

lemma review_instant_once [code]:
  "review_instant v error = (case map_of demo_times v of Some t \<Rightarrow> Inr t
     | None \<Rightarrow> (case fromisoformat (py_str v) of
         Inl e \<Rightarrow> Inl (if value_error_text e \<noteq> None then ValueError error else e)
       | Inr (t, None) \<Rightarrow> Inl (ValueError error)
       | Inr (t, Some z) \<Rightarrow> if t - z < FIRST_TIME \<or> t - z > LAST_TIME then Inl OverflowError else Inr (t - z)))"
proof (cases "map_of demo_times v")
  case None
  then show ?thesis by (simp only: option.case review_instant_def)
next
  case (Some t)
  then have "review_instant v error = Inr t"
    using review_times by (auto simp: demo_times_def split: if_splits)
  with Some show ?thesis by (simp only: option.case)
qed

lemma review_b64decode_once [code]:
  "review_b64decode v = (if v = signature_64 then Inr (replicate 64 CHR 0x00) else case v of
      JStr s \<Rightarrow>
        if CHR ''='' \<in> set s then Inl BAD_SIGNATURE
        else (case urlsafe_b64decode (s @ replicate ((4 - length s mod 4) mod 4) CHR ''='') of
            Inl _ \<Rightarrow> Inl BAD_SIGNATURE
          | Inr decoded \<Rightarrow>
              if rstrip_pad (urlsafe_b64encode decoded) \<noteq> s then Inl BAD_SIGNATURE else Inr (map char_of decoded))
    | _ \<Rightarrow> Inl BAD_SIGNATURE)"
  using signature_64_decodes by (cases "v = signature_64") (simp, simp only: if_False review_b64decode_def)

lemma demo_check_reviews: "check_reviews demo_reviewing demo_reviews = Inr ()"
  by code_simp

lemma demo_implementation_receipt:
  "verify_receipt demo_reviewing demo_reviews (rw_implementation_receipt demo_reviews) (rw_implementation_authorization demo_reviews)
     (rw_implementation demo_reviews) = Inr (''REVIEW-RECEIPT:'' @ role_hash [])"
  by code_simp

lemma demo_cybersecurity_receipt:
  "verify_receipt demo_reviewing demo_reviews (rw_cybersecurity_receipt demo_reviews) (rw_cybersecurity_authorization demo_reviews)
     (rw_cybersecurity demo_reviews) = Inr (''REVIEW-RECEIPT:'' @ role_hash ''CYBER'')"
  by code_simp

lemma demo_rest_of_receipts:
  "bindR (complete_receipt (rw_implementation_receipt demo_reviews) IMPLEMENTATION_ROLE) (\<lambda>_.
   bindR (complete_receipt (rw_cybersecurity_receipt demo_reviews) SECURITY_ROLE) (\<lambda>_.
   bindR (refuse_if (not_independent demo_reviews) ''E_REVIEW_INDEPENDENCE'') (\<lambda>_.
     refuse_if (orR
       (differs (ditem (rw_implementation_receipt demo_reviews) ''result_sha256'')
         (bindR (digest demo_reviewing (rw_implementation demo_reviews)) (\<lambda>h. Inr (JStr h))))
       (differs (ditem (rw_cybersecurity_receipt demo_reviews) ''result_sha256'')
         (bindR (digest demo_reviewing (rw_cybersecurity demo_reviews)) (\<lambda>h. Inr (JStr h)))))
       ''E_REVIEW_RECEIPT''))) = Inr ()"
  by code_simp

lemma demo_check_receipts: "check_receipts demo_reviewing demo_reviews = Inr ()"
  unfolding check_receipts_def demo_implementation_receipt demo_cybersecurity_receipt bindR_simps
  by (rule demo_rest_of_receipts)

definition demo_verdicts :: "string list \<Rightarrow> obj" where
  "demo_verdicts flags = text_entries ((''AUTHORIZED_PRODUCTION_PHASES'', ''NONE'') # map (\<lambda>k. (k, ''YES'')) flags)"

definition demo_rows :: "obj list" where
  "demo_rows = [the_dict (demo_finding ''f2'' ''CRITICAL''), the_dict (demo_finding ''f1'' ''MINOR'')]"

lemma demo_check_freshness: "check_freshness demo_reviews = Inr ()"
  by code_simp

lemma demo_implementation_verdicts: "object_item (rw_implementation demo_reviews) ''verdicts'' =
    Inr (demo_verdicts (''READY_TO_IMPLEMENT_DISCOVERY_PACK'' # IMPLEMENTATION_FLAGS))"
  by code_simp

lemma demo_cybersecurity_verdicts: "object_item (rw_cybersecurity demo_reviews) ''verdicts'' = Inr (demo_verdicts SECURITY_FLAGS)"
  by code_simp

lemma demo_check_verdicts:
  "check_verdicts (demo_verdicts (''READY_TO_IMPLEMENT_DISCOVERY_PACK'' # IMPLEMENTATION_FLAGS)) (demo_verdicts SECURITY_FLAGS) False = Inr ()"
  by code_simp

lemma demo_merged_findings:
  "merged_findings (the_list (dget (rw_implementation demo_reviews) ''findings'') @ the_list (dget (rw_cybersecurity demo_reviews) ''findings'')) =
     Inr demo_rows"
  by code_simp

lemma demo_both_passed:
  "both_passed demo_reviews (demo_verdicts (''READY_TO_IMPLEMENT_DISCOVERY_PACK'' # IMPLEMENTATION_FLAGS)) (demo_verdicts SECURITY_FLAGS) = True"
  by code_simp

definition demo_aggregate :: obj where
  "demo_aggregate = (let verdicts = demo_verdicts (''READY_TO_IMPLEMENT_DISCOVERY_PACK'' # IMPLEMENTATION_FLAGS);
       h = role_hash [] in
     aggregate_document demo_reviewing False True demo_rows (JStr ''p'') [(''repo0_receipt_sha256'', JStr ''r'')] h
       [h, role_hash ''CYBER'', h, role_hash ''CYBER''] (aggregate_verdicts verdicts False True))"

lemma demo_build_aggregate:
  "build_aggregate demo_reviewing demo_reviews False True
     (demo_verdicts (''READY_TO_IMPLEMENT_DISCOVERY_PACK'' # IMPLEMENTATION_FLAGS)) demo_rows = Inr demo_aggregate"
  by code_simp

lemma demo_aggregate_hash: "review_content_hash demo_reviewing demo_aggregate = Inr (role_hash [])"
  by code_simp

lemma demo_config: "is_current_config (rw_config demo_reviews) = False"
  by code_simp

lemma demo_aggregation:
  "aggregate_independent_reviews demo_reviewing demo_reviews = Inr (dput ''content_hash'' (JStr (role_hash [])) demo_aggregate)"
  unfolding aggregate_independent_reviews_def Let_def demo_config demo_check_reviews demo_check_receipts demo_check_freshness
    demo_implementation_verdicts demo_cybersecurity_verdicts demo_check_verdicts demo_merged_findings demo_both_passed
    demo_build_aggregate demo_aggregate_hash bindR_simps
  by (simp only: simp_thms raise_if_simps bindR_simps)

lemma demo_outcome: "dget (dput ''content_hash'' (JStr (role_hash [])) demo_aggregate) ''review_outcome'' = JStr ''PASS''"
  by code_simp

lemma demo_findings:
  "dget (rw_implementation demo_reviews) ''findings'' = JArr [demo_finding ''f1'' ''MINOR'']"
  "dget (rw_cybersecurity demo_reviews) ''findings'' = JArr [demo_finding ''f2'' ''CRITICAL'']"
  by code_simp+

text \<open>C22: What the host signs verifies. An authorization and a receipt signed with a key whose signatures are
  genuine Ed25519 signatures carry the identifier derived from their content, name the key, and pass the
  verification of identifier, issuer and signature: the unpadded Base64 text decodes to the signature, and the
  bytes that were signed are the bytes the verifier hashes.\<close>

theorem signed_documents_verify:
  assumes "genuine_key E sk"
    and "sign_review_launch_authorization E a sk = Inr v"
    and "sign_review_execution_receipt E r sk = Inr w"
  shows "launch_binding E v (sk_public sk) = Inr (the_str (dget v ''authorization_id'')) \<and>
    receipt_binding E w v (sk_public sk) = Inr (the_str (dget w ''receipt_id''))"
proof -
  obtain i p where v: "review_identifier E v ''REVIEW-LAUNCH:'' LAUNCH_ID_DOMAIN ''authorization_id'' = Inr i"
    "dget v ''authorization_id'' = JStr i" "dget v ''issuer_key_id'' = JStr (key_id E (sk_public sk))"
    "projection E v [''signature''] = Inr p" "dget v ''signature'' = JStr (unpadded (sk_sign sk (LAUNCH_SIGN_DOMAIN @ p)))"
    using assms(2) unfolding sign_review_launch_authorization_def by (rule sign_document_Inr) simp_all
  obtain j q where w: "review_identifier E w ''REVIEW-RECEIPT:'' RECEIPT_ID_DOMAIN ''receipt_id'' = Inr j"
    "dget w ''receipt_id'' = JStr j" "dget w ''issuer_key_id'' = JStr (key_id E (sk_public sk))"
    "projection E w [''signature''] = Inr q" "dget w ''signature'' = JStr (unpadded (sk_sign sk (RECEIPT_SIGN_DOMAIN @ q)))"
    using assms(3) unfolding sign_review_execution_receipt_def by (rule sign_document_Inr) simp_all
  have "ditem v ''issuer_key_id'' = Inr (JStr (key_id E (sk_public sk)))"
    using v(3) by (auto simp: ditem_def dget_def split: option.splits)
  then show ?thesis
    using v(1-3) w(1-3) signature_verifies [OF assms(1) v(4, 5)] signature_verifies [OF assms(1) w(4, 5)]
    by (simp add: launch_binding_def receipt_binding_def refuse_if_def differs_def)
qed

text \<open>C23: An accepted execution receipt is bound to its launch authorization. Both are signed under the key,
  each in its own domain; the receipt repeats role, run, workspace, boot and trust epoch of the authorization and
  its identifier, and names the hash of the result and the content roots of the mounts; the authorization expires
  exactly four hours after it was issued and has not expired now; and by the times that the receipt states, the review
  started after the authorization was consumed, finished before it expired and before now, and took at most four
  hours. The program does not compare these times with the time of issue.\<close>

theorem accepted_receipt_is_bound:
  assumes "verify_review_execution_receipt E receipt a public_key h boot epoch now = Inr i"
  shows "signed_by E public_key LAUNCH_SIGN_DOMAIN a \<and> signed_by E public_key RECEIPT_SIGN_DOMAIN receipt \<and>
    (\<forall>k \<in> set RECEIPT_COPIES. py_eq (dget receipt k) (dget a k)) \<and> py_eq (dget receipt ''result_sha256'') h \<and>
    (\<exists>roots. mount_roots a = Inr roots \<and> py_eq (dget receipt ''input_content_roots'') (JArr roots)) \<and>
    (\<exists>issued consumed started finished expires.
      review_instant (dget a ''issued_at'') ''E_REVIEW_AUTH_EXPIRY'' = Inr issued \<and>
      review_instant (dget a ''expires_at'') ''E_REVIEW_AUTH_EXPIRY'' = Inr expires \<and>
      review_instant (dget receipt ''authorization_consumed_at'') ''E_REVIEW_RECEIPT_FRESHNESS'' = Inr consumed \<and>
      review_instant (dget receipt ''started_at'') ''E_REVIEW_RECEIPT_FRESHNESS'' = Inr started \<and>
      review_instant (dget receipt ''finished_at'') ''E_REVIEW_RECEIPT_FRESHNESS'' = Inr finished \<and>
      expires = issued + MAXIMUM_DURATION \<and> issued \<le> now \<and> now < expires \<and>
      consumed \<le> started \<and> started \<le> finished \<and> finished \<le> expires \<and> finished \<le> now \<and> finished - started \<le> MAXIMUM_DURATION)"
proof -
  from assms obtain x j roots consumed started finished expires where
    launch: "verify_review_launch_authorization E a public_key x now = Inr j"
    and signed: "signed_by E public_key RECEIPT_SIGN_DOMAIN receipt"
    and roots: "mount_roots a = Inr roots"
    and terms: "receipt_terms_invalid receipt a roots h (run_window_invalid consumed started finished expires now) = Inr False"
    and times: "review_instant (dget receipt ''authorization_consumed_at'') ''E_REVIEW_RECEIPT_FRESHNESS'' = Inr consumed"
      "review_instant (dget receipt ''started_at'') ''E_REVIEW_RECEIPT_FRESHNESS'' = Inr started"
      "review_instant (dget receipt ''finished_at'') ''E_REVIEW_RECEIPT_FRESHNESS'' = Inr finished"
      "review_instant (dget a ''expires_at'') ''E_REVIEW_RECEIPT_FRESHNESS'' = Inr expires"
    by (rule execution_receipt_Inr)
  from launch obtain issued not_before expires' where l: "signed_by E public_key LAUNCH_SIGN_DOMAIN a"
    "review_instant (dget a ''issued_at'') ''E_REVIEW_AUTH_EXPIRY'' = Inr issued"
    "review_instant (dget a ''expires_at'') ''E_REVIEW_AUTH_EXPIRY'' = Inr expires'"
    "issued \<le> not_before" "not_before \<le> now" "now < expires'" "expires' = issued + MAXIMUM_DURATION"
    by (rule launch_authorization_Inr)
  have e: "review_instant (dget a ''expires_at'') ''E_REVIEW_AUTH_EXPIRY'' = Inr expires"
    using times(4) by (rule review_instant_code [THEN iffD1])
  with l(3) have "expires' = expires" by simp
  with l(4-7) receipt_terms_False(4) [OF terms] have window: "expires = issued + MAXIMUM_DURATION" "issued \<le> now" "now < expires"
      "consumed \<le> started" "started \<le> finished" "finished \<le> expires" "finished \<le> now" "finished - started \<le> MAXIMUM_DURATION"
    by (simp_all add: run_window_invalid_def)
  show ?thesis
    by (intro conjI exI [of _ roots] exI [of _ issued] exI [of _ consumed] exI [of _ started] exI [of _ finished] exI [of _ expires])
      (fact l signed receipt_terms_False [OF terms] roots e times window)+
qed

text \<open>The two windows that are checked admit a receipt for a review that was over before its authorization was issued.\<close>

lemma receipt_may_predate_its_authorization:
  "\<not> launch_window_invalid 100 100 (100 + MAXIMUM_DURATION) 200 \<and> \<not> run_window_invalid 10 20 30 (100 + MAXIMUM_DURATION) 200"
  by (simp add: launch_window_invalid_def run_window_invalid_def MAXIMUM_DURATION_def)

text \<open>C24: No aggregate authorizes a production phase, whatever its outcome, and a passed aggregate rests on two
  independent passed reviews. If the aggregate says PASS then both reviews passed without a blocking finding, every
  security flag and every implementation flag is YES, the receipts of both reviews are accepted for exactly these
  results, and the reviews used different workspaces, authorizations, runs, serials and output roots.\<close>

theorem passed_aggregate_is_earned:
  assumes "aggregate_independent_reviews E W = Inr result"
  shows "dget result ''authorized_production_phases'' = JStr ''NONE'' \<and>
   (dget result ''review_outcome'' = JStr ''PASS'' \<longrightarrow>
    (\<forall>review \<in> {rw_implementation W, rw_cybersecurity W}.
      dget review ''review_outcome'' = JStr ''PASS'' \<and> \<not> has_blocking_findings review) \<and>
    (\<forall>k \<in> set SECURITY_FLAGS. dget (the_dict (dget (rw_cybersecurity W) ''verdicts'')) k = JStr ''YES'') \<and>
    (\<forall>k \<in> set (implementation_flags (is_current_config (rw_config W))).
      dget (the_dict (dget (rw_implementation W) ''verdicts'')) k = JStr ''YES'') \<and>
    (\<exists>i j. verify_receipt E W (rw_implementation_receipt W) (rw_implementation_authorization W) (rw_implementation W) = Inr i \<and>
      verify_receipt E W (rw_cybersecurity_receipt W) (rw_cybersecurity_authorization W) (rw_cybersecurity W) = Inr j) \<and>
    (\<forall>k \<in> {''workspace_root'', ''authorization_id'', ''review_run_id''}.
      \<not> py_eq (dget (rw_implementation_receipt W) k) (dget (rw_cybersecurity_receipt W) k)) \<and>
    (\<forall>k \<in> {''one_use_serial'', ''allowed_output_root''}.
      \<not> py_eq (dget (rw_implementation_authorization W) k) (dget (rw_cybersecurity_authorization W) k)))"
proof -
  from assms obtain iv cv rows where a: "check_receipts E W = Inr ()"
    "dget (rw_implementation W) ''verdicts'' = JObj iv" "dget (rw_cybersecurity W) ''verdicts'' = JObj cv"
    "check_verdicts iv cv (is_current_config (rw_config W)) = Inr ()"
    "dget result ''review_outcome'' = JStr (if both_passed W iv cv then ''PASS'' else ''HOLD'')"
    "dget result ''authorized_production_phases'' = JStr ''NONE''"
    by (rule aggregate_Inr)
  from a(1) obtain i j where r: "verify_receipt E W (rw_implementation_receipt W) (rw_implementation_authorization W) (rw_implementation W) = Inr i"
    "verify_receipt E W (rw_cybersecurity_receipt W) (rw_cybersecurity_authorization W) (rw_cybersecurity W) = Inr j"
    "not_independent W = Inr False"
    by (rule check_receipts_Inr)
  show ?thesis
  proof (intro conjI a(6) impI)
    assume pass: "dget result ''review_outcome'' = JStr ''PASS''"
    have passed: "both_passed W iv cv" using a(5) pass by (simp split: if_splits)
    have flags: "\<forall>k \<in> set (implementation_flags (is_current_config (rw_config W))). dget iv k = JStr ''YES''"
      using a(4) passed by (auto simp: check_verdicts_def both_passed_def list_ex_iff)
    show "\<forall>review \<in> {rw_implementation W, rw_cybersecurity W}. dget review ''review_outcome'' = JStr ''PASS'' \<and> \<not> has_blocking_findings review"
      "\<forall>k \<in> set SECURITY_FLAGS. dget (the_dict (dget (rw_cybersecurity W) ''verdicts'')) k = JStr ''YES''"
      "\<forall>k \<in> set (implementation_flags (is_current_config (rw_config W))). dget (the_dict (dget (rw_implementation W) ''verdicts'')) k = JStr ''YES''"
      using passed flags unfolding both_passed_def a(2, 3) the_dict.simps list_all_iff by blast+
    show "\<exists>i j. verify_receipt E W (rw_implementation_receipt W) (rw_implementation_authorization W) (rw_implementation W) = Inr i \<and>
        verify_receipt E W (rw_cybersecurity_receipt W) (rw_cybersecurity_authorization W) (rw_cybersecurity W) = Inr j"
      using r(1, 2) by blast
    show "\<forall>k \<in> {''workspace_root'', ''authorization_id'', ''review_run_id''}. \<not> py_eq (dget (rw_implementation_receipt W) k) (dget (rw_cybersecurity_receipt W) k)"
      "\<forall>k \<in> {''one_use_serial'', ''allowed_output_root''}. \<not> py_eq (dget (rw_implementation_authorization W) k) (dget (rw_cybersecurity_authorization W) k)"
      using independent [OF r(3)] by blast+
  qed
qed

text \<open>The aggregate lists every finding of both reviews exactly once, ordered by severity and then by
  identifier, and no two findings share an identifier.\<close>

theorem aggregate_lists_all_findings:
  assumes "aggregate_independent_reviews E W = Inr result"
  shows "\<exists>rows. dget result ''findings'' = JArr (map JObj rows) \<and>
    mset (map JObj rows) = mset (the_list (dget (rw_implementation W) ''findings'')) + mset (the_list (dget (rw_cybersecurity W) ''findings'')) \<and>
    sorted (map finding_key rows) \<and> distinct (map finding_id rows)"
proof -
  let ?fs = "the_list (dget (rw_implementation W) ''findings'') @ the_list (dget (rw_cybersecurity W) ''findings'')"
  from assms obtain rows where rows: "merged_findings ?fs = Inr rows" "dget result ''findings'' = JArr (map JObj rows)"
    by (rule aggregate_Inr)
  have fs: "map JObj (map the_dict ?fs) = ?fs" by (rule merged_findings_dicts [OF rows(1)])
  have "merged_findings (map JObj (map the_dict ?fs)) = Inr rows" unfolding fs by (rule rows(1))
  note m = merged_findings_Inr [OF this]
  have "mset (map JObj rows) = mset (map JObj (map the_dict ?fs))" using m(1) by (simp only: mset_map)
  with rows(2) m(2, 3) show ?thesis unfolding fs by (metis mset_append)
qed

section \<open>Witnesses\<close>

theorem passed_aggregate_is_earned_witness:
  "dget (rw_implementation demo_reviews) ''review_outcome'' = JStr ''PASS'' \<and>
    \<not> py_eq (dget (rw_implementation_receipt demo_reviews) ''workspace_root'') (dget (rw_cybersecurity_receipt demo_reviews) ''workspace_root'')"
  using passed_aggregate_is_earned [OF demo_aggregation] demo_outcome by blast

theorem aggregate_lists_all_findings_witness:
  "\<exists>rows. mset (map JObj rows) = {# demo_finding ''f1'' ''MINOR'', demo_finding ''f2'' ''CRITICAL'' #} \<and> sorted (map finding_key rows)"
proof -
  have "mset [x] + mset [y] = {# x, y #}" for x y :: json by simp
  then show ?thesis
    using aggregate_lists_all_findings [OF demo_aggregation] unfolding demo_findings the_list.simps by metis
qed

text \<open>The documents of the demonstration, signed.\<close>

definition demo_signed :: "string \<Rightarrow> string \<Rightarrow> obj \<Rightarrow> obj" where
  "demo_signed derived prefix d = dput ''signature'' signature_64
     (dput derived (JStr (prefix @ role_hash [])) (ddel ''signature'' (ddel derived d)))"

lemma demo_key_is_genuine: "genuine_key demo_reviewing demo_signing_key"
  by (simp add: genuine_key_def demo_reviewing_def demo_signing_key_def)

lemma demo_signing:
  "sign_review_launch_authorization demo_reviewing (demo_launch IMPLEMENTATION_ROLE ''1'') demo_signing_key =
     Inr (demo_signed ''authorization_id'' ''REVIEW-LAUNCH:'' (demo_launch IMPLEMENTATION_ROLE ''1''))"
  "sign_review_execution_receipt demo_reviewing (demo_receipt IMPLEMENTATION_ROLE ''1'') demo_signing_key =
     Inr (demo_signed ''receipt_id'' ''REVIEW-RECEIPT:'' (demo_receipt IMPLEMENTATION_ROLE ''1''))"
  by code_simp+

theorem signed_documents_verify_witness:
  "launch_binding demo_reviewing (demo_signed ''authorization_id'' ''REVIEW-LAUNCH:'' (demo_launch IMPLEMENTATION_ROLE ''1''))
     (sk_public demo_signing_key) \<noteq> Inl (ValueError ''E_REVIEW_AUTH_BINDING'')"
  using signed_documents_verify [OF demo_key_is_genuine demo_signing] by simp

theorem accepted_receipt_is_bound_witness:
  "signed_by demo_reviewing ''k'' RECEIPT_SIGN_DOMAIN (rw_implementation_receipt demo_reviews)"
proof -
  have "rw_public_key demo_reviews = ''k''" by code_simp
  with accepted_receipt_is_bound show ?thesis
    using demo_implementation_receipt unfolding verify_receipt_def by (elim bindR_E) metis
qed

end
