(* ===== verification/Live_Preflight.thy ===== *)
theory Live_Preflight
  imports Json_Items
begin

text \<open>
  \<^verbatim>\<open>src/moj_discovery/live_preflight.py\<close>: the preflight of a live read-only run. It checks a
  configuration, estimates its requests against its budget, and reports what is still missing; it never
  activates anything. The three mappings are JSON values.
\<close>

section \<open>Shape of the configuration\<close>

definition LIVE_CONFIG_FIELDS :: "string list" where
  "LIVE_CONFIG_FIELDS = [''schema_version'', ''mode'', ''enabled'', ''provider'', ''operator'', ''runtime'', ''gates'',
     ''model_enabled'', ''paper_enabled'', ''money_enabled'', ''cashout_submission_enabled'']"

definition DISABLED_FIELDS :: "string list" where
  "DISABLED_FIELDS = [''model_enabled'', ''paper_enabled'', ''money_enabled'', ''cashout_submission_enabled'']"

definition PROVIDER_FIELDS :: "string list" where
  "PROVIDER_FIELDS = [''id'', ''base_url'', ''api_key_env'', ''fixture_ids'', ''poll_fixture_seconds'', ''poll_events_seconds'',
     ''max_requests_per_run'', ''max_requests_per_minute'']"

definition OPERATOR_FIELDS :: "string list" where
  "OPERATOR_FIELDS = [''capture_profile_path'', ''profile_evidence_hash'', ''user_session_present'', ''allowed_fixture_bindings'']"

definition RUNTIME_FIELDS :: "string list" where
  "RUNTIME_FIELDS = [''host'', ''port'', ''max_matches'', ''max_run_minutes'', ''platform_qualification_path'']"

definition GATE_FIELDS :: "string list" where
  "GATE_FIELDS = [''offline_result_path'', ''security_review_path'', ''provider_feasibility_path'', ''live_run_authorization_path'']"

text \<open>A test on \<open>d[k]\<close>.\<close>

definition item_test :: "obj \<Rightarrow> string \<Rightarrow> (json \<Rightarrow> bool) \<Rightarrow> bool res" where
  "item_test d k p = bindR (ditem d k) (\<lambda>v. Inr (p v))"

definition one_of :: "bool res list \<Rightarrow> bool res" where
  "one_of cs = anyR (\<lambda>c. c) cs"

definition check_config_scope :: "obj \<Rightarrow> unit res" where
  "check_config_scope config = refuse_if (one_of
     ([Inr (\<not> keys_eq config LIVE_CONFIG_FIELDS),
       item_test config ''schema_version'' (\<lambda>v. \<not> str_is v ''bh-live-readonly-config/v1''),
       item_test config ''mode'' (\<lambda>v. \<not> str_is v ''LIVE_READ_ONLY''),
       item_test config ''enabled'' (\<lambda>v. \<not> is_bool v)] @
      map (\<lambda>k. item_test config k (\<lambda>v. v \<noteq> JBool False)) DISABLED_FIELDS)) ''E_LIVE_CONFIG_SCOPE''"

definition shaped :: "json \<Rightarrow> string list \<Rightarrow> bool" where
  "shaped v ks = (case v of JObj d \<Rightarrow> keys_eq d ks | _ \<Rightarrow> False)"

text \<open>\<open>[A-Z][A-Z0-9_]{0,63}\<close>, matched in full.\<close>

definition env_name :: "string \<Rightarrow> bool" where
  "env_name s = (case s of [] \<Rightarrow> False | c # cs \<Rightarrow> is_upper c \<and> length cs \<le> 63 \<and> list_all is_name_char cs)"

definition int_within :: "int \<Rightarrow> int \<Rightarrow> json \<Rightarrow> bool" where
  "int_within low high v = (case v of JInt i \<Rightarrow> low \<le> i \<and> i \<le> high | _ \<Rightarrow> False)"

record live_config =
  lc_provider :: obj
  lc_operator :: obj
  lc_runtime :: obj
  lc_gates :: obj

definition config_sections :: "obj \<Rightarrow> live_config res" where
  "config_sections config =
     bindR (ditem config ''provider'') (\<lambda>provider.
     bindR (ditem config ''operator'') (\<lambda>operator.
     bindR (ditem config ''runtime'') (\<lambda>runtime.
     bindR (ditem config ''gates'') (\<lambda>gates.
     bindR (raise_if (\<not> (shaped provider PROVIDER_FIELDS \<and> shaped operator OPERATOR_FIELDS \<and>
         shaped runtime RUNTIME_FIELDS \<and> shaped gates GATE_FIELDS)) (ValueError ''E_LIVE_CONFIG_FIELDS'')) (\<lambda>_.
       Inr \<lparr>lc_provider = the_dict provider, lc_operator = the_dict operator, lc_runtime = the_dict runtime,
         lc_gates = the_dict gates\<rparr>)))))"

section \<open>Values of the configuration\<close>

definition check_config_binding :: "live_config \<Rightarrow> unit res" where
  "check_config_binding c = refuse_if (one_of
     [item_test (lc_provider c) ''id'' (\<lambda>v. \<not> str_is v ''API_FOOTBALL_V3''),
      item_test (lc_provider c) ''base_url'' (\<lambda>v. \<not> str_is v ''https://v3.football.api-sports.io''),
      item_test (lc_provider c) ''api_key_env'' (\<lambda>v. \<not> is_str v),
      item_test (lc_provider c) ''api_key_env'' (\<lambda>v. \<not> env_name (the_str v)),
      item_test (lc_runtime c) ''host'' (\<lambda>v. \<not> str_is v ''127.0.0.1''),
      item_test (lc_runtime c) ''port'' (\<lambda>v. \<not> is_int v),
      item_test (lc_runtime c) ''port'' (\<lambda>v. \<not> py_eq v (JInt 8765))]) ''E_LIVE_CONFIG_BINDING''"

definition check_config_limits :: "live_config \<Rightarrow> unit res" where
  "check_config_limits c =
     bindR (ditem (lc_runtime c) ''max_matches'') (\<lambda>matches.
     bindR (ditem (lc_runtime c) ''max_run_minutes'') (\<lambda>minutes.
     bindR (ditem (lc_provider c) ''poll_fixture_seconds'') (\<lambda>fixture.
     bindR (ditem (lc_provider c) ''poll_events_seconds'') (\<lambda>events.
     bindR (ditem (lc_provider c) ''max_requests_per_run'') (\<lambda>run.
     bindR (ditem (lc_provider c) ''max_requests_per_minute'') (\<lambda>minute.
       raise_if (\<not> list_all (\<lambda>(v, low, high). int_within low high v)
           [(matches, 1, 1), (minutes, 1, 120), (fixture, 30, 3600), (events, 30, 3600), (run, 1, 500), (minute, 1, 8)])
         (ValueError ''E_LIVE_CONFIG_LIMIT'')))))))"

definition check_config_fixtures :: "live_config \<Rightarrow> unit res" where
  "check_config_fixtures c =
     bindR (ditem (lc_provider c) ''fixture_ids'') (\<lambda>fixtures.
     refuse_if (one_of
       [Inr (\<not> is_list fixtures),
        item_test (lc_runtime c) ''max_matches'' (\<lambda>v. int (length (the_list fixtures)) > the_int v),
        Inr (list_ex (\<lambda>v. \<not> is_int v \<or> the_int v \<le> 0) (the_list fixtures)),
        item_test (lc_operator c) ''user_session_present'' (\<lambda>v. \<not> is_bool v),
        item_test (lc_operator c) ''allowed_fixture_bindings'' (\<lambda>v. \<not> is_list v)]) ''E_LIVE_CONFIG_FIXTURE'')"

definition path_invalid :: "json \<Rightarrow> bool" where
  "path_invalid v = (v \<noteq> JNull \<and> (\<not> is_str v \<or> the_str v = [] \<or> length (the_str v) > 4096))"

definition check_config_paths :: "live_config \<Rightarrow> unit res" where
  "check_config_paths c =
     bindR (ditem (lc_operator c) ''capture_profile_path'') (\<lambda>profile.
     bindR (ditem (lc_runtime c) ''platform_qualification_path'') (\<lambda>platform.
       raise_if (list_ex path_invalid (profile # platform # map snd (lc_gates c))) (ValueError ''E_LIVE_CONFIG_PATH'')))"

definition check_config_hash :: "live_config \<Rightarrow> unit res" where
  "check_config_hash c = bindR (ditem (lc_operator c) ''profile_evidence_hash'') (\<lambda>digest.
     raise_if (digest \<noteq> JNull \<and> (\<not> is_str digest \<or> \<not> hex64 (the_str digest))) (ValueError ''E_LIVE_CONFIG_HASH''))"

definition live_configuration :: "obj \<Rightarrow> live_config res" where
  "live_configuration config =
     bindR (check_config_scope config) (\<lambda>_.
     bindR (config_sections config) (\<lambda>c.
     bindR (check_config_binding c) (\<lambda>_.
     bindR (check_config_limits c) (\<lambda>_.
     bindR (check_config_fixtures c) (\<lambda>_.
     bindR (check_config_paths c) (\<lambda>_.
     bindR (check_config_hash c) (\<lambda>_. Inr c)))))))"

section \<open>The estimate\<close>

text \<open>\<open>math.ceil(a / b)\<close>. The quotient is a float in the source; for the accepted values (at most 7200 by at
  least 30) it is a whole number or at least 1/3600 away from one, so rounding does not reach the next.\<close>

definition ceil_quotient :: "int \<Rightarrow> int \<Rightarrow> int" where
  "ceil_quotient a b = - ((- a) div b)"

definition int_item :: "obj \<Rightarrow> string \<Rightarrow> int res" where
  "int_item d k = bindR (ditem d k) (\<lambda>v. case v of JInt i \<Rightarrow> Inr i | _ \<Rightarrow> Inl TypeError)"

definition poll_requests :: "live_config \<Rightarrow> int \<Rightarrow> int res" where
  "poll_requests c seconds =
     bindR (int_item (lc_provider c) ''poll_fixture_seconds'') (\<lambda>fixture.
     bindR (int_item (lc_provider c) ''poll_events_seconds'') (\<lambda>events.
       Inr (1 + (ceil_quotient seconds fixture + ceil_quotient seconds events))))"

definition within_budget :: "live_config \<Rightarrow> int \<Rightarrow> int \<Rightarrow> bool res" where
  "within_budget c estimate minute_estimate =
     bindR (int_item (lc_provider c) ''max_requests_per_run'') (\<lambda>run.
     if \<not> estimate \<le> run then Inr False
     else bindR (int_item (lc_provider c) ''max_requests_per_minute'') (\<lambda>minute. Inr (minute_estimate \<le> minute)))"

section \<open>The report\<close>

definition REVIEWED_INPUTS :: "string list" where
  "REVIEWED_INPUTS = [''capture_profile'', ''provider_feasibility'', ''platform_qualification'', ''security_review'',
     ''live_run_authorization'']"

definition reviewed_input :: "obj \<Rightarrow> string \<Rightarrow> string" where
  "reviewed_input evidence name =
     (if str_is (dget (the_dict (dget_or evidence name (JObj []))) ''source_kind'') ''SYNTHETIC_TEST'' then ''SYNTHETIC_NOT_LIVE_EVIDENCE''
      else if \<not> dhas evidence name then ''PENDING_REAL_INPUTS'' else ''REQUIRES_LV_EVIDENCE_REVIEW'')"

definition readiness_checks :: "live_config \<Rightarrow> obj \<Rightarrow> obj \<Rightarrow> bool \<Rightarrow> (string \<times> string) list res" where
  "readiness_checks c evidence secrets budget =
     bindR (ditem (lc_provider c) ''api_key_env'') (\<lambda>key.
     bindR (ditem (lc_provider c) ''fixture_ids'') (\<lambda>fixtures.
     bindR (ditem (lc_operator c) ''user_session_present'') (\<lambda>session.
     bindR (ditem (lc_operator c) ''allowed_fixture_bindings'') (\<lambda>bindings.
       Inr ([(''offline_gate'', if dhas evidence ''offline_gate'' then ''REQUIRES_OFFLINE_GATE_VERIFICATION'' else ''PENDING_OFFLINE_GATE''),
         (''provider_key'', if is_true (dget secrets (the_str key)) then ''ENV_NAME_PRESENT_UNVALIDATED'' else ''PENDING_KEY''),
         (''fixture_selection'', if truthy fixtures then ''SELECTED_UNVALIDATED'' else ''PENDING_FIXTURE''),
         (''operator_session'', if \<not> truthy session then ''PENDING_MANUAL_OPERATOR_SESSION'' else ''SESSION_CLAIM_REQUIRES_LV_REVIEW''),
         (''operator_fixture_binding'', if \<not> truthy bindings then ''PENDING_FIXTURE_BINDING'' else ''BINDING_REQUIRES_LV_REVIEW''),
         (''quota_budget'', if budget then ''PENDING_OBSERVED_QUOTA'' else ''INSUFFICIENT_CONFIGURED_BUDGET'')] @
        map (\<lambda>name. (name, reviewed_input evidence name)) REVIEWED_INPUTS)))))"

definition readiness_report :: "(string \<times> string) list \<Rightarrow> int \<Rightarrow> int \<Rightarrow> obj" where
  "readiness_report checks estimate minute_estimate =
     [(''LIVE_PREFLIGHT_IMPLEMENTED'', JStr ''YES''),
      (''LIVE_READ_ONLY_READY'', JStr ''PENDING_REAL_INPUTS_AND_LIVE_REVIEW''),
      (''MONEY_READY'', JStr ''NO''),
      (''production_authority'', JStr ''NONE''),
      (''status'', JStr ''PENDING_REAL_INPUTS''),
      (''evaluation_scope'', JStr ''SYNTHETIC_PREFLIGHT_ONLY''),
      (''checks'', JObj (map (\<lambda>(name, v). (name, JStr v)) checks)),
      (''estimated_requests'', JInt estimate),
      (''estimated_requests_first_minute'', JInt minute_estimate),
      (''missing_inputs'', JArr (map (\<lambda>(name, v). JStr name) (filter (\<lambda>(name, v). v \<noteq> ''PASS'') checks)))]"

definition check_live_readiness :: "json \<Rightarrow> json \<Rightarrow> json \<Rightarrow> obj res" where
  "check_live_readiness config evidence secret_presence =
     bindR (raise_if (\<not> is_dict config \<or> \<not> is_dict evidence \<or> \<not> is_dict secret_presence) (ValueError ''E_LIVE_CONFIG_TYPE'')) (\<lambda>_.
     bindR (raise_if (list_ex (\<lambda>(_, v). \<not> is_dict v) (the_dict evidence) \<or> list_ex (\<lambda>(_, v). \<not> is_bool v) (the_dict secret_presence))
       (ValueError ''E_LIVE_EVIDENCE_TYPE'')) (\<lambda>_.
     bindR (live_configuration (the_dict config)) (\<lambda>c.
     bindR (int_item (lc_runtime c) ''max_run_minutes'') (\<lambda>minutes.
     bindR (poll_requests c (minutes * 60)) (\<lambda>estimate.
     bindR (poll_requests c 60) (\<lambda>minute_estimate.
     bindR (within_budget c estimate minute_estimate) (\<lambda>budget.
     bindR (readiness_checks c (the_dict evidence) (the_dict secret_presence) budget) (\<lambda>checks.
       Inr (readiness_report checks estimate minute_estimate)))))))))"

section \<open>Properties\<close>

text \<open>
  Properties of the live preflight: whatever it is given, it returns a report that activates nothing or
  refuses with one of its own codes; and its estimate counts the requests of the schedule exactly.
\<close>

section \<open>Refusals\<close>

definition LIVE_ERRORS :: "string list" where
  "LIVE_ERRORS = [''E_LIVE_CONFIG_TYPE'', ''E_LIVE_EVIDENCE_TYPE'', ''E_LIVE_CONFIG_SCOPE'', ''E_LIVE_CONFIG_FIELDS'',
     ''E_LIVE_CONFIG_BINDING'', ''E_LIVE_CONFIG_LIMIT'', ''E_LIVE_CONFIG_FIXTURE'', ''E_LIVE_CONFIG_PATH'', ''E_LIVE_CONFIG_HASH'']"

text \<open>A computation that only raises its own codes.\<close>

definition own_errors :: "'a res \<Rightarrow> bool" where
  "own_errors m \<longleftrightarrow> (\<forall>e. m = Inl e \<longrightarrow> e \<in> ValueError ` set LIVE_ERRORS)"

named_theorems own_rules \<open>computations that only raise the codes of the preflight\<close>

lemma own_Inr [own_rules]: "own_errors (Inr x)"
  by (simp add: own_errors_def)

lemma own_bind [own_rules]: "own_errors m \<Longrightarrow> (\<And>x. m = Inr x \<Longrightarrow> own_errors (f x)) \<Longrightarrow> own_errors (bindR m f)"
  by (cases m) (simp_all add: own_errors_def)

lemma own_raise [own_rules]: "code \<in> set LIVE_ERRORS \<Longrightarrow> own_errors (raise_if b (ValueError code))"
  by (simp add: own_errors_def raise_if_def)

lemma own_refuse [own_rules]: "c = Inr b \<Longrightarrow> code \<in> set LIVE_ERRORS \<Longrightarrow> own_errors (refuse_if c code)"
  by (simp add: own_errors_def refuse_if_def raise_if_def)

lemma own_codes [own_rules]:
  "''E_LIVE_CONFIG_TYPE'' \<in> set LIVE_ERRORS" "''E_LIVE_EVIDENCE_TYPE'' \<in> set LIVE_ERRORS" "''E_LIVE_CONFIG_SCOPE'' \<in> set LIVE_ERRORS"
  "''E_LIVE_CONFIG_FIELDS'' \<in> set LIVE_ERRORS" "''E_LIVE_CONFIG_BINDING'' \<in> set LIVE_ERRORS" "''E_LIVE_CONFIG_LIMIT'' \<in> set LIVE_ERRORS"
  "''E_LIVE_CONFIG_FIXTURE'' \<in> set LIVE_ERRORS" "''E_LIVE_CONFIG_PATH'' \<in> set LIVE_ERRORS" "''E_LIVE_CONFIG_HASH'' \<in> set LIVE_ERRORS"
  by (simp_all add: LIVE_ERRORS_def)

section \<open>Items of shaped sections\<close>

lemma ditem_keys: "keys_eq d ks \<Longrightarrow> k \<in> set ks \<Longrightarrow> ditem d k = Inr (dget d k)"
  by (auto simp: keys_eq_def list_all_iff dhas_def ditem_def dget_def split: option.splits)

definition well_shaped :: "live_config \<Rightarrow> bool" where
  "well_shaped c \<longleftrightarrow> keys_eq (lc_provider c) PROVIDER_FIELDS \<and> keys_eq (lc_operator c) OPERATOR_FIELDS \<and>
     keys_eq (lc_runtime c) RUNTIME_FIELDS \<and> keys_eq (lc_gates c) GATE_FIELDS"

lemma config_items:
  assumes "keys_eq config LIVE_CONFIG_FIELDS"
  shows "ditem config ''schema_version'' = Inr (dget config ''schema_version'')"
    "ditem config ''mode'' = Inr (dget config ''mode'')"
    "ditem config ''enabled'' = Inr (dget config ''enabled'')"
    "ditem config ''provider'' = Inr (dget config ''provider'')"
    "ditem config ''operator'' = Inr (dget config ''operator'')"
    "ditem config ''runtime'' = Inr (dget config ''runtime'')"
    "ditem config ''gates'' = Inr (dget config ''gates'')"
    "ditem config ''model_enabled'' = Inr (dget config ''model_enabled'')"
    "ditem config ''paper_enabled'' = Inr (dget config ''paper_enabled'')"
    "ditem config ''money_enabled'' = Inr (dget config ''money_enabled'')"
    "ditem config ''cashout_submission_enabled'' = Inr (dget config ''cashout_submission_enabled'')"
  by (rule ditem_keys [of _ LIVE_CONFIG_FIELDS], rule assms, simp add: LIVE_CONFIG_FIELDS_def)+

lemma provider_items:
  assumes "well_shaped c"
  shows "ditem (lc_provider c) ''id'' = Inr (dget (lc_provider c) ''id'')"
    "ditem (lc_provider c) ''base_url'' = Inr (dget (lc_provider c) ''base_url'')"
    "ditem (lc_provider c) ''api_key_env'' = Inr (dget (lc_provider c) ''api_key_env'')"
    "ditem (lc_provider c) ''fixture_ids'' = Inr (dget (lc_provider c) ''fixture_ids'')"
    "ditem (lc_provider c) ''poll_fixture_seconds'' = Inr (dget (lc_provider c) ''poll_fixture_seconds'')"
    "ditem (lc_provider c) ''poll_events_seconds'' = Inr (dget (lc_provider c) ''poll_events_seconds'')"
    "ditem (lc_provider c) ''max_requests_per_run'' = Inr (dget (lc_provider c) ''max_requests_per_run'')"
    "ditem (lc_provider c) ''max_requests_per_minute'' = Inr (dget (lc_provider c) ''max_requests_per_minute'')"
  by (rule ditem_keys [of _ PROVIDER_FIELDS], use assms in \<open>simp add: well_shaped_def\<close>, simp add: PROVIDER_FIELDS_def)+

lemma operator_items:
  assumes "well_shaped c"
  shows "ditem (lc_operator c) ''capture_profile_path'' = Inr (dget (lc_operator c) ''capture_profile_path'')"
    "ditem (lc_operator c) ''profile_evidence_hash'' = Inr (dget (lc_operator c) ''profile_evidence_hash'')"
    "ditem (lc_operator c) ''user_session_present'' = Inr (dget (lc_operator c) ''user_session_present'')"
    "ditem (lc_operator c) ''allowed_fixture_bindings'' = Inr (dget (lc_operator c) ''allowed_fixture_bindings'')"
  by (rule ditem_keys [of _ OPERATOR_FIELDS], use assms in \<open>simp add: well_shaped_def\<close>, simp add: OPERATOR_FIELDS_def)+

lemma runtime_items:
  assumes "well_shaped c"
  shows "ditem (lc_runtime c) ''host'' = Inr (dget (lc_runtime c) ''host'')"
    "ditem (lc_runtime c) ''port'' = Inr (dget (lc_runtime c) ''port'')"
    "ditem (lc_runtime c) ''max_matches'' = Inr (dget (lc_runtime c) ''max_matches'')"
    "ditem (lc_runtime c) ''max_run_minutes'' = Inr (dget (lc_runtime c) ''max_run_minutes'')"
    "ditem (lc_runtime c) ''platform_qualification_path'' = Inr (dget (lc_runtime c) ''platform_qualification_path'')"
  by (rule ditem_keys [of _ RUNTIME_FIELDS], use assms in \<open>simp add: well_shaped_def\<close>, simp add: RUNTIME_FIELDS_def)+

lemmas section_items = provider_items operator_items runtime_items

text \<open>Tests on present items have a value.\<close>

lemma one_of_pure: "orR (Inr a) (Inr b) = Inr (a \<or> b)"
  by (cases a) simp_all

lemma item_test_present: "ditem d k = Inr v \<Longrightarrow> item_test d k p = Inr (p v)"
  by (simp add: item_test_def)

lemmas tests = one_of_def one_of_pure item_test_present

lemma own_config_scope: "own_errors (check_config_scope config)"
proof (cases "keys_eq config LIVE_CONFIG_FIELDS")
  case True
  show ?thesis
    unfolding check_config_scope_def DISABLED_FIELDS_def list.map append.simps tests config_items [OF True, THEN item_test_present] anyR.simps
    by (rule own_refuse, rule refl, rule own_codes)
next
  case False
  then show ?thesis by (simp add: check_config_scope_def one_of_def own_errors_def refuse_if_def own_codes)
qed

lemma config_scope_keys: "check_config_scope config = Inr u \<Longrightarrow> keys_eq config LIVE_CONFIG_FIELDS"
  by (simp add: check_config_scope_def refuse_if_Inr one_of_def)

lemma own_config_sections:
  assumes "keys_eq config LIVE_CONFIG_FIELDS"
  shows "own_errors (config_sections config)"
  unfolding config_sections_def config_items [OF assms] bindR_simps by (intro own_rules)

lemma shaped_dict: "shaped v ks \<Longrightarrow> keys_eq (the_dict v) ks"
  by (cases v) (simp_all add: shaped_def)

lemma config_sections_shape: "config_sections config = Inr c \<Longrightarrow> well_shaped c"
  by (auto simp: config_sections_def well_shaped_def dest: shaped_dict)

lemma own_config_values:
  assumes "well_shaped c"
  shows "own_errors (check_config_binding c)" "own_errors (check_config_limits c)" "own_errors (check_config_fixtures c)"
    "own_errors (check_config_paths c)" "own_errors (check_config_hash c)"
proof -
  note items = section_items [OF assms] section_items [OF assms, THEN item_test_present]
  show "own_errors (check_config_binding c)"
    unfolding check_config_binding_def one_of_def anyR.simps items one_of_pure by (rule own_refuse, rule refl, rule own_codes)
  show "own_errors (check_config_limits c)" unfolding check_config_limits_def items bindR_simps by (intro own_rules)
  show "own_errors (check_config_fixtures c)"
    unfolding check_config_fixtures_def one_of_def anyR.simps items bindR_simps one_of_pure by (rule own_refuse, rule refl, rule own_codes)
  show "own_errors (check_config_paths c)" unfolding check_config_paths_def items bindR_simps by (intro own_rules)
  show "own_errors (check_config_hash c)" unfolding check_config_hash_def items bindR_simps by (intro own_rules)
qed

lemma live_configuration_Inr:
  assumes "live_configuration config = Inr c"
  shows "well_shaped c" "check_config_limits c = Inr ()"
proof -
  from assms obtain u where "config_sections config = Inr c" "check_config_limits c = Inr u"
    unfolding live_configuration_def by (elim bindR_E) auto
  then show "well_shaped c" "check_config_limits c = Inr ()" by (auto dest: config_sections_shape)
qed

lemma own_live_configuration: "own_errors (live_configuration config)"
  unfolding live_configuration_def
  by (intro own_bind own_Inr own_config_scope own_config_values own_config_sections)
    (auto dest: config_scope_keys config_sections_shape)

section \<open>Accepted limits\<close>

text \<open>The numbers of an accepted configuration.\<close>

definition limits :: "live_config \<Rightarrow> int \<Rightarrow> int \<Rightarrow> int \<Rightarrow> int \<Rightarrow> int \<Rightarrow> bool" where
  "limits c minutes fixture events run minute \<longleftrightarrow>
     dget (lc_runtime c) ''max_run_minutes'' = JInt minutes \<and> dget (lc_provider c) ''poll_fixture_seconds'' = JInt fixture \<and>
     dget (lc_provider c) ''poll_events_seconds'' = JInt events \<and> dget (lc_provider c) ''max_requests_per_run'' = JInt run \<and>
     dget (lc_provider c) ''max_requests_per_minute'' = JInt minute \<and> 1 \<le> minutes \<and> minutes \<le> 120 \<and>
     30 \<le> fixture \<and> fixture \<le> 3600 \<and> 30 \<le> events \<and> events \<le> 3600 \<and> run \<le> 500 \<and> minute \<le> 8"

lemma int_within_JInt: "int_within low high v \<longleftrightarrow> (\<exists>i. v = JInt i \<and> low \<le> i \<and> i \<le> high)"
  by (auto simp: int_within_def split: json.splits)

lemma accepted_limits:
  assumes "well_shaped c" "check_config_limits c = Inr ()"
  obtains minutes fixture events run minute where "limits c minutes fixture events run minute"
  using assms(2) unfolding check_config_limits_def section_items [OF assms(1)] bindR_simps
  by (auto simp: int_within_JInt limits_def)

lemma limit_items:
  assumes "well_shaped c" "limits c minutes fixture events run minute"
  shows "int_item (lc_runtime c) ''max_run_minutes'' = Inr minutes"
    "poll_requests c seconds = Inr (1 + (ceil_quotient seconds fixture + ceil_quotient seconds events))"
    "within_budget c n m = Inr (n \<le> run \<and> m \<le> minute)"
  using assms(2) section_items [OF assms(1)]
  by (simp_all add: limits_def int_item_def poll_requests_def within_budget_def)

section \<open>The schedule\<close>

text \<open>The polls at \<open>0, p, 2p, \<dots>\<close> before \<open>seconds\<close>.\<close>

definition poll_times :: "int \<Rightarrow> int \<Rightarrow> int set" where
  "poll_times seconds period = {t. 0 \<le> t \<and> t < seconds \<and> period dvd t}"

lemma ceil_quotient_less:
  assumes "0 < p"
  shows "k < ceil_quotient n p \<longleftrightarrow> k * p < n"
proof -
  define q where "q = - n div p"
  have n: "- n = p * q + - n mod p" by (simp add: q_def)
  have r: "0 \<le> - n mod p" "- n mod p < p" using assms by simp_all
  have "q < - k \<longleftrightarrow> - n < p * - k"
  proof
    assume "q < - k"
    then have "p * (q + 1) \<le> p * - k" using assms by (intro mult_left_mono) simp_all
    with n r show "- n < p * - k" by (simp add: distrib_left)
  next
    assume less: "- n < p * - k"
    have "p * - k \<le> p * q" if "- k \<le> q" using that assms by (intro mult_left_mono) simp_all
    with less n r show "q < - k" by linarith
  qed
  then show ?thesis by (auto simp: ceil_quotient_def q_def mult.commute)
qed

lemma card_poll_times:
  assumes "0 < p" "0 \<le> n"
  shows "int (card (poll_times n p)) = ceil_quotient n p"
proof -
  have "poll_times n p = (\<lambda>k. k * p) ` {0..<ceil_quotient n p}"
  proof (rule set_eqI)
    fix t
    show "t \<in> poll_times n p \<longleftrightarrow> t \<in> (\<lambda>k. k * p) ` {0..<ceil_quotient n p}"
    proof
      assume "t \<in> poll_times n p"
      then have b: "0 \<le> t" "t < n" "p dvd t" by (auto simp: poll_times_def)
      then obtain k where "t = p * k" by (elim dvdE)
      with b have t: "t = k * p" "0 \<le> k * p" "k * p < n" by (simp_all add: mult.commute)
      with assms(1) have "0 \<le> k" by (simp add: zero_le_mult_iff)
      with t ceil_quotient_less [OF assms(1)] show "t \<in> (\<lambda>k. k * p) ` {0..<ceil_quotient n p}" by auto
    next
      assume "t \<in> (\<lambda>k. k * p) ` {0..<ceil_quotient n p}"
      then show "t \<in> poll_times n p" using assms ceil_quotient_less [OF assms(1)] by (auto simp: poll_times_def)
    qed
  qed
  moreover have "inj_on (\<lambda>k. k * p) {0..<ceil_quotient n p}" using assms by (auto simp: inj_on_def)
  moreover have "0 \<le> ceil_quotient n p" using ceil_quotient_less [OF assms(1), of "-1" n] assms by simp
  ultimately show ?thesis by (simp add: card_image)
qed

section \<open>Properties\<close>

lemma check_live_readiness_Inr:
  assumes "check_live_readiness config evidence secrets = Inr r"
  obtains c minutes fixture events run minute checks estimate first where
    "live_configuration (the_dict config) = Inr c" "limits c minutes fixture events run minute"
    "estimate = 1 + (ceil_quotient (minutes * 60) fixture + ceil_quotient (minutes * 60) events)"
    "first = 1 + (ceil_quotient 60 fixture + ceil_quotient 60 events)"
    "readiness_checks c (the_dict evidence) (the_dict secrets) (estimate \<le> run \<and> first \<le> minute) = Inr checks"
    "r = readiness_report checks estimate first"
proof -
  from assms obtain c m estimate first budget checks where
    c: "live_configuration (the_dict config) = Inr c" "int_item (lc_runtime c) ''max_run_minutes'' = Inr m"
      "poll_requests c (m * 60) = Inr estimate" "poll_requests c 60 = Inr first" "within_budget c estimate first = Inr budget"
      "readiness_checks c (the_dict evidence) (the_dict secrets) budget = Inr checks"
    and r: "Inr (readiness_report checks estimate first) = (Inr r :: obj res)"
    unfolding check_live_readiness_def by (elim bindR_E) (rule that)
  note shape = live_configuration_Inr(1) [OF c(1)]
  obtain minutes fixture events run minute where l: "limits c minutes fixture events run minute"
    using accepted_limits [OF live_configuration_Inr [OF c(1)]] .
  note items = limit_items [OF shape l]
  show thesis
    by (rule that [OF c(1) l _ _ _ r [THEN sym, unfolded sum.inject]])
      (use c(2-6) in \<open>simp_all add: items\<close>)
qed

lemma reviewed_input_open: "reviewed_input evidence name \<noteq> ''PASS''"
  by (simp add: reviewed_input_def)

lemma readiness_checks_Inr:
  assumes "readiness_checks c evidence secrets budget = Inr checks"
  shows "\<forall>(name, v) \<in> set checks. v \<noteq> ''PASS''"
    "map_of checks ''quota_budget'' = Some (if budget then ''PENDING_OBSERVED_QUOTA'' else ''INSUFFICIENT_CONFIGURED_BUDGET'')"
proof -
  from assms obtain key fixtures session bindings where
    "Inr ([(''offline_gate'', if dhas evidence ''offline_gate'' then ''REQUIRES_OFFLINE_GATE_VERIFICATION'' else ''PENDING_OFFLINE_GATE''),
         (''provider_key'', if is_true (dget secrets (the_str key)) then ''ENV_NAME_PRESENT_UNVALIDATED'' else ''PENDING_KEY''),
         (''fixture_selection'', if truthy fixtures then ''SELECTED_UNVALIDATED'' else ''PENDING_FIXTURE''),
         (''operator_session'', if \<not> truthy session then ''PENDING_MANUAL_OPERATOR_SESSION'' else ''SESSION_CLAIM_REQUIRES_LV_REVIEW''),
         (''operator_fixture_binding'', if \<not> truthy bindings then ''PENDING_FIXTURE_BINDING'' else ''BINDING_REQUIRES_LV_REVIEW''),
         (''quota_budget'', if budget then ''PENDING_OBSERVED_QUOTA'' else ''INSUFFICIENT_CONFIGURED_BUDGET'')] @
        map (\<lambda>name. (name, reviewed_input evidence name)) REVIEWED_INPUTS) = (Inr checks :: (string \<times> string) list res)"
    unfolding readiness_checks_def by (elim bindR_E) (rule that)
  note checks = this [THEN sym, unfolded sum.inject]
  show "\<forall>(name, v) \<in> set checks. v \<noteq> ''PASS''"
    unfolding checks by (simp add: reviewed_input_open ball_Un)
  show "map_of checks ''quota_budget'' = Some (if budget then ''PENDING_OBSERVED_QUOTA'' else ''INSUFFICIENT_CONFIGURED_BUDGET'')"
    unfolding checks by simp
qed

text \<open>C25: The preflight is closed: for any three JSON values it either refuses with one of its nine codes, never
  with another exception, or returns a report, which says that money is not ready, that there is no production
  authority, and lists every single check as a missing input.\<close>

theorem preflight_never_activates:
  "case check_live_readiness config evidence secrets of
     Inl e \<Rightarrow> e \<in> ValueError ` set LIVE_ERRORS
   | Inr r \<Rightarrow> dget r ''MONEY_READY'' = JStr ''NO'' \<and> dget r ''production_authority'' = JStr ''NONE'' \<and>
       dget r ''missing_inputs'' = JArr (map JStr (dkeys (the_dict (dget r ''checks''))))"
proof (cases "check_live_readiness config evidence secrets")
  case (Inl e)
  have "own_errors (check_live_readiness config evidence secrets)"
    unfolding check_live_readiness_def
  proof (rule own_bind, rule own_raise, rule own_codes, rule own_bind, rule own_raise, rule own_codes, rule own_bind, rule own_live_configuration)
    fix c
    assume "live_configuration (the_dict config) = Inr c"
    note c = live_configuration_Inr [OF this]
    obtain minutes fixture events run minute where l: "limits c minutes fixture events run minute" using accepted_limits [OF c] .
    show "own_errors (bindR (int_item (lc_runtime c) ''max_run_minutes'') (\<lambda>minutes.
       bindR (poll_requests c (minutes * 60)) (\<lambda>estimate.
       bindR (poll_requests c 60) (\<lambda>minute_estimate.
       bindR (within_budget c estimate minute_estimate) (\<lambda>budget.
       bindR (readiness_checks c (the_dict evidence) (the_dict secrets) budget) (\<lambda>checks.
         Inr (readiness_report checks estimate minute_estimate)))))))"
      unfolding limit_items [OF c(1) l] bindR_simps readiness_checks_def section_items [OF c(1)] by (rule own_Inr)
  qed
  with Inl show ?thesis by (simp add: own_errors_def)
next
  case (Inr r)
  then obtain c budget checks estimate first where
    k: "readiness_checks c (the_dict evidence) (the_dict secrets) budget = Inr checks"
    and r: "r = readiness_report checks estimate first"
    by (rule check_live_readiness_Inr)
  have "filter (\<lambda>(name, v). v \<noteq> ''PASS'') checks = checks" using readiness_checks_Inr(1) [OF k] by (simp add: filter_id_conv)
  with Inr r show ?thesis by (simp add: readiness_report_def dkeys_def comp_def case_prod_beta)
qed

text \<open>C26: The estimate is the schedule. A report counts one request and every poll of the two endpoints before the
  end of the run, and likewise for the first minute; it calls the quota merely pending exactly if both counts are
  within the configured limits, which are at most 500 and 8.\<close>

theorem estimate_counts_the_schedule:
  assumes "check_live_readiness config evidence secrets = Inr r"
  shows "\<exists>c minutes fixture events run minute. live_configuration (the_dict config) = Inr c \<and>
    limits c minutes fixture events run minute \<and>
    (let total = (\<lambda>seconds. 1 + int (card (poll_times seconds fixture)) + int (card (poll_times seconds events))) in
      dget r ''estimated_requests'' = JInt (total (minutes * 60)) \<and> dget r ''estimated_requests_first_minute'' = JInt (total 60) \<and>
      (dget (the_dict (dget r ''checks'')) ''quota_budget'' = JStr ''PENDING_OBSERVED_QUOTA'' \<longleftrightarrow>
        total (minutes * 60) \<le> run \<and> total 60 \<le> minute))"
proof -
  from assms obtain c minutes fixture events run minute checks estimate first where
    a: "live_configuration (the_dict config) = Inr c" "limits c minutes fixture events run minute"
    "estimate = 1 + (ceil_quotient (minutes * 60) fixture + ceil_quotient (minutes * 60) events)"
    "first = 1 + (ceil_quotient 60 fixture + ceil_quotient 60 events)"
    "readiness_checks c (the_dict evidence) (the_dict secrets) (estimate \<le> run \<and> first \<le> minute) = Inr checks"
    "r = readiness_report checks estimate first"
    by (rule check_live_readiness_Inr)
  have positive: "0 < fixture" "0 < events" "0 \<le> minutes * 60" using a(2) by (simp_all add: limits_def)
  have quota: "dget (map (\<lambda>(name, v). (name, JStr v)) checks) ''quota_budget'' =
      JStr (if estimate \<le> run \<and> first \<le> minute then ''PENDING_OBSERVED_QUOTA'' else ''INSUFFICIENT_CONFIGURED_BUDGET'')"
    using readiness_checks_Inr(2) [OF a(5)] by (simp add: dget_def map_of_map)
  note card = card_poll_times [OF positive(1, 3)] card_poll_times [OF positive(2, 3)] card_poll_times [OF positive(1), of 60]
    card_poll_times [OF positive(2), of 60]
  have report: "dget r ''estimated_requests'' = JInt estimate" "dget r ''estimated_requests_first_minute'' = JInt first"
    "the_dict (dget r ''checks'') = map (\<lambda>(name, v). (name, JStr v)) checks"
    by (simp_all add: a(6) readiness_report_def)
  have pending: "dget (the_dict (dget r ''checks'')) ''quota_budget'' = JStr ''PENDING_OBSERVED_QUOTA'' \<longleftrightarrow> estimate \<le> run \<and> first \<le> minute"
    unfolding report(3) quota by simp
  have total: "1 + int (card (poll_times (minutes * 60) fixture)) + int (card (poll_times (minutes * 60) events)) = estimate"
    "1 + int (card (poll_times 60 fixture)) + int (card (poll_times 60 events)) = first"
    unfolding a(3, 4) using card by simp_all
  show ?thesis
    unfolding Let_def
    by (rule exI [of _ c], rule exI [of _ minutes], rule exI [of _ fixture], rule exI [of _ events], rule exI [of _ run],
      rule exI [of _ minute], unfold total) (intro conjI a(1, 2) report(1, 2) pending)
qed

section \<open>Witness\<close>

definition demo_live_config :: json where
  "demo_live_config = JObj
     [(''schema_version'', JStr ''bh-live-readonly-config/v1''), (''mode'', JStr ''LIVE_READ_ONLY''), (''enabled'', JBool False),
      (''provider'', JObj [(''id'', JStr ''API_FOOTBALL_V3''), (''base_url'', JStr ''https://v3.football.api-sports.io''),
         (''api_key_env'', JStr ''KEY''), (''fixture_ids'', JArr []), (''poll_fixture_seconds'', JInt 60), (''poll_events_seconds'', JInt 45),
         (''max_requests_per_run'', JInt 100), (''max_requests_per_minute'', JInt 4)]),
      (''operator'', JObj [(''capture_profile_path'', JNull), (''profile_evidence_hash'', JNull), (''user_session_present'', JBool False),
         (''allowed_fixture_bindings'', JArr [])]),
      (''runtime'', JObj [(''host'', JStr ''127.0.0.1''), (''port'', JInt 8765), (''max_matches'', JInt 1), (''max_run_minutes'', JInt 10),
         (''platform_qualification_path'', JNull)]),
      (''gates'', JObj [(''offline_result_path'', JNull), (''security_review_path'', JNull), (''provider_feasibility_path'', JNull),
         (''live_run_authorization_path'', JNull)]),
      (''model_enabled'', JBool False), (''paper_enabled'', JBool False), (''money_enabled'', JBool False),
      (''cashout_submission_enabled'', JBool False)]"

lemma demo_live_report:
  "case check_live_readiness demo_live_config (JObj []) (JObj []) of Inl _ \<Rightarrow> False | Inr r \<Rightarrow> dget r ''estimated_requests'' = JInt 25"
  by code_simp

theorem estimate_counts_the_schedule_witness:
  "\<exists>fixture events minutes. (1 + int (card (poll_times (minutes * 60) fixture)) + int (card (poll_times (minutes * 60) events)) = 25)"
proof -
  obtain r where r: "check_live_readiness demo_live_config (JObj []) (JObj []) = Inr r" "dget r ''estimated_requests'' = JInt 25"
    using demo_live_report by (auto split: sum.splits)
  show ?thesis using estimate_counts_the_schedule [OF r(1)] unfolding Let_def r(2) by auto
qed

end
