(* ===== verification/Task_Contracts.thy ===== *)
theory Task_Contracts
  imports Json_Items
begin

text \<open>
  \<^verbatim>\<open>src/moj_discovery/task_contracts.py\<close>: the semantics of a task manifest. Every command is exact and
  denied all access, and every task depends on earlier tasks, runs declared commands and touches owned paths only.
  The commands and tasks are JSON values: the source reads them from files without a prior check.
\<close>

section \<open>Placeholders\<close>

text \<open>The regular expression \<open>BAD\<close>, searched without regard to case: one of four words standing alone,
  three dots, something in angle brackets, or the start of a shell substitution. \<open>word_char\<close> is \<^verbatim>\<open>\w\<close>
  below code point 256.\<close>

definition word_char :: "char \<Rightarrow> bool" where
  "word_char c = (let n = (of_char c :: nat) in
     (48 \<le> n \<and> n \<le> 57) \<or> (65 \<le> n \<and> n \<le> 90) \<or> n = 95 \<or> (97 \<le> n \<and> n \<le> 122) \<or>
     n \<in> {170, 178, 179, 181, 185, 186, 188, 189, 190} \<or> (192 \<le> n \<and> n \<noteq> 215 \<and> n \<noteq> 247))"

definition upper_char :: "char \<Rightarrow> char" where
  "upper_char c = (let n = (of_char c :: nat) in if 97 \<le> n \<and> n \<le> 122 then char_of (n - 32) else c)"

definition lone_word :: "char option \<Rightarrow> string \<Rightarrow> string \<Rightarrow> bool" where
  "lone_word before s w =
     ((case before of None \<Rightarrow> True | Some c \<Rightarrow> \<not> word_char c) \<and> map upper_char (take (length w) s) = w \<and>
      (case drop (length w) s of [] \<Rightarrow> True | c # _ \<Rightarrow> \<not> word_char c))"

definition angle_brackets :: "string \<Rightarrow> bool" where
  "angle_brackets s = (case s of [] \<Rightarrow> False
     | c # cs \<Rightarrow> c = CHR ''<'' \<and> takeWhile (\<lambda>x. x \<noteq> CHR ''>'') cs \<noteq> [] \<and> CHR ''>'' \<in> set cs)"

definition placeholder_here :: "char option \<Rightarrow> string \<Rightarrow> bool" where
  "placeholder_here before s =
     (list_ex (lone_word before s) [''TODO'', ''TBD'', ''FIXME'', ''PLACEHOLDER''] \<or> starts_with s ''...'' \<or> angle_brackets s \<or>
      starts_with s ''${'' \<or> starts_with s ''$('' \<or> starts_with s [CHR 0x60])"

fun placeholder_from :: "char option \<Rightarrow> string \<Rightarrow> bool" where
  "placeholder_from before [] = False"
| "placeholder_from before (c # cs) = (placeholder_here before (c # cs) \<or> placeholder_from (Some c) cs)"

section \<open>Commands\<close>

text \<open>An argument after \<open>-c\<close> is program text and may look like a placeholder.\<close>

definition token_invalid :: "json option \<Rightarrow> json \<Rightarrow> bool" where
  "token_invalid before v = (case v of
      JStr s \<Rightarrow> strip s = [] \<or> (before \<noteq> Some (JStr ''-c'') \<and> placeholder_from None s)
    | _ \<Rightarrow> True)"

fun some_token_invalid :: "json option \<Rightarrow> json list \<Rightarrow> bool" where
  "some_token_invalid before [] = False"
| "some_token_invalid before (v # vs) = (token_invalid before v \<or> some_token_invalid (Some v) vs)"

definition DENIED_ACCESS :: "string list" where
  "DENIED_ACCESS = [''network'', ''provider_access'', ''authenticated_operator_access'']"

definition command_step :: "string list \<Rightarrow> json \<Rightarrow> string list res" where
  "command_step ids command =
     bindR (jget command ''command_id'') (\<lambda>command_id.
     bindR (jget command ''argv'') (\<lambda>argv.
     bindR (raise_if (\<not> is_str command_id \<or> the_str command_id \<in> set ids \<or> \<not> is_list argv \<or> the_list argv = [])
       (ValueError ''E_COMMAND_SHAPE'')) (\<lambda>_.
     bindR (raise_if (some_token_invalid None (the_list argv)) (ValueError ''E_COMMAND_PLACEHOLDER'')) (\<lambda>_.
     bindR (raise_if (list_ex (\<lambda>k. \<not> str_is (dget (the_dict command) k) ''DENY'') DENIED_ACCESS) (ValueError ''E_COMMAND_AUTHORITY'')) (\<lambda>_.
       Inr (the_str command_id # ids))))))"

section \<open>Tasks\<close>

definition TASK_AUTHORITIES :: "string list" where
  "TASK_AUTHORITIES = [''PLAN_AUTHORING'', ''DISCOVERY_IMPLEMENTATION'', ''REVIEW_TOOLING'', ''EXTERNAL_REVIEW'']"

definition PATH_FIELDS :: "string list" where
  "PATH_FIELDS = [''outputs'', ''exact_files'', ''evidence_artifacts'']"

text \<open>A path that is not owned stands for the only relative owned path that it ends in.\<close>

definition suffix_matches :: "string list \<Rightarrow> string \<Rightarrow> string list" where
  "suffix_matches owned p = filter (\<lambda>q. \<not> starts_with q ''/'' \<and> ends_with p (CHR ''/'' # q)) (remdups owned)"

definition normalized_path :: "string list \<Rightarrow> json \<Rightarrow> json" where
  "normalized_path owned path = (case path of
      JStr p \<Rightarrow> if p \<in> set owned then path else (case suffix_matches owned p of [q] \<Rightarrow> JStr q | _ \<Rightarrow> path)
    | _ \<Rightarrow> path)"

definition check_owned :: "string list \<Rightarrow> json \<Rightarrow> unit res" where
  "check_owned owned path = refuse_if (notR (in_strs (normalized_path owned path) owned)) ''E_UNOWNED''"

definition check_paths :: "string list \<Rightarrow> obj \<Rightarrow> string \<Rightarrow> unit res" where
  "check_paths owned task k = bindR (iter_values (dget_or task k (JArr []))) (\<lambda>paths. foldR (\<lambda>_. check_owned owned) () paths)"

definition rollback_invalid :: "json \<Rightarrow> bool" where
  "rollback_invalid v = (case v of
      JArr items \<Rightarrow> items = [] \<or> list_ex (\<lambda>w. \<not> is_str w \<or> strip (the_str w) = []) items
    | _ \<Rightarrow> True)"

definition task_step :: "string list \<Rightarrow> string list \<Rightarrow> string list \<Rightarrow> json \<Rightarrow> string list res" where
  "task_step command_ids owned seen task =
     bindR (jget task ''task_id'') (\<lambda>task_id.
     bindR (raise_if (\<not> is_str task_id \<or> the_str task_id \<in> set seen) (ValueError ''E_TASK_ID'')) (\<lambda>_.
     bindR (jget task ''authority'') (\<lambda>authority.
     bindR (refuse_if (notR (in_strs authority TASK_AUTHORITIES)) ''E_TASK_AUTHORITY'') (\<lambda>_.
     bindR (jget task ''dependencies'') (\<lambda>dependencies.
     bindR (refuse_if (orR (Inr (\<not> is_list dependencies)) (anyR (\<lambda>d. notR (in_strs d seen)) (the_list dependencies)))
       ''E_DEPENDENCY_UNKNOWN_OR_FUTURE'') (\<lambda>_.
     bindR (jget task ''rollback'') (\<lambda>rollback.
     bindR (raise_if (rollback_invalid rollback) (ValueError ''E_EMPTY_ROLLBACK'')) (\<lambda>_.
     bindR (jget task ''exact_command_ids'') (\<lambda>refs.
     bindR (refuse_if (orR (Inr (\<not> is_list refs \<or> the_list refs = [])) (anyR (\<lambda>r. notR (in_strs r command_ids)) (the_list refs)))
       ''E_TASK_COMMAND'') (\<lambda>_.
     bindR (foldR (\<lambda>_. check_paths owned (the_dict task)) () PATH_FIELDS) (\<lambda>_.
       Inr (the_str task_id # seen))))))))))))"

definition validate_task_manifest_semantics :: "obj \<Rightarrow> json list \<Rightarrow> string list \<Rightarrow> obj res" where
  "validate_task_manifest_semantics manifest commands owned =
     bindR (raise_if (\<not> str_is (dget manifest ''authority'') ''PLAN_ONLY'' \<or>
       \<not> str_is (dget manifest ''authorized_production_phases'') ''NONE'') (ValueError ''E_PRODUCTION_AUTHORITY'')) (\<lambda>_.
     bindR (raise_if (\<not> is_list (dget manifest ''tasks'') \<or>
       \<not> py_eq (dget manifest ''declared_task_count'') (JInt (int (length (the_list (dget manifest ''tasks''))))))
       (ValueError ''E_TASK_COUNT'')) (\<lambda>_.
     bindR (foldR command_step [] commands) (\<lambda>command_ids.
     bindR (foldR (task_step command_ids owned) [] (the_list (dget manifest ''tasks''))) (\<lambda>seen.
       Inr [(''result'', JStr ''PASS''), (''task_count'', JInt (int (length (the_list (dget manifest ''tasks''))))),
         (''command_count'', JInt (int (length command_ids)))]))))"

end
