(* ===== verification/Artifact_Ownership.thy ===== *)
theory Artifact_Ownership
  imports Task_Contracts
begin

text \<open>
  \<^verbatim>\<open>src/moj_discovery/artifact_ownership.py\<close>: the lifecycle of artifacts. Every artifact has a valid
  source, an owner among the tasks or none, and is modified, qualified and consumed only at or after its creation;
  every path a task names belongs to an artifact that names the task. The verdict of the JSON Schema is a parameter,
  if a schema is given.
\<close>

section \<open>Sources\<close>

definition filled :: "json \<Rightarrow> bool" where
  "filled v = (case v of JStr s \<Rightarrow> strip s \<noteq> [] | _ \<Rightarrow> False)"

definition source_fits :: "json \<Rightarrow> json \<Rightarrow> bool res" where
  "source_fits classification source =
     bindR (in_strs classification [''BASELINE_INPUT'', ''PLAN_SEED'', ''GENERATED_OUTPUT'']) (\<lambda>plain.
     if plain then Inr (case source of JObj d \<Rightarrow> keys_eq d [''path''] \<and> filled (dget d ''path'') | _ \<Rightarrow> False)
     else if str_is classification ''BASELINE_COPY'' then
       Inr (case source of
           JObj d \<Rightarrow> keys_eq d [''path'', ''sha256''] \<and> filled (dget d ''path'') \<and> is_str (dget d ''sha256'') \<and> hex64 (the_str (dget d ''sha256''))
         | _ \<Rightarrow> False)
     else if str_is classification ''TASK_OUTPUT'' \<or> str_is classification ''EVIDENCE_OUTPUT'' then Inr (source = JNull)
     else if str_is classification ''EXTERNAL_INPUT'' then
       Inr (case source of
           JObj d \<Rightarrow> (keys_eq d [''path'', ''binding''] \<or> keys_eq d [''path'', ''binding'', ''creation_owner'', ''creation_command'']) \<and>
             list_all (\<lambda>(_, v). filled v) d
         | _ \<Rightarrow> False)
     else Inr False)"

definition source_valid :: "obj \<Rightarrow> bool res" where
  "source_valid entry =
     bindR (ditem entry ''source'') (\<lambda>source. bindR (ditem entry ''classification'') (\<lambda>c. source_fits c source))"

section \<open>Paths\<close>

text \<open>\<^verbatim>\<open>value.split("::", 1)[0]\<close> and \<^verbatim>\<open>value.removeprefix(p)\<close>.\<close>

fun before_colons :: "string \<Rightarrow> string" where
  "before_colons [] = []"
| "before_colons (c # cs) = (if starts_with (c # cs) ''::'' then [] else c # before_colons cs)"

definition removeprefix :: "string \<Rightarrow> string \<Rightarrow> string" where
  "removeprefix p s = (if starts_with s p then drop (length p) s else s)"

definition artifact_path :: "string \<Rightarrow> string list \<Rightarrow> json \<Rightarrow> string res" where
  "artifact_path root owned v = (case v of
      JStr text \<Rightarrow>
        (let s = before_colons text; normalized = removeprefix (root @ ''/'') s in
         Inr (if normalized \<in> set owned then normalized else case suffix_matches owned s of [q] \<Rightarrow> q | _ \<Rightarrow> s))
    | _ \<Rightarrow> Inl AttributeError)"

section \<open>Order of tasks\<close>

text \<open>The dict from task identifiers to positions, in which the last position of an identifier stays. Only
  strings are looked up in it.\<close>

fun last_index :: "json list \<Rightarrow> string \<Rightarrow> nat option" where
  "last_index [] s = None"
| "last_index (v # vs) s = (case last_index vs s of Some i \<Rightarrow> Some (Suc i) | None \<Rightarrow> if v = JStr s then Some 0 else None)"

definition task_ids :: "json list \<Rightarrow> json list res" where
  "task_ids tasks = mapR (\<lambda>task. bindR (jitem task ''task_id'') (\<lambda>i. if hashable i then Inr i else Inl TypeError)) tasks"

definition known_task :: "json list \<Rightarrow> json \<Rightarrow> bool" where
  "known_task ids v = (case v of JStr s \<Rightarrow> last_index ids s \<noteq> None | _ \<Rightarrow> False)"

definition position :: "json list \<Rightarrow> json \<Rightarrow> nat" where
  "position ids v = the (last_index ids (the_str v))"

text \<open>\<^verbatim>\<open>owner is not None and order[v] < order[owner]\<close>.\<close>

definition before_owner :: "json list \<Rightarrow> json \<Rightarrow> json \<Rightarrow> bool" where
  "before_owner ids owner v = (owner \<noteq> JNull \<and> position ids v < position ids owner)"

section \<open>Entries\<close>

definition tagged :: "string \<Rightarrow> string \<Rightarrow> exn" where
  "tagged code path = ValueError (code @ '':'' @ path)"

definition check_creation :: "json list \<Rightarrow> obj \<Rightarrow> string \<Rightarrow> json \<Rightarrow> unit res" where
  "check_creation ids entry path owner =
     (if owner = JNull then bindR (ditem entry ''source'') (\<lambda>source. raise_if (\<not> truthy source) (tagged ''E_OWNER_MISSING'' path))
      else raise_if (\<not> filled owner \<or> \<not> known_task ids owner) (tagged ''E_OWNER_UNKNOWN'' path))"

definition check_modifier :: "json list \<Rightarrow> string \<Rightarrow> json \<Rightarrow> json \<Rightarrow> unit res" where
  "check_modifier ids path owner v = raise_if (\<not> known_task ids v \<or> before_owner ids owner v) (tagged ''E_MODIFIER_ORDER'' path)"

definition check_qualification :: "json list \<Rightarrow> string \<Rightarrow> json \<Rightarrow> json \<Rightarrow> unit res" where
  "check_qualification ids path owner v =
     raise_if (v \<noteq> JNull \<and> (\<not> known_task ids v \<or> before_owner ids owner v)) (tagged ''E_QUALIFICATION_ORDER'' path)"

definition check_consumer :: "json list \<Rightarrow> string \<Rightarrow> json \<Rightarrow> json \<Rightarrow> unit res" where
  "check_consumer ids path owner v =
     bindR (raise_if (\<not> known_task ids v) (tagged ''E_CONSUMER_UNKNOWN'' path)) (\<lambda>_.
       raise_if (before_owner ids owner v) (tagged ''E_CONSUMER_BEFORE_OWNER'' path))"

definition each_of :: "(json \<Rightarrow> unit res) \<Rightarrow> json \<Rightarrow> unit res" where
  "each_of f v = bindR (iter_values v) (\<lambda>xs. foldR (\<lambda>_. f) () xs)"

definition entry_step :: "json list \<Rightarrow> string list \<Rightarrow> json \<Rightarrow> string list res" where
  "entry_step ids paths entry = (case entry of
      JObj e \<Rightarrow>
        (let path = dget e ''path''; p = the_str path; owner = dget e ''creation_owner'' in
         bindR (raise_if (\<not> is_str path \<or> p = [] \<or> p \<in> set paths) (ValueError ''E_OWNER_DUPLICATE'')) (\<lambda>_.
         bindR (source_valid e) (\<lambda>ok.
         bindR (raise_if (\<not> ok) (tagged ''E_OWNER_SOURCE'' p)) (\<lambda>_.
         bindR (check_creation ids e p owner) (\<lambda>_.
         bindR (each_of (check_modifier ids p owner) (dget_or e ''modifying_tasks'' (JArr []))) (\<lambda>_.
         bindR (check_qualification ids p owner (dget e ''qualification_owner'')) (\<lambda>_.
         bindR (each_of (check_consumer ids p owner) (dget_or e ''consumers'' (JArr []))) (\<lambda>_.
           Inr (p # paths)))))))))
    | _ \<Rightarrow> Inl (ValueError ''E_OWNER_SCHEMA''))"

section \<open>Paths of tasks\<close>

text \<open>\<^verbatim>\<open>v in container\<close> for a hashable \<open>v\<close>: elements of a list, keys of a dict, parts of a string.\<close>

definition contains :: "json \<Rightarrow> json \<Rightarrow> bool res" where
  "contains container v = (case container of
      JArr xs \<Rightarrow> Inr (list_ex (py_eq v) xs)
    | JObj d \<Rightarrow> Inr (list_ex (\<lambda>k. v = JStr k) (dkeys d))
    | JStr s \<Rightarrow> (case v of JStr t \<Rightarrow> Inr (is_substring t s) | _ \<Rightarrow> Inl TypeError)
    | _ \<Rightarrow> Inl TypeError)"

text \<open>\<^verbatim>\<open>v in {entry["creation_owner"], *entry["modifying_tasks"]}\<close>.\<close>

definition maker_of :: "obj \<Rightarrow> json \<Rightarrow> bool res" where
  "maker_of entry v =
     bindR (ditem entry ''creation_owner'') (\<lambda>owner.
     bindR (bindR (ditem entry ''modifying_tasks'') iter_values) (\<lambda>modifiers.
       if list_all hashable (owner # modifiers) then Inr (list_ex (py_eq v) (owner # modifiers)) else Inl TypeError))"

definition entry_at :: "json list \<Rightarrow> string \<Rightarrow> obj option" where
  "entry_at entries path = map_of (map (\<lambda>e. (the_str (dget (the_dict e) ''path''), the_dict e)) entries) path"

definition check_task_value :: "string \<Rightarrow> json list \<Rightarrow> json \<Rightarrow> string \<Rightarrow> json \<Rightarrow> unit res" where
  "check_task_value root entries task_id kind v =
     bindR (artifact_path root (map (\<lambda>e. the_str (dget (the_dict e) ''path'')) entries) v) (\<lambda>path.
     case entry_at entries path of
       None \<Rightarrow> Inl (tagged ''E_UNOWNED'' (the_str v))
     | Some entry \<Rightarrow>
         bindR (if kind = ''outputs'' then bindR (maker_of entry task_id) (\<lambda>b. raise_if (\<not> b) (tagged ''E_OUTPUT_OWNER'' (the_str v)))
                else Inr ()) (\<lambda>_.
         bindR (bindR (ditem entry ''consumers'') (\<lambda>c. contains c task_id)) (\<lambda>consumes.
         bindR (if consumes then Inr False else bindR (ditem entry ''creation_owner'') (\<lambda>o'. Inr (\<not> py_eq task_id o'))) (\<lambda>b.
           raise_if b (tagged ''E_CONSUMER_UNDECLARED'' (the_str v))))))"

definition check_task_paths :: "string \<Rightarrow> json list \<Rightarrow> json \<Rightarrow> unit res" where
  "check_task_paths root entries task =
     bindR (jitem task ''task_id'') (\<lambda>task_id.
       foldR (\<lambda>_ kind. bindR (jitem task kind) (each_of (check_task_value root entries task_id kind))) () PATH_FIELDS)"

definition manifest_tasks :: "obj \<Rightarrow> json list res" where
  "manifest_tasks manifest = bindR (ditem manifest ''tasks'') iter_values"

definition validate_artifact_lifecycle :: "obj \<Rightarrow> obj \<Rightarrow> string \<Rightarrow> (obj \<Rightarrow> bool) option \<Rightarrow> obj res" where
  "validate_artifact_lifecycle registry manifest root schema =
     bindR (raise_if (case schema of None \<Rightarrow> False | Some valid \<Rightarrow> \<not> valid registry) (ValueError ''E_OWNER_SCHEMA'')) (\<lambda>_.
     bindR (manifest_tasks manifest) (\<lambda>tasks.
     bindR (task_ids tasks) (\<lambda>ids.
     bindR (raise_if (\<not> is_list (dget registry ''entries'')) (ValueError ''E_OWNER_REGISTRY'')) (\<lambda>_.
     (let entries = the_list (dget registry ''entries'') in
      bindR (foldR (entry_step ids) [] entries) (\<lambda>_.
      bindR (foldR (\<lambda>_. check_task_paths root entries) () tasks) (\<lambda>_.
        Inr [(''result'', JStr ''PASS''), (''artifact_count'', JInt (int (length entries)))])))))))"

end
