(* ===== verification/Task_Props.thy ===== *)
theory Task_Props
  imports Artifact_Ownership
begin

text \<open>
  Properties of accepted plans: the tasks are ordered by their dependencies, they run exact commands without
  access, and artifacts are created before they are changed or consumed, by the tasks that put them out.
\<close>

section \<open>Loops of checks\<close>

lemma foldR_checks: "foldR (\<lambda>_. f) () xs = Inr (u :: unit) \<longleftrightarrow> (\<forall>x \<in> set xs. f x = Inr ())"
  by (induction xs) auto

section \<open>Commands\<close>

definition exact_command :: "json \<Rightarrow> bool" where
  "exact_command c \<longleftrightarrow> the_list (dget (the_dict c) ''argv'') \<noteq> [] \<and> \<not> some_token_invalid None (the_list (dget (the_dict c) ''argv'')) \<and>
     (\<forall>k \<in> set DENIED_ACCESS. dget (the_dict c) k = JStr ''DENY'')"

lemma jget_Inr: "jget v k = Inr w \<longleftrightarrow> is_dict v \<and> dget (the_dict v) k = w"
  by (cases v) auto

lemma command_step_Inr:
  assumes "command_step ids c = Inr ids'"
  shows "\<exists>i. ids' = i # ids \<and> dget (the_dict c) ''command_id'' = JStr i \<and> exact_command c"
proof -
  from assms obtain command_id argv u v w where
    c: "jget c ''command_id'' = Inr command_id" "jget c ''argv'' = Inr argv"
      "raise_if (\<not> is_str command_id \<or> the_str command_id \<in> set ids \<or> \<not> is_list argv \<or> the_list argv = [])
        (ValueError ''E_COMMAND_SHAPE'') = Inr u"
      "raise_if (some_token_invalid None (the_list argv)) (ValueError ''E_COMMAND_PLACEHOLDER'') = Inr v"
      "raise_if (list_ex (\<lambda>k. \<not> str_is (dget (the_dict c) k) ''DENY'') DENIED_ACCESS) (ValueError ''E_COMMAND_AUTHORITY'') = Inr w"
      "Inr (the_str command_id # ids) = (Inr ids' :: string list res)"
    unfolding command_step_def by (elim bindR_E) (rule that)
  from c(3) obtain i where "command_id = JStr i" by (cases command_id) simp_all
  with c show ?thesis by (simp add: jget_Inr exact_command_def list_ex_iff)
qed

lemma command_loop:
  "foldR command_step ids cs = Inr ids' \<Longrightarrow> i \<in> set ids' \<Longrightarrow>
     i \<in> set ids \<or> (\<exists>c \<in> set cs. dget (the_dict c) ''command_id'' = JStr i \<and> exact_command c)"
proof (induction cs arbitrary: ids)
  case (Cons c cs)
  then obtain k where "foldR command_step (k # ids) cs = Inr ids'" "dget (the_dict c) ''command_id'' = JStr k" "exact_command c"
    using command_step_Inr by fastforce
  with Cons.IH [of "k # ids"] Cons.prems(2) show ?case by auto
qed simp

section \<open>Tasks\<close>

definition task_name :: "json \<Rightarrow> string" where
  "task_name t = the_str (dget (the_dict t) ''task_id'')"

definition task_items :: "json \<Rightarrow> string \<Rightarrow> json set" where
  "task_items t k = set (the_list (dget (the_dict t) k))"

lemma in_strs_list: "anyR (\<lambda>d. notR (in_strs d ss)) ds = Inr False \<longleftrightarrow> (\<forall>d \<in> set ds. \<exists>s \<in> set ss. d = JStr s)"
  by (auto simp: anyR_eq_False in_strs_True)

lemma task_step_Inr:
  assumes "task_step ids owned seen t = Inr seen'"
  shows "seen' = task_name t # seen" "task_name t \<notin> set seen" "dget (the_dict t) ''task_id'' = JStr (task_name t)"
    "\<forall>d \<in> task_items t ''dependencies''. \<exists>s \<in> set seen. d = JStr s"
    "task_items t ''exact_command_ids'' \<noteq> {}" "\<forall>r \<in> task_items t ''exact_command_ids''. \<exists>s \<in> set ids. r = JStr s"
    "\<forall>k \<in> set PATH_FIELDS. check_paths owned (the_dict t) k = Inr ()"
proof -
  from assms obtain task_id authority dependencies rollback refs u1 u2 u3 u4 u5 u6 where
    c: "jget t ''task_id'' = Inr task_id"
      "raise_if (\<not> is_str task_id \<or> the_str task_id \<in> set seen) (ValueError ''E_TASK_ID'') = Inr u1"
      "jget t ''authority'' = Inr authority"
      "refuse_if (notR (in_strs authority TASK_AUTHORITIES)) ''E_TASK_AUTHORITY'' = Inr u2"
      "jget t ''dependencies'' = Inr dependencies"
      "refuse_if (orR (Inr (\<not> is_list dependencies)) (anyR (\<lambda>d. notR (in_strs d seen)) (the_list dependencies)))
        ''E_DEPENDENCY_UNKNOWN_OR_FUTURE'' = Inr u3"
      "jget t ''rollback'' = Inr rollback"
      "raise_if (rollback_invalid rollback) (ValueError ''E_EMPTY_ROLLBACK'') = Inr u4"
      "jget t ''exact_command_ids'' = Inr refs"
      "refuse_if (orR (Inr (\<not> is_list refs \<or> the_list refs = [])) (anyR (\<lambda>r. notR (in_strs r ids)) (the_list refs)))
        ''E_TASK_COMMAND'' = Inr u5"
      "foldR (\<lambda>_. check_paths owned (the_dict t)) () PATH_FIELDS = Inr u6"
      "Inr (the_str task_id # seen) = (Inr seen' :: string list res)"
    unfolding task_step_def by (elim bindR_E) (rule that)
  from c(1, 2, 12) show "seen' = task_name t # seen" "task_name t \<notin> set seen" "dget (the_dict t) ''task_id'' = JStr (task_name t)"
    by (cases task_id; simp add: jget_Inr task_name_def)+
  from c(5, 6) show "\<forall>d \<in> task_items t ''dependencies''. \<exists>s \<in> set seen. d = JStr s"
    by (simp add: refuse_if_Inr in_strs_list jget_Inr task_items_def)
  from c(9, 10) show "task_items t ''exact_command_ids'' \<noteq> {}" "\<forall>r \<in> task_items t ''exact_command_ids''. \<exists>s \<in> set ids. r = JStr s"
    by (simp_all add: refuse_if_Inr in_strs_list jget_Inr task_items_def)
  from c(11) show "\<forall>k \<in> set PATH_FIELDS. check_paths owned (the_dict t) k = Inr ()" by (simp only: foldR_checks)
qed

lemma task_loop:
  "foldR (task_step ids owned) seen ts = Inr seen' \<Longrightarrow> distinct seen \<Longrightarrow>
     distinct (map task_name ts) \<and> set (map task_name ts) \<inter> set seen = {} \<and>
     (\<forall>i < length ts. \<forall>d \<in> task_items (ts ! i) ''dependencies''. \<exists>s \<in> set seen \<union> task_name ` set (take i ts). d = JStr s)"
proof (induction ts arbitrary: seen)
  case (Cons t ts)
  then obtain seen1 where t: "task_step ids owned seen t = Inr seen1" and ts: "foldR (task_step ids owned) seen1 ts = Inr seen'" by auto
  note s = task_step_Inr [OF t]
  have "distinct seen1" using s(1, 2) Cons.prems(2) by simp
  note IH = Cons.IH [OF ts this]
  show ?case
  proof (intro conjI allI impI ballI)
    show "distinct (map task_name (t # ts))" "set (map task_name (t # ts)) \<inter> set seen = {}" using IH s(1, 2) by auto
    fix i d
    assume i: "i < length (t # ts)" and d: "d \<in> task_items ((t # ts) ! i) ''dependencies''"
    show "\<exists>s \<in> set seen \<union> task_name ` set (take i (t # ts)). d = JStr s"
    proof (cases i)
      case 0
      with d s(4) show ?thesis by simp
    next
      case (Suc j)
      then have "j < length ts" "d \<in> task_items (ts ! j) ''dependencies''" using d i by simp_all
      with IH obtain s' where "s' \<in> set seen1 \<union> task_name ` set (take j ts)" "d = JStr s'" by blast
      moreover have "set seen1 \<union> task_name ` set (take j ts) \<subseteq> set seen \<union> task_name ` set (take i (t # ts))" using s(1) Suc by auto
      ultimately show ?thesis by blast
    qed
  qed
qed simp

lemma task_loop_each: "foldR (task_step ids owned) seen ts = Inr seen' \<Longrightarrow> t \<in> set ts \<Longrightarrow> \<exists>u v. task_step ids owned u t = Inr v"
  by (induction ts arbitrary: seen) auto

lemma manifest_Inr:
  assumes "validate_task_manifest_semantics manifest commands owned = Inr r"
  obtains ids seen where "is_list (dget manifest ''tasks'')" "foldR command_step [] commands = Inr ids"
    "foldR (task_step ids owned) [] (the_list (dget manifest ''tasks'')) = Inr seen"
proof -
  from assms obtain u ids seen where
    "raise_if (\<not> is_list (dget manifest ''tasks'') \<or>
       \<not> py_eq (dget manifest ''declared_task_count'') (JInt (int (length (the_list (dget manifest ''tasks''))))))
       (ValueError ''E_TASK_COUNT'') = Inr u" "foldR command_step [] commands = Inr ids"
    "foldR (task_step ids owned) [] (the_list (dget manifest ''tasks'')) = Inr seen"
    unfolding validate_task_manifest_semantics_def by (elim bindR_E) (rule that)
  with that show thesis by simp
qed

section \<open>The order of tasks\<close>

definition dependency_edges :: "json list \<Rightarrow> (string \<times> string) set" where
  "dependency_edges ts = {(d, task_name t) | d t. t \<in> set ts \<and> JStr d \<in> task_items t ''dependencies''}"

text \<open>Edges that go forward in a list without repetitions have no cycle.\<close>

lemma first_position: "distinct (map f xs) \<Longrightarrow> i < length xs \<Longrightarrow> length (takeWhile (\<lambda>x. f x \<noteq> f (xs ! i)) xs) = i"
proof (induction xs arbitrary: i)
  case (Cons x xs)
  then show ?case by (cases i) auto
qed simp

lemma forward_acyclic:
  assumes "distinct (map f xs)" and "\<And>a b. (a, b) \<in> R \<Longrightarrow> \<exists>i j. i < j \<and> j < length xs \<and> a = f (xs ! i) \<and> b = f (xs ! j)"
  shows "acyclic R"
proof -
  let ?p = "\<lambda>a. length (takeWhile (\<lambda>x. f x \<noteq> a) xs)"
  have "R \<subseteq> measure ?p"
  proof (rule subsetI)
    fix e
    assume "e \<in> R"
    then obtain i j where "i < j" "j < length xs" "e = (f (xs ! i), f (xs ! j))" using assms(2) by (cases e) blast
    then show "e \<in> measure ?p" using first_position [OF assms(1)] by simp
  qed
  then show ?thesis by (rule acyclic_subset [rotated]) (simp add: wf_acyclic)
qed

text \<open>C27: The tasks of an accepted manifest have different names and are listed in an order in which every task
  depends on tasks before it only; so the dependencies have no cycle.\<close>

theorem accepted_plan_is_ordered:
  assumes "validate_task_manifest_semantics manifest commands owned = Inr r" and "dget manifest ''tasks'' = JArr ts"
  shows "distinct (map task_name ts) \<and>
    (\<forall>j < length ts. \<forall>d \<in> task_items (ts ! j) ''dependencies''. \<exists>i < j. d = JStr (task_name (ts ! i))) \<and>
    acyclic (dependency_edges ts)"
proof -
  from assms(1) obtain ids seen where "foldR (task_step ids owned) [] (the_list (dget manifest ''tasks'')) = Inr seen"
    by (rule manifest_Inr)
  then have "foldR (task_step ids owned) [] ts = Inr seen" by (simp only: assms(2) the_list.simps)
  note loop = task_loop [OF this distinct.simps(1) [THEN iffD2, OF TrueI]]
  have before: "\<exists>i < j. d = JStr (task_name (ts ! i))" if j: "j < length ts" "d \<in> task_items (ts ! j) ''dependencies''" for j d
  proof -
    obtain s where s: "s \<in> set [] \<union> task_name ` set (take j ts)" "d = JStr s" using loop j by blast
    then obtain t where "t \<in> set (take j ts)" "s = task_name t" by auto
    then show ?thesis using s(2) j(1) by (auto simp: in_set_conv_nth)
  qed
  have "acyclic (dependency_edges ts)"
  proof (rule forward_acyclic)
    fix a b
    assume "(a, b) \<in> dependency_edges ts"
    then obtain j where "j < length ts" "b = task_name (ts ! j)" "JStr a \<in> task_items (ts ! j) ''dependencies''"
      by (auto simp: dependency_edges_def in_set_conv_nth)
    with before show "\<exists>i j. i < j \<and> j < length ts \<and> a = task_name (ts ! i) \<and> b = task_name (ts ! j)" by blast
  qed (use loop in blast)
  with loop before show ?thesis by blast
qed

text \<open>Every task of an accepted manifest runs at least one command; each is declared, has exact arguments
  without a placeholder, and is denied the network, the provider and the operator.\<close>

theorem accepted_tasks_run_denied_commands:
  assumes "validate_task_manifest_semantics manifest commands owned = Inr r" and "dget manifest ''tasks'' = JArr ts" and "t \<in> set ts"
  shows "task_items t ''exact_command_ids'' \<noteq> {} \<and>
    (\<forall>ref \<in> task_items t ''exact_command_ids''. \<exists>c \<in> set commands. dget (the_dict c) ''command_id'' = ref \<and> exact_command c)"
proof -
  from assms(1) obtain ids seen where c: "foldR command_step [] commands = Inr ids"
    and "foldR (task_step ids owned) [] (the_list (dget manifest ''tasks'')) = Inr seen"
    by (rule manifest_Inr)
  then have "foldR (task_step ids owned) [] ts = Inr seen" by (simp only: assms(2) the_list.simps)
  then obtain u v where "task_step ids owned u t = Inr v" using task_loop_each assms(3) by blast
  note t = task_step_Inr(5, 6) [OF this]
  with command_loop [OF c] show ?thesis by fastforce
qed

end
