(* ===== verification/Artifact_Props.thy ===== *)
theory Artifact_Props
  imports Task_Props
begin

text \<open>
  Properties of accepted artifact registries, and a small plan on which the properties of plans are
  instantiated.
\<close>

section \<open>Entries\<close>

text \<open>The members that a loop over \<^verbatim>\<open>entry.get(k, [])\<close> visits.\<close>

definition members :: "obj \<Rightarrow> string \<Rightarrow> json set" where
  "members e k = (case iter_values (dget_or e k (JArr [])) of Inl _ \<Rightarrow> {} | Inr xs \<Rightarrow> set xs)"

definition entry_path :: "json \<Rightarrow> string" where
  "entry_path e = the_str (dget (the_dict e) ''path'')"

lemma each_of_members: "each_of f (dget_or e k (JArr [])) = Inr u \<Longrightarrow> \<forall>v \<in> members e k. f v = Inr ()"
  by (auto simp: each_of_def members_def foldR_checks)

text \<open>A task that uses the artifact of an entry comes no earlier than its owner.\<close>

definition not_before_owner :: "json list \<Rightarrow> obj \<Rightarrow> json \<Rightarrow> bool" where
  "not_before_owner ids e v \<longleftrightarrow> (\<exists>s j. v = JStr s \<and> last_index ids s = Some j \<and>
     (dget e ''creation_owner'' \<noteq> JNull \<longrightarrow>
       (\<exists>owner i. dget e ''creation_owner'' = JStr owner \<and> last_index ids owner = Some i \<and> i \<le> j)))"

lemma known_task_Some: "known_task ids v \<longleftrightarrow> (\<exists>s i. v = JStr s \<and> last_index ids s = Some i)"
  by (auto simp: known_task_def split: json.splits)

lemma not_before_ownerI:
  assumes "known_task ids v" "\<not> before_owner ids (dget e ''creation_owner'') v"
    and "dget e ''creation_owner'' \<noteq> JNull \<longrightarrow> known_task ids (dget e ''creation_owner'')"
  shows "not_before_owner ids e v"
  using assms by (auto simp: not_before_owner_def known_task_Some before_owner_def position_def)

lemma entry_step_Inr:
  assumes "entry_step ids paths entry = Inr paths'"
  shows "is_dict entry" "paths' = entry_path entry # paths" "entry_path entry \<notin> set paths"
    "\<forall>v \<in> members (the_dict entry) ''modifying_tasks'' \<union> members (the_dict entry) ''consumers'' \<union>
        ({dget (the_dict entry) ''qualification_owner''} - {JNull}). not_before_owner ids (the_dict entry) v"
proof -
  from assms obtain e where e: "entry = JObj e" by (cases entry) (simp_all add: entry_step_def)
  let ?p = "the_str (dget e ''path'')" and ?o = "dget e ''creation_owner''"
  from assms obtain ok u1 u2 u3 u4 u5 u6 where
    c: "raise_if (\<not> is_str (dget e ''path'') \<or> ?p = [] \<or> ?p \<in> set paths) (ValueError ''E_OWNER_DUPLICATE'') = Inr u1"
      "source_valid e = Inr ok" "raise_if (\<not> ok) (tagged ''E_OWNER_SOURCE'' ?p) = Inr u2"
      "check_creation ids e ?p ?o = Inr u3"
      "each_of (check_modifier ids ?p ?o) (dget_or e ''modifying_tasks'' (JArr [])) = Inr u4"
      "check_qualification ids ?p ?o (dget e ''qualification_owner'') = Inr u5"
      "each_of (check_consumer ids ?p ?o) (dget_or e ''consumers'' (JArr [])) = Inr u6"
      "Inr (?p # paths) = (Inr paths' :: string list res)"
    unfolding e entry_step_def json.case Let_def by (elim bindR_E) (rule that)
  have owner: "?o \<noteq> JNull \<longrightarrow> known_task ids ?o" using c(4) by (simp add: check_creation_def split: if_splits)
  have "\<forall>v \<in> members e ''modifying_tasks''. known_task ids v \<and> \<not> before_owner ids ?o v"
    using each_of_members [OF c(5)] by (simp add: check_modifier_def)
  moreover have "\<forall>v \<in> members e ''consumers''. known_task ids v \<and> \<not> before_owner ids ?o v"
    using each_of_members [OF c(7)] by (simp add: check_consumer_def)
  moreover have "\<forall>v \<in> {dget e ''qualification_owner''} - {JNull}. known_task ids v \<and> \<not> before_owner ids ?o v"
    using c(6) by (auto simp: check_qualification_def)
  ultimately show "\<forall>v \<in> members (the_dict entry) ''modifying_tasks'' \<union> members (the_dict entry) ''consumers'' \<union>
        ({dget (the_dict entry) ''qualification_owner''} - {JNull}). not_before_owner ids (the_dict entry) v"
    unfolding e the_dict.simps using not_before_ownerI [OF _ _ owner] by blast
  show "is_dict entry" "paths' = entry_path entry # paths" "entry_path entry \<notin> set paths"
    using c(1, 8) by (simp_all add: e entry_path_def)
qed

lemma entry_loop:
  "foldR (entry_step ids) paths entries = Inr paths' \<Longrightarrow> distinct paths \<Longrightarrow>
     distinct (map entry_path entries) \<and> set (map entry_path entries) \<inter> set paths = {} \<and>
     (\<forall>e \<in> set entries. is_dict e \<and> (\<forall>v \<in> members (the_dict e) ''modifying_tasks'' \<union> members (the_dict e) ''consumers'' \<union>
        ({dget (the_dict e) ''qualification_owner''} - {JNull}). not_before_owner ids (the_dict e) v))"
proof (induction entries arbitrary: paths)
  case (Cons e entries)
  then obtain q where e: "entry_step ids paths e = Inr q" and rest: "foldR (entry_step ids) q entries = Inr paths'" by auto
  note s = entry_step_Inr [OF e]
  have "distinct q" using s(2, 3) Cons.prems(2) by simp
  note IH = Cons.IH [OF rest this]
  have "distinct (map entry_path (e # entries))" "set (map entry_path (e # entries)) \<inter> set paths = {}"
    using IH s(2, 3) by auto
  then show ?case using IH s(1, 4) by (simp only: list.set ball_simps) blast
qed simp

section \<open>Paths of tasks\<close>

lemma entry_at_Some: "entry_at entries p = Some e \<Longrightarrow> \<exists>entry \<in> set entries. the_dict entry = e \<and> entry_path entry = p"
  by (auto simp: entry_at_def entry_path_def dest!: map_of_SomeD)

lemma check_task_value_Inr:
  assumes "check_task_value root entries task_id kind v = Inr u"
  obtains entry where "entry \<in> set entries" "artifact_path root (map entry_path entries) v = Inr (entry_path entry)"
    "kind = ''outputs'' \<longrightarrow> maker_of (the_dict entry) task_id = Inr True"
proof -
  have paths: "(\<lambda>e. the_str (dget (the_dict e) ''path'')) = entry_path" by (simp add: fun_eq_iff entry_path_def)
  from assms obtain p where p: "artifact_path root (map entry_path entries) v = Inr p"
    and rest: "(case entry_at entries p of
       None \<Rightarrow> Inl (tagged ''E_UNOWNED'' (the_str v))
     | Some entry \<Rightarrow>
         bindR (if kind = ''outputs'' then bindR (maker_of entry task_id) (\<lambda>b. raise_if (\<not> b) (tagged ''E_OUTPUT_OWNER'' (the_str v)))
                else Inr ()) (\<lambda>_.
         bindR (bindR (ditem entry ''consumers'') (\<lambda>c. contains c task_id)) (\<lambda>consumes.
         bindR (if consumes then Inr False else bindR (ditem entry ''creation_owner'') (\<lambda>o'. Inr (\<not> py_eq task_id o'))) (\<lambda>b.
           raise_if b (tagged ''E_CONSUMER_UNDECLARED'' (the_str v)))))) = Inr u"
    unfolding check_task_value_def paths by (elim bindR_E) (rule that)
  from rest obtain e where e: "entry_at entries p = Some e" by (cases "entry_at entries p") simp_all
  then obtain entry where entry: "entry \<in> set entries" "the_dict entry = e" "entry_path entry = p" using entry_at_Some by blast
  from rest obtain w where w: "(if kind = ''outputs'' then bindR (maker_of e task_id) (\<lambda>b. raise_if (\<not> b) (tagged ''E_OUTPUT_OWNER'' (the_str v)))
                else Inr ()) = Inr w"
    unfolding e option.case by (elim bindR_E)
  have "maker_of e task_id = Inr True" if "kind = ''outputs''"
    using w unfolding if_P [OF that] by auto
  with entry p show thesis by (intro that [of entry]) simp_all
qed

lemma check_task_paths_Inr:
  assumes "check_task_paths root entries task = Inr u" and "k \<in> set PATH_FIELDS" and "is_dict task"
    and "v \<in> task_items task k"
  shows "\<exists>entry \<in> set entries. artifact_path root (map entry_path entries) v = Inr (entry_path entry) \<and>
    (k = ''outputs'' \<longrightarrow> maker_of (the_dict entry) (dget (the_dict task) ''task_id'') = Inr True)"
proof -
  from assms(1) obtain i w where i: "jitem task ''task_id'' = Inr i"
    and w: "foldR (\<lambda>_ kind. bindR (jitem task kind) (each_of (check_task_value root entries i kind))) () PATH_FIELDS = Inr w"
    unfolding check_task_paths_def by (elim bindR_E) (rule that)
  from w assms(2) have "bindR (jitem task k) (each_of (check_task_value root entries i k)) = Inr ()" by (simp only: foldR_checks)
  then obtain c where c: "jitem task k = Inr c" "each_of (check_task_value root entries i k) c = Inr ()" by (elim bindR_E)
  have item: "jitem task k' = Inr x \<Longrightarrow> x = dget (the_dict task) k'" for k' x
    using assms(3) by (cases task) (auto simp: ditem_eq_Inr dget_def)
  obtain xs where "c = JArr xs" "v \<in> set xs"
    using assms(4) item [OF c(1)] by (cases "dget (the_dict task) k") (simp_all add: task_items_def)
  with c(2) have "check_task_value root entries i k v = Inr ()" by (simp add: each_of_def foldR_checks)
  then show ?thesis
    unfolding item [OF i, symmetric] by (rule check_task_value_Inr) blast
qed

lemma lifecycle_Inr:
  assumes "validate_artifact_lifecycle registry manifest root schema = Inr r"
  obtains entries tasks ids paths where "dget registry ''entries'' = JArr entries" "manifest_tasks manifest = Inr tasks"
    "task_ids tasks = Inr ids" "foldR (entry_step ids) [] entries = Inr paths" "\<forall>t \<in> set tasks. check_task_paths root entries t = Inr ()"
proof -
  from assms obtain tasks ids u paths w where
    c: "manifest_tasks manifest = Inr tasks" "task_ids tasks = Inr ids"
      "raise_if (\<not> is_list (dget registry ''entries'')) (ValueError ''E_OWNER_REGISTRY'') = Inr u"
      "foldR (entry_step ids) [] (the_list (dget registry ''entries'')) = Inr paths"
      "foldR (\<lambda>_. check_task_paths root (the_list (dget registry ''entries''))) () tasks = Inr w"
    unfolding validate_artifact_lifecycle_def Let_def by (elim bindR_E) (rule that)
  from c(3) have "dget registry ''entries'' = JArr (the_list (dget registry ''entries''))" by (cases "dget registry ''entries''") simp_all
  then show thesis by (rule that [OF _ c(1, 2, 4)]) (use c(5) in \<open>simp only: foldR_checks\<close>)
qed

section \<open>Properties\<close>

text \<open>C28: In an accepted registry every artifact has one entry, and every task that modifies, qualifies or consumes
  it is known and comes no earlier than the task that creates it.\<close>

theorem artifacts_are_created_first:
  assumes "validate_artifact_lifecycle registry manifest root schema = Inr r"
  shows "\<exists>entries tasks ids. dget registry ''entries'' = JArr entries \<and> manifest_tasks manifest = Inr tasks \<and>
    task_ids tasks = Inr ids \<and> distinct (map entry_path entries) \<and>
    (\<forall>e \<in> set entries. \<forall>v \<in> members (the_dict e) ''modifying_tasks'' \<union> members (the_dict e) ''consumers'' \<union>
        ({dget (the_dict e) ''qualification_owner''} - {JNull}). not_before_owner ids (the_dict e) v)"
  using assms
proof (rule lifecycle_Inr)
  fix entries tasks ids paths
  assume a: "dget registry ''entries'' = JArr entries" "manifest_tasks manifest = Inr tasks" "task_ids tasks = Inr ids"
    and "foldR (entry_step ids) [] entries = Inr paths"
  from entry_loop [OF this(4) distinct.simps(1) [THEN iffD2, OF TrueI]] a show ?thesis by blast
qed

text \<open>Every path that a task names, as an output, an exact file or evidence, resolves to an artifact of the
  accepted registry, and an output to one that names the task as its creator or as a modifier.\<close>

theorem outputs_have_their_maker:
  assumes "validate_artifact_lifecycle registry manifest root schema = Inr r"
    and "dget manifest ''tasks'' = JArr ts" and "t \<in> set ts" and "is_dict t" and "k \<in> set PATH_FIELDS" and "v \<in> task_items t k"
  shows "\<exists>entries entry. dget registry ''entries'' = JArr entries \<and> entry \<in> set entries \<and>
    artifact_path root (map entry_path entries) v = Inr (entry_path entry) \<and>
    (k = ''outputs'' \<longrightarrow> maker_of (the_dict entry) (dget (the_dict t) ''task_id'') = Inr True)"
  using assms(1)
proof (rule lifecycle_Inr)
  fix entries tasks
  assume a: "dget registry ''entries'' = JArr entries" "manifest_tasks manifest = Inr tasks"
    "\<forall>t \<in> set tasks. check_task_paths root entries t = Inr ()"
  from a(2) assms(2) have "tasks = ts" by (auto simp: manifest_tasks_def ditem_eq_Inr dget_def)
  with a(3) assms(3) have "check_task_paths root entries t = Inr ()" by simp
  from check_task_paths_Inr [OF this assms(5, 4, 6)] a(1) show ?thesis by blast
qed

section \<open>Witnesses\<close>

definition demo_task :: "string \<Rightarrow> string list \<Rightarrow> string list \<Rightarrow> json" where
  "demo_task name dependencies outputs = JObj
     [(''task_id'', JStr name), (''authority'', JStr ''DISCOVERY_IMPLEMENTATION''), (''dependencies'', JArr (map JStr dependencies)),
      (''rollback'', JArr [JStr ''revert'']), (''exact_command_ids'', JArr [JStr ''C1'']), (''outputs'', JArr (map JStr outputs)),
      (''exact_files'', JArr [JStr ''/repo/src/a.py::test'']), (''evidence_artifacts'', JArr [])]"

definition demo_tasks :: "json list" where
  "demo_tasks = [demo_task ''T1'' [] [''src/a.py''], demo_task ''T2'' [''T1''] []]"

definition demo_manifest :: obj where
  "demo_manifest = [(''authority'', JStr ''PLAN_ONLY''), (''authorized_production_phases'', JStr ''NONE''),
     (''declared_task_count'', JInt 2), (''tasks'', JArr demo_tasks)]"

definition demo_commands :: "json list" where
  "demo_commands = [JObj ([(''command_id'', JStr ''C1''), (''argv'', JArr [JStr ''python'', JStr ''-c'', JStr ''<program>''])] @
     map (\<lambda>k. (k, JStr ''DENY'')) DENIED_ACCESS)]"

definition demo_registry_of_artifacts :: obj where
  "demo_registry_of_artifacts = [(''entries'', JArr [JObj [(''path'', JStr ''src/a.py''), (''classification'', JStr ''TASK_OUTPUT''),
     (''source'', JNull), (''creation_owner'', JStr ''T1''), (''modifying_tasks'', JArr []),
     (''consumers'', JArr [JStr ''T1'', JStr ''T2''])]])]"

lemma demo_plan_accepted:
  "validate_task_manifest_semantics demo_manifest demo_commands [''src/a.py'', ''/repo/src/a.py::test''] =
     Inr [(''result'', JStr ''PASS''), (''task_count'', JInt 2), (''command_count'', JInt 1)]"
  by code_simp

lemma demo_registry_accepted:
  "validate_artifact_lifecycle demo_registry_of_artifacts demo_manifest ''/repo'' None =
     Inr [(''result'', JStr ''PASS''), (''artifact_count'', JInt 1)]"
  by code_simp

lemma demo_manifest_tasks: "dget demo_manifest ''tasks'' = JArr demo_tasks"
  by (simp add: demo_manifest_def)

lemma demo_first_task: "demo_task ''T1'' [] [''src/a.py''] \<in> set demo_tasks"
  by (simp add: demo_tasks_def)

theorem accepted_plan_is_ordered_witness: "acyclic (dependency_edges demo_tasks)"
  using accepted_plan_is_ordered [OF demo_plan_accepted demo_manifest_tasks] by blast

theorem accepted_tasks_run_denied_commands_witness:
  "task_items (demo_task ''T1'' [] [''src/a.py'']) ''exact_command_ids'' \<noteq> {}"
  using accepted_tasks_run_denied_commands [OF demo_plan_accepted demo_manifest_tasks demo_first_task] by blast

theorem artifacts_are_created_first_witness:
  "\<exists>tasks ids. manifest_tasks demo_manifest = Inr tasks \<and> task_ids tasks = Inr ids"
  using artifacts_are_created_first [OF demo_registry_accepted] by blast

theorem outputs_have_their_maker_witness:
  "\<exists>entries entry. dget demo_registry_of_artifacts ''entries'' = JArr entries \<and> entry \<in> set entries \<and>
     maker_of (the_dict entry) (JStr ''T1'') = Inr True"
proof -
  have "is_dict (demo_task ''T1'' [] [''src/a.py''])" "''outputs'' \<in> set PATH_FIELDS"
    "JStr ''src/a.py'' \<in> task_items (demo_task ''T1'' [] [''src/a.py'']) ''outputs''"
    "dget (the_dict (demo_task ''T1'' [] [''src/a.py''])) ''task_id'' = JStr ''T1''"
    by (simp_all add: demo_task_def PATH_FIELDS_def task_items_def)
  with outputs_have_their_maker [OF demo_registry_accepted demo_manifest_tasks demo_first_task this(1-3)]
  show ?thesis by metis
qed

end
