(* ===== verification/Declaration_Gate.thy ===== *)
theory Declaration_Gate
  imports Artifact_Ownership
begin

text \<open>
  \<^verbatim>\<open>src/moj_discovery/declaration_gate.py\<close>: the gate that composes the checks of tasks and artifacts with
  the check of schema references, and issues one receipt. Reading and parsing a file, the JSON Schema verdict, SHA-256
  and the location of the repository are parameters.
\<close>

record gate_env =
  ge_read :: "string \<Rightarrow> json res"
  ge_valid :: "obj \<Rightarrow> obj \<Rightarrow> bool"
  ge_sha256 :: "string \<Rightarrow> string"
  ge_root :: string

definition load_object :: "gate_env \<Rightarrow> string \<Rightarrow> obj res" where
  "load_object G path = bindR (ge_read G path) (\<lambda>v. case v of JObj d \<Rightarrow> Inr d | _ \<Rightarrow> Inl (ValueError ''E_DECLARATION_INPUT''))"

definition COMMAND_REGISTRIES :: "string list" where
  "COMMAND_REGISTRIES = [''task-command-registry.v1.json'', ''review-command-registry.v1.json'',
     ''cybersecurity-command-registry.v1.json'', ''baseline-replay-command-registry.v1.json'']"

definition load_commands :: "gate_env \<Rightarrow> string \<Rightarrow> json list res" where
  "load_commands G registries = bindR (mapR (\<lambda>name.
       bindR (load_object G (registries @ ''/'' @ name)) (\<lambda>d. bindR (ditem d ''commands'') iter_values)) COMMAND_REGISTRIES)
     (\<lambda>xss. Inr (concat xss))"

section \<open>Schema references\<close>

fun walk_pointer :: "json \<Rightarrow> string list \<Rightarrow> bool" where
  "walk_pointer v [] = True"
| "walk_pointer v (part # parts) = (case v of
      JObj d \<Rightarrow> (case map_of d (pointer_unescape part) of None \<Rightarrow> False | Some w \<Rightarrow> walk_pointer w parts)
    | _ \<Rightarrow> False)"

definition resolve_pointer :: "json \<Rightarrow> json \<Rightarrow> bool" where
  "resolve_pointer document pointer = (case pointer of
      JStr s \<Rightarrow> starts_with s ''#/'' \<and> walk_pointer document (split_on CHR ''/'' (drop 2 s))
    | _ \<Rightarrow> False)"

definition reference_step :: "gate_env \<Rightarrow> string \<Rightarrow> string list \<Rightarrow> json \<Rightarrow> string list res" where
  "reference_step G plan_root seen reference = (case reference of
      JObj r \<Rightarrow>
        (let name = dget r ''logical_name''; relative = dget r ''plan_source_path'' in
         bindR (raise_if (\<not> is_str name \<or> \<not> is_str relative \<or> \<not> starts_with (the_str relative) ''pack/docs/'' \<or> the_str name \<in> set seen)
           (ValueError ''E_SCHEMA_REFERENCE'')) (\<lambda>_.
         bindR (load_object G (plan_root @ ''/'' @ removeprefix ''pack/'' (the_str relative))) (\<lambda>schema.
         bindR (raise_if (\<not> resolve_pointer (JObj schema) (dget r ''json_pointer'')) (ValueError ''E_SCHEMA_POINTER'')) (\<lambda>_.
           Inr (the_str name # seen)))))
    | _ \<Rightarrow> Inl (ValueError ''E_SCHEMA_REFERENCE''))"

definition validate_schema_references :: "gate_env \<Rightarrow> string \<Rightarrow> nat res" where
  "validate_schema_references G plan_root =
     bindR (load_object G (plan_root @ ''/docs/registries/schema-reference-registry.v1.json'')) (\<lambda>registry.
     bindR (ditem registry ''references'') (\<lambda>references.
     bindR (raise_if (\<not> is_list references) (ValueError ''E_SCHEMA_REFERENCE'')) (\<lambda>_.
     bindR (foldR (reference_step G plan_root) [] (the_list references)) (\<lambda>seen. Inr (length seen)))))"

section \<open>The receipt\<close>

text \<open>\<^verbatim>\<open>json.dumps(payload, sort_keys=True, separators=(",", ":"))\<close> of an object of texts and numbers: everything
  outside the printable ASCII characters is escaped.\<close>

definition json_escape :: "char \<Rightarrow> string" where
  "json_escape c = (let n = (of_char c :: nat) in
     if n = 34 \<or> n = 92 then [CHR 0x5C, c]
     else if n = 10 then [CHR 0x5C, CHR ''n''] else if n = 13 then [CHR 0x5C, CHR ''r''] else if n = 9 then [CHR 0x5C, CHR ''t'']
     else if n = 8 then [CHR 0x5C, CHR ''b''] else if n = 12 then [CHR 0x5C, CHR ''f'']
     else if n < 32 \<or> n > 126 then [CHR 0x5C, CHR ''u'', CHR ''0'', CHR ''0'', hex_digit (n div 16), hex_digit (n mod 16)]
     else [c])"

definition json_text :: "string \<Rightarrow> string" where
  "json_text s = [CHR 0x22] @ concat (map json_escape s) @ [CHR 0x22]"

definition dumps_entry :: "string \<times> json \<Rightarrow> string" where
  "dumps_entry e = json_text (fst e) @ '':'' @ (case snd e of JStr s \<Rightarrow> json_text s | v \<Rightarrow> py_str v)"

definition dumps_sorted :: "obj \<Rightarrow> string" where
  "dumps_sorted d = ''{'' @ join '','' (map dumps_entry (sort_key fst d)) @ ''}''"

definition MATERIALIZED_DOMAIN :: string where
  "MATERIALIZED_DOMAIN = ''HD636/MATERIALIZED-CONTRACTS/v1'' @ [CHR 0x00]"

definition receipt_payload :: "nat \<Rightarrow> nat \<Rightarrow> nat \<Rightarrow> nat \<Rightarrow> obj" where
  "receipt_payload tasks artifacts commands references =
     [(''schema_version'', JStr ''materialized-contracts-valid/v1''), (''gate'', JStr ''MATERIALIZED_CONTRACTS_VALID''),
      (''result'', JStr ''PASS''), (''task_count'', JInt (int tasks)), (''artifact_count'', JInt (int artifacts)),
      (''command_count'', JInt (int commands)), (''schema_reference_count'', JInt (int references)),
      (''authorized_production_phases'', JStr ''NONE'')]"

text \<open>The owned paths are texts: an entry whose path is not one is refused by the lifecycle check at the latest, and
  here at once.\<close>

definition owned_paths :: "obj \<Rightarrow> string list res" where
  "owned_paths ownership = bindR (bindR (ditem ownership ''entries'') iter_values)
     (mapR (\<lambda>e. bindR (jitem e ''path'') (\<lambda>p. case p of JStr s \<Rightarrow> Inr s | _ \<Rightarrow> Inl TypeError)))"

definition issue_declaration_complete_receipt :: "gate_env \<Rightarrow> string \<Rightarrow> obj res" where
  "issue_declaration_complete_receipt G plan_root =
     (let registry_root = plan_root @ ''/docs/registries'' in
      bindR (load_object G (registry_root @ ''/artifact-ownership.v1.json'')) (\<lambda>ownership.
      bindR (load_object G (plan_root @ ''/docs/tasks/task-manifest.v6.3.6.json'')) (\<lambda>manifest.
      bindR (load_object G (plan_root @ ''/docs/schemas/artifact-ownership.schema.json'')) (\<lambda>schema.
      bindR (load_commands G registry_root) (\<lambda>commands.
      bindR (owned_paths ownership) (\<lambda>owned.
      bindR (validate_task_manifest_semantics manifest commands owned) (\<lambda>_.
      bindR (validate_artifact_lifecycle ownership manifest (ge_root G) (Some (ge_valid G schema))) (\<lambda>_.
      bindR (validate_schema_references G plan_root) (\<lambda>references.
      bindR (manifest_tasks manifest) (\<lambda>tasks.
      bindR (bindR (ditem ownership ''entries'') as_list) (\<lambda>entries.
      bindR (mapR (\<lambda>c. bindR (jitem c ''command_id'') as_string) commands) (\<lambda>ids.
      (let payload = receipt_payload (length tasks) (length entries) (length (remdups ids)) references in
       Inr (payload @ [(''content_hash'', JStr (ge_sha256 G (MATERIALIZED_DOMAIN @ dumps_sorted payload)))]))))))))))))))"

end
