(* ===== verification/Materialization.thy ===== *)
theory Materialization
  imports Declaration_Gate
begin

text \<open>
  \<^verbatim>\<open>src/moj_discovery/materialization_gate.py\<close>: the gate that checks the sealed plan input against its
  manifest and every required artifact against its source. The tree of files is a value: paths are lists of parts,
  symbolic links are nodes that are never followed. Parsing, SHA-256, the schema verdict and the files that are
  named by absolute paths are parameters; the root is given as its resolved path.
\<close>

section \<open>Files\<close>

datatype node = FileNode string | DirNode | LinkNode

type_synonym tree = "(string list \<times> node) list"

record materialization_env =
  mt_tree :: tree
  mt_outside :: "string \<Rightarrow> string option"
  mt_json :: "string \<Rightarrow> json option res"
  mt_sha256 :: "string \<Rightarrow> string"
  mt_valid :: "obj \<Rightarrow> obj \<Rightarrow> bool"

definition mfail :: "string \<Rightarrow> string \<Rightarrow> exn" where
  "mfail code path = ValueError (''E_MATERIALIZATION_COMPLETE:'' @ code @ (if path = [] then [] else CHR '':'' # path))"

definition posix_parts :: "string \<Rightarrow> string list" where
  "posix_parts s = filter (\<lambda>p. p \<noteq> [] \<and> p \<noteq> ''.'') (split_on CHR ''/'' s)"

text \<open>\<open>_safe_file\<close>: the content of a plain file that is reached without a link, upwards step or absolute path.\<close>

definition safe_file :: "tree \<Rightarrow> string list \<Rightarrow> string \<Rightarrow> string option" where
  "safe_file t root relative =
     (let parts = posix_parts relative in
      if starts_with relative ''/'' \<or> parts = [] \<or> ''..'' \<in> set parts then None
      else if list_ex (\<lambda>n. map_of t (root @ take n parts) = Some LinkNode) [1..<Suc (length parts)] then None
      else case map_of t (root @ parts) of Some (FileNode bytes) \<Rightarrow> Some bytes | _ \<Rightarrow> None)"

definition read_json_object :: "materialization_env \<Rightarrow> string \<Rightarrow> string \<Rightarrow> obj res" where
  "read_json_object M bytes code =
     bindR (mt_json M bytes) (\<lambda>v. case v of Some (JObj d) \<Rightarrow> Inr d | _ \<Rightarrow> Inl (mfail code []))"

definition path_text :: "string list \<Rightarrow> string" where
  "path_text parts = CHR ''/'' # join ''/'' parts"

section \<open>The sealed plan\<close>

definition MANIFEST_NAME :: string where
  "MANIFEST_NAME = ''MANIFEST_SHA256.json''"

definition manifest_step :: "materialization_env \<Rightarrow> string list \<Rightarrow> string list \<Rightarrow> json \<Rightarrow> string list res" where
  "manifest_step M plan_root listed v = (case v of
      JObj entry \<Rightarrow>
        (let relative = dget entry ''path''; size = dget entry ''size''; digest = dget entry ''sha256'' in
         bindR (raise_if (\<not> is_str relative \<or> \<not> is_int size \<or> the_int size < 0 \<or> \<not> is_str digest \<or> length (the_str digest) \<noteq> 64 \<or>
           the_str relative \<in> set listed) (mfail ''MANIFEST'' [])) (\<lambda>_.
         bindR (raise_if (case safe_file (mt_tree M) plan_root (the_str relative) of
             None \<Rightarrow> True
           | Some bytes \<Rightarrow> int (length bytes) \<noteq> the_int size \<or> mt_sha256 M bytes \<noteq> the_str digest) (mfail ''MANIFEST'' (the_str relative))) (\<lambda>_.
           Inr (the_str relative # listed))))
    | _ \<Rightarrow> Inl (mfail ''MANIFEST'' []))"

text \<open>\<open>plan_root.rglob("*")\<close>: everything below the root.\<close>

definition below :: "tree \<Rightarrow> string list \<Rightarrow> (string list \<times> node) list" where
  "below t root = filter (\<lambda>(p, _). take (length root) p = root \<and> length root < length p) t"

definition actual_files :: "tree \<Rightarrow> string list \<Rightarrow> string list" where
  "actual_files t root = map (\<lambda>(p, _). join ''/'' (drop (length root) p)) (filter (\<lambda>(_, n). case n of FileNode _ \<Rightarrow> True | _ \<Rightarrow> False) (below t root))"

definition verify_plan_closure :: "materialization_env \<Rightarrow> string list \<Rightarrow> string \<Rightarrow> unit res" where
  "verify_plan_closure M plan_root expected =
     (case safe_file (mt_tree M) plan_root MANIFEST_NAME of
        None \<Rightarrow> Inl (mfail ''BOOTSTRAP'' [])
      | Some bytes \<Rightarrow>
          bindR (raise_if (mt_sha256 M bytes \<noteq> expected) (mfail ''BOOTSTRAP'' [])) (\<lambda>_.
          bindR (read_json_object M bytes ''MANIFEST'') (\<lambda>manifest.
          bindR (raise_if (\<not> is_list (dget manifest ''entries'')) (mfail ''MANIFEST'' [])) (\<lambda>_.
          bindR (foldR (manifest_step M plan_root) [] (the_list (dget manifest ''entries''))) (\<lambda>listed.
          bindR (raise_if (list_ex (\<lambda>(_, n). n = LinkNode) (below (mt_tree M) plan_root)) (mfail ''PLAN_SYMLINK'' [])) (\<lambda>_.
            raise_if (set (actual_files (mt_tree M) plan_root) \<noteq> insert MANIFEST_NAME (set listed)) (mfail ''MANIFEST_CLOSURE'' [])))))))"

section \<open>Artifacts\<close>

definition materialized_source_fits :: "json \<Rightarrow> json \<Rightarrow> bool res" where
  "materialized_source_fits classification source =
     (if str_is classification ''BASELINE_COPY'' then
       Inr (case source of
           JObj d \<Rightarrow> keys_eq d [''path'', ''sha256''] \<and> is_str (dget d ''path'') \<and> is_str (dget d ''sha256'') \<and> hex64 (the_str (dget d ''sha256''))
         | _ \<Rightarrow> False)
      else source_fits classification source)"

definition source_is_valid :: "obj \<Rightarrow> bool res" where
  "source_is_valid entry =
     bindR (ditem entry ''source'') (\<lambda>source. bindR (ditem entry ''classification'') (\<lambda>c. materialized_source_fits c source))"

text \<open>\<^verbatim>\<open>v not in order\<close> and \<^verbatim>\<open>order[a] < order[b]\<close> for the names of the tasks in their order.\<close>

definition rank_of :: "string list \<Rightarrow> json \<Rightarrow> nat" where
  "rank_of order v = length (takeWhile (\<lambda>s. s \<noteq> the_str v) order)"

definition check_user :: "string list \<Rightarrow> json \<Rightarrow> string \<Rightarrow> string \<Rightarrow> json \<Rightarrow> unit res" where
  "check_user order owner path code v =
     bindR (in_strs v order) (\<lambda>known.
     bindR (raise_if (\<not> known) (mfail code path)) (\<lambda>_.
       raise_if (owner \<noteq> JNull \<and> rank_of order v < rank_of order owner) (mfail ''CONSUMER_BEFORE_OWNER'' path)))"

definition check_users :: "string list \<Rightarrow> obj \<Rightarrow> json \<Rightarrow> string \<Rightarrow> string \<Rightarrow> string \<Rightarrow> unit res" where
  "check_users order entry owner path k code = bindR (ditem entry k) (each_of (check_user order owner path code))"

definition check_qualified :: "string list \<Rightarrow> json \<Rightarrow> string \<Rightarrow> json \<Rightarrow> unit res" where
  "check_qualified order owner path v =
     (if v = JNull then Inr ()
      else bindR (in_strs v order) (\<lambda>known.
        raise_if (\<not> known \<or> (owner \<noteq> JNull \<and> rank_of order v < rank_of order owner)) (mfail ''QUALIFICATION'' path)))"

definition CUTOFF_TASK :: string where
  "CUTOFF_TASK = ''V636-P01-T06''"

definition check_materialized :: "materialization_env \<Rightarrow> string list \<Rightarrow> string list \<Rightarrow> obj \<Rightarrow> json \<Rightarrow> string \<Rightarrow> unit res" where
  "check_materialized M authoring_root order entry owner path =
     bindR (raise_if (starts_with path ''/'' \<or> (owner \<noteq> JNull \<and> rank_of order owner > rank_of order (JStr CUTOFF_TASK)))
       (mfail ''FUTURE_OWNER'' path)) (\<lambda>_.
     case safe_file (mt_tree M) authoring_root path of
       None \<Rightarrow> Inl (mfail ''MISSING'' path)
     | Some target \<Rightarrow>
         bindR (ditem entry ''classification'') (\<lambda>classification.
         bindR (ditem entry ''source'') (\<lambda>source.
         if str_is classification ''BASELINE_COPY'' then
           raise_if (case mt_outside M (the_str (dget (the_dict source) ''path'')) of
               None \<Rightarrow> True | Some bytes \<Rightarrow> mt_sha256 M bytes \<noteq> the_str (dget (the_dict source) ''sha256'')) (mfail ''BASELINE_SOURCE'' path)
         else if str_is classification ''PLAN_SEED'' then
           raise_if (safe_file (mt_tree M) authoring_root (the_str (dget (the_dict source) ''path'')) \<noteq> Some target) (mfail ''PLAN_SEED'' path)
         else Inr ())))"

definition refuse_invalid_entry :: "json \<Rightarrow> string list \<Rightarrow> obj \<Rightarrow> unit res" where
  "refuse_invalid_entry path paths entry =
     (if \<not> is_str path \<or> the_str path = [] \<or> the_str path \<in> set paths then Inl (mfail ''ENTRY'' (the_str path))
      else bindR (source_is_valid entry) (\<lambda>ok. raise_if (\<not> ok) (mfail ''ENTRY'' (the_str path))))"

text \<open>The paths seen and the numbers of materialized and deferred artifacts.\<close>

definition artifact_step :: "materialization_env \<Rightarrow> string list \<Rightarrow> string list \<Rightarrow> string list \<times> nat \<times> nat \<Rightarrow> json \<Rightarrow> (string list \<times> nat \<times> nat) res" where
  "artifact_step M authoring_root order state v = (case (state, v) of
      ((paths, materialized, deferred), JObj entry) \<Rightarrow>
        (let path = dget entry ''path''; p = the_str path; owner = dget entry ''creation_owner'' in
         bindR (refuse_invalid_entry path paths entry) (\<lambda>_.
         bindR (if owner = JNull then bindR (ditem entry ''source'') (\<lambda>source. raise_if (source = JNull) (mfail ''UNOWNED'' p))
                else raise_if (\<not> is_str owner \<or> the_str owner \<notin> set order) (mfail ''UNKNOWN_OWNER'' p)) (\<lambda>_.
         bindR (check_users order entry owner p ''modifying_tasks'' ''MODIFIER'') (\<lambda>_.
         bindR (check_users order entry owner p ''consumers'' ''CONSUMER'') (\<lambda>_.
         bindR (bindR (ditem entry ''qualification_owner'') (check_qualified order owner p)) (\<lambda>_.
         bindR (ditem entry ''materialization_required'') (\<lambda>required.
         if \<not> truthy required then Inr (p # paths, materialized, Suc deferred)
         else bindR (check_materialized M authoring_root order entry owner p) (\<lambda>_. Inr (p # paths, Suc materialized, deferred)))))))))
    | _ \<Rightarrow> Inl (mfail ''ENTRY'' []))"

section \<open>The gate\<close>

definition task_order :: "json list \<Rightarrow> string list" where
  "task_order tasks = map the_str (filter is_str (map (\<lambda>t. dget (the_dict t) ''task_id'') (filter is_dict tasks)))"

text \<open>The domain of the receipt, as the source writes it.\<close>

definition MATERIALIZATION_DOMAIN :: string where
  "MATERIALIZATION_DOMAIN = ''HD636/MATERIALIZATION/v1'' @ [CHR 0x5C, CHR ''0'']"

definition materialization_receipt :: "materialization_env \<Rightarrow> string list \<Rightarrow> string \<Rightarrow> nat \<Rightarrow> nat \<Rightarrow> obj" where
  "materialization_receipt M runtime_root manifest_hash materialized deferred =
     (let receipt = [(''schema_version'', JStr ''materialization-complete/v2''), (''gate'', JStr ''MATERIALIZATION_COMPLETE''),
        (''result'', JStr ''PASS''), (''artifact_root'', JStr (path_text runtime_root)),
        (''authoring_root'', JStr (path_text (butlast runtime_root))), (''plan_input_manifest_sha256'', JStr manifest_hash),
        (''materialized_artifact_count'', JInt (int materialized)), (''deferred_artifact_count'', JInt (int deferred)),
        (''authorized_production_phases'', JStr ''NONE'')] in
      receipt @ [(''content_hash'', JStr (mt_sha256 M (MATERIALIZATION_DOMAIN @ dumps_sorted receipt)))])"

definition bootstrap_hash :: "materialization_env \<Rightarrow> string list \<Rightarrow> string res" where
  "bootstrap_hash M authoring_root =
     (let plan_root = authoring_root @ [''plan-input''] in
      case safe_file (mt_tree M) authoring_root ''.bootstrap/authoring-workspace-receipt.json'' of
        None \<Rightarrow> Inl (mfail ''BOOTSTRAP'' [])
      | Some bytes \<Rightarrow>
          bindR (raise_if (map_of (mt_tree M) plan_root \<noteq> Some DirNode) (mfail ''BOOTSTRAP'' [])) (\<lambda>_.
          bindR (read_json_object M bytes ''BOOTSTRAP'') (\<lambda>bootstrap.
          bindR (raise_if (\<not> str_is (dget bootstrap ''authoring_root'') (path_text authoring_root) \<or>
            \<not> str_is (dget bootstrap ''plan_input_root'') (path_text plan_root) \<or> \<not> is_str (dget bootstrap ''manifest_sha256''))
            (mfail ''BOOTSTRAP'' [])) (\<lambda>_.
            Inr (the_str (dget bootstrap ''manifest_sha256''))))))"

definition validate_materialization_complete :: "materialization_env \<Rightarrow> string list \<Rightarrow> obj res" where
  "validate_materialization_complete M runtime_root =
     (let authoring_root = butlast runtime_root; plan_root = authoring_root @ [''plan-input'']; file = safe_file (mt_tree M) plan_root in
      bindR (raise_if (map_of (mt_tree M) runtime_root \<noteq> Some DirNode) (mfail ''ROOT'' [])) (\<lambda>_.
      bindR (bootstrap_hash M authoring_root) (\<lambda>manifest_hash.
      bindR (verify_plan_closure M plan_root manifest_hash) (\<lambda>_.
      case (file ''docs/registries/artifact-ownership.v1.json'', file ''docs/schemas/artifact-ownership.schema.json'',
          file ''docs/tasks/task-manifest.v6.3.6.json'') of
        (Some ownership_bytes, Some schema_bytes, Some tasks_bytes) \<Rightarrow>
          bindR (read_json_object M ownership_bytes ''OWNERSHIP'') (\<lambda>ownership.
          bindR (read_json_object M schema_bytes ''OWNERSHIP_SCHEMA'') (\<lambda>schema.
          bindR (raise_if (\<not> mt_valid M schema ownership) (mfail ''OWNERSHIP_SCHEMA'' [])) (\<lambda>_.
          bindR (read_json_object M tasks_bytes ''TASKS'') (\<lambda>task_manifest.
          bindR (raise_if (\<not> is_list (dget task_manifest ''tasks'')) (mfail ''TASKS'' [])) (\<lambda>_.
          (let tasks = the_list (dget task_manifest ''tasks''); order = task_order tasks in
           bindR (raise_if (length (remdups order) \<noteq> length tasks \<or> CUTOFF_TASK \<notin> set order) (mfail ''TASKS'' [])) (\<lambda>_.
           bindR (raise_if (\<not> is_list (dget ownership ''entries'')) (mfail ''OWNERSHIP'' [])) (\<lambda>_.
           bindR (foldR (artifact_step M authoring_root order) ([], 0, 0) (the_list (dget ownership ''entries''))) (\<lambda>(_, materialized, deferred).
             Inr (materialization_receipt M runtime_root manifest_hash materialized deferred))))))))))
      | _ \<Rightarrow> Inl (mfail ''DECLARATION_INPUT'' [])))))"

section \<open>The plan is sealed\<close>

lemma manifest_step_Inr:
  assumes "manifest_step M root listed v = Inr listed'"
  shows "\<exists>entry p bytes. v = JObj entry \<and> listed' = p # listed \<and> dget entry ''path'' = JStr p \<and>
    safe_file (mt_tree M) root p = Some bytes \<and> dget entry ''size'' = JInt (int (length bytes)) \<and> dget entry ''sha256'' = JStr (mt_sha256 M bytes)"
proof -
  from assms obtain entry where v: "v = JObj entry" by (cases v) (simp_all add: manifest_step_def)
  from assms have "is_str (dget entry ''path'')" "is_int (dget entry ''size'')" "is_str (dget entry ''sha256'')"
    and listed: "listed' = the_str (dget entry ''path'') # listed"
    and content: "\<not> (case safe_file (mt_tree M) root (the_str (dget entry ''path'')) of None \<Rightarrow> True
       | Some bytes \<Rightarrow> int (length bytes) \<noteq> the_int (dget entry ''size'') \<or> mt_sha256 M bytes \<noteq> the_str (dget entry ''sha256''))"
    unfolding v manifest_step_def json.case Let_def by auto
  then obtain p i d where e: "dget entry ''path'' = JStr p" "dget entry ''size'' = JInt i" "dget entry ''sha256'' = JStr d"
    by (elim is_str.elims is_int.elims) auto
  with content obtain bytes where "safe_file (mt_tree M) root p = Some bytes" "int (length bytes) = i" "mt_sha256 M bytes = d"
    by (auto split: option.splits)
  with e v listed show ?thesis by auto
qed

lemma manifest_loop:
  "foldR (manifest_step M root) listed entries = Inr listed' \<Longrightarrow> p \<in> set listed' \<Longrightarrow>
     p \<in> set listed \<or> (\<exists>entry bytes. JObj entry \<in> set entries \<and> dget entry ''path'' = JStr p \<and> safe_file (mt_tree M) root p = Some bytes \<and>
       dget entry ''size'' = JInt (int (length bytes)) \<and> dget entry ''sha256'' = JStr (mt_sha256 M bytes))"
proof (induction entries arbitrary: listed)
  case (Cons v entries)
  then obtain l where v: "manifest_step M root listed v = Inr l" and rest: "foldR (manifest_step M root) l entries = Inr listed'" by auto
  from manifest_step_Inr [OF v] Cons.IH [OF rest Cons.prems(2)] show ?case by (elim exE conjE disjE) auto
qed simp

lemma actual_fileI: "map_of t (root @ parts) = Some (FileNode bytes) \<Longrightarrow> parts \<noteq> [] \<Longrightarrow> join ''/'' parts \<in> set (actual_files t root)"
  by (force simp: actual_files_def below_def dest: map_of_SomeD)

section \<open>Properties\<close>

text \<open>
  Properties of the materialization gate: after it has passed, every file of the plan input is listed in the
  sealed manifest with its size and hash.
\<close>

section \<open>Relative paths\<close>

definition proper_name :: "string \<Rightarrow> bool" where
  "proper_name p \<longleftrightarrow> p \<noteq> [] \<and> p \<noteq> ''.'' \<and> CHR ''/'' \<notin> set p"

lemma split_on_single: "d \<notin> set w \<Longrightarrow> split_on d w = [w]"
  by (induction w) auto

lemma split_on_nonempty: "split_on d s \<noteq> []"
  by (induction s) (auto split: list.splits)

lemma split_on_append: "d \<notin> set w \<Longrightarrow> split_on d (w @ d # s) = w # split_on d s"
  by (induction w) auto

lemma split_on_join: "parts \<noteq> [] \<Longrightarrow> \<forall>p \<in> set parts. d \<notin> set p \<Longrightarrow> split_on d (join [d] parts) = parts"
  by (induction "[d]" parts rule: join.induct) (simp_all add: split_on_single split_on_append)

lemma posix_parts_join: "parts \<noteq> [] \<Longrightarrow> \<forall>p \<in> set parts. proper_name p \<Longrightarrow> posix_parts (join ''/'' parts) = parts"
  by (simp add: posix_parts_def split_on_join proper_name_def filter_id_conv)

lemma safe_file_content:
  assumes "safe_file t root s = Some content" "posix_parts s = parts"
  shows "map_of t (root @ parts) = Some (FileNode content)"
  using assms by (auto simp: safe_file_def Let_def split: if_splits option.splits node.splits)

section \<open>The plan closure\<close>

lemma read_json_object_Inr: "read_json_object M bytes code = Inr d \<Longrightarrow> mt_json M bytes = Inr (Some (JObj d))"
proof -
  assume "read_json_object M bytes code = Inr d"
  then obtain v where v: "mt_json M bytes = Inr v" and d: "(case v of Some (JObj d) \<Rightarrow> Inr d | _ \<Rightarrow> Inl (mfail code [])) = Inr d"
    unfolding read_json_object_def by (elim bindR_E) (rule that)
  from d obtain w where w: "v = Some w" by (cases v) simp_all
  from d have "w = JObj d" unfolding w option.case by (cases w) simp_all
  with v w show ?thesis by simp
qed

lemma plan_closure_Inr:
  assumes "verify_plan_closure M plan_root expected = Inr u"
  obtains bytes manifest listed where "safe_file (mt_tree M) plan_root MANIFEST_NAME = Some bytes" "mt_sha256 M bytes = expected"
    "mt_json M bytes = Inr (Some (JObj manifest))"
    "foldR (manifest_step M plan_root) [] (the_list (dget manifest ''entries'')) = Inr listed"
    "set (actual_files (mt_tree M) plan_root) = insert MANIFEST_NAME (set listed)"
proof -
  from assms obtain bytes where b: "safe_file (mt_tree M) plan_root MANIFEST_NAME = Some bytes"
    by (cases "safe_file (mt_tree M) plan_root MANIFEST_NAME") (simp_all add: verify_plan_closure_def)
  from assms obtain u1 manifest u2 listed u3 u4 where
    c: "raise_if (mt_sha256 M bytes \<noteq> expected) (mfail ''BOOTSTRAP'' []) = Inr u1" "read_json_object M bytes ''MANIFEST'' = Inr manifest"
      "raise_if (\<not> is_list (dget manifest ''entries'')) (mfail ''MANIFEST'' []) = Inr u2"
      "foldR (manifest_step M plan_root) [] (the_list (dget manifest ''entries'')) = Inr listed"
      "raise_if (list_ex (\<lambda>(_, n). n = LinkNode) (below (mt_tree M) plan_root)) (mfail ''PLAN_SYMLINK'' []) = Inr u3"
      "raise_if (set (actual_files (mt_tree M) plan_root) \<noteq> insert MANIFEST_NAME (set listed)) (mfail ''MANIFEST_CLOSURE'' []) = Inr u4"
    unfolding verify_plan_closure_def b option.case by (elim bindR_E) (rule that)
  show thesis
    by (rule that [OF b _ read_json_object_Inr [OF c(2)] c(4)]) (use c(1, 6) in simp_all)
qed

lemma materialization_Inr:
  assumes "validate_materialization_complete M root = Inr r"
  obtains manifest_hash where "bootstrap_hash M (butlast root) = Inr manifest_hash"
    "verify_plan_closure M (butlast root @ [''plan-input'']) manifest_hash = Inr ()"
proof -
  from assms obtain manifest_hash u where "bootstrap_hash M (butlast root) = Inr manifest_hash"
    "verify_plan_closure M (butlast root @ [''plan-input'']) manifest_hash = Inr u"
    unfolding validate_materialization_complete_def Let_def by (elim bindR_E) (rule that)
  then show thesis by (simp add: that)
qed

text \<open>C29: A plan input that passed is sealed: a file below it is the manifest itself, whose hash is the one that the
  bootstrap receipt names, or the manifest lists it with its size and the hash of its content. No file was added,
  removed or changed.\<close>

theorem passed_plan_is_sealed:
  assumes "validate_materialization_complete M root = Inr r"
    and "map_of (mt_tree M) (butlast root @ [''plan-input''] @ parts) = Some (FileNode content)"
    and "parts \<noteq> []" and "\<forall>p \<in> set parts. proper_name p"
  shows "\<exists>bytes manifest. safe_file (mt_tree M) (butlast root @ [''plan-input'']) MANIFEST_NAME = Some bytes \<and>
    bootstrap_hash M (butlast root) = Inr (mt_sha256 M bytes) \<and> mt_json M bytes = Inr (Some (JObj manifest)) \<and>
    (join ''/'' parts = MANIFEST_NAME \<or>
     (\<exists>entry. JObj entry \<in> set (the_list (dget manifest ''entries'')) \<and> dget entry ''path'' = JStr (join ''/'' parts) \<and>
        dget entry ''size'' = JInt (int (length content)) \<and> dget entry ''sha256'' = JStr (mt_sha256 M content)))"
proof -
  let ?plan = "butlast root @ [''plan-input'']"
  from assms(1) obtain h where h: "bootstrap_hash M (butlast root) = Inr h" "verify_plan_closure M ?plan h = Inr ()"
    by (rule materialization_Inr)
  from h(2) obtain bytes manifest listed where
    p: "safe_file (mt_tree M) ?plan MANIFEST_NAME = Some bytes" "mt_sha256 M bytes = h" "mt_json M bytes = Inr (Some (JObj manifest))"
      "foldR (manifest_step M ?plan) [] (the_list (dget manifest ''entries'')) = Inr listed"
      "set (actual_files (mt_tree M) ?plan) = insert MANIFEST_NAME (set listed)"
    by (rule plan_closure_Inr)
  have c: "map_of (mt_tree M) (?plan @ parts) = Some (FileNode content)" using assms(2) by simp
  from actual_fileI [OF this assms(3)] p(5) have "join ''/'' parts = MANIFEST_NAME \<or> join ''/'' parts \<in> set listed" by blast
  moreover have "\<exists>entry. JObj entry \<in> set (the_list (dget manifest ''entries'')) \<and> dget entry ''path'' = JStr (join ''/'' parts) \<and>
      dget entry ''size'' = JInt (int (length content)) \<and> dget entry ''sha256'' = JStr (mt_sha256 M content)"
    if "join ''/'' parts \<in> set listed"
  proof -
    from manifest_loop [OF p(4) that] obtain entry b where e: "JObj entry \<in> set (the_list (dget manifest ''entries''))"
      "dget entry ''path'' = JStr (join ''/'' parts)" "safe_file (mt_tree M) ?plan (join ''/'' parts) = Some b"
      "dget entry ''size'' = JInt (int (length b))" "dget entry ''sha256'' = JStr (mt_sha256 M b)" by auto
    have "map_of (mt_tree M) (?plan @ parts) = Some (FileNode b)"
      by (rule safe_file_content [OF e(3) posix_parts_join [OF assms(3, 4)]])
    with c have "b = content" by simp
    with e show ?thesis by blast
  qed
  ultimately show ?thesis using p(1-3) h(1) by blast
qed

section \<open>The domain of the receipt\<close>

text \<open>The bytes literal of the source has an escaped backslash: the domain ends in a backslash and a zero digit, not
  in the zero byte that separates the domain from the payload everywhere else.\<close>

theorem materialization_domain_is_not_terminated: "CHR 0x00 \<notin> set MATERIALIZATION_DOMAIN" "last MATERIALIZED_DOMAIN = CHR 0x00"
  by (simp_all add: MATERIALIZATION_DOMAIN_def MATERIALIZED_DOMAIN_def)

section \<open>Witness\<close>

definition demo_documents :: "(string \<times> obj) list" where
  "demo_documents =
     [(''B'', [(''authoring_root'', JStr ''/w''), (''plan_input_root'', JStr ''/w/plan-input''), (''manifest_sha256'', JStr (replicate 64 CHR ''0''))]),
      (''M'', [(''entries'', JArr (map (\<lambda>p. JObj [(''path'', JStr p), (''size'', JInt 1), (''sha256'', JStr (replicate 64 CHR ''0''))])
         [''docs/registries/artifact-ownership.v1.json'', ''docs/schemas/artifact-ownership.schema.json'', ''docs/tasks/task-manifest.v6.3.6.json'']))]),
      (''O'', [(''entries'', JArr [])]), (''S'', []),
      (''T'', [(''tasks'', JArr [JObj [(''task_id'', JStr CUTOFF_TASK)]])])]"

definition demo_materialization :: materialization_env where
  "demo_materialization = \<lparr>mt_tree = [([''w'', ''r''], DirNode), ([''w'', ''plan-input''], DirNode),
       ([''w'', ''.bootstrap'', ''authoring-workspace-receipt.json''], FileNode ''B''),
       ([''w'', ''plan-input'', MANIFEST_NAME], FileNode ''M''),
       ([''w'', ''plan-input'', ''docs'', ''registries'', ''artifact-ownership.v1.json''], FileNode ''O''),
       ([''w'', ''plan-input'', ''docs'', ''schemas'', ''artifact-ownership.schema.json''], FileNode ''S''),
       ([''w'', ''plan-input'', ''docs'', ''tasks'', ''task-manifest.v6.3.6.json''], FileNode ''T'')],
     mt_outside = (\<lambda>_. None), mt_json = (\<lambda>b. Inr (map_option JObj (map_of demo_documents b))),
     mt_sha256 = (\<lambda>_. replicate 64 CHR ''0''), mt_valid = (\<lambda>_ _. True)\<rparr>"

lemma demo_materialization_passes:
  "validate_materialization_complete demo_materialization [''w'', ''r''] =
     Inr (materialization_receipt demo_materialization [''w'', ''r''] (replicate 64 CHR ''0'') 0 0)"
  by code_simp

theorem passed_plan_is_sealed_witness:
  "\<exists>bytes. safe_file (mt_tree demo_materialization) [''w'', ''plan-input''] MANIFEST_NAME = Some bytes"
proof -
  have "map_of (mt_tree demo_materialization) (butlast [''w'', ''r''] @ [''plan-input''] @ [''docs'', ''schemas'', ''artifact-ownership.schema.json'']) =
      Some (FileNode ''S'')" by code_simp
  moreover have "\<forall>p \<in> set [''docs'', ''schemas'', ''artifact-ownership.schema.json'']. proper_name p" by (simp add: proper_name_def)
  ultimately have "\<exists>bytes. safe_file (mt_tree demo_materialization) (butlast [''w'', ''r''] @ [''plan-input'']) MANIFEST_NAME = Some bytes"
    using passed_plan_is_sealed [OF demo_materialization_passes] by (metis list.distinct(1))
  then show ?thesis by simp
qed

end
