(* ===== verification/Schema_Navigator.thy ===== *)
theory Schema_Navigator
  imports Json_Items
begin

text \<open>
  The schema navigator of \<^verbatim>\<open>src/moj_discovery/universal_denial.py\<close>: it finds the subschemas that describe
  a path of a record, through references, branches and conditions. A subschema is a node: the identifier of its
  document and its position there. The source tells nodes apart by the identity of the value; positions are finer
  only for values that occur several times as one object (booleans), which have no subschemas.
\<close>

section \<open>Positions in a document\<close>

datatype component = Member string | Item nat

type_synonym path = "component list"
type_synonym schema_node = "string \<times> path"
type_synonym documents = "(string \<times> json) list"

fun at_path :: "json \<Rightarrow> path \<Rightarrow> json option" where
  "at_path v [] = Some v"
| "at_path (JObj d) (Member k # p) = (case map_of d k of None \<Rightarrow> None | Some w \<Rightarrow> at_path w p)"
| "at_path (JArr xs) (Item i # p) = (if i < length xs then at_path (xs ! i) p else None)"
| "at_path v (c # p) = None"

definition schema_at :: "documents \<Rightarrow> schema_node \<Rightarrow> json option" where
  "schema_at docs n = (case map_of docs (fst n) of None \<Rightarrow> None | Some v \<Rightarrow> at_path v (snd n))"

text \<open>\<open>node / k1 / k2\<close>: the node at the given place under a node.\<close>

definition under :: "schema_node \<Rightarrow> path \<Rightarrow> schema_node" where
  "under n p = (fst n, snd n @ p)"

text \<open>\<open>enumerate(xs)\<close>.\<close>

definition indexed :: "'a list \<Rightarrow> (nat \<times> 'a) list" where
  "indexed xs = zip [0..<length xs] xs"

lemma indexed_mem: "(i, x) \<in> set (indexed xs) \<longleftrightarrow> i < length xs \<and> x = xs ! i"
  by (simp add: indexed_def set_zip) (metis add.left_neutral nth_upt length_upt diff_zero)

lemma size_item: "(i, x) \<in> set (indexed xs) \<Longrightarrow> size x < size (JArr xs)"
  by (auto simp only: indexed_mem intro: size_element nth_mem)

section \<open>References\<close>

text \<open>\<open>_find_anchor\<close>: the positions of the objects that declare an anchor, in document order.\<close>

function find_anchor :: "string \<Rightarrow> path \<Rightarrow> json \<Rightarrow> path list" where
  "find_anchor anchor p v = (case v of
      JObj d \<Rightarrow> (if str_is (dget d ''$anchor'') anchor then [p] else []) @
        concat (map (\<lambda>(k, child). find_anchor anchor (p @ [Member k]) child) d)
    | JArr xs \<Rightarrow> concat (map (\<lambda>(i, child). find_anchor anchor (p @ [Item i]) child) (indexed xs))
    | _ \<Rightarrow> [])"
  by auto
termination
  by (relation "measure (\<lambda>(anchor, p, v). size v)") (auto dest: size_item size_member)

declare find_anchor.simps [simp del]

text \<open>\<open>target[int(part)]\<close> of a list: negative indices count from the end.\<close>

definition list_index :: "json list \<Rightarrow> string \<Rightarrow> nat res" where
  "list_index xs part = bindR (parse_int part) (\<lambda>i.
     if 0 \<le> i \<and> i < int (length xs) then Inr (nat i)
     else if i < 0 \<and> 0 \<le> i + int (length xs) then Inr (nat (i + int (length xs)))
     else Inl IndexError)"

fun walk_fragment :: "string \<Rightarrow> json \<Rightarrow> path \<Rightarrow> string list \<Rightarrow> path res" where
  "walk_fragment reference target p [] = Inr p"
| "walk_fragment reference target p (encoded # parts) =
     (let part = pointer_unescape encoded in
      case target of
        JObj d \<Rightarrow> (case map_of d part of
            None \<Rightarrow> Inl (KeyError part)
          | Some w \<Rightarrow> walk_fragment reference w (p @ [Member part]) parts)
      | JArr xs \<Rightarrow> bindR (list_index xs part) (\<lambda>i. walk_fragment reference (xs ! i) (p @ [Item i]) parts)
      | _ \<Rightarrow> Inl (KeyError reference))"

definition resolve_fragment :: "documents \<Rightarrow> string \<Rightarrow> string \<Rightarrow> string \<Rightarrow> schema_node res" where
  "resolve_fragment docs reference document_id fragment =
     (case map_of docs document_id of
        None \<Rightarrow> Inl (KeyError document_id)
      | Some document \<Rightarrow>
          if starts_with fragment ''/'' then
            bindR (walk_fragment reference document [] (split_on CHR ''/'' (drop 1 fragment))) (\<lambda>p. Inr (document_id, p))
          else if fragment \<noteq> [] then
            (case find_anchor fragment [] document of [p] \<Rightarrow> Inr (document_id, p) | _ \<Rightarrow> Inl (KeyError reference))
          else Inr (document_id, []))"

definition resolve_target :: "documents \<Rightarrow> string \<Rightarrow> string option \<Rightarrow> schema_node res" where
  "resolve_target docs reference current_document_id =
     (if starts_with reference ''#'' then
        (case current_document_id of
           None \<Rightarrow> Inl (KeyError reference)
         | Some document_id \<Rightarrow> resolve_fragment docs reference document_id (drop 1 reference))
      else resolve_fragment docs reference (takeWhile (\<lambda>c. c \<noteq> CHR ''#'') reference)
             (drop 1 (dropWhile (\<lambda>c. c \<noteq> CHR ''#'') reference)))"

text \<open>\<^verbatim>\<open>except (KeyError, ValueError)\<close>: an index out of range is neither.\<close>

fun unresolved :: "exn \<Rightarrow> bool" where
  "unresolved (KeyError _) = True"
| "unresolved e = (value_error_text e \<noteq> None)"

section \<open>Expansion\<close>

text \<open>The nodes that \<open>_expand\<close> pushes for a schema_node, from the top of the stack. A reference that is not resolved
  also hides the branches and conditions beside it.\<close>

definition branch_nodes :: "schema_node \<Rightarrow> obj \<Rightarrow> string \<Rightarrow> schema_node list" where
  "branch_nodes n d keyword = (case dget d keyword of
      JArr branches \<Rightarrow> map (\<lambda>i. under n [Member keyword, Item i]) [0..<length branches]
    | _ \<Rightarrow> [])"

definition condition_node :: "schema_node \<Rightarrow> obj \<Rightarrow> string \<Rightarrow> schema_node list" where
  "condition_node n d keyword = (if is_dict (dget d keyword) \<or> is_bool (dget d keyword) then [under n [Member keyword]] else [])"

definition keyword_nodes :: "schema_node \<Rightarrow> obj \<Rightarrow> schema_node list" where
  "keyword_nodes n d =
     concat (map (condition_node n d) [''else'', ''then'', ''if'']) @
     concat (map (branch_nodes n d) [''anyOf'', ''oneOf'', ''allOf''])"

definition successors :: "documents \<Rightarrow> schema_node \<Rightarrow> schema_node list res" where
  "successors docs n = (case schema_at docs n of
      Some (JObj d) \<Rightarrow>
        (case dget d ''$ref'' of
           JStr reference \<Rightarrow>
             (case resolve_target docs reference (Some (fst n)) of
                Inl e \<Rightarrow> (if unresolved e then Inr [] else Inl e)
              | Inr target \<Rightarrow> Inr (keyword_nodes n d @ [target]))
         | _ \<Rightarrow> Inr (keyword_nodes n d))
    | _ \<Rightarrow> Inr [])"

lemma finite_positions: "finite {p. at_path v p \<noteq> None}"
proof (induction v)
  case (JArr xs)
  have "{p. at_path (JArr xs) p \<noteq> None} \<subseteq> insert [] (\<Union>i < length xs. (\<lambda>q. Item i # q) ` {q. at_path (xs ! i) q \<noteq> None})"
  proof
    fix p assume "p \<in> {p. at_path (JArr xs) p \<noteq> None}"
    then show "p \<in> insert [] (\<Union>i < length xs. (\<lambda>q. Item i # q) ` {q. at_path (xs ! i) q \<noteq> None})"
      by (cases "(JArr xs, p)" rule: at_path.cases) (auto split: if_splits)
  qed
  moreover have "finite (\<Union>i < length xs. (\<lambda>q. Item i # q) ` {q. at_path (xs ! i) q \<noteq> None})"
    using JArr by (intro finite_UN_I finite_imageI) auto
  ultimately show ?case by (meson finite.insertI finite_subset)
next
  case (JObj d)
  have "{p. at_path (JObj d) p \<noteq> None} \<subseteq> insert [] (\<Union>e \<in> set d. (\<lambda>q. Member (fst e) # q) ` {q. at_path (snd e) q \<noteq> None})"
  proof
    fix p assume p: "p \<in> {p. at_path (JObj d) p \<noteq> None}"
    show "p \<in> insert [] (\<Union>e \<in> set d. (\<lambda>q. Member (fst e) # q) ` {q. at_path (snd e) q \<noteq> None})"
    proof (cases "(JObj d, p)" rule: at_path.cases)
      case (2 d' k q)
      with p obtain w where w: "map_of d k = Some w" "at_path w q \<noteq> None" by (auto split: option.splits)
      show ?thesis
        by (rule insertI2, rule UN_I [of "(k, w)"], rule map_of_SomeD [OF w(1)]) (use 2 w(2) in simp)
    qed (use p in auto)
  qed
  moreover have "finite {q. at_path (snd e) q \<noteq> None}" if "e \<in> set d" for e
    using JObj [of e "snd e"] that by (cases e) auto
  then have "finite (\<Union>e \<in> set d. (\<lambda>q. Member (fst e) # q) ` {q. at_path (snd e) q \<noteq> None})"
    by (intro finite_UN_I finite_imageI) auto
  ultimately show ?case by (meson finite.insertI finite_subset)
qed (rule finite_subset [of _ "{[]}"]; auto elim!: at_path.elims)+

definition node_set :: "documents \<Rightarrow> schema_node set" where
  "node_set docs = {n. schema_at docs n \<noteq> None}"

lemma finite_nodes: "finite (node_set docs)"
proof -
  have "node_set docs \<subseteq> (\<Union>e \<in> set docs. Pair (fst e) ` {p. at_path (snd e) p \<noteq> None})"
    by (force simp: node_set_def schema_at_def dest!: map_of_SomeD split: option.splits)
  then show ?thesis by (rule finite_subset) (intro finite_UN_I finite_imageI finite_positions finite_set)
qed

lemma successors_outside: "n \<notin> node_set docs \<Longrightarrow> successors docs n = Inr []"
  by (simp add: node_set_def successors_def)

text \<open>\<open>_expand\<close>: the stack of pending nodes and the nodes seen, latest first. References may be cyclic; the loop
  ends because the documents have finitely many nodes.\<close>

function expand_loop :: "documents \<Rightarrow> schema_node list \<Rightarrow> schema_node list \<Rightarrow> schema_node list res" where
  "expand_loop docs seen [] = Inr (rev seen)"
| "expand_loop docs seen (n # pending) =
     (if n \<in> set seen then expand_loop docs seen pending
      else bindR (successors docs n) (\<lambda>ns. expand_loop docs (n # seen) (ns @ pending)))"
  by pat_completeness auto
termination
proof (relation "measures [\<lambda>(docs, seen, pending). card (node_set docs - set seen), \<lambda>(docs, seen, pending). length pending]")
  fix docs seen n pending ns
  assume new: "n \<notin> set seen" and ns: "successors docs n = Inr ns"
  show "((docs, n # seen, ns @ pending), docs, seen, n # pending)
    \<in> measures [\<lambda>(docs, seen, pending). card (node_set docs - set seen), \<lambda>(docs, seen, pending). length pending]"
  proof (cases "n \<in> node_set docs")
    case True
    have "node_set docs - set (n # seen) \<subset> node_set docs - set seen" using True new by auto
    then show ?thesis by (simp add: psubset_card_mono finite_nodes)
  next
    case False
    then have "node_set docs - set (n # seen) = node_set docs - set seen" by auto
    with False ns show ?thesis by (simp add: successors_outside)
  qed
qed auto

definition expand :: "documents \<Rightarrow> schema_node list \<Rightarrow> schema_node list res" where
  "expand docs nodes = expand_loop docs [] nodes"

section \<open>Nodes at a path\<close>

text \<open>\<open>search\<close> is \<open>re.search\<close>, which raises on a pattern it cannot compile.\<close>

definition pattern_nodes :: "(string \<Rightarrow> string \<Rightarrow> bool res) \<Rightarrow> schema_node \<Rightarrow> string \<Rightarrow> json \<Rightarrow> schema_node list res" where
  "pattern_nodes search n name patterns = (case patterns of
      JObj ps \<Rightarrow> bindR (filterR (\<lambda>pattern. search pattern name) (map fst ps))
        (\<lambda>matching. Inr (map (\<lambda>pattern. under n [Member ''patternProperties'', Member pattern]) matching))
    | _ \<Rightarrow> Inr [])"

definition member_nodes :: "(string \<Rightarrow> string \<Rightarrow> bool res) \<Rightarrow> schema_node \<Rightarrow> obj \<Rightarrow> string \<Rightarrow> schema_node list res" where
  "member_nodes search n d name =
     bindR (pattern_nodes search n name (dget d ''patternProperties'')) (\<lambda>matching.
       Inr ((case dget d ''properties'' of
               JObj properties \<Rightarrow> if dhas properties name then [under n [Member ''properties'', Member name]] else []
             | _ \<Rightarrow> []) @ matching))"

definition item_nodes :: "schema_node \<Rightarrow> obj \<Rightarrow> nat \<Rightarrow> schema_node list" where
  "item_nodes n d i =
     (if is_list (dget d ''prefixItems'') \<and> i < length (the_list (dget d ''prefixItems''))
      then [under n [Member ''prefixItems'', Item i]]
      else if is_dict (dget d ''items'') \<or> is_bool (dget d ''items'') then [under n [Member ''items'']] else [])"

definition child_nodes :: "(string \<Rightarrow> string \<Rightarrow> bool res) \<Rightarrow> documents \<Rightarrow> component \<Rightarrow> schema_node \<Rightarrow> schema_node list res" where
  "child_nodes search docs c n = (case schema_at docs n of
      Some (JObj d) \<Rightarrow> (case c of Member name \<Rightarrow> member_nodes search n d name | Item i \<Rightarrow> Inr (item_nodes n d i))
    | _ \<Rightarrow> Inr [])"

definition deduplicate_nodes :: "schema_node list \<Rightarrow> schema_node list" where
  "deduplicate_nodes nodes = rev (remdups (rev nodes))"

fun descend :: "(string \<Rightarrow> string \<Rightarrow> bool res) \<Rightarrow> documents \<Rightarrow> schema_node list \<Rightarrow> path \<Rightarrow> schema_node list res" where
  "descend search docs nodes [] = expand docs nodes"
| "descend search docs nodes (c # p) =
     bindR (expand docs nodes) (\<lambda>expanded.
     bindR (mapR (child_nodes search docs c) expanded) (\<lambda>children.
       if concat children = [] then Inr [] else descend search docs (deduplicate_nodes (concat children)) p))"

text \<open>The record that the source passes along is never consulted, and its cache returns what it stored for the
  same reference and path.\<close>

definition nodes_at_path :: "(string \<Rightarrow> string \<Rightarrow> bool res) \<Rightarrow> documents \<Rightarrow> string \<Rightarrow> path \<Rightarrow> schema_node list res" where
  "nodes_at_path search docs schema_ref p = (case resolve_target docs schema_ref None of
      Inl e \<Rightarrow> (if unresolved e then Inr [] else Inl e)
    | Inr n \<Rightarrow> descend search docs [n] p)"

end
