(* ===== verification/Denial_Walk.thy ===== *)
theory Denial_Walk
  imports Schema_Navigator Canonical
begin

text \<open>
  Reading and walking a candidate record in \<^verbatim>\<open>src/moj_discovery/universal_denial.py\<close>: the strict decoder, the
  resource limits of its shape, and the names and texts in the order in which the scans see them: depth first,
  the names of an object in the order of their UTF-8 encoding, which is the order of code points.
\<close>

section \<open>Violations and failures\<close>

datatype disposition = ACCEPTED | REJECTED | SCANNER_FAILURE | QUARANTINED

record violation =
  vl_error :: string
  vl_class :: string
  vl_path :: path
  vl_disposition :: disposition
  vl_location :: "string option"

text \<open>What a stage raises: a violation, one of the three decoding errors, the verdict of the JSON Schema validator,
  or any other exception.\<close>

datatype scan_error =
    Violation violation
  | DuplicateName
  | NonNfc
  | MalformedEncoding
  | SchemaRefused
  | Fault exn

type_synonym 'a staged = "scan_error + 'a"

definition bindV :: "'a staged \<Rightarrow> ('a \<Rightarrow> 'b staged) \<Rightarrow> 'b staged" where
  "bindV m f = (case m of Inl e \<Rightarrow> Inl e | Inr x \<Rightarrow> f x)"

fun foldV :: "('s \<Rightarrow> 'a \<Rightarrow> 's staged) \<Rightarrow> 's \<Rightarrow> 'a list \<Rightarrow> 's staged" where
  "foldV f s [] = Inr s"
| "foldV f s (x # xs) = bindV (f s x) (\<lambda>t. foldV f t xs)"

definition liftV :: "'a res \<Rightarrow> 'a staged" where
  "liftV m = (case m of Inl e \<Rightarrow> Inl (Fault e) | Inr x \<Rightarrow> Inr x)"

definition refuse :: "bool \<Rightarrow> violation \<Rightarrow> unit staged" where
  "refuse b v = (if b then Inl (Violation v) else Inr ())"

definition violation_at :: "string \<Rightarrow> string \<Rightarrow> path \<Rightarrow> violation" where
  "violation_at error violation_class p =
     \<lparr>vl_error = error, vl_class = violation_class, vl_path = p, vl_disposition = REJECTED, vl_location = None\<rparr>"

definition violation_of_root :: "string \<Rightarrow> string \<Rightarrow> string \<Rightarrow> violation" where
  "violation_of_root error violation_class location = (violation_at error violation_class [])\<lparr>vl_location := Some location\<rparr>"

lemma bindV_simps [simp]: "bindV (Inl e) f = Inl e" "bindV (Inr x) f = f x"
  by (simp_all add: bindV_def)

lemma bindV_Inr [simp]: "bindV m f = Inr y \<longleftrightarrow> (\<exists>x. m = Inr x \<and> f x = Inr y)"
  by (cases m) auto

lemma bindV_cong [fundef_cong]:
  "m = m' \<Longrightarrow> (\<And>x. m' = Inr x \<Longrightarrow> f x = f' x) \<Longrightarrow> bindV m f = bindV m' f'"
  by (cases m') auto

lemma foldV_cong [fundef_cong]:
  assumes "s = s'" "xs = xs'" and "\<And>x t. x \<in> set xs' \<Longrightarrow> f t x = g t x"
  shows "foldV f s xs = foldV g s' xs'"
proof -
  have "foldV f s xs = foldV g s xs" if "\<And>x t. x \<in> set xs \<Longrightarrow> f t x = g t x" for xs s
    using that by (induction xs arbitrary: s) (auto intro!: bindV_cong)
  with assms show ?thesis by simp
qed

lemma liftV_Inr [simp]: "liftV m = Inr x \<longleftrightarrow> m = Inr x"
  by (cases m) (auto simp: liftV_def)

lemma refuse_Inr [simp]: "refuse b v = Inr u \<longleftrightarrow> \<not> b"
  by (simp add: refuse_def)

lemma foldV_unit: "foldV (\<lambda>_ :: unit. f) () xs = Inr u \<longleftrightarrow> (\<forall>x \<in> set xs. f x = Inr ())"
  by (induction xs) auto

section \<open>Decoding\<close>

text \<open>What \<open>json.loads\<close> does with a text and its two hooks: the objects it completes, innermost first, and the
  constants \<open>NaN\<close> and infinity, in the order in which it reports them, and then the value, a decoding error of the
  text or its UTF-8, or another exception (a number that is too long, too much nesting). A hook that raises ends
  the parse.\<close>

datatype parse_event = Completed "(string \<times> json) list" | Constant string

datatype parse_end = Parsed json | Undecodable | Aborted exn

record decoder =
  de_loads :: "string \<Rightarrow> parse_event list \<times> parse_end"
  de_ext :: ext

definition unique_object :: "(string \<times> json) list \<Rightarrow> unit staged" where
  "unique_object pairs = (if distinct (map fst pairs) then Inr () else Inl DuplicateName)"

definition reject_nonfinite :: "string \<Rightarrow> unit staged" where
  "reject_nonfinite text = Inl MalformedEncoding"

definition parse_hook :: "parse_event \<Rightarrow> unit staged" where
  "parse_hook event = (case event of Completed pairs \<Rightarrow> unique_object pairs | Constant text \<Rightarrow> reject_nonfinite text)"

definition decode :: "decoder \<Rightarrow> string \<Rightarrow> json staged" where
  "decode D raw =
     (if starts_with raw UTF8_BOM then Inl MalformedEncoding
      else bindV (foldV (\<lambda>_. parse_hook) () (fst (de_loads D raw))) (\<lambda>_.
        case snd (de_loads D raw) of
          Undecodable \<Rightarrow> Inl MalformedEncoding
        | Aborted e \<Rightarrow> Inl (Fault e)
        | Parsed v \<Rightarrow> if unicode_ok (de_ext D) v then Inr v else Inl NonNfc))"

section \<open>Shape\<close>

definition MAXIMUM_DEPTH :: nat where "MAXIMUM_DEPTH = 64"
definition MAXIMUM_PROPERTIES :: nat where "MAXIMUM_PROPERTIES = 512"
definition MAXIMUM_ITEMS :: nat where "MAXIMUM_ITEMS = 4096"
definition MAXIMUM_NODES :: nat where "MAXIMUM_NODES = 100000"
definition MAXIMUM_STRING_BYTES :: nat where "MAXIMUM_STRING_BYTES = 2097152"

text \<open>The length of \<^verbatim>\<open>s.encode("utf-8")\<close>: one byte below code point 128, two up to 255.\<close>

definition utf8_length :: "string \<Rightarrow> nat" where
  "utf8_length s = sum_list (map (\<lambda>c. if (of_char c :: nat) < 128 then 1 else 2) s)"

abbreviation E_SHAPE :: "path \<Rightarrow> violation" where
  "E_SHAPE \<equiv> violation_at ''E_SHAPE'' ''SHAPE''"

text \<open>\<open>visit\<close>, with the count of nodes passed along.\<close>

function shape_visit :: "nat \<Rightarrow> json \<Rightarrow> nat \<Rightarrow> path \<Rightarrow> nat staged" where
  "shape_visit nodes v depth p =
     (let nodes = nodes + 1 in
      bindV (refuse (nodes > MAXIMUM_NODES \<or> depth > MAXIMUM_DEPTH) (E_SHAPE p)) (\<lambda>_.
      case v of
        JObj d \<Rightarrow>
          bindV (refuse (length d > MAXIMUM_PROPERTIES) (E_SHAPE p)) (\<lambda>_.
          foldV (\<lambda>n (key, child).
              bindV (refuse (utf8_length key > MAXIMUM_STRING_BYTES) (E_SHAPE (p @ [Member key]))) (\<lambda>_.
              shape_visit n child (depth + 1) (p @ [Member key]))) nodes (sort_key fst d))
      | JArr xs \<Rightarrow>
          bindV (refuse (length xs > MAXIMUM_ITEMS) (E_SHAPE p)) (\<lambda>_.
          foldV (\<lambda>n (i, child). shape_visit n child (depth + 1) (p @ [Item i])) nodes (indexed xs))
      | JStr s \<Rightarrow> bindV (refuse (utf8_length s > MAXIMUM_STRING_BYTES) (E_SHAPE p)) (\<lambda>_. Inr nodes)
      | _ \<Rightarrow> Inr nodes))"
  by auto
termination
  by (relation "measure (\<lambda>(nodes, v, depth, p). size v)") (auto dest: size_item size_member)

declare shape_visit.simps [simp del]

definition shape_scan :: "json \<Rightarrow> unit staged" where
  "shape_scan v =
     bindV (refuse (\<not> is_dict v) (violation_of_root ''E_SHAPE'' ''SHAPE'' ''ROOT_SHAPE'')) (\<lambda>_.
     bindV (shape_visit 0 v 0 []) (\<lambda>_. Inr ()))"

section \<open>Names and texts\<close>

function walk_names :: "json \<Rightarrow> path \<Rightarrow> (path \<times> string \<times> json) list" where
  "walk_names v p = (case v of
      JObj d \<Rightarrow> concat (map (\<lambda>(name, child).
        (p @ [Member name], name, child) # walk_names child (p @ [Member name])) (sort_key fst d))
    | JArr xs \<Rightarrow> concat (map (\<lambda>(i, child). walk_names child (p @ [Item i])) (indexed xs))
    | _ \<Rightarrow> [])"
  by auto
termination
  by (relation "measure (\<lambda>(v, p). size v)") (auto dest: size_item size_member)

declare walk_names.simps [simp del]

function walk_string_values :: "json \<Rightarrow> path \<Rightarrow> (path \<times> string) list" where
  "walk_string_values v p = (case v of
      JStr s \<Rightarrow> [(p, s)]
    | JObj d \<Rightarrow> concat (map (\<lambda>(name, child). walk_string_values child (p @ [Member name])) (sort_key fst d))
    | JArr xs \<Rightarrow> concat (map (\<lambda>(i, child). walk_string_values child (p @ [Item i])) (indexed xs))
    | _ \<Rightarrow> [])"
  by auto
termination
  by (relation "measure (\<lambda>(v, p). size v)") (auto dest: size_item size_member)

declare walk_string_values.simps [simp del]

end
