(* ===== verification/Denial_Policy.thy ===== *)
theory Denial_Policy
  imports Denial_Walk
begin

text \<open>
  The closed policy of \<^verbatim>\<open>src/moj_discovery/universal_denial.py\<close> and the loading of the schemas. The
  constructor of the engine refuses a registry or a policy that differs from the constants, so the scans read the
  constants.
\<close>

section \<open>Constants\<close>

definition ORDERED_STAGES :: "string list" where
  "ORDERED_STAGES = [''DECODE'', ''SHAPE_SCAN'', ''NAME_SCAN'', ''VALUE_SCAN'', ''ENTROPY_SCAN'', ''DECLARATION_CHECK'',
     ''SCHEMA_VALIDATE'', ''PROJECT_SANITIZED_RECORD'', ''HASH_SANITIZED_RECORD'', ''LOG_RECEIPT'', ''PERSIST_INDEXEDDB'',
     ''PERSIST_SQLITE'', ''EMIT_FIXTURE'', ''EMIT_REPORT'', ''EMIT_REPLAY_ARTIFACT'', ''EMIT_EXPORT'']"

definition SIDE_EFFECT_STAGES :: "string list" where
  "SIDE_EFFECT_STAGES = drop 7 ORDERED_STAGES"

definition NAME_FRAGMENTS :: "string list" where
  "NAME_FRAGMENTS = [''cookie'', ''authorization'', ''bearer'', ''basic'', ''token'', ''secret'', ''key'', ''password'',
     ''credentials'', ''url'', ''query'', ''fragment'', ''headers'', ''selector'', ''script'', ''expression'']"

definition OPEN_OBJECT_NAMES :: "string list" where
  "OPEN_OBJECT_NAMES = [''payload'', ''data'', ''attributes'']"

definition CREDENTIAL_MARKERS :: "string list" where
  "CREDENTIAL_MARKERS = [''Bearer '', ''Basic '']"

definition COMMAND_PREFIXES :: "string list" where
  "COMMAND_PREFIXES = [''Runtime.'', ''DOM.'', ''Input.'', ''Fetch.'']"

definition MUTATING_PREFIXES :: "string list" where
  "MUTATING_PREFIXES = [''Page.'', ''Network.set'', ''Network.emulate'', ''Network.continue'', ''Network.fail'',
     ''Network.fulfill'', ''Network.delete'', ''Network.clear'']"

definition AUTHORITY_VALUES :: "string list" where
  "AUTHORITY_VALUES = [''PRODUCTION'', ''LIVE'', ''REAL_MONEY'']"

definition ALLOWED_COMMANDS :: "string list" where
  "ALLOWED_COMMANDS = [''Network.enable'', ''Network.disable'']"

definition RESULT_NAMES :: "string list" where
  "RESULT_NAMES = [''final_score'', ''winner'', ''settlement'', ''outcome'', ''outcomes'']"

definition METRIC_NAMES :: "string list" where
  "METRIC_NAMES = [''wdl_metric'', ''model_metric'', ''calibration_metric'', ''market_performance'', ''roi'', ''yield'', ''ev'',
     ''edge'', ''profit'', ''pnl'', ''drawdown'', ''ranking'', ''champion'']"

definition REQUIRED_FORBIDDEN_REGISTRY :: "(string \<times> string list) list" where
  "REQUIRED_FORBIDDEN_REGISTRY =
     [(''forbidden_name_fragments'', NAME_FRAGMENTS), (''forbidden_open_object_names'', OPEN_OBJECT_NAMES),
      (''forbidden_credential_value_markers'', CREDENTIAL_MARKERS), (''forbidden_command_prefixes'', COMMAND_PREFIXES),
      (''forbidden_mutating_command_prefixes'', MUTATING_PREFIXES), (''forbidden_authority_values'', AUTHORITY_VALUES),
      (''allowed_non_mutating_command_values'', ALLOWED_COMMANDS), (''forbidden_result_names'', RESULT_NAMES),
      (''forbidden_metric_names'', METRIC_NAMES)]"

definition SAFE_FIELD :: string where "SAFE_FIELD = ''issuer_key_id''"
definition SAFE_SCHEMA_ID :: string where "SAFE_SCHEMA_ID = ''urn:hybrid-discovery:v6.2:authorization-records''"
definition SAFE_PATTERN :: string where "SAFE_PATTERN = ''^key:ed25519:[0-9a-f]{64}$''"

definition SAFE_IDENTIFIER :: obj where
  "SAFE_IDENTIFIER = [(''field_name'', JStr SAFE_FIELD), (''required_declaring_schema_id'', JStr SAFE_SCHEMA_ID),
     (''required_declared_value_pattern'', JStr SAFE_PATTERN), (''excepted_forbidden_segment'', JStr ''key''),
     (''bypass_scope'', JStr ''NAME_FRAGMENT_ONLY'')]"

definition EXPECTED_LIMITS :: obj where
  "EXPECTED_LIMITS = [(''maximum_depth'', JInt (int MAXIMUM_DEPTH)), (''maximum_object_properties'', JInt (int MAXIMUM_PROPERTIES)),
     (''maximum_array_items'', JInt (int MAXIMUM_ITEMS)), (''maximum_total_nodes'', JInt (int MAXIMUM_NODES)),
     (''maximum_string_utf8_bytes'', JInt (int MAXIMUM_STRING_BYTES))]"

definition EXPECTED_DENIAL_PRECEDENCE :: "(int \<times> string \<times> string) list" where
  "EXPECTED_DENIAL_PRECEDENCE =
     [(1, ''DECODE'', ''E_ENCODING_OR_DUPLICATE_OR_NFC''), (2, ''SHAPE_SCAN'', ''E_SHAPE_RESOURCE_LIMIT_OR_NONFINITE''),
      (3, ''NAME_SCAN'', ''E_FORBIDDEN_NAME_OR_OPEN_OBJECT_ESCAPE''), (4, ''VALUE_SCAN'', ''E_FORBIDDEN_VALUE_OR_COMMAND_OR_AUTHORITY''),
      (5, ''ENTROPY_SCAN'', ''E_CREDENTIAL_ENTROPY''), (6, ''DECLARATION_CHECK'', ''E_UNKNOWN_NAME_OR_SCHEMA_QUARANTINE''),
      (7, ''SCHEMA_VALIDATE'', ''E_CLOSED_SCHEMA_VIOLATION'')]"

definition MINIMUM_ENTROPY_BYTES :: nat where "MINIMUM_ENTROPY_BYTES = 32"
definition MINIMUM_CLASSES :: nat where "MINIMUM_CLASSES = 3"

definition ENTROPY_RULE :: obj where
  "ENTROPY_RULE = [(''minimum_utf8_bytes'', JInt (int MINIMUM_ENTROPY_BYTES)), (''minimum_shannon_bits_per_byte'', JStr ''4.5''),
     (''minimum_character_classes'', JInt (int MINIMUM_CLASSES)),
     (''calculation'', JStr ''SHANNON_ENTROPY_BASE2_OVER_EXACT_UTF8_BYTE_FREQUENCIES_WHOLE_STRING''),
     (''scope'', JStr ''EVERY_STRING_VALUE_NOT_MATCHING_A_SCHEMA_COMPILED_EXCLUDED_TYPED_PATH''),
     (''excluded_typed_value_classes'', JArr (map JStr [''SHA256'', ''UUID'', ''OPAQUE_ID'', ''SIGNATURE'', ''NONCE'', ''DECIMAL'',
        ''UTC_DATETIME'']))]"

definition REQUIRED_POLICY :: obj where
  "REQUIRED_POLICY =
     [(''policy_id'', JStr ''universal-denial-before-side-effects/v1''), (''input_encoding'', JStr ''UTF8_NO_BOM''),
      (''encoding_validation'', JStr ''REJECT_INVALID_UTF8_OVERLONG_SEQUENCES_SURROGATES_NONCHARACTERS_AND_BOM''),
      (''unicode_rule'', JStr ''REQUIRE_NFC_DO_NOT_NORMALIZE''), (''duplicate_object_names'', JStr ''REJECT_BEFORE_TRAVERSAL''),
      (''name_case_rule'', JStr ''ASCII_LOWERCASE_FOR_MATCH_ONLY''),
      (''value_case_rule'', JStr ''UNICODE_DEFAULT_CASEFOLD_FOR_MATCH_ONLY''),
      (''traversal'', JStr ''DEPTH_FIRST_PREORDER_OBJECT_NAMES_UTF8_LEXICOGRAPHIC_ARRAY_INDEX_ASCENDING''),
      (''shape_rule'', JStr (''JSON_OBJECT_ROOT_ONLY_FINITE_TREE_RESOURCE_LIMITS_NO_NONFINITE_NUMBER_'' @
         ''CAPTURE_EVERY_MEMBER_WITHOUT_SCHEMA_ACCEPTANCE'')),
      (''shape_unknown_member_handling'', JStr (''CAPTURE_EPHEMERALLY_THEN_CONTINUE_NAME_VALUE_ENTROPY_SCANS; '' @
         ''IF_NO_EARLIER_DENIAL_MATCH_QUARANTINE_AS_UNKNOWN_NAME_OR_SCHEMA_AT_'' @ ''DECLARATION_CHECK_BEFORE_SCHEMA_VALIDATE'')),
      (''captured_member_custody'', JStr ''IN_MEMORY_EXACT_BYTES_ONLY_UNHASHED_UNLOGGED_UNPERSISTED_UNEMITTED''),
      (''limits'', JObj EXPECTED_LIMITS), (''ordered_stages'', JArr (map JStr ORDERED_STAGES)),
      (''denial_must_complete_before'', JArr (map JStr SIDE_EFFECT_STAGES)),
      (''scanner_failure'', JStr ''SAFETY_STOP_ZERO_SIDE_EFFECTS''), (''unknown_name_or_schema'', JStr ''QUARANTINE_ZERO_SIDE_EFFECTS''),
      (''matched_bytes_recorded'', JBool False), (''candidate_bytes_hashed'', JBool False),
      (''denied_or_quarantined_candidate_bytes_projected'', JBool False),
      (''receipt_custody'', JStr ''SYNTHETIC_IN_MEMORY_EXPECTATION_ONLY_NOT_A_LOG_OR_PERSISTED_ARTIFACT''),
      (''production_authority'', JStr ''NONE'')]"

section \<open>Validation\<close>

definition precedence_entry :: "int \<times> string \<times> string \<Rightarrow> json \<Rightarrow> bool" where
  "precedence_entry expected entry = (case expected of (rank, stage, verdict) \<Rightarrow>
     py_eq (dget (the_dict entry) ''scanner_rank'') (JInt rank) \<and> py_eq (dget (the_dict entry) ''stage'') (JStr stage) \<and>
     py_eq (dget (the_dict entry) ''outcome'') (JStr verdict))"

definition precedence_agrees :: "json \<Rightarrow> bool" where
  "precedence_agrees v = (case v of
      JArr entries \<Rightarrow> list_all2 precedence_entry EXPECTED_DENIAL_PRECEDENCE (filter is_dict entries)
    | _ \<Rightarrow> False)"

definition registry_agrees :: "obj \<Rightarrow> bool" where
  "registry_agrees forbidden =
     (list_all (\<lambda>(key, expected). py_eq (dget forbidden key) (JArr (map JStr expected))) REQUIRED_FORBIDDEN_REGISTRY \<and>
      py_eq (dget forbidden ''credential_safe_identifier_name_allowlist'') (JArr [JObj SAFE_IDENTIFIER]))"

definition policy_agrees :: "obj \<Rightarrow> bool" where
  "policy_agrees policy =
     (precedence_agrees (dget policy ''within_denial_error_precedence'') \<and> is_dict (dget policy ''entropy_rule'') \<and>
      list_all (\<lambda>(key, v). py_eq (dget policy key) v) REQUIRED_POLICY \<and>
      py_eq (dget policy ''entropy_rule'') (JObj ENTROPY_RULE))"

text \<open>\<open>UniversalDenialContractError\<close> is a subclass of \<open>AssertionError\<close>.\<close>

definition validate_policy :: "obj \<Rightarrow> obj \<Rightarrow> unit res" where
  "validate_policy forbidden policy = assertR (registry_agrees forbidden \<and> policy_agrees policy)"

section \<open>Schemas\<close>

definition load_json_object :: "decoder \<Rightarrow> string \<Rightarrow> obj res" where
  "load_json_object D raw = (case decode D raw of
      Inr (JObj d) \<Rightarrow> Inr d
    | Inl (Fault e) \<Rightarrow> Inl e
    | _ \<Rightarrow> Inl AssertionError)"

definition load_schema :: "decoder \<Rightarrow> documents \<Rightarrow> string \<Rightarrow> documents res" where
  "load_schema D docs raw =
     bindR (load_json_object D raw) (\<lambda>schema.
     (let schema_id = dget schema ''$id'' in
      bindR (assertR (is_str schema_id \<and> map_of docs (the_str schema_id) = None)) (\<lambda>_.
        Inr (docs @ [(the_str schema_id, JObj schema)]))))"

text \<open>The files of the schema directory in the order of their names.\<close>

definition load_schemas :: "decoder \<Rightarrow> string list \<Rightarrow> documents res" where
  "load_schemas D files = bindR (assertR (length files = 13)) (\<lambda>_. foldR (load_schema D) [] files)"

definition META_RECORDS :: string where "META_RECORDS = ''urn:hybrid-discovery:v6.2:meta-records:v1''"

definition open_engine :: "decoder \<Rightarrow> string list \<Rightarrow> documents res" where
  "open_engine D files =
     bindR (load_schemas D files) (\<lambda>docs.
     bindR (ditem docs META_RECORDS) (\<lambda>meta.
     bindR (jget meta ''x-universal-forbidden-registry'') (\<lambda>forbidden.
     bindR (jget meta ''x-universal-denial-policy'') (\<lambda>policy.
     bindR (assertR (is_dict forbidden \<and> is_dict policy)) (\<lambda>_.
     bindR (validate_policy (the_dict forbidden) (the_dict policy)) (\<lambda>_. Inr docs))))))"

text \<open>\<open>_string_tuple\<close> of the registry: after the validation it returns the constants.\<close>

definition string_tuple :: "obj \<Rightarrow> string \<Rightarrow> string list res" where
  "string_tuple source key = (case dget source key of
      JArr xs \<Rightarrow> if list_all is_str xs then Inr (map the_str xs) else Inl AssertionError
    | _ \<Rightarrow> Inl AssertionError)"

lemma py_eq_strings: "py_eq v (JArr (map JStr ss)) \<longleftrightarrow> v = JArr (map JStr ss)"
proof (cases v)
  case (JArr xs)
  have "length xs = length ss \<and> list_all (\<lambda>(x, y). py_eq x y) (zip xs (map JStr ss)) \<longleftrightarrow> xs = map JStr ss" for ss
    by (induction xs arbitrary: ss; case_tac ss) (auto simp: py_eq_str)
  with JArr show ?thesis by auto
qed auto

lemma validated_registry:
  assumes "validate_policy forbidden policy = Inr u" and "(key, expected) \<in> set REQUIRED_FORBIDDEN_REGISTRY"
  shows "string_tuple forbidden key = Inr expected"
proof -
  have "list_all (\<lambda>(key, expected). py_eq (dget forbidden key) (JArr (map JStr expected))) REQUIRED_FORBIDDEN_REGISTRY"
    using assms(1) by (simp add: validate_policy_def registry_agrees_def)
  with assms(2) have "dget forbidden key = JArr (map JStr expected)" by (auto simp: list_all_iff py_eq_strings)
  then show ?thesis by (simp add: string_tuple_def list_all_iff comp_def)
qed

lemma validated_limits:
  assumes "validate_policy forbidden policy = Inr u"
  shows "py_eq (dget policy ''limits'') (JObj EXPECTED_LIMITS)"
proof -
  have "list_all (\<lambda>(key, v). py_eq (dget policy key) v) REQUIRED_POLICY"
    using assms by (simp add: validate_policy_def policy_agrees_def)
  moreover have "(''limits'', JObj EXPECTED_LIMITS) \<in> set REQUIRED_POLICY" by (simp add: REQUIRED_POLICY_def)
  ultimately show ?thesis by (auto simp: list_all_iff)
qed

end
