(* ===== verification/Universal_Denial.thy ===== *)
theory Universal_Denial
  imports Denial_Policy
begin

text \<open>
  \<^verbatim>\<open>src/moj_discovery/universal_denial.py\<close>: the scanner in front of every side effect. The regular
  expressions of schemas (\<open>re.search\<close>), the floating-point comparison of the Shannon entropy of a text with 4.5 bits
  per byte, and the verdicts of the JSON Schema validator are parameters; the parser is in \<open>decoder\<close>.
\<close>

record engine =
  en_decoder :: decoder
  en_documents :: documents
  en_search :: "string \<Rightarrow> string \<Rightarrow> bool res"
  en_high_entropy :: "string \<Rightarrow> bool"
  en_valid :: "string \<Rightarrow> json \<Rightarrow> bool res"

definition engine_nodes :: "engine \<Rightarrow> string \<Rightarrow> path \<Rightarrow> schema_node list res" where
  "engine_nodes E schema_ref p = nodes_at_path (en_search E) (en_documents E) schema_ref p"

section \<open>Text\<close>

definition ascii_lower_char :: "char \<Rightarrow> char" where
  "ascii_lower_char c = (if is_upper c then char_of ((of_char c :: nat) + 32) else c)"

definition ascii_lower :: "string \<Rightarrow> string" where
  "ascii_lower s = map ascii_lower_char s"

text \<open>\<open>str.casefold\<close> below code point 256, as code points: the micro sign folds to the Greek letter, the sharp s to
  two letters.\<close>

definition casefold_char :: "char \<Rightarrow> nat list" where
  "casefold_char c = (let n = (of_char c :: nat) in
     if (65 \<le> n \<and> n \<le> 90) \<or> (192 \<le> n \<and> n \<le> 222 \<and> n \<noteq> 215) then [n + 32]
     else if n = 223 then [115, 115] else if n = 181 then [956] else [n])"

definition casefold :: "string \<Rightarrow> nat list" where
  "casefold s = concat (map casefold_char s)"

text \<open>\<open>islower\<close>, \<open>isupper\<close>, \<open>isdigit\<close>, \<open>isalnum\<close> of a character below code point 256.\<close>

definition char_lower :: "char \<Rightarrow> bool" where
  "char_lower c = (let n = (of_char c :: nat) in (97 \<le> n \<and> n \<le> 122) \<or> n \<in> {170, 181, 186} \<or> (223 \<le> n \<and> n \<noteq> 247))"

definition char_upper :: "char \<Rightarrow> bool" where
  "char_upper c = (let n = (of_char c :: nat) in (65 \<le> n \<and> n \<le> 90) \<or> (192 \<le> n \<and> n \<le> 222 \<and> n \<noteq> 215))"

definition char_digit :: "char \<Rightarrow> bool" where
  "char_digit c = (let n = (of_char c :: nat) in (48 \<le> n \<and> n \<le> 57) \<or> n \<in> {178, 179, 185})"

definition char_alnum :: "char \<Rightarrow> bool" where
  "char_alnum c = (char_lower c \<or> char_upper c \<or> char_digit c \<or> (of_char c :: nat) \<in> {188, 189, 190})"

definition character_class_count :: "string \<Rightarrow> nat" where
  "character_class_count s = of_bool (list_ex char_lower s) + of_bool (list_ex char_upper s) + of_bool (list_ex char_digit s) +
     of_bool (list_ex (\<lambda>c. \<not> char_alnum c) s)"

definition ascii_letter :: "char \<Rightarrow> bool" where
  "ascii_letter c = (let n = (of_char c :: nat) in (65 \<le> n \<and> n \<le> 90) \<or> (97 \<le> n \<and> n \<le> 122))"

text \<open>\<open>[A-Z][A-Za-z0-9]*\.[A-Za-z][A-Za-z0-9]*\<close>, matched in full.\<close>

definition command_value :: "string \<Rightarrow> bool" where
  "command_value s = (case split_on CHR ''.'' s of
      [a, b] \<Rightarrow> a \<noteq> [] \<and> is_upper (hd a) \<and> b \<noteq> [] \<and> ascii_letter (hd b) \<and>
        list_all (\<lambda>c. ascii_letter c \<or> is_digit c) (a @ b)
    | _ \<Rightarrow> False)"

section \<open>Names\<close>

definition matched_fragments :: "string \<Rightarrow> string list" where
  "matched_fragments lowered = filter (\<lambda>fragment. is_substring fragment lowered) NAME_FRAGMENTS"

definition safe_value :: "string \<Rightarrow> bool" where
  "safe_value s = (starts_with s ''key:ed25519:'' \<and> hex64 (drop 12 s))"

definition safe_node :: "engine \<Rightarrow> schema_node \<Rightarrow> bool" where
  "safe_node E n = (fst n = SAFE_SCHEMA_ID \<and> (case schema_at (en_documents E) n of
      Some (JObj d) \<Rightarrow> str_is (dget d ''pattern'') SAFE_PATTERN
    | _ \<Rightarrow> False))"

definition safe_identifier_allowed :: "engine \<Rightarrow> string \<Rightarrow> path \<Rightarrow> string \<Rightarrow> json \<Rightarrow> bool res" where
  "safe_identifier_allowed E schema_ref p name v =
     (if name \<noteq> SAFE_FIELD \<or> \<not> is_str v \<or> \<not> safe_value (the_str v) then Inr False
      else bindR (engine_nodes E schema_ref p) (\<lambda>nodes. Inr (list_ex (safe_node E) nodes)))"

abbreviation forbidden_name :: "string \<Rightarrow> path \<Rightarrow> violation" where
  "forbidden_name error p \<equiv> violation_at error ''FORBIDDEN_NAME'' p"

definition check_name :: "engine \<Rightarrow> string \<Rightarrow> path \<times> string \<times> json \<Rightarrow> unit staged" where
  "check_name E schema_ref entry = (case entry of (p, name, v) \<Rightarrow>
     (let lowered = ascii_lower name; matched = matched_fragments lowered in
      bindV (refuse (lowered \<in> set OPEN_OBJECT_NAMES) (forbidden_name ''E_OPEN_OBJECT_ESCAPE'' p)) (\<lambda>_.
      bindV (refuse (lowered \<in> set RESULT_NAMES) (forbidden_name ''E_D0_RESULT_FIELD'' p)) (\<lambda>_.
      bindV (refuse (lowered \<in> set METRIC_NAMES) (forbidden_name ''E_D0_PERFORMANCE_FIELD'' p)) (\<lambda>_.
      if matched = [] then Inr ()
      else bindV (if matched = [''key''] then liftV (safe_identifier_allowed E schema_ref p name v) else Inr False) (\<lambda>allowed.
        refuse (\<not> allowed) (forbidden_name ''E_FORBIDDEN_NAME'' p)))))))"

definition name_scan :: "engine \<Rightarrow> string \<Rightarrow> json \<Rightarrow> unit staged" where
  "name_scan E schema_ref record = foldV (\<lambda>_. check_name E schema_ref) () (walk_names record [])"

section \<open>Values\<close>

definition credential_value :: "string \<Rightarrow> bool" where
  "credential_value s = list_ex (\<lambda>m. take (length (casefold m)) (casefold s) = casefold m) CREDENTIAL_MARKERS"

definition forbidden_command :: "string \<Rightarrow> bool" where
  "forbidden_command s = (s \<notin> set ALLOWED_COMMANDS \<and>
     (list_ex (starts_with s) COMMAND_PREFIXES \<or> list_ex (starts_with s) MUTATING_PREFIXES \<or> command_value s))"

definition forbidden_authority :: "string \<Rightarrow> bool" where
  "forbidden_authority s = (casefold s \<in> set (map casefold AUTHORITY_VALUES))"

abbreviation forbidden_value :: "string \<Rightarrow> path \<Rightarrow> violation" where
  "forbidden_value error p \<equiv> violation_at error ''FORBIDDEN_VALUE'' p"

definition check_value :: "path \<times> string \<Rightarrow> unit staged" where
  "check_value entry = (case entry of (p, s) \<Rightarrow>
     bindV (refuse (credential_value s) (forbidden_value ''E_FORBIDDEN_VALUE'' p)) (\<lambda>_.
     bindV (refuse (forbidden_command s) (forbidden_value ''E_FORBIDDEN_COMMAND'' p)) (\<lambda>_.
       refuse (forbidden_authority s) (forbidden_value ''E_FORBIDDEN_AUTHORITY'' p))))"

definition value_scan :: "json \<Rightarrow> unit staged" where
  "value_scan record = foldV (\<lambda>_. check_value) () (walk_string_values record [])"

section \<open>Entropy\<close>

definition EXCLUDED_ANCHORS :: "string list" where
  "EXCLUDED_ANCHORS = [''Sha256'', ''UUID'', ''OpaqueId'', ''UnsignedDecimal'', ''UnsignedInteger'', ''PositiveInteger'', ''UtcDateTime'']"

definition EXCLUDED_PATTERNS :: "string list" where
  "EXCLUDED_PATTERNS = [''^[A-Za-z0-9_-]{86}$'', ''^[A-Za-z0-9_-]{43}$'', ''^[0-9a-f]{64}$'',
     ''^[0-9a-f]{8}-[0-9a-f]{4}-4[0-9a-f]{3}-[89ab][0-9a-f]{3}-[0-9a-f]{12}$'', ''^(0|[1-9][0-9]*)$'',
     ''^(0|[1-9][0-9]*)('' @ [CHR 0x5C] @ ''.[0-9]+)?$'', ''^[1-9][0-9]*$'']"

definition node_excludes :: "engine \<Rightarrow> schema_node \<Rightarrow> bool res" where
  "node_excludes E n = (case schema_at (en_documents E) n of
      Some (JObj d) \<Rightarrow>
        orR (in_strs (dget d ''$anchor'') EXCLUDED_ANCHORS)
        (orR (in_strs (dget d ''pattern'') EXCLUDED_PATTERNS)
          (Inr (str_is (dget d ''format'') ''date-time'' \<and> str_is (dget d ''pattern'') ''Z$'')))
    | _ \<Rightarrow> Inr False)"

definition is_typed_entropy_exclusion :: "engine \<Rightarrow> string \<Rightarrow> path \<Rightarrow> bool res" where
  "is_typed_entropy_exclusion E schema_ref p = bindR (engine_nodes E schema_ref p) (anyR (node_excludes E))"

definition check_entropy :: "engine \<Rightarrow> string \<Rightarrow> path \<times> string \<Rightarrow> unit staged" where
  "check_entropy E schema_ref entry = (case entry of (p, s) \<Rightarrow>
     if utf8_length s < MINIMUM_ENTROPY_BYTES then Inr ()
     else bindV (liftV (is_typed_entropy_exclusion E schema_ref p)) (\<lambda>excluded.
       refuse (\<not> excluded \<and> MINIMUM_CLASSES \<le> character_class_count s \<and> en_high_entropy E s)
         (violation_at ''E_CREDENTIAL_ENTROPY'' ''CREDENTIAL_ENTROPY'' p)))"

definition entropy_scan :: "engine \<Rightarrow> string \<Rightarrow> json \<Rightarrow> unit staged" where
  "entropy_scan E schema_ref record = foldV (\<lambda>_. check_entropy E schema_ref) () (walk_string_values record [])"

section \<open>Declarations\<close>

definition check_declared :: "engine \<Rightarrow> string \<Rightarrow> path \<times> string \<times> json \<Rightarrow> unit staged" where
  "check_declared E schema_ref entry =
     bindV (liftV (engine_nodes E schema_ref (fst entry))) (\<lambda>nodes.
       refuse (nodes = []) ((violation_at ''E_UNKNOWN_NAME'' ''UNKNOWN_NAME'' (fst entry))\<lparr>vl_disposition := QUARANTINED\<rparr>))"

definition declaration_check :: "engine \<Rightarrow> string \<Rightarrow> json \<Rightarrow> unit staged" where
  "declaration_check E schema_ref record =
     bindV (liftV (engine_nodes E schema_ref [])) (\<lambda>nodes.
     bindV (refuse (nodes = [])
       ((violation_of_root ''E_UNKNOWN_SCHEMA'' ''UNKNOWN_SCHEMA'' ''ROOT_SCHEMA'')\<lparr>vl_disposition := QUARANTINED\<rparr>)) (\<lambda>_.
       foldV (\<lambda>_. check_declared E schema_ref) () (walk_names record [])))"

definition validate_record :: "engine \<Rightarrow> string \<Rightarrow> json \<Rightarrow> unit staged" where
  "validate_record E schema_ref record =
     bindV (liftV (en_valid E schema_ref record)) (\<lambda>ok. if ok then Inr () else Inl SchemaRefused)"

section \<open>Outcomes\<close>

record denial_identity =
  ri_receipt :: string
  ri_attempt :: string
  ri_class :: string

record scan_outcome =
  so_disposition :: disposition
  so_error :: "string option"
  so_class :: "string option"
  so_location :: "string option"
  so_completed :: "string list"
  so_receipt :: "obj option"

text \<open>\<open>_location_code\<close>. Upper case and then everything but capitals and digits to underscores: beyond ASCII only the
  sharp s becomes two capitals.\<close>

definition location_char :: "char \<Rightarrow> string" where
  "location_char c = (let n = (of_char c :: nat) in
     if n = 223 then ''SS''
     else if 97 \<le> n \<and> n \<le> 122 then [char_of (n - 32)]
     else if is_upper c \<or> is_digit c then [c] else ''_'')"

fun single_underscores :: "string \<Rightarrow> string" where
  "single_underscores (c # d # s) = (if c = CHR ''_'' \<and> d = CHR ''_'' then single_underscores (d # s) else c # single_underscores (d # s))"
| "single_underscores s = s"

definition rstrip_underscore :: "string \<Rightarrow> string" where
  "rstrip_underscore s = rev (dropWhile (\<lambda>c. c = CHR ''_'') (rev s))"

definition strip_underscore :: "string \<Rightarrow> string" where
  "strip_underscore s = rstrip_underscore (dropWhile (\<lambda>c. c = CHR ''_'') s)"

fun component_text :: "component \<Rightarrow> string" where
  "component_text (Member name) = name"
| "component_text (Item i) = str_nat i"

definition location_code :: "path \<Rightarrow> string" where
  "location_code p =
     (let components = (if length p = 1 then [''ROOT''] else []) @ map component_text p;
          raw = (if components = [] then ''ROOT'' else join ''_'' components);
          normalized = strip_underscore (single_underscores (concat (map location_char raw)));
          normalized = (if normalized = [] then ''ROOT_VALUE''
                        else if \<not> is_upper (hd normalized) then ''ROOT_'' @ normalized else normalized)
      in rstrip_underscore (take 96 normalized))"

definition disposition_text :: "disposition \<Rightarrow> string" where
  "disposition_text d = (case d of ACCEPTED \<Rightarrow> ''ACCEPTED'' | REJECTED \<Rightarrow> ''REJECTED'' | SCANNER_FAILURE \<Rightarrow> ''SCANNER_FAILURE''
     | QUARANTINED \<Rightarrow> ''QUARANTINED'')"

definition EFFECT_FIELDS :: "string list" where
  "EFFECT_FIELDS = [''matched_bytes_recorded'', ''candidate_bytes_hashed'', ''sanitized_record_projected'', ''artifact_written'',
     ''log_written'', ''indexeddb_written'', ''sqlite_written'', ''fixture_emitted'', ''report_emitted'', ''replay_artifact_emitted'',
     ''export_emitted'']"

definition build_receipt :: "denial_identity \<Rightarrow> violation \<Rightarrow> string \<Rightarrow> obj" where
  "build_receipt identity v location =
     [(''schema_version'', JStr ''universal-denial-receipt/v1''), (''receipt_id'', JStr (ri_receipt identity)),
      (''attempt_id'', JStr (ri_attempt identity)), (''input_class'', JStr (ri_class identity)),
      (''scanner_disposition'', JStr (disposition_text (vl_disposition v))), (''violation_class'', JStr (vl_class v)),
      (''location_code'', JStr location)] @
     map (\<lambda>k. (k, JBool False)) EFFECT_FIELDS @
     [(''safety_stop'', JBool True), (''production_authority'', JStr ''NONE'')]"

definition RECEIPT_SCHEMA :: string where
  "RECEIPT_SCHEMA = ''urn:hybrid-discovery:v6.2:meta-records:v1#UniversalDenialReceipt''"

text \<open>The validator raises its own exception when the receipt does not conform, which nothing catches.\<close>

definition validate_receipt :: "engine \<Rightarrow> obj \<Rightarrow> unit res" where
  "validate_receipt E receipt = bindR (en_valid E RECEIPT_SCHEMA (JObj receipt)) (\<lambda>ok. raise_if (\<not> ok) SchemaViolation)"

definition denied :: "engine \<Rightarrow> violation \<Rightarrow> string list \<Rightarrow> denial_identity option \<Rightarrow> scan_outcome res" where
  "denied E v completed identity =
     (let location = (case vl_location v of Some l \<Rightarrow> l | None \<Rightarrow> location_code (vl_path v));
          receipt = map_option (\<lambda>i. build_receipt i v location) identity in
      bindR (case receipt of None \<Rightarrow> Inr () | Some r \<Rightarrow> validate_receipt E r) (\<lambda>_.
      bindR (assertR (list_all (\<lambda>stage. stage \<notin> set SIDE_EFFECT_STAGES) completed)) (\<lambda>_.
        Inr \<lparr>so_disposition = vl_disposition v, so_error = Some (vl_error v), so_class = Some (vl_class v),
             so_location = Some location, so_completed = completed, so_receipt = receipt\<rparr>)))"

definition scanner_failure :: violation where
  "scanner_failure = (violation_of_root ''E_SCANNER_FAILURE'' ''SCANNER_FAILURE'' ''SCANNER_INTERNAL_FAILURE'')
     \<lparr>vl_disposition := SCANNER_FAILURE\<rparr>"

text \<open>The handlers of \<open>_scan\<close>.\<close>

fun violation_of :: "scan_error \<Rightarrow> violation" where
  "violation_of (Violation v) = v"
| "violation_of DuplicateName = violation_of_root ''E_DUPLICATE_NAME'' ''DUPLICATE_NAME'' ''ROOT_DUPLICATE_NAME''"
| "violation_of NonNfc = violation_of_root ''E_NON_NFC'' ''NORMALIZATION'' ''ROOT_NORMALIZATION''"
| "violation_of MalformedEncoding = violation_of_root ''E_ENCODING'' ''ENCODING'' ''ROOT_ENCODING''"
| "violation_of SchemaRefused = violation_of_root ''E_CLOSED_SCHEMA_VIOLATION'' ''UNKNOWN_SCHEMA'' ''ROOT_SCHEMA''"
| "violation_of (Fault e) = scanner_failure"

fun completed_by :: "scan_error \<Rightarrow> string list" where
  "completed_by SchemaRefused = [''SCHEMA_VALIDATE'']"
| "completed_by _ = []"

text \<open>Stages in order, up to the first that raises; with the stages completed.\<close>

fun run_stages :: "string list \<Rightarrow> (string \<times> unit staged) list \<Rightarrow> string list \<times> scan_error option" where
  "run_stages completed [] = (completed, None)"
| "run_stages completed ((stage, check) # stages) = (case check of
      Inl e \<Rightarrow> (completed, Some e)
    | Inr _ \<Rightarrow> run_stages (completed @ [stage]) stages)"

definition record_stages :: "engine \<Rightarrow> string \<Rightarrow> bool \<Rightarrow> json \<Rightarrow> (string \<times> unit staged) list" where
  "record_stages E schema_ref inject_scanner_fault record =
     [(''SHAPE_SCAN'', shape_scan record),
      (''NAME_SCAN'', bindV (refuse inject_scanner_fault scanner_failure) (\<lambda>_. name_scan E schema_ref record)),
      (''VALUE_SCAN'', value_scan record),
      (''ENTROPY_SCAN'', entropy_scan E schema_ref record),
      (''DECLARATION_CHECK'', declaration_check E schema_ref record),
      (''SCHEMA_VALIDATE'', validate_record E schema_ref record)]"

definition stages_of :: "engine \<Rightarrow> string \<Rightarrow> string \<Rightarrow> bool \<Rightarrow> string list \<times> scan_error option" where
  "stages_of E raw schema_ref inject_scanner_fault = (case decode (en_decoder E) raw of
      Inl e \<Rightarrow> ([], Some e)
    | Inr record \<Rightarrow> run_stages [''DECODE''] (record_stages E schema_ref inject_scanner_fault record))"

definition accepted_outcome :: "string list \<Rightarrow> scan_outcome" where
  "accepted_outcome completed = \<lparr>so_disposition = ACCEPTED, so_error = None, so_class = None, so_location = None,
     so_completed = completed, so_receipt = None\<rparr>"

definition scan_with_fault :: "engine \<Rightarrow> string \<Rightarrow> string \<Rightarrow> denial_identity option \<Rightarrow> bool \<Rightarrow> scan_outcome res" where
  "scan_with_fault E raw schema_ref identity inject_scanner_fault =
     (case stages_of E raw schema_ref inject_scanner_fault of
        (completed, None) \<Rightarrow> Inr (accepted_outcome completed)
      | (completed, Some e) \<Rightarrow> denied E (violation_of e) (completed @ completed_by e) identity)"

definition engine_scan :: "engine \<Rightarrow> string \<Rightarrow> string \<Rightarrow> denial_identity option \<Rightarrow> scan_outcome res" where
  "engine_scan E raw schema_ref identity = scan_with_fault E raw schema_ref identity False"

section \<open>The boundary\<close>

text \<open>The probe is called with every stage behind the boundary; it is modelled by the list of stages it sees.\<close>

definition run_synthetic_side_effect_boundary ::
    "engine \<Rightarrow> string \<Rightarrow> string \<Rightarrow> denial_identity option \<Rightarrow> (scan_outcome \<times> string list) res" where
  "run_synthetic_side_effect_boundary E raw schema_ref identity =
     bindR (engine_scan E raw schema_ref identity) (\<lambda>outcome.
       Inr (outcome, if so_disposition outcome = ACCEPTED then SIDE_EFFECT_STAGES else []))"

definition assert_before_side_effects :: "scan_outcome \<Rightarrow> unit res" where
  "assert_before_side_effects outcome =
     bindR (assertR (list_all (\<lambda>stage. stage \<notin> set SIDE_EFFECT_STAGES) (so_completed outcome))) (\<lambda>_.
     case so_receipt outcome of
       None \<Rightarrow> Inr ()
     | Some receipt \<Rightarrow> foldR (\<lambda>_ k. bindR (ditem receipt k) (\<lambda>v. assertR (is_false v))) () EFFECT_FIELDS)"

end
