(* ===== verification/Denial_Laws.thy ===== *)
theory Denial_Laws
  imports Universal_Denial
begin

text \<open>
  What the parts of the scanner guarantee: the walks reach every place of a record, a passed shape is within its
  limits, every error of a stage is a denial, and the expansion of schema nodes computes what is reachable.
\<close>

section \<open>Walks\<close>

lemma sorted_member: "map_of d k = Some v \<Longrightarrow> (k, v) \<in> set (sort_key fst d)"
  by (simp add: map_of_SomeD)

lemma walk_names_complete:
  "at_path v (r @ [Member name]) = Some w \<Longrightarrow> (p @ r @ [Member name], name, w) \<in> set (walk_names v p)"
proof (induction r arbitrary: v p)
  case Nil
  then obtain d where d: "v = JObj d" "map_of d name = Some w" by (cases v) (auto split: option.splits)
  from sorted_member [OF d(2)] show ?case
    by (force simp: d(1) walk_names.simps [of "JObj d"])
next
  case (Cons c r)
  show ?case
  proof (cases c)
    case (Member k)
    with Cons.prems obtain d u where d: "v = JObj d" "map_of d k = Some u" "at_path u (r @ [Member name]) = Some w"
      by (cases v) (auto split: option.splits)
    from Cons.IH [OF d(3), of "p @ [Member k]"] sorted_member [OF d(2)] show ?thesis
      by (force simp: d(1) Member walk_names.simps [of "JObj d"])
  next
    case (Item i)
    with Cons.prems obtain xs where x: "v = JArr xs" "i < length xs" "at_path (xs ! i) (r @ [Member name]) = Some w"
      by (cases v) (auto split: if_splits)
    then have "(i, xs ! i) \<in> set (indexed xs)" by (simp add: indexed_mem)
    with Cons.IH [OF x(3), of "p @ [Item i]"] show ?thesis
      by (force simp: x(1) Item walk_names.simps [of "JArr xs"])
  qed
qed

lemma walk_string_values_complete:
  "at_path v r = Some (JStr s) \<Longrightarrow> (p @ r, s) \<in> set (walk_string_values v p)"
proof (induction r arbitrary: v p)
  case Nil
  then show ?case by (simp add: walk_string_values.simps)
next
  case (Cons c r)
  show ?case
  proof (cases c)
    case (Member k)
    with Cons.prems obtain d u where d: "v = JObj d" "map_of d k = Some u" "at_path u r = Some (JStr s)"
      by (cases v) (auto split: option.splits)
    from Cons.IH [OF d(3), of "p @ [Member k]"] sorted_member [OF d(2)] show ?thesis
      by (force simp: d(1) Member walk_string_values.simps [of "JObj d"])
  next
    case (Item i)
    with Cons.prems obtain xs where x: "v = JArr xs" "i < length xs" "at_path (xs ! i) r = Some (JStr s)"
      by (cases v) (auto split: if_splits)
    then have "(i, xs ! i) \<in> set (indexed xs)" by (simp add: indexed_mem)
    with Cons.IH [OF x(3), of "p @ [Item i]"] show ?thesis
      by (force simp: x(1) Item walk_string_values.simps [of "JArr xs"])
  qed
qed

section \<open>Shape\<close>

text \<open>The number of nodes of a value.\<close>

fun json_nodes :: "json \<Rightarrow> nat" where
  "json_nodes (JArr xs) = Suc (sum_list (map json_nodes xs))"
| "json_nodes (JObj d) = Suc (sum_list (map (\<lambda>(k, v). json_nodes v) d))"
| "json_nodes v = 1"

fun within_limits :: "json \<Rightarrow> bool" where
  "within_limits (JObj d) = (length d \<le> MAXIMUM_PROPERTIES \<and> list_all (\<lambda>(k, v). utf8_length k \<le> MAXIMUM_STRING_BYTES) d)"
| "within_limits (JArr xs) = (length xs \<le> MAXIMUM_ITEMS)"
| "within_limits (JStr s) = (utf8_length s \<le> MAXIMUM_STRING_BYTES)"
| "within_limits v = True"

text \<open>A loop that counts: it adds up what its steps add, and stays within the bound that each step keeps.\<close>

lemma foldV_counts:
  fixes g :: "'a \<Rightarrow> nat"
  assumes "foldV f n xs = Inr m" and "\<And>x k l. x \<in> set xs \<Longrightarrow> f k x = Inr l \<Longrightarrow> l = k + g x \<and> l \<le> B" and "n \<le> B"
  shows "m = n + sum_list (map g xs) \<and> m \<le> B"
  using assms
proof (induction xs arbitrary: n)
  case (Cons x xs)
  then obtain k where k: "f n x = Inr k" "foldV f k xs = Inr m" by auto
  with Cons.prems(2) have n: "k = n + g x" "k \<le> B" by auto
  have "m = k + sum_list (map g xs) \<and> m \<le> B"
    by (rule Cons.IH [OF k(2) _ n(2)]) (use Cons.prems(2) in auto)
  with n show ?case by simp
qed simp

lemma foldV_each: "foldV f n xs = Inr m \<Longrightarrow> x \<in> set xs \<Longrightarrow> \<exists>k l. f k x = Inr l"
  by (induction xs arbitrary: n) auto

lemma shape_visit_count:
  "shape_visit n v depth p = Inr m \<Longrightarrow> m = n + json_nodes v \<and> m \<le> MAXIMUM_NODES"
proof (induction n v depth p arbitrary: m rule: shape_visit.induct)
  case (1 n v depth p)
  from 1(3) have b: "n + 1 \<le> MAXIMUM_NODES" and r: "refuse (n + 1 > MAXIMUM_NODES \<or> depth > MAXIMUM_DEPTH) (E_SHAPE p) = Inr ()"
    by (auto simp: shape_visit.simps [of n] Let_def split: json.splits)
  show ?case
  proof (cases v)
    case (JObj d)
    let ?f = "\<lambda>n (key, child). bindV (refuse (utf8_length key > MAXIMUM_STRING_BYTES) (E_SHAPE (p @ [Member key]))) (\<lambda>_.
              shape_visit n child (depth + 1) (p @ [Member key]))"
    have f: "foldV ?f (n + 1) (sort_key fst d) = Inr m" and l: "refuse (length d > MAXIMUM_PROPERTIES) (E_SHAPE p) = Inr ()"
      using 1(3) by (simp_all add: JObj shape_visit.simps [of n] Let_def)
    have "m = (n + 1) + sum_list (map (\<lambda>(k, v). json_nodes v) (sort_key fst d)) \<and> m \<le> MAXIMUM_NODES"
    proof (rule foldV_counts [OF f _ b])
      fix x t m assume x: "x \<in> set (sort_key fst d)" and "?f t x = Inr m"
      then have y: "refuse (utf8_length (fst x) > MAXIMUM_STRING_BYTES) (E_SHAPE (p @ [Member (fst x)])) = Inr ()"
        "shape_visit t (snd x) (depth + 1) (p @ [Member (fst x)]) = Inr m" by (auto split: prod.splits)
      show "m = t + (\<lambda>(k, v). json_nodes v) x \<and> m \<le> MAXIMUM_NODES"
        using 1(2) [OF refl r JObj l x prod.collapse y] by (simp add: case_prod_unfold)
    qed
    moreover have "sum_list (map (\<lambda>(k, v). json_nodes v) (sort_key fst d)) = sum_list (map (\<lambda>(k, v). json_nodes v) d)"
      by (metis mset_map mset_sort sum_mset_sum_list)
    ultimately show ?thesis by (simp add: JObj)
  next
    case (JArr xs)
    let ?f = "\<lambda>n (i, child). shape_visit n child (depth + 1) (p @ [Item i])"
    have f: "foldV ?f (n + 1) (indexed xs) = Inr m" and l: "refuse (length xs > MAXIMUM_ITEMS) (E_SHAPE p) = Inr ()"
      using 1(3) by (simp_all add: JArr shape_visit.simps [of n] Let_def)
    have "m = (n + 1) + sum_list (map (\<lambda>(i, v). json_nodes v) (indexed xs)) \<and> m \<le> MAXIMUM_NODES"
    proof (rule foldV_counts [OF f _ b])
      fix x t m assume x: "x \<in> set (indexed xs)" and "?f t x = Inr m"
      then have y: "shape_visit t (snd x) (depth + 1) (p @ [Item (fst x)]) = Inr m" by (auto split: prod.splits)
      show "m = t + (\<lambda>(i, v). json_nodes v) x \<and> m \<le> MAXIMUM_NODES"
        using 1(1) [OF refl r JArr l x prod.collapse y] by (simp add: case_prod_unfold)
    qed
    moreover have "map (\<lambda>(i, v). json_nodes v) (indexed xs) = map json_nodes xs"
      by (rule nth_equalityI) (auto simp: indexed_def)
    ultimately show ?thesis by (simp add: JArr)
  qed (use 1(3) b in \<open>simp_all add: shape_visit.simps [of n] Let_def\<close>)
qed

lemma shape_visit_places:
  "shape_visit n v depth p = Inr m \<Longrightarrow> at_path v r = Some w \<Longrightarrow> depth + length r \<le> MAXIMUM_DEPTH \<and> within_limits w"
proof (induction r arbitrary: n v depth p m)
  case Nil
  then show ?case
  proof (cases v)
    case (JObj d)
    let ?f = "\<lambda>n (key, child). bindV (refuse (utf8_length key > MAXIMUM_STRING_BYTES) (E_SHAPE (p @ [Member key]))) (\<lambda>_.
              shape_visit n child (depth + 1) (p @ [Member key]))"
    have f: "foldV ?f (n + 1) (sort_key fst d) = Inr m"
      using Nil by (simp add: JObj shape_visit.simps [of n] Let_def)
    have "utf8_length k \<le> MAXIMUM_STRING_BYTES" if "(k, u) \<in> set d" for k u
      using foldV_each [OF f, of "(k, u)"] that by auto
    with Nil JObj show ?thesis by (auto simp: shape_visit.simps [of n] Let_def list_all_iff)
  qed (auto simp: shape_visit.simps [of n] Let_def)
next
  case (Cons c r)
  show ?case
  proof (cases c)
    case (Member k)
    with Cons.prems obtain d u where d: "v = JObj d" "map_of d k = Some u" "at_path u r = Some w"
      by (cases v) (auto split: option.splits)
    let ?f = "\<lambda>n (key, child). bindV (refuse (utf8_length key > MAXIMUM_STRING_BYTES) (E_SHAPE (p @ [Member key]))) (\<lambda>_.
              shape_visit n child (depth + 1) (p @ [Member key]))"
    have f: "foldV ?f (n + 1) (sort_key fst d) = Inr m"
      using Cons.prems by (simp add: d(1) shape_visit.simps [of n] Let_def)
    from foldV_each [OF f sorted_member [OF d(2)]] obtain i l where "shape_visit i u (depth + 1) (p @ [Member k]) = Inr l"
      by auto
    from Cons.IH [OF this d(3)] show ?thesis by simp
  next
    case (Item i)
    with Cons.prems obtain xs where x: "v = JArr xs" "i < length xs" "at_path (xs ! i) r = Some w"
      by (cases v) (auto split: if_splits)
    let ?f = "\<lambda>n (i, child). shape_visit n child (depth + 1) (p @ [Item i])"
    have f: "foldV ?f (n + 1) (indexed xs) = Inr m" using Cons.prems by (simp add: x(1) shape_visit.simps [of n] Let_def)
    from x(2) have "(i, xs ! i) \<in> set (indexed xs)" by (simp add: indexed_mem)
    from foldV_each [OF f this] obtain k l where "shape_visit k (xs ! i) (depth + 1) (p @ [Item i]) = Inr l" by auto
    from Cons.IH [OF this x(3)] show ?thesis by simp
  qed
qed

section \<open>Errors are denials\<close>

definition denies :: "'a staged \<Rightarrow> bool" where
  "denies m \<longleftrightarrow> (\<forall>v. m = Inl (Violation v) \<longrightarrow> vl_disposition v \<noteq> ACCEPTED)"

named_theorems denial_rules \<open>computations whose violations are denials\<close>

lemma denies_basic [denial_rules]:
  "denies (Inr x)" "denies (Inl (Fault e))" "denies (Inl DuplicateName)" "denies (Inl MalformedEncoding)"
  "denies (Inl NonNfc)" "denies (Inl SchemaRefused)" "denies (liftV m)"
  by (auto simp: denies_def liftV_def split: sum.splits)

lemma denies_refuse [denial_rules]: "vl_disposition v \<noteq> ACCEPTED \<Longrightarrow> denies (refuse b v)"
  by (simp add: denies_def refuse_def)

lemma denies_bindV [denial_rules]: "denies m \<Longrightarrow> (\<And>x. m = Inr x \<Longrightarrow> denies (f x)) \<Longrightarrow> denies (bindV m f)"
  by (cases m) (auto simp: denies_def)

lemma denies_foldV [denial_rules]: "(\<And>s x. x \<in> set xs \<Longrightarrow> denies (f s x)) \<Longrightarrow> denies (foldV f s xs)"
  by (induction xs arbitrary: s) (auto intro!: denial_rules)

lemma denies_if [denial_rules]: "denies m \<Longrightarrow> denies n \<Longrightarrow> denies (if b then m else n)"
  by simp

lemma denial_dispositions [simp]:
  "vl_disposition (violation_at error violation_class p) = REJECTED"
  "vl_disposition (violation_of_root error violation_class location) = REJECTED"
  "vl_disposition scanner_failure = SCANNER_FAILURE"
  by (simp_all add: violation_at_def violation_of_root_def scanner_failure_def)

lemma denies_shape_visit: "denies (shape_visit n v depth p)"
proof (induction v arbitrary: n depth p)
  case (JArr xs)
  have "denies (shape_visit t u (depth + 1) q)" if "(i, u) \<in> set (indexed xs)" for i u t q
    using JArr that by (auto simp: indexed_mem)
  then have "denies ((\<lambda>n (i, child). shape_visit n child (depth + 1) (p @ [Item i])) t x)" if "x \<in> set (indexed xs)" for t x
    using that by (cases x) simp
  then show ?case unfolding shape_visit.simps [of n] Let_def json.case by (intro denial_rules) simp_all
next
  case (JObj d)
  have "denies (shape_visit t u (depth + 1) q)" if "(k, u) \<in> set d" for k u t q
    using JObj [of "(k, u)" u] that by simp
  then have "denies ((\<lambda>n (key, child). bindV (refuse (utf8_length key > MAXIMUM_STRING_BYTES) (E_SHAPE (p @ [Member key])))
      (\<lambda>_. shape_visit n child (depth + 1) (p @ [Member key]))) t x)" if "x \<in> set (sort_key fst d)" for t x
    using that by (cases x) (auto intro!: denies_bindV denies_refuse)
  then show ?case unfolding shape_visit.simps [of n] Let_def json.case by (intro denies_bindV denies_refuse denies_foldV) simp_all
qed (subst shape_visit.simps, simp add: Let_def denies_bindV denies_refuse denies_basic)+

lemma denies_stages: "(stage, m) \<in> set (record_stages E schema_ref fault record) \<Longrightarrow> denies m"
  unfolding record_stages_def
  by (auto simp: shape_scan_def name_scan_def check_name_def value_scan_def check_value_def entropy_scan_def
      check_entropy_def declaration_check_def check_declared_def validate_record_def Let_def denies_shape_visit
      intro!: denial_rules split: prod.splits)

lemma denies_decode: "denies (decode D raw)"
  by (auto simp: decode_def parse_hook_def unique_object_def reject_nonfinite_def
      intro!: denial_rules split: parse_end.splits parse_event.splits)

section \<open>Stages\<close>

lemma run_stages_all:
  "run_stages done stages = (completed, None) \<Longrightarrow>
   completed = done @ map fst stages \<and> (\<forall>(stage, m) \<in> set stages. m = Inr ())"
proof (induction stages arbitrary: "done")
  case (Cons x stages)
  obtain stage m where x: "x = (stage, m)" by (cases x)
  with Cons.prems have "m = Inr ()" "run_stages (done @ [stage]) stages = (completed, None)" by (auto split: sum.splits)
  with Cons.IH [of "done @ [stage]"] x show ?case by simp
qed simp

lemma run_stages_error:
  "run_stages done stages = (completed, Some e) \<Longrightarrow>
   \<exists>before stage after. stages = before @ (stage, Inl e) # after \<and> completed = done @ map fst before"
proof (induction stages arbitrary: "done")
  case (Cons x stages)
  obtain stage m where x: "x = (stage, m)" by (cases x)
  show ?case
  proof (cases m)
    case (Inl e')
    with Cons.prems x show ?thesis by (intro exI [of _ "[]"] exI [of _ stage] exI [of _ stages]) simp
  next
    case (Inr u)
    with Cons.prems x have "run_stages (done @ [stage]) stages = (completed, Some e)" by simp
    from Cons.IH [OF this] obtain before s after
      where "stages = before @ (s, Inl e) # after" "completed = (done @ [stage]) @ map fst before" by blast
    with x Inr show ?thesis by (intro exI [of _ "x # before"] exI [of _ s] exI [of _ after]) auto
  qed
qed simp

end
