(* ===== verification/Denial_Props.thy ===== *)
theory Denial_Props
  imports Denial_Laws
begin

text \<open>
  Properties of the universal denial scanner: what an accepted record cannot contain anywhere, its size, what a
  denial leaves behind, and what the expansion of schema nodes computes.
\<close>

section \<open>Expansion of schema nodes\<close>

text \<open>The nodes that describe the same value as the given ones, through references, branches and conditions.\<close>

inductive describes :: "documents \<Rightarrow> schema_node list \<Rightarrow> schema_node \<Rightarrow> bool" for docs nodes where
  given: "n \<in> set nodes \<Longrightarrow> describes docs nodes n"
| follow: "describes docs nodes n \<Longrightarrow> successors docs n = Inr ns \<Longrightarrow> m \<in> set ns \<Longrightarrow> describes docs nodes m"

definition expanded_into :: "documents \<Rightarrow> schema_node set \<Rightarrow> schema_node set \<Rightarrow> bool" where
  "expanded_into docs N M \<longleftrightarrow> (\<forall>n \<in> N. \<exists>ns. successors docs n = Inr ns \<and> set ns \<subseteq> M)"

lemma expand_loop_Inr:
  assumes "expand_loop docs seen pending = Inr out" and "distinct seen"
    and "expanded_into docs (set seen) (set seen \<union> set pending)"
    and "\<forall>n \<in> set seen \<union> set pending. describes docs nodes n"
  shows "distinct out \<and> set seen \<union> set pending \<subseteq> set out \<and> expanded_into docs (set out) (set out) \<and>
    (\<forall>n \<in> set out. describes docs nodes n)"
  using assms
proof (induction docs seen pending rule: expand_loop.induct)
  case (2 docs seen n pending)
  show ?case
  proof (cases "n \<in> set seen")
    case True
    then have "set seen \<union> set (n # pending) = set seen \<union> set pending" by auto
    with 2(1) [OF True] 2(3-6) True show ?thesis by simp
  next
    case False
    with 2(3) obtain ns where ns: "successors docs n = Inr ns" and out: "expand_loop docs (n # seen) (ns @ pending) = Inr out"
      by auto
    have "distinct (n # seen)" using 2(4) False by simp
    moreover have "expanded_into docs (set (n # seen)) (set (n # seen) \<union> set (ns @ pending))"
      using 2(5) ns unfolding expanded_into_def by fastforce
    moreover have "\<forall>m \<in> set (n # seen) \<union> set (ns @ pending). describes docs nodes m"
      using 2(6) follow [OF _ ns, of nodes] by auto
    ultimately have "distinct out \<and> set (n # seen) \<union> set (ns @ pending) \<subseteq> set out \<and> expanded_into docs (set out) (set out) \<and>
        (\<forall>n \<in> set out. describes docs nodes n)"
      by (rule 2(2) [OF False ns out])
    then show ?thesis by simp
  qed
qed auto

lemma describes_closed:
  assumes "describes docs nodes n" and "set nodes \<subseteq> M" and "expanded_into docs M M"
  shows "n \<in> M"
  using assms
proof (induction rule: describes.induct)
  case (follow n ns m)
  then obtain ks where "successors docs n = Inr ks" "set ks \<subseteq> M" unfolding expanded_into_def by blast
  with follow show ?case by auto
qed auto

lemma expand_loop_Inl:
  "expand_loop docs seen pending = Inl e \<Longrightarrow> \<forall>n \<in> set pending. describes docs nodes n \<Longrightarrow>
   \<exists>n. describes docs nodes n \<and> successors docs n = Inl e"
proof (induction docs seen pending rule: expand_loop.induct)
  case (2 docs seen n pending)
  show ?case
  proof (cases "n \<in> set seen")
    case True
    with 2(1) [OF True] 2(3,4) show ?thesis by simp
  next
    case False
    show ?thesis
    proof (cases "successors docs n")
      case (Inl e')
      with False 2(3,4) show ?thesis by (intro exI [of _ n]) simp
    next
      case (Inr ns)
      with False 2(3) have "expand_loop docs (n # seen) (ns @ pending) = Inl e" by simp
      moreover have "\<forall>m \<in> set (ns @ pending). describes docs nodes m" using 2(4) follow [OF _ Inr, of nodes] by auto
      ultimately show ?thesis by (rule 2(2) [OF False Inr])
    qed
  qed
qed simp

text \<open>C32: the expansion of schema nodes ends for every set of documents, however their references run in circles:
  it returns every node that references, branches and conditions lead to from the given ones, each once, or it raises
  what following one of them raises.\<close>
theorem expansion_reaches_all_nodes:
  "(case expand docs nodes of
      Inr out \<Rightarrow> distinct out \<and> set out = {n. describes docs nodes n}
    | Inl e \<Rightarrow> \<exists>n. describes docs nodes n \<and> successors docs n = Inl e)"
proof (cases "expand docs nodes")
  case (Inl e)
  then show ?thesis using expand_loop_Inl [of docs "[]" nodes e nodes] by (auto simp: expand_def intro: given)
next
  case (Inr out)
  then have "distinct out \<and> set nodes \<subseteq> set out \<and> expanded_into docs (set out) (set out) \<and> (\<forall>n \<in> set out. describes docs nodes n)"
    using expand_loop_Inr [of docs "[]" nodes out nodes] by (auto simp: expand_def expanded_into_def intro: given)
  with Inr describes_closed [of docs nodes _ "set out"] show ?thesis by auto
qed

section \<open>Accepted records\<close>

lemma stages_of_accepted:
  assumes "engine_scan E raw schema_ref identity = Inr outcome" and "so_disposition outcome = ACCEPTED"
  obtains candidate where "decode (en_decoder E) raw = Inr candidate"
    and "\<forall>(stage, m) \<in> set (record_stages E schema_ref False candidate). m = Inr ()"
    and "outcome = accepted_outcome (take 7 ORDERED_STAGES)"
proof -
  obtain completed e where s: "stages_of E raw schema_ref False = (completed, e)" by (cases "stages_of E raw schema_ref False")
  have "e = None"
  proof (cases e)
    case (Some x)
    with s assms have v: "vl_disposition (violation_of x) = ACCEPTED"
      by (auto simp: engine_scan_def scan_with_fault_def denied_def Let_def)
    then obtain v where x: "x = Violation v" by (cases x) auto
    have "vl_disposition v \<noteq> ACCEPTED"
    proof (cases "decode (en_decoder E) raw")
      case (Inl y)
      with s Some x denies_decode [of "en_decoder E" raw] show ?thesis by (auto simp: stages_of_def denies_def)
    next
      case (Inr candidate)
      with s Some have "run_stages [''DECODE''] (record_stages E schema_ref False candidate) = (completed, Some x)"
        by (simp add: stages_of_def)
      from run_stages_error [OF this] obtain before stage after
        where "record_stages E schema_ref False candidate = before @ (stage, Inl x) # after" by blast
      then have "denies (Inl x :: unit staged)" using denies_stages [of stage "Inl x" E schema_ref False candidate] by simp
      with x show ?thesis by (simp add: denies_def)
    qed
    with v x show ?thesis by simp
  qed simp
  with s have n: "stages_of E raw schema_ref False = (completed, None)" by simp
  then obtain candidate where d: "decode (en_decoder E) raw = Inr candidate"
    and r: "run_stages [''DECODE''] (record_stages E schema_ref False candidate) = (completed, None)"
    by (auto simp: stages_of_def split: sum.splits)
  from run_stages_all [OF r] have c: "completed = take 7 ORDERED_STAGES"
    and m: "\<forall>(stage, m) \<in> set (record_stages E schema_ref False candidate). m = Inr ()"
    by (simp_all add: record_stages_def ORDERED_STAGES_def)
  have "outcome = accepted_outcome (take 7 ORDERED_STAGES)"
    using assms(1) n by (simp add: engine_scan_def scan_with_fault_def c)
  from that [OF d m this] show thesis .
qed

definition clean_name :: "string \<Rightarrow> json \<Rightarrow> bool" where
  "clean_name name v = (let lowered = ascii_lower name in
     lowered \<notin> set OPEN_OBJECT_NAMES \<and> lowered \<notin> set RESULT_NAMES \<and> lowered \<notin> set METRIC_NAMES \<and>
     ((\<forall>fragment \<in> set NAME_FRAGMENTS. \<not> is_substring fragment lowered) \<or>
      name = SAFE_FIELD \<and> (\<exists>s. v = JStr s \<and> safe_value s)))"

definition clean_text :: "string \<Rightarrow> bool" where
  "clean_text s = (\<not> credential_value s \<and> \<not> forbidden_command s \<and> \<not> forbidden_authority s)"

lemma check_name_clean:
  assumes "check_name E schema_ref (p, name, v) = Inr u"
  shows "clean_name name v"
proof -
  from assms have l: "ascii_lower name \<notin> set OPEN_OBJECT_NAMES" "ascii_lower name \<notin> set RESULT_NAMES"
    "ascii_lower name \<notin> set METRIC_NAMES"
    by (simp_all add: check_name_def Let_def)
  show ?thesis
  proof (cases "matched_fragments (ascii_lower name) = []")
    case True
    then have "\<forall>fragment \<in> set NAME_FRAGMENTS. \<not> is_substring fragment (ascii_lower name)"
      by (simp add: matched_fragments_def filter_empty_conv)
    with l show ?thesis by (simp add: clean_name_def)
  next
    case False
    with assms have "safe_identifier_allowed E schema_ref p name v = Inr True"
      by (auto simp: check_name_def Let_def split: if_splits)
    then have "name = SAFE_FIELD \<and> is_str v \<and> safe_value (the_str v)"
      by (auto simp: safe_identifier_allowed_def split: if_splits)
    then have "name = SAFE_FIELD \<and> (\<exists>s. v = JStr s \<and> safe_value s)" by (cases v) simp_all
    with l show ?thesis by (simp add: clean_name_def Let_def)
  qed
qed

text \<open>C30: whatever record the scanner accepts, at every depth each name is free of the forbidden names and fragments (but for
  the one declared key identifier with a well-formed value) and declared by the schema, each text is free of credentials,
  commands and authority and, where it is long and mixed, of high entropy or typed by the schema, and the record conforms to
  the schema.\<close>
theorem accepted_record_is_clean:
  assumes "engine_scan E raw schema_ref identity = Inr outcome" and "so_disposition outcome = ACCEPTED"
  shows "\<exists>candidate. decode (en_decoder E) raw = Inr candidate \<and>
    (\<forall>p name v. at_path candidate (p @ [Member name]) = Some v \<longrightarrow>
       clean_name name v \<and> (\<exists>nodes. engine_nodes E schema_ref (p @ [Member name]) = Inr nodes \<and> nodes \<noteq> [])) \<and>
    (\<forall>p s. at_path candidate p = Some (JStr s) \<longrightarrow> clean_text s \<and>
       (utf8_length s < MINIMUM_ENTROPY_BYTES \<or> is_typed_entropy_exclusion E schema_ref p = Inr True \<or>
        character_class_count s < MINIMUM_CLASSES \<or> \<not> en_high_entropy E s)) \<and>
    en_valid E schema_ref candidate = Inr True"
proof -
  from assms obtain candidate where d: "decode (en_decoder E) raw = Inr candidate"
    and m: "\<forall>(stage, m) \<in> set (record_stages E schema_ref False candidate). m = Inr ()"
    by (rule stages_of_accepted)
  from m have "name_scan E schema_ref candidate = Inr ()" "value_scan candidate = Inr ()" "entropy_scan E schema_ref candidate = Inr ()"
    "declaration_check E schema_ref candidate = Inr ()" and v: "validate_record E schema_ref candidate = Inr ()"
    by (simp_all add: record_stages_def refuse_def)
  then have s: "\<forall>x \<in> set (walk_names candidate []). check_name E schema_ref x = Inr ()"
    "\<forall>x \<in> set (walk_string_values candidate []). check_value x = Inr ()"
    "\<forall>x \<in> set (walk_string_values candidate []). check_entropy E schema_ref x = Inr ()"
    "\<forall>x \<in> set (walk_names candidate []). check_declared E schema_ref x = Inr ()"
    by (auto simp: name_scan_def value_scan_def entropy_scan_def declaration_check_def foldV_unit)
  have "clean_name name v \<and> (\<exists>nodes. engine_nodes E schema_ref (p @ [Member name]) = Inr nodes \<and> nodes \<noteq> [])"
    if "at_path candidate (p @ [Member name]) = Some v" for p name v
    using bspec [OF s(1) walk_names_complete [OF that, of "[]", simplified]]
      bspec [OF s(4) walk_names_complete [OF that, of "[]", simplified]]
    by (auto simp: check_declared_def dest: check_name_clean)
  moreover have "clean_text s \<and> (utf8_length s < MINIMUM_ENTROPY_BYTES \<or> is_typed_entropy_exclusion E schema_ref p = Inr True \<or>
        character_class_count s < MINIMUM_CLASSES \<or> \<not> en_high_entropy E s)" if "at_path candidate p = Some (JStr s)" for p s
    using bspec [OF s(2) walk_string_values_complete [OF that, of "[]", simplified]]
      bspec [OF s(3) walk_string_values_complete [OF that, of "[]", simplified]]
    by (auto simp: check_value_def check_entropy_def clean_text_def not_le split: if_splits)
  moreover have "en_valid E schema_ref candidate = Inr True" using v by (auto simp: validate_record_def split: if_splits)
  ultimately show ?thesis using d by blast
qed

text \<open>C33: an accepted record is an object of at most 100,000 nodes and depth 64, all of whose objects, lists and texts are
  within their limits.\<close>
theorem accepted_record_is_small:
  assumes "engine_scan E raw schema_ref identity = Inr outcome" and "so_disposition outcome = ACCEPTED"
  shows "\<exists>d. decode (en_decoder E) raw = Inr (JObj d) \<and> json_nodes (JObj d) \<le> 100000 \<and>
    (\<forall>p v. at_path (JObj d) p = Some v \<longrightarrow> length p \<le> 64 \<and> within_limits v)"
proof -
  from assms obtain candidate where d: "decode (en_decoder E) raw = Inr candidate"
    and m: "\<forall>(stage, m) \<in> set (record_stages E schema_ref False candidate). m = Inr ()"
    by (rule stages_of_accepted)
  then have "shape_scan candidate = Inr ()" by (simp add: record_stages_def)
  then obtain k where k: "is_dict candidate" "shape_visit 0 candidate 0 [] = Inr k" by (auto simp: shape_scan_def)
  from k(1) obtain e where e: "candidate = JObj e" by (cases candidate) auto
  from shape_visit_count [OF k(2)] have "json_nodes candidate \<le> 100000" by (simp add: MAXIMUM_NODES_def)
  moreover have "length p \<le> 64 \<and> within_limits v" if "at_path candidate p = Some v" for p v
    using shape_visit_places [OF k(2) that] by (simp add: MAXIMUM_DEPTH_def)
  ultimately show ?thesis using d e by blast
qed

section \<open>Denials\<close>

lemma stage_names: "map fst (record_stages E schema_ref fault candidate) = drop 1 (take 7 ORDERED_STAGES)"
  by (simp add: record_stages_def ORDERED_STAGES_def)

lemma before_boundary: "set (take 7 ORDERED_STAGES) \<inter> set SIDE_EFFECT_STAGES = {}"
  by (simp add: ORDERED_STAGES_def SIDE_EFFECT_STAGES_def)

lemma completed_before_boundary:
  assumes "stages_of E raw schema_ref fault = (completed, e)"
  shows "set completed \<subseteq> set (take 7 ORDERED_STAGES)"
proof (cases "decode (en_decoder E) raw")
  case (Inr candidate)
  with assms have r: "run_stages [''DECODE''] (record_stages E schema_ref fault candidate) = (completed, e)"
    by (simp add: stages_of_def)
  have "set completed \<subseteq> insert ''DECODE'' (set (map fst (record_stages E schema_ref fault candidate)))"
  proof (cases e)
    case (Some x)
    with run_stages_error [of "[''DECODE'']" _ completed x] r obtain before stage after
      where "record_stages E schema_ref fault candidate = before @ (stage, Inl x) # after"
        and "completed = [''DECODE''] @ map fst before" by blast
    then show ?thesis by auto
  next
    case None
    with r have "completed = [''DECODE''] @ map fst (record_stages E schema_ref fault candidate)"
      using run_stages_all [of "[''DECODE'']" "record_stages E schema_ref fault candidate" completed] by simp
    then show ?thesis by simp
  qed
  also have "\<dots> = set (take 7 ORDERED_STAGES)" by (simp add: stage_names) (simp add: ORDERED_STAGES_def)
  finally show ?thesis .
qed (use assms in \<open>simp add: stages_of_def\<close>)

lemma receipt_denies_effects: "k \<in> set EFFECT_FIELDS \<Longrightarrow> ditem (build_receipt identity v location) k = Inr (JBool False)"
  by (auto simp: EFFECT_FIELDS_def build_receipt_def)

lemma denied_Inr:
  assumes "denied E v completed identity = Inr outcome"
  shows "so_disposition outcome = vl_disposition v" "so_completed outcome = completed" "assert_before_side_effects outcome = Inr ()"
proof -
  from assms have c: "list_all (\<lambda>stage. stage \<notin> set SIDE_EFFECT_STAGES) completed"
    by (auto simp: denied_def Let_def)
  let ?l = "case vl_location v of Some l \<Rightarrow> l | None \<Rightarrow> location_code (vl_path v)"
  from assms have o: "outcome = \<lparr>so_disposition = vl_disposition v, so_error = Some (vl_error v), so_class = Some (vl_class v),
             so_location = Some ?l, so_completed = completed, so_receipt = map_option (\<lambda>i. build_receipt i v ?l) identity\<rparr>"
    by (auto simp: denied_def Let_def)
  then show "so_disposition outcome = vl_disposition v" "so_completed outcome = completed" by simp_all
  have "foldR (\<lambda>_ k. bindR (ditem (build_receipt i v ?l) k) (\<lambda>v. assertR (is_false v))) () ks = Inr ()"
    if "set ks \<subseteq> set EFFECT_FIELDS" for i ks
    using that by (induction ks) (simp_all add: receipt_denies_effects)
  then show "assert_before_side_effects outcome = Inr ()"
    using c by (cases identity) (simp_all add: o assert_before_side_effects_def)
qed

text \<open>C31: the boundary either calls every side effect, for an accepted record, or none, and the stages completed before a denial
  and its receipt hold no side effect. It raises nothing but a failed validation of the requested receipt: every
  violation, malformed input and internal failure of the scan is an outcome.\<close>
theorem denials_have_no_effects:
  "(case run_synthetic_side_effect_boundary E raw schema_ref identity of
      Inr (outcome, effects) \<Rightarrow>
        effects = (if so_disposition outcome = ACCEPTED then SIDE_EFFECT_STAGES else []) \<and>
        assert_before_side_effects outcome = Inr () \<and> set (so_completed outcome) \<subseteq> set (take 7 ORDERED_STAGES)
    | Inl e \<Rightarrow> identity \<noteq> None \<and> (\<exists>receipt. validate_receipt E receipt = Inl e))"
proof -
  obtain completed e where s: "stages_of E raw schema_ref False = (completed, e)" by (cases "stages_of E raw schema_ref False")
  from completed_before_boundary [OF s] have c: "set completed \<subseteq> set (take 7 ORDERED_STAGES)" .
  show ?thesis
  proof (cases e)
    case None
    with s c before_boundary show ?thesis
      by (auto simp: run_synthetic_side_effect_boundary_def engine_scan_def scan_with_fault_def accepted_outcome_def
          assert_before_side_effects_def list_all_iff)
  next
    case (Some x)
    let ?c = "completed @ completed_by x"
    have sub: "set ?c \<subseteq> set (take 7 ORDERED_STAGES)" using c by (cases x) (auto simp: ORDERED_STAGES_def)
    then have ok: "list_all (\<lambda>stage. stage \<notin> set SIDE_EFFECT_STAGES) ?c" using before_boundary by (auto simp: list_all_iff)
    from s Some have d: "engine_scan E raw schema_ref identity = denied E (violation_of x) ?c identity"
      by (simp add: engine_scan_def scan_with_fault_def)
    show ?thesis
    proof (cases "denied E (violation_of x) ?c identity")
      case (Inl y)
      then obtain i where "identity = Some i"
        and "validate_receipt E (build_receipt i (violation_of x) (case vl_location (violation_of x) of Some l \<Rightarrow> l
          | None \<Rightarrow> location_code (vl_path (violation_of x)))) = Inl y"
        using ok by (cases identity) (auto simp: denied_def Let_def bindR_eq_Inl assertR_def)
      with Inl d show ?thesis by (auto simp: run_synthetic_side_effect_boundary_def)
    next
      case (Inr outcome)
      with d denied_Inr [OF Inr] sub show ?thesis by (simp add: run_synthetic_side_effect_boundary_def)
    qed
  qed
qed

section \<open>A concrete record\<close>

text \<open>A schema with a nested object, a list and a reference, and a record that it describes.\<close>

definition demo_documents :: documents where
  "demo_documents = [(''urn:demo'', JObj
     [(''properties'', JObj
        [(''events'', JObj [(''items'', JObj [(''$ref'', JStr ''#Event'')])]),
         (''state'', JObj [(''$anchor'', JStr ''State'')])]),
      (''$defs'', JObj [(''event'', JObj
        [(''$anchor'', JStr ''Event''), (''allOf'', JArr [JObj [(''properties'', JObj [(''name'', JBool True)])]])])])])]"

definition demo_candidate :: json where
  "demo_candidate = JObj [(''state'', JStr ''OPEN''), (''events'', JArr [JObj [(''name'', JStr ''goal'')], JObj []])]"

definition demo_engine :: engine where
  "demo_engine = \<lparr>
     en_decoder = \<lparr>de_loads = (\<lambda>_. ([], Parsed demo_candidate)),
       de_ext = \<lparr>json_loads = (\<lambda>_. None), nfc = (\<lambda>s. s), sha256 = (\<lambda>s. s), jcs = (\<lambda>_. Inr [])\<rparr>\<rparr>,
     en_documents = demo_documents, en_search = (\<lambda>_ _. Inr False), en_high_entropy = (\<lambda>_. False),
     en_valid = (\<lambda>_ _. Inr True)\<rparr>"

lemma demo_decodes: "decode (en_decoder demo_engine) [] = Inr demo_candidate"
  by code_simp

lemma demo_shape: "shape_scan demo_candidate = Inr ()"
  by (simp add: shape_scan_def demo_candidate_def shape_visit.simps refuse_def indexed_def upt_rec utf8_length_def
      MAXIMUM_NODES_def MAXIMUM_DEPTH_def MAXIMUM_PROPERTIES_def MAXIMUM_ITEMS_def MAXIMUM_STRING_BYTES_def)

lemma demo_names: "name_scan demo_engine ''urn:demo'' demo_candidate = Inr ()"
  by code_simp

lemma demo_values: "value_scan demo_candidate = Inr ()"
  by code_simp

lemma demo_entropy: "entropy_scan demo_engine ''urn:demo'' demo_candidate = Inr ()"
  by code_simp

lemma demo_declared: "declaration_check demo_engine ''urn:demo'' demo_candidate = Inr ()"
  by code_simp

lemma demo_validates: "validate_record demo_engine ''urn:demo'' demo_candidate = Inr ()"
  by (simp add: validate_record_def demo_engine_def liftV_def)

lemma demo_scan_accepts: "engine_scan demo_engine [] ''urn:demo'' None = Inr (accepted_outcome (take 7 ORDERED_STAGES))"
  by (simp add: engine_scan_def scan_with_fault_def stages_of_def demo_decodes record_stages_def demo_shape demo_names demo_values
      demo_entropy demo_declared demo_validates refuse_def ORDERED_STAGES_def)

theorem accepted_record_is_clean_witness:
  "\<exists>record. decode (en_decoder demo_engine) [] = Inr record \<and>
    (\<forall>p name v. at_path record (p @ [Member name]) = Some v \<longrightarrow>
       clean_name name v \<and> (\<exists>nodes. engine_nodes demo_engine ''urn:demo'' (p @ [Member name]) = Inr nodes \<and> nodes \<noteq> [])) \<and>
    (\<forall>p s. at_path record p = Some (JStr s) \<longrightarrow> clean_text s \<and>
       (utf8_length s < MINIMUM_ENTROPY_BYTES \<or> is_typed_entropy_exclusion demo_engine ''urn:demo'' p = Inr True \<or>
        character_class_count s < MINIMUM_CLASSES \<or> \<not> en_high_entropy demo_engine s)) \<and>
    en_valid demo_engine ''urn:demo'' record = Inr True"
  by (rule accepted_record_is_clean [OF demo_scan_accepts]) (simp add: accepted_outcome_def)

theorem accepted_record_is_small_witness:
  "\<exists>d. decode (en_decoder demo_engine) [] = Inr (JObj d) \<and> json_nodes (JObj d) \<le> 100000 \<and>
    (\<forall>p v. at_path (JObj d) p = Some v \<longrightarrow> length p \<le> 64 \<and> within_limits v)"
  by (rule accepted_record_is_small [OF demo_scan_accepts]) (simp add: accepted_outcome_def)

end
