(* ===== verification/Evidence_Semantics.thy ===== *)
theory Evidence_Semantics
  imports Json_Items
begin

text \<open>
  \<^verbatim>\<open>src/moj_discovery/evidence_semantics.py\<close>: the failures that E0 and D0 evidence records have by their
  own content. The scanner of \<^verbatim>\<open>universal_denial.py\<close>, which comes first in the order of precedence, and the
  serialised bytes it reads are parameters; so is the verdict of the JSON Schema.
\<close>

section \<open>Closed sets\<close>

definition E0_SCENARIOS :: "string list" where
  "E0_SCENARIOS = map (\<lambda>i. ''E0-S'' @ (if i < 10 then ''0'' else []) @ str_nat i) [1..<25]"

definition E0_REPORTS :: "string list" where
  "E0_REPORTS = [''catalog-capability-report.json'', ''global-operator-state-report.json'', ''operator-identity-report.json'',
     ''participant-orientation-report.json'', ''transport-semantics-report.json'', ''quote-display-parity-report.json'',
     ''browser-lifecycle-report.json'', ''clock-timestamp-report.json'', ''gaps-and-loss-report.json'',
     ''loopback-topology-report.json'', ''betslip-observation-report.json'', ''position-observation-report.json'',
     ''cashout-observation-report.json'', ''capacity-report.json'', ''credential-redaction-report.json'']"

definition D0_REPORTS :: "string list" where
  "D0_REPORTS = [''football-provider-capability-report.json'', ''football-latency-report.json'',
     ''football-correction-report.json'', ''football-identity-report.json'']"

definition EVIDENCE_SCOPE_CATEGORIES :: "string list" where
  "EVIDENCE_SCOPE_CATEGORIES = [''coverage'', ''semantics'', ''identity_confidence'', ''missingness'', ''timing'', ''replayability'',
     ''schema_stability'', ''capacity'', ''quota'', ''licensing'', ''cost'']"

definition D0_MODEL_FIELDS :: "string list" where
  "D0_MODEL_FIELDS = [''features'', ''predictions'', ''probabilities'', ''model'']"

definition RANK_ONE_ERRORS :: "string list" where
  "RANK_ONE_ERRORS = [''E_ENCODING'', ''E_DUPLICATE_NAME'', ''E_NON_NFC'', ''E_SHAPE'', ''E_OPEN_OBJECT_ESCAPE'', ''E_D0_RESULT_FIELD'',
     ''E_D0_PERFORMANCE_FIELD'', ''E_FORBIDDEN_NAME'', ''E_FORBIDDEN_VALUE'', ''E_FORBIDDEN_COMMAND'', ''E_FORBIDDEN_AUTHORITY'',
     ''E_CREDENTIAL_ENTROPY'']"

section \<open>Values\<close>

text \<open>A test on a dict that may be missing.\<close>

definition on_dict :: "json \<Rightarrow> (obj \<Rightarrow> bool) \<Rightarrow> bool" where
  "on_dict v p = (case v of JObj d \<Rightarrow> p d | _ \<Rightarrow> False)"

text \<open>Decimal texts without a leading zero (below the 4300 digits that \<open>int\<close> takes).\<close>

definition decimal_integer :: "json \<Rightarrow> int option" where
  "decimal_integer v = (case v of
      JStr s \<Rightarrow> if s = [] \<or> \<not> list_all is_digit s \<or> (length s > 1 \<and> starts_with s ''0'') then None else digits_val 0 s
    | _ \<Rightarrow> None)"

section \<open>References\<close>

definition reference_key :: "obj \<Rightarrow> json list" where
  "reference_key r = map (dget r) [''schema_id'', ''schema_version'', ''artifact_type'', ''artifact_id'', ''content_hash'']"

text \<open>A set of keys can be built if every component is hashable.\<close>

definition key_set :: "obj list \<Rightarrow> json list list res" where
  "key_set rs = (let ks = map reference_key rs in if list_all (list_all hashable) ks then Inr ks else Inl TypeError)"

definition same_key :: "json list \<Rightarrow> json list \<Rightarrow> bool" where
  "same_key a b = list_all2 py_eq a b"

definition has_duplicate_run_reference :: "json list \<Rightarrow> bool res" where
  "has_duplicate_run_reference runs =
     (let references = map the_dict (filter is_dict (map (\<lambda>run. dget (the_dict run) ''run_ref'') (filter is_dict runs))) in
      bindR (key_set references) (\<lambda>ks. Inr (\<not> distinct_by same_key ks)))"

definition reference_sets_equal :: "json \<Rightarrow> json \<Rightarrow> bool res" where
  "reference_sets_equal left right = (case (left, right) of
      (JArr xs, JArr ys) \<Rightarrow>
        if \<not> list_all is_dict (xs @ ys) then Inr False
        else bindR (key_set (map the_dict xs)) (\<lambda>a. bindR (key_set (map the_dict ys)) (\<lambda>b.
          Inr (list_all (\<lambda>k. list_ex (same_key k) b) a \<and> list_all (\<lambda>k. list_ex (same_key k) a) b)))
    | _ \<Rightarrow> Inr False)"

section \<open>Sufficiency\<close>

definition CHECKPOINTS :: "string list" where
  "CHECKPOINTS = [''CATALOG_LOAD'', ''AFTER_NATURAL_UPDATE'', ''RUN_CLOSE'']"

definition checkpoint_reconciled :: "obj \<Rightarrow> bool" where
  "checkpoint_reconciled c =
     (decimal_integer (dget c ''visible_fixture_denominator'') = decimal_integer (dget c ''reconciled_fixture_numerator'') \<and>
      decimal_integer (dget c ''unexplained_gap_count'') = Some 0)"

definition catalog_run_full :: "json \<Rightarrow> bool" where
  "catalog_run_full v = on_dict v (\<lambda>run.
     is_true (dget run ''bounded_run'') \<and> is_true (dget run ''natural_operator_traffic'') \<and>
     dget run ''one_detail_tab_per_fixture_used'' = JBool False \<and>
     (case dget run ''checkpoints'' of
        JArr cs \<Rightarrow> map (\<lambda>c. dget (the_dict c) ''checkpoint_id'') cs = map JStr CHECKPOINTS \<and>
          list_all (\<lambda>c. on_dict c checkpoint_reconciled) cs
      | _ \<Rightarrow> False))"

definition catalog_full :: "obj \<Rightarrow> obj \<Rightarrow> bool res" where
  "catalog_full record sufficiency = (case dget sufficiency ''runs'' of
      JArr runs \<Rightarrow>
        if length runs < 2 then Inr False
        else bindR (has_duplicate_run_reference runs) (\<lambda>dup.
          Inr (\<not> dup \<and> list_all catalog_run_full runs \<and> decimal_integer (dget sufficiency ''unexplained_gap_count'') = Some 0 \<and>
            on_dict (dget record ''report_summary'') (\<lambda>s. decimal_integer (dget s ''unexplained_gap_count'') = Some 0)))
    | _ \<Rightarrow> Inr False)"

definition at_least :: "json \<Rightarrow> int \<Rightarrow> bool" where
  "at_least v minimum = (case decimal_integer v of None \<Rightarrow> False | Some n \<Rightarrow> minimum \<le> n)"

definition quote_threshold_exact :: "obj \<Rightarrow> bool" where
  "quote_threshold_exact s =
     ((at_least (dget s ''matched_revision_count'') 30 \<and> at_least (dget s ''distinct_fixture_count'') 3 \<and>
       at_least (dget s ''distinct_run_count'') 2) =
      (str_is (dget s ''price_transformation_disposition'') ''THRESHOLD_MET'' \<and>
       str_is (dget s ''tick_inference_disposition'') ''THRESHOLD_MET''))"

definition global_classification_exact :: "obj \<Rightarrow> bool" where
  "global_classification_exact s =
     (case (decimal_integer (dget s ''observed_global_state_class_count''), decimal_integer (dget s ''required_global_state_class_count''),
        decimal_integer (dget s ''unknown_global_state_class_count'')) of
       (Some observed, Some required, Some unknown) \<Rightarrow>
         (let full = (observed = required \<and> unknown = 0); partial = (observed > 0 \<and> \<not> full); unsupported = (observed = 0);
              classification = dget s ''classification'' in
          (str_is classification ''FULL_CATALOG'' \<and> full) \<or> (str_is classification ''PARTIAL_CATALOG'' \<and> partial) \<or>
          (str_is classification ''UNSUPPORTED'' \<and> unsupported))
     | _ \<Rightarrow> False)"

section \<open>Failures of records that break the schema\<close>

definition e0_scenario_schema_error :: "obj \<Rightarrow> check_result" where
  "e0_scenario_schema_error record = (case dget record ''facts'' of
      JObj facts \<Rightarrow>
        fail_if (Inr (str_is (dget record ''status'') ''NOT_OBSERVED'' \<and>
          (the_list (dget record ''positive_fact_refs'') \<noteq> [] \<or> str_is (dget facts ''fact_state'') ''OBSERVED''))) ''E_NOT_OBSERVED_POSITIVE_FACT'' (
        fail_if (Inr (str_is (dget record ''status'') ''COMPLETE'' \<and> \<not> str_is (dget facts ''fact_state'') ''OBSERVED''))
          ''E_COMPLETE_REQUIRES_OBSERVED_FACTS'' (
        fail_if (Inr (is_true (dget facts ''automatic_resume''))) ''E_AUTOMATIC_RESUME_FORBIDDEN'' (
        fail_if (Inr (is_true (dget facts ''active_request_issued''))) ''E_ACTIVE_REQUEST_FORBIDDEN'' (
        fail_if (Inr (is_true (dget facts ''tool_caused_action''))) ''E_TOOL_CAUSED_MONETARY_ACTION'' (
        fail_if (Inr (on_dict (dget facts ''provenance'') (\<lambda>p. is_true (dget p ''tool_caused_action'')))) ''E_TOOL_CAUSED_MONETARY_ACTION'' (
        fail_if (Inr (is_true (dget facts ''generated_load''))) ''E_GENERATED_OPERATOR_LOAD'' (
        fail_if (Inr (str_is (dget facts ''traffic_source'') ''SYNTHETIC_OPERATOR_TRAFFIC'')) ''E_NON_NATURAL_OPERATOR_TRAFFIC'' (
        fail_if (Inr (str_is (dget record ''scenario_id'') ''E0-S19'' \<and> \<not> dhas facts ''operator_acceptance_ref''))
          ''E_OPERATOR_ACCEPTANCE_REFERENCE'' (
        fail_if (Inr (str_is (dget record ''scenario_id'') ''E0-S23'' \<and> \<not> dhas facts ''correction_disposition''))
          ''E_CORRECTION_DISPOSITION'' (Inr None))))))))))
    | _ \<Rightarrow> Inr None)"

definition looks_like_e0_bundle :: "obj \<Rightarrow> bool" where
  "looks_like_e0_bundle record = (dhas record ''scenario_ids'' \<and> dhas record ''report_names'' \<and> \<not> dhas record ''schema_version'')"

definition e0_report_schema_error :: "obj \<Rightarrow> check_result" where
  "e0_report_schema_error record =
     (let report_name = dget record ''report_name''; sufficiency = dget record ''sufficiency'' in
      fail_if (notR (in_strs report_name E0_REPORTS)) ''E_REPORT_NAME_UNKNOWN'' (
      fail_if (Inr (on_dict (dget record ''scope0_projection'') (\<lambda>d. \<not> keys_subset d EVIDENCE_SCOPE_CATEGORIES))) ''E_SCOPE0_CATEGORY'' (
      fail_if (if str_is report_name ''catalog-capability-report.json'' \<and>
            on_dict sufficiency (\<lambda>s. str_is (dget s ''classification'') ''FULL_CATALOG'')
          then notR (catalog_full record (the_dict sufficiency)) else Inr False) ''E_CATALOG_FULL_SUFFICIENCY'' (
      fail_if (Inr (str_is report_name ''global-operator-state-report.json'' \<and>
          on_dict sufficiency (\<lambda>s. \<not> global_classification_exact s))) ''E_GLOBAL_CLASSIFICATION'' (Inr None)))))"

definition e0_schema_error :: "obj \<Rightarrow> check_result" where
  "e0_schema_error record =
     (if str_is (dget record ''record_kind'') ''E0_SCENARIO_RESULT'' then e0_scenario_schema_error record
      else let kind = dget record ''observation_kind''; facts = dget record ''facts'' in
        fail_if (Inr (str_is kind ''DOM_VERIFICATION'' \<and> \<not> dhas record ''context'')) ''E_DOCUMENT_CONTEXT_REQUIRED'' (
        fail_if (Inr (str_is kind ''LIFECYCLE'' \<and> on_dict facts (\<lambda>d. str_is (dget d ''stale_evidence_disposition'') ''RETAINED'')))
          ''E_STALE_EVIDENCE_NOT_INVALIDATED'' (
        fail_if (Inr (str_is kind ''LIFECYCLE'' \<and> on_dict facts (\<lambda>d. is_true (dget d ''automatic_resume'')))) ''E_AUTOMATIC_RESUME_FORBIDDEN'' (
        fail_if (Inr (str_is kind ''GAP'' \<and> on_dict facts (\<lambda>d. \<not> dhas d ''reducer_cursor_ref''))) ''E_GAP_CURSOR_REFERENCE'' (
        fail_if (Inr (str_is kind ''GAP'' \<and> on_dict facts (\<lambda>d. \<not> dhas d ''generation_transition_ref''))) ''E_GAP_TRANSITION_REFERENCE'' (
        fail_if (Inr (str_is kind ''GAP'' \<and> on_dict facts (\<lambda>d. \<not> dhas d ''closed_epoch_ref''))) ''E_GAP_CLOSED_EPOCH_REFERENCE'' (
        fail_if (Inr (looks_like_e0_bundle record \<and> dget record ''scenario_ids'' \<noteq> JArr (map JStr E0_SCENARIOS))) ''E_SCENARIO_SET'' (
        if str_is (dget record ''record_kind'') ''E0_REPORT'' then e0_report_schema_error record else Inr None))))))))"

definition d0_schema_error :: "obj \<Rightarrow> check_result" where
  "d0_schema_error record =
     (let version = dget record ''schema_version'' in
      fail_if (Inr (on_dict (dget record ''observation'') (\<lambda>d. list_ex (dhas d) D0_MODEL_FIELDS))) ''E_D0_MODEL_FIELD'' (
      fail_if (Inr (str_is version ''provider-call-receipt/v1'' \<and> \<not> str_is (dget record ''method'') ''GET'')) ''E_PROVIDER_METHOD'' (
      fail_if (Inr (str_is version ''provider-call-receipt/v1'' \<and> \<not> str_is (dget record ''body_mode'') ''NONE'')) ''E_PROVIDER_BODY'' (
      fail_if (Inr (str_is version ''provider-correction-lineage/v1'' \<and> \<not> is_true (dget record ''append_only''))) ''E_LINEAGE_MUTABLE'' (
      fail_if (if str_is (dget record ''record_kind'') ''D0_REPORT'' then notR (in_strs (dget record ''report_name'') D0_REPORTS)
          else Inr False) ''E_REPORT_NAME_UNKNOWN'' (Inr None))))))"

section \<open>Failures of records that fit the schema\<close>

definition e0_scenario_semantic_error :: "obj \<Rightarrow> obj \<Rightarrow> check_result" where
  "e0_scenario_semantic_error record facts =
     (let s16 = str_is (dget record ''scenario_id'') ''E0-S16''; s24 = str_is (dget record ''scenario_id'') ''E0-S24'' in
      fail_if (Inr (s16 \<and> py_eq (dget facts ''prior_browser_boot_id'') (dget facts ''new_browser_boot_id''))) ''E_S16_BOOT_NOT_ROTATED'' (
      fail_if (Inr (s16 \<and> py_eq (dget facts ''prior_browser_run_id'') (dget facts ''new_browser_run_id''))) ''E_S16_RUN_NOT_ROTATED'' (
      fail_if (Inr (s24 \<and> on_dict (dget facts ''p99'') (\<lambda>p. str_is (dget p ''availability'') ''AVAILABLE'') \<and>
          \<not> at_least (dget facts ''sample_count'') 1000)) ''E_P99_SAMPLE_COUNT'' (
      fail_if (andR (in_strs (dget record ''status'') [''COMPLETE'', ''PARTIAL'']) (andR (Inr (str_is (dget facts ''fact_state'') ''OBSERVED''))
          (notR (reference_sets_equal (dget record ''positive_fact_refs'') (dget facts ''evidence_refs''))))) ''E_SCENARIO_FACT_REFERENCE_MATCH''
        (Inr None)))))"

definition e0_report_semantic_error :: "obj \<Rightarrow> obj \<Rightarrow> check_result" where
  "e0_report_semantic_error record sufficiency =
     (let report_name = dget record ''report_name'' in
      fail_if (if str_is report_name ''catalog-capability-report.json'' \<and> is_list (dget sufficiency ''runs'')
          then has_duplicate_run_reference (the_list (dget sufficiency ''runs'')) else Inr False) ''E_CATALOG_DUPLICATE_RUN_REF'' (
      fail_if (Inr (str_is report_name ''quote-display-parity-report.json'' \<and> \<not> quote_threshold_exact sufficiency)) ''E_QUOTE_SUFFICIENCY'' (
      fail_if (Inr (str_is report_name ''global-operator-state-report.json'' \<and> \<not> global_classification_exact sufficiency))
        ''E_GLOBAL_CLASSIFICATION'' (Inr None))))"

definition e0_semantic_error :: "obj \<Rightarrow> check_result" where
  "e0_semantic_error record =
     first_of (case (dget record ''record_kind'', dget record ''facts'') of
         (JStr k, JObj facts) \<Rightarrow> if k = ''E0_SCENARIO_RESULT'' then e0_scenario_semantic_error record facts else Inr None
       | _ \<Rightarrow> Inr None)
      (case (dget record ''record_kind'', dget record ''sufficiency'') of
         (JStr k, JObj sufficiency) \<Rightarrow> if k = ''E0_REPORT'' then e0_report_semantic_error record sufficiency else Inr None
       | _ \<Rightarrow> Inr None)"

definition d0_semantic_error :: "obj \<Rightarrow> check_result" where
  "d0_semantic_error record =
     Inr (if str_is (dget record ''schema_version'') ''provider-correction-lineage/v1'' \<and>
        list_ex (\<lambda>k. \<not> str_is (dget record k) ''NONE'' \<and> py_eq (dget record k) (dget record ''lineage_id''))
          [''supersedes_lineage_id'', ''reverses_lineage_id'']
      then Some ''E_LINEAGE_CYCLE'' else None)"

section \<open>Evaluation\<close>

text \<open>\<open>EvidenceSemanticContractError\<close> carries a code of its own; everything else that is raised passes through.\<close>

datatype evidence_error = ContractError string | Raised exn

record evidence_env =
  ee_bytes :: "obj \<Rightarrow> string"
  ee_scan :: "string \<Rightarrow> string \<Rightarrow> string option \<times> bool"

text \<open>The first failure of a check with its rank, or what follows.\<close>

definition failure_or :: "check_result \<Rightarrow> nat \<Rightarrow> (evidence_error + (string \<times> nat) option) \<Rightarrow> (evidence_error + (string \<times> nat) option)" where
  "failure_or c rank rest = (case c of Inl e \<Rightarrow> Inl (Raised e) | Inr (Some code) \<Rightarrow> Inr (Some (code, rank)) | Inr None \<Rightarrow> rest)"

text \<open>Whether the vector is an E0 or a D0 one is the argument \<open>e0\<close>; other names are refused by \<open>evaluate_evidence\<close>.\<close>

definition universal_in :: "string option \<Rightarrow> string list \<Rightarrow> bool" where
  "universal_in universal codes = (case universal of None \<Rightarrow> False | Some code \<Rightarrow> code \<in> set codes)"

definition evaluate_scanned :: "bool \<Rightarrow> obj \<Rightarrow> bool \<Rightarrow> bool \<Rightarrow> string option \<Rightarrow> bool \<Rightarrow> (evidence_error + (string \<times> nat) option)" where
  "evaluate_scanned e0 record schema_valid require_failure universal accepted =
     (if universal_in universal RANK_ONE_ERRORS then Inr (Some (the universal, 1))
      else if \<not> schema_valid then failure_or (if e0 then e0_schema_error record else d0_schema_error record) 10
        (if universal_in universal [''E_UNKNOWN_NAME'', ''E_UNKNOWN_SCHEMA''] then Inr (Some (the universal, 1))
         else if require_failure then Inl (ContractError ''E_EVIDENCE_SCHEMA_FAILURE_UNCLASSIFIED'') else Inr None)
      else failure_or (if e0 then e0_semantic_error record else d0_semantic_error record) 20
        (if \<not> accepted then
           (if require_failure then Inl (ContractError ''E_EVIDENCE_UNIVERSAL_FAILURE_UNCLASSIFIED'') else Inr None)
         else if require_failure then Inl (ContractError ''E_EVIDENCE_FAILURE_NOT_DERIVED'') else Inr None))"

definition evaluate_evidence :: "evidence_env \<Rightarrow> string \<Rightarrow> obj \<Rightarrow> bool \<Rightarrow> bool \<Rightarrow> (evidence_error + (string \<times> nat) option)" where
  "evaluate_evidence V vector_name candidate schema_valid require_failure =
     (if vector_name \<notin> {''e0-evidence-v1.json'', ''d0-evidence-v1.json''} then Inl (ContractError ''E_EVIDENCE_VECTOR_NAME'')
      else case dget candidate ''record'' of
        JObj record \<Rightarrow> (case dget candidate ''record_schema_ref'' of
            JStr schema_ref \<Rightarrow>
              (let scan = ee_scan V (ee_bytes V record) schema_ref in
               evaluate_scanned (vector_name = ''e0-evidence-v1.json'') record schema_valid require_failure (fst scan) (snd scan))
          | _ \<Rightarrow> Inl (ContractError ''E_EVIDENCE_SCHEMA_REF''))
      | _ \<Rightarrow> Inl (ContractError ''E_EVIDENCE_RECORD_OBJECT''))"

section \<open>A full catalog without counts\<close>

text \<open>Two fixture counts that are both no decimal numbers compare as equal, so a checkpoint that has neither is
  taken for reconciled, and a report whose checkpoints count nothing is sufficient for a full catalog.\<close>

definition uncounted_run :: "string \<Rightarrow> json" where
  "uncounted_run i = JObj [(''run_ref'', JObj [(''artifact_id'', JStr i)]), (''bounded_run'', JBool True),
     (''natural_operator_traffic'', JBool True), (''one_detail_tab_per_fixture_used'', JBool False),
     (''checkpoints'', JArr (map (\<lambda>c. JObj [(''checkpoint_id'', JStr c), (''unexplained_gap_count'', JStr ''0'')]) CHECKPOINTS))]"

theorem catalog_full_without_counts:
  "catalog_full [(''report_summary'', JObj [(''unexplained_gap_count'', JStr ''0'')])]
     [(''unexplained_gap_count'', JStr ''0''), (''runs'', JArr [uncounted_run ''r1'', uncounted_run ''r2''])] = Inr True"
  by code_simp

text \<open>A rank tells which of the three sources a failure comes from.\<close>

theorem failure_rank:
  assumes "evaluate_evidence V vector_name candidate schema_valid require_failure = Inr (Some (code, rank))"
  shows "(rank = 1 \<and> fst (ee_scan V (ee_bytes V (the_dict (dget candidate ''record''))) (the_str (dget candidate ''record_schema_ref''))) = Some code) \<or>
    (rank = 10 \<and> \<not> schema_valid) \<or> (rank = 20 \<and> schema_valid)"
  using assms
  by (auto simp: evaluate_evidence_def evaluate_scanned_def universal_in_def failure_or_def Let_def split: if_splits json.splits option.splits sum.splits)

end
