(* ===== verification/Denial_Vectors.thy ===== *)
theory Denial_Vectors
  imports Universal_Denial
begin

text \<open>
  The check of the denial vectors in \<^verbatim>\<open>src/moj_discovery/universal_denial.py\<close>: every counterexample is denied
  with its error before the boundary, every base record that is expected to pass does, and every seam leaves exactly its
  receipt. The files of the vectors are given by their bytes.
\<close>

text \<open>
  The JSON patches of \<^verbatim>\<open>src/moj_discovery/universal_denial.py\<close>, by which the denial vectors are made from their
  base records. The source changes a deep copy in place; here every operation returns the changed document.
\<close>

section \<open>Pointers\<close>

definition pointer_parts :: "string \<Rightarrow> string list res" where
  "pointer_parts pointer =
     (if \<not> starts_with pointer ''/'' then Inl AssertionError
      else Inr (map pointer_unescape (split_on CHR ''/'' (drop 1 pointer))))"

text \<open>\<open>0|[1-9][0-9]*\<close>, matched in full.\<close>

definition index_text :: "string \<Rightarrow> bool" where
  "index_text s = (s \<noteq> [] \<and> list_all is_digit s \<and> (hd s = CHR ''0'' \<longrightarrow> length s = 1))"

definition array_index :: "string \<Rightarrow> nat \<Rightarrow> bool \<Rightarrow> nat res" where
  "array_index component n allow_end =
     bindR (assertR (index_text component)) (\<lambda>_.
     bindR (parse_int component) (\<lambda>i.
     bindR (assertR (\<not> (i < 0 \<or> (if allow_end then i > int n else i \<ge> int n)))) (\<lambda>_. Inr (nat i))))"

text \<open>\<open>_pointer_parent\<close>: the container of the last component.\<close>

fun parent_of :: "json \<Rightarrow> string list \<Rightarrow> (json \<times> string) res" where
  "parent_of v [] = Inl AssertionError"
| "parent_of v [component] = Inr (v, component)"
| "parent_of v (part # parts) = (case v of
      JObj d \<Rightarrow> (case map_of d part of None \<Rightarrow> Inl AssertionError | Some w \<Rightarrow> parent_of w parts)
    | JArr xs \<Rightarrow> bindR (array_index part (length xs) False) (\<lambda>i. parent_of (xs ! i) parts)
    | _ \<Rightarrow> Inl AssertionError)"

definition member_value :: "json \<times> string \<Rightarrow> json res" where
  "member_value place = (case place of
      (JObj d, component) \<Rightarrow> (case map_of d component of None \<Rightarrow> Inl AssertionError | Some w \<Rightarrow> Inr w)
    | (JArr xs, component) \<Rightarrow> bindR (array_index component (length xs) False) (\<lambda>i. Inr (xs ! i))
    | _ \<Rightarrow> Inl AssertionError)"

definition pointer_value :: "json \<Rightarrow> string \<Rightarrow> json res" where
  "pointer_value document pointer = bindR (pointer_parts pointer) (\<lambda>parts. bindR (parent_of document parts) member_value)"

section \<open>Changes\<close>

text \<open>The document with the container of the last component changed.\<close>

fun change_parent :: "(json \<Rightarrow> string \<Rightarrow> json res) \<Rightarrow> json \<Rightarrow> string list \<Rightarrow> json res" where
  "change_parent f v [] = Inl AssertionError"
| "change_parent f v [component] = f v component"
| "change_parent f v (part # parts) = (case v of
      JObj d \<Rightarrow> (case map_of d part of
          None \<Rightarrow> Inl AssertionError
        | Some w \<Rightarrow> bindR (change_parent f w parts) (\<lambda>w'. Inr (JObj (dput part w' d))))
    | JArr xs \<Rightarrow> bindR (array_index part (length xs) False) (\<lambda>i.
        bindR (change_parent f (xs ! i) parts) (\<lambda>w'. Inr (JArr (xs[i := w']))))
    | _ \<Rightarrow> Inl AssertionError)"

definition remove_member :: "json \<Rightarrow> string \<Rightarrow> json res" where
  "remove_member parent component = (case parent of
      JObj d \<Rightarrow> (if dhas d component then Inr (JObj (ddel component d)) else Inl AssertionError)
    | JArr xs \<Rightarrow> bindR (array_index component (length xs) False) (\<lambda>i. Inr (JArr (take i xs @ drop (Suc i) xs)))
    | _ \<Rightarrow> Inl AssertionError)"

definition remove_pointer :: "json \<Rightarrow> string \<Rightarrow> json res" where
  "remove_pointer document pointer = bindR (pointer_parts pointer) (change_parent remove_member document)"

definition INSERTING :: "string list" where
  "INSERTING = [''add'', ''copy'', ''move'']"

definition write_member :: "string \<Rightarrow> json \<Rightarrow> json \<Rightarrow> string \<Rightarrow> json res" where
  "write_member operation_name w parent component = (case parent of
      JObj d \<Rightarrow> (if operation_name = ''replace'' \<and> \<not> dhas d component then Inl AssertionError else Inr (JObj (dput component w d)))
    | JArr xs \<Rightarrow>
        (if component = ''-'' \<and> operation_name \<in> set INSERTING then Inr (JArr (xs @ [w]))
         else bindR (array_index component (length xs) (operation_name \<in> set INSERTING)) (\<lambda>i.
           Inr (JArr (if operation_name \<in> set INSERTING then take i xs @ [w] @ drop i xs else xs[i := w]))))
    | _ \<Rightarrow> Inl AssertionError)"

definition write_pointer :: "string \<Rightarrow> json \<Rightarrow> json \<Rightarrow> string \<Rightarrow> json res" where
  "write_pointer operation_name w document pointer =
     bindR (pointer_parts pointer) (change_parent (write_member operation_name w) document)"

section \<open>Equality\<close>

text \<open>\<open>_json_equal\<close>: values of one type; dicts as maps, and booleans are no numbers.\<close>

function json_equal :: "json \<Rightarrow> json \<Rightarrow> bool" where
  "json_equal left right = (case (left, right) of
      (JObj d, JObj e) \<Rightarrow> list_all (\<lambda>k. dhas e k) (dkeys d) \<and> list_all (\<lambda>k. dhas d k) (dkeys e) \<and>
        list_all (\<lambda>(k, v). json_equal v (dget e k)) d
    | (JArr xs, JArr ys) \<Rightarrow> length xs = length ys \<and> list_all (\<lambda>(v, w). json_equal v w) (zip xs ys)
    | (JObj _, _) \<Rightarrow> False | (JArr _, _) \<Rightarrow> False | (_, JObj _) \<Rightarrow> False | (_, JArr _) \<Rightarrow> False
    | _ \<Rightarrow> left = right)"
  by auto
termination
  by (relation "measure (\<lambda>(v, w). size v)") (auto dest!: set_zip_leftD dest: size_member size_element)

declare json_equal.simps [simp del]

section \<open>Operations\<close>

definition apply_patch_operation :: "json \<Rightarrow> obj \<Rightarrow> json res" where
  "apply_patch_operation document operation =
     bindR (assertR (is_str (dget operation ''op'') \<and> is_str (dget operation ''path''))) (\<lambda>_.
     (let op = the_str (dget operation ''op''); pointer = the_str (dget operation ''path'') in
      if op = ''test'' then
        bindR (pointer_value document pointer) (\<lambda>v.
        bindR (assertR (json_equal v (dget operation ''value''))) (\<lambda>_. Inr document))
      else if op \<in> {''copy'', ''move''} then
        bindR (assertR (is_str (dget operation ''from''))) (\<lambda>_.
        (let source = the_str (dget operation ''from'') in
         bindR (pointer_value document source) (\<lambda>v.
         bindR (if op = ''move'' then remove_pointer document source else Inr document) (\<lambda>document.
           write_pointer op v document pointer))))
      else if op \<in> {''add'', ''replace''} then write_pointer op (dget operation ''value'') document pointer
      else if op = ''remove'' then remove_pointer document pointer
      else Inl AssertionError))"

definition patch_step :: "json \<Rightarrow> json \<Rightarrow> json res" where
  "patch_step document operation = (case operation of
      JObj d \<Rightarrow> apply_patch_operation document d
    | _ \<Rightarrow> Inl AssertionError)"

section \<open>What a patch does\<close>

lemma array_index_Inr:
  "array_index component n allow_end = Inr i \<longleftrightarrow>
   index_text component \<and> parse_int component = Inr (int i) \<and> (if allow_end then i \<le> n else i < n)"
  by (auto simp: array_index_def)

lemma change_then_read:
  assumes "change_parent f v parts = Inr v'" and "\<And>u c u'. f u c = Inr u' \<Longrightarrow> c = last parts \<Longrightarrow> member_value (u', c) = Inr w"
  shows "bindR (parent_of v' parts) member_value = Inr w"
  using assms
proof (induction f v parts arbitrary: v' rule: change_parent.induct)
  case (2 f v component)
  then show ?case by simp
next
  case (3 f v part p ps)
  show ?case
  proof (cases v)
    case (JArr xs)
    with 3(3) obtain i u where i: "array_index part (length xs) False = Inr i"
      and u: "change_parent f (xs ! i) (p # ps) = Inr u" and v': "v' = JArr (xs[i := u])" by auto
    from i have "i < length xs" by (simp add: array_index_Inr)
    with 3(1) [OF JArr i u] 3(4) i v' show ?thesis by simp
  next
    case (JObj d)
    with 3(3) obtain u0 u where u0: "map_of d part = Some u0"
      and u: "change_parent f u0 (p # ps) = Inr u" and v': "v' = JObj (dput part u d)" by (auto split: option.splits)
    with 3(2) [OF JObj u0 u] 3(4) show ?thesis by (simp add: map_of_dput)
  qed (use 3(3) in auto)
qed simp

lemma write_member_reads:
  assumes "write_member operation_name w u c = Inr u'" and "c \<noteq> ''-''"
  shows "member_value (u', c) = Inr w"
proof (cases u)
  case (JArr xs)
  let ?ins = "operation_name \<in> set INSERTING"
  from assms JArr obtain i where i: "array_index c (length xs) ?ins = Inr i"
    and u': "u' = JArr (if ?ins then take i xs @ [w] @ drop i xs else xs[i := w])"
    by (auto simp: write_member_def)
  show ?thesis
  proof (cases ?ins)
    case True
    with i have "i \<le> length xs" "index_text c" "parse_int c = Inr (int i)" by (auto simp: array_index_Inr)
    then have "array_index c (Suc (min (length xs) i + (length xs - i))) False = Inr i" "(take i xs @ w # drop i xs) ! i = w"
      by (auto simp: array_index_Inr nth_append)
    with True u' show ?thesis by (simp add: member_value_def)
  next
    case False
    with i have "array_index c (length xs) False = Inr i" "i < length xs" by (auto simp: array_index_Inr)
    with False u' show ?thesis by (simp add: member_value_def)
  qed
next
  case (JObj d)
  with assms have "u' = JObj (dput c w d)" by (auto simp: write_member_def split: if_splits)
  then show ?thesis by (simp add: member_value_def map_of_dput)
qed (use assms in \<open>simp_all add: write_member_def\<close>)

lemma write_then_read:
  assumes "write_pointer operation_name w document pointer = Inr document'"
    and "pointer_parts pointer = Inr parts" and "last parts \<noteq> ''-''"
  shows "pointer_value document' pointer = Inr w"
proof -
  from assms have "change_parent (write_member operation_name w) document parts = Inr document'" by (simp add: write_pointer_def)
  from change_then_read [OF this, of w] write_member_reads assms(3)
  have "bindR (parent_of document' parts) member_value = Inr w" by blast
  with assms(2) show ?thesis by (simp add: pointer_value_def)
qed

section \<open>Cases\<close>

definition object_list :: "obj \<Rightarrow> string \<Rightarrow> obj list res" where
  "object_list source key = (case dget source key of
      JArr xs \<Rightarrow> if list_all is_dict xs then Inr (map the_dict xs) else Inl AssertionError
    | _ \<Rightarrow> Inl AssertionError)"

definition add_base :: "(string \<times> obj) list \<Rightarrow> obj \<Rightarrow> (string \<times> obj) list res" where
  "add_base bases base =
     (let case_id = dget base ''case_id'' in
      bindR (assertR (is_str case_id \<and> map_of bases (the_str case_id) = None)) (\<lambda>_.
        Inr (bases @ [(the_str case_id, base)])))"

definition vector_bases :: "obj \<Rightarrow> (string \<times> obj) list res" where
  "vector_bases data = foldR (\<lambda>bases key.
       bindR (if dhas data key then object_list data key else Inr []) (foldR add_base bases))
     [] [''valid_records'', ''semantic_bases'', ''valid_capabilities'']"

definition base_candidate :: "obj \<Rightarrow> (string \<times> obj) list \<Rightarrow> obj res" where
  "base_candidate c bases = (case dget c ''base_case_id'' of
      JStr base_id \<Rightarrow> (case map_of bases base_id of None \<Rightarrow> Inl AssertionError | Some base \<Rightarrow> Inr base)
    | _ \<Rightarrow> Inl AssertionError)"

definition patched_candidate :: "obj \<Rightarrow> (string \<times> obj) list \<Rightarrow> obj res" where
  "patched_candidate c bases =
     bindR (base_candidate c bases) (\<lambda>base.
     bindR (assertR (is_list (dget c ''operations'') \<and> the_list (dget c ''operations'') \<noteq> [])) (\<lambda>_.
     bindR (foldR patch_step (JObj base) (the_list (dget c ''operations''))) (\<lambda>v. Inr (the_dict v))))"

text \<open>\<^verbatim>\<open>json.dumps(record, ensure_ascii=False, separators=(",", ":")).encode("utf-8")\<close>.\<close>

definition utf8_char :: "char \<Rightarrow> string" where
  "utf8_char c = (let n = (of_char c :: nat) in
     if n < 128 then [c] else [char_of (192 + n div 64), char_of (128 + n mod 64)])"

definition text_escape :: "char \<Rightarrow> string" where
  "text_escape c = (let n = (of_char c :: nat) in
     if n = 34 \<or> n = 92 then [CHR 0x5C, c]
     else if n = 10 then [CHR 0x5C, CHR ''n''] else if n = 13 then [CHR 0x5C, CHR ''r''] else if n = 9 then [CHR 0x5C, CHR ''t'']
     else if n = 8 then [CHR 0x5C, CHR ''b''] else if n = 12 then [CHR 0x5C, CHR ''f'']
     else if n < 32 then [CHR 0x5C, CHR ''u'', CHR ''0'', CHR ''0'', hex_digit (n div 16), hex_digit (n mod 16)]
     else utf8_char c)"

definition text_bytes :: "string \<Rightarrow> string" where
  "text_bytes s = [CHR 0x22] @ concat (map text_escape s) @ [CHR 0x22]"

fun json_bytes :: "json \<Rightarrow> string" where
  "json_bytes JNull = ''null''"
| "json_bytes (JBool b) = (if b then ''true'' else ''false'')"
| "json_bytes (JInt i) = str_int i"
| "json_bytes (JStr s) = text_bytes s"
| "json_bytes (JArr xs) = ''['' @ join '','' (map json_bytes xs) @ '']''"
| "json_bytes (JObj d) = ''{'' @ join '','' (map (\<lambda>(k, v). text_bytes k @ '':'' @ json_bytes v) d) @ ''}''"

definition record_bytes :: "obj \<Rightarrow> string" where
  "record_bytes candidate = json_bytes (dget candidate ''record'')"

definition record_schema_ref :: "obj \<Rightarrow> string res" where
  "record_schema_ref candidate = as_string (dget candidate ''record_schema_ref'')"

section \<open>Checks\<close>

text \<open>\<open>engine.validate_schema\<close>.\<close>

definition conforms :: "engine \<Rightarrow> string \<Rightarrow> json \<Rightarrow> unit res" where
  "conforms E name v = bindR (en_valid E (META_RECORDS @ ''#'' @ name) v) (\<lambda>ok. raise_if (\<not> ok) SchemaViolation)"

definition error_value :: "scan_outcome \<Rightarrow> json" where
  "error_value outcome = (case so_error outcome of None \<Rightarrow> JNull | Some e \<Rightarrow> JStr e)"

definition check_counterexample :: "engine \<Rightarrow> (string \<times> obj) list \<Rightarrow> obj \<Rightarrow> unit res" where
  "check_counterexample E bases c =
     bindR (conforms E ''SemanticVectorCase'' (JObj c)) (\<lambda>_.
     bindR (patched_candidate c bases) (\<lambda>candidate.
     bindR (record_schema_ref candidate) (\<lambda>schema_ref.
     bindR (engine_scan E (record_bytes candidate) schema_ref None) (\<lambda>outcome.
     bindR (ditem c ''expected_error'') (\<lambda>expected.
     bindR (assertR (py_eq (error_value outcome) expected \<and> so_disposition outcome \<noteq> ACCEPTED)) (\<lambda>_.
       assert_before_side_effects outcome))))))"

definition check_acceptance :: "engine \<Rightarrow> nat \<Rightarrow> obj \<Rightarrow> nat res" where
  "check_acceptance E acceptances base =
     (let expectation = dget base ''scanner_acceptance_expectation'' in
      if expectation = JNull then Inr acceptances
      else
        bindR (conforms E ''UniversalScannerAcceptanceExpectation'' expectation) (\<lambda>_.
        bindR (record_schema_ref base) (\<lambda>schema_ref.
        bindR (run_synthetic_side_effect_boundary E (record_bytes base) schema_ref None) (\<lambda>(outcome, effects).
        bindR (assertR (so_disposition outcome = ACCEPTED \<and> so_completed outcome = take 7 ORDERED_STAGES)) (\<lambda>_.
        bindR (assertR (effects = SIDE_EFFECT_STAGES)) (\<lambda>_.
        bindR (jitem expectation ''side_effects_before_acceptance'') (\<lambda>expected.
        bindR (assertR (is_dict expected \<and> \<not> list_ex (\<lambda>(k, v). truthy v) (the_dict expected))) (\<lambda>_.
          Inr (Suc acceptances)))))))))"

definition EXPECTED_FAULT :: obj where
  "EXPECTED_FAULT = [(''schema_version'', JStr ''scanner-fault-injection/v1''),
     (''fixture_id'', JStr ''scanner-fault:after-shape-before-name''), (''enabled_only_in'', JStr ''SYNTHETIC_VECTOR_HARNESS''),
     (''inject_after_stage'', JStr ''SHAPE_SCAN''), (''inject_before_stage'', JStr ''NAME_SCAN''),
     (''fault_kind'', JStr ''DETERMINISTIC_SCANNER_INTERNAL_EXCEPTION''), (''occurrence'', JStr ''FIRST_INVOCATION''),
     (''candidate_bytes_changed'', JBool False), (''candidate_member_added'', JBool False), (''production_authority'', JStr ''NONE'')]"

definition validate_fault_injection :: "json \<Rightarrow> unit res" where
  "validate_fault_injection fault = assertR (py_eq fault (JObj EXPECTED_FAULT))"

text \<open>The identity of a receipt; the receipt schema admits texts only, so others are refused here.\<close>

definition identity_of :: "obj \<Rightarrow> denial_identity res" where
  "identity_of receipt =
     bindR (string_item receipt ''receipt_id'') (\<lambda>i.
     bindR (string_item receipt ''attempt_id'') (\<lambda>a.
     bindR (string_item receipt ''input_class'') (\<lambda>c. Inr \<lparr>ri_receipt = i, ri_attempt = a, ri_class = c\<rparr>)))"

definition seam_outcome :: "engine \<Rightarrow> (string \<times> obj) list \<Rightarrow> obj \<Rightarrow> denial_identity \<Rightarrow> scan_outcome res" where
  "seam_outcome E bases c identity =
     (if dhas c ''fault_injection'' then
        bindR (conforms E ''UniversalScannerFaultVectorCase'' (JObj c)) (\<lambda>_.
        bindR (validate_fault_injection (dget c ''fault_injection'')) (\<lambda>_.
        bindR (base_candidate c bases) (\<lambda>candidate.
        bindR (record_schema_ref candidate) (\<lambda>schema_ref.
          scan_with_fault E (record_bytes candidate) schema_ref (Some identity) True))))
      else
        bindR (conforms E ''UniversalDenialVectorCase'' (JObj c)) (\<lambda>_.
        bindR (patched_candidate c bases) (\<lambda>candidate.
        bindR (record_schema_ref candidate) (\<lambda>schema_ref.
        bindR (run_synthetic_side_effect_boundary E (record_bytes candidate) schema_ref (Some identity)) (\<lambda>(outcome, effects).
        bindR (assertR (effects = [])) (\<lambda>_. Inr outcome))))))"

definition check_seam :: "engine \<Rightarrow> (string \<times> obj) list \<Rightarrow> obj \<Rightarrow> unit res" where
  "check_seam E bases c =
     (let expected_receipt = dget c ''expected_receipt'' in
      bindR (assertR (is_dict expected_receipt)) (\<lambda>_.
      bindR (identity_of (the_dict expected_receipt)) (\<lambda>identity.
      bindR (seam_outcome E bases c identity) (\<lambda>outcome.
      bindR (ditem c ''expected_error'') (\<lambda>expected.
      bindR (assertR (py_eq (error_value outcome) expected)) (\<lambda>_.
      bindR (assertR (case so_receipt outcome of None \<Rightarrow> False | Some r \<Rightarrow> py_eq (JObj r) expected_receipt)) (\<lambda>_.
      bindR (assertR (is_false (dget c ''secret_fixture_hash_computed''))) (\<lambda>_.
        assert_before_side_effects outcome))))))))"

section \<open>The vectors\<close>

definition RANK_ONE_COUNTS :: "(string \<times> nat) list" where
  "RANK_ONE_COUNTS = [(''e0-evidence-v1.json'', 6), (''d0-evidence-v1.json'', 17)]"

definition is_rank_one :: "obj \<Rightarrow> bool" where
  "is_rank_one c = py_eq (dget c ''precedence_rank'') (JInt 1)"

text \<open>One file: the counts of seams and of acceptances so far, and after it.\<close>

definition check_vector_file ::
    "engine \<Rightarrow> (string \<Rightarrow> string res) \<Rightarrow> nat \<times> nat \<Rightarrow> string \<times> nat \<Rightarrow> (nat \<times> nat) res" where
  "check_vector_file E read_vector counts entry = (case (counts, entry) of ((seams, acceptances), (vector_name, expected_count)) \<Rightarrow>
     bindR (bindR (read_vector vector_name) (load_json_object (en_decoder E))) (\<lambda>data.
     bindR (vector_bases data) (\<lambda>bases.
     bindR (object_list data ''counterexamples'') (\<lambda>counterexamples.
     (let rank_one = filter is_rank_one counterexamples in
      bindR (assertR (length rank_one = expected_count)) (\<lambda>_.
      bindR (foldR (\<lambda>_. check_counterexample E bases) () rank_one) (\<lambda>_.
      bindR (foldR (check_acceptance E) acceptances (map snd bases)) (\<lambda>acceptances.
      if vector_name \<noteq> ''e0-evidence-v1.json'' then Inr (seams, acceptances)
      else
        bindR (object_list data ''denial_seam_vectors'') (\<lambda>cases.
        bindR (foldR (\<lambda>_. check_seam E bases) () cases) (\<lambda>_. Inr (seams + length cases, acceptances)))))))))))"

definition validate_universal_denial_vectors :: "engine \<Rightarrow> (string \<Rightarrow> string res) \<Rightarrow> unit res" where
  "validate_universal_denial_vectors E read_vector =
     bindR (foldR (check_vector_file E read_vector) (0, 0) RANK_ONE_COUNTS) (\<lambda>(seams, acceptances).
       assertR (seams = 8 \<and> acceptances = 1))"

section \<open>Patches\<close>

text \<open>C34: what a patch operation adds, replaces, copies or moves to a place is what the document then holds there, also when a
  move has taken its source away first. The place is named: the path does not end in \<^verbatim>\<open>-\<close>, which stands for the end of a
  list and points to nothing afterwards.\<close>

theorem patched_value_reads_back:
  assumes "apply_patch_operation document operation = Inr document'"
    and "dget operation ''op'' = JStr op" and "op \<in> {''add'', ''replace'', ''copy'', ''move''}"
    and "dget operation ''path'' = JStr pointer" and "pointer_parts pointer = Inr parts" and "last parts \<noteq> ''-''"
  shows "pointer_value document' pointer =
    (if op \<in> {''copy'', ''move''} then pointer_value document (the_str (dget operation ''from'')) else Inr (dget operation ''value''))"
proof (cases "op \<in> {''copy'', ''move''}")
  case True
  with assms(1,2,4) obtain v e where v: "pointer_value document (the_str (dget operation ''from'')) = Inr v"
    and w: "write_pointer op v e pointer = Inr document'"
    by (auto simp: apply_patch_operation_def Let_def)
  from write_then_read [OF w assms(5,6)] v True show ?thesis by simp
next
  case False
  with assms(1-4) have w: "write_pointer op (dget operation ''value'') document pointer = Inr document'"
    by (auto simp: apply_patch_operation_def Let_def)
  from write_then_read [OF w assms(5,6)] False show ?thesis by simp
qed

lemma demo_move:
  "apply_patch_operation (JObj [(''a'', JArr [JInt 1, JInt 2]), (''b'', JNull)])
     [(''op'', JStr ''move''), (''from'', JStr ''/a/1''), (''path'', JStr ''/a/0'')] =
   Inr (JObj [(''a'', JArr [JInt 2, JInt 1]), (''b'', JNull)])"
  by code_simp

theorem patched_value_reads_back_witness:
  "pointer_value (JObj [(''a'', JArr [JInt 2, JInt 1]), (''b'', JNull)]) ''/a/0'' =
   pointer_value (JObj [(''a'', JArr [JInt 1, JInt 2]), (''b'', JNull)]) ''/a/1''"
  using patched_value_reads_back [OF demo_move, of "''move''" "''/a/0''" "[''a'', ''0'']"]
  by (simp add: pointer_parts_def starts_with_def pointer_unescape_def replace_def)

end
