(* ===== verification/Governance_Vectors.thy ===== *)
theory Governance_Vectors
  imports Review_Vectors Evidence_Semantics Denial_Vectors
begin

text \<open>
  \<open>validate_semantic_vector_file\<close> of \<^verbatim>\<open>src/moj_discovery/governance.py\<close>: one file of semantic vectors. Every base record
  is valid and without a semantic error, every counterexample is made by a JSON patch and fails with the expected error,
  by the same functions that judge records elsewhere. The files of the vendored pack are given by their bytes, the
  verdict of the JSON Schema by a parameter.
\<close>

record pack =
  pk_codec :: ext
  pk_read :: "string \<Rightarrow> string res"
  pk_schemas :: "string list"
  pk_valid :: "string \<Rightarrow> json \<Rightarrow> bool res"

definition read_strict :: "pack \<Rightarrow> string \<Rightarrow> obj res" where
  "read_strict K path = bindR (bindR (pk_read K path) (parse_strict_json (pk_codec K))) as_object"

section \<open>Patches\<close>

text \<open>This module has its own patches: \<^verbatim>\<open>int(part)\<close> admits signs, blanks and negative indices on the way to the
  container.\<close>

definition signed_index :: "json list \<Rightarrow> string \<Rightarrow> nat res" where
  "signed_index xs part = list_index xs part"

definition text_parts :: "json \<Rightarrow> string list res" where
  "text_parts pointer = bindR (assertR (is_str pointer \<and> starts_with (the_str pointer) ''/'')) (\<lambda>_.
     Inr (map pointer_unescape (split_on CHR ''/'' (drop 1 (the_str pointer)))))"

fun value_under :: "json \<Rightarrow> string list \<Rightarrow> json res" where
  "value_under v [] = Inr v"
| "value_under v (part # parts) = (case v of
      JObj d \<Rightarrow> (case map_of d part of None \<Rightarrow> Inl AssertionError | Some w \<Rightarrow> value_under w parts)
    | JArr xs \<Rightarrow> bindR (signed_index xs part) (\<lambda>i. value_under (xs ! i) parts)
    | _ \<Rightarrow> Inl AssertionError)"

definition dict_change :: "string \<Rightarrow> json \<Rightarrow> obj \<Rightarrow> string \<Rightarrow> json res" where
  "dict_change op w d component =
     bindR (assertR (op \<in> {''remove'', ''replace''} \<longrightarrow> dhas d component)) (\<lambda>_.
       Inr (JObj (if op = ''remove'' then ddel component d else dput component w d)))"

definition list_change :: "string \<Rightarrow> json \<Rightarrow> json list \<Rightarrow> string \<Rightarrow> json res" where
  "list_change op w xs component =
     (if op = ''add'' \<or> op = ''copy'' then
        bindR (if component = ''-'' then Inr (int (length xs)) else parse_int component) (\<lambda>i.
        bindR (assertR (0 \<le> i \<and> i \<le> int (length xs))) (\<lambda>_.
          Inr (JArr (take (nat i) xs @ [w] @ drop (nat i) xs))))
      else
        bindR (parse_int component) (\<lambda>i.
        bindR (assertR (0 \<le> i \<and> i < int (length xs))) (\<lambda>_.
          Inr (JArr (if op = ''remove'' then take (nat i) xs @ drop (Suc (nat i)) xs else xs[nat i := w])))))"

fun change_under :: "string \<Rightarrow> json \<Rightarrow> json \<Rightarrow> string list \<Rightarrow> json res" where
  "change_under op w v [] = Inl AssertionError"
| "change_under op w v [component] = (case v of
      JObj d \<Rightarrow> dict_change op w d component
    | JArr xs \<Rightarrow> list_change op w xs component
    | _ \<Rightarrow> Inl AssertionError)"
| "change_under op w v (part # parts) = (case v of
      JObj d \<Rightarrow> (case map_of d part of
          None \<Rightarrow> Inl AssertionError
        | Some u \<Rightarrow> bindR (change_under op w u parts) (\<lambda>u'. Inr (JObj (dput part u' d))))
    | JArr xs \<Rightarrow> bindR (signed_index xs part) (\<lambda>i.
        bindR (change_under op w (xs ! i) parts) (\<lambda>u'. Inr (JArr (xs[i := u']))))
    | _ \<Rightarrow> Inl AssertionError)"

definition governed_patch_step :: "json \<Rightarrow> json \<Rightarrow> json res" where
  "governed_patch_step document operation =
     bindR (as_object operation) (\<lambda>d.
     bindR (ditem d ''op'') (\<lambda>op.
     bindR (in_strs op [''add'', ''copy'', ''remove'', ''replace'']) (\<lambda>known.
     bindR (assertR known) (\<lambda>_.
     bindR (if the_str op = ''copy''
            then bindR (ditem d ''from'') (\<lambda>source. bindR (text_parts source) (value_under document))
            else Inr (dget d ''value'')) (\<lambda>w.
     bindR (ditem d ''path'') (\<lambda>path.
     bindR (text_parts path) (change_under (the_str op) w document)))))))"

definition apply_json_patch :: "obj \<Rightarrow> json \<Rightarrow> obj res" where
  "apply_json_patch base operations =
     bindR (assertR (is_list operations \<and> the_list operations \<noteq> [])) (\<lambda>_.
     bindR (foldR governed_patch_step (JObj base) (the_list operations)) (\<lambda>v. Inr (the_dict v)))"

section \<open>Schemas\<close>

definition published :: "string \<Rightarrow> bool" where
  "published i = (starts_with i ''urn:hybrid-discovery:v6.2:'' \<or> starts_with i ''https://hybrid-discovery.local/schemas/v6.2/'')"

definition published_schema :: "pack \<Rightarrow> string \<Rightarrow> string res" where
  "published_schema K path =
     bindR (read_strict K path) (\<lambda>schema.
     bindR (as_string (dget schema ''$id'')) (\<lambda>i.
     bindR (assertR (published i)) (\<lambda>_. Inr i)))"

text \<open>The registry that the validator resolves references in: its identifiers.\<close>

definition published_schema_registry :: "pack \<Rightarrow> string list res" where
  "published_schema_registry K =
     bindR (mapR (published_schema K) (pk_schemas K)) (\<lambda>ids.
     bindR (assertR (length ids = 13)) (\<lambda>_. Inr ids))"

definition record_validates :: "pack \<Rightarrow> obj \<Rightarrow> bool res" where
  "record_validates K c =
     bindR (ditem c ''record_schema_ref'') (\<lambda>ref.
     bindR (assertR (is_str ref \<and> published (the_str ref))) (\<lambda>_.
     bindR (ditem c ''record'') (\<lambda>v. pk_valid K (the_str ref) v)))"

section \<open>Files\<close>

definition EXPECTED_CASES :: "(string \<times> nat \<times> nat) list" where
  "EXPECTED_CASES = [(''e0-evidence-v1.json'', 40, 9), (''d0-evidence-v1.json'', 26, 1), (''scope-semantic-v1.json'', 34, 17),
     (''review-semantic-v1.json'', 28, 4)]"

definition SEMANTIC_FILES :: "string list" where
  "SEMANTIC_FILES = [''scope-semantic-v1.json'', ''review-semantic-v1.json'']"

definition semantic_bases :: "obj \<Rightarrow> obj list res" where
  "semantic_bases data =
     bindR (mapR (\<lambda>key. bindR (as_list (dget_or data key (JArr []))) (\<lambda>xs.
         bindR (assertR (list_all is_dict xs)) (\<lambda>_. Inr (map the_dict xs))))
       [''valid_records'', ''semantic_bases'', ''valid_capabilities'']) (\<lambda>bases.
     (case dget data ''valid_review'' of
        JNull \<Rightarrow> Inr (concat bases)
      | v \<Rightarrow> bindR (as_object v) (\<lambda>d. Inr (concat bases @ [d]))))"

definition check_contract :: "obj \<Rightarrow> unit res" where
  "check_contract data =
     bindR (assert_text data ''production_authority'' ''NONE'') (\<lambda>_.
     bindR (bindR (ditem data ''vector_contract'') as_object) (\<lambda>contract.
     bindR (assert_text contract ''patch_semantics'' ''RFC6902'') (\<lambda>_.
     bindR (assert_text contract ''error_selection'' ''LOWEST_PRECEDENCE_RANK_ONLY'') (\<lambda>_.
       foldR (\<lambda>_ key. bindR (ditem contract key) (\<lambda>v.
         assertR (starts_with (py_str v) ''urn:hybrid-discovery:v6.2:meta-records:v1#'')))
         () [''schema_ref'', ''base_schema_ref'', ''case_schema_ref'']))))"

definition check_ranks :: "obj \<Rightarrow> unit res" where
  "check_ranks data =
     bindR (bindR (ditem data ''error_precedence'') as_list) (\<lambda>entries.
     bindR (mapR (\<lambda>e. jitem e ''precedence_rank'') entries) (\<lambda>ranks.
     bindR (assertR (py_eq (JArr ranks) (JArr (map JInt [1, 5, 10, 15, 20, 30])))) (\<lambda>_.
     bindR (mapR (\<lambda>e. jitem e ''stage'') entries) (\<lambda>stages.
       assertR (py_eq (JArr stages) (JArr (map JStr [''UNIVERSAL_DENIAL'', ''JSON_PATCH'', ''SCHEMA'', ''REFERENCE'', ''SEMANTIC'',
         ''AUTHORITY''])))))))"

text \<open>What a file is judged with: the scope policy, the two registries of reviews, or the scanner.\<close>

definition load_judges :: "pack \<Rightarrow> decoder \<Rightarrow> string list \<Rightarrow> string \<Rightarrow> (obj option \<times> documents) res" where
  "load_judges K D schema_files name =
     (if name = ''scope-semantic-v1.json'' then
        bindR (read_strict K ''registries/scope0-input-policy.v1.json'') (\<lambda>policy.
        bindR (validate_scope_policy policy) (\<lambda>_. Inr (Some policy, [])))
      else if name = ''review-semantic-v1.json'' then
        bindR (read_strict K ''registries/required-discovery-decisions.v1.json'') (\<lambda>decisions.
        bindR (read_strict K ''registries/discovery-capability-consumers.v1.json'') (\<lambda>consumers.
        bindR (validate_required_decision_registry decisions) (\<lambda>_.
        bindR (validate_consumer_registry consumers) (\<lambda>_. Inr (None, [])))))
      else bindR (open_engine D schema_files) (\<lambda>docs. Inr (None, docs)))"

text \<open>The evidence evaluator over the scanner of \<^verbatim>\<open>universal_denial.py\<close>; without a requested receipt a scan always
  has an outcome.\<close>

definition evidence_scanner :: "engine \<Rightarrow> evidence_env" where
  "evidence_scanner E = \<lparr>ee_bytes = (\<lambda>d. json_bytes (JObj d)),
     ee_scan = (\<lambda>raw ref. case engine_scan E raw ref None of
         Inr outcome \<Rightarrow> (so_error outcome, so_disposition outcome = ACCEPTED)
       | Inl e \<Rightarrow> (None, False))\<rparr>"

definition judge_evidence :: "engine \<Rightarrow> string \<Rightarrow> obj \<Rightarrow> bool \<Rightarrow> bool \<Rightarrow> (string \<times> nat) option res" where
  "judge_evidence E name candidate schema_valid require_failure =
     (case evaluate_evidence (evidence_scanner E) name candidate schema_valid require_failure of
        Inl (ContractError _) \<Rightarrow> Inl AssertionError
      | Inl (Raised e) \<Rightarrow> Inl e
      | Inr failure \<Rightarrow> Inr failure)"

definition check_base :: "pack \<Rightarrow> engine \<Rightarrow> string \<Rightarrow> obj option \<Rightarrow> obj \<Rightarrow> unit res" where
  "check_base K E name scope_policy base =
     bindR (record_validates K base) (\<lambda>valid.
     bindR (assertR valid) (\<lambda>_.
       if name \<in> set SEMANTIC_FILES
       then bindR (semantic_vector_error name base base scope_policy) (\<lambda>error. assertR (error = None))
       else bindR (judge_evidence E name base True False) (\<lambda>failure. assertR (failure = None))))"

definition check_case_outcome :: "engine \<Rightarrow> string \<Rightarrow> obj option \<Rightarrow> obj \<Rightarrow> obj \<Rightarrow> obj \<Rightarrow> bool \<Rightarrow> unit res" where
  "check_case_outcome E name scope_policy c base candidate schema_valid =
     (if name \<in> set SEMANTIC_FILES then
        bindR (semantic_vector_error name base candidate scope_policy) (\<lambda>error.
          assertR (case error of None \<Rightarrow> False | Some e \<Rightarrow> py_eq (JStr e) (dget c ''expected_error'')))
      else
        bindR (judge_evidence E name candidate schema_valid True) (\<lambda>failure.
          assertR (case failure of None \<Rightarrow> False | Some (error, rank) \<Rightarrow>
            py_eq (JStr error) (dget c ''expected_error'') \<and> py_eq (JInt (int rank)) (dget c ''precedence_rank''))))"

definition rank_in :: "json \<Rightarrow> int list \<Rightarrow> bool res" where
  "rank_in v ranks = (if hashable v then Inr (list_ex (\<lambda>r. py_eq v (JInt r)) ranks) else Inl TypeError)"

definition check_case :: "pack \<Rightarrow> engine \<Rightarrow> string \<Rightarrow> obj option \<Rightarrow> (string \<times> obj) list \<Rightarrow> obj \<Rightarrow> unit res" where
  "check_case K E name scope_policy by_id c =
     bindR (ditem c ''base_case_id'') (\<lambda>base_id.
     bindR (in_strs base_id (map fst by_id)) (\<lambda>known.
     bindR (assertR known) (\<lambda>_.
     bindR (ditem c ''expected_error'') (\<lambda>expected.
     bindR (assertR (is_str expected \<and> starts_with (the_str expected) ''E_'')) (\<lambda>_.
     bindR (ditem c ''precedence_rank'') (\<lambda>rank.
     bindR (bindR (rank_in rank [1, 10, 20]) assertR) (\<lambda>_.
     bindR (ditem c ''operations'') (\<lambda>operations.
     (let base = the (map_of by_id (the_str base_id)) in
      bindR (apply_json_patch base operations) (\<lambda>candidate.
      bindR (record_validates K candidate) (\<lambda>schema_valid.
      bindR (ditem c ''candidate_schema_state'') (\<lambda>state.
      bindR (assertR (schema_valid = str_is state ''VALID'')) (\<lambda>_.
      bindR (bindR (rank_in rank (if schema_valid then [20] else [1, 10])) assertR) (\<lambda>_.
        check_case_outcome E name scope_policy c base candidate schema_valid))))))))))))))"

text \<open>\<open>str(base["case_id"])\<close> is the key of a base.\<close>

definition keyed_bases :: "obj list \<Rightarrow> (string \<times> obj) list res" where
  "keyed_bases bases = mapR (\<lambda>b. bindR (ditem b ''case_id'') (\<lambda>i. Inr (py_str i, b))) bases"

definition case_counts :: "obj list \<Rightarrow> nat \<Rightarrow> unit res" where
  "case_counts cases expected_semantic =
     bindR (mapR (\<lambda>c. ditem c ''case_id'') cases) (\<lambda>ids.
     bindR (raise_if (\<not> list_all hashable ids) TypeError) (\<lambda>_.
     bindR (assertR (distinct_by py_eq ids)) (\<lambda>_.
     bindR (mapR (\<lambda>c. bindR (ditem c ''candidate_schema_state'') (\<lambda>s. Inr (str_is s ''VALID''))) cases) (\<lambda>states.
       assertR (length (filter id states) = expected_semantic)))))"

definition validate_semantic_vector_file :: "pack \<Rightarrow> engine \<Rightarrow> string list \<Rightarrow> string \<Rightarrow> unit res" where
  "validate_semantic_vector_file K E schema_files name =
     (case map_of EXPECTED_CASES name of
        None \<Rightarrow> Inl AssertionError
      | Some (expected_count, expected_semantic) \<Rightarrow>
          bindR (read_strict K (''vectors/'' @ name)) (\<lambda>data.
          bindR (check_contract data) (\<lambda>_.
          bindR (check_ranks data) (\<lambda>_.
          bindR (load_judges K (en_decoder E) schema_files name) (\<lambda>(scope_policy, docs).
          bindR (semantic_bases data) (\<lambda>bases.
          bindR (keyed_bases bases) (\<lambda>by_id.
          bindR (assertR (distinct (map fst by_id))) (\<lambda>_.
          bindR (published_schema_registry K) (\<lambda>_.
          bindR (foldR (\<lambda>_. check_base K (E\<lparr>en_documents := docs\<rparr>) name scope_policy) () bases) (\<lambda>_.
          bindR (bindR (ditem data ''counterexamples'') as_list) (\<lambda>cases.
          bindR (assertR (length cases = expected_count)) (\<lambda>_.
          bindR (mapR (\<lambda>c. case c of JObj d \<Rightarrow> Inr d | _ \<Rightarrow> Inl TypeError) cases) (\<lambda>cases.
          bindR (case_counts cases expected_semantic) (\<lambda>_.
            foldR (\<lambda>_. check_case K (E\<lparr>en_documents := docs\<rparr>) name scope_policy by_id) () cases))))))))))))))"

section \<open>Agreement with the other patches\<close>

text \<open>
  The program has two implementations of JSON patches. Whatever the strict one of \<^verbatim>\<open>universal_denial.py\<close> does,
  the one of \<^verbatim>\<open>governance.py\<close> does too.
\<close>

lemma array_index_signed: "array_index part (length xs) False = Inr i \<Longrightarrow> signed_index xs part = Inr i"
  by (auto simp: array_index_Inr signed_index_def list_index_def)

lemma text_parts_agree: "pointer_parts pointer = Inr parts \<Longrightarrow> text_parts (JStr pointer) = Inr parts"
  by (auto simp: pointer_parts_def text_parts_def split: if_splits)

lemma value_under_agrees: "bindR (parent_of v parts) member_value = Inr w \<Longrightarrow> value_under v parts = Inr w"
proof (induction v parts rule: parent_of.induct)
  case (2 v component)
  then show ?case by (cases v) (auto simp: member_value_def dest: array_index_signed split: option.splits)
next
  case (3 v part p ps)
  show ?case
  proof (cases v)
    case (JObj d)
    with 3(3) obtain u where u: "map_of d part = Some u" by (auto split: option.splits)
    with 3 JObj show ?thesis by simp
  next
    case (JArr xs)
    with 3(3) obtain i where "array_index part (length xs) False = Inr i" by auto
    with 3 JArr array_index_signed [OF this] show ?thesis by simp
  qed (use 3(3) in auto)
qed simp

lemma change_under_agrees:
  assumes "change_parent f v parts = Inr v'"
    and "\<And>u c u'. f u c = Inr u' \<Longrightarrow> change_under op w u [c] = Inr u'"
  shows "change_under op w v parts = Inr v'"
  using assms
proof (induction f v parts arbitrary: v' rule: change_parent.induct)
  case (3 f v part p ps)
  show ?case
  proof (cases v)
    case (JObj d)
    with 3(3) obtain u u' where u: "map_of d part = Some u" "change_parent f u (p # ps) = Inr u'" "v' = JObj (dput part u' d)"
      by (auto split: option.splits)
    with 3(2) [OF JObj u(1,2) 3(4)] JObj show ?thesis by simp
  next
    case (JArr xs)
    with 3(3) obtain i u' where u: "array_index part (length xs) False = Inr i" "change_parent f (xs ! i) (p # ps) = Inr u'"
      "v' = JArr (xs[i := u'])" by auto
    with 3(1) [OF JArr u(1,2) 3(4)] JArr array_index_signed [OF u(1)] show ?thesis by simp
  qed (use 3(3) in auto)
qed auto

lemma remove_member_agrees: "remove_member u c = Inr u' \<Longrightarrow> change_under ''remove'' w u [c] = Inr u'"
  by (cases u) (auto simp: remove_member_def dict_change_def list_change_def array_index_Inr split: if_splits)

lemma write_member_agrees:
  assumes "write_member op w u c = Inr u'" and "op \<in> {''add'', ''copy'', ''replace''}"
  shows "change_under op w u [c] = Inr u'"
proof (cases u)
  case (JObj d)
  with assms show ?thesis by (auto simp: write_member_def dict_change_def split: if_splits)
next
  case (JArr xs)
  show ?thesis
  proof (cases "op = ''replace''")
    case True
    with JArr assms show ?thesis by (auto simp: write_member_def INSERTING_def list_change_def array_index_Inr)
  next
    case False
    then have op: "op \<in> set INSERTING" "op = ''add'' \<or> op = ''copy''" using assms(2) by (auto simp: INSERTING_def)
    show ?thesis
    proof (cases "c = ''-''")
      case True
      with JArr op assms(1) show ?thesis by (simp add: write_member_def list_change_def)
    next
      case False
      with JArr op(1) assms(1) obtain i where i: "array_index c (length xs) True = Inr i"
        and u': "u' = JArr (take i xs @ [w] @ drop i xs)" by (auto simp: write_member_def)
      with JArr op(2) False show ?thesis by (simp add: list_change_def array_index_Inr)
    qed
  qed
qed (use assms in \<open>simp_all add: write_member_def\<close>)

lemma dget_str_item: "dget d k = JStr s \<Longrightarrow> ditem d k = Inr (JStr s)"
  by (auto simp: dget_def ditem_def split: option.splits)

lemma write_pointer_agrees:
  assumes "write_pointer op w document pointer = Inr document'" and "op \<in> {''add'', ''copy'', ''replace''}"
  shows "bindR (text_parts (JStr pointer)) (change_under op w document) = Inr document'"
proof -
  from assms(1) obtain parts where p: "pointer_parts pointer = Inr parts"
    and c: "change_parent (write_member op w) document parts = Inr document'" by (auto simp: write_pointer_def)
  have "change_under op w document parts = Inr document'"
    by (rule change_under_agrees [OF c]) (rule write_member_agrees [OF _ assms(2)])
  with text_parts_agree [OF p] show ?thesis by simp
qed

lemma remove_pointer_agrees:
  assumes "remove_pointer document pointer = Inr document'"
  shows "bindR (text_parts (JStr pointer)) (change_under ''remove'' w document) = Inr document'"
proof -
  from assms obtain parts where p: "pointer_parts pointer = Inr parts"
    and c: "change_parent remove_member document parts = Inr document'" by (auto simp: remove_pointer_def)
  have "change_under ''remove'' w document parts = Inr document'"
    by (rule change_under_agrees [OF c]) (rule remove_member_agrees)
  with text_parts_agree [OF p] show ?thesis by simp
qed

lemma pointer_value_agrees:
  assumes "pointer_value document pointer = Inr w"
  shows "bindR (text_parts (JStr pointer)) (value_under document) = Inr w"
proof -
  from assms obtain parts where p: "pointer_parts pointer = Inr parts"
    and v: "bindR (parent_of document parts) member_value = Inr w" by (auto simp: pointer_value_def)
  from value_under_agrees [OF v] text_parts_agree [OF p] show ?thesis by simp
qed

text \<open>C40: whenever the patch operation of the denial vectors succeeds, that of the semantic vectors succeeds with the same document,
  for every operation that both know; so the counterexamples of both harnesses are the same records.\<close>
theorem patch_implementations_agree:
  assumes "apply_patch_operation document operation = Inr document'"
    and "dget operation ''op'' = JStr op" and "op \<in> {''add'', ''copy'', ''remove'', ''replace''}"
  shows "governed_patch_step document (JObj operation) = Inr document'"
proof -
  from assms(1) obtain pointer where path: "dget operation ''path'' = JStr pointer"
    by (cases "dget operation ''path''") (auto simp: apply_patch_operation_def)
  note step = dget_str_item [OF assms(2)] dget_str_item [OF path] in_strs_simps governed_patch_step_def
  consider (writing) "op \<in> {''add'', ''replace''}" | (removing) "op = ''remove''" | (copying) "op = ''copy''" using assms(3) by auto
  then show ?thesis
  proof cases
    case writing
    with assms(1,2) path have "write_pointer op (dget operation ''value'') document pointer = Inr document'"
      by (auto simp: apply_patch_operation_def Let_def)
    from write_pointer_agrees [OF this] writing show ?thesis by (auto simp: step)
  next
    case removing
    with assms(1,2) path have "remove_pointer document pointer = Inr document'"
      by (auto simp: apply_patch_operation_def Let_def)
    from remove_pointer_agrees [OF this] removing show ?thesis by (simp add: step)
  next
    case copying
    with assms(1,2) path obtain source w where f: "dget operation ''from'' = JStr source"
      and w: "pointer_value document source = Inr w" "write_pointer op w document pointer = Inr document'"
      by (cases "dget operation ''from''") (auto simp: apply_patch_operation_def Let_def)
    from pointer_value_agrees [OF w(1)] write_pointer_agrees [OF w(2)] copying show ?thesis
      by (simp add: step dget_str_item [OF f]) blast
  qed
qed

theorem patch_implementations_agree_witness:
  "governed_patch_step (JObj [(''a'', JArr [JInt 1])]) (JObj [(''op'', JStr ''copy''), (''from'', JStr ''/a/0''), (''path'', JStr ''/a/-'')])
   = Inr (JObj [(''a'', JArr [JInt 1, JInt 1])])"
proof -
  have "apply_patch_operation (JObj [(''a'', JArr [JInt 1])]) [(''op'', JStr ''copy''), (''from'', JStr ''/a/0''), (''path'', JStr ''/a/-'')]
    = Inr (JObj [(''a'', JArr [JInt 1, JInt 1])])" by code_simp
  then show ?thesis by (rule patch_implementations_agree [of _ _ _ "''copy''"]) simp_all
qed

end
