(* ===== verification/Governance_Registry.thy ===== *)
theory Governance_Registry
  imports Governance_Vectors Task_Contracts Artifact_Ownership
begin

text \<open>
  \<open>validate_canonical_registry\<close> and the checks beside it in \<^verbatim>\<open>src/moj_discovery/governance.py\<close>: the registry of
  hash domains is closed and divided into classes, its bindings name existing files, vectors, schemas and symbols, and the
  historical commands have successors. Files, modules and the resolution of references in schemas are parameters: \<open>tr_is_file\<close> and
  \<open>tr_exists\<close> of paths in the vendored pack, \<open>tr_runtime_file\<close> and \<open>tr_bytes\<close> of paths in the working directory, which is the
  root of the runtime.
\<close>

record tree =
  tr_pack :: pack
  tr_is_file :: "string \<Rightarrow> bool"
  tr_exists :: "string \<Rightarrow> bool"
  tr_runtime_file :: "string \<Rightarrow> bool"
  tr_bytes :: "string \<Rightarrow> string res"
  tr_sha256 :: "string \<Rightarrow> string"
  tr_lookup :: "string \<Rightarrow> string \<Rightarrow> unit res"
  tr_has_attribute :: "string \<Rightarrow> string \<Rightarrow> bool res"
  tr_command_schema :: "obj \<Rightarrow> obj \<Rightarrow> bool res"

section \<open>Sets of values\<close>

fun once :: "json list \<Rightarrow> json list" where
  "once [] = []"
| "once (v # vs) = v # filter (\<lambda>w. \<not> py_eq v w) (once vs)"

text \<open>\<open>set(v)\<close>, with one element for equal values.\<close>

definition values_set :: "json list \<Rightarrow> json list res" where
  "values_set xs = (if list_all hashable xs then Inr (once xs) else Inl TypeError)"

definition set_item :: "obj \<Rightarrow> string \<Rightarrow> json list res" where
  "set_item d k = bindR (bindR (ditem d k) iter_values) values_set"

definition within :: "json list \<Rightarrow> json list \<Rightarrow> bool" where
  "within xs ys = list_all (\<lambda>x. list_ex (py_eq x) ys) xs"

definition same_values :: "json list \<Rightarrow> json list \<Rightarrow> bool" where
  "same_values xs ys = (within xs ys \<and> within ys xs)"

definition apart :: "json list \<Rightarrow> json list \<Rightarrow> bool" where
  "apart xs ys = list_all (\<lambda>x. \<not> list_ex (py_eq x) ys) xs"

text \<open>\<^verbatim>\<open>{entry[k]: entry for entry in entries}\<close>: a later entry replaces an equal key.\<close>

definition keyed_by :: "string \<Rightarrow> json list \<Rightarrow> (json \<times> obj) list res" where
  "keyed_by k entries = bindR (mapR (\<lambda>e. bindR (jitem e k) (\<lambda>i.
       if hashable i then Inr (i, the_dict e) else Inl TypeError)) entries) (\<lambda>pairs.
     Inr (foldl (\<lambda>d p. filter (\<lambda>q. \<not> py_eq (fst q) (fst p)) d @ [p]) [] pairs))"

definition keyed_entry :: "(json \<times> obj) list \<Rightarrow> json \<Rightarrow> obj res" where
  "keyed_entry d k = (case filter (\<lambda>p. py_eq (fst p) k) d of [] \<Rightarrow> Inl (KeyError (py_str k)) | p # _ \<Rightarrow> Inr (snd p))"

definition count_is :: "obj \<Rightarrow> string \<Rightarrow> nat \<Rightarrow> unit res" where
  "count_is d k n = bindR (ditem d k) (\<lambda>v. assertR (py_eq v (JInt (int n))))"

section \<open>Domains\<close>

text \<open>\<^verbatim>\<open>/(?:[^/~]|~[01])+\<close>, matched in full and without a star.\<close>

fun token_text :: "string \<Rightarrow> bool" where
  "token_text [] = True"
| "token_text (c # cs) = (c \<noteq> CHR ''/'' \<and>
     (if c = CHR ''~'' then cs \<noteq> [] \<and> hd cs \<in> set ''01'' \<and> token_text (tl cs) else token_text cs))"

definition exclusion_ok :: "json \<Rightarrow> bool" where
  "exclusion_ok v = (case v of
      JStr (c # cs) \<Rightarrow> c = CHR ''/'' \<and> cs \<noteq> [] \<and> token_text cs \<and> CHR ''*'' \<notin> set cs
    | _ \<Rightarrow> False)"

definition check_domain :: "json \<times> obj \<Rightarrow> unit res" where
  "check_domain entry = (case entry of (artifact_type, d) \<Rightarrow>
     bindR (assert_text d ''domain_version'' ''v1'') (\<lambda>_.
     bindR (assert_text d ''domain'' (''HYBRID-DISCOVERY/v6.2/'' @ py_str artifact_type @ ''/v1'' @ [CHR 0x00])) (\<lambda>_.
     bindR (bindR (ditem d ''excluded_json_pointers'') as_list) (\<lambda>exclusions.
     bindR (bindR (set_distinct exclusions) assertR) (\<lambda>_. assertR (list_all exclusion_ok exclusions))))))"

definition excluded_types :: "(json \<times> obj) list \<Rightarrow> json list res" where
  "excluded_types domains =
     bindR (filterR (\<lambda>p. bindR (ditem (snd p) ''excluded_json_pointers'') (\<lambda>v. Inr (truthy v))) domains) (\<lambda>ps. Inr (map fst ps))"

section \<open>Classes\<close>

definition check_class :: "obj \<Rightarrow> json list \<Rightarrow> nat \<Rightarrow> unit res" where
  "check_class d types n =
     bindR (ditem d ''expected_count'') (\<lambda>expected.
       assertR (py_eq expected (JInt (int (length types))) \<and> py_eq expected (JInt (int n))))"

definition check_subclasses :: "obj \<Rightarrow> json list \<Rightarrow> unit res" where
  "check_subclasses governed_class governed =
     bindR (bindR (ditem governed_class ''subclasses'') as_list) (\<lambda>subclasses.
     bindR (assertR (length subclasses = 2)) (\<lambda>_.
     bindR (keyed_by ''subclass_id'' subclasses) (\<lambda>by_id.
     bindR (mapR (\<lambda>p. set_item (snd p) ''artifact_types'') by_id) (\<lambda>sets.
     bindR (assertR (same_values (map fst by_id) (map JStr [''STATIC_PACK_ASSET'', ''GOLDEN_OR_CURSOR_VECTOR_INPUT'']))) (\<lambda>_.
     bindR (bindR (keyed_entry by_id (JStr ''STATIC_PACK_ASSET'')) (\<lambda>d. set_item d ''artifact_types'')) (\<lambda>assets.
     bindR (assertR (length assets = 11)) (\<lambda>_.
     bindR (bindR (keyed_entry by_id (JStr ''GOLDEN_OR_CURSOR_VECTOR_INPUT'')) (\<lambda>d. set_item d ''artifact_types'')) (\<lambda>inputs.
     bindR (assertR (length inputs = 7)) (\<lambda>_.
     bindR (assertR (apart assets inputs)) (\<lambda>_. assertR (same_values (concat sets) governed)))))))))))"

text \<open>The types with and without exclusions; together all types of the domains.\<close>

definition check_classes :: "obj \<Rightarrow> (json \<times> obj) list \<Rightarrow> (json list \<times> json list) res" where
  "check_classes registry domains =
     bindR (bindR (ditem registry ''domain_validation_classes'') as_list) (\<lambda>classes.
     bindR (assertR (length classes = 2)) (\<lambda>_.
     bindR (keyed_by ''class_id'' classes) (\<lambda>by_id.
     bindR (assertR (same_values (map fst by_id) (map JStr [''SCHEMA_GATED_SELF_HASH'', ''GOVERNED_NO_EXCLUSION'']))) (\<lambda>_.
     bindR (keyed_entry by_id (JStr ''SCHEMA_GATED_SELF_HASH'')) (\<lambda>gated_class.
     bindR (keyed_entry by_id (JStr ''GOVERNED_NO_EXCLUSION'')) (\<lambda>governed_class.
     bindR (set_item gated_class ''artifact_types'') (\<lambda>gated.
     bindR (set_item governed_class ''artifact_types'') (\<lambda>governed.
     bindR (check_class gated_class gated 65) (\<lambda>_.
     bindR (check_class governed_class governed 18) (\<lambda>_.
     bindR (assertR (apart gated governed \<and> same_values (gated @ governed) (map fst domains))) (\<lambda>_.
     bindR (excluded_types domains) (\<lambda>excluded.
     bindR (assertR (same_values gated excluded)) (\<lambda>_.
     bindR (assertR (same_values governed (filter (\<lambda>t. \<not> list_ex (py_eq t) gated) (map fst domains)))) (\<lambda>_.
     bindR (check_subclasses governed_class governed) (\<lambda>_. Inr (gated, governed))))))))))))))))"

section \<open>Commands\<close>

definition command_ids_of :: "json list \<Rightarrow> string list res" where
  "command_ids_of entries =
     bindR (mapR (\<lambda>e. ditem (the_dict e) ''command_id'') (filter is_dict entries)) (\<lambda>ids.
     bindR (assertR (length ids = length entries)) (\<lambda>_.
     bindR (bindR (set_distinct ids) assertR) (\<lambda>_.
     bindR (assertR (list_all is_str ids)) (\<lambda>_. Inr (map the_str ids)))))"

definition current_command_ids :: "tree \<Rightarrow> string list res" where
  "current_command_ids T =
     bindR (tr_bytes T ''task-command-registry.json'') (\<lambda>root_bytes.
     bindR (pk_read (tr_pack T) ''docs/registries/task-command-registry.v1.json'') (\<lambda>vendored.
     bindR (assertR (root_bytes = vendored)) (\<lambda>_.
     bindR (parse_strict_json (pk_codec (tr_pack T)) root_bytes) (\<lambda>registry.
     bindR (bindR (pk_read (tr_pack T) ''docs/schemas/command-registry.schema.json'')
       (parse_strict_json (pk_codec (tr_pack T)))) (\<lambda>schema.
     bindR (assertR (is_dict registry \<and> is_dict schema)) (\<lambda>_.
     bindR (bindR (tr_command_schema T (the_dict schema) (the_dict registry)) assertR) (\<lambda>_.
     bindR (bindR (ditem (the_dict registry) ''commands'') as_list) command_ids_of)))))))"

definition FIXTURE_PATH :: string where
  "FIXTURE_PATH = ''docs/fixtures/inherited/v6.2/task-command-registry.json''"

definition historical_fixture :: "tree \<Rightarrow> obj \<Rightarrow> string list res" where
  "historical_fixture T inherited =
     bindR (bindR (ditem inherited ''fixtures'') as_list) (\<lambda>fixtures.
     (case filter (\<lambda>f. is_dict f \<and> str_is (dget (the_dict f) ''runtime_vendor_relative'') FIXTURE_PATH) fixtures of
        [f] \<Rightarrow>
          (let fixture = the_dict f in
           bindR (assert_text fixture ''classification'' ''IMMUTABLE_TEST_DATA_NEVER_EXECUTABLE'') (\<lambda>_.
           bindR (pk_read (tr_pack T) FIXTURE_PATH) (\<lambda>fixture_bytes.
           bindR (bindR (ditem fixture ''size'') (\<lambda>n. assertR (py_eq n (JInt (int (length fixture_bytes)))))) (\<lambda>_.
           bindR (assert_text fixture ''sha256'' (tr_sha256 T fixture_bytes)) (\<lambda>_.
           bindR (bindR (parse_strict_json (pk_codec (tr_pack T)) fixture_bytes) as_object) (\<lambda>historical.
           bindR (bindR (ditem historical ''verification_commands'') as_list) command_ids_of))))))
      | _ \<Rightarrow> Inl AssertionError))"

definition obligation_step :: "(string \<times> string list) list \<Rightarrow> json \<Rightarrow> (string \<times> string list) list res" where
  "obligation_step obligations row =
     bindR (as_object row) (\<lambda>d.
     bindR (ditem d ''inherited_command_id'') (\<lambda>i.
     bindR (ditem d ''successor_command_ids'') (\<lambda>s.
     bindR (assertR (is_str i \<and> the_str i \<notin> set (map fst obligations) \<and> is_list s \<and> list_all is_str (the_list s))) (\<lambda>_.
     bindR (assert_text d ''role'' ''COVERAGE_MAPPING_ONLY_NOT_EXECUTION_ALIAS'') (\<lambda>_.
       Inr (obligations @ [(the_str i, map the_str (the_list s))]))))))"

definition historical_command_obligations :: "tree \<Rightarrow> (string list \<times> (string \<times> string list) list) res" where
  "historical_command_obligations T =
     bindR (read_strict (tr_pack T) ''docs/registries/inherited-baseline-qualification.v1.json'') (\<lambda>inherited.
     bindR (historical_fixture T inherited) (\<lambda>historical_ids.
     bindR (bindR (ditem inherited ''inherited_command_obligations'') as_list) (\<lambda>rows.
     bindR (assertR (length rows = 12)) (\<lambda>_.
     bindR (foldR obligation_step [] rows) (\<lambda>obligations. Inr (historical_ids, obligations))))))"

section \<open>Bindings\<close>

definition runtime_vendor_path :: "tree \<Rightarrow> json \<Rightarrow> string res" where
  "runtime_vendor_path T canonical_path =
     bindR (assertR (is_str canonical_path \<and> starts_with (the_str canonical_path) ''docs/'')) (\<lambda>_.
     (let p = removeprefix ''docs/'' (the_str canonical_path) in Inr (if tr_exists T p then p else the_str canonical_path)))"

text \<open>\<open>_artifact_ids\<close>: the texts under names that are \<open>id\<close> or end in \<open>_id\<close>.\<close>

function artifact_ids :: "json \<Rightarrow> string list" where
  "artifact_ids v = (case v of
      JObj d \<Rightarrow> concat (map (\<lambda>(key, child).
        (if is_str child \<and> (key = ''id'' \<or> ends_with key ''_id'') then [the_str child] else []) @ artifact_ids child) d)
    | JArr xs \<Rightarrow> concat (map artifact_ids xs)
    | _ \<Rightarrow> [])"
  by auto
termination
  by (relation "measure size") (auto dest: size_element size_member)

declare artifact_ids.simps [simp del]

definition resolve_schema_binding :: "tree \<Rightarrow> obj \<Rightarrow> unit res" where
  "resolve_schema_binding T binding =
     bindR (ditem binding ''schema_path'') (\<lambda>p.
     bindR (runtime_vendor_path T p) (\<lambda>schema_path.
     bindR (read_strict (tr_pack T) schema_path) (\<lambda>schema.
     bindR (ditem schema ''$id'') (\<lambda>i.
     bindR (ditem binding ''schema_id'') (\<lambda>schema_id.
     bindR (assertR (py_eq i schema_id)) (\<lambda>_.
     (case dget binding ''schema_fragment'' of
        JNull \<Rightarrow> Inr ()
      | JStr fragment \<Rightarrow>
          bindR (published_schema_registry (tr_pack T)) (\<lambda>_. tr_lookup T (py_str schema_id) fragment)
      | _ \<Rightarrow> Inl AssertionError)))))))"

text \<open>\<^verbatim>\<open>\bname\b\<close>, searched: an occurrence with a word boundary at both ends.\<close>

definition boundary :: "char option \<Rightarrow> char option \<Rightarrow> bool" where
  "boundary a b = ((case a of None \<Rightarrow> False | Some c \<Rightarrow> word_char c) \<noteq> (case b of None \<Rightarrow> False | Some c \<Rightarrow> word_char c))"

definition first_char :: "string \<Rightarrow> char option" where
  "first_char s = (case s of [] \<Rightarrow> None | c # _ \<Rightarrow> Some c)"

fun named_from :: "char option \<Rightarrow> string \<Rightarrow> string \<Rightarrow> bool" where
  "named_from before name s =
     ((starts_with s name \<and> boundary before (first_char s) \<and>
       boundary (if name = [] then before else Some (last name)) (first_char (drop (length name) s))) \<or>
      (case s of [] \<Rightarrow> False | c # cs \<Rightarrow> named_from (Some c) name cs))"

definition assert_verifier_symbol :: "tree \<Rightarrow> json \<Rightarrow> unit res" where
  "assert_verifier_symbol T symbol =
     bindR (as_string symbol) (\<lambda>s.
     if CHR ''#'' \<in> set s then
       (let path = takeWhile (\<lambda>c. c \<noteq> CHR ''#'') s; name = drop 1 (dropWhile (\<lambda>c. c \<noteq> CHR ''#'') s) in
        bindR (assertR (tr_runtime_file T path)) (\<lambda>_.
        bindR (tr_bytes T path) (\<lambda>text. assertR (named_from None name text))))
     else
       (let name = rev (takeWhile (\<lambda>c. c \<noteq> CHR ''.'') (rev s)); module_name = rev (drop (Suc (length name)) (rev s)) in
        bindR (assertR (module_name \<noteq> [] \<and> name \<noteq> [])) (\<lambda>_. bindR (tr_has_attribute T module_name name) assertR)))"

definition check_vector_binding :: "tree \<Rightarrow> json \<Rightarrow> unit res" where
  "check_vector_binding T v = (case v of
      JNull \<Rightarrow> Inr ()
    | _ \<Rightarrow>
        bindR (bindR (jitem v ''vector_path'') (runtime_vendor_path T)) (\<lambda>path.
        bindR (bindR (pk_read (tr_pack T) path) (parse_strict_json (pk_codec (tr_pack T)))) (\<lambda>data.
        bindR (set_item (the_dict v) ''vector_ids'') (\<lambda>ids. assertR (within ids (map JStr (artifact_ids data)))))))"

text \<open>One binding of a type without exclusions, with the historical commands bound so far.\<close>

definition binding_step :: "tree \<Rightarrow> json list \<Rightarrow> json \<Rightarrow> json list res" where
  "binding_step T bound binding =
     bindR (bindR (jitem binding ''canonical_source_path'') (runtime_vendor_path T)) (\<lambda>source.
     bindR (assertR (tr_is_file T source)) (\<lambda>_.
     bindR (set_item (the_dict binding) ''command_ids'') (\<lambda>ids.
     bindR (check_vector_binding T (dget (the_dict binding) ''vector_binding'')) (\<lambda>_.
     bindR (case dget (the_dict binding) ''schema_binding'' of JNull \<Rightarrow> Inr () | JObj d \<Rightarrow> resolve_schema_binding T d
       | _ \<Rightarrow> Inl TypeError) (\<lambda>_.
     bindR (bindR (ditem (the_dict binding) ''verifier_symbols'') iter_values) (\<lambda>symbols.
     bindR (foldR (\<lambda>_. assert_verifier_symbol T) () symbols) (\<lambda>_. Inr (once (bound @ ids)))))))))"

definition check_bindings :: "tree \<Rightarrow> obj \<Rightarrow> json list \<Rightarrow> unit res" where
  "check_bindings T registry governed =
     bindR (bindR (ditem registry ''no_exclusion_validation_bindings'') as_list) (\<lambda>bindings.
     bindR (assertR (length bindings = 18)) (\<lambda>_.
     bindR (bindR (mapR (\<lambda>b. jitem b ''artifact_type'') bindings) values_set) (\<lambda>types.
     bindR (assertR (same_values types governed)) (\<lambda>_.
     bindR (current_command_ids T) (\<lambda>command_ids.
     bindR (historical_command_obligations T) (\<lambda>(historical_ids, obligations).
     bindR (foldR (binding_step T) [] bindings) (\<lambda>bound.
     bindR (assertR (length bound = 12)) (\<lambda>_.
     bindR (assertR (same_values (map (\<lambda>q. JStr (fst q)) obligations) bound \<and> within bound (map JStr historical_ids))) (\<lambda>_.
       foldR (\<lambda>_ (i, successors). bindR (assertR (successors \<noteq> [] \<and> distinct successors)) (\<lambda>_.
         assertR (set successors \<subseteq> set command_ids))) () obligations)))))))))"

section \<open>Groups and counts\<close>

definition group_types :: "json \<Rightarrow> json list res" where
  "group_types g = bindR (jitem g ''artifact_types'') iter_values"

definition of_kind :: "string \<Rightarrow> json \<Rightarrow> bool res" where
  "of_kind kind g = bindR (jitem g ''source_kind'') (\<lambda>k. Inr (str_is k kind))"

definition types_of_kind :: "string \<Rightarrow> json list \<Rightarrow> nat res" where
  "types_of_kind kind groups =
     bindR (filterR (of_kind kind) groups) (\<lambda>gs.
     bindR (mapR (\<lambda>g. bindR (jitem g ''artifact_types'') (\<lambda>v. bindR (iter_values v) (\<lambda>xs. Inr (length xs)))) gs) (\<lambda>ns.
       Inr (sum_list ns)))"

definition check_group :: "tree \<Rightarrow> (json \<times> obj) list \<Rightarrow> json \<Rightarrow> unit res" where
  "check_group T domains g =
     bindR (group_types g) (\<lambda>types.
     bindR (foldR (\<lambda>_ t. bindR (keyed_entry domains t) (\<lambda>d.
         bindR (ditem d ''excluded_json_pointers'') (\<lambda>a.
         bindR (jitem g ''required_excluded_json_pointers'') (\<lambda>b. assertR (py_eq a b))))) () types) (\<lambda>_.
     bindR (of_kind ''CLOSED_JSON_SCHEMA'' g) (\<lambda>is_closed.
     if is_closed then resolve_schema_binding T (the_dict g)
     else
       bindR (bindR (of_kind ''TEST_ONLY_CLOSED_VECTOR_SCHEMA'' g) assertR) (\<lambda>_.
       bindR (bindR (jitem g ''vector_path'') (runtime_vendor_path T)) (\<lambda>p. assertR (tr_is_file T p))))))"

definition check_groups :: "tree \<Rightarrow> obj \<Rightarrow> (json \<times> obj) list \<Rightarrow> json list \<Rightarrow> unit res" where
  "check_groups T registry domains gated =
     bindR (bindR (ditem registry ''schema_binding_groups'') as_list) (\<lambda>groups.
     bindR (bindR (mapR group_types groups) (\<lambda>tss. values_set (concat tss))) (\<lambda>types.
     bindR (assertR (same_values types gated)) (\<lambda>_.
     bindR (filterR (of_kind ''CLOSED_JSON_SCHEMA'') groups) (\<lambda>closed_groups.
     bindR (assertR (length closed_groups = 12)) (\<lambda>_.
     bindR (types_of_kind ''CLOSED_JSON_SCHEMA'' groups) (\<lambda>n.
     bindR (assertR (n = 63)) (\<lambda>_.
     bindR (types_of_kind ''TEST_ONLY_CLOSED_VECTOR_SCHEMA'' groups) (\<lambda>m.
     bindR (assertR (m = 2)) (\<lambda>_. foldR (\<lambda>_. check_group T domains) () groups)))))))))"

definition EXCLUSION_COUNTS :: "(string \<times> nat) list" where
  "EXCLUSION_COUNTS = [(''/content_hash'', 63), (''/approval_hash'', 1), (''/revocation_hash'', 1), (''/signature'', 6)]"

definition check_exclusion_counts :: "(json \<times> obj) list \<Rightarrow> unit res" where
  "check_exclusion_counts domains =
     bindR (mapR (\<lambda>p. bindR (ditem (snd p) ''excluded_json_pointers'') iter_values) domains) (\<lambda>xss.
       foldR (\<lambda>_ (pointer, n). assertR (length (filter (\<lambda>v. str_is v pointer) (concat xss)) = n)) () EXCLUSION_COUNTS)"

definition EXPECTED_COUNTS :: obj where
  "EXPECTED_COUNTS =
     [(''registered_domains'', JInt 83), (''domains_with_exclusions'', JInt 65), (''schema_gated_self_hash_domains'', JInt 65),
      (''governed_no_exclusion_domains'', JInt 18), (''static_pack_asset_domains'', JInt 11),
      (''golden_or_cursor_vector_input_domains'', JInt 7), (''no_exclusion_validation_bindings'', JInt 18),
      (''schema_bound_domains'', JInt 63), (''test_only_vector_schema_bound_domains'', JInt 2),
      (''content_hash_self_hash_domains'', JInt 63), (''approval_hash_self_hash_domains'', JInt 1),
      (''revocation_hash_self_hash_domains'', JInt 1), (''signature_excluded_domains'', JInt 6),
      (''non_hd_jcs_manifest_hash_artifacts'', JInt 2)]"

definition check_consistency_vectors :: "obj \<Rightarrow> unit res" where
  "check_consistency_vectors vectors =
     bindR (ditem vectors ''registry_schema_consistency_vectors'') (\<lambda>consistency.
     bindR (bindR (jitem consistency ''valid_vector'') (\<lambda>v. jitem v ''expected_counts'')) (\<lambda>counts.
     bindR (assertR (py_eq counts (JObj EXPECTED_COUNTS))) (\<lambda>_.
     bindR (bindR (jitem consistency ''invalid_vectors'') iter_values) (\<lambda>xs. assertR (length xs = 9)))))"

section \<open>The registry\<close>

definition check_registry_head :: "obj \<Rightarrow> unit res" where
  "check_registry_head registry =
     bindR (assert_text registry ''schema_version'' ''canonical-hash-domains/v1'') (\<lambda>_.
     bindR (assert_text registry ''algorithm_id'' ''HD-JCS-SHA256-v1'') (\<lambda>_.
     bindR (bindR (ditem registry ''closed_world'') (\<lambda>v. assertR (is_true v))) (\<lambda>_.
       assert_text registry ''production_authority'' ''NONE'')))"

definition validate_canonical_registry :: "tree \<Rightarrow> unit res" where
  "validate_canonical_registry T =
     bindR (bindR (pk_read (tr_pack T) ''registries/canonical-hash-domains.v1.json'')
       (parse_strict_json (pk_codec (tr_pack T)))) (\<lambda>r.
     bindR (bindR (pk_read (tr_pack T) ''vectors/canonical-hashing-v1.json'')
       (parse_strict_json (pk_codec (tr_pack T)))) (\<lambda>v.
     bindR (assertR (is_dict r \<and> is_dict v)) (\<lambda>_.
     (let registry = the_dict r in
      bindR (check_registry_head registry) (\<lambda>_.
      bindR (bindR (ditem registry ''domains'') as_list) (\<lambda>domains.
      bindR (assertR (length domains = 83 \<and> list_all is_dict domains)) (\<lambda>_.
      bindR (keyed_by ''artifact_type'' domains) (\<lambda>by_type.
      bindR (assertR (length by_type = 83)) (\<lambda>_.
      bindR (foldR (\<lambda>_. check_domain) () by_type) (\<lambda>_.
      bindR (check_classes registry by_type) (\<lambda>(gated, governed).
      bindR (check_bindings T registry governed) (\<lambda>_.
      bindR (check_groups T registry by_type gated) (\<lambda>_.
      bindR (check_exclusion_counts by_type) (\<lambda>_.
      bindR (assertR (apart (map JStr [''BuildManifest'', ''PackManifest'']) (map fst by_type))) (\<lambda>_.
        check_consistency_vectors (the_dict v))))))))))))))))"

end
