(* ===== verification/Graph_Partition.thy ===== *)
theory Graph_Partition
  imports Json_Items
begin

text \<open>
  The graphs of \<^verbatim>\<open>src/moj_discovery/governance.py\<close>: the executable discovery graph and the future roadmap that
  has no authority are the expected ones, disjoint, and without cycles. The files are read by a parameter.
\<close>

section \<open>Topological count\<close>

text \<open>\<open>_validate_graph_edges\<close>. The nodes are a set in the source; here they are any list of its elements. The number of
  incoming edges is a dict; \<open>outgoing\<close> maps a node to the targets of its edges.\<close>

type_synonym in_degrees = "(string \<times> int) list"

fun set_degree :: "string \<Rightarrow> int \<Rightarrow> in_degrees \<Rightarrow> in_degrees" where
  "set_degree k n [] = []"
| "set_degree k n ((k', m) # d) = (if k' = k then (k, n) # d else (k', m) # set_degree k n d)"

definition outgoing :: "string list list \<Rightarrow> string \<Rightarrow> string list" where
  "outgoing edges source = map (\<lambda>e. e ! 1) (filter (\<lambda>e. e ! 0 = source) edges)"

text \<open>The loop that enters an edge: refused when it is there already.\<close>

definition enter_edge :: "string list list \<times> in_degrees \<Rightarrow> string list \<Rightarrow> (string list list \<times> in_degrees) res" where
  "enter_edge s edge = (case s of (entered, incoming) \<Rightarrow>
     bindR (assertR (edge ! 1 \<notin> set (outgoing entered (edge ! 0)))) (\<lambda>_.
     case map_of incoming (edge ! 1) of
       None \<Rightarrow> Inl (KeyError (edge ! 1))
     | Some n \<Rightarrow> Inr (entered @ [edge], set_degree (edge ! 1) (n + 1) incoming)))"

text \<open>One outgoing edge of a visited node, and all of them.\<close>

definition relax :: "in_degrees \<times> string list \<Rightarrow> string \<Rightarrow> (in_degrees \<times> string list) res" where
  "relax s target = (case s of (incoming, ready) \<Rightarrow>
     case map_of incoming target of
       None \<Rightarrow> Inl (KeyError target)
     | Some n \<Rightarrow> Inr (set_degree target (n - 1) incoming, if n - 1 = 0 then target # ready else ready))"

definition pending_work :: "in_degrees \<times> string list \<Rightarrow> nat" where
  "pending_work s = 2 * sum_list (map (nat \<circ> snd) (fst s)) + length (snd s)"

lemma set_degree_sum:
  "map_of d k = Some n \<Longrightarrow>
   sum_list (map (nat \<circ> snd) (set_degree k m d)) + nat n = sum_list (map (nat \<circ> snd) d) + nat m"
  by (induction k m d rule: set_degree.induct) (auto split: if_splits)

lemma relax_work: "relax s target = Inr t \<Longrightarrow> pending_work t \<le> pending_work s"
proof -
  assume "relax s target = Inr t"
  then obtain incoming ready n where s: "s = (incoming, ready)" and n: "map_of incoming target = Some n"
    and t: "t = (set_degree target (n - 1) incoming, if n - 1 = 0 then target # ready else ready)"
    by (auto simp: relax_def split: prod.splits option.splits)
  from set_degree_sum [OF n, of "n - 1"] show ?thesis by (auto simp: s t pending_work_def)
qed

lemma relax_all_work: "foldR relax s targets = Inr t \<Longrightarrow> pending_work t \<le> pending_work s"
proof (induction targets arbitrary: s)
  case (Cons target targets)
  then obtain u where "relax s target = Inr u" "foldR relax u targets = Inr t" by auto
  with relax_work [of s target u] Cons.IH [of u] show ?case by simp
qed simp

text \<open>The loop over the stack of ready nodes, with the number of nodes visited.\<close>

function visit_ready :: "string list list \<Rightarrow> in_degrees \<Rightarrow> string list \<Rightarrow> nat \<Rightarrow> nat res" where
  "visit_ready edges incoming [] visited = Inr visited"
| "visit_ready edges incoming (source # ready) visited =
     bindR (foldR relax (incoming, ready) (outgoing edges source)) (\<lambda>s.
       visit_ready edges (fst s) (snd s) (visited + 1))"
  by pat_completeness auto
termination
proof (relation "measure (\<lambda>(edges, incoming, ready, visited). pending_work (incoming, ready))")
  fix edges incoming source ready visited s
  assume "foldR relax (incoming, ready) (outgoing edges source) = Inr s"
  from relax_all_work [OF this] show "((edges, fst s, snd s, visited + 1), edges, incoming, source # ready, visited)
    \<in> measure (\<lambda>(edges, incoming, ready, visited). pending_work (incoming, ready))"
    by (simp add: pending_work_def)
qed simp

definition ready_nodes :: "in_degrees \<Rightarrow> string list" where
  "ready_nodes incoming = rev (map fst (filter (\<lambda>(k, n). n = 0) incoming))"

definition validate_graph_edges :: "string list \<Rightarrow> string list list \<Rightarrow> unit res" where
  "validate_graph_edges nodes edges =
     bindR (assertR (list_all (\<lambda>edge. length edge = 2 \<and> set edge \<subseteq> set nodes) edges)) (\<lambda>_.
     bindR (foldR enter_edge ([], map (\<lambda>node. (node, 0)) nodes) edges) (\<lambda>s.
     bindR (visit_ready (fst s) (snd s) (ready_nodes (snd s)) 0) (\<lambda>visited.
       assertR (visited = length nodes))))"

section \<open>The expected graphs\<close>

definition EXECUTABLE_GRAPH_EDGES :: "string list list" where
  "EXECUTABLE_GRAPH_EDGES = [[''R0'', ''F0A''], [''F0A'', ''SEC0''], [''SEC0'', ''E0''], [''SEC0'', ''D0''], [''E0'', ''G0''],
     [''D0'', ''G0''], [''G0'', ''SCOPE0''], [''SCOPE0'', ''DISCOVERY_COMPLETE'']]"

definition FUTURE_GRAPH_EDGES :: "string list list" where
  "FUTURE_GRAPH_EDGES = [[''F0B'', ''PLAN-B0''], [''PLAN-B0'', ''E1''], [''PLAN-B0'', ''E2''], [''PLAN-B0'', ''E3''], [''E1'', ''H0''],
     [''E2'', ''H0''], [''E3'', ''H0''], [''H0'', ''WDL-M0A''], [''H0'', ''MK0A''], [''WDL-M0A'', ''WDL-M0B''],
     [''WDL-M0B'', ''WDL-M0C''], [''WDL-M0C'', ''PLAN-K0''], [''MK0A'', ''PLAN-K0''], [''PLAN-K0'', ''P0''], [''P0'', ''UI''],
     [''UI'', ''V0A''], [''V0A'', ''X0''], [''X0'', ''O0''], [''O0'', ''V0B''], [''V0B'', ''A0''], [''V0B'', ''HERMES''], [''V0B'', ''L0'']]"

definition EXECUTABLE_GRAPH_NODES :: "string list" where
  "EXECUTABLE_GRAPH_NODES = [''R0'', ''F0A'', ''SEC0'', ''E0'', ''D0'', ''G0'', ''SCOPE0'', ''DISCOVERY_COMPLETE'']"

definition FUTURE_GRAPH_NODES :: "string list" where
  "FUTURE_GRAPH_NODES = [''F0B'', ''PLAN-B0'', ''E1'', ''E2'', ''E3'', ''H0'', ''WDL-M0A'', ''WDL-M0B'', ''WDL-M0C'', ''MK0A'', ''PLAN-K0'',
     ''P0'', ''UI'', ''V0A'', ''X0'', ''O0'', ''V0B'', ''A0'', ''HERMES'', ''L0'']"

definition EXPECTED_STAMP :: obj where
  "EXPECTED_STAMP = [(''graph_type'', JStr ''NON_AUTHORITATIVE_FUTURE_ROADMAP''), (''executable'', JBool False),
     (''authority'', JStr ''NONE''), (''may_start'', JBool False), (''auto_activate'', JBool False)]"

definition strings_json :: "string list \<Rightarrow> json" where
  "strings_json ss = JArr (map JStr ss)"

definition edges_json :: "string list list \<Rightarrow> json" where
  "edges_json edges = JArr (map strings_json edges)"

text \<open>\<open>assert d[k] == v\<close>.\<close>

definition assert_entry :: "obj \<Rightarrow> string \<Rightarrow> json \<Rightarrow> unit res" where
  "assert_entry d k v = bindR (ditem d k) (\<lambda>w. assertR (py_eq w v))"

definition assert_false :: "obj \<Rightarrow> string \<Rightarrow> unit res" where
  "assert_false d k = bindR (ditem d k) (\<lambda>w. assertR (is_false w))"

definition check_stamp :: "obj \<Rightarrow> unit res" where
  "check_stamp node =
     bindR (assertR (keys_eq node (''node_id'' # dkeys EXPECTED_STAMP))) (\<lambda>_.
       foldR (\<lambda>_ (k, v). assert_entry node k v) () EXPECTED_STAMP)"

definition check_executable_graph :: "obj \<Rightarrow> unit res" where
  "check_executable_graph d =
     bindR (assert_entry d ''graph_type'' (JStr ''EXECUTABLE_DISCOVERY_GRAPH'')) (\<lambda>_.
       assert_entry d ''terminal'' (JStr ''DISCOVERY_COMPLETE''))"

definition check_future_graph :: "obj \<Rightarrow> unit res" where
  "check_future_graph d =
     bindR (assert_entry d ''graph_type'' (JStr ''NON_AUTHORITATIVE_FUTURE_ROADMAP'')) (\<lambda>_.
     bindR (assert_entry d ''authority'' (JStr ''NONE'')) (\<lambda>_.
     bindR (assert_false d ''executable'') (\<lambda>_.
     bindR (assert_false d ''may_start'') (\<lambda>_. assert_false d ''auto_activate''))))"

text \<open>The identifiers of the future nodes are compared with the constant first, so they are the constant.\<close>

definition validate_graph_partition :: "json \<Rightarrow> json \<Rightarrow> unit res" where
  "validate_graph_partition executable future =
     bindR (assertR (is_dict executable \<and>
       keys_eq (the_dict executable) [''edges'', ''graph_type'', ''nodes'', ''schema_version'', ''terminal''])) (\<lambda>_.
     bindR (assertR (is_dict future \<and> keys_eq (the_dict future) [''authority'', ''auto_activate'', ''edges'', ''executable'',
       ''graph_type'', ''may_start'', ''nodes'', ''schema_version''])) (\<lambda>_.
     (let e = the_dict executable; f = the_dict future in
      bindR (assert_entry e ''schema_version'' (JStr ''v1'')) (\<lambda>_.
      bindR (assert_entry f ''schema_version'' (JStr ''v1'')) (\<lambda>_.
      bindR (assert_entry e ''nodes'' (strings_json EXECUTABLE_GRAPH_NODES)) (\<lambda>_.
      bindR (objects_item f ''nodes'') (\<lambda>nodes.
      bindR (mapR (\<lambda>node. ditem node ''node_id'') nodes) (\<lambda>ids.
      bindR (assertR (py_eq (JArr ids) (strings_json FUTURE_GRAPH_NODES))) (\<lambda>_.
      bindR (assertR (distinct FUTURE_GRAPH_NODES)) (\<lambda>_.
      bindR (check_executable_graph e) (\<lambda>_.
      bindR (check_future_graph f) (\<lambda>_.
      bindR (foldR (\<lambda>_. check_stamp) () nodes) (\<lambda>_.
      bindR (assertR (set EXECUTABLE_GRAPH_NODES \<inter> set FUTURE_GRAPH_NODES = {})) (\<lambda>_.
      bindR (assert_entry e ''edges'' (edges_json EXECUTABLE_GRAPH_EDGES)) (\<lambda>_.
      bindR (assert_entry f ''edges'' (edges_json FUTURE_GRAPH_EDGES)) (\<lambda>_.
      bindR (validate_graph_edges EXECUTABLE_GRAPH_NODES EXECUTABLE_GRAPH_EDGES) (\<lambda>_.
      bindR (validate_graph_edges FUTURE_GRAPH_NODES FUTURE_GRAPH_EDGES) (\<lambda>_.
      bindR (assertR (list_all (list_all (\<lambda>n. n \<notin> set FUTURE_GRAPH_NODES)) EXECUTABLE_GRAPH_EDGES)) (\<lambda>_.
        assertR (list_all (list_all (\<lambda>n. n \<notin> set EXECUTABLE_GRAPH_NODES)) FUTURE_GRAPH_EDGES))))))))))))))))))))"

section \<open>Task dependencies\<close>

text \<open>\<open>set(task["dependencies"]) <= seen\<close>: the elements of a list, the keys of a dict, the characters of a text.\<close>

definition dependency_step :: "string list \<Rightarrow> json \<Rightarrow> string list res" where
  "dependency_step seen task =
     bindR (jitem task ''task_id'') (\<lambda>task_id.
     bindR (assertR (is_str task_id \<and> the_str task_id \<notin> set seen)) (\<lambda>_.
     bindR (bindR (jitem task ''dependencies'') iter_values) (\<lambda>dependencies.
     bindR (mapR (\<lambda>d. in_strs d seen) dependencies) (\<lambda>known.
     bindR (assertR (list_all id known)) (\<lambda>_. Inr (the_str task_id # seen))))))"

definition validate_task_dependencies :: "json \<Rightarrow> unit res" where
  "validate_task_dependencies manifest =
     bindR (jitem manifest ''tasks'') (\<lambda>tasks.
     bindR (jitem manifest ''declared_task_count'') (\<lambda>n.
     bindR (assertR (py_eq n (JInt 62))) (\<lambda>_.
     bindR (iter_values tasks) (\<lambda>rows.
     bindR (assertR (length rows = 62)) (\<lambda>_.
     bindR (foldR dependency_step [] rows) (\<lambda>seen. assertR (length seen = 62)))))))"

section \<open>What the check of edges accepts\<close>

text \<open>
  The check of graph edges succeeds exactly for graphs without repeated edges and cycles, in whatever order the nodes
  are listed: every visit keeps the in-degrees of what is not visited, and the ready nodes are those without
  unvisited predecessors.
\<close>

section \<open>Entering the edges\<close>

lemma map_of_set_degree: "map_of d k = Some m \<Longrightarrow> map_of (set_degree k n d) = (map_of d)(k \<mapsto> n)"
  by (induction k n d rule: set_degree.induct) (auto simp: fun_upd_def)

definition in_degree :: "string list list \<Rightarrow> string \<Rightarrow> nat" where
  "in_degree edges v = length (filter (\<lambda>e. e ! 1 = v) edges)"

definition degrees_of :: "string set \<Rightarrow> (string \<Rightarrow> nat) \<Rightarrow> in_degrees \<Rightarrow> bool" where
  "degrees_of N f incoming \<longleftrightarrow> (\<forall>v. map_of incoming v = (if v \<in> N then Some (int (f v)) else None))"

definition pairs_in :: "string set \<Rightarrow> string list list \<Rightarrow> bool" where
  "pairs_in N edges \<longleftrightarrow> (\<forall>e \<in> set edges. length e = 2 \<and> set e \<subseteq> N)"

lemma pair_eq: "length e = 2 \<Longrightarrow> e = [e ! 0, e ! 1]"
  by (cases e; cases "tl e") auto

lemma outgoing_mem: "(\<forall>e \<in> set edges. length e = 2) \<Longrightarrow> v \<in> set (outgoing edges u) \<longleftrightarrow> [u, v] \<in> set edges"
proof
  assume l: "\<forall>e \<in> set edges. length e = 2" and "v \<in> set (outgoing edges u)"
  then obtain e where "e \<in> set edges" "e ! 0 = u" "e ! 1 = v" by (auto simp: outgoing_def)
  with l pair_eq [of e] show "[u, v] \<in> set edges" by metis
qed (force simp: outgoing_def)

lemma set_degree_keys: "map fst (set_degree k n d) = map fst d"
  by (induction k n d rule: set_degree.induct) auto

lemma enter_edges:
  assumes "pairs_in N (entered @ edges)" and "distinct entered" and "degrees_of N (in_degree entered) incoming"
  shows "(case foldR enter_edge (entered, incoming) edges of
      Inr s \<Rightarrow> fst s = entered @ edges \<and> distinct (entered @ edges) \<and> degrees_of N (in_degree (entered @ edges)) (snd s) \<and>
        map fst (snd s) = map fst incoming
    | Inl _ \<Rightarrow> \<not> distinct (entered @ edges))"
  using assms
proof (induction edges arbitrary: entered incoming)
  case (Cons e edges)
  then have e: "length e = 2" "set e \<subseteq> N" and l: "\<forall>x \<in> set entered. length x = 2" by (auto simp: pairs_in_def)
  have m: "e ! 1 \<in> set (outgoing entered (e ! 0)) \<longleftrightarrow> e \<in> set entered"
    using outgoing_mem [OF l] pair_eq [OF e(1)] by metis
  show ?case
  proof (cases "e \<in> set entered")
    case True
    with m show ?thesis by (simp add: enter_edge_def assertR_def)
  next
    case False
    have "e ! 1 \<in> N" using e by auto
    with Cons.prems(3) have d: "map_of incoming (e ! 1) = Some (int (in_degree entered (e ! 1)))"
      by (simp add: degrees_of_def)
    let ?i = "set_degree (e ! 1) (int (in_degree entered (e ! 1)) + 1) incoming"
    have "degrees_of N (in_degree (entered @ [e])) ?i"
      using Cons.prems(3) \<open>e ! 1 \<in> N\<close> unfolding degrees_of_def map_of_set_degree [OF d]
      by (auto simp: in_degree_def)
    moreover have "pairs_in N ((entered @ [e]) @ edges)" "distinct (entered @ [e])" using Cons.prems False by simp_all
    moreover have "foldR enter_edge (entered, incoming) (e # edges) = foldR enter_edge (entered @ [e], ?i) edges"
      using m False d by (simp add: enter_edge_def)
    ultimately show ?thesis using Cons.IH [of "entered @ [e]" ?i]
      by (simp only: append_assoc append_Cons append_Nil set_degree_keys)
  qed
qed simp

section \<open>Visiting\<close>

lemma relax_all:
  assumes "degrees_of N f incoming" and "distinct ts" and "set ts \<subseteq> N" and "\<forall>t \<in> set ts. 0 < f t"
    and "distinct ready" and "\<forall>v \<in> set ready. f v = 0"
  shows "\<exists>i r. foldR relax (incoming, ready) ts = Inr (i, r) \<and> degrees_of N (\<lambda>v. if v \<in> set ts then f v - 1 else f v) i \<and>
    distinct r \<and> set r = set ready \<union> {t \<in> set ts. f t = 1}"
  using assms
proof (induction ts arbitrary: f incoming ready)
  case Nil
  then show ?case by simp
next
  case (Cons t ts)
  then have d: "map_of incoming t = Some (int (f t))" by (simp add: degrees_of_def)
  let ?i = "set_degree t (int (f t) - 1) incoming" and ?f = "f(t := f t - 1)"
  let ?r = "if int (f t) - 1 = 0 then t # ready else ready"
  have a: "degrees_of N ?f ?i"
    using Cons.prems(1,3,4) unfolding degrees_of_def map_of_set_degree [OF d] by auto
  have b: "distinct ts" "set ts \<subseteq> N" "\<forall>u \<in> set ts. 0 < ?f u" "distinct ?r" "\<forall>v \<in> set ?r. ?f v = 0"
    using Cons.prems(2-6) by auto
  from Cons.IH [OF a b] obtain i r where r: "foldR relax (?i, ?r) ts = Inr (i, r)"
    "degrees_of N (\<lambda>v. if v \<in> set ts then ?f v - 1 else ?f v) i" "distinct r" "set r = set ?r \<union> {u \<in> set ts. ?f u = 1}"
    by blast
  have "foldR relax (incoming, ready) (t # ts) = Inr (i, r)" using r(1) d by (simp add: relax_def)
  moreover have "(\<lambda>v. if v \<in> set ts then ?f v - 1 else ?f v) = (\<lambda>v. if v \<in> set (t # ts) then f v - 1 else f v)"
    using Cons.prems(2) by auto
  moreover have "set r = set ready \<union> {u \<in> set (t # ts). f u = 1}" using r(4) Cons.prems(2,4) by auto
  ultimately show ?case using r(2,3) by auto
qed

text \<open>The predecessors of a node that are not visited.\<close>

definition unvisited :: "string list list \<Rightarrow> string set \<Rightarrow> string \<Rightarrow> string set" where
  "unvisited edges D v = {u. [u, v] \<in> set edges \<and> u \<notin> D}"

lemma finite_unvisited: "finite (unvisited edges D v)"
proof -
  have "unvisited edges D v \<subseteq> hd ` set edges" by (force simp: unvisited_def image_iff)
  then show ?thesis by (rule finite_subset) simp
qed

definition visiting :: "string set \<Rightarrow> string list list \<Rightarrow> string set \<Rightarrow> in_degrees \<Rightarrow> string list \<Rightarrow> bool" where
  "visiting N edges D incoming ready \<longleftrightarrow>
     D \<subseteq> N \<and> distinct ready \<and> set ready \<inter> D = {} \<and> degrees_of N (\<lambda>v. card (unvisited edges D v)) incoming \<and>
     D \<union> set ready = {v \<in> N. unvisited edges D v = {}} \<and>
     (\<exists>rank :: string \<Rightarrow> nat. \<forall>u v. [u, v] \<in> set edges \<longrightarrow> v \<in> D \<longrightarrow> rank u < rank v)"

lemma visiting_subset: "visiting N edges D incoming ready \<Longrightarrow> D \<subseteq> N"
  by (simp add: visiting_def)

lemma visiting_ready: "visiting N edges D incoming ready \<Longrightarrow> v \<in> D \<union> set ready \<longleftrightarrow> v \<in> N \<and> unvisited edges D v = {}"
  unfolding visiting_def by blast

lemma visiting_ranked: "visiting N edges D incoming ready \<Longrightarrow>
    \<exists>rank :: string \<Rightarrow> nat. \<forall>u v. [u, v] \<in> set edges \<longrightarrow> v \<in> D \<longrightarrow> rank u < rank v"
  by (simp add: visiting_def)

lemma minus_one_empty: "finite U \<Longrightarrow> U - {s} = {} \<longleftrightarrow> U = {} \<or> s \<in> U \<and> card U = 1"
  by (auto simp: card_1_singleton_iff subset_singleton_iff)

lemma visit_one:
  assumes "visiting N edges D incoming (s # ready)" and "pairs_in N edges" and "distinct edges" and "finite N"
  shows "\<exists>i r. foldR relax (incoming, ready) (outgoing edges s) = Inr (i, r) \<and> visiting N edges (insert s D) i r"
proof -
  let ?f = "\<lambda>v. card (unvisited edges D v)" and ?ts = "outgoing edges s"
  from assms(1) have d: "degrees_of N ?f incoming" "D \<subseteq> N" "distinct (s # ready)" "set (s # ready) \<inter> D = {}"
    and z: "D \<union> set (s # ready) = {v \<in> N. unvisited edges D v = {}}" by (simp_all add: visiting_def)
  from assms(1) obtain rank :: "string \<Rightarrow> nat" where rank: "\<And>u v. [u, v] \<in> set edges \<Longrightarrow> v \<in> D \<Longrightarrow> rank u < rank v"
    by (auto simp: visiting_def)
  have l: "\<forall>e \<in> set edges. length e = 2" using assms(2) by (simp add: pairs_in_def)
  note out = outgoing_mem [OF l]
  have s: "s \<in> N" "unvisited edges D s = {}" "s \<notin> D" using z d(4) by auto
  have "inj_on (\<lambda>e. e ! 1) {e \<in> set edges. e ! 0 = s}"
    by (rule inj_onI) (use l pair_eq in \<open>metis (mono_tags, lifting) mem_Collect_eq\<close>)
  then have dt: "distinct ?ts" using assms(3) by (simp add: outgoing_def distinct_map)
  have sub: "set ?ts \<subseteq> N" using assms(2) out by (force simp: pairs_in_def)
  have su: "s \<in> unvisited edges D t \<longleftrightarrow> t \<in> set ?ts" for t using out s(3) by (simp add: unvisited_def)
  have pos: "\<forall>t \<in> set ?ts. 0 < ?f t"
    using su finite_unvisited by (metis card_gt_0_iff empty_iff)
  have "unvisited edges D v = {}" if "v \<in> set ready" for v using z that by auto
  then have zero: "\<forall>v \<in> set ready. ?f v = 0" by simp
  obtain i r where r: "foldR relax (incoming, ready) ?ts = Inr (i, r)"
    "degrees_of N (\<lambda>v. if v \<in> set ?ts then ?f v - 1 else ?f v) i" "distinct r" "set r = set ready \<union> {t \<in> set ?ts. ?f t = 1}"
    using relax_all [OF d(1) dt sub pos _ zero] d(3) by auto
  have un: "unvisited edges (insert s D) v = unvisited edges D v - {s}" for v by (auto simp: unvisited_def)
  have cd: "card (unvisited edges (insert s D) v) = (if v \<in> set ?ts then ?f v - 1 else ?f v)" for v
    using su [of v] by (simp add: un finite_unvisited)
  have e1: "unvisited edges (insert s D) v = {} \<longleftrightarrow> unvisited edges D v = {} \<or> v \<in> set ?ts \<and> ?f v = 1" for v
    using su [of v] unfolding un minus_one_empty [OF finite_unvisited] by blast
  have "insert s D \<union> set r = {v \<in> N. unvisited edges (insert s D) v = {}}"
    using z r(4) sub e1 by auto
  moreover have "set r \<inter> insert s D = {}"
  proof -
    have "t \<notin> insert s D" if "t \<in> set ?ts" for t using su [of t] that s(2) z by auto
    with r(4) d(3,4) show ?thesis by auto
  qed
  moreover have "\<exists>rank :: string \<Rightarrow> nat. \<forall>u v. [u, v] \<in> set edges \<longrightarrow> v \<in> insert s D \<longrightarrow> rank u < rank v"
  proof (intro exI allI impI)
    fix u v assume e: "[u, v] \<in> set edges" "v \<in> insert s D"
    have fin: "finite D" using d(2) assms(4) by (rule finite_subset)
    have pre: "u \<in> D" using e s(2) z by (auto simp: unvisited_def)
    then have u: "u \<noteq> s" using s(3) by auto
    show "(rank(s := Suc (sum rank D))) u < (rank(s := Suc (sum rank D))) v"
    proof (cases "v = s")
      case True
      then show ?thesis using u member_le_sum [OF pre, of rank] fin by simp
    qed (use e u rank in auto)
  qed
  ultimately have "visiting N edges (insert s D) i r"
    using r(2,3) s(1) d(2) by (simp add: visiting_def cd)
  with r(1) show ?thesis by blast
qed

lemma visit_all:
  assumes "visiting N edges D incoming ready" and "pairs_in N edges" and "distinct edges" and "finite N"
  shows "\<exists>M i. visit_ready edges incoming ready n = Inr (n + card (M - D)) \<and> D \<subseteq> M \<and> visiting N edges M i []"
  using assms
proof (induction edges incoming ready n arbitrary: D rule: visit_ready.induct)
  case (1 edges incoming n)
  then show ?case by (intro exI [of _ D] exI [of _ incoming]) simp
next
  case (2 edges incoming s ready n)
  from visit_one [OF 2(2-5)] obtain i r where r: "foldR relax (incoming, ready) (outgoing edges s) = Inr (i, r)"
    and v: "visiting N edges (insert s D) i r" by blast
  from 2(1) [OF r, of "insert s D"] v 2(3-5)
  have "\<exists>M j. visit_ready edges i r (n + 1) = Inr (n + 1 + card (M - insert s D)) \<and> insert s D \<subseteq> M \<and> visiting N edges M j []"
    by (simp only: fst_conv snd_conv)
  then obtain M j
    where M: "visit_ready edges i r (n + 1) = Inr (n + 1 + card (M - insert s D))" "insert s D \<subseteq> M" "visiting N edges M j []"
    by blast
  have "finite M" using visiting_subset [OF M(3)] 2(5) by (rule finite_subset)
  then have "card (insert s (M - insert s D)) = Suc (card (M - insert s D))" by (intro card_insert_disjoint) auto
  moreover have "s \<notin> D" using 2(2) by (simp add: visiting_def)
  then have "insert s (M - insert s D) = M - D" using M(2) by blast
  ultimately have "card (M - D) = Suc (card (M - insert s D))" by (simp only:)
  then have c: "n + 1 + card (M - insert s D) = n + card (M - D)" by arith
  have "visit_ready edges incoming (s # ready) n = Inr (n + card (M - D))"
    by (simp only: visit_ready.simps r bindR_simps fst_conv snd_conv M(1) c)
  moreover have "D \<subseteq> M" using M(2) by simp
  ultimately show ?case using M(3) by blast
qed

definition edge_relation :: "string list list \<Rightarrow> (string \<times> string) set" where
  "edge_relation edges = {(u, v). [u, v] \<in> set edges}"

lemma finite_edge_relation: "finite (edge_relation edges)"
proof -
  have "edge_relation edges \<subseteq> (\<lambda>e. (hd e, last e)) ` set edges" by (force simp: edge_relation_def image_iff)
  then show ?thesis by (rule finite_subset) simp
qed

text \<open>Where nothing is ready, everything is visited exactly if there is no cycle.\<close>

lemma all_visited_iff:
  assumes "visiting N edges M i []" and "pairs_in N edges"
  shows "M = N \<longleftrightarrow> acyclic (edge_relation edges)"
proof
  assume "M = N"
  with visiting_ranked [OF assms(1)] obtain rank :: "string \<Rightarrow> nat"
    where "\<And>u v. [u, v] \<in> set edges \<Longrightarrow> v \<in> N \<Longrightarrow> rank u < rank v" by blast
  moreover have "v \<in> N" if "[u, v] \<in> set edges" for u v using assms(2) that by (force simp: pairs_in_def)
  ultimately have "edge_relation edges \<subseteq> measure rank" by (auto simp: edge_relation_def)
  then show "acyclic (edge_relation edges)" using wf_measure wf_subset wf_acyclic by blast
next
  assume "acyclic (edge_relation edges)"
  then have w: "wf (edge_relation edges)" using finite_edge_relation by (rule finite_acyclic_wf [rotated])
  show "M = N"
  proof (rule ccontr)
    assume "M \<noteq> N"
    with visiting_subset [OF assms(1)] obtain x where "x \<in> N - M" by blast
    then obtain v where v: "v \<in> N - M" and least: "\<And>u. (u, v) \<in> edge_relation edges \<Longrightarrow> u \<notin> N - M"
      using wfE_min [OF w] by metis
    then have "unvisited edges M v = {}" using assms(2) by (force simp: unvisited_def edge_relation_def pairs_in_def)
    with v visiting_ready [OF assms(1), of v] show False by simp
  qed
qed

text \<open>C37: the check of graph edges succeeds exactly for lists of different edges between the given nodes that form no cycle,
  and so in whatever order the set of nodes is listed.\<close>
theorem graph_check_is_acyclicity:
  assumes "distinct nodes"
  shows "validate_graph_edges nodes edges = Inr () \<longleftrightarrow>
    (\<forall>e \<in> set edges. length e = 2 \<and> set e \<subseteq> set nodes) \<and> distinct edges \<and> acyclic {(u, v). [u, v] \<in> set edges}"
proof (cases "pairs_in (set nodes) edges")
  case False
  then show ?thesis by (auto simp: validate_graph_edges_def pairs_in_def list_all_iff)
next
  case True
  let ?N = "set nodes" and ?init = "map (\<lambda>node. (node, 0)) nodes"
  have p: "list_all (\<lambda>edge. length edge = 2 \<and> set edge \<subseteq> set nodes) edges" using True by (simp add: pairs_in_def list_all_iff)
  have init: "degrees_of ?N (in_degree []) ?init"
    unfolding degrees_of_def in_degree_def by (induction nodes) auto
  note entered = enter_edges [of ?N "[]" edges ?init, simplified, OF True init]
  show ?thesis
  proof (cases "distinct edges")
    case False
    with entered have "\<exists>e. foldR enter_edge ([], ?init) edges = Inl e" by (auto split: sum.splits)
    with p False show ?thesis by (auto simp: validate_graph_edges_def)
  next
    case d: True
    with entered obtain incoming where f: "foldR enter_edge ([], ?init) edges = Inr (edges, incoming)"
      and deg: "degrees_of ?N (in_degree edges) incoming" by (auto split: sum.splits)
    have cd: "in_degree edges v = card (unvisited edges {} v)" for v
    proof -
      have "in_degree edges v = card {e \<in> set edges. e ! 1 = v}"
        using d by (metis in_degree_def distinct_card distinct_filter set_filter)
      also have "{e \<in> set edges. e ! 1 = v} = (\<lambda>u. [u, v]) ` unvisited edges {} v"
        using True pair_eq by (force simp: pairs_in_def unvisited_def image_iff)
      also have "card \<dots> = card (unvisited edges {} v)" by (rule card_image) (simp add: inj_on_def)
      finally show ?thesis .
    qed
    have keys: "map fst incoming = nodes" using entered f by (simp add: comp_def)
    have "set (ready_nodes incoming) = {v. map_of incoming v = Some 0}"
      using keys assms by (force simp: ready_nodes_def intro: map_of_SomeD)
    moreover have "distinct (ready_nodes incoming)"
      using keys assms by (simp add: ready_nodes_def distinct_map_filter)
    moreover have "card (unvisited edges {} v) = 0 \<longleftrightarrow> unvisited edges {} v = {}" for v using finite_unvisited by simp
    ultimately have v: "visiting ?N edges {} incoming (ready_nodes incoming)"
      using deg by (auto simp: visiting_def degrees_of_def cd)
    from visit_all [OF this True d finite_set, of 0] obtain M j where
      M: "visit_ready edges incoming (ready_nodes incoming) 0 = Inr (card M)" "visiting ?N edges M j []" by auto
    have "validate_graph_edges nodes edges = assertR (card M = length nodes)"
      using p f M(1) by (simp add: validate_graph_edges_def)
    moreover have "M \<subseteq> ?N" by (rule visiting_subset [OF M(2)])
    then have "card M = length nodes \<longleftrightarrow> M = ?N" using assms by (metis card_subset_eq distinct_card finite_set)
    moreover note all_visited_iff [OF M(2) True]
    ultimately show ?thesis using True d by (simp add: edge_relation_def pairs_in_def)
  qed
qed

theorem graph_check_is_acyclicity_witness:
  "validate_graph_edges [''a'', ''b''] [[''a'', ''b'']] = Inr () \<longleftrightarrow>
    (\<forall>e \<in> set [[''a'', ''b'']]. length e = 2 \<and> set e \<subseteq> set [''a'', ''b'']) \<and> distinct [[''a'', ''b'']] \<and>
    acyclic {(u, v). [u, v] \<in> set [[''a'', ''b'']]}"
  by (rule graph_check_is_acyclicity) simp

end
