(* ===== verification/Release_Vectors.thy ===== *)
theory Release_Vectors
  imports Coherence Graph_Partition
begin

text \<open>
  \<open>validate_clock_vectors\<close> of \<^verbatim>\<open>src/moj_discovery/governance.py\<close>: the sealed vectors of clocks and coherence,
  checked by formulas and a release predicate of its own. Reading the file is outside; \<open>ceil_million\<close> is
  \<^verbatim>\<open>math.ceil(n / 1_000_000)\<close>, which divides in floating point.
\<close>

section \<open>The release predicate of the vectors\<close>

definition RELEASE_PREDICATES :: "(string \<times> json \<times> string) list" where
  "RELEASE_PREDICATES =
     [(''football_state'', JStr ''FRESH'', ''E_FOOTBALL_STATE_NOT_FRESH''),
      (''operator_state'', JStr ''FRESH'', ''E_OPERATOR_STATE_NOT_FRESH''),
      (''market_book'', JStr ''FRESH_COMPLETE_OPEN'', ''E_MARKET_BOOK_NOT_COMPLETE_OPEN''),
      (''conservative_lower_bounds_strictly_after_shock_upper'', JBool True, ''E_NOT_STRICTLY_POST_SHOCK''),
      (''proof_bound_mappings_open_unclosed_valid_at_release'', JBool True, ''E_MAPPING_CLOSED''),
      (''identities_orientation_generations_agree'', JBool True, ''E_IDENTITY_OR_GENERATION_MISMATCH''),
      (''cursor_ranges_contiguous'', JBool True, ''E_CURSOR_NOT_CONTIGUOUS'')]"

definition ATTEMPTS :: "(string \<times> string \<times> string) list" where
  "ATTEMPTS =
     [(''REOPEN_CLOSED_PREDECESSOR_EPOCH'', ''CLOSED_FOREVER'', ''E_PREDECESSOR_EPOCH_IMMUTABLE''),
      (''NEW_EPOCH_PENDING_TO_NEW_EPOCH_OPEN_WITH_CANDIDATE_NOT_CREATED'', ''NEW_EPOCH_PENDING'', ''E_RELEASE_BINDING''),
      (''CONTROLLER_RELEASE_RETAINS_PREDECESSOR_AS_CURRENT_EPOCH'', ''NEW_EPOCH_PENDING'', ''E_INVALID_COHERENCE_TRANSITION''),
      (''CREATE_NON_GENESIS_EPOCH_WITH_PREDECESSOR_PERMANENTLY_CLOSED_FALSE'', ''WAITING_FOR_RESNAPSHOT'',
       ''E_NON_GENESIS_PREDECESSOR_NOT_CLOSED''),
      (''RELEASE_WITH_OBSERVED_PROOF_NOT_BOUND_TO_CANDIDATE_FRESHNESS_SHOCK_MAPPINGS_AND_CONTINUITY'', ''NEW_EPOCH_PENDING'',
       ''E_RELEASE_BINDING'')]"

text \<open>\<^verbatim>\<open>if d[k] is not True: return r\<close>, and the loop over the predicates.\<close>

definition unless_true :: "obj \<Rightarrow> string \<Rightarrow> 'a \<Rightarrow> 'a res \<Rightarrow> 'a res" where
  "unless_true d k r rest = bindR (ditem d k) (\<lambda>v. if is_true v then rest else Inr r)"

fun first_violated :: "obj \<Rightarrow> (string \<times> json \<times> string) list \<Rightarrow> string option res" where
  "first_violated d [] = Inr None"
| "first_violated d ((field, required, error) # predicates) =
     bindR (ditem d field) (\<lambda>v. if py_eq v required then first_violated d predicates else Inr (Some error))"

definition release_blockers :: "obj \<Rightarrow> (string \<times> string) res" where
  "release_blockers d =
     bindR (ditem d ''gap_conflict_schema_lifecycle_mapping_or_later_shock_absent'') (\<lambda>clear.
     if \<not> is_true clear then
       Inr (if str_is (dget d ''blocker'') ''LATER_OR_INTERSECTING_SHOCK''
            then (''WAITING_FOR_RESNAPSHOT'', ''E_CANDIDATE_CLOSED_BY_NEW_SHOCK'')
            else (''NEW_EPOCH_PENDING'', ''E_RELEASE_BLOCKED''))
     else
       unless_true d ''score_period_suspension_and_shock_fields_agree'' (''NEW_EPOCH_PENDING'', ''E_STATE_FIELDS_DISAGREE'')
       (unless_true d ''freshness_bindings_valid_at_release'' (''NEW_EPOCH_PENDING'', ''E_RELEASE_BINDING'')
       (unless_true d ''continuity_bindings_valid_at_release'' (''NEW_EPOCH_PENDING'', ''E_RELEASE_BINDING'')
         (Inr (''NEW_EPOCH_OPEN'', ''ACCEPT'')))))"

definition attempt_result :: "obj \<Rightarrow> (string \<times> string) option" where
  "attempt_result d = (case dget d ''attempt'' of JStr a \<Rightarrow> map_of ATTEMPTS a | _ \<Rightarrow> None)"

definition release_result :: "obj \<Rightarrow> (string \<times> string) res" where
  "release_result d = (case attempt_result d of
      Some r \<Rightarrow> Inr r
    | None \<Rightarrow>
        unless_true d ''predecessor_closed'' (''WAITING_FOR_RESNAPSHOT'', ''E_PREDECESSOR_NOT_CLOSED'')
        (unless_true d ''signed_accepted_capability_evidence'' (''WAITING_FOR_RESNAPSHOT'', ''E_CAPABILITY_EVIDENCE_NOT_ACCEPTED'')
        (bindR (ditem d ''proof_status'') (\<lambda>status.
           if str_is status ''NOT_OBSERVED'' then Inr (''WAITING_FOR_RESNAPSHOT'', ''E_RESNAPSHOT_NOT_OBSERVED'')
           else if \<not> str_is status ''OBSERVED'' then Inr (''WAITING_FOR_RESNAPSHOT'', ''E_RESNAPSHOT_UNKNOWN'')
           else bindR (first_violated d RELEASE_PREDICATES) (\<lambda>violated. case violated of
               Some error \<Rightarrow> Inr (''NEW_EPOCH_PENDING'', error)
             | None \<Rightarrow> release_blockers d)))))"

section \<open>The vectors\<close>

text \<open>Numbers, and items of items. A boolean counts as a number.\<close>

definition number_item :: "obj \<Rightarrow> string \<Rightarrow> int res" where
  "number_item d k = bindR (ditem d k) (\<lambda>v. case py_num v of None \<Rightarrow> Inl TypeError | Some i \<Rightarrow> Inr i)"

definition dict_item :: "obj \<Rightarrow> string \<Rightarrow> obj res" where
  "dict_item d k = bindR (ditem d k) (\<lambda>v. case v of JObj e \<Rightarrow> Inr e | _ \<Rightarrow> Inl TypeError)"

text \<open>The elements of a list that are indexed by names: anything but a dict raises.\<close>

definition rows_item :: "obj \<Rightarrow> string \<Rightarrow> obj list res" where
  "rows_item d k = bindR (bindR (ditem d k) iter_values) (mapR (\<lambda>v. case v of JObj e \<Rightarrow> Inr e | _ \<Rightarrow> Inl TypeError))"

definition FOUR_TIMESTAMP_CONTRACT :: obj where
  "FOUR_TIMESTAMP_CONTRACT =
     [(''t1'', JStr ''SOURCE_IMMEDIATELY_BEFORE_PING''), (''t2'', JStr ''TARGET_IMMEDIATELY_AFTER_AUTHENTICATED_RECEIPT''),
      (''t3'', JStr ''TARGET_IMMEDIATELY_BEFORE_PONG''), (''t4'', JStr ''SOURCE_IMMEDIATELY_AFTER_AUTHENTICATED_VALIDATION''),
      (''offset_sign'', JStr ''THETA_EQUALS_TARGET_CLOCK_MINUS_SOURCE_CLOCK''), (''raw_lower'', JStr ''t3-t4''),
      (''raw_upper'', JStr ''t2-t1''), (''network_rtt'', JStr ''(t4-t1)-(t3-t2)''),
      (''padding'', JStr ''source_resolution+target_resolution''), (''offset_lower'', JStr ''raw_lower-padding''),
      (''offset_upper'', JStr ''raw_upper+padding''), (''offset_midpoint'', JStr ''(offset_lower+offset_upper)/2''),
      (''base_uncertainty'', JStr ''(offset_upper-offset_lower)/2''),
      (''drift_us'', JStr ''ceil(relative_drift_ppm*abs(x-source_anchor_us)/1000000)'')]"

definition CLOCK_GUARDRAILS :: obj where
  "CLOCK_GUARDRAILS =
     [(''sample_period_us'', JInt 1000000), (''sample_window_count'', JInt 32), (''minimum_valid_samples'', JInt 8),
      (''max_network_rtt_us'', JInt 250000), (''max_base_uncertainty_us'', JInt 125000), (''relative_drift_ppm'', JInt 100),
      (''max_mapping_segment_age_us'', JInt 30000000), (''wall_step_tolerance_us'', JInt 1000000)]"

definition golden_expectation :: "obj \<Rightarrow> obj res" where
  "golden_expectation m =
     bindR (number_item m ''t3'') (\<lambda>t3. bindR (number_item m ''t4'') (\<lambda>t4.
     bindR (number_item m ''t2'') (\<lambda>t2. bindR (number_item m ''t1'') (\<lambda>t1.
     bindR (bindR (dict_item m ''source'') (\<lambda>s. number_item s ''resolution_us'')) (\<lambda>a.
     bindR (bindR (dict_item m ''target'') (\<lambda>s. number_item s ''resolution_us'')) (\<lambda>b.
     (let raw_lower = t3 - t4; raw_upper = t2 - t1; rtt = (t4 - t1) - (t3 - t2); padding = a + b;
          lower = raw_lower - padding; upper = raw_upper + padding in
      Inr [(''raw_lower_us'', JInt raw_lower), (''raw_upper_us'', JInt raw_upper), (''network_rtt_us'', JInt rtt),
           (''padding_us'', JInt padding), (''offset_interval_us'', JArr [JInt lower, JInt upper]),
           (''offset_midpoint_us'', JInt (lower + (upper - lower) div 2)),
           (''base_uncertainty_us'', JInt ((upper - lower) div 2)), (''accepted'', JBool True)])))))))"

definition check_golden_mapping :: "obj \<Rightarrow> unit res" where
  "check_golden_mapping vectors =
     bindR (dict_item vectors ''golden_mapping'') (\<lambda>m.
     bindR (ditem m ''expected'') (\<lambda>expected.
     bindR (golden_expectation m) (\<lambda>e. assertR (py_eq expected (JObj e)))))"

definition check_state_machine :: "obj \<Rightarrow> unit res" where
  "check_state_machine vectors =
     bindR (dict_item vectors ''coherence_state_machine'') (\<lambda>m.
     bindR (assert_entry m ''states'' (strings_json [''OPEN'', ''SHOCKED_CLOSED'', ''WAITING_FOR_RESNAPSHOT'', ''NEW_EPOCH_PENDING'',
       ''NEW_EPOCH_OPEN''])) (\<lambda>_.
     bindR (assert_entry m ''required_path'' (strings_json [''OPEN->SHOCKED_CLOSED'', ''SHOCKED_CLOSED->WAITING_FOR_RESNAPSHOT'',
       ''WAITING_FOR_RESNAPSHOT->NEW_EPOCH_PENDING'', ''NEW_EPOCH_PENDING->NEW_EPOCH_OPEN''])) (\<lambda>_.
       assert_entry m ''pending_shock_path'' (JStr ''NEW_EPOCH_PENDING->WAITING_FOR_RESNAPSHOT''))))"

text \<open>The first ten closures; a slice of anything but a list (or a text) raises.\<close>

definition first_ten :: "json \<Rightarrow> json list res" where
  "first_ten v = (case v of JArr xs \<Rightarrow> Inr (take 10 xs) | JStr s \<Rightarrow> Inr (map (\<lambda>c. JStr [c]) (take 10 s)) | _ \<Rightarrow> Inl TypeError)"

definition check_closures :: "obj \<Rightarrow> unit res" where
  "check_closures vectors =
     bindR (bindR (ditem vectors ''closure_vectors'') first_ten) (\<lambda>rows.
     bindR (allR (\<lambda>v. bindR (jitem v ''permanent'') (\<lambda>p. Inr (truthy p))) rows) (\<lambda>permanent.
     bindR (assertR permanent) (\<lambda>_.
     bindR (allR (\<lambda>v. bindR (jitem v ''reopen_attempt_error'') (\<lambda>e. Inr (str_is e ''E_MAPPING_PERMANENTLY_CLOSED''))) rows) (\<lambda>ok.
       assertR ok))))"

definition check_drift :: "(int \<Rightarrow> int) \<Rightarrow> obj \<Rightarrow> unit res" where
  "check_drift ceil_million v =
     bindR (number_item v ''relative_drift_ppm'') (\<lambda>ppm.
     bindR (number_item v ''x'') (\<lambda>x.
     bindR (number_item v ''source_anchor_us'') (\<lambda>anchor.
     bindR (ditem v ''expected_drift_us'') (\<lambda>expected.
       assertR (py_eq (JInt (ceil_million (ppm * \<bar>x - anchor\<bar>))) expected)))))"

text \<open>\<open>min\<close> by width, latest start and identifier; widths and identifiers that are not numbers and texts raise here, in the
  source only where two candidates are compared by them.\<close>

definition selection_key :: "obj \<Rightarrow> (int \<times> int \<times> string) res" where
  "selection_key d =
     bindR (number_item d ''width_us'') (\<lambda>width.
     bindR (number_item d ''valid_from_us'') (\<lambda>start.
     bindR (ditem d ''mapping_id'') (\<lambda>v. case v of JStr i \<Rightarrow> Inr (width, - start, i) | _ \<Rightarrow> Inl TypeError)))"

definition check_selection :: "obj \<Rightarrow> unit res" where
  "check_selection v =
     bindR (rows_item v ''candidates'') (\<lambda>candidates.
     bindR (mapR selection_key candidates) (\<lambda>keys.
     bindR (raise_if (keys = []) (ValueError ''min() iterable argument is empty'')) (\<lambda>_.
     bindR (ditem v ''expected_mapping_id'') (\<lambda>expected.
       assertR (py_eq (JStr (snd (snd (arg_min_list id keys)))) expected)))))"

text \<open>\<^verbatim>\<open>{v["id"] for v in rows} == {\<dots>}\<close>.\<close>

definition ids_are :: "obj list \<Rightarrow> string list \<Rightarrow> bool res" where
  "ids_are rows expected =
     bindR (mapR (\<lambda>v. bindR (ditem v ''id'') (\<lambda>i. in_strs i expected)) rows) (\<lambda>known.
     bindR (mapR (\<lambda>v. ditem v ''id'') rows) (\<lambda>ids.
       Inr (list_all id known \<and> list_all (\<lambda>k. JStr k \<in> set ids) expected)))"

definition check_candidate_vectors :: "obj list \<Rightarrow> unit res" where
  "check_candidate_vectors rows =
     bindR (ids_are rows [''CANDIDATE-NEG-01-JSON-UNKNOWN'', ''CANDIDATE-NEG-02-SQL-UNKNOWN'', ''CANDIDATE-NEG-03-NOT-OBSERVED'',
       ''CANDIDATE-NEG-04-UNSIGNED-UNVERIFIED'']) (\<lambda>ok.
     bindR (assertR ok) (\<lambda>_.
     bindR (allR (\<lambda>v. bindR (ditem v ''expected_state'') (\<lambda>s. Inr (str_is s ''WAITING_FOR_RESNAPSHOT''))) rows) (\<lambda>waiting.
       assertR waiting)))"

definition check_positive :: "obj \<Rightarrow> unit res" where
  "check_positive positive =
     foldR (\<lambda>_ k. bindR (ditem positive k) (\<lambda>v. assertR (is_true v))) ()
       [''proof_bound_mappings_open_unclosed_valid_at_release'', ''freshness_bindings_valid_at_release'',
        ''continuity_bindings_valid_at_release'']"

text \<open>\<open>next(\<dots>)\<close> of an exhausted generator raises; \<open>IndexError\<close> stands for its \<open>StopIteration\<close>.\<close>

fun next_with_id :: "string \<Rightarrow> obj list \<Rightarrow> obj res" where
  "next_with_id k [] = Inl IndexError"
| "next_with_id k (v # rows) = bindR (ditem v ''id'') (\<lambda>i. if str_is i k then Inr v else next_with_id k rows)"

text \<open>A negative vector: the positive one with the failed predicate and the named fields replaced.\<close>

definition failed_candidate :: "obj \<Rightarrow> obj \<Rightarrow> obj res" where
  "failed_candidate positive v = (case dget v ''failed_predicate'' of
      JStr failed \<Rightarrow>
        if dhas v ''value'' then Inr (dput failed (dget v ''value'') positive)
        else if failed = ''proof_status'' then bindR (ditem v ''proof_status'') (\<lambda>s. Inr (dput failed s positive))
        else Inr (dput failed (JBool False) positive)
    | _ \<Rightarrow> Inr positive)"

definition override_fields :: "obj \<Rightarrow> obj \<Rightarrow> obj" where
  "override_fields v candidate =
     foldl (\<lambda>c k. if dhas v k then dput k (dget v k) c else c) candidate [''proof_status'', ''blocker'', ''attempt'']"

definition check_release_negative :: "obj \<Rightarrow> obj \<Rightarrow> unit res" where
  "check_release_negative positive v =
     bindR (failed_candidate positive v) (\<lambda>candidate.
     bindR (release_result (override_fields v candidate)) (\<lambda>(state, error).
     bindR (ditem v ''expected_state'') (\<lambda>s.
     bindR (assertR (py_eq (JStr state) s)) (\<lambda>_.
     bindR (ditem v ''expected_error'') (\<lambda>e. assertR (py_eq (JStr error) e))))))"

text \<open>Whether a negative candidate would be accepted; \<open>and\<close> stops at the first false part.\<close>

definition candidate_accepted :: "obj \<Rightarrow> bool res" where
  "candidate_accepted v =
     andR (Inr (str_is (dget_or v ''proof_status_at_transition'' (dget v ''proof_status'')) ''OBSERVED''))
     (andR (bindR (ditem v ''proof_verified'') (\<lambda>p. Inr (is_true p)))
     (andR (bindR (ditem v ''release_predicate'') (\<lambda>r. Inr (str_is r ''SATISFIED'')))
       (Inr (list_all (\<lambda>k. is_true (dget v k)) [''freshness_binding_verified'', ''shock_binding_verified'',
          ''mapping_bindings_verified'', ''continuity_bindings_verified'']))))"

definition check_candidate_negative :: "obj \<Rightarrow> unit res" where
  "check_candidate_negative v =
     bindR (candidate_accepted v) (\<lambda>accepted.
     bindR (assertR (\<not> accepted)) (\<lambda>_. assert_entry v ''expected_state'' (JStr ''WAITING_FOR_RESNAPSHOT'')))"

definition ALLOWED_TRANSITIONS :: "((string \<times> string) \<times> string) list" where
  "ALLOWED_TRANSITIONS =
     [((''OPEN'', ''SHOCK''), ''SHOCKED_CLOSED''), ((''SHOCKED_CLOSED'', ''BEGIN_RESNAPSHOT''), ''WAITING_FOR_RESNAPSHOT''),
      ((''WAITING_FOR_RESNAPSHOT'', ''ACCEPT_CANDIDATE''), ''NEW_EPOCH_PENDING''),
      ((''NEW_EPOCH_PENDING'', ''RELEASE''), ''NEW_EPOCH_OPEN''), ((''NEW_EPOCH_PENDING'', ''SHOCK''), ''WAITING_FOR_RESNAPSHOT'')]"

fun follow_events :: "string \<Rightarrow> string list \<Rightarrow> string res" where
  "follow_events state [] = Inr state"
| "follow_events state (event # events) = (case map_of ALLOWED_TRANSITIONS (state, event) of
      None \<Rightarrow> Inl (KeyError event)
    | Some t \<Rightarrow> follow_events t events)"

definition check_transitions :: "unit res" where
  "check_transitions =
     bindR (follow_events ''OPEN'' [''SHOCK'', ''BEGIN_RESNAPSHOT'', ''ACCEPT_CANDIDATE'', ''RELEASE'']) (\<lambda>state.
       assertR (state = ''NEW_EPOCH_OPEN'' \<and> map_of ALLOWED_TRANSITIONS (''SHOCKED_CLOSED'', ''REOPEN'') = None \<and>
         map_of ALLOWED_TRANSITIONS (''NEW_EPOCH_OPEN'', ''REOPEN_PREDECESSOR'') = None))"

definition validate_clock_vectors :: "(int \<Rightarrow> int) \<Rightarrow> obj \<Rightarrow> unit res" where
  "validate_clock_vectors ceil_million vectors =
     bindR (assert_entry vectors ''four_timestamp_contract'' (JObj FOUR_TIMESTAMP_CONTRACT)) (\<lambda>_.
     bindR (check_golden_mapping vectors) (\<lambda>_.
     bindR (assert_entry vectors ''guardrails'' (JObj CLOCK_GUARDRAILS)) (\<lambda>_.
     bindR (check_state_machine vectors) (\<lambda>_.
     bindR (check_closures vectors) (\<lambda>_.
     bindR (bindR (rows_item vectors ''drift_vectors'') (foldR (\<lambda>_. check_drift ceil_million) ())) (\<lambda>_.
     bindR (bindR (rows_item vectors ''mapping_selection_vectors'') (foldR (\<lambda>_. check_selection) ())) (\<lambda>_.
     bindR (rows_item vectors ''candidate_acceptance_negative_vectors'') (\<lambda>candidates.
     bindR (check_candidate_vectors candidates) (\<lambda>_.
     bindR (dict_item vectors ''release_positive_vector'') (\<lambda>positive.
     bindR (check_positive positive) (\<lambda>_.
     bindR (assert_entry positive ''expected_transition'' (JStr ''NEW_EPOCH_PENDING->NEW_EPOCH_OPEN'')) (\<lambda>_.
     bindR (rows_item vectors ''release_negative_vectors'') (\<lambda>negatives.
     bindR (assertR (length negatives = 19)) (\<lambda>_.
     bindR (next_with_id ''RELEASE-NEG-09-MAPPING-CLOSED'' negatives) (\<lambda>mapping_closed.
     bindR (assert_entry mapping_closed ''expected_state'' (JStr ''NEW_EPOCH_PENDING'')) (\<lambda>_.
     bindR (assert_entry mapping_closed ''expected_sql_error'' (JStr ''E_RELEASE_BINDING'')) (\<lambda>_.
     bindR check_transitions (\<lambda>_.
     bindR (release_result positive) (\<lambda>r.
     bindR (assertR (r = (''NEW_EPOCH_OPEN'', ''ACCEPT''))) (\<lambda>_.
     bindR (foldR (\<lambda>_. check_release_negative positive) () negatives) (\<lambda>_.
       foldR (\<lambda>_. check_candidate_negative) () candidates)))))))))))))))))))))"

section \<open>Agreement with the controller\<close>

text \<open>
  The release predicate that checks the sealed vectors and the one of the coherence controller agree on every candidate
  whose identities the controller accepts.
\<close>

text \<open>What the controller requires beyond the vectors: a pending controller, a created candidate that is distinct from its
  permanently closed predecessor, and a verified proof of a full snapshot.\<close>

definition bound_candidate :: "obj \<Rightarrow> bool" where
  "bound_candidate v \<longleftrightarrow>
     \<not> is_true (dget v ''predecessor_reopen_requested'') \<and> str_is (dget v ''controller_state'') ''NEW_EPOCH_PENDING'' \<and>
     is_true (dget v ''candidate_created'') \<and> valid_artifact_id (dget v ''predecessor_epoch_id'') \<and>
     valid_artifact_id (dget v ''candidate_epoch_id'') \<and> \<not> py_eq (dget v ''candidate_epoch_id'') (dget v ''predecessor_epoch_id'') \<and>
     is_true (dget v ''predecessor_permanently_closed'') \<and> is_true (dget v ''proof_verified'') \<and>
     str_is (dget v ''snapshot_semantics'') ''FULL_AUTHORITATIVE_SNAPSHOT'' \<and> is_true (dget v ''mappings_valid'') \<and>
     is_true (dget v ''proof_bindings_valid'')"

definition VECTOR_FLAGS :: "string list" where
  "VECTOR_FLAGS = [''predecessor_closed'', ''signed_accepted_capability_evidence'',
     ''conservative_lower_bounds_strictly_after_shock_upper'', ''proof_bound_mappings_open_unclosed_valid_at_release'',
     ''identities_orientation_generations_agree'', ''cursor_ranges_contiguous'',
     ''gap_conflict_schema_lifecycle_mapping_or_later_shock_absent'', ''score_period_suspension_and_shock_fields_agree'',
     ''freshness_bindings_valid_at_release'', ''continuity_bindings_valid_at_release'']"

text \<open>All fields of the vectors are there, the flags as booleans, and no attempt of another kind is described.\<close>

definition complete_vector :: "obj \<Rightarrow> bool" where
  "complete_vector v \<longleftrightarrow>
     list_all (\<lambda>k. is_bool (dget v k)) VECTOR_FLAGS \<and>
     list_all (dhas v) [''proof_status'', ''football_state'', ''operator_state'', ''market_book''] \<and> dget v ''attempt'' = JNull"

lemma flag_item: "is_bool (dget v k) \<Longrightarrow> ditem v k = Inr (dget v k)"
  by (auto simp: dget_def ditem_def split: option.splits)

lemma present_item: "dhas v k \<Longrightarrow> ditem v k = Inr (dget v k)"
  by (auto simp: dget_def ditem_def dhas_def split: option.splits)

lemma flag_true: "is_bool w \<Longrightarrow> py_eq w (JBool True) \<longleftrightarrow> w = JBool True"
  by (cases w) auto

lemma rejected_items [simp]:
  "the_str (dget (rejected error state) ''state'') = state" "the_str (dget (rejected error state) ''error'') = error"
  by (simp_all add: rejected_def)

lemma first_violated_checks:
  assumes "complete_vector v" and "is_true (dget v ''mappings_valid'')"
  shows "first_violated v RELEASE_PREDICATES = Inr (first_failed (release_checks v))"
proof -
  note c = assms(1) [unfolded complete_vector_def VECTOR_FLAGS_def list.pred_inject]
  show ?thesis
    unfolding RELEASE_PREDICATES_def release_checks_def
    by (simp add: c assms(2) flag_item present_item flag_true py_eq_str del: py_eq.simps)
qed

lemma release_blockers_agree:
  assumes "complete_vector v" and "is_true (dget v ''proof_bindings_valid'')"
  shows "release_blockers v =
    Inr (if \<not> is_true (dget v ''gap_conflict_schema_lifecycle_mapping_or_later_shock_absent'')
         then (if str_is (dget v ''blocker'') ''LATER_OR_INTERSECTING_SHOCK''
               then (''WAITING_FOR_RESNAPSHOT'', ''E_CANDIDATE_CLOSED_BY_NEW_SHOCK'')
               else (''NEW_EPOCH_PENDING'', ''E_RELEASE_BLOCKED''))
         else if \<not> is_true (dget v ''score_period_suspension_and_shock_fields_agree'')
         then (''NEW_EPOCH_PENDING'', ''E_STATE_FIELDS_DISAGREE'')
         else if \<not> is_true (dget v ''freshness_bindings_valid_at_release'') \<or>
                 \<not> is_true (dget v ''continuity_bindings_valid_at_release'') \<or> \<not> is_true (dget v ''proof_bindings_valid'')
         then (''NEW_EPOCH_PENDING'', ''E_RELEASE_BINDING'')
         else (''NEW_EPOCH_OPEN'', ''ACCEPT''))"
proof -
  note c = assms(1) [unfolded complete_vector_def VECTOR_FLAGS_def list.pred_inject]
  show ?thesis unfolding release_blockers_def unless_true_def by (simp add: c assms(2) flag_item)
qed

text \<open>C39: the release predicate of the sealed vectors and that of the coherence controller give the same state and the same error
  for every candidate that is bound for the controller and complete for the vectors: the vectors test the controller's decision.\<close>
theorem vector_release_agrees_with_controller:
  assumes "bound_candidate v" and "complete_vector v"
  shows "release_result v =
    Inr (the_str (dget (evaluate_release v) ''state''), the_str (dget (evaluate_release v) ''error''))"
proof -
  note b = assms(1) [unfolded bound_candidate_def]
  note c = assms(2) [unfolded complete_vector_def VECTOR_FLAGS_def list.pred_inject]
  have m: "first_violated v RELEASE_PREDICATES = Inr (first_failed (release_checks v))"
    using first_violated_checks [OF assms(2)] b by simp
  have r: "release_blockers v = Inr (if \<not> is_true (dget v ''gap_conflict_schema_lifecycle_mapping_or_later_shock_absent'')
         then (if str_is (dget v ''blocker'') ''LATER_OR_INTERSECTING_SHOCK''
               then (''WAITING_FOR_RESNAPSHOT'', ''E_CANDIDATE_CLOSED_BY_NEW_SHOCK'')
               else (''NEW_EPOCH_PENDING'', ''E_RELEASE_BLOCKED''))
         else if \<not> is_true (dget v ''score_period_suspension_and_shock_fields_agree'')
         then (''NEW_EPOCH_PENDING'', ''E_STATE_FIELDS_DISAGREE'')
         else if \<not> is_true (dget v ''freshness_bindings_valid_at_release'') \<or>
                 \<not> is_true (dget v ''continuity_bindings_valid_at_release'') \<or> \<not> is_true (dget v ''proof_bindings_valid'')
         then (''NEW_EPOCH_PENDING'', ''E_RELEASE_BINDING'')
         else (''NEW_EPOCH_OPEN'', ''ACCEPT''))"
    using release_blockers_agree [OF assms(2)] b by simp
  have "attempt_result v = None" using c by (simp add: attempt_result_def)
  then show ?thesis
    unfolding release_result_def unless_true_def evaluate_release_def Let_def m r
    by (simp add: b c flag_item present_item split: option.split) blast
qed

definition demo_release :: obj where
  "demo_release = [(''controller_state'', JStr ''NEW_EPOCH_PENDING''), (''candidate_created'', JBool True),
     (''predecessor_epoch_id'', JStr (''EPOCH:'' @ replicate 64 CHR ''0'')), (''candidate_epoch_id'', JStr (''EPOCH:'' @ replicate 64 CHR ''1'')),
     (''predecessor_permanently_closed'', JBool True), (''proof_verified'', JBool True),
     (''snapshot_semantics'', JStr ''FULL_AUTHORITATIVE_SNAPSHOT''), (''mappings_valid'', JBool True),
     (''proof_bindings_valid'', JBool True), (''proof_status'', JStr ''OBSERVED''), (''football_state'', JStr ''FRESH''),
     (''operator_state'', JStr ''STALE''), (''market_book'', JStr ''FRESH_COMPLETE_OPEN'')] @
     map (\<lambda>k. (k, JBool True)) VECTOR_FLAGS"

theorem vector_release_agrees_with_controller_witness:
  "release_result demo_release =
    Inr (the_str (dget (evaluate_release demo_release) ''state''), the_str (dget (evaluate_release demo_release) ''error'')) \<and>
   release_result demo_release = Inr (''NEW_EPOCH_PENDING'', ''E_OPERATOR_STATE_NOT_FRESH'')"
proof
  have "bound_candidate demo_release" by code_simp
  moreover have "complete_vector demo_release" by code_simp
  ultimately show "release_result demo_release =
    Inr (the_str (dget (evaluate_release demo_release) ''state''), the_str (dget (evaluate_release demo_release) ''error''))"
    by (rule vector_release_agrees_with_controller)
  show "release_result demo_release = Inr (''NEW_EPOCH_PENDING'', ''E_OPERATOR_STATE_NOT_FRESH'')" by code_simp
qed

end
