(* ===== verification/Governance_Contracts.thy ===== *)
theory Governance_Contracts
  imports Governance_Registry Release_Vectors Base64
begin

text \<open>
  The closed contracts of \<^verbatim>\<open>src/moj_discovery/governance.py\<close>: the capability manifest, the trust root, the crash
  vectors, the closure of the schemas, and the symbols that no source may define.
\<close>

section \<open>Forbidden symbols\<close>

text \<open>Letters and digits of the case-folded name. Below code point 256 only the sharp s folds to letters of its own.\<close>

definition normalized_char :: "char \<Rightarrow> string" where
  "normalized_char c = (let n = (of_char c :: nat) in
     if (48 \<le> n \<and> n \<le> 57) \<or> (97 \<le> n \<and> n \<le> 122) then [c]
     else if 65 \<le> n \<and> n \<le> 90 then [char_of (n + 32)] else if n = 223 then ''ss'' else [])"

definition custody_symbol_forbidden :: "string \<Rightarrow> bool" where
  "custody_symbol_forbidden name = (let normalized = concat (map normalized_char name) in
     list_ex (\<lambda>w. is_substring w normalized)
       [''automaticbackup'', ''automaticarchive'', ''compact'', ''rollingdelet'', ''automaticcleanup''] \<or>
     (is_substring ''retention'' normalized \<and> is_substring ''daemon'' normalized) \<or> starts_with normalized ''restore'' \<or>
     (is_substring ''delete'' normalized \<and> is_substring ''ack'' normalized))"

text \<open>The source files below the three roots, each with the symbols that its syntax tree or its text has.\<close>

definition validate_runtime_custody_prohibitions :: "(string \<times> string list) list \<Rightarrow> unit res" where
  "validate_runtime_custody_prohibitions files =
     foldR (\<lambda>_ (path, symbols). assertR (\<not> list_ex custody_symbol_forbidden symbols)) () files"

section \<open>Capabilities\<close>

definition strings_list :: "obj \<Rightarrow> string \<Rightarrow> string list \<Rightarrow> unit res" where
  "strings_list d k ss = assert_entry d k (strings_json ss)"

definition check_chrome :: "obj \<Rightarrow> unit res" where
  "check_chrome chrome =
     bindR (assert_entry chrome ''manifest_version'' (JInt 3)) (\<lambda>_.
     bindR (assert_text chrome ''minimum_chrome_version'' ''116'') (\<lambda>_.
     bindR (strings_list chrome ''permissions'' [''activeTab'', ''debugger'', ''scripting'', ''unlimitedStorage'', ''webNavigation'']) (\<lambda>_.
     bindR (foldR (\<lambda>_ k. strings_list chrome k []) () [''optional_permissions'', ''host_permissions'', ''optional_host_permissions'',
       ''content_scripts'', ''web_accessible_resources'']) (\<lambda>_.
       assertR (\<not> dhas chrome ''externally_connectable'')))))"

definition check_commands :: "obj \<Rightarrow> unit res" where
  "check_commands manifest =
     bindR (bindR (ditem manifest ''cdp_commands'') iter_values) (\<lambda>commands.
     bindR (mapR (\<lambda>c. jitem c ''method'') commands) (\<lambda>methods.
     bindR (assertR (py_eq (JArr methods) (strings_json [''Network.enable'', ''Network.disable'']))) (\<lambda>_.
     bindR (jitem (commands ! 1) ''parameters'') (\<lambda>p. assertR (py_eq p (JObj []))))))"

definition check_targets :: "obj \<Rightarrow> unit res" where
  "check_targets manifest =
     bindR (dict_item manifest ''target_policy'') (\<lambda>policy.
     bindR (strings_list policy ''target_types'' [''page'']) (\<lambda>_.
     bindR (assert_entry policy ''max_targets'' (JInt 1)) (\<lambda>_.
     bindR (assert_entry policy ''max_frames'' (JInt 32)) (\<lambda>_.
     bindR (assert_text policy ''recursive_attachment'' ''DENY'') (\<lambda>_.
     bindR (dict_item manifest ''loopback'') (\<lambda>loopback.
     bindR (assert_text loopback ''url'' ''ws://127.0.0.1:8765'') (\<lambda>_.
       assert_false loopback ''command_channel'')))))))"

text \<open>\<open>len(v)\<close>.\<close>

definition value_length :: "json \<Rightarrow> nat res" where
  "value_length v = bindR (iter_values v) (\<lambda>xs. Inr (length xs))"

definition length_is :: "obj \<Rightarrow> string \<Rightarrow> nat \<Rightarrow> unit res" where
  "length_is d k n = bindR (bindR (ditem d k) value_length) (\<lambda>m. assertR (m = n))"

definition probe_closed :: "json \<Rightarrow> bool res" where
  "probe_closed probe =
     andR (bindR (jitem probe ''arguments'') (\<lambda>v. Inr (py_eq v (JArr []))))
     (andR (bindR (jitem probe ''selectors'') (\<lambda>v. Inr (py_eq v (JArr []))))
       (bindR (jitem probe ''script_or_expression_input'') (\<lambda>v. Inr (is_false v))))"

definition numbered :: "string \<Rightarrow> nat \<Rightarrow> string" where
  "numbered prefix i = prefix @ replicate (3 - length (str_nat i)) CHR ''0'' @ str_nat i"

definition check_numbered :: "json list \<Rightarrow> string \<Rightarrow> string \<Rightarrow> nat \<Rightarrow> unit res" where
  "check_numbered rows k prefix n =
     bindR (mapR (\<lambda>v. jitem v k) rows) (\<lambda>ids. assertR (py_eq (JArr ids) (strings_json (map (numbered prefix) [1..<n]))))"

definition check_capability_vectors :: "obj \<Rightarrow> obj \<Rightarrow> unit res" where
  "check_capability_vectors manifest vectors =
     bindR (bindR (ditem vectors ''vectors'') iter_values) (\<lambda>negative.
     bindR (check_numbered negative ''vector_id'' ''CAP-NEG-'' 79) (\<lambda>_.
     bindR (bindR (allR (\<lambda>v. bindR (jitem v ''expected_result'') (\<lambda>r. Inr (str_is r ''BUILD_REJECTED''))) negative) assertR) (\<lambda>_.
     bindR (bindR (ditem vectors ''required_allowed_controls'') iter_values) (\<lambda>positive.
     bindR (check_numbered positive ''control_id'' ''CAP-POS-'' 8) (\<lambda>_.
     bindR (bindR (mapR (\<lambda>v. jitem v ''escape_case'') negative) values_set) (\<lambda>escapes.
     bindR (set_item manifest ''negative_escape_cases'') (\<lambda>required.
     bindR (assertR (within required escapes)) (\<lambda>_.
       assert_text vectors ''production_authority'' ''NONE''))))))))"

definition check_locked_file :: "tree \<Rightarrow> json \<Rightarrow> unit res" where
  "check_locked_file T item =
     bindR (jitem item ''path'') (\<lambda>p.
     bindR (case p of JStr s \<Rightarrow> Inr s | _ \<Rightarrow> Inl TypeError) (\<lambda>path.
     bindR (pk_read (tr_pack T) (''cdp/'' @ path)) (\<lambda>bytes.
     bindR (jitem item ''size_bytes'') (\<lambda>size.
     bindR (assertR (py_eq (JInt (int (length bytes))) size)) (\<lambda>_.
     bindR (jitem item ''sha256'') (\<lambda>h. assertR (py_eq (JStr (tr_sha256 T bytes)) h)))))))"

definition validate_capability_artifacts :: "tree \<Rightarrow> obj \<Rightarrow> obj \<Rightarrow> obj \<Rightarrow> unit res" where
  "validate_capability_artifacts T manifest vectors lock =
     bindR (bindR (dict_item manifest ''chrome_manifest'') check_chrome) (\<lambda>_.
     bindR (assert_text manifest ''production_authority'' ''NONE'') (\<lambda>_.
     bindR (strings_list manifest ''body_classes'' []) (\<lambda>_.
     bindR (assert_false manifest ''network_get_response_body_present'') (\<lambda>_.
     bindR (check_commands manifest) (\<lambda>_.
     bindR (check_targets manifest) (\<lambda>_.
     bindR (length_is manifest ''public_messages'' 5) (\<lambda>_.
     bindR (length_is manifest ''private_operations'' 7) (\<lambda>_.
     bindR (length_is manifest ''fixed_probes'' 2) (\<lambda>_.
     bindR (bindR (bindR (bindR (ditem manifest ''fixed_probes'') iter_values) (allR probe_closed)) assertR) (\<lambda>_.
     bindR (check_capability_vectors manifest vectors) (\<lambda>_.
     bindR (bindR (ditem lock ''files'') iter_values) (foldR (\<lambda>_. check_locked_file T) ()))))))))))))"

section \<open>Custody\<close>

definition EXPECTED_AUDIENCES :: "(string \<times> string list) list" where
  "EXPECTED_AUDIENCES =
     [(''hybrid-discovery:bootstrap-gate:v1'', [''PACK_REVIEWER'']),
      (''hybrid-discovery:extension-run-controller:v1'', [''DISCOVERY_OPERATOR'']),
      (''hybrid-discovery:body-broker:v1'', [''DISCOVERY_OPERATOR'']),
      (''hybrid-discovery:provider-protocol:v1'', [''PACK_REVIEWER'', ''PROVIDER_OPERATOR'']),
      (''hybrid-discovery:provider-client:v1'', [''PROVIDER_OPERATOR'']),
      (''hybrid-discovery:revocation-ledger:v1'', [''REVOCATION_AUTHORITY''])]"

definition check_audiences :: "obj \<Rightarrow> unit res" where
  "check_audiences trust =
     bindR (bindR (ditem trust ''audience_role_bindings'') as_list) (\<lambda>bindings.
     bindR (keyed_by ''audience'' bindings) (\<lambda>by_audience.
     bindR (mapR (\<lambda>p. ditem (snd p) ''roles'') by_audience) (\<lambda>_.
       assertR (length by_audience = length EXPECTED_AUDIENCES \<and>
         list_all (\<lambda>(audience, roles). list_ex (\<lambda>p. str_is (fst p) audience \<and> py_eq (dget (snd p) ''roles'') (strings_json roles))
           by_audience) EXPECTED_AUDIENCES))))"

definition TRUST_TEXTS :: "(string \<times> string) list" where
  "TRUST_TEXTS =
     [(''production_authority'', ''NONE''), (''signing_key_custody'', ''USER_SCOPED_OS_BACKED_OUTSIDE_PACK_AND_RUNTIME''),
      (''schema_version'', ''trust-root/v1''), (''signature_algorithm'', ''Ed25519''),
      (''public_key_encoding'', ''RAW_32_BYTES_UNPADDED_BASE64URL_CANONICAL_REENCODE_REQUIRED''),
      (''key_id_derivation'', ''key:ed25519:<sha256-lowercase-hex-of-raw-public-key>''),
      (''signature_domain'', ''HYBRID-DISCOVERY/v6.2/SIGNATURE/Ed25519/v1'' @ [CHR 0x00]),
      (''runtime_key_material'', ''VERIFIER_PUBLIC_KEYS_ONLY'')]"

definition check_test_key :: "tree \<Rightarrow> obj \<Rightarrow> unit res" where
  "check_test_key T trust =
     bindR (bindR (ditem trust ''test_only_untrusted_keys'') as_list) (\<lambda>keys. case keys of
       [JObj k] \<Rightarrow>
         bindR (assert_text k ''label'' ''RFC8032_TEST_VECTOR_1'') (\<lambda>_.
         bindR (assert_text k ''trust'' ''TEST_ONLY_UNTRUSTED'') (\<lambda>_.
         bindR (ditem k ''public_key'') (\<lambda>v.
         bindR (urlsafe_b64decode (py_str v @ ''==''))
          (\<lambda>public_key.
         bindR (assertR (length public_key = 32)) (\<lambda>_.
           assert_text k ''key_id'' (''key:ed25519:'' @ tr_sha256 T (map char_of public_key)))))))
     | [_] \<Rightarrow> Inl TypeError
     | _ \<Rightarrow> Inl AssertionError)"

text \<open>\<open>_objects\<close>: all dicts of a value, outermost first.\<close>

function all_objects :: "json \<Rightarrow> obj list" where
  "all_objects v = (case v of
      JObj d \<Rightarrow> d # concat (map (\<lambda>(k, child). all_objects child) d)
    | JArr xs \<Rightarrow> concat (map all_objects xs)
    | _ \<Rightarrow> [])"
  by auto
termination
  by (relation "measure size") (auto dest: size_element size_member)

declare all_objects.simps [simp del]

definition FORBIDDEN_KEY_FIELDS :: "string list" where
  "FORBIDDEN_KEY_FIELDS = [''private_key'', ''private_key_hex'', ''private_key_seed'', ''seed'']"

definition validate_custody_and_authority :: "tree \<Rightarrow> unit res" where
  "validate_custody_and_authority T =
     bindR (bindR (pk_read (tr_pack T) ''security/discovery-capability-manifest.v1.json'')
       (parse_strict_json (pk_codec (tr_pack T)))) (\<lambda>m.
     bindR (bindR (pk_read (tr_pack T) ''security/trust-root.v1.json'') (parse_strict_json (pk_codec (tr_pack T)))) (\<lambda>t.
     bindR (assertR (is_dict m \<and> is_dict t)) (\<lambda>_.
     (let manifest = the_dict m; trust = the_dict t in
      bindR (assert_text manifest ''production_authority'' ''NONE'') (\<lambda>_.
      bindR (strings_list manifest ''body_classes'' []) (\<lambda>_.
      bindR (strings_list trust ''trusted_keys'' []) (\<lambda>_.
      bindR (foldR (\<lambda>_ (k, s). assert_text trust k s) () TRUST_TEXTS) (\<lambda>_.
      bindR (strings_list trust ''trust_roles'' [''PACK_REVIEWER'', ''DISCOVERY_OPERATOR'', ''PROVIDER_OPERATOR'', ''REVOCATION_AUTHORITY'']) (\<lambda>_.
      bindR (check_audiences trust) (\<lambda>_.
      bindR (check_test_key T trust) (\<lambda>_.
      bindR (assertR (list_all (\<lambda>d. list_all (\<lambda>k. \<not> dhas d k) FORBIDDEN_KEY_FIELDS) (all_objects t))) (\<lambda>_.
      bindR (read_strict (tr_pack T) ''security/cdp-protocol-lock.v1.json'') (\<lambda>lock.
        assert_text lock ''production_authority'' ''NONE''))))))))))))) "

section \<open>Schemas\<close>

text \<open>\<open>check_schema\<close> is the validator's test of a schema against its metaschema.\<close>

definition check_schema_file :: "pack \<Rightarrow> (obj \<Rightarrow> unit res) \<Rightarrow> string \<Rightarrow> (string \<times> obj) res" where
  "check_schema_file K check_schema path =
     bindR (read_strict K path) (\<lambda>schema.
     bindR (ditem schema ''$id'') (\<lambda>i.
     bindR (as_string i) (\<lambda>schema_id.
     bindR (check_schema schema) (\<lambda>_.
     bindR (assertR (list_all (\<lambda>d. \<not> is_true (dget d ''additionalProperties'')) (all_objects (JObj schema)))) (\<lambda>_.
       Inr (schema_id, schema))))))"

definition check_references :: "tree \<Rightarrow> string \<times> obj \<Rightarrow> unit res" where
  "check_references T entry =
     foldR (\<lambda>_ d. case dget d ''$ref'' of JNull \<Rightarrow> Inr () | JStr r \<Rightarrow> tr_lookup T (fst entry) r | _ \<Rightarrow> Inl AssertionError) ()
       (all_objects (JObj (snd entry)))"

definition validate_schema_closure :: "tree \<Rightarrow> (obj \<Rightarrow> unit res) \<Rightarrow> unit res" where
  "validate_schema_closure T check_schema =
     bindR (mapR (check_schema_file (tr_pack T) check_schema) (pk_schemas (tr_pack T))) (\<lambda>schemas.
     bindR (assertR (schemas \<noteq> [])) (\<lambda>_. foldR (\<lambda>_. check_references T) () schemas))"

end
