(* ===== verification/Crash_Registry.thy ===== *)
theory Crash_Registry
  imports Json_Items
begin

text \<open>
  \<^verbatim>\<open>src/moj_discovery/durability_registry.py\<close> and \<^verbatim>\<open>src/moj_discovery/clock_precedence.py\<close>: two
  registries that must cover a closed list of vectors, case by case.
\<close>

section \<open>Dicts keyed by values\<close>

text \<open>\<^verbatim>\<open>{key(x): x for x in xs}\<close>: a later element replaces the value of an equal key, whose place stays; an
  unhashable key raises.\<close>

fun kput :: "json \<Rightarrow> obj \<Rightarrow> (json \<times> obj) list \<Rightarrow> (json \<times> obj) list" where
  "kput k v [] = [(k, v)]"
| "kput k v ((k', v') # d) = (if py_eq k' k then (k', v) # d else (k', v') # kput k v d)"

definition kadd :: "string \<Rightarrow> (json \<times> obj) list \<Rightarrow> obj \<Rightarrow> (json \<times> obj) list res" where
  "kadd key d x = (let k = dget x key in if hashable k then Inr (kput k x d) else Inl TypeError)"

definition dicts :: "json list \<Rightarrow> obj list" where
  "dicts xs = map the_dict (filter is_dict xs)"

definition keyed :: "string \<Rightarrow> obj list \<Rightarrow> (json \<times> obj) list res" where
  "keyed key xs = foldR (kadd key) [] xs"

definition kget :: "(json \<times> obj) list \<Rightarrow> json \<Rightarrow> obj option" where
  "kget d k = map_option snd (find (\<lambda>(k', _). py_eq k' k) d)"

section \<open>Crash vectors\<close>

definition same_keys :: "(json \<times> obj) list \<Rightarrow> (json \<times> obj) list \<Rightarrow> bool" where
  "same_keys a b = (list_all (\<lambda>(k, _). kget b k \<noteq> None) a \<and> list_all (\<lambda>(k, _). kget a k \<noteq> None) b)"

text \<open>\<^verbatim>\<open>cases.index(case)\<close>.\<close>

fun index_of :: "json list \<Rightarrow> json \<Rightarrow> nat" where
  "index_of [] v = 0"
| "index_of (w # ws) v = (if py_eq w v then 0 else Suc (index_of ws v))"

definition text_starting :: "json \<Rightarrow> string \<Rightarrow> bool" where
  "text_starting v p = (case v of JStr s \<Rightarrow> starts_with s p | _ \<Rightarrow> False)"

definition crash_entry_invalid :: "json list \<Rightarrow> (json \<times> obj) list \<Rightarrow> obj \<Rightarrow> obj \<Rightarrow> bool res" where
  "crash_entry_invalid cases harnesses case_d entry = anyR (\<lambda>c. c)
     [Inr (\<not> py_eq (dget entry ''source_case_index'') (JInt (int (index_of cases (JObj case_d))))),
      Inr (\<not> py_eq (dget entry ''source_boundary'') (dget case_d ''boundary'')),
      Inr (\<not> py_eq (dget entry ''kill_action'') (dget case_d ''kill'')),
      Inr (\<not> py_eq (dget entry ''expected_post_restart_state'') (dget case_d ''expected'')),
      (if hashable (dget entry ''harness'') then Inr (kget harnesses (dget entry ''harness'') = None) else Inl TypeError),
      Inr (\<not> text_starting (dget entry ''child_command_id'') ''CRASH_VECTOR_''),
      Inr (case dget entry ''crash_checkpoint'' of JStr s \<Rightarrow> strip s = [] | _ \<Rightarrow> True),
      Inr (\<not> text_starting (dget entry ''owner_task'') ''V636-P03-T''),
      Inr (\<not> text_starting (dget entry ''verification_command_id'') ''TEST_V636_P03_T'')]"

definition check_crash_case :: "json list \<Rightarrow> (json \<times> obj) list \<Rightarrow> (json \<times> obj) list \<Rightarrow> json \<times> obj \<Rightarrow> unit res" where
  "check_crash_case cases harnesses mapped c =
     bindR (raise_if (\<not> is_str (fst c)) (ValueError ''E_CRASH_COVERAGE'')) (\<lambda>_.
     case kget mapped (fst c) of
       None \<Rightarrow> Inl (KeyError (the_str (fst c)))
     | Some entry \<Rightarrow> refuse_if (crash_entry_invalid cases harnesses (snd c) entry) ''E_CRASH_CHILD'')"

definition validate_crash_harness_registry :: "obj \<Rightarrow> obj \<Rightarrow> obj \<Rightarrow> obj res" where
  "validate_crash_harness_registry registry child_registry vectors =
     (let entries = dget registry ''entries''; cases = dget vectors ''cases''; children = dget child_registry ''entries'' in
      bindR (raise_if (\<not> is_list entries \<or> \<not> is_list cases \<or> \<not> is_list children) (ValueError ''E_CRASH_REGISTRY'')) (\<lambda>_.
      bindR (keyed ''id'' (dicts (the_list cases))) (\<lambda>source.
      bindR (keyed ''vector_id'' (dicts (the_list entries))) (\<lambda>mapped.
      bindR (raise_if (length source \<noteq> 46 \<or> length mapped \<noteq> 46 \<or> length (the_list entries) \<noteq> 46 \<or> \<not> same_keys source mapped \<or>
         \<not> py_eq (dget registry ''source_case_count'') (JInt 46) \<or> \<not> py_eq (dget registry ''mapped_case_count'') (JInt 46))
        (ValueError ''E_CRASH_COVERAGE'')) (\<lambda>_.
      bindR (keyed ''harness'' (filter (\<lambda>d. is_str (dget d ''harness'')) (dicts (the_list children)))) (\<lambda>harnesses.
      bindR (raise_if (length harnesses \<noteq> 5 \<or> length (the_list children) \<noteq> 5) (ValueError ''E_CRASH_CHILD'')) (\<lambda>_.
      bindR (foldR (\<lambda>_. check_crash_case (the_list cases) harnesses mapped) () source) (\<lambda>_.
        Inr [(''result'', JStr ''PASS''), (''case_count'', JInt 46), (''harness_count'', JInt (int (length harnesses)))]))))))))"

section \<open>Precedence of clock failures\<close>

definition value_or :: "json \<Rightarrow> json \<Rightarrow> json" where
  "value_or v w = (if truthy v then v else w)"

text \<open>One pass of the loop: \<open>n\<close> counts from one. Subscripting the list of codes may raise.\<close>

definition precedence_invalid :: "json list \<Rightarrow> nat \<Rightarrow> json \<Rightarrow> json \<Rightarrow> bool res" where
  "precedence_invalid ordered n frozen source =
     bindR (jget source ''expected_error'') (\<lambda>e.
     (let expected = value_or e (JStr ''SOURCE_AGE_UNKNOWN'') in anyR (\<lambda>c. c)
       [differs (jget frozen ''vector_id'') (jget source ''id''),
        differs (jget frozen ''source_index'') (Inr (JInt (int n - 1))),
        differs (jget frozen ''mutation'') (jget source ''mutation''),
        differs (jget frozen ''expected_error'') (jget source ''expected_error''),
        differs (jget frozen ''mapping_eligible'') (jget source ''mapping_eligible''),
        differs (jget frozen ''precedence_rank'') (Inr (JInt (int n))),
        (if n \<le> length ordered then Inr (\<not> py_eq (ordered ! (n - 1)) expected) else Inl IndexError)]))"

fun check_precedence :: "json list \<Rightarrow> nat \<Rightarrow> (json \<times> json) list \<Rightarrow> unit res" where
  "check_precedence ordered n [] = Inr ()"
| "check_precedence ordered n ((frozen, source) # rest) =
     bindR (refuse_if (precedence_invalid ordered n frozen source) ''E_CLOCK_PRECEDENCE'') (\<lambda>_. check_precedence ordered (Suc n) rest)"

definition load_clock_failure_precedence :: "obj \<Rightarrow> obj \<Rightarrow> obj \<Rightarrow> obj res" where
  "load_clock_failure_precedence precedence coverage vectors =
     (let negative = dget precedence ''negative_vectors''; source = dget vectors ''mapping_negative_vectors'';
          entries = dget coverage ''entries''; ordered = dget precedence ''ordered_error_codes'' in
      bindR (refuse_if (anyR (\<lambda>c. c)
        [Inr (\<not> is_list negative), Inr (\<not> is_list source), Inr (\<not> is_list entries), Inr (\<not> is_list ordered),
         Inr (\<not> py_eq (dget precedence ''negative_mapping_count'') (JInt 16)),
         Inr (length (the_list negative) \<noteq> 16), Inr (length (the_list source) \<noteq> 16),
         Inr (\<not> py_eq (dget coverage ''total_named_vectors'') (JInt 65)), Inr (length (the_list entries) \<noteq> 65),
         notR (set_distinct (the_list ordered))]) ''E_CLOCK_PRECEDENCE'') (\<lambda>_.
      bindR (check_precedence (the_list ordered) 1 (zip (the_list negative) (the_list source))) (\<lambda>_.
      (let ids = map (\<lambda>d. dget d ''vector_id'') (dicts (the_list entries)) in
       bindR (refuse_if (orR (notR (set_distinct ids)) (Inr (list_ex (\<lambda>v. \<not> is_str v) ids))) ''E_CLOCK_COVERAGE'') (\<lambda>_.
         Inr [(''negative_mapping_count'', JInt (int (length (the_list negative)))),
           (''total_named_vectors'', JInt (int (length ids))), (''ordered_error_codes'', ordered)])))))"

end
