(* ===== verification/Durability_Vectors.thy ===== *)
theory Durability_Vectors
  imports Governance_Contracts Crash_Registry Task_Props
begin

text \<open>
  \<open>validate_durability_vectors\<close> of \<^verbatim>\<open>src/moj_discovery/governance.py\<close>: the sealed crash vectors. The 46 cases
  carry the expected names, every case says what the stores hold after the restart, and the contract of the destruction
  authority is the expected one. Reading the file is outside.
\<close>

section \<open>Names of the cases\<close>

text \<open>\<^verbatim>\<open>f"{prefix}-{index:02d}-{suffix}"\<close>, counted from \<open>i\<close>.\<close>

fun counted :: "string \<Rightarrow> nat \<Rightarrow> string list \<Rightarrow> string list" where
  "counted prefix i [] = []"
| "counted prefix i (suffix # suffixes) =
     (prefix @ ''-'' @ (if i < 10 then ''0'' else []) @ str_nat i @ ''-'' @ suffix) # counted prefix (Suc i) suffixes"

definition GAP_CASE_IDS :: "string list" where
  "GAP_CASE_IDS = counted ''GAP'' 1 [''AFTER-GAP-INSERT'', ''AFTER-SHOCK-INSERT'', ''AFTER-COHERENCE-TRANSITION'',
     ''AFTER-CONTROLLER-CLOSE'', ''AFTER-EPOCH-BINDING'', ''AFTER-PREDECESSOR-CLOSE'', ''AFTER-GENERATION-TRANSITION'',
     ''AFTER-SUCCESSOR-INSERT'', ''DURING-COMMIT'', ''AFTER-COMMIT'', ''REPEATED-GAP-IN-SUCCESSOR'']"

definition EXPECTED_CASE_IDS :: "string list" where
  "EXPECTED_CASE_IDS =
     counted ''IDB'' 1 [''BEFORE-TRANSACTION'', ''DURING-SEQUENCE-ALLOCATION'', ''DURING-ROW-PUT'', ''AFTER-COMMIT''] @
     [''SEND-01-AFTER-SEND-BEFORE-BACKEND-BEGIN''] @
     counted ''SQL'' 1 [''AFTER-RAW-COMMIT-STATEMENT'', ''AFTER-APPLICATION-STATEMENT'', ''AFTER-DERIVED-REVISION-STATEMENT'',
       ''AFTER-REDUCER-CURSOR-STATEMENT'', ''AFTER-ACK-OUTBOX-STATEMENT'', ''DURING-COMMIT'', ''AFTER-COMMIT-BEFORE-ACK-SEND''] @
     counted ''ACK'' 1 [''BEFORE-EXTENSION-ACK-TRANSACTION'', ''DURING-EXTENSION-ACK-TRANSACTION'', ''AFTER-EXTENSION-ACK-TRANSACTION'',
       ''BEFORE-BACKEND-CONFIRMATION-COMMIT'', ''AFTER-BACKEND-CONFIRMATION-COMMIT'', ''DUPLICATE-IDENTICAL''] @
     GAP_CASE_IDS @
     [''CONFLICT-01-SAME-POSITION-DIFFERENT-HASH'', ''LATE-01-MISSING-POSITION-AFTER-GAP'', ''CAPACITY-01-NORMAL-LIMIT-REACHED'',
      ''CLOCK-01-AFTER-MAPPING-CLOSURE-INSERT'', ''CLOCK-02-AFTER-CLOSURE-COMMIT-BEFORE-SHOCK''] @
     counted ''EPOCH'' 1 [''AFTER-SHOCK-BEFORE-CLOSE-COMMIT'', ''AFTER-SHOCK-CLOSE-COMMIT'', ''AFTER-PENDING-WRITES-BEFORE-COMMIT'',
       ''DURING-NEW-EPOCH-OPEN-COMMIT'', ''NEW-SHOCK-WHILE-PENDING''] @
     [''DESTROY-01-BEFORE-AUTHORITY'', ''DESTROY-01A-AFTER-CONSUMPTION-BEFORE-INTENT''] @
     counted ''DESTROY'' 2 [''AFTER-INTENT-BEFORE-DELETION'', ''AFTER-EXTENSION-DELETION'', ''AFTER-BACKEND-DELETION'',
       ''AFTER-BOTH-DELETIONS-BEFORE-PROOF'', ''AFTER-PROOF'']"

section \<open>Contracts\<close>

definition assert_true :: "obj \<Rightarrow> string \<Rightarrow> unit res" where
  "assert_true d k = bindR (ditem d k) (\<lambda>w. assertR (is_true w))"

definition texts_are :: "obj \<Rightarrow> (string \<times> string) list \<Rightarrow> unit res" where
  "texts_are d = foldR (\<lambda>_ (k, s). assert_text d k s) ()"

definition CURSOR_CHAIN :: obj where
  "CURSOR_CHAIN =
     [(''seed_domain'', JStr (''HYBRID-DISCOVERY/v6.2/CursorSeed/v1'' @ [CHR 0x00])),
      (''step_domain'', JStr (''HYBRID-DISCOVERY/v6.2/CursorStep/v1'' @ [CHR 0x00])),
      (''H0'', JStr ''149300a0e3954885a1d6c0f13a9d1101227cc21cce37bd6b7c72eab641741c0c''),
      (''H1'', JStr ''739669d828057e94c856e7725ed05218e26639610d4ce58c2a5568244a16fc28'')]"

definition check_durability_head :: "obj \<Rightarrow> unit res" where
  "check_durability_head vectors =
     bindR (assert_text vectors ''guarantee'' ''EFFECTIVELY_ONCE_AFTER_DURABLE_LOCAL_SPOOL_COMMIT'') (\<lambda>_.
     bindR (assert_entry vectors ''normal_transaction_order'' (strings_json [''raw_commits'', ''application_records'',
       ''derived_revisions'', ''reducer_cursors'', ''ack_outbox''])) (\<lambda>_.
     bindR (length_is vectors ''gap_transaction_order'' 8) (\<lambda>_.
       assert_entry vectors ''cursor_chain'' (JObj CURSOR_CHAIN))))"

definition check_harness_contract :: "obj \<Rightarrow> unit res" where
  "check_harness_contract vectors =
     bindR (dict_item vectors ''harness_contract'') (\<lambda>harness.
     bindR (assert_text harness ''sql_crash_injection'' ''KILL_REAL_CHILD_PROCESS_WITH_SIGKILL'') (\<lambda>_.
     bindR (assert_false harness ''python_exception_is_sufficient'') (\<lambda>_.
     bindR (assert_true harness ''restart_each_case_with_new_process'') (\<lambda>_.
     bindR (assert_entry harness ''unlisted_sql_table_delta'' (JInt 0)) (\<lambda>_.
       assert_text harness ''commit_boundary_rule'' ''ONLY_PRECOMMIT_OR_FULLY_COMMITTED_STATE_IS_ALLOWED'')))))"

definition SQL_NEGATIVE_ERRORS :: "string list" where
  "SQL_NEGATIVE_ERRORS =
     [''E_CURSOR_FIRST_STEP_NOT_H0'', ''E_CURSOR_PREDECESSOR_LINK'', ''E_ACK_WITHOUT_DURABLE_CHAIN'', ''E_ACK_REGRESSION'',
      ''E_GENERATION_CLOSE_WITHOUT_COHERENCE_CLOSURE'', ''E_GENERATION_OPEN_WITHOUT_COHERENCE_CLOSURE'',
      ''E_DESTRUCTION_AUTHORITY_RUN'', ''E_DESTRUCTION_AUTHORITY_HASH'', ''E_DESTRUCTION_AUTHORITY_TYPE'',
      ''E_DESTRUCTION_AUTHORITY_SCOPE'', ''E_DESTRUCTION_AUTHORITY_REQUIRED'', ''E_DESTRUCTION_AUTHORITY_REPLAY'',
      ''E_DESTRUCTION_INTENT_PRECOMMIT'']"

definition check_sql_negatives :: "obj \<Rightarrow> unit res" where
  "check_sql_negatives vectors =
     bindR (bindR (ditem vectors ''sql_negative_vectors'') iter_values) (\<lambda>rows.
     bindR (assertR (length rows = 14)) (\<lambda>_.
     bindR (bindR (mapR (\<lambda>v. jitem v ''expected_error'') rows) values_set) (\<lambda>errors.
       assertR (same_values errors (map JStr SQL_NEGATIVE_ERRORS)))))"

definition check_destruction_contract :: "obj \<Rightarrow> unit res" where
  "check_destruction_contract vectors =
     bindR (dict_item vectors ''destruction_authority_contract'') (\<lambda>contract.
     bindR (texts_are contract [(''receipt_record_type'', ''GateReceipt''), (''gate_kind'', ''EVIDENCE_EXPORT_ACCEPTED''),
       (''scope'', ''WHOLE_RUN_DESTRUCTION_AFTER_ACCEPTED_EXPORT'')]) (\<lambda>_.
     bindR (assert_true contract ''one_use'') (\<lambda>_.
     bindR (assert_true contract ''explicit_human_invocation'') (\<lambda>_.
     bindR (assert_false contract ''automatic_trigger'') (\<lambda>_.
       texts_are contract
        [(''pre_intent_crash_rule'', ''CONSUMED_RECEIPT_REMAINS_PERMANENTLY_BURNED_STORES_REMAIN_INTACT_AND_RECOVERY_'' @
          ''MAY_ONLY_REVALIDATE_THE_SAME_RECEIPT_BYTES_TO_RECONSTRUCT_THE_BYTE_IDENTICAL_'' @
          ''PRECOMMITTED_EXTERNAL_INTENT_WITHOUT_SECOND_CONSUMPTION_OR_NEW_AUTHORITY''),
         (''external_intent_gate'', ''DESTRUCTION_PENDING_AND_STORE_DELETE_REQUIRE_PERSISTED_EXTERNAL_INTENT_BYTES_'' @
          ''MATCHING_THE_IMMUTABLE_PRECOMMIT'')])))))"

definition check_reconstruction :: "obj \<Rightarrow> unit res" where
  "check_reconstruction vectors =
     bindR (length_is vectors ''destruction_authority_negative_vectors'' 7) (\<lambda>_.
     bindR (length_is vectors ''authorization_consumption_positive_vectors'' 5) (\<lambda>_.
     bindR (dict_item vectors ''destruction_intent_reconstruction_vector'') (\<lambda>reconstruction.
       texts_are reconstruction
        [(''expected_content_hash'', ''d78555bc433052db4b9d6840857e066429cb538b8f814b567393c973335755ca''),
         (''recovery_rule'', ''REVALIDATE_SAME_RECEIPT_BYTES_AS_DATA_ONLY_RECONSTRUCT_BYTE_IDENTICAL_INTENT_'' @
          ''NO_SECOND_CONSUMPTION_NO_NEW_AUTHORITY'')])))"

definition check_intent_crash :: "obj list \<Rightarrow> unit res" where
  "check_intent_crash cases =
     bindR (next_with_id ''DESTROY-01A-AFTER-CONSUMPTION-BEFORE-INTENT'' cases) (\<lambda>crash.
     bindR (dict_item crash ''expected'') (\<lambda>expected.
     bindR (texts_are expected [(''indexeddb_store'', ''PRESENT''), (''backend_database'', ''PRESENT''), (''run_status'', ''CLOSED''),
       (''receipt_state'', ''CONSUMED_ONE_USE_PERMANENTLY_BURNED'')]) (\<lambda>_.
     bindR (assert_false expected ''second_authorization_consumption_allowed'') (\<lambda>_.
       assert_false expected ''new_authority_required''))))"

section \<open>Cases\<close>

text \<open>\<open>deltas.values()\<close>, and \<open>all\<close> over a comparison with zero.\<close>

definition dict_values :: "json \<Rightarrow> json list res" where
  "dict_values v = (case v of JObj d \<Rightarrow> Inr (map snd d) | _ \<Rightarrow> Inl AttributeError)"

definition not_negative :: "json \<Rightarrow> bool res" where
  "not_negative v = (case py_num v of None \<Rightarrow> Inl TypeError | Some i \<Rightarrow> Inr (0 \<le> i))"

definition no_negative_delta :: "json \<Rightarrow> unit res" where
  "no_negative_delta deltas = bindR (bindR (dict_values deltas) (allR not_negative)) assertR"

definition in_either :: "string \<Rightarrow> obj \<Rightarrow> obj \<Rightarrow> unit res" where
  "in_either k a b = assertR (dhas a k \<or> dhas b k)"

definition truthy_item :: "json \<Rightarrow> string \<Rightarrow> unit res" where
  "truthy_item v k = bindR (jitem v k) (\<lambda>w. assertR (truthy w))"

definition check_atomic_outcome :: "obj \<Rightarrow> json \<Rightarrow> unit res" where
  "check_atomic_outcome observed outcome =
     bindR (truthy_item outcome ''recovery_action'') (\<lambda>_.
     bindR (in_either ''reducer_cursor'' (the_dict outcome) observed) (\<lambda>_.
     bindR (in_either ''backend_ack'' (the_dict outcome) observed) (\<lambda>_.
     bindR (in_either ''coherence_state'' (the_dict outcome) observed) (\<lambda>_.
     bindR (jitem outcome ''sql_row_deltas'') no_negative_delta))))"

text \<open>Two different outcomes; subscripting a dict of two entries by numbers raises.\<close>

definition check_atomic_outcomes :: "obj \<Rightarrow> json \<Rightarrow> unit res" where
  "check_atomic_outcomes observed outcomes =
     bindR (iter_values outcomes) (\<lambda>xs.
     bindR (assertR (length xs = 2)) (\<lambda>_.
     bindR (raise_if (is_dict outcomes) (KeyError ''0'')) (\<lambda>_.
     bindR (assertR (\<not> py_eq (xs ! 0) (xs ! 1))) (\<lambda>_.
       foldR (\<lambda>_. check_atomic_outcome observed) () xs))))"

definition check_single_outcome :: "obj \<Rightarrow> unit res" where
  "check_single_outcome observed =
     bindR (truthy_item (JObj observed) ''recovery_action'') (\<lambda>_.
       assertR (dhas observed ''reducer_cursor'' \<and> dhas observed ''backend_ack'' \<and> dhas observed ''coherence_state''))"

definition check_gap_case :: "string \<Rightarrow> obj \<Rightarrow> unit res" where
  "check_gap_case case_id observed =
     (if starts_with case_id ''GAP-0'' \<and> case_id < ''GAP-09'' then
        bindR (bindR (ditem observed ''sql_row_deltas'') dict_values) (\<lambda>deltas.
        bindR (assertR (list_all (\<lambda>v. py_eq v (JInt 0)) deltas)) (\<lambda>_. assert_text observed ''coherence_state'' ''OPEN''))
      else Inr ())"

definition check_proof_case :: "string \<Rightarrow> obj \<Rightarrow> unit res" where
  "check_proof_case case_id observed =
     (if case_id = ''DESTROY-06-AFTER-PROOF'' then
        bindR (texts_are observed [(''indexeddb_store'', ''DELETED''), (''backend_database'', ''DELETED'')]) (\<lambda>_.
          assert_entry observed ''external_proof_delta'' (JInt 1))
      else Inr ())"

definition check_vector_case :: "obj \<Rightarrow> unit res" where
  "check_vector_case c =
     bindR (assertR (keys_eq c [''id'', ''boundary'', ''kill'', ''expected''])) (\<lambda>_.
     bindR (truthy_item (JObj c) ''boundary'') (\<lambda>_.
     bindR (truthy_item (JObj c) ''kill'') (\<lambda>_.
     bindR (bindR (ditem c ''expected'') as_object) (\<lambda>observed.
     bindR (case dget observed ''allowed_atomic_outcomes'' of
         JNull \<Rightarrow> check_single_outcome observed
       | outcomes \<Rightarrow> check_atomic_outcomes observed outcomes) (\<lambda>_.
     bindR (assertR (dhas observed ''extension_ack'')) (\<lambda>_.
     bindR (case dget observed ''sql_row_deltas'' of JObj d \<Rightarrow> no_negative_delta (JObj d) | _ \<Rightarrow> Inr ()) (\<lambda>_.
     bindR (check_gap_case (the_str (dget c ''id'')) observed) (\<lambda>_.
       check_proof_case (the_str (dget c ''id'')) observed))))))))"

definition validate_durability_vectors :: "obj \<Rightarrow> unit res" where
  "validate_durability_vectors vectors =
     bindR (check_durability_head vectors) (\<lambda>_.
     bindR (bindR (ditem vectors ''cases'') iter_values) (\<lambda>rows.
     bindR (assertR (length rows = 46)) (\<lambda>_.
     bindR (bindR (mapR (\<lambda>v. jitem v ''id'') rows) values_set) (\<lambda>ids.
     bindR (assertR (length ids = 46)) (\<lambda>_.
     bindR (check_harness_contract vectors) (\<lambda>_.
     bindR (check_sql_negatives vectors) (\<lambda>_.
     bindR (check_destruction_contract vectors) (\<lambda>_.
     bindR (check_reconstruction vectors) (\<lambda>_.
     (let cases = map the_dict rows in
      bindR (check_intent_crash cases) (\<lambda>_.
      bindR (assertR (same_values ids (map JStr EXPECTED_CASE_IDS))) (\<lambda>_.
        foldR (\<lambda>_. check_vector_case) () cases))))))))))))"

section \<open>Vectors and harnesses together\<close>

text \<open>
  The sealed crash vectors and the registry of crash harnesses together: every expected crash is injected by an entry
  of the registry that expects what the vector says, and nothing is left of a gap transaction killed before its commit.
\<close>

section \<open>Dicts keyed by values\<close>

lemma kput_mem: "(k, v) \<in> set (kput k0 v0 d) \<Longrightarrow> (k, v) \<in> set d \<or> v = v0 \<and> py_eq k k0 \<or> (k, v) = (k0, v0)"
  by (induction k0 v0 d rule: kput.induct) (auto split: if_splits)

lemma kput_key: "(JStr s, w) \<in> set d \<or> k0 = JStr s \<Longrightarrow> \<exists>w'. (JStr s, w') \<in> set (kput k0 v0 d)"
  by (induction k0 v0 d rule: kput.induct) (auto simp: py_eq_str split: if_splits)

lemma keyed_from:
  "foldR (kadd key) d0 xs = Inr d \<Longrightarrow> (k, v) \<in> set d \<Longrightarrow>
   (k, v) \<in> set d0 \<or> v \<in> set xs \<and> (py_eq k (dget v key) \<or> k = dget v key)"
proof (induction xs arbitrary: d0)
  case (Cons x xs)
  then obtain d1 where "kadd key d0 x = Inr d1" and d: "foldR (kadd key) d1 xs = Inr d" by auto
  then have "d1 = kput (dget x key) x d0" by (simp add: kadd_def Let_def split: if_splits)
  with Cons.IH [OF d Cons.prems(2)] kput_mem [of k v "dget x key" x d0] show ?case by auto
qed simp

lemma keyed_key:
  "foldR (kadd key) d0 xs = Inr d \<Longrightarrow> (\<exists>w. (JStr s, w) \<in> set d0) \<or> (\<exists>v \<in> set xs. dget v key = JStr s) \<Longrightarrow>
   \<exists>w. (JStr s, w) \<in> set d"
proof (induction xs arbitrary: d0)
  case (Cons x xs)
  then obtain d1 where "kadd key d0 x = Inr d1" and d: "foldR (kadd key) d1 xs = Inr d" by auto
  then have d1: "d1 = kput (dget x key) x d0" by (simp add: kadd_def Let_def split: if_splits)
  from Cons.prems(2) kput_key [of s _ d0 "dget x key" x]
  have "(\<exists>w. (JStr s, w) \<in> set d1) \<or> (\<exists>v \<in> set xs. dget v key = JStr s)" unfolding d1 by auto
  from Cons.IH [OF d this] show ?case .
qed auto

lemma keyed_str_entry:
  assumes "keyed key xs = Inr d" and "(JStr s, v) \<in> set d"
  shows "v \<in> set xs \<and> dget v key = JStr s"
  using keyed_from [of key "[]" xs d "JStr s" v] assms by (auto simp: keyed_def py_eq_str_left)

lemma kget_Some:
  assumes "kget d k = Some v"
  obtains k' where "(k', v) \<in> set d" and "py_eq k' k"
proof -
  from assms obtain p where p: "find (\<lambda>(k', _). py_eq k' k) d = Some p" and v: "v = snd p" by (auto simp: kget_def)
  from p have "p \<in> set d \<and> py_eq (fst p) k" by (induction d) (auto split: if_splits)
  with v show thesis by (intro that [of "fst p"]) auto
qed

lemma dicts_mem: "x \<in> set (dicts xs) \<longleftrightarrow> JObj x \<in> set xs"
  by (force simp: dicts_def elim: is_dict.elims)

section \<open>The vectors\<close>

lemma mapR_at: "mapR f xs = Inr ys \<Longrightarrow> x \<in> set xs \<Longrightarrow> \<exists>y \<in> set ys. f x = Inr y"
  by (induction xs arbitrary: ys) auto

lemma mapR_source: "mapR f xs = Inr ys \<Longrightarrow> y \<in> set ys \<Longrightarrow> \<exists>x \<in> set xs. f x = Inr y"
  by (induction xs arbitrary: ys) auto

lemma once_subset: "set (once vs) \<subseteq> set vs"
  by (induction vs) auto

lemma jitem_Inr: "jitem r k = Inr v \<Longrightarrow> r = JObj (the_dict r) \<and> dget (the_dict r) k = v"
  by (cases r) (auto simp: ditem_eq_Inr dget_def)

lemma accepted_vectors:
  assumes "validate_durability_vectors vectors = Inr ()"
  obtains rows ids where "iter_values (dget vectors ''cases'') = Inr rows" and "mapR (\<lambda>v. jitem v ''id'') rows = Inr ids"
    and "within (map JStr EXPECTED_CASE_IDS) (once ids)" and "\<forall>r \<in> set rows. check_vector_case (the_dict r) = Inr ()"
proof -
  from assms show thesis
    unfolding validate_durability_vectors_def Let_def
  proof (elim bindR_E)
    fix u cases rows u1 ids ids' u2 u3 u4 u5 u6 u7 u8
    assume "ditem vectors ''cases'' = Inr cases" "iter_values cases = Inr rows" "mapR (\<lambda>v. jitem v ''id'') rows = Inr ids"
      "values_set ids = Inr ids'" "assertR (same_values ids' (map JStr EXPECTED_CASE_IDS)) = Inr u8"
      "foldR (\<lambda>_. check_vector_case) () (map the_dict rows) = Inr ()"
    then show thesis
      by (intro that [of rows ids])
        (auto simp: ditem_eq_Inr dget_def values_set_def same_values_def foldR_checks split: if_splits)
  qed
qed

lemma expected_case:
  assumes "validate_durability_vectors vectors = Inr ()" and "s \<in> set EXPECTED_CASE_IDS" and "is_list (dget vectors ''cases'')"
  shows "\<exists>c \<in> set (dicts (the_list (dget vectors ''cases''))). dget c ''id'' = JStr s"
proof -
  from assms(1) obtain rows ids where rows: "iter_values (dget vectors ''cases'') = Inr rows"
    and ids: "mapR (\<lambda>v. jitem v ''id'') rows = Inr ids" and w: "within (map JStr EXPECTED_CASE_IDS) (once ids)"
    by (rule accepted_vectors)
  from w assms(2) have "JStr s \<in> set (once ids)" by (auto simp: within_def list_all_iff list_ex_iff py_eq_str_left)
  then have "JStr s \<in> set ids" using once_subset by blast
  from mapR_source [OF ids this] obtain r where r: "r \<in> set rows" "jitem r ''id'' = Inr (JStr s)" by blast
  from rows assms(3) have "rows = the_list (dget vectors ''cases'')" by (cases "dget vectors ''cases''") auto
  with r jitem_Inr [OF r(2)] show ?thesis by (intro bexI [of _ "the_dict r"]) (auto simp: dicts_mem)
qed

definition nothing_committed :: "obj \<Rightarrow> bool" where
  "nothing_committed observed \<longleftrightarrow> dget observed ''coherence_state'' = JStr ''OPEN'' \<and>
     is_dict (dget observed ''sql_row_deltas'') \<and>
     (\<forall>(table, delta) \<in> set (the_dict (dget observed ''sql_row_deltas'')). py_eq delta (JInt 0))"

lemma gap_case_rolled_back:
  assumes "check_vector_case c = Inr ()" and "dget c ''id'' = JStr s" and "starts_with s ''GAP-0''" and "s < ''GAP-09''"
  shows "nothing_committed (the_dict (dget c ''expected''))"
proof -
  from assms(1) show ?thesis
    unfolding check_vector_case_def
  proof (elim bindR_E)
    fix e observed u
    assume e: "ditem c ''expected'' = Inr e" "as_object e = Inr observed"
      and g: "check_gap_case (the_str (dget c ''id'')) observed = Inr u"
    from e have o: "the_dict (dget c ''expected'') = observed"
      by (auto simp: ditem_eq_Inr dget_def as_object_def split: json.splits)
    from g assms(2-4) obtain w deltas where "ditem observed ''sql_row_deltas'' = Inr w" "dict_values w = Inr deltas"
      "list_all (\<lambda>v. py_eq v (JInt 0)) deltas" "assert_text observed ''coherence_state'' ''OPEN'' = Inr ()"
      by (auto simp: check_gap_case_def)
    then show ?thesis unfolding o
      by (force simp: nothing_committed_def assert_text_def ditem_eq_Inr dget_def dict_values_def list_all_iff
        split: json.splits)
  qed
qed

section \<open>The registry\<close>

lemma accepted_registry:
  assumes "validate_crash_harness_registry registry child_registry vectors = Inr report"
  obtains source mapped harnesses where "is_list (dget vectors ''cases'')"
    and "keyed ''id'' (dicts (the_list (dget vectors ''cases''))) = Inr source"
    and "keyed ''vector_id'' (dicts (the_list (dget registry ''entries''))) = Inr mapped"
    and "keyed ''harness'' (filter (\<lambda>d. is_str (dget d ''harness'')) (dicts (the_list (dget child_registry ''entries'')))) = Inr harnesses"
    and "\<forall>c \<in> set source. check_crash_case (the_list (dget vectors ''cases'')) harnesses mapped c = Inr ()"
  using assms unfolding validate_crash_harness_registry_def Let_def
  by (elim bindR_E) (simp only: foldR_checks raise_if_Inr, blast)

lemma accepted_entry:
  assumes "check_crash_case cases harnesses mapped (k, c) = Inr ()"
  obtains entry where "kget mapped k = Some entry" and "py_eq (dget entry ''expected_post_restart_state'') (dget c ''expected'')"
    and "kget harnesses (dget entry ''harness'') \<noteq> None"
  using assms
  by (auto simp: check_crash_case_def refuse_if_Inr crash_entry_invalid_def anyR_eq_False
    simp del: py_eq.simps split: option.splits if_splits)

section \<open>Both together\<close>

definition injected :: "obj \<Rightarrow> obj \<Rightarrow> obj \<Rightarrow> string \<Rightarrow> bool" where
  "injected registry child_registry c case_id \<longleftrightarrow> (\<exists>entry child.
     JObj entry \<in> set (the_list (dget registry ''entries'')) \<and> dget entry ''vector_id'' = JStr case_id \<and>
     py_eq (dget entry ''expected_post_restart_state'') (dget c ''expected'') \<and>
     JObj child \<in> set (the_list (dget child_registry ''entries'')) \<and> py_eq (dget child ''harness'') (dget entry ''harness''))"

lemma case_injected:
  assumes "validate_crash_harness_registry registry child_registry vectors = Inr report"
    and "c0 \<in> set (dicts (the_list (dget vectors ''cases'')))" and "dget c0 ''id'' = JStr s"
  shows "\<exists>c. JObj c \<in> set (the_list (dget vectors ''cases'')) \<and> dget c ''id'' = JStr s \<and> injected registry child_registry c s"
proof -
  from assms(1) obtain source mapped harnesses where
    source: "keyed ''id'' (dicts (the_list (dget vectors ''cases''))) = Inr source"
    and mapped: "keyed ''vector_id'' (dicts (the_list (dget registry ''entries''))) = Inr mapped"
    and harnesses: "keyed ''harness'' (filter (\<lambda>d. is_str (dget d ''harness'')) (dicts (the_list (dget child_registry ''entries'')))) = Inr harnesses"
    and ok: "\<forall>c \<in> set source. check_crash_case (the_list (dget vectors ''cases'')) harnesses mapped c = Inr ()"
    by (rule accepted_registry)
  from keyed_key [of "''id''" "[]" _ source s] source assms(2,3) obtain c where c: "(JStr s, c) \<in> set source"
    by (auto simp: keyed_def)
  from keyed_str_entry [OF source c] have cm: "JObj c \<in> set (the_list (dget vectors ''cases''))" "dget c ''id'' = JStr s"
    by (auto simp: dicts_mem)
  from ok c have "check_crash_case (the_list (dget vectors ''cases'')) harnesses mapped (JStr s, c) = Inr ()" by blast
  then obtain entry where entry: "kget mapped (JStr s) = Some entry"
      "py_eq (dget entry ''expected_post_restart_state'') (dget c ''expected'')"
    and h: "kget harnesses (dget entry ''harness'') \<noteq> None"
    by (rule accepted_entry)
  from entry(1) obtain k where "(k, entry) \<in> set mapped" "py_eq k (JStr s)" by (rule kget_Some)
  with keyed_str_entry [OF mapped, of s entry] have e: "JObj entry \<in> set (the_list (dget registry ''entries''))"
      "dget entry ''vector_id'' = JStr s"
    by (auto simp: py_eq_str dicts_mem)
  from h obtain child k' where "kget harnesses (dget entry ''harness'') = Some child" by blast
  then obtain k' where k': "(k', child) \<in> set harnesses" "py_eq k' (dget entry ''harness'')" by (rule kget_Some)
  from keyed_from [OF harnesses [unfolded keyed_def] k'(1)]
  have child: "JObj child \<in> set (the_list (dget child_registry ''entries''))" "is_str (dget child ''harness'')"
      "py_eq k' (dget child ''harness'') \<or> k' = dget child ''harness''"
    by (auto simp: dicts_mem)
  then have "py_eq (dget child ''harness'') (dget entry ''harness'')" using k'(2)
    by (cases "dget child ''harness''") (auto simp: py_eq_str)
  with cm entry(2) e child(1) show ?thesis unfolding injected_def by blast
qed

text \<open>C38: when the sealed crash vectors and the registry of harnesses are both accepted, every one of the expected crash
  cases is among the vectors, an entry of the registry for it names a known harness and expects after the restart what the
  vector says, and a gap transaction killed before its commit is expected to leave the coherence open and no row changed.\<close>

theorem every_expected_crash_is_injected:
  assumes "validate_durability_vectors vectors = Inr ()"
    and "validate_crash_harness_registry registry child_registry vectors = Inr report"
    and "case_id \<in> set EXPECTED_CASE_IDS"
  shows "\<exists>c. JObj c \<in> set (the_list (dget vectors ''cases'')) \<and> dget c ''id'' = JStr case_id \<and>
     injected registry child_registry c case_id \<and>
     (case_id \<in> set (take 8 GAP_CASE_IDS) \<longrightarrow> nothing_committed (the_dict (dget c ''expected'')))"
proof -
  from assms(2) have l: "is_list (dget vectors ''cases'')" by (rule accepted_registry)
  from expected_case [OF assms(1,3) l] obtain c0 where "c0 \<in> set (dicts (the_list (dget vectors ''cases'')))"
    "dget c0 ''id'' = JStr case_id" by blast
  from case_injected [OF assms(2) this] obtain c where c: "JObj c \<in> set (the_list (dget vectors ''cases''))"
    "dget c ''id'' = JStr case_id" "injected registry child_registry c case_id" by blast
  from assms(1) obtain rows where rows: "iter_values (dget vectors ''cases'') = Inr rows"
    and ok: "\<forall>r \<in> set rows. check_vector_case (the_dict r) = Inr ()" by (rule accepted_vectors)
  from rows l c(1) have "JObj c \<in> set rows" by (cases "dget vectors ''cases''") auto
  with ok have cv: "check_vector_case c = Inr ()" by force
  have "\<forall>s \<in> set (take 8 GAP_CASE_IDS). starts_with s ''GAP-0'' \<and> s < ''GAP-09''" by code_simp
  with gap_case_rolled_back [OF cv c(2)] c show ?thesis by blast
qed

section \<open>A concrete registry\<close>

definition demo_observed :: "string \<Rightarrow> obj" where
  "demo_observed case_id =
     (let store = JStr (if case_id = ''DESTROY-06-AFTER-PROOF'' then ''DELETED'' else ''PRESENT'') in
      [(''recovery_action'', JStr ''RESUME''), (''reducer_cursor'', JStr ''H0''), (''backend_ack'', JStr ''0''),
       (''coherence_state'', JStr ''OPEN''), (''extension_ack'', JStr ''0''), (''sql_row_deltas'', JObj [(''raw_commits'', JInt 0)]),
       (''indexeddb_store'', store), (''backend_database'', store), (''run_status'', JStr ''CLOSED''),
       (''receipt_state'', JStr ''CONSUMED_ONE_USE_PERMANENTLY_BURNED''),
       (''second_authorization_consumption_allowed'', JBool False), (''new_authority_required'', JBool False),
       (''external_proof_delta'', JInt 1)])"

definition demo_case :: "string \<Rightarrow> obj" where
  "demo_case case_id = [(''id'', JStr case_id), (''boundary'', JStr ''B''), (''kill'', JStr ''K''), (''expected'', JObj (demo_observed case_id))]"

definition demo_contract :: obj where
  "demo_contract =
     [(''receipt_record_type'', JStr ''GateReceipt''), (''gate_kind'', JStr ''EVIDENCE_EXPORT_ACCEPTED''),
      (''scope'', JStr ''WHOLE_RUN_DESTRUCTION_AFTER_ACCEPTED_EXPORT''), (''one_use'', JBool True),
      (''explicit_human_invocation'', JBool True), (''automatic_trigger'', JBool False),
      (''pre_intent_crash_rule'', JStr (''CONSUMED_RECEIPT_REMAINS_PERMANENTLY_BURNED_STORES_REMAIN_INTACT_AND_RECOVERY_'' @
        ''MAY_ONLY_REVALIDATE_THE_SAME_RECEIPT_BYTES_TO_RECONSTRUCT_THE_BYTE_IDENTICAL_'' @
        ''PRECOMMITTED_EXTERNAL_INTENT_WITHOUT_SECOND_CONSUMPTION_OR_NEW_AUTHORITY'')),
      (''external_intent_gate'', JStr (''DESTRUCTION_PENDING_AND_STORE_DELETE_REQUIRE_PERSISTED_EXTERNAL_INTENT_BYTES_'' @
        ''MATCHING_THE_IMMUTABLE_PRECOMMIT''))]"

definition demo_vectors :: obj where
  "demo_vectors =
     [(''guarantee'', JStr ''EFFECTIVELY_ONCE_AFTER_DURABLE_LOCAL_SPOOL_COMMIT''),
      (''normal_transaction_order'', strings_json [''raw_commits'', ''application_records'', ''derived_revisions'', ''reducer_cursors'',
        ''ack_outbox'']),
      (''gap_transaction_order'', JArr (replicate 8 JNull)), (''cursor_chain'', JObj CURSOR_CHAIN),
      (''cases'', JArr (map (\<lambda>i. JObj (demo_case i)) EXPECTED_CASE_IDS)),
      (''harness_contract'', JObj [(''sql_crash_injection'', JStr ''KILL_REAL_CHILD_PROCESS_WITH_SIGKILL''),
        (''python_exception_is_sufficient'', JBool False), (''restart_each_case_with_new_process'', JBool True),
        (''unlisted_sql_table_delta'', JInt 0),
        (''commit_boundary_rule'', JStr ''ONLY_PRECOMMIT_OR_FULLY_COMMITTED_STATE_IS_ALLOWED'')]),
      (''sql_negative_vectors'', JArr (map (\<lambda>e. JObj [(''expected_error'', JStr e)]) (hd SQL_NEGATIVE_ERRORS # SQL_NEGATIVE_ERRORS))),
      (''destruction_authority_contract'', JObj demo_contract),
      (''destruction_authority_negative_vectors'', JArr (replicate 7 JNull)),
      (''authorization_consumption_positive_vectors'', JArr (replicate 5 JNull)),
      (''destruction_intent_reconstruction_vector'', JObj
        [(''expected_content_hash'', JStr ''d78555bc433052db4b9d6840857e066429cb538b8f814b567393c973335755ca''),
         (''recovery_rule'', JStr (''REVALIDATE_SAME_RECEIPT_BYTES_AS_DATA_ONLY_RECONSTRUCT_BYTE_IDENTICAL_INTENT_'' @
            ''NO_SECOND_CONSUMPTION_NO_NEW_AUTHORITY''))])]"

definition demo_harness_entry :: "nat \<times> string \<Rightarrow> obj" where
  "demo_harness_entry e = (case e of (n, case_id) \<Rightarrow>
     [(''vector_id'', JStr case_id), (''source_case_index'', JInt (int n)), (''source_boundary'', JStr ''B''), (''kill_action'', JStr ''K''),
      (''expected_post_restart_state'', JObj (demo_observed case_id)), (''harness'', JStr ''sqlite''),
      (''child_command_id'', JStr ''CRASH_VECTOR_1''), (''crash_checkpoint'', JStr ''P''), (''owner_task'', JStr ''V636-P03-T01''),
      (''verification_command_id'', JStr ''TEST_V636_P03_T01'')])"

definition demo_harness_registry :: obj where
  "demo_harness_registry =
     [(''entries'', JArr (map (\<lambda>e. JObj (demo_harness_entry e)) (zip [0..<46] EXPECTED_CASE_IDS))),
      (''source_case_count'', JInt 46), (''mapped_case_count'', JInt 46)]"

definition demo_children :: obj where
  "demo_children = [(''entries'', JArr (map (\<lambda>h. JObj [(''harness'', JStr h)]) [''sqlite'', ''indexeddb'', ''loopback'', ''gap'', ''destruction'']))]"

lemma expected_ids: "distinct EXPECTED_CASE_IDS" "length EXPECTED_CASE_IDS = 46"
    "''DESTROY-01A-AFTER-CONSUMPTION-BEFORE-INTENT'' \<in> set EXPECTED_CASE_IDS"
  by code_simp+

lemma once_strs: "distinct ss \<Longrightarrow> once (map JStr ss) = map JStr ss"
  by (induction ss) (auto simp: py_eq_str_left intro!: filter_True)

lemma same_strs: "same_values (map JStr ss) (map JStr ss)"
  by (auto simp: same_values_def within_def list_all_iff list_ex_iff)

lemma demo_case_items:
  "dget (demo_case i) ''id'' = JStr i" "ditem (demo_case i) ''id'' = Inr (JStr i)" "dget (demo_case i) ''boundary'' = JStr ''B''"
  "dget (demo_case i) ''kill'' = JStr ''K''" "dget (demo_case i) ''expected'' = JObj (demo_observed i)"
  "ditem (demo_case i) ''expected'' = Inr (JObj (demo_observed i))"
  by (simp_all add: demo_case_def)

lemma demo_ids: "mapR (\<lambda>v. jitem v ''id'') (map (\<lambda>i. JObj (demo_case i)) ids) = Inr (map JStr ids)"
  by (induction ids) (simp_all add: demo_case_items)

lemma demo_next: "i \<in> set ids \<Longrightarrow> next_with_id i (map demo_case ids) = Inr (demo_case i)"
  by (induction ids) (auto simp: demo_case_items)

lemma demo_case_accepted: "check_vector_case (demo_case i) = Inr ()"
proof -
  have "keys_eq (demo_case i) [''id'', ''boundary'', ''kill'', ''expected'']" by (simp add: demo_case_def keys_eq_def insert_commute)
  then show ?thesis
    by (simp add: check_vector_case_def truthy_item_def demo_case_def demo_observed_def Let_def check_single_outcome_def
      no_negative_delta_def dict_values_def not_negative_def check_gap_case_def assert_text_def check_proof_case_def texts_are_def
      assert_entry_def)
qed

lemma demo_intent: "check_intent_crash (map demo_case EXPECTED_CASE_IDS) = Inr ()"
  by (simp add: check_intent_crash_def demo_next [OF expected_ids(3)] dict_item_def demo_case_items)
    (simp add: demo_observed_def Let_def texts_are_def assert_text_def assert_false_def)

lemma demo_heads:
  "check_durability_head demo_vectors = Inr ()" "check_harness_contract demo_vectors = Inr ()"
  "check_destruction_contract demo_vectors = Inr ()" "check_reconstruction demo_vectors = Inr ()"
  by (simp_all add: check_durability_head_def check_harness_contract_def check_destruction_contract_def check_reconstruction_def
    demo_vectors_def demo_contract_def dict_item_def texts_are_def assert_text_def assert_true_def assert_false_def assert_entry_def
    length_is_def value_length_def strings_json_def CURSOR_CHAIN_def)

lemma demo_errors: "mapR (\<lambda>v. jitem v k) (map (\<lambda>e. JObj [(k, JStr e)]) es) = Inr (map JStr es)"
  by (induction es) simp_all

lemma demo_negatives: "check_sql_negatives demo_vectors = Inr ()"
proof -
  let ?es = "hd SQL_NEGATIVE_ERRORS # SQL_NEGATIVE_ERRORS"
  have "ditem demo_vectors ''sql_negative_vectors'' = Inr (JArr (map (\<lambda>e. JObj [(''expected_error'', JStr e)]) ?es))"
    by (simp add: demo_vectors_def)
  moreover have "length ?es = 14" by code_simp
  moreover have "values_set (map JStr ?es) = Inr (map JStr SQL_NEGATIVE_ERRORS)" by code_simp
  ultimately show ?thesis
    unfolding check_sql_negatives_def by (simp only: bindR_simps iter_values.simps demo_errors length_map assertR_simps same_strs simp_thms)
qed

lemma demo_cases: "ditem demo_vectors ''cases'' = Inr (JArr (map (\<lambda>i. JObj (demo_case i)) EXPECTED_CASE_IDS))"
    "dget demo_vectors ''cases'' = JArr (map (\<lambda>i. JObj (demo_case i)) EXPECTED_CASE_IDS)"
  by (simp_all add: demo_vectors_def)

lemma demo_vectors_accepted: "validate_durability_vectors demo_vectors = Inr ()"
proof -
  have "values_set (map JStr EXPECTED_CASE_IDS) = Inr (map JStr EXPECTED_CASE_IDS)"
    using expected_ids(1) by (simp add: values_set_def once_strs list_all_iff hashable_def)
  moreover have "foldR (\<lambda>_. check_vector_case) () (map demo_case EXPECTED_CASE_IDS) = Inr ()"
    by (simp add: foldR_checks demo_case_accepted)
  ultimately show ?thesis
    by (simp add: validate_durability_vectors_def Let_def demo_heads demo_negatives demo_cases demo_ids expected_ids demo_intent
      same_strs comp_def)
qed

lemma keyed_distinct:
  "foldR (kadd key) d0 xs = Inr (d0 @ map (\<lambda>x. (dget x key, x)) xs)"
  if "list_all (\<lambda>x. is_str (dget x key)) xs" and "distinct (map fst d0 @ map (\<lambda>x. dget x key) xs)" and "list_all is_str (map fst d0)"
  using that
proof (induction xs arbitrary: d0)
  case (Cons x xs)
  from Cons.prems obtain s where s: "dget x key = JStr s" by (cases "dget x key") auto
  have put: "JStr s \<notin> set (map fst d) \<Longrightarrow> kput (JStr s) x d = d @ [(JStr s, x)]" for d
    by (induction d) (auto simp: py_eq_str)
  from Cons.prems s have "kadd key d0 x = Inr (d0 @ [(JStr s, x)])"
    by (auto simp: kadd_def hashable_def intro!: put)
  moreover from Cons.prems s have "foldR (kadd key) (d0 @ [(JStr s, x)]) xs = Inr ((d0 @ [(JStr s, x)]) @ map (\<lambda>x. (dget x key, x)) xs)"
    by (intro Cons.IH) auto
  ultimately show ?case using s by simp
qed simp

lemma kget_distinct: "i \<in> set ids \<Longrightarrow> (\<forall>j \<in> set ids. dget (f j) key = JStr j) \<Longrightarrow>
    kget (map (\<lambda>x. (dget x key, x)) (map f ids)) (JStr i) = Some (f i)"
  by (induction ids) (auto simp: kget_def py_eq_str)

lemma demo_mapped: "(n, i) \<in> set es \<Longrightarrow> distinct (map snd es) \<Longrightarrow>
    kget (map (\<lambda>x. (dget x ''vector_id'', x)) (map demo_harness_entry es)) (JStr i) = Some (demo_harness_entry (n, i))"
proof (induction es)
  case (Cons e es)
  then show ?case by (cases e) (force simp: kget_def demo_harness_entry_def py_eq_str)
qed simp

lemma demo_case_eq: "py_eq (JObj (demo_case a)) (JObj (demo_case b)) \<longleftrightarrow> a = b"
  by (cases "a = b") (simp_all add: demo_case_def demo_observed_def Let_def)

lemma demo_index: "distinct ids \<Longrightarrow> n < length ids \<Longrightarrow> index_of (map (\<lambda>i. JObj (demo_case i)) ids) (JObj (demo_case (ids ! n))) = n"
proof (induction ids arbitrary: n)
  case (Cons i ids)
  then show ?case by (cases n) (auto simp: demo_case_eq simp del: py_eq.simps)
qed simp

definition demo_harnesses :: "(json \<times> obj) list" where
  "demo_harnesses = map (\<lambda>h. (JStr h, [(''harness'', JStr h)])) [''sqlite'', ''indexeddb'', ''loopback'', ''gap'', ''destruction'']"

lemma demo_zip: "n < 46 \<Longrightarrow> (n, EXPECTED_CASE_IDS ! n) \<in> set (zip [0..<46] EXPECTED_CASE_IDS)"
  unfolding in_set_zip using expected_ids(2) by (intro exI [of _ n]) simp

lemma demo_crash_case:
  assumes "n < 46"
  shows "check_crash_case (map (\<lambda>i. JObj (demo_case i)) EXPECTED_CASE_IDS) demo_harnesses
    (map (\<lambda>x. (dget x ''vector_id'', x)) (map demo_harness_entry (zip [0..<46] EXPECTED_CASE_IDS)))
    (JStr (EXPECTED_CASE_IDS ! n), demo_case (EXPECTED_CASE_IDS ! n)) = Inr ()"
proof -
  let ?i = "EXPECTED_CASE_IDS ! n"
  have "(n, ?i) \<in> set (zip [0..<46] EXPECTED_CASE_IDS)" using assms by (rule demo_zip)
  moreover have "distinct (map snd (zip [0..<46] EXPECTED_CASE_IDS))" using expected_ids by simp
  ultimately have m: "kget (map (\<lambda>x. (dget x ''vector_id'', x)) (map demo_harness_entry (zip [0..<46] EXPECTED_CASE_IDS))) (JStr ?i) =
    Some (demo_harness_entry (n, ?i))" by (rule demo_mapped)
  have o: "py_eq (JObj (demo_observed ?i)) (JObj (demo_observed ?i))" by (simp add: demo_observed_def Let_def)
  have h: "kget demo_harnesses (JStr ''sqlite'') \<noteq> None" by code_simp
  have "index_of (map (\<lambda>i. JObj (demo_case i)) EXPECTED_CASE_IDS) (JObj (demo_case ?i)) = n"
    using expected_ids assms by (intro demo_index) simp_all
  with o h show ?thesis
    by (simp add: check_crash_case_def m refuse_if_Inr crash_entry_invalid_def anyR_eq_False demo_harness_entry_def demo_case_items
      hashable_def text_starting_def starts_with_def strip_def is_blank_def del: py_eq.simps(4) map_map)
qed

lemma demo_harness_registry_accepted:
  "validate_crash_harness_registry demo_harness_registry demo_children demo_vectors =
   Inr [(''result'', JStr ''PASS''), (''case_count'', JInt 46), (''harness_count'', JInt 5)]"
proof -
  let ?source = "map (\<lambda>x. (dget x ''id'', x)) (map demo_case EXPECTED_CASE_IDS)"
  let ?entries = "map demo_harness_entry (zip [0..<46] EXPECTED_CASE_IDS)"
  let ?mapped = "map (\<lambda>x. (dget x ''vector_id'', x)) ?entries"
  have cases: "dicts (map (\<lambda>i. JObj (demo_case i)) EXPECTED_CASE_IDS) = map demo_case EXPECTED_CASE_IDS"
    by (simp add: dicts_def comp_def filter_map)
  have entries: "dget demo_harness_registry ''entries'' = JArr (map JObj ?entries)" "dicts (map JObj ?entries) = ?entries"
    by (simp_all add: demo_harness_registry_def dicts_def comp_def filter_map)
  have names: "map (\<lambda>x. dget x ''vector_id'') ?entries = map JStr EXPECTED_CASE_IDS"
    using expected_ids(2) by (intro nth_equalityI) (simp_all add: demo_harness_entry_def)
  have "keyed ''id'' (map demo_case EXPECTED_CASE_IDS) = Inr ([] @ ?source)" unfolding keyed_def
    using expected_ids(1) by (intro keyed_distinct) (simp_all add: list_all_iff demo_case_items comp_def distinct_map inj_on_def)
  moreover have "keyed ''vector_id'' ?entries = Inr ([] @ ?mapped)" unfolding keyed_def
    using expected_ids(1) names
    by (intro keyed_distinct) (auto simp: list_all_iff demo_harness_entry_def distinct_map inj_on_def simp del: map_map)
  moreover have "same_keys ?source ?mapped"
  proof -
    have "kget ?source (JStr i) \<noteq> None" if "i \<in> set EXPECTED_CASE_IDS" for i
      using kget_distinct [of i EXPECTED_CASE_IDS demo_case "''id''"] that by (simp add: demo_case_items)
    moreover have "kget ?mapped (JStr i) \<noteq> None" if "i \<in> set EXPECTED_CASE_IDS" for i
    proof -
      from that obtain n where "n < 46" "i = EXPECTED_CASE_IDS ! n" using expected_ids(2) by (metis in_set_conv_nth)
      then have "(n, i) \<in> set (zip [0..<46] EXPECTED_CASE_IDS)" using demo_zip by simp
      with demo_mapped [of n i "zip [0..<46] EXPECTED_CASE_IDS"] expected_ids show ?thesis by simp
    qed
    ultimately show ?thesis
      by (auto simp: same_keys_def list_all_iff demo_case_items demo_harness_entry_def dest!: set_zip_rightD simp del: map_map)
  qed
  moreover have "keyed ''harness'' (filter (\<lambda>d. is_str (dget d ''harness'')) (dicts (the_list (dget demo_children ''entries'')))) = Inr demo_harnesses"
    by code_simp
  moreover have "foldR (\<lambda>_. check_crash_case (map (\<lambda>i. JObj (demo_case i)) EXPECTED_CASE_IDS) demo_harnesses ?mapped) () ?source = Inr ()"
    using demo_crash_case expected_ids(2) by (auto simp: foldR_checks demo_case_items in_set_conv_nth simp del: map_map)
  moreover have "length demo_harnesses = 5" "is_list (dget demo_children ''entries'')" "length (the_list (dget demo_children ''entries'')) = 5"
    by code_simp+
  moreover have "dget demo_harness_registry ''source_case_count'' = JInt 46" "dget demo_harness_registry ''mapped_case_count'' = JInt 46"
    by (simp_all add: demo_harness_registry_def)
  ultimately show ?thesis
    using expected_ids(2)
    by (simp add: validate_crash_harness_registry_def Let_def demo_cases entries cases del: map_map)
qed

theorem every_expected_crash_is_injected_witness:
  "\<exists>c. JObj c \<in> set (the_list (dget demo_vectors ''cases'')) \<and> dget c ''id'' = JStr ''GAP-01-AFTER-GAP-INSERT'' \<and>
     injected demo_harness_registry demo_children c ''GAP-01-AFTER-GAP-INSERT'' \<and> nothing_committed (the_dict (dget c ''expected''))"
proof -
  have "''GAP-01-AFTER-GAP-INSERT'' \<in> set EXPECTED_CASE_IDS" and "''GAP-01-AFTER-GAP-INSERT'' \<in> set (take 8 GAP_CASE_IDS)"
    by code_simp+
  with every_expected_crash_is_injected [OF demo_vectors_accepted demo_harness_registry_accepted] show ?thesis by blast
qed

end
