(* ===== verification/Pack_Verifier.thy ===== *)
theory Pack_Verifier
  imports Json_Order Materialization Task_Props
begin

text \<open>
  The packs of \<^verbatim>\<open>src/moj_discovery/pack_verifier.py\<close>: a directory of plain files with a manifest that lists
  every other file with its size and hash, and archives that hold exactly a verified pack. The directory is a value,
  as \<^verbatim>\<open>lstat\<close> and \<^verbatim>\<open>scandir\<close> show it; zip archives are read and written by parameters. Texts have code points
  below 256, and the order of names by their UTF-8 bytes is the order of their code points.
\<close>

section \<open>Paths\<close>

definition PACK_DIRECTORY_NAME :: string where
  "PACK_DIRECTORY_NAME = ''hybrid-discovery-v6.2''"

definition ARCHIVE_BASENAME :: string where
  "ARCHIVE_BASENAME = ''hybrid-discovery-v6.2.zip''"

definition MANIFEST_PATH :: string where
  "MANIFEST_PATH = ''MANIFEST_SHA256.json''"

definition MAX_MANIFEST_SIZE_BYTES :: int where
  "MAX_MANIFEST_SIZE_BYTES = 9007199254740991"

definition pack_error :: "string \<Rightarrow> exn" where
  "pack_error code = ValueError (''E_PACK:'' @ code)"

definition portable_char :: "char \<Rightarrow> bool" where
  "portable_char c = (let n = (of_char c :: nat) in
     (48 \<le> n \<and> n \<le> 57) \<or> (65 \<le> n \<and> n \<le> 90) \<or> (97 \<le> n \<and> n \<le> 122) \<or> c \<in> set ''._/-'')"

text \<open>\<open>PurePosixPath(value).as_posix()\<close> of a relative path.\<close>

definition posix_text :: "string \<Rightarrow> string" where
  "posix_text value = (if posix_parts value = [] then ''.'' else join ''/'' (posix_parts value))"

text \<open>\<open>_valid_repo_path\<close>. No text of the model has a byte order mark; the parts never are empty or dots.\<close>

definition valid_repo_path :: "ext \<Rightarrow> string \<Rightarrow> bool" where
  "valid_repo_path X value =
     (value \<noteq> [] \<and> CHR 0x5C \<notin> set value \<and> CHR 0x00 \<notin> set value \<and> nfc X value = value \<and> \<not> starts_with value ''/'' \<and>
      posix_text value = value \<and> ''..'' \<notin> set (posix_parts value))"

definition safe_relative_path :: "ext \<Rightarrow> string \<Rightarrow> string res" where
  "safe_relative_path X value =
     bindR (raise_if (CHR 0x5C \<in> set value \<or> CHR 0x00 \<in> set value \<or> nfc X value \<noteq> value \<or> value = [] \<or>
       \<not> list_all portable_char value) (pack_error ''ARCHIVE_PATH'')) (\<lambda>_.
     bindR (raise_if (starts_with value ''/'' \<or> posix_parts value = [] \<or> posix_text value \<noteq> value \<or> ''..'' \<in> set (posix_parts value))
       (pack_error ''ARCHIVE_PATH'')) (\<lambda>_. Inr value))"

section \<open>Files of a directory\<close>

text \<open>A plain file has a number of links, a size and the bytes that reading it gives, if it can be read.\<close>

datatype entry =
    Regular nat nat "string option"
  | Directory "(string \<times> entry) list"
  | Symlink
  | Special
  | Unreadable

lemma size_child: "(name, child) \<in> set children \<Longrightarrow> size child < size (Directory children)"
proof -
  assume "(name, child) \<in> set children"
  then have "size child \<le> size_list (size_prod (\<lambda>_. 0) size) children" by (intro size_list_estimation' [of "(name, child)"]) auto
  then show ?thesis by simp
qed

lemma mapR_cong [fundef_cong]: "xs = ys \<Longrightarrow> (\<And>x. x \<in> set ys \<Longrightarrow> f x = g x) \<Longrightarrow> mapR f xs = mapR g ys"
  by (induction xs arbitrary: ys) auto

text \<open>\<open>_source_files\<close>: \<open>visit\<close> of one entry, the entries of a directory in the order of their names.\<close>

function visit_entry :: "ext \<Rightarrow> string \<Rightarrow> entry \<Rightarrow> (string \<times> string) list res" where
  "visit_entry X text e =
     bindR (safe_relative_path X text) (\<lambda>relative. case e of
         Regular links n content \<Rightarrow>
           if links \<noteq> 1 then Inl (pack_error ''SOURCE_HARDLINK'')
           else (case content of
               None \<Rightarrow> Inl (pack_error ''SOURCE_TYPE'')
             | Some bytes \<Rightarrow> if length bytes \<noteq> n then Inl (pack_error ''SOURCE_CHANGED'') else Inr [(relative, bytes)])
       | Directory children \<Rightarrow>
           bindR (mapR (\<lambda>(name, child). visit_entry X (relative @ ''/'' @ name) child) (sort_key fst children)) (\<lambda>fss. Inr (concat fss))
       | _ \<Rightarrow> Inl (pack_error ''SOURCE_TYPE''))"
  by auto
termination
  by (relation "measure (\<lambda>(X, text, e). size e)") (auto simp del: entry.size dest: size_child)

declare visit_entry.simps [simp del]

definition source_files :: "ext \<Rightarrow> string \<Rightarrow> entry \<Rightarrow> (string \<times> string) list res" where
  "source_files X name pack = (case pack of
      Directory children \<Rightarrow>
        if name \<noteq> PACK_DIRECTORY_NAME then Inl (pack_error ''SOURCE_TYPE'')
        else bindR (mapR (\<lambda>(text, child). visit_entry X text child) (sort_key fst children)) (\<lambda>fss. Inr (concat fss))
    | _ \<Rightarrow> Inl (pack_error ''SOURCE_TYPE''))"

section \<open>Manifests\<close>

type_synonym declared_file = "string \<times> int \<times> string"

text \<open>\<^verbatim>\<open>except ValueError as error: raise ValueError(code)\<close>.\<close>

definition value_error_as :: "exn \<Rightarrow> 'a res \<Rightarrow> 'a res" where
  "value_error_as raised m = (case m of
      Inl e \<Rightarrow> Inl (if value_error_text e \<noteq> None then raised else e)
    | Inr x \<Rightarrow> Inr x)"

definition sha_text :: "json \<Rightarrow> bool" where
  "sha_text v = (case v of JStr s \<Rightarrow> hex64 s | _ \<Rightarrow> False)"

lemma sha_text_hex: "sha_text v \<Longrightarrow> hex64 (the_str v)"
  by (cases v) (simp_all add: sha_text_def)

definition declare_step :: "ext \<Rightarrow> declared_file list \<Rightarrow> json \<Rightarrow> declared_file list res" where
  "declare_step X declared item =
     bindR (raise_if (\<not> is_dict item \<or> \<not> keys_eq (the_dict item) [''path'', ''size_bytes'', ''sha256'']) (pack_error ''MANIFEST'')) (\<lambda>_.
     (let path = dget (the_dict item) ''path''; n = dget (the_dict item) ''size_bytes''; digest = dget (the_dict item) ''sha256'' in
      bindR (raise_if (\<not> is_str path \<or> \<not> is_int n \<or> the_int n < 0 \<or> MAX_MANIFEST_SIZE_BYTES < the_int n \<or> \<not> sha_text digest)
        (pack_error ''MANIFEST'')) (\<lambda>_.
      bindR (safe_relative_path X (the_str path)) (\<lambda>relative.
      bindR (raise_if (relative = MANIFEST_PATH) (pack_error ''MANIFEST_SELF_REFERENCE'')) (\<lambda>_.
      bindR (raise_if (relative \<in> set (map fst declared)) (pack_error ''MANIFEST_DUPLICATE'')) (\<lambda>_.
        Inr (declared @ [(relative, the_int n, the_str digest)])))))))"

definition manifest_head_invalid :: "obj \<Rightarrow> bool" where
  "manifest_head_invalid m =
     (\<not> str_is (dget m ''schema_version'') ''pack-manifest/v1'' \<or> \<not> str_is (dget m ''pack_version'') ''6.2'' \<or>
      \<not> str_is (dget m ''self_excluded_path'') MANIFEST_PATH \<or> \<not> str_is (dget m ''production_authority'') ''NONE'' \<or>
      \<not> sha_text (dget m ''pack_hash'') \<or> \<not> sha_text (dget m ''implementation_baseline_hash'') \<or>
      \<not> is_list (dget m ''files'') \<or> the_list (dget m ''files'') = [] \<or> 4096 < length (the_list (dget m ''files'')))"

definition MANIFEST_FIELDS :: "string list" where
  "MANIFEST_FIELDS = [''schema_version'', ''pack_version'', ''pack_hash'', ''implementation_baseline_hash'', ''files'',
     ''self_excluded_path'', ''production_authority'']"

text \<open>One line of the preimage of the hash of the pack.\<close>

definition tree_line :: "declared_file \<Rightarrow> string" where
  "tree_line f = (case f of (relative, n, digest) \<Rightarrow>
     relative @ [CHR 0x00] @ str_int n @ [CHR 0x00] @ digest @ [CHR 0x0A])"

definition tree_preimage :: "declared_file list \<Rightarrow> string" where
  "tree_preimage declared = concat (map tree_line declared)"

definition check_file :: "ext \<Rightarrow> (string \<times> string) list \<Rightarrow> declared_file \<Rightarrow> unit res" where
  "check_file X files f = (case f of (relative, n, digest) \<Rightarrow>
     case map_of files relative of
       None \<Rightarrow> Inl (KeyError relative)
     | Some content \<Rightarrow> raise_if (int (length content) \<noteq> n \<or> sha256 X content \<noteq> digest) (pack_error (''FILE:'' @ relative)))"

definition verify_manifest :: "ext \<Rightarrow> (string \<times> string) list \<Rightarrow> string \<Rightarrow> unit res" where
  "verify_manifest X files manifest_bytes =
     bindR (value_error_as (pack_error ''MANIFEST'') (parse_strict_json X manifest_bytes)) (\<lambda>v.
     (let m = the_dict v in
      bindR (raise_if (\<not> is_dict v \<or> \<not> keys_eq m MANIFEST_FIELDS) (pack_error ''MANIFEST'')) (\<lambda>_.
      bindR (raise_if (manifest_head_invalid m) (pack_error ''MANIFEST'')) (\<lambda>_.
      bindR (foldR (declare_step X) [] (the_list (dget m ''files''))) (\<lambda>declared.
      bindR (jcs X v) (\<lambda>printed.
      bindR (raise_if (manifest_bytes \<noteq> printed @ [CHR 0x0A]) (pack_error ''MANIFEST_SERIALIZATION'')) (\<lambda>_.
      bindR (raise_if (\<not> sorted (map fst declared)) (pack_error ''MANIFEST_ORDER'')) (\<lambda>_.
      bindR (raise_if (set (map fst declared) \<noteq> set (map fst files) - {MANIFEST_PATH}) (pack_error ''MANIFEST_FILE_SET'')) (\<lambda>_.
      bindR (foldR (\<lambda>_. check_file X files) () declared) (\<lambda>_.
        raise_if (JStr (sha256 X (tree_preimage declared)) \<noteq> dget m ''pack_hash'') (pack_error ''MANIFEST_HASH'')))))))))))"

definition verify_pack :: "ext \<Rightarrow> string \<Rightarrow> entry \<Rightarrow> (string \<times> string) list res" where
  "verify_pack X name pack =
     bindR (source_files X name pack) (\<lambda>files. case map_of files MANIFEST_PATH of
         None \<Rightarrow> Inl (pack_error ''MANIFEST'')
       | Some manifest_bytes \<Rightarrow> bindR (verify_manifest X files manifest_bytes) (\<lambda>_. Inr files))"

section \<open>Writing the manifest\<close>

definition file_item :: "ext \<Rightarrow> string \<times> string \<Rightarrow> json" where
  "file_item X f = JObj [(''path'', JStr (fst f)), (''sha256'', JStr (sha256 X (snd f))), (''size_bytes'', JInt (int (length (snd f))))]"

definition declared_of :: "ext \<Rightarrow> string \<times> string \<Rightarrow> declared_file" where
  "declared_of X f = (fst f, int (length (snd f)), sha256 X (snd f))"

definition built_manifest :: "ext \<Rightarrow> string \<Rightarrow> (string \<times> string) list \<Rightarrow> obj" where
  "built_manifest X baseline_hash files =
     (let ordered = sort_key fst files in
      [(''files'', JArr (map (file_item X) ordered)), (''implementation_baseline_hash'', JStr baseline_hash),
       (''pack_hash'', JStr (sha256 X (tree_preimage (map (declared_of X) ordered)))), (''pack_version'', JStr ''6.2''),
       (''production_authority'', JStr ''NONE''), (''schema_version'', JStr ''pack-manifest/v1''),
       (''self_excluded_path'', JStr MANIFEST_PATH)])"

definition baseline_tree_root :: "json \<Rightarrow> string res" where
  "baseline_tree_root v =
     bindR (raise_if (\<not> is_dict v \<or> \<not> str_is (dget (the_dict v) ''schema_version'') ''repo0-baseline-receipt/v1'' \<or>
       \<not> sha_text (dget (the_dict v) ''independent_file_tree_root_sha256'') \<or>
       \<not> str_is (dget (the_dict v) ''production_authority'') ''NONE'') (pack_error ''BASELINE_RECEIPT'')) (\<lambda>_.
     Inr (the_str (dget (the_dict v) ''independent_file_tree_root_sha256'')))"

text \<open>\<open>write_pack_manifest\<close>: the result and the directory after it. The receipt path is relative to the pack; reading it
  gives \<open>receipt_bytes\<close>.\<close>

definition manifest_content :: "ext \<Rightarrow> string \<Rightarrow> (string \<times> entry) list \<Rightarrow> string \<Rightarrow> string res \<Rightarrow> (string \<times> string) res" where
  "manifest_content X name children receipt_path receipt_bytes =
     bindR (raise_if (name \<noteq> PACK_DIRECTORY_NAME \<or> receipt_path \<noteq> ''docs/receipts/repo0-baseline-receipt.json'')
       (pack_error ''MANIFEST_PATH'')) (\<lambda>_.
     bindR (raise_if (MANIFEST_PATH \<in> set (map fst children)) (pack_error ''MANIFEST_EXISTS'')) (\<lambda>_.
     bindR (bindR receipt_bytes (parse_strict_json X)) (\<lambda>receipt.
     bindR (baseline_tree_root receipt) (\<lambda>baseline_hash.
     bindR (source_files X name (Directory children)) (\<lambda>files.
     (let manifest = built_manifest X baseline_hash files in
      bindR (jcs X (JObj manifest)) (\<lambda>printed. Inr (printed @ [CHR 0x0A], the_str (dget manifest ''pack_hash'')))))))))"

definition write_pack_manifest ::
  "ext \<Rightarrow> string \<Rightarrow> (string \<times> entry) list \<Rightarrow> string \<Rightarrow> string res \<Rightarrow> string res \<times> (string \<times> entry) list" where
  "write_pack_manifest X name children receipt_path receipt_bytes =
     (case manifest_content X name children receipt_path receipt_bytes of
        Inl e \<Rightarrow> (Inl e, children)
      | Inr (content, pack_hash) \<Rightarrow>
          (let written = children @ [(MANIFEST_PATH, Regular 1 (length content) (Some content))] in
           (bindR (verify_pack X name (Directory written)) (\<lambda>_. Inr pack_hash), written)))"

section \<open>Archives\<close>

record zip_info =
  zi_filename :: string
  zi_date_time :: "nat list"
  zi_compress_type :: int
  zi_create_system :: int
  zi_create_version :: int
  zi_extract_version :: int
  zi_flag_bits :: int
  zi_internal_attr :: int
  zi_external_attr :: int
  zi_volume :: int
  zi_extra :: string
  zi_comment :: string
  zi_file_size :: nat
  zi_compress_size :: nat
  zi_crc :: nat

text \<open>The zip library: an archive opens to its comment and its members, unless its format is bad; reading a member may fail;
  members with their contents are written to bytes.\<close>

record zip_library =
  zl_open :: "string \<Rightarrow> (string \<times> zip_info list) option"
  zl_read :: "string \<Rightarrow> zip_info \<Rightarrow> string option"
  zl_write :: "(zip_info \<times> string) list \<Rightarrow> string"
  zl_crc32 :: "string \<Rightarrow> nat"

definition ZIP_TIMESTAMP :: "nat list" where
  "ZIP_TIMESTAMP = [1980, 1, 1, 0, 0, 0]"

text \<open>\<^verbatim>\<open>(stat.S_IFREG | 0o644) << 16\<close>.\<close>

definition ZIP_EXTERNAL_ATTR :: int where
  "ZIP_EXTERNAL_ATTR = 33188 * 65536"

definition member_info :: "zip_library \<Rightarrow> string \<Rightarrow> string \<times> string \<Rightarrow> zip_info" where
  "member_info Z name f =
     \<lparr>zi_filename = name @ ''/'' @ fst f, zi_date_time = ZIP_TIMESTAMP, zi_compress_type = 0, zi_create_system = 3,
      zi_create_version = 20, zi_extract_version = 20, zi_flag_bits = 0, zi_internal_attr = 0, zi_external_attr = ZIP_EXTERNAL_ATTR,
      zi_volume = 0, zi_extra = [], zi_comment = [], zi_file_size = length (snd f), zi_compress_size = length (snd f),
      zi_crc = zl_crc32 Z (snd f)\<rparr>"

definition archive_bytes :: "zip_library \<Rightarrow> string \<Rightarrow> (string \<times> string) list \<Rightarrow> string" where
  "archive_bytes Z name expected = zl_write Z (map (\<lambda>f. (member_info Z name f, snd f)) (sort_key fst expected))"

definition metadata_differs :: "zip_info \<Rightarrow> bool" where
  "metadata_differs i =
     (zi_date_time i \<noteq> ZIP_TIMESTAMP \<or> zi_compress_type i \<noteq> 0 \<or> zi_create_system i \<noteq> 3 \<or> zi_create_version i \<noteq> 20 \<or>
      zi_extract_version i \<noteq> 20 \<or> zi_flag_bits i \<noteq> 0 \<or> zi_internal_attr i \<noteq> 0 \<or> zi_external_attr i \<noteq> ZIP_EXTERNAL_ATTR \<or>
      zi_volume i \<noteq> 0 \<or> zi_extra i \<noteq> [] \<or> zi_comment i \<noteq> [])"

text \<open>The first loop: the names, each below the directory of the pack.\<close>

definition name_step :: "ext \<Rightarrow> string list \<Rightarrow> zip_info \<Rightarrow> string list res" where
  "name_step X seen i =
     (let filename = zi_filename i in
      bindR (raise_if (filename \<in> set seen) (pack_error ''ARCHIVE_DUPLICATE'')) (\<lambda>_.
      bindR (raise_if (ends_with filename ''/'') (pack_error ''ARCHIVE_FILE_SET'')) (\<lambda>_.
      bindR (safe_relative_path X filename) (\<lambda>p.
      bindR (raise_if (posix_parts p = [] \<or> hd (posix_parts p) \<noteq> PACK_DIRECTORY_NAME \<or> tl (posix_parts p) = [])
        (pack_error ''ARCHIVE_PATH'')) (\<lambda>_. Inr (filename # seen))))))"

definition relative_name :: "zip_info \<Rightarrow> string" where
  "relative_name i = join ''/'' (tl (posix_parts (zi_filename i)))"

text \<open>The second loop: metadata, sizes and checksum of a member, and its content.\<close>

definition member_step ::
  "zip_library \<Rightarrow> string \<Rightarrow> (string \<times> string) list \<Rightarrow> (string \<times> string) list \<Rightarrow> zip_info \<Rightarrow> (string \<times> string) list res" where
  "member_step Z bytes expected archived i =
     bindR (raise_if (metadata_differs i) (pack_error ''ARCHIVE_METADATA'')) (\<lambda>_.
     case map_of expected (relative_name i) of
       None \<Rightarrow> Inl (pack_error ''ARCHIVE_FILE_SET'')
     | Some content \<Rightarrow>
         bindR (raise_if (zi_file_size i \<noteq> length content \<or> zi_compress_size i \<noteq> length content \<or> zl_crc32 Z content \<noteq> zi_crc i)
           (pack_error ''ARCHIVE_INTEGRITY'')) (\<lambda>_.
         case zl_read Z bytes i of
           None \<Rightarrow> Inl (pack_error ''ARCHIVE_FORMAT'')
         | Some c \<Rightarrow> Inr ((relative_name i, c) # archived)))"

definition members_of :: "zip_library \<Rightarrow> ext \<Rightarrow> string \<Rightarrow> (string \<times> string) list \<Rightarrow> (string \<times> string) list res" where
  "members_of Z X bytes expected = (case zl_open Z bytes of
      None \<Rightarrow> Inl (pack_error ''ARCHIVE_FORMAT'')
    | Some (comment, infos) \<Rightarrow>
        bindR (raise_if (comment \<noteq> []) (pack_error ''ARCHIVE_METADATA'')) (\<lambda>_.
        bindR (foldR (name_step X) [] infos) (\<lambda>_.
        bindR (raise_if (map zi_filename infos \<noteq> map (\<lambda>f. PACK_DIRECTORY_NAME @ ''/'' @ fst f) (sort_key fst expected))
          (pack_error ''ARCHIVE_FILE_SET'')) (\<lambda>_.
          foldR (member_step Z bytes expected) [] infos))))"

text \<open>\<open>verify_pack_archive\<close>: the archive and its sidecar as \<open>lstat\<close> shows them, \<open>None\<close> where it fails.\<close>

definition plain_content :: "exn \<Rightarrow> entry option \<Rightarrow> string res" where
  "plain_content raised e = (case e of
      Some (Regular links n (Some bytes)) \<Rightarrow> bindR (raise_if (links \<noteq> 1) raised) (\<lambda>_. Inr bytes)
    | _ \<Rightarrow> Inl raised)"

definition sidecar_text :: "ext \<Rightarrow> string \<Rightarrow> string" where
  "sidecar_text X bytes = sha256 X bytes @ ''  '' @ ARCHIVE_BASENAME @ [CHR 0x0A]"

definition verify_pack_archive ::
  "zip_library \<Rightarrow> ext \<Rightarrow> string \<Rightarrow> entry \<Rightarrow> string \<Rightarrow> entry option \<Rightarrow> entry option \<Rightarrow> unit res" where
  "verify_pack_archive Z X name pack archive_name archive sidecar =
     bindR (raise_if (archive_name \<noteq> ARCHIVE_BASENAME) (pack_error ''ARCHIVE_NAME'')) (\<lambda>_.
     bindR (verify_pack X name pack) (\<lambda>expected.
     bindR (plain_content (pack_error ''ARCHIVE_FORMAT'') archive) (\<lambda>bytes.
     bindR (plain_content (pack_error ''SIDECAR'') sidecar) (\<lambda>sidecar_bytes.
     bindR (raise_if (sidecar_bytes \<noteq> sidecar_text X bytes) (pack_error ''SIDECAR'')) (\<lambda>_.
     bindR (members_of Z X bytes expected) (\<lambda>archived.
     bindR (raise_if (set (map fst archived) \<noteq> set (map fst expected)) (pack_error ''ARCHIVE_FILE_SET'')) (\<lambda>_.
     bindR (raise_if (list_ex (\<lambda>(n, content). map_of archived n \<noteq> Some content) expected) (pack_error ''ARCHIVE_BYTES'')) (\<lambda>_.
       raise_if (bytes \<noteq> archive_bytes Z name expected) (pack_error ''ARCHIVE_REBUILD'')))))))))"

text \<open>\<open>build_pack_archive\<close>: the result, and the archive and sidecar after it. \<open>inside\<close>: the resolved archive is the resolved
  pack or below it.\<close>

definition build_pack_archive ::
  "zip_library \<Rightarrow> ext \<Rightarrow> string \<Rightarrow> entry \<Rightarrow> string \<Rightarrow> bool \<Rightarrow> entry option \<times> entry option \<Rightarrow>
   string res \<times> entry option \<times> entry option" where
  "build_pack_archive Z X name pack archive_name inside old =
     (case bindR (raise_if (archive_name \<noteq> ARCHIVE_BASENAME) (pack_error ''ARCHIVE_NAME'')) (\<lambda>_.
           bindR (raise_if inside (pack_error ''ARCHIVE_PATH'')) (\<lambda>_. verify_pack X name pack)) of
        Inl e \<Rightarrow> (Inl e, old)
      | Inr expected \<Rightarrow>
          (let content = archive_bytes Z name expected; text = sidecar_text X content;
               archive = Some (Regular 1 (length content) (Some content)); sidecar = Some (Regular 1 (length text) (Some text)) in
           (bindR (verify_pack_archive Z X name pack archive_name archive sidecar) (\<lambda>_. Inr (sha256 X content)), archive, sidecar)))"

section \<open>What a verified pack is\<close>

lemma safe_path_Inr: "safe_relative_path X v = Inr r \<Longrightarrow> r = v \<and> v \<noteq> [] \<and> list_all portable_char v \<and> nfc X v = v"
  by (auto simp: safe_relative_path_def)

lemma portable_not_nul: "list_all portable_char s \<Longrightarrow> CHR 0x00 \<notin> set s"
  by (auto simp: list_all_iff portable_char_def)

definition file_ok :: "declared_file \<Rightarrow> bool" where
  "file_ok f \<longleftrightarrow> CHR 0x00 \<notin> set (fst f) \<and> 0 \<le> fst (snd f) \<and> length (snd (snd f)) = 64"

lemma declare_step_Inr:
  assumes "declare_step X declared item = Inr declared'"
  shows "\<exists>f. declared' = declared @ [f] \<and> file_ok f"
proof -
  from assms have s: "sha_text (dget (the_dict item) ''sha256'')" and n: "0 \<le> the_int (dget (the_dict item) ''size_bytes'')"
    by (auto simp: declare_step_def Let_def)
  from assms obtain r where "safe_relative_path X (the_str (dget (the_dict item) ''path'')) = Inr r"
    and d: "declared' = declared @ [(r, the_int (dget (the_dict item) ''size_bytes''), the_str (dget (the_dict item) ''sha256''))]"
    by (auto simp: declare_step_def Let_def)
  with safe_path_Inr have "CHR 0x00 \<notin> set r" using portable_not_nul by blast
  moreover from s have "length (the_str (dget (the_dict item) ''sha256'')) = 64"
    by (auto simp: sha_text_def hex64_def split: json.splits)
  ultimately show ?thesis using n d by (auto simp: file_ok_def)
qed

lemma declared_ok: "foldR (declare_step X) acc items = Inr declared \<Longrightarrow> list_all file_ok acc \<Longrightarrow> list_all file_ok declared"
proof (induction items arbitrary: acc)
  case (Cons item items)
  then obtain acc' where "declare_step X acc item = Inr acc'" and rest: "foldR (declare_step X) acc' items = Inr declared" by auto
  with declare_step_Inr obtain f where "acc' = acc @ [f]" "file_ok f" by blast
  with Cons.IH [OF rest] Cons.prems(2) show ?case by simp
qed simp

lemma verified_manifest:
  assumes "verify_manifest X files manifest_bytes = Inr u"
  obtains m declared where "parse_strict_json X manifest_bytes = Inr (JObj m)"
    and "foldR (declare_step X) [] (the_list (dget m ''files'')) = Inr declared"
    and "set (map fst declared) = set (map fst files) - {MANIFEST_PATH}" and "\<forall>f \<in> set declared. check_file X files f = Inr ()"
    and "dget m ''pack_hash'' = JStr (sha256 X (tree_preimage declared))"
proof -
  from assms show thesis
    unfolding verify_manifest_def Let_def
  proof (elim bindR_E, goal_cases)
    case (1 v u1 u2 declared printed u3 u4 u5 u6)
    then have "parse_strict_json X manifest_bytes = Inr (JObj (the_dict v))"
      by (cases v) (auto simp: value_error_as_def split: sum.splits)
    with 1 show thesis by (intro that [of "the_dict v" declared]) (simp_all add: foldR_checks)
  qed
qed

lemma verified_pack:
  assumes "verify_pack X name pack = Inr files"
  obtains manifest_bytes where "map_of files MANIFEST_PATH = Some manifest_bytes" and "verify_manifest X files manifest_bytes = Inr ()"
  using assms by (auto simp: verify_pack_def split: option.splits)

section \<open>The hash commits to the files\<close>

lemma cut_at: "c \<notin> set a \<Longrightarrow> c \<notin> set b \<Longrightarrow> a @ c # x = b @ c # y \<Longrightarrow> a = b \<and> x = y"
proof (induction a arbitrary: b)
  case Nil
  then show ?case by (cases b) auto
next
  case (Cons d a)
  then show ?case by (cases b) auto
qed

lemma str_int_not_nul: "0 \<le> n \<Longrightarrow> CHR 0x00 \<notin> set (str_int n)"
  using str_nat_digits [of "CHR 0x00"] by (auto simp: str_int_def is_digit_def)

lemma tree_line_inject:
  assumes "file_ok f" "file_ok g" and "tree_line f @ xs = tree_line g @ ys"
  shows "f = g \<and> xs = ys"
proof -
  obtain p n d q m e where f: "f = (p, n, d)" and g: "g = (q, m, e)" by (metis prod.collapse)
  from assms have "p @ CHR 0x00 # (str_int n @ CHR 0x00 # (d @ CHR 0x0A # xs)) = q @ CHR 0x00 # (str_int m @ CHR 0x00 # (e @ CHR 0x0A # ys))"
    by (simp add: f g tree_line_def)
  with assms have p: "p = q" and "str_int n @ CHR 0x00 # (d @ CHR 0x0A # xs) = str_int m @ CHR 0x00 # (e @ CHR 0x0A # ys)"
    using cut_at [of "CHR 0x00" p q] by (simp_all add: f g file_ok_def)
  with assms have n: "str_int n = str_int m" and "d @ CHR 0x0A # xs = e @ CHR 0x0A # ys"
    using cut_at [OF str_int_not_nul str_int_not_nul, of n m] by (simp_all add: f g file_ok_def)
  with assms have "d = e \<and> xs = ys" by (simp add: f g file_ok_def)
  with p n show ?thesis by (simp add: f g)
qed

lemma preimage_inject: "list_all file_ok fs \<Longrightarrow> list_all file_ok gs \<Longrightarrow> tree_preimage fs = tree_preimage gs \<Longrightarrow> fs = gs"
proof (induction fs arbitrary: gs)
  case Nil
  then show ?case by (cases gs) (auto simp: tree_preimage_def tree_line_def split: prod.splits)
next
  case (Cons f fs)
  then obtain g gs' where gs: "gs = g # gs'" by (cases gs) (auto simp: tree_preimage_def tree_line_def split: prod.splits)
  with Cons.prems have "tree_line f @ tree_preimage fs = tree_line g @ tree_preimage gs'" by (simp add: tree_preimage_def)
  with tree_line_inject [of f g] Cons gs show ?case by simp
qed

text \<open>The hash that the manifest of a pack states.\<close>

definition stated_hash :: "ext \<Rightarrow> (string \<times> string) list \<Rightarrow> string" where
  "stated_hash X files = (case map_of files MANIFEST_PATH of
      None \<Rightarrow> []
    | Some bytes \<Rightarrow> (case parse_strict_json X bytes of Inl e \<Rightarrow> [] | Inr v \<Rightarrow> the_str (dget (the_dict v) ''pack_hash'')))"

text \<open>The files that it declares: the hash that it states is the one of their lines.\<close>

definition stated_files :: "ext \<Rightarrow> (string \<times> string) list \<Rightarrow> declared_file list" where
  "stated_files X files = (case map_of files MANIFEST_PATH of
      None \<Rightarrow> []
    | Some bytes \<Rightarrow> (case parse_strict_json X bytes of
        Inl e \<Rightarrow> []
      | Inr v \<Rightarrow> (case foldR (declare_step X) [] (the_list (dget (the_dict v) ''files'')) of Inl e \<Rightarrow> [] | Inr declared \<Rightarrow> declared)))"

lemma stated_hash_verified:
  assumes "verify_pack X name pack = Inr files"
  shows "list_all file_ok (stated_files X files)" and "stated_hash X files = sha256 X (tree_preimage (stated_files X files))"
    and "set (map fst (stated_files X files)) = set (map fst files) - {MANIFEST_PATH}"
    and "\<forall>f \<in> set (stated_files X files). check_file X files f = Inr ()"
proof -
  from assms obtain manifest_bytes where b: "map_of files MANIFEST_PATH = Some manifest_bytes"
    and v: "verify_manifest X files manifest_bytes = Inr ()" by (rule verified_pack)
  from v obtain m declared where m: "parse_strict_json X manifest_bytes = Inr (JObj m)"
    and d: "foldR (declare_step X) [] (the_list (dget m ''files'')) = Inr declared"
    and s: "set (map fst declared) = set (map fst files) - {MANIFEST_PATH}" and c: "\<forall>f \<in> set declared. check_file X files f = Inr ()"
    and h: "dget m ''pack_hash'' = JStr (sha256 X (tree_preimage declared))"
    by (rule verified_manifest)
  have "stated_files X files = declared" by (simp add: stated_files_def b m d)
  with declared_ok [OF d] s c h show "list_all file_ok (stated_files X files)"
    "stated_hash X files = sha256 X (tree_preimage (stated_files X files))"
    "set (map fst (stated_files X files)) = set (map fst files) - {MANIFEST_PATH}"
    "\<forall>f \<in> set (stated_files X files). check_file X files f = Inr ()"
    by (simp_all add: stated_hash_def b m)
qed

text \<open>C36: two packs that verify and state the same hash hold the same files beside their manifests, byte for byte, unless SHA-256
  collides on texts of these packs: on their different contents of this file, or on the lines of their manifests.\<close>

theorem pack_hash_commits_to_the_files:
  assumes "verify_pack X name1 pack1 = Inr files1" and "verify_pack X name2 pack2 = Inr files2"
    and "stated_hash X files1 = stated_hash X files2" and "path \<noteq> MANIFEST_PATH"
  shows "map_of files1 path = map_of files2 path \<or>
    (\<exists>c1 c2. map_of files1 path = Some c1 \<and> map_of files2 path = Some c2 \<and> c1 \<noteq> c2 \<and> sha256 X c1 = sha256 X c2) \<or>
    tree_preimage (stated_files X files1) \<noteq> tree_preimage (stated_files X files2) \<and>
    sha256 X (tree_preimage (stated_files X files1)) = sha256 X (tree_preimage (stated_files X files2))"
proof (cases "tree_preimage (stated_files X files1) = tree_preimage (stated_files X files2)")
  case True
  note d1 = stated_hash_verified [OF assms(1)] and d2 = stated_hash_verified [OF assms(2)]
  have d: "stated_files X files2 = stated_files X files1" using preimage_inject [OF d1(1) d2(1) True] by simp
  show ?thesis
  proof (cases "path \<in> set (map fst (stated_files X files1))")
    case True
    then obtain n digest where "(path, n, digest) \<in> set (stated_files X files1)" by auto
    with d1(4) d2(4) d obtain c1 c2 where "map_of files1 path = Some c1" "map_of files2 path = Some c2" "sha256 X c1 = sha256 X c2"
      by (fastforce simp: check_file_def split: option.splits)
    then show ?thesis by (cases "c1 = c2") simp_all
  next
    case False
    with d1(3) d2(3) d assms(4) have "path \<notin> set (map fst files1)" "path \<notin> set (map fst files2)" by auto
    then show ?thesis by (metis map_of_eq_None_iff image_set)
  qed
qed (use stated_hash_verified(2) [OF assms(1)] stated_hash_verified(2) [OF assms(2)] assms(3) in simp)

section \<open>Written manifests verify\<close>

fun proper :: "entry \<Rightarrow> bool" where
  "proper (Directory children) = (distinct (map fst children) \<and> list_all (\<lambda>(name, child). CHR ''/'' \<notin> set name \<and> proper child) children)"
| "proper _ = True"

lemma mapR_all: "mapR f xs = Inr ys \<Longrightarrow> ys = map (\<lambda>x. projr (f x)) xs \<and> (\<forall>x \<in> set xs. f x = Inr (projr (f x)))"
  by (induction xs arbitrary: ys) auto

lemma mapR_total: "\<forall>x \<in> set xs. f x = Inr (g x) \<Longrightarrow> mapR f xs = Inr (map g xs)"
  by (induction xs) auto

text \<open>The files of a directory lie below its path, and their paths are different.\<close>

definition below_path :: "string \<Rightarrow> string \<Rightarrow> bool" where
  "below_path p text \<longleftrightarrow> p = text \<or> (\<exists>r. p = text @ CHR ''/'' # r)"

lemma below_path_apart:
  assumes "below_path p (t @ n)" "below_path p (t @ m)" "CHR ''/'' \<notin> set n" "CHR ''/'' \<notin> set m"
  shows "n = m"
proof -
  have first: "takeWhile (\<lambda>c. c \<noteq> CHR ''/'') (drop (length t) p) = k" if "below_path p (t @ k)" "CHR ''/'' \<notin> set k" for k
    using that by (auto simp: below_path_def takeWhile_append)
  from first [OF assms(1,3)] first [OF assms(2,4)] show ?thesis by simp
qed

lemma children_distinct:
  assumes "distinct (map fst cs)" and "\<forall>(n, c) \<in> set cs. CHR ''/'' \<notin> set n \<and> distinct (map fst (g (n, c))) \<and> (\<forall>f \<in> set (g (n, c)). below_path (fst f) (t @ n))"
  shows "distinct (map fst (concat (map g cs)))"
  using assms
proof (induction cs)
  case (Cons x cs)
  obtain n c where x: "x = (n, c)" by fastforce
  have "fst f \<noteq> fst h" if "f \<in> set (g x)" "y \<in> set cs" "h \<in> set (g y)" for f y h
  proof
    assume e: "fst f = fst h"
    obtain m d where y: "y = (m, d)" by fastforce
    from Cons.prems that x y have "below_path (fst f) (t @ n)" "below_path (fst h) (t @ m)" "CHR ''/'' \<notin> set n" "CHR ''/'' \<notin> set m" by auto
    with e below_path_apart have "n = m" by metis
    with Cons.prems(1) that(2) x y show False by (force simp: image_iff)
  qed
  then have "fst ` set (g x) \<inter> fst ` set (concat (map g cs)) = {}" by auto
  moreover have "distinct (map fst (concat (map g cs)))" using Cons by simp
  moreover have "distinct (map fst (g x))" using Cons.prems(2) x by auto
  ultimately show ?case by simp
qed simp

lemma visited_files:
  "visit_entry X path e = Inr fs \<Longrightarrow> proper e \<Longrightarrow>
   distinct (map fst fs) \<and> (\<forall>f \<in> set fs. below_path (fst f) path \<and> safe_relative_path X (fst f) = Inr (fst f))"
proof (induction X path e arbitrary: fs rule: visit_entry.induct)
  case (1 X path e)
  from "1.prems"(1) obtain r where r: "safe_relative_path X path = Inr r" by (subst (asm) visit_entry.simps) auto
  then have rt: "r = path" by (simp add: safe_path_Inr)
  show ?case
  proof (cases e)
    case (Regular links n content)
    with "1.prems"(1) r rt show ?thesis
      by (subst (asm) visit_entry.simps) (auto simp: below_path_def split: option.splits if_splits)
  next
    case (Directory cs)
    let ?f = "\<lambda>(name, child). visit_entry X (path @ ''/'' @ name) child"
    let ?g = "\<lambda>x. projr (?f x)"
    from "1.prems"(1) r rt Directory obtain fss where fss: "mapR ?f (sort_key fst cs) = Inr fss" "fs = concat fss"
      by (subst (asm) visit_entry.simps) auto
    from mapR_all [OF fss(1)] have g: "fss = map ?g (sort_key fst cs)" and ok: "\<forall>x \<in> set cs. ?f x = Inr (?g x)" by auto
    have each: "CHR ''/'' \<notin> set n \<and> distinct (map fst (?g (n, c))) \<and>
        (\<forall>f \<in> set (?g (n, c)). below_path (fst f) ((path @ ''/'') @ n) \<and> safe_relative_path X (fst f) = Inr (fst f))"
      if "(n, c) \<in> set cs" for n c
    proof -
      from "1.prems"(2) that Directory have "CHR ''/'' \<notin> set n" "proper c" by (auto simp: list_all_iff)
      moreover from ok that have "visit_entry X (path @ ''/'' @ n) c = Inr (?g (n, c))" by force
      ultimately show ?thesis
        using "1.IH" [OF r Directory, of "(n, c)" n c "?g (n, c)"] that rt by simp
    qed
    have m: "distinct (map fst (sort_key fst cs)) \<longleftrightarrow> distinct (map fst cs)"
      by (intro mset_eq_imp_distinct_iff) (simp only: mset_map mset_sort)
    have "distinct (map fst (concat (map ?g (sort_key fst cs))))"
      using "1.prems"(2) Directory each m by (intro children_distinct [where t = "path @ ''/''"]) auto
    moreover have "\<forall>f \<in> set fs. below_path (fst f) path \<and> safe_relative_path X (fst f) = Inr (fst f)"
      using each unfolding fss(2) g by (auto simp: below_path_def)
    ultimately show ?thesis by (simp add: fss(2) g)
  next
    case Symlink
    with "1.prems"(1) r show ?thesis by (subst (asm) visit_entry.simps) simp
  next
    case Special
    with "1.prems"(1) r show ?thesis by (subst (asm) visit_entry.simps) simp
  next
    case Unreadable
    with "1.prems"(1) r show ?thesis by (subst (asm) visit_entry.simps) simp
  qed
qed

definition visited :: "ext \<Rightarrow> string \<times> entry \<Rightarrow> (string \<times> string) list" where
  "visited X x = projr (visit_entry X (fst x) (snd x))"

lemma source_files_visits:
  assumes "source_files X name (Directory cs) = Inr files"
  shows "name = PACK_DIRECTORY_NAME" and "files = concat (map (visited X) (sort_key fst cs))"
    and "\<forall>(n, c) \<in> set cs. visit_entry X n c = Inr (visited X (n, c))"
proof -
  from assms show "name = PACK_DIRECTORY_NAME" by (simp add: source_files_def split: if_splits)
  with assms obtain fss where fss: "mapR (\<lambda>(n, c). visit_entry X n c) (sort_key fst cs) = Inr fss" "files = concat fss"
    by (auto simp: source_files_def)
  from mapR_all [OF fss(1)] fss(2) show "files = concat (map (visited X) (sort_key fst cs))"
    by (auto simp: visited_def [abs_def] case_prod_beta')
  from mapR_all [OF fss(1)] show "\<forall>(n, c) \<in> set cs. visit_entry X n c = Inr (visited X (n, c))" by (auto simp: visited_def)
qed

lemma source_files_total:
  assumes "\<forall>(n, c) \<in> set cs. visit_entry X n c = Inr (visited X (n, c))"
  shows "source_files X PACK_DIRECTORY_NAME (Directory cs) = Inr (concat (map (visited X) (sort_key fst cs)))"
proof -
  have "mapR (\<lambda>(n, c). visit_entry X n c) (sort_key fst cs) = Inr (map (visited X) (sort_key fst cs))"
    using assms by (intro mapR_total) auto
  then show ?thesis by (simp add: source_files_def)
qed

lemma source_files_proper:
  assumes "source_files X name (Directory cs) = Inr files" and "proper (Directory cs)"
  shows "distinct (map fst files)" and "\<forall>f \<in> set files. safe_relative_path X (fst f) = Inr (fst f)"
    and "\<forall>f \<in> set files. \<exists>n \<in> fst ` set cs. below_path (fst f) n"
proof -
  note v = source_files_visits [OF assms(1)]
  have each: "distinct (map fst (visited X (n, c))) \<and> (\<forall>f \<in> set (visited X (n, c)). below_path (fst f) n \<and>
      safe_relative_path X (fst f) = Inr (fst f)) \<and> CHR ''/'' \<notin> set n" if "(n, c) \<in> set cs" for n c
    using visited_files [of X n c "visited X (n, c)"] v(3) assms(2) that by (force simp: list_all_iff)
  have "distinct (map fst (sort_key fst cs)) \<longleftrightarrow> distinct (map fst cs)"
    by (intro mset_eq_imp_distinct_iff) (simp only: mset_map mset_sort)
  then show "distinct (map fst files)"
    unfolding v(2) using each assms(2) by (intro children_distinct [where t = "[]"]) auto
  show "\<forall>f \<in> set files. safe_relative_path X (fst f) = Inr (fst f)"
    unfolding v(2) using each by fastforce
  show "\<forall>f \<in> set files. \<exists>n \<in> fst ` set cs. below_path (fst f) n"
  proof
    fix f assume "f \<in> set files"
    then obtain n c where "(n, c) \<in> set cs" "f \<in> set (visited X (n, c))" unfolding v(2) by auto
    with each [of n c] show "\<exists>n \<in> fst ` set cs. below_path (fst f) n" by (intro bexI [of _ n]) (auto intro: rev_image_eqI)
  qed
qed

text \<open>What is used of the library: RFC 8785 printing, JSON texts that may end in a line feed, hexadecimal digests of 64 digits, and
  NFC, which leaves ASCII texts alone.\<close>

definition ascii :: "string \<Rightarrow> bool" where
  "ascii s \<longleftrightarrow> list_all (\<lambda>c. (of_char c :: nat) < 128) s"

definition sound_library :: "ext \<Rightarrow> bool" where
  "sound_library X \<longleftrightarrow> canonical_printer X \<and>
     (\<forall>s v. parse_strict_json X s = Inr v \<longrightarrow> parse_strict_json X (s @ [CHR 0x0A]) = Inr v) \<and>
     (\<forall>s. hex64 (sha256 X s)) \<and> (\<forall>s. ascii s \<longrightarrow> nfc X s = s)"

lemma dget_same_norm:
  assumes "same_dict d e"
  shows "norm (dget d k) = norm (dget e k)"
proof -
  from assms have "map_option norm (map_of d k) = map_option norm (map_of e k)" by (simp add: same_dict_def)
  then show ?thesis by (cases "map_of d k"; cases "map_of e k") (simp_all add: dget_def)
qed

lemma dget_same: "same_dict d e \<Longrightarrow> hashable (dget e k) \<Longrightarrow> dget d k = dget e k"
  using dget_same_norm norm_scalar by blast

lemma keys_same: "same_dict d e \<Longrightarrow> keys_eq d ks \<longleftrightarrow> keys_eq e ks"
proof -
  assume s: "same_dict d e"
  have "k \<in> set (dkeys d) \<longleftrightarrow> k \<in> set (dkeys e)" for k
  proof -
    from s have "map_option norm (map_of d k) = map_option norm (map_of e k)" by (simp add: same_dict_def)
    then have "map_of d k = None \<longleftrightarrow> map_of e k = None" by (cases "map_of d k"; cases "map_of e k") simp_all
    then show ?thesis by (simp add: map_of_eq_None_iff dkeys_def)
  qed
  then show ?thesis by (auto simp: keys_eq_def list_all_iff dhas_iff_dkeys)
qed

lemma strict_unique: "parse_strict_json X s = Inr v \<Longrightarrow> unique_names v"
  by (auto simp: parse_strict_json_def split: if_splits option.splits)

lemma hex64_ascii: "hex64 s \<Longrightarrow> ascii s"
  by (auto simp: hex64_def ascii_def is_lower_hex_def list_all_iff Let_def)

definition listed_file :: "ext \<Rightarrow> string \<times> string \<Rightarrow> bool" where
  "listed_file X f \<longleftrightarrow> safe_relative_path X (fst f) = Inr (fst f) \<and> fst f \<noteq> MANIFEST_PATH \<and>
     int (length (snd f)) \<le> MAX_MANIFEST_SIZE_BYTES"

lemma declare_item:
  assumes "sound_library X" and "norm item = norm (file_item X f)" and "unique_names item" and "listed_file X f"
    and "fst f \<notin> fst ` set declared"
  shows "declare_step X declared item = Inr (declared @ [declared_of X f])"
proof -
  let ?d = "[(''path'', JStr (fst f)), (''sha256'', JStr (sha256 X (snd f))), (''size_bytes'', JInt (int (length (snd f))))]"
  from assms(2) obtain d where item: "item = JObj d" unfolding file_item_def using norm_obj by blast
  have "dict_ok ?d" by (simp add: dict_ok_def dkeys_def)
  with assms(2,3) have same: "same_dict d ?d" unfolding item file_item_def by (intro norm_same_dict) (auto simp: norm_dict_ok)
  have "dget d ''path'' = JStr (fst f)" "dget d ''sha256'' = JStr (sha256 X (snd f))"
    "dget d ''size_bytes'' = JInt (int (length (snd f)))"
    using dget_same [OF same] by (simp_all add: hashable_def)
  moreover have "keys_eq d [''path'', ''size_bytes'', ''sha256'']" unfolding keys_same [OF same] by code_simp
  moreover have "sha_text (JStr (sha256 X (snd f)))" using assms(1) by (simp add: sha_text_def sound_library_def)
  ultimately show ?thesis using assms(4,5) by (simp add: item declare_step_def listed_file_def declared_of_def)
qed

lemma declare_items:
  assumes "sound_library X"
  shows "map norm items = map norm (map (file_item X) fs) \<Longrightarrow> \<forall>item \<in> set items. unique_names item \<Longrightarrow> \<forall>f \<in> set fs. listed_file X f \<Longrightarrow>
    distinct (map fst declared @ map fst fs) \<Longrightarrow> foldR (declare_step X) declared items = Inr (declared @ map (declared_of X) fs)"
proof (induction fs arbitrary: items declared)
  case (Cons f fs)
  then obtain item rest where items: "items = item # rest" by (cases items) auto
  with Cons.prems have "declare_step X declared item = Inr (declared @ [declared_of X f])"
    by (intro declare_item [OF assms]) auto
  moreover from Cons.prems items have "foldR (declare_step X) (declared @ [declared_of X f]) rest = Inr ((declared @ [declared_of X f]) @ map (declared_of X) fs)"
    by (intro Cons.IH) (auto simp: declared_of_def)
  ultimately show ?case by (simp add: items)
qed simp

lemma built_manifest_reads:
  assumes "sound_library X" and "hex64 h" and "\<forall>f \<in> set files. listed_file X f" and "jcs X (JObj (built_manifest X h files)) = Inr printed"
  obtains m where "parse_strict_json X (printed @ [CHR 0x0A]) = Inr (JObj m)" and "same_dict m (built_manifest X h files)"
    and "unique_names (JObj m)" and "jcs X (JObj m) = Inr printed"
proof -
  let ?m = "built_manifest X h files"
  have nfc_files: "nfc X (fst f) = fst f" if "f \<in> set files" for f
    using assms(3) that safe_path_Inr by (auto simp: listed_file_def)
  have nfc_ascii: "ascii s \<Longrightarrow> nfc X s = s" for s using assms(1) by (simp add: sound_library_def)
  have hex: "nfc X (sha256 X s) = sha256 X s" for s using assms(1) by (simp add: sound_library_def hex64_ascii)
  have item: "unique_names (file_item X f) \<and> unicode_ok X (file_item X f)" if "f \<in> set files" for f
    using nfc_files [OF that] hex by (simp add: file_item_def dkeys_def nfc_ascii ascii_def)
  have "unique_names (JObj ?m)" and "unicode_ok X (JObj ?m)"
    using item hex nfc_ascii [OF hex64_ascii [OF assms(2)]]
    by (auto simp: built_manifest_def Let_def dkeys_def list_all_iff nfc_ascii ascii_def MANIFEST_PATH_def)
  with printer_reads assms(1,4) obtain w where w: "parse_strict_json X printed = Inr w" "norm w = norm (JObj ?m)"
    unfolding sound_library_def by blast
  from norm_obj [OF w(2)] obtain m where m: "w = JObj m" by blast
  have "unique_names (JObj m)" using strict_unique w(1) m by blast
  moreover have "dict_ok ?m" by (simp add: dict_ok_def built_manifest_def Let_def dkeys_def)
  ultimately have "same_dict m ?m" using w(2) m by (intro norm_same_dict) (auto simp: norm_dict_ok)
  moreover have "parse_strict_json X (printed @ [CHR 0x0A]) = Inr (JObj m)" using assms(1) w(1) m by (simp add: sound_library_def)
  moreover have "jcs X (JObj m) = Inr printed" using printer_same [OF _ w(2)] assms(1,4) m by (simp add: sound_library_def)
  ultimately show thesis using \<open>unique_names (JObj m)\<close> by (intro that)
qed

lemma built_manifest_verifies:
  assumes "sound_library X" and "hex64 h" and "\<forall>f \<in> set files. listed_file X f" and "jcs X (JObj (built_manifest X h files)) = Inr printed"
    and "distinct (map fst files)" and "files \<noteq> []" and "length files \<le> 4096"
    and "set all_files = insert (MANIFEST_PATH, printed @ [CHR 0x0A]) (set files)" and "distinct (map fst all_files)"
  shows "verify_manifest X all_files (printed @ [CHR 0x0A]) = Inr ()"
proof -
  let ?m = "built_manifest X h files" and ?ordered = "sort_key fst files"
  from assms(1-4) obtain m where m: "parse_strict_json X (printed @ [CHR 0x0A]) = Inr (JObj m)" and same: "same_dict m ?m"
    and unique: "unique_names (JObj m)" and printed: "jcs X (JObj m) = Inr printed" by (rule built_manifest_reads)
  have "norm (dget m ''files'') = JArr (map norm (map (file_item X) ?ordered))"
    using dget_same_norm [OF same, of "''files''"] by (simp add: built_manifest_def Let_def)
  then obtain items where items: "dget m ''files'' = JArr items" "map norm items = map norm (map (file_item X) ?ordered)"
    by (cases "dget m ''files''") auto
  have "map_of m ''files'' = Some (JArr items)" using items(1) by (simp add: dget_def split: option.splits)
  then have "(''files'', JArr items) \<in> set m" by (rule map_of_SomeD)
  with unique have ui: "\<forall>item \<in> set items. unique_names item" by (force simp: list_all_iff)
  have ordered: "distinct (map fst ?ordered)"
    using assms(5) mset_eq_imp_distinct_iff [of "map fst ?ordered" "map fst files"] by (simp only: mset_map mset_sort)
  have declared: "foldR (declare_step X) [] items = Inr (map (declared_of X) ?ordered)"
    using declare_items [OF assms(1) items(2) ui, of "[]"] assms(3) ordered by simp
  have get: "dget m k = dget ?m k" if "hashable (dget ?m k)" for k using dget_same [OF same that] .
  have scalars: "dget m ''schema_version'' = JStr ''pack-manifest/v1''" "dget m ''pack_version'' = JStr ''6.2''"
    "dget m ''self_excluded_path'' = JStr MANIFEST_PATH" "dget m ''production_authority'' = JStr ''NONE''"
    "dget m ''implementation_baseline_hash'' = JStr h"
    "dget m ''pack_hash'' = JStr (sha256 X (tree_preimage (map (declared_of X) ?ordered)))"
    by (simp_all add: get hashable_def built_manifest_def Let_def)
  have "length items = length files" using items(2) by (metis length_map length_sort)
  with scalars items(1) assms(1,2,6,7) have head: "\<not> manifest_head_invalid m"
    by (auto simp: manifest_head_invalid_def sha_text_def sound_library_def)
  have keys: "keys_eq m MANIFEST_FIELDS" unfolding keys_same [OF same]
    by (simp add: keys_eq_def MANIFEST_FIELDS_def built_manifest_def Let_def dkeys_def)
  have names: "map fst (map (declared_of X) ?ordered) = map fst ?ordered" by (simp add: declared_of_def)
  have "fst ` set files = fst ` set all_files - {MANIFEST_PATH}" using assms(3,8) by (force simp: listed_file_def)
  then have names_set: "set (map fst ?ordered) = set (map fst all_files) - {MANIFEST_PATH}" by simp
  have "map_of all_files (fst f) = Some (snd f)" if "f \<in> set files" for f
    using assms(8,9) that by (intro map_of_is_SomeI) auto
  then have checked: "foldR (\<lambda>_. check_file X all_files) () (map (declared_of X) ?ordered) = Inr ()"
    by (simp add: foldR_checks check_file_def declared_of_def)
  show ?thesis
    unfolding verify_manifest_def Let_def
    by (simp only: m value_error_as_def sum.case bindR_simps is_dict.simps the_dict.simps keys head raise_if_simps items(1) the_list.simps
        declared printed names_set scalars checked simp_thms names sorted_sort_key)
qed

lemma manifest_path_safe:
  assumes "sound_library X"
  shows "visit_entry X MANIFEST_PATH (Regular 1 (length content) (Some content)) = Inr [(MANIFEST_PATH, content)]"
proof -
  have "ascii MANIFEST_PATH" by code_simp
  with assms have "nfc X MANIFEST_PATH = MANIFEST_PATH" by (simp add: sound_library_def)
  moreover have "list_all portable_char MANIFEST_PATH" "CHR 0x5C \<notin> set MANIFEST_PATH" "CHR 0x00 \<notin> set MANIFEST_PATH" "MANIFEST_PATH \<noteq> []"
    "\<not> starts_with MANIFEST_PATH ''/''" "posix_parts MANIFEST_PATH = [MANIFEST_PATH]" "posix_text MANIFEST_PATH = MANIFEST_PATH"
    "MANIFEST_PATH \<noteq> ''..''"
    by code_simp+
  ultimately have "safe_relative_path X MANIFEST_PATH = Inr MANIFEST_PATH" by (simp add: safe_relative_path_def)
  then show ?thesis by (subst visit_entry.simps) simp
qed

lemma written_files:
  assumes "sound_library X" and "source_files X name (Directory children) = Inr files"
  obtains all_files where "source_files X name (Directory (children @ [(MANIFEST_PATH, Regular 1 (length content) (Some content))])) = Inr all_files"
    and "set all_files = insert (MANIFEST_PATH, content) (set files)"
proof -
  let ?cs = "children @ [(MANIFEST_PATH, Regular 1 (length content) (Some content))]"
  note v = source_files_visits [OF assms(2)]
  have new: "visited X (MANIFEST_PATH, Regular 1 (length content) (Some content)) = [(MANIFEST_PATH, content)]"
    by (simp add: visited_def manifest_path_safe [OF assms(1)] del: One_nat_def)
  have "source_files X name (Directory ?cs) = Inr (concat (map (visited X) (sort_key fst ?cs)))"
    unfolding v(1) using v(3) manifest_path_safe [OF assms(1)] new by (intro source_files_total) (auto simp del: One_nat_def)
  moreover have "set (concat (map (visited X) (sort_key fst ?cs))) = insert (MANIFEST_PATH, content) (set files)"
    unfolding v(2) using new by (auto simp del: One_nat_def)
  ultimately show thesis by (rule that)
qed

lemma files_listed:
  assumes "source_files X name (Directory children) = Inr files" and "proper (Directory children)"
    and "MANIFEST_PATH \<notin> fst ` set children" and "\<forall>f \<in> set files. int (length (snd f)) \<le> MAX_MANIFEST_SIZE_BYTES"
  shows "\<forall>f \<in> set files. listed_file X f"
proof
  fix f assume f: "f \<in> set files"
  from source_files_proper(3) [OF assms(1,2)] f obtain n where n: "n \<in> fst ` set children" "below_path (fst f) n" by blast
  have "CHR ''/'' \<notin> set MANIFEST_PATH" by code_simp
  with n assms(3) have "fst f \<noteq> MANIFEST_PATH" unfolding below_path_def by (metis in_set_conv_decomp)
  with source_files_proper(2) [OF assms(1,2)] assms(4) f show "listed_file X f" by (simp add: listed_file_def)
qed

text \<open>C35: the manifest that is written for a directory of plain files passes the verification, whatever the files are: the pack is then
  sealed under the hash that is returned. The names within a directory are different and have no slash, there are between one and 4096
  files, and no file is larger than the manifest can say.\<close>

theorem written_manifest_verifies:
  assumes "sound_library X" and "proper (Directory children)"
    and "manifest_content X name children receipt_path receipt_bytes = Inr (content, pack_hash)"
    and "source_files X name (Directory children) = Inr files" and "files \<noteq> []" and "length files \<le> 4096"
    and "\<forall>f \<in> set files. int (length (snd f)) \<le> MAX_MANIFEST_SIZE_BYTES"
  shows "fst (write_pack_manifest X name children receipt_path receipt_bytes) = Inr pack_hash"
proof -
  from assms(3,4) obtain h printed where h: "hex64 h" and m: "MANIFEST_PATH \<notin> fst ` set children"
    and printed: "jcs X (JObj (built_manifest X h files)) = Inr printed" and content: "content = printed @ [CHR 0x0A]"
    by (auto simp: manifest_content_def Let_def baseline_tree_root_def dest!: sha_text_hex)
  from written_files [OF assms(1,4)] obtain all_files where all_files:
    "source_files X name (Directory (children @ [(MANIFEST_PATH, Regular 1 (length content) (Some content))])) = Inr all_files"
    "set all_files = insert (MANIFEST_PATH, content) (set files)" by blast
  have "proper (Directory (children @ [(MANIFEST_PATH, Regular 1 (length content) (Some content))]))"
  proof -
    have "CHR ''/'' \<notin> set MANIFEST_PATH" by code_simp
    with assms(2) m show ?thesis by simp
  qed
  from source_files_proper(1) [OF all_files(1) this] have distinct: "distinct (map fst all_files)" .
  have "verify_manifest X all_files (printed @ [CHR 0x0A]) = Inr ()"
    using files_listed [OF assms(4,2) m assms(7)] source_files_proper(1) [OF assms(4,2)] assms(5,6) all_files(2) distinct content
    by (intro built_manifest_verifies [OF assms(1) h _ printed]) auto
  moreover have "map_of all_files MANIFEST_PATH = Some content" using all_files(2) distinct by (intro map_of_is_SomeI) auto
  ultimately show ?thesis
    using all_files(1) assms(3) content by (simp add: write_pack_manifest_def verify_pack_def Let_def)
qed

section \<open>A concrete pack\<close>

definition demo_digest :: "string \<Rightarrow> string" where
  "demo_digest s = replicate 64 (if s = ''x'' then CHR ''a'' else CHR ''b'')"

definition demo_base :: ext where
  "demo_base = \<lparr>json_loads = \<lambda>s. None, nfc = \<lambda>s. s, sha256 = demo_digest, jcs = \<lambda>v. Inl TypeError\<rparr>"

definition demo_manifest :: obj where
  "demo_manifest = built_manifest demo_base (replicate 64 CHR ''0'') [(''a'', ''x'')]"

definition demo_receipt :: json where
  "demo_receipt = JObj [(''schema_version'', JStr ''repo0-baseline-receipt/v1''), (''production_authority'', JStr ''NONE''),
     (''independent_file_tree_root_sha256'', JStr (replicate 64 CHR ''0''))]"

definition chomp :: "string \<Rightarrow> string" where
  "chomp s = rev (dropWhile (\<lambda>c. c = CHR 0x0A) (rev s))"

definition demo_library :: ext where
  "demo_library = \<lparr>json_loads = \<lambda>s. if chomp s = ''M'' then Some (JObj demo_manifest) else if chomp s = ''R'' then Some demo_receipt else None,
     nfc = \<lambda>s. s, sha256 = demo_digest,
     jcs = \<lambda>v. if norm v = norm (JObj demo_manifest) then Inr ''M'' else Inl TypeError\<rparr>"

lemma parse_line:
  assumes "parse_strict_json demo_library s = Inr v"
  shows "parse_strict_json demo_library (s @ [CHR 0x0A]) = Inr v"
proof -
  have "\<not> starts_with (s @ [CHR 0x0A]) UTF8_BOM" if "\<not> starts_with s UTF8_BOM"
  proof (cases "length s < 3")
    case True
    then have "CHR 0x0A \<in> set (take 3 (s @ [CHR 0x0A]))" by simp
    moreover have "CHR 0x0A \<notin> set UTF8_BOM" "length UTF8_BOM = 3" by code_simp+
    ultimately show ?thesis unfolding starts_with_def by metis
  next
    case False
    with that show ?thesis by (simp add: starts_with_def UTF8_BOM_def)
  qed
  moreover have "chomp (s @ [CHR 0x0A]) = chomp s" by (simp add: chomp_def)
  ultimately show ?thesis using assms by (auto simp: parse_strict_json_def demo_library_def split: if_splits)
qed

lemma demo_library_sound: "sound_library demo_library"
proof -
  have "parse_strict_json demo_library ''M'' = Inr (JObj demo_manifest)" by code_simp
  then have "canonical_printer demo_library"
    by (auto simp: canonical_printer_def demo_library_def split: if_splits)
  moreover have "hex64 (demo_digest t)" for t by (simp add: demo_digest_def hex64_def is_lower_hex_def list_all_iff)
  ultimately show ?thesis using parse_line by (simp add: sound_library_def) (simp add: demo_library_def)
qed

definition demo_children :: "(string \<times> entry) list" where
  "demo_children = [(''a'', Regular 1 1 (Some ''x''))]"

lemma demo_content:
  "manifest_content demo_library PACK_DIRECTORY_NAME demo_children ''docs/receipts/repo0-baseline-receipt.json'' (Inr ''R'') =
   Inr (''M'' @ [CHR 0x0A], replicate 64 CHR ''b'')"
  by code_simp

lemma demo_files: "source_files demo_library PACK_DIRECTORY_NAME (Directory demo_children) = Inr [(''a'', ''x'')]"
  by code_simp

theorem written_manifest_verifies_witness:
  "fst (write_pack_manifest demo_library PACK_DIRECTORY_NAME demo_children ''docs/receipts/repo0-baseline-receipt.json'' (Inr ''R'')) =
   Inr (replicate 64 CHR ''b'')"
  by (rule written_manifest_verifies [OF demo_library_sound _ demo_content demo_files]) (simp_all add: demo_children_def MAX_MANIFEST_SIZE_BYTES_def)

definition demo_sealed :: entry where
  "demo_sealed = Directory (demo_children @ [(MANIFEST_PATH, Regular 1 2 (Some (''M'' @ [CHR 0x0A])))])"

text \<open>The same pack, listed in another order.\<close>

definition demo_resealed :: entry where
  "demo_resealed = Directory ((MANIFEST_PATH, Regular 1 2 (Some (''M'' @ [CHR 0x0A]))) # demo_children)"

theorem pack_hash_commits_to_the_files_witness:
  "\<exists>files1 files2. verify_pack demo_library PACK_DIRECTORY_NAME demo_sealed = Inr files1 \<and>
     verify_pack demo_library PACK_DIRECTORY_NAME demo_resealed = Inr files2 \<and>
     map_of files1 ''a'' = map_of files2 ''a'' \<and> map_of files2 ''a'' = Some ''x''"
proof -
  let ?fs = "[(MANIFEST_PATH, ''M'' @ [CHR 0x0A]), (''a'', ''x'')]"
  have v: "verify_pack demo_library PACK_DIRECTORY_NAME demo_sealed = Inr ?fs"
    "verify_pack demo_library PACK_DIRECTORY_NAME demo_resealed = Inr ?fs" by code_simp+
  have p: "''a'' \<noteq> MANIFEST_PATH" by code_simp
  then have a: "map_of ?fs ''a'' = Some ''x''" by simp
  from pack_hash_commits_to_the_files [OF v refl p] have "map_of ?fs ''a'' = map_of ?fs ''a''" using a by auto
  with v a show ?thesis by blast
qed

end
