(* ===== verification/Spec2Isabelle.thy ===== *)
theory Spec2Isabelle
  imports Generation Clock_Mapper Ingest_Props Receiver_Props Auth_Bundle Auth_Props Clock_Props
    Semantic_Props Review_Props Live_Preflight Artifact_Props Declaration_Gate Materialization
    Denial_Props Durability_Vectors Pack_Verifier
begin

text \<open>
  A verification development for the offline core of the betting helper
  (\<^verbatim>\<open>src/src/moj_discovery\<close>): the atomic ingest journal over the governed SQLite
  schema, the canonical hashes that chain it, and the controllers for generations, clocks and
  coherence that decide what the rest of the system may rely on.

  The parts and their theories:

  \<^item> \<^verbatim>\<open>Py_Prelude\<close>: what the source uses of Python: results with exceptions
    (\<open>'a res\<close>, \<open>bindR\<close>), JSON values and dictionaries in insertion order, \<open>int\<close>, \<open>str\<close>, \<open>repr\<close>,
    equality and truth of values, and the generic lemmas and automation of the components.
  \<^item> \<^verbatim>\<open>Generation\<close>, \<^verbatim>\<open>Clock_Mapper\<close>, \<^verbatim>\<open>Coherence\<close>: the pure
    controllers \<^verbatim>\<open>generation.py\<close>, \<^verbatim>\<open>clock.py\<close>, \<^verbatim>\<open>coherence.py\<close>.
  \<^item> \<^verbatim>\<open>Canonical\<close>: \<^verbatim>\<open>canonical.py\<close>. The JSON reader, NFC, the RFC 8785
    printer and SHA-256 are fields of the record \<open>ext\<close>.
  \<^item> \<^verbatim>\<open>Store\<close>: the sixteen tables as records, the journal validation of
    \<^verbatim>\<open>store.py\<close>; \<^verbatim>\<open>Store_DDL\<close> and \<^verbatim>\<open>Store_Gap_DDL\<close>: one definition
    per statement with the checks, keys and triggers of \<^verbatim>\<open>discovery-store-v1.sql\<close>;
    \<^verbatim>\<open>Store_Chain\<close>: what a valid journal looks like, position by position.
  \<^item> \<^verbatim>\<open>Ingest\<close>: \<^verbatim>\<open>ingest.py\<close> and the connection of \<^verbatim>\<open>store.py\<close>. Its laws are in
    \<^verbatim>\<open>Ingest_Journal\<close> (effects of the statements), \<^verbatim>\<open>Ingest_Valid\<close> (every
    operation keeps the journal valid), \<^verbatim>\<open>Ingest_Runs\<close> (sequences of calls, through the locale
    \<open>durable_log\<close>), \<^verbatim>\<open>Ingest_Accept\<close> (the next observation is accepted),
    \<^verbatim>\<open>Ingest_Laws\<close> (acknowledgements) and \<^verbatim>\<open>Ingest_Props\<close> (the properties).
  \<^item> \<^verbatim>\<open>Offline_Run\<close>: \<^verbatim>\<open>offline_run.py\<close>; \<^verbatim>\<open>Demo_Run\<close>: a concrete run
    on which the properties are instantiated.
  \<^item> \<^verbatim>\<open>Session\<close>: the frames and sessions of \<^verbatim>\<open>offline_protocol.py\<close>, over \<^verbatim>\<open>Base64\<close>
    for the nonces; \<^verbatim>\<open>Session_Laws\<close> (handshake, two peers in step), \<^verbatim>\<open>Json_Order\<close>
    (canonical printers), \<^verbatim>\<open>Wire\<close> (bytes), \<^verbatim>\<open>Session_Props\<close> (the properties).
  \<^item> \<^verbatim>\<open>Py_State\<close>: methods that change an object and may raise half way; files.
    \<^verbatim>\<open>Synthetic_Source\<close>: \<^verbatim>\<open>synthetic_source.py\<close>. \<^verbatim>\<open>Input_Journal\<close> and
    \<^verbatim>\<open>Journal_Recovery\<close>: \<^verbatim>\<open>input_journal.py\<close>; \<^verbatim>\<open>Journal_Laws\<close> (nothing is
    taken back), \<^verbatim>\<open>Journal_Scan\<close> (what a verified file is), \<^verbatim>\<open>Journal_Reconcile\<close> (recovery
    finishes), \<^verbatim>\<open>Journal_Props\<close> (the properties).
  \<^item> \<^verbatim>\<open>Offline_Receiver\<close>: \<^verbatim>\<open>offline_receiver.py\<close>; \<^verbatim>\<open>Receiver_Laws\<close> (its
    reachable states) and \<^verbatim>\<open>Receiver_Props\<close>.
  \<^item> \<^verbatim>\<open>Py_Time\<close>: the part of \<^verbatim>\<open>datetime.fromisoformat\<close> that the source uses.
  \<^item> \<^verbatim>\<open>Auth_Keys\<close>, \<^verbatim>\<open>Auth_Faults\<close>, \<^verbatim>\<open>Authorization\<close> and
    \<^verbatim>\<open>Auth_Bundle\<close>: \<^verbatim>\<open>authorization_semantics.py\<close>, from the constants and keys over
    the groups of faults to the evaluation of a record and the verification of the sealed vectors.
    \<^verbatim>\<open>Auth_Laws\<close>: every group only adds known faults, so a record without faults passes each
    group alone; \<^verbatim>\<open>Auth_Valid\<close>: what each group guarantees; \<^verbatim>\<open>Auth_Props\<close>: a concrete
    verifier, ledger and authorization, and the properties.
  \<^item> \<^verbatim>\<open>Clock_Vectors\<close>: \<^verbatim>\<open>clock_vectors.py\<close>, and \<^verbatim>\<open>Clock_Props\<close>: the derived interval
    contains the true offset, stored assertions add nothing, 64-bit sums do not wrap.
  \<^item> \<^verbatim>\<open>Json_Items\<close>: typed items of JSON documents, and checks that return the code of their
    first failure. \<^verbatim>\<open>Scope_Vectors\<close> and \<^verbatim>\<open>Review_Vectors\<close>: \<^verbatim>\<open>semantic_vectors.py\<close>;
    \<^verbatim>\<open>Semantic_Props\<close>: accepted scopes do not leak, accepted reviews and capabilities do not
    contradict themselves.
  \<^item> \<^verbatim>\<open>Review_Auth\<close> and \<^verbatim>\<open>Review_Aggregate\<close>: \<^verbatim>\<open>review_authorization.py\<close> and
    \<^verbatim>\<open>review_aggregation.py\<close>; \<^verbatim>\<open>Review_Laws\<close>: unpadded Base64, what is signed verifies, the
    parts of an accepted receipt and aggregate; \<^verbatim>\<open>Review_Props\<close>: two concrete reviews and
    the properties.
  \<^item> \<^verbatim>\<open>Live_Preflight\<close>: \<^verbatim>\<open>live_preflight.py\<close>: it raises only its own codes and
    never activates, and its estimate counts the polls exactly.
  \<^item> \<^verbatim>\<open>Task_Contracts\<close>, \<^verbatim>\<open>Artifact_Ownership\<close>, \<^verbatim>\<open>Declaration_Gate\<close>:
    \<^verbatim>\<open>task_contracts.py\<close>, \<^verbatim>\<open>artifact_ownership.py\<close> and the gate \<^verbatim>\<open>declaration_gate.py\<close> that
    composes them; \<^verbatim>\<open>Task_Props\<close> and \<^verbatim>\<open>Artifact_Props\<close>: accepted plans are ordered and
    artifacts are created before they are used.
  \<^item> \<^verbatim>\<open>Crash_Registry\<close>: \<^verbatim>\<open>durability_registry.py\<close> and \<^verbatim>\<open>clock_precedence.py\<close>.
  \<^item> \<^verbatim>\<open>Materialization\<close>: \<^verbatim>\<open>materialization_gate.py\<close> over a tree of files; a plan that passed
    is sealed.
  \<^item> \<^verbatim>\<open>Evidence_Semantics\<close>: \<^verbatim>\<open>evidence_semantics.py\<close>, with the scanner that it calls as a parameter.
  \<^item> \<^verbatim>\<open>universal_denial.py\<close>: \<^verbatim>\<open>Schema_Navigator\<close> (the nodes of the JSON Schema documents that
    describe a path; the worklist ends because the documents have finitely many nodes), \<^verbatim>\<open>Denial_Walk\<close> (strict decoding,
    limits, walks), \<^verbatim>\<open>Denial_Policy\<close> (the constants and their comparison with the sealed policy),
    \<^verbatim>\<open>Universal_Denial\<close> (stages, outcomes, the boundary), \<^verbatim>\<open>Denial_Vectors\<close> (patches and the check of
    the vectors); \<^verbatim>\<open>Denial_Laws\<close> and \<^verbatim>\<open>Denial_Props\<close>: the walks reach every place, an accepted record is
    clean, declared and within its limits, a denial has no effects.
  \<^item> \<^verbatim>\<open>governance.py\<close>: \<^verbatim>\<open>Graph_Partition\<close> (the graphs of phases; the check of edges
    accepts exactly graphs without cycles), \<^verbatim>\<open>Release_Vectors\<close> (clock and coherence vectors, whose own release
    predicate agrees with the controller), \<^verbatim>\<open>Governance_Vectors\<close> (the files of semantic vectors, judged by the
    functions that judge records elsewhere), \<^verbatim>\<open>Governance_Registry\<close> (the closed registry of hash domains and its
    bindings), \<^verbatim>\<open>Governance_Contracts\<close> (capabilities, custody, closure of the schemas) and
    \<^verbatim>\<open>Durability_Vectors\<close> (the crash vectors; with the registry of harnesses, every expected crash is injected).
  \<^item> \<^verbatim>\<open>Pack_Verifier\<close>: the packs of \<^verbatim>\<open>pack_verifier.py\<close>, with a directory as a value and the zip
    library as a parameter: the manifest that is written verifies, and its hash commits to every file.

  Recursions are structural or terminate by a measure. Only \<open>replace\<close> of texts counts down a fuel, the length of
  the text, and every step of it consumes a character.

  Not modelled: \<^verbatim>\<open>validate_ddl\<close> of \<^verbatim>\<open>governance.py\<close>, which asks SQLite for its catalogue;
  the replay and its projection, which read
  a database through \<^verbatim>\<open>SELECT\<close> over its catalogue; the registry of JSON Schemas, which is a call of the validator;
  the tools under \<^verbatim>\<open>tools/\<close>, which drive operating system processes, browsers and crash matrices around the
  modelled code; and pure input and output.
\<close>

end
